(* ===== verification/Errors.thy ===== *)
theory Errors
  imports PyText
begin

text \<open>
  The exceptions the modelled code raises, one constructor per class, with the attributes
  and the message the class carries: \<^verbatim>\<open>packages/domain/errors.py\<close>, the error classes of
  \<^verbatim>\<open>packages/razorpay\<close> and of the modelled modules of \<^verbatim>\<open>services/control_plane\<close>, and the built-in classes
  the code raises or lets through (\<^verbatim>\<open>OverflowError\<close> is what \<^verbatim>\<open>datetime\<close> arithmetic raises
  outside years 1 to 9999). \<open>ForeignException\<close> is an exception of any other class, by the class name:
  what an injected port may raise.
\<close>

datatype exn =
    DomainError pystr
  | InvalidValue pystr
  | VersionConflict int int
  | InvalidTransition pystr pystr pystr
  | AuthorizationBindingError pystr
  | LedgerIntegrityError pystr
  | OutboxTransitionError pystr
  | OutboxVersionConflict int int
  | OutboxLeaseError pystr
  | OutboxNotReady pystr
  | PaymentLinkValidationError pystr
  | WebhookVerificationError pystr
  | WebhookDecodeError pystr
  | AccountMismatchError pystr
  | InboxConflictError pystr
  | ReferenceIdError pystr
  | IngressError pystr
  | EndpointNotFound pystr
  | PayloadTooLarge pystr
  | UnsupportedMediaType pystr
  | OutboxPersistenceError pystr
  | OutboxFenceLost pystr
  | EffectCommandSizeError pystr
  | EffectCommandSchemaError pystr
  | EffectCommandIntegrityError pystr
  | EffectCommandBindingError pystr
  | EffectCommandPrivacyError pystr
  | MerchantControlNotFound pystr
  | MerchantControlConflict pystr
  | DiagnosisControlNotFound pystr
  | DiagnosisControlConflict pystr
  | CancellationPersistenceError pystr
  | CreateEffectPersistenceError pystr
  | AssessmentCommandError pystr
  | ApprovalCommandCodecError pystr
  | ApprovalServiceError pystr
  | ApprovalNotFound pystr
  | ApprovalConflict pystr
  | ApprovalRequestNotFound pystr
  | ApprovalRequestConflict pystr
  | NormalizedEventCommandError pystr
  | NormalizedEventBindingError pystr
  | NormalizedEventEvidenceError pystr
  | NormalizedEventFenceLost pystr
  | NormalizedEventBusy pystr
  | PaymentEnrichmentCommandError pystr
  | ReplayIdempotencyConflict pystr
  | AuditInputError pystr
  | DiagnosisError pystr
  | FeatureValidationError pystr
  | SensitiveFeatureError pystr
  | ArtifactValidationError pystr
  | UnknownModelVersion pystr
  | AttributeError pystr
  | KeyError pystr
  | TypeError pystr
  | RuntimeError pystr
  | ValueError pystr
  | AssertionError pystr
  | OverflowError
  | ForeignException pystr

text \<open>\<^verbatim>\<open>isinstance(e, DomainError)\<close>.\<close>

fun is_domain_error :: "exn \<Rightarrow> bool" where
  "is_domain_error (DomainError _) = True"
| "is_domain_error (InvalidValue _) = True"
| "is_domain_error (VersionConflict _ _) = True"
| "is_domain_error (InvalidTransition _ _ _) = True"
| "is_domain_error (AuthorizationBindingError _) = True"
| "is_domain_error (LedgerIntegrityError _) = True"
| "is_domain_error _ = False"

fun is_invalid_value :: "exn \<Rightarrow> bool" where
  "is_invalid_value (InvalidValue _) = True"
| "is_invalid_value _ = False"

text \<open>\<^verbatim>\<open>type(exc).__name__\<close> of the exceptions of the model.\<close>

fun exception_name :: "exn \<Rightarrow> pystr" where
  "exception_name (DomainError _) = ''DomainError''"
| "exception_name (InvalidValue _) = ''InvalidValue''"
| "exception_name (VersionConflict _ _) = ''VersionConflict''"
| "exception_name (InvalidTransition _ _ _) = ''InvalidTransition''"
| "exception_name (AuthorizationBindingError _) = ''AuthorizationBindingError''"
| "exception_name (LedgerIntegrityError _) = ''LedgerIntegrityError''"
| "exception_name (OutboxTransitionError _) = ''OutboxTransitionError''"
| "exception_name (OutboxVersionConflict _ _) = ''OutboxVersionConflict''"
| "exception_name (OutboxLeaseError _) = ''OutboxLeaseError''"
| "exception_name (OutboxNotReady _) = ''OutboxNotReady''"
| "exception_name (PaymentLinkValidationError _) = ''PaymentLinkValidationError''"
| "exception_name (WebhookVerificationError _) = ''WebhookVerificationError''"
| "exception_name (WebhookDecodeError _) = ''WebhookDecodeError''"
| "exception_name (AccountMismatchError _) = ''AccountMismatchError''"
| "exception_name (InboxConflictError _) = ''InboxConflictError''"
| "exception_name (ReferenceIdError _) = ''ReferenceIdError''"
| "exception_name (IngressError _) = ''IngressError''"
| "exception_name (EndpointNotFound _) = ''EndpointNotFound''"
| "exception_name (PayloadTooLarge _) = ''PayloadTooLarge''"
| "exception_name (UnsupportedMediaType _) = ''UnsupportedMediaType''"
| "exception_name (OutboxPersistenceError _) = ''OutboxPersistenceError''"
| "exception_name (OutboxFenceLost _) = ''OutboxFenceLost''"
| "exception_name (EffectCommandSizeError _) = ''EffectCommandSizeError''"
| "exception_name (EffectCommandSchemaError _) = ''EffectCommandSchemaError''"
| "exception_name (EffectCommandIntegrityError _) = ''EffectCommandIntegrityError''"
| "exception_name (EffectCommandBindingError _) = ''EffectCommandBindingError''"
| "exception_name (EffectCommandPrivacyError _) = ''EffectCommandPrivacyError''"
| "exception_name (MerchantControlNotFound _) = ''MerchantControlNotFound''"
| "exception_name (MerchantControlConflict _) = ''MerchantControlConflict''"
| "exception_name (DiagnosisControlNotFound _) = ''DiagnosisControlNotFound''"
| "exception_name (DiagnosisControlConflict _) = ''DiagnosisControlConflict''"
| "exception_name (TypeError _) = ''TypeError''"
| "exception_name (RuntimeError _) = ''RuntimeError''"
| "exception_name (ValueError _) = ''ValueError''"
| "exception_name (AssertionError _) = ''AssertionError''"
| "exception_name (CancellationPersistenceError _) = ''CancellationPersistenceError''"
| "exception_name (CreateEffectPersistenceError _) = ''CreateEffectPersistenceError''"
| "exception_name (AssessmentCommandError _) = ''AssessmentCommandError''"
| "exception_name (ApprovalCommandCodecError _) = ''ApprovalCommandCodecError''"
| "exception_name (ApprovalServiceError _) = ''ApprovalServiceError''"
| "exception_name (ApprovalNotFound _) = ''ApprovalNotFound''"
| "exception_name (ApprovalConflict _) = ''ApprovalConflict''"
| "exception_name (ApprovalRequestNotFound _) = ''ApprovalRequestNotFound''"
| "exception_name (ApprovalRequestConflict _) = ''ApprovalRequestConflict''"
| "exception_name (NormalizedEventCommandError _) = ''NormalizedEventCommandError''"
| "exception_name (NormalizedEventBindingError _) = ''NormalizedEventBindingError''"
| "exception_name (NormalizedEventEvidenceError _) = ''NormalizedEventEvidenceError''"
| "exception_name (NormalizedEventFenceLost _) = ''NormalizedEventFenceLost''"
| "exception_name (NormalizedEventBusy _) = ''NormalizedEventBusy''"
| "exception_name (PaymentEnrichmentCommandError _) = ''PaymentEnrichmentCommandError''"
| "exception_name (ReplayIdempotencyConflict _) = ''ReplayIdempotencyConflict''"
| "exception_name (AuditInputError _) = ''AuditInputError''"
| "exception_name (DiagnosisError _) = ''DiagnosisError''"
| "exception_name (FeatureValidationError _) = ''FeatureValidationError''"
| "exception_name (SensitiveFeatureError _) = ''SensitiveFeatureError''"
| "exception_name (ArtifactValidationError _) = ''ArtifactValidationError''"
| "exception_name (UnknownModelVersion _) = ''UnknownModelVersion''"
| "exception_name (AttributeError _) = ''AttributeError''"
| "exception_name (KeyError _) = ''KeyError''"
| "exception_name OverflowError = ''OverflowError''"
| "exception_name (ForeignException name) = name"

end
