(* ===== verification/PyTime.thy ===== *)
theory PyTime
  imports Errors
begin

text \<open>
  Python's \<^verbatim>\<open>datetime\<close>, as far as the sources use it.

  A \<^verbatim>\<open>timedelta\<close> is a number of microseconds. An aware \<^verbatim>\<open>datetime\<close> in UTC is an instant:
  the microseconds since 0001-01-01T00:00:00. A \<^verbatim>\<open>datetime\<close> argument is a wall-clock reading
  with its UTC offset, \<open>None\<close> for a naive one. Leaving years 1 to 9999 raises
  \<^verbatim>\<open>OverflowError\<close>. The calendar is the library's proleptic Gregorian one
  (\<^verbatim>\<open>_ord2ymd\<close>, \<^verbatim>\<open>_ymd2ord\<close>).
\<close>

type_synonym timedelta = int
type_synonym instant = int

record datetime =
  wall :: int
  utcoffset :: "timedelta option"

definition us_second :: int where "us_second = 1000000"
definition us_minute :: int where "us_minute = 60 * us_second"
definition us_day :: int where "us_day = 86400 * us_second"

definition max_instant :: instant where
  "max_instant = 3652059 * us_day - 1"

definition in_range :: "instant \<Rightarrow> bool" where
  "in_range t = (0 \<le> t \<and> t \<le> max_instant)"

definition utc :: "instant \<Rightarrow> datetime" where
  "utc t = \<lparr>wall = t, utcoffset = Some 0\<rparr>"

text \<open>\<^verbatim>\<open>datetime + timedelta\<close> on a UTC value.\<close>

definition add_time :: "instant \<Rightarrow> timedelta \<Rightarrow> exn + instant" where
  "add_time t d = (if in_range (t + d) then Inr (t + d) else Inl OverflowError)"

text \<open>\<^verbatim>\<open>value.astimezone(UTC)\<close> on an aware value.\<close>

definition astimezone_utc :: "int \<Rightarrow> timedelta \<Rightarrow> exn + instant" where
  "astimezone_utc w off = add_time w (- off)"

section \<open>Calendar\<close>

record civil =
  c_year :: int
  c_month :: int
  c_day :: int
  c_hour :: int
  c_minute :: int
  c_second :: int
  c_micro :: int

definition is_leap :: "int \<Rightarrow> bool" where
  "is_leap y = (y mod 4 = 0 \<and> (y mod 100 \<noteq> 0 \<or> y mod 400 = 0))"

definition days_before_year :: "int \<Rightarrow> int" where
  "days_before_year y = (let p = y - 1 in p * 365 + p div 4 - p div 100 + p div 400)"

definition month_lengths :: "int list" where
  "month_lengths = [31, 28, 31, 30, 31, 30, 31, 31, 30, 31, 30, 31]"

definition days_in_month :: "int \<Rightarrow> int \<Rightarrow> int" where
  "days_in_month y m = (if m = 2 \<and> is_leap y then 29 else month_lengths ! nat (m - 1))"

definition days_before_month :: "int \<Rightarrow> int \<Rightarrow> int" where
  "days_before_month y m =
     sum_list (take (nat (m - 1)) month_lengths) + (if m > 2 \<and> is_leap y then 1 else 0)"

definition ymd2ord :: "int \<Rightarrow> int \<Rightarrow> int \<Rightarrow> int" where
  "ymd2ord y m d = days_before_year y + days_before_month y m + d"

text \<open>\<^verbatim>\<open>datetime._ord2ymd\<close>. Its second half finds month and day from the day of the year by the
  estimate \<^verbatim>\<open>(n + 50) >> 5\<close>, which is exact or one too large.\<close>

definition month_of_day :: "bool \<Rightarrow> int \<Rightarrow> int \<times> int" where
  "month_of_day leap n =
     (let month = (n + 50) div 32;
          before = sum_list (take (nat (month - 1)) month_lengths) + (if month > 2 \<and> leap then 1 else 0);
          month' = (if before > n then month - 1 else month);
          before' = (if before > n
            then before - (month_lengths ! nat (month' - 1) + (if month' = 2 \<and> leap then 1 else 0))
            else before)
      in (month', n - before' + 1))"

definition ord2ymd :: "int \<Rightarrow> int \<times> int \<times> int" where
  "ord2ymd ord =
     (let n = ord - 1;
          n400 = n div 146097; n = n mod 146097;
          n100 = n div 36524; n = n mod 36524;
          n4 = n div 1461; n = n mod 1461;
          n1 = n div 365; n = n mod 365;
          year = n400 * 400 + 1 + n100 * 100 + n4 * 4 + n1
      in if n1 = 4 \<or> n100 = 4 then (year - 1, 12, 31)
         else (year, month_of_day (n1 = 3 \<and> (n4 \<noteq> 24 \<or> n100 = 3)) n))"

definition civil_of :: "instant \<Rightarrow> civil" where
  "civil_of t =
     (case ord2ymd (t div us_day + 1) of (y, m, d) \<Rightarrow>
        (let s = t mod us_day div us_second
         in \<lparr>c_year = y, c_month = m, c_day = d, c_hour = s div 3600,
             c_minute = s mod 3600 div 60, c_second = s mod 60, c_micro = t mod us_second\<rparr>))"

definition instant_of :: "civil \<Rightarrow> instant" where
  "instant_of c =
     (ymd2ord (c_year c) (c_month c) (c_day c) - 1) * us_day
     + (c_hour c * 3600 + c_minute c * 60 + c_second c) * us_second + c_micro c"

text \<open>The range checks of the \<^verbatim>\<open>datetime\<close> constructor.\<close>

definition civil_ok :: "civil \<Rightarrow> bool" where
  "civil_ok c =
     (1 \<le> c_year c \<and> c_year c \<le> 9999 \<and> 1 \<le> c_month c \<and> c_month c \<le> 12
      \<and> 1 \<le> c_day c \<and> c_day c \<le> days_in_month (c_year c) (c_month c)
      \<and> 0 \<le> c_hour c \<and> c_hour c \<le> 23 \<and> 0 \<le> c_minute c \<and> c_minute c \<le> 59
      \<and> 0 \<le> c_second c \<and> c_second c \<le> 59 \<and> 0 \<le> c_micro c \<and> c_micro c \<le> 999999)"

section \<open>strftime and strptime for the canonical format\<close>

definition dec :: "int \<Rightarrow> pystr" where
  "dec i = nat_str (nat i)"

text \<open>\<^verbatim>\<open>value.strftime("%Y-%m-%dT%H:%M:%S.%fZ")\<close> on a UTC value. \<^verbatim>\<open>%Y\<close> is not zero-filled
  (the C library's behaviour on Linux), which only shows for years below 1000.\<close>

definition iso_timestamp :: "instant \<Rightarrow> pystr" where
  "iso_timestamp t =
     (let c = civil_of t
      in dec (c_year c) @ ''-'' @ zfill 2 (dec (c_month c)) @ ''-'' @ zfill 2 (dec (c_day c)) @ ''T''
         @ zfill 2 (dec (c_hour c)) @ '':'' @ zfill 2 (dec (c_minute c)) @ '':''
         @ zfill 2 (dec (c_second c)) @ ''.'' @ zfill 6 (dec (c_micro c)) @ ''Z'')"

text \<open>The text up to the first character satisfying \<open>p\<close>, and what follows that character.\<close>

definition split_at :: "(char \<Rightarrow> bool) \<Rightarrow> pystr \<Rightarrow> (pystr \<times> pystr) option" where
  "split_at p s = (case dropWhile (\<lambda>c. \<not> p c) s of
      [] \<Rightarrow> None | _ # rest \<Rightarrow> Some (takeWhile (\<lambda>c. \<not> p c) s, rest))"

definition all_digits :: "pystr \<Rightarrow> bool" where
  "all_digits s = (\<forall>c\<in>set s. is_digit c)"

text \<open>A directive of one or two digits with its range: \<^verbatim>\<open>%m\<close>, \<^verbatim>\<open>%H\<close>, \<^verbatim>\<open>%M\<close>, \<^verbatim>\<open>%S\<close>. \<^verbatim>\<open>%d\<close> also
  takes a blank before one digit.\<close>

definition num2 :: "nat \<Rightarrow> nat \<Rightarrow> pystr \<Rightarrow> nat option" where
  "num2 lo hi s =
     (if all_digits s \<and> (length s = 1 \<or> length s = 2) \<and> lo \<le> digits_val s \<and> digits_val s \<le> hi
      then Some (digits_val s) else None)"

definition num_day :: "pystr \<Rightarrow> nat option" where
  "num_day s = (case s of
      c # rest \<Rightarrow> if c = CHR '' '' then (if length rest = 1 then num2 1 31 rest else None) else num2 1 31 s
    | [] \<Rightarrow> None)"

definition num_year :: "pystr \<Rightarrow> nat option" where
  "num_year s = (if all_digits s \<and> length s = 4 then Some (digits_val s) else None)"

definition num_micro :: "pystr \<Rightarrow> nat option" where
  "num_micro s =
     (if all_digits s \<and> 1 \<le> length s \<and> length s \<le> 6
      then Some (digits_val (s @ replicate (6 - length s) (CHR ''0''))) else None)"

text \<open>One field: the text up to its separator, read by its directive, and the rest.\<close>

definition field :: "(pystr \<Rightarrow> nat option) \<Rightarrow> (char \<Rightarrow> bool) \<Rightarrow> pystr \<Rightarrow> (int \<times> pystr) option" where
  "field rd sep s = (case split_at sep s of
      None \<Rightarrow> None
    | Some (txt, rest) \<Rightarrow> (case rd txt of None \<Rightarrow> None | Some n \<Rightarrow> Some (int n, rest)))"

text \<open>\<^verbatim>\<open>datetime.strptime(value, "%Y-%m-%dT%H:%M:%S.%fZ")\<close>: the literals match without regard to
  case, and nothing may follow the \<^verbatim>\<open>Z\<close>.\<close>

definition strptime :: "pystr \<Rightarrow> civil option" where
  "strptime s =
     Option.bind (field num_year (\<lambda>c. c = CHR ''-'') s) (\<lambda>(y, s).
     Option.bind (field (num2 1 12) (\<lambda>c. c = CHR ''-'') s) (\<lambda>(m, s).
     Option.bind (field num_day (\<lambda>c. c = CHR ''T'' \<or> c = CHR ''t'') s) (\<lambda>(d, s).
     Option.bind (field (num2 0 23) (\<lambda>c. c = CHR '':'') s) (\<lambda>(h, s).
     Option.bind (field (num2 0 59) (\<lambda>c. c = CHR '':'') s) (\<lambda>(mi, s).
     Option.bind (field (num2 0 61) (\<lambda>c. c = CHR ''.'') s) (\<lambda>(sec, s).
     Option.bind (field num_micro (\<lambda>c. c = CHR ''Z'' \<or> c = CHR ''z'') s) (\<lambda>(us, s).
     if s \<noteq> [] then None
     else (let c = \<lparr>c_year = y, c_month = m, c_day = d, c_hour = h, c_minute = mi, c_second = sec,
                    c_micro = us\<rparr>
           in if civil_ok c then Some c else None))))))))"

section \<open>The calendar is a bijection\<close>

lemma us_pos [simp]: "0 < us_day" "0 < us_second"
  by (simp_all add: us_day_def us_second_def)

lemma div_shift: "0 \<le> r \<Longrightarrow> r < k \<Longrightarrow> (k * q + r) div k = (q :: int)"
  by (metis add.commute div_mult_self2 div_pos_pos_trivial add.right_neutral add_0
      less_le_trans order_less_irrefl)

lemma days_before_year_decomp:
  assumes "0 \<le> b" "b \<le> 3" "0 \<le> c" "c \<le> 24" "0 \<le> d" "d \<le> 3"
  shows "days_before_year (400 * a + 100 * b + 4 * c + d + 1) = 146097 * a + 36524 * b + 1461 * c + 365 * d"
proof -
  let ?p = "400 * a + 100 * b + 4 * c + d"
  have "?p = 4 * (100 * a + 25 * b + c) + d" and "?p = 100 * (4 * a + b) + (4 * c + d)"
    and "?p = 400 * a + (100 * b + 4 * c + d)" by simp_all
  then have "?p div 4 = 100 * a + 25 * b + c" and "?p div 100 = 4 * a + b" and "?p div 400 = a"
    using assms div_shift [of d 4 "100 * a + 25 * b + c"] div_shift [of "4 * c + d" 100 "4 * a + b"]
      div_shift [of "100 * b + 4 * c + d" 400 a] by simp_all
  then show ?thesis by (simp add: days_before_year_def)
qed

lemma is_leap_decomp:
  assumes "0 \<le> b" "b \<le> 3" "0 \<le> c" "c \<le> 24" "0 \<le> d" "d \<le> 3"
  shows "is_leap (400 * a + 100 * b + 4 * c + d + 1) \<longleftrightarrow> d = 3 \<and> (c \<noteq> 24 \<or> b = 3)"
proof -
  let ?y = "400 * a + 100 * b + 4 * c + d + 1"
  have "?y = (d + 1) + 4 * (100 * a + 25 * b + c)" and "?y = (4 * c + d + 1) + 100 * (4 * a + b)"
    and "?y = (100 * b + 4 * c + d + 1) + 400 * a" by simp_all
  then have m: "?y mod 4 = (d + 1) mod 4" "?y mod 100 = (4 * c + d + 1) mod 100"
    "?y mod 400 = (100 * b + 4 * c + d + 1) mod 400"
    by (metis mod_mult_self2)+
  have small: "(x + 1) mod k = 0 \<longleftrightarrow> x + 1 = k" if "0 \<le> x" "x < k" for x k :: int
    using that by (cases "x + 1 = k") (simp_all add: mod_pos_pos_trivial)
  have "(d + 1) mod 4 = 0 \<longleftrightarrow> d = 3" using assms small [of d 4] by simp
  moreover have "d = 3 \<Longrightarrow> (4 * c + d + 1) mod 100 = 0 \<longleftrightarrow> c = 24"
    using assms small [of "4 * c + d" 100] by auto
  moreover have "c = 24 \<Longrightarrow> d = 3 \<Longrightarrow> (100 * b + 4 * c + d + 1) mod 400 = 0 \<longleftrightarrow> b = 3"
    using assms small [of "100 * b + 4 * c + d" 400] by auto
  ultimately show ?thesis unfolding is_leap_def m by metis
qed

text \<open>The month computation, checked day by day over a common and a leap year.\<close>

definition month_of_day_ok :: "bool \<Rightarrow> int \<Rightarrow> bool" where
  "month_of_day_ok leap n =
     (case month_of_day leap n of (m, d) \<Rightarrow>
        1 \<le> m \<and> m \<le> 12 \<and> 1 \<le> d
        \<and> d \<le> (if m = 2 \<and> leap then 29 else month_lengths ! nat (m - 1))
        \<and> sum_list (take (nat (m - 1)) month_lengths) + (if m > 2 \<and> leap then 1 else 0) + d = n + 1)"

lemma month_of_day_correct:
  assumes "0 \<le> n" "n \<le> (if leap then 365 else 364)"
  shows "month_of_day_ok leap n"
proof -
  define k where "k = (n + 50) div 32"
  have lo: "32 * k \<le> n + 50" and hi: "n + 50 < 32 * k + 32"
    using div_mult_mod_eq [of "n + 50" 32] pos_mod_bound [of 32 "n + 50"] pos_mod_sign [of 32 "n + 50"]
    unfolding k_def by linarith+
  have "n \<le> 365" using assms by (cases leap) auto
  with lo hi \<open>0 \<le> n\<close> have "1 \<le> k" and "k \<le> 12" by linarith+
  then have "k = 1 \<or> k = 2 \<or> k = 3 \<or> k = 4 \<or> k = 5 \<or> k = 6 \<or> k = 7 \<or> k = 8 \<or> k = 9 \<or> k = 10 \<or> k = 11 \<or> k = 12"
    by presburger
  with assms lo hi show ?thesis
    unfolding month_of_day_ok_def month_of_day_def Let_def k_def [symmetric]
    by (cases leap) (elim disjE; simp add: month_lengths_def)+
qed

lemma ymd2ord_ord2ymd:
  assumes "ord2ymd ord = (y, m, d)"
  shows "ymd2ord y m d = ord \<and> 1 \<le> m \<and> m \<le> 12 \<and> 1 \<le> d \<and> d \<le> days_in_month y m"
proof -
  define n where "n = ord - 1"
  define a where "a = n div 146097"
  define n0 where "n0 = n mod 146097"
  define b where "b = n0 div 36524"
  define n1 where "n1 = n0 mod 36524"
  define c where "c = n1 div 1461"
  define n2 where "n2 = n1 mod 1461"
  define e where "e = n2 div 365"
  define n3 where "n3 = n2 mod 365"
  note parts = n_def a_def n0_def b_def n1_def c_def n2_def e_def n3_def
  have split: "n = 146097 * a + n0" "n0 = 36524 * b + n1" "n1 = 1461 * c + n2" "n2 = 365 * e + n3"
    unfolding a_def n0_def b_def n1_def c_def n2_def e_def n3_def by simp_all
  have ranges: "0 \<le> n0" "n0 < 146097" "0 \<le> n1" "n1 < 36524" "0 \<le> n2" "n2 < 1461" "0 \<le> n3" "n3 < 365"
    unfolding n0_def n1_def n2_def n3_def by simp_all
  have bce: "0 \<le> b" "b \<le> 4" "0 \<le> c" "c \<le> 24" "0 \<le> e" "e \<le> 4"
    using split ranges by linarith+
  have eq: "ord2ymd ord =
    (if e = 4 \<or> b = 4 then (a * 400 + 1 + b * 100 + c * 4 + e - 1, 12, 31)
     else (a * 400 + 1 + b * 100 + c * 4 + e, month_of_day (e = 3 \<and> (c \<noteq> 24 \<or> b = 3)) n3))"
    unfolding ord2ymd_def Let_def parts by (rule refl)
  show ?thesis
  proof (cases "e = 4 \<or> b = 4")
    case True
    define b' c' where "b' = (if b = 4 then 3 else b)" and "c' = (if b = 4 then 24 else c)"
    have zero: "b = 4 \<Longrightarrow> c = 0 \<and> n2 = 0 \<and> e = 0 \<and> n3 = 0" and e4: "e = 4 \<Longrightarrow> n3 = 0 \<and> (b = 4 \<or> c < 24 \<or> b = 3)"
      using split ranges bce by linarith+
    have y: "y = 400 * a + 100 * b' + 4 * c' + 3 + 1" and md: "m = 12" "d = 31"
      using True eq assms zero by (auto simp: b'_def c'_def)
    have ok: "0 \<le> b'" "b' \<le> 3" "0 \<le> c'" "c' \<le> 24"
      using bce by (auto simp: b'_def c'_def)
    have leap: "is_leap y"
      unfolding y using is_leap_decomp [OF ok, of 3 a] True zero e4 split ranges bce
      by (auto simp: b'_def c'_def)
    have "days_before_year y = 146097 * a + 36524 * b' + 1461 * c' + 365 * 3"
      unfolding y using days_before_year_decomp [OF ok, of 3 a] by simp
    moreover have "ord = 146097 * a + 36524 * b' + 1461 * c' + 365 * 3 + 366"
      using True zero e4 split n_def by (auto simp: b'_def c'_def)
    ultimately show ?thesis
      using leap md by (simp add: ymd2ord_def days_before_month_def days_in_month_def month_lengths_def)
  next
    case False
    with bce have ok: "0 \<le> b" "b \<le> 3" "0 \<le> c" "c \<le> 24" "0 \<le> e" "e \<le> 3" by auto
    let ?leap = "e = 3 \<and> (c \<noteq> 24 \<or> b = 3)"
    have y: "y = 400 * a + 100 * b + 4 * c + e + 1" and md: "month_of_day ?leap n3 = (m, d)"
      using False eq assms by auto
    have leap: "is_leap y = ?leap" unfolding y by (rule is_leap_decomp [OF ok])
    have dby: "days_before_year y = 146097 * a + 36524 * b + 1461 * c + 365 * e"
      unfolding y by (rule days_before_year_decomp [OF ok])
    have "n3 \<le> (if is_leap y then 365 else 364)" and md': "month_of_day (is_leap y) n3 = (m, d)"
      using ranges md leap by simp_all
    from month_of_day_correct [OF ranges(7) this(1)] md' have
      "1 \<le> m \<and> m \<le> 12 \<and> 1 \<le> d \<and> d \<le> days_in_month y m \<and> days_before_month y m + d = n3 + 1"
      by (simp add: month_of_day_ok_def days_in_month_def days_before_month_def)
    with dby split n_def show ?thesis by (simp add: ymd2ord_def)
  qed
qed

lemma civil_of_eq:
  "ord2ymd (t div us_day + 1) = (y, m, d) \<Longrightarrow> s = t mod us_day div us_second \<Longrightarrow>
   civil_of t = \<lparr>c_year = y, c_month = m, c_day = d, c_hour = s div 3600,
             c_minute = s mod 3600 div 60, c_second = s mod 60, c_micro = t mod us_second\<rparr>"
  by (simp only: civil_of_def Let_def prod.case)

lemma civil_of_fields:
  fixes t :: instant
  defines "c \<equiv> civil_of t"
  shows "1 \<le> c_month c \<and> c_month c \<le> 12 \<and> 1 \<le> c_day c \<and> c_day c \<le> days_in_month (c_year c) (c_month c)
    \<and> 0 \<le> c_hour c \<and> c_hour c \<le> 23 \<and> 0 \<le> c_minute c \<and> c_minute c \<le> 59
    \<and> 0 \<le> c_second c \<and> c_second c \<le> 59 \<and> 0 \<le> c_micro c \<and> c_micro c \<le> 999999"
proof -
  obtain y m d where ymd: "ord2ymd (t div us_day + 1) = (y, m, d)"
    by (cases "ord2ymd (t div us_day + 1)")
  define s where "s = t mod us_day div us_second"
  have quot: "0 \<le> x div k \<and> x div k < j" if "0 \<le> x" "x < j * k" "0 < k" for x k j :: int
  proof -
    have "x div k < j"
    proof (rule ccontr)
      assume "\<not> x div k < j"
      then have "j * k \<le> x div k * k" using that by (simp add: mult_right_mono)
      also have "\<dots> \<le> x" using that by (metis le_add_same_cancel1 div_mult_mod_eq pos_mod_sign)
      finally show False using that by simp
    qed
    with that show ?thesis by (simp add: pos_imp_zdiv_nonneg_iff)
  qed
  have "0 \<le> s \<and> s < 86400"
    unfolding s_def by (rule quot) (simp_all add: us_day_def)
  then have "0 \<le> s div 3600 \<and> s div 3600 < 24" "0 \<le> s mod 3600 div 60 \<and> s mod 3600 div 60 < 60"
    "0 \<le> s mod 60" "s mod 60 < 60"
    using quot [of s 24 3600] quot [of "s mod 3600" 60 60] by simp_all
  moreover have "0 \<le> t mod us_second" "t mod us_second \<le> 999999"
    by (simp_all add: us_second_def)
  ultimately show ?thesis
    using ymd2ord_ord2ymd [OF ymd] unfolding c_def civil_of_eq [OF ymd s_def] by simp
qed

lemma instant_of_civil_of: "instant_of (civil_of t) = t"
proof -
  obtain y m d where ymd: "ord2ymd (t div us_day + 1) = (y, m, d)"
    by (cases "ord2ymd (t div us_day + 1)")
  define r where "r = t mod us_day"
  define s where "s = r div us_second"
  have c: "civil_of t = \<lparr>c_year = y, c_month = m, c_day = d, c_hour = s div 3600,
             c_minute = s mod 3600 div 60, c_second = s mod 60, c_micro = t mod us_second\<rparr>"
    by (rule civil_of_eq [OF ymd]) (simp only: s_def r_def)
  have r: "r mod us_second = t mod us_second"
    unfolding r_def us_day_def by (rule mod_mod_cancel) simp
  have "s mod 3600 mod 60 = s mod 60" by (rule mod_mod_cancel) simp
  then have s: "s div 3600 * 3600 + s mod 3600 div 60 * 60 + s mod 60 = s"
    using div_mult_mod_eq [of s 3600] div_mult_mod_eq [of "s mod 3600" 60] by linarith
  have o: "ymd2ord y m d - 1 = t div us_day" using ymd2ord_ord2ymd [OF ymd] by simp
  have "instant_of (civil_of t) = t div us_day * us_day + (s * us_second + r mod us_second)"
    unfolding c instant_of_def civil.simps o s r by (rule add.assoc)
  also have "s * us_second + r mod us_second = r" unfolding s_def by (rule div_mult_mod_eq)
  also have "t div us_day * us_day + r = t" unfolding r_def by (rule div_mult_mod_eq)
  finally show ?thesis .
qed

section \<open>Printing and parsing a canonical timestamp\<close>

lemma split_at_append:
  "(\<forall>c\<in>set s. \<not> p c) \<Longrightarrow> p d \<Longrightarrow> split_at p (s @ d # rest) = Some (s, rest)"
  by (induction s) (simp_all add: split_at_def)

lemma all_digits_dec [simp]: "all_digits (dec i)" "all_digits (zfill w (dec i))"
  using nat_str_digits zfill_digits [OF nat_str_digits] by (simp_all add: all_digits_def dec_def)

lemma all_digits_no: "all_digits s \<Longrightarrow> \<not> is_digit d \<Longrightarrow> \<forall>c\<in>set s. c \<noteq> d"
  by (auto simp: all_digits_def)

lemma length_dec: "0 \<le> i \<Longrightarrow> i < 10 ^ w \<Longrightarrow> 0 < w \<Longrightarrow> length (dec i) \<le> w"
  unfolding dec_def by (rule length_nat_str_le) (simp_all add: nat_less_iff)

lemma digits_val_dec [simp]: "digits_val (dec i) = nat i"
  by (simp add: dec_def)

lemma num2_dec:
  assumes "int lo \<le> i" "i \<le> int hi" "hi < 100"
  shows "num2 lo hi (zfill 2 (dec i)) = Some (nat i)"
proof -
  have "length (dec i) \<le> 2" using assms by (intro length_dec) simp_all
  then have "length (zfill 2 (dec i)) = 2" by simp
  with assms show ?thesis by (simp add: num2_def nat_le_iff le_nat_iff)
qed

lemma num_day_dec:
  assumes "1 \<le> i" "i \<le> 31"
  shows "num_day (zfill 2 (dec i)) = Some (nat i)"
proof -
  obtain c s where cs: "zfill 2 (dec i) = c # s" by (cases "zfill 2 (dec i)") (auto simp: dec_def zfill_def)
  have "is_digit c" using all_digits_dec(2) [of 2 i] cs by (simp add: all_digits_def)
  then have "c \<noteq> CHR '' ''" by (auto simp: is_digit_def)
  then show ?thesis using num2_dec [of 1 i 31] assms cs by (simp add: num_day_def)
qed

lemma num_micro_dec:
  assumes "0 \<le> i" "i \<le> 999999"
  shows "num_micro (zfill 6 (dec i)) = Some (nat i)"
proof -
  have "length (dec i) \<le> 6" using assms by (intro length_dec) simp_all
  then have "length (zfill 6 (dec i)) = 6" by simp
  then show ?thesis by (simp add: num_micro_def)
qed

lemma num_year_dec:
  assumes "1000 \<le> i" "i \<le> 9999"
  shows "num_year (dec i) = Some (nat i)"
proof -
  have step: "length (nat_str n) = Suc (length (nat_str (n div 10)))" if "10 \<le> n" for n
    using that by (simp add: nat_str.simps [of n])
  have "10 \<le> nat i" and "10 \<le> nat i div 10" and "10 \<le> nat i div 10 div 10" and "nat i div 10 div 10 div 10 < 10"
    using assms by (simp_all add: div_mult2_eq [symmetric] le_div_geq less_eq_div_iff_mult_less_eq
        less_mult_imp_div_less nat_less_iff le_nat_iff)
  then have "length (nat_str (nat i)) = 4"
    using assms step [of "nat i"] step [of "nat i div 10"] step [of "nat i div 10 div 10"]
    by (simp add: nat_str.simps [of "nat i div 10 div 10 div 10"])
  then show ?thesis using all_digits_dec(1) [of i] by (simp add: num_year_def dec_def)
qed

lemma field_append:
  assumes "rd s = Some n" "int n = i" "all_digits s" "p d" "\<And>c. is_digit c \<Longrightarrow> \<not> p c"
  shows "field rd p (s @ d # rest) = Some (i, rest)"
proof -
  from assms have "\<forall>c\<in>set s. \<not> p c" by (auto simp: all_digits_def)
  with assms show ?thesis by (simp add: field_def split_at_append)
qed

lemma not_digit [simp]:
  "\<not> is_digit (CHR ''-'')" "\<not> is_digit (CHR ''T'')" "\<not> is_digit (CHR ''t'')" "\<not> is_digit (CHR '':'')"
  "\<not> is_digit (CHR ''.'')" "\<not> is_digit (CHR ''Z'')" "\<not> is_digit (CHR ''z'')"
  by (simp_all add: is_digit_def)

text \<open>Reading back a printed timestamp of a four-digit year gives the instant.\<close>

lemma strptime_iso_timestamp:
  assumes "1000 \<le> c_year (civil_of t)" "c_year (civil_of t) \<le> 9999"
  shows "strptime (iso_timestamp t) = Some (civil_of t)"
proof -
  define c where "c = civil_of t"
  have ok: "civil_ok c" and y: "1000 \<le> c_year c" "c_year c \<le> 9999"
    using civil_of_fields [of t] assms by (auto simp: c_def civil_ok_def)
  note b = ok [unfolded civil_ok_def]
  have dim: "days_in_month (c_year c) (c_month c) \<le> 31"
  proof -
    have "c_month c = 1 \<or> c_month c = 2 \<or> c_month c = 3 \<or> c_month c = 4 \<or> c_month c = 5 \<or> c_month c = 6
      \<or> c_month c = 7 \<or> c_month c = 8 \<or> c_month c = 9 \<or> c_month c = 10 \<or> c_month c = 11 \<or> c_month c = 12"
      using b by presburger
    then show ?thesis by (elim disjE) (simp_all add: days_in_month_def month_lengths_def)
  qed
  have fy: "field num_year (\<lambda>x. x = CHR ''-'') (dec (c_year c) @ CHR ''-'' # r) = Some (c_year c, r)" for r
    using y by (intro field_append [where rd = num_year, OF num_year_dec]) auto
  have f2: "field (num2 lo hi) (\<lambda>x. x = d) (zfill 2 (dec i) @ d # r) = Some (i, r)"
    if "int lo \<le> i" "i \<le> int hi" "hi < 100" "\<not> is_digit d" for lo hi i d r
    using that by (intro field_append [where rd = "num2 lo hi", OF num2_dec]) auto
  have fd: "field num_day (\<lambda>x. x = CHR ''T'' \<or> x = CHR ''t'') (zfill 2 (dec (c_day c)) @ CHR ''T'' # r) = Some (c_day c, r)" for r
    using b dim by (intro field_append [where rd = num_day, OF num_day_dec]) auto
  have fu: "field num_micro (\<lambda>x. x = CHR ''Z'' \<or> x = CHR ''z'') (zfill 6 (dec (c_micro c)) @ CHR ''Z'' # r) = Some (c_micro c, r)" for r
    using b by (intro field_append [where rd = num_micro, OF num_micro_dec]) auto
  show ?thesis
    using b unfolding iso_timestamp_def strptime_def Let_def c_def [symmetric]
    by (simp add: fy f2 fd fu civil_ok_def)
qed

end
