(* ===== verification/Json.thy ===== *)
theory Json
  imports Errors
begin

text \<open>
  Python's \<^verbatim>\<open>json\<close> module on the model's alphabet: \<^verbatim>\<open>json.dumps\<close> with \<^verbatim>\<open>sort_keys=True\<close>,
  \<^verbatim>\<open>separators=(",", ":")\<close>, \<^verbatim>\<open>ensure_ascii=False\<close>, and \<^verbatim>\<open>json.loads\<close>.

  A decoded object is an association list in insertion order; a \<^verbatim>\<open>dict\<close> has distinct keys.
  A number with a fraction or an exponent, \<^verbatim>\<open>NaN\<close> and \<^verbatim>\<open>Infinity\<close> decode to a \<^verbatim>\<open>float\<close>, kept
  as its literal text (the sources only ever reject floats). An escape beyond U+00FF is outside
  the alphabet and does not decode here; such an escape never occurs in canonical text, which
  prints the character itself.
\<close>

datatype json =
    JNull
  | JBool bool
  | JInt int
  | JFloat pystr
  | JStr pystr
  | JArr "json list"
  | JObj "(pystr \<times> json) list"

section \<open>Printing\<close>

definition esc_char :: "char \<Rightarrow> pystr" where
  "esc_char c =
     (if c = CHR 0x22 then [CHR 0x5C, CHR 0x22]
      else if c = CHR 0x5C then [CHR 0x5C, CHR 0x5C]
      else if code c = 10 then [CHR 0x5C, CHR ''n'']
      else if code c = 13 then [CHR 0x5C, CHR ''r'']
      else if code c = 9 then [CHR 0x5C, CHR ''t'']
      else if code c = 12 then [CHR 0x5C, CHR ''f'']
      else if code c = 8 then [CHR 0x5C, CHR ''b'']
      else if code c < 32 then [CHR 0x5C, CHR ''u'', CHR ''0'', CHR ''0'',
                                hex_char (code c div 16), hex_char (code c mod 16)]
      else [c])"

definition esc_str :: "pystr \<Rightarrow> pystr" where
  "esc_str s = concat (map esc_char s)"

definition quoted :: "pystr \<Rightarrow> pystr" where
  "quoted s = [CHR 0x22] @ esc_str s @ [CHR 0x22]"

fun dumps :: "json \<Rightarrow> pystr" where
  "dumps JNull = ''null''"
| "dumps (JBool b) = (if b then ''true'' else ''false'')"
| "dumps (JInt i) = int_str i"
| "dumps (JFloat t) = t"
| "dumps (JStr s) = quoted s"
| "dumps (JArr vs) = ''['' @ join '','' (map dumps vs) @ '']''"
| "dumps (JObj kvs) =
     ''{'' @ join '','' (map (\<lambda>(k, t). quoted k @ '':'' @ t)
        (sort_key fst (map (\<lambda>(k, v). (k, dumps v)) kvs))) @ ''}''"

section \<open>Parsing\<close>

definition is_ws :: "char \<Rightarrow> bool" where
  "is_ws c = (code c = 32 \<or> code c = 9 \<or> code c = 10 \<or> code c = 13)"

definition skip_ws :: "pystr \<Rightarrow> pystr" where
  "skip_ws s = dropWhile is_ws s"

text \<open>The text after an opening quote: the decoded string and what follows the closing quote.
  Raw control characters are refused (\<^verbatim>\<open>strict=True\<close>).\<close>

definition simple_escape :: "char \<Rightarrow> char option" where
  "simple_escape = map_of
     [(CHR 0x22, CHR 0x22), (CHR 0x5C, CHR 0x5C), (CHR ''/'', CHR ''/''), (CHR ''b'', CHR 0x08),
      (CHR ''f'', CHR 0x0C), (CHR ''n'', CHR 0x0A), (CHR ''r'', CHR 0x0D), (CHR ''t'', CHR 0x09)]"

definition hex4 :: "char \<Rightarrow> char \<Rightarrow> char \<Rightarrow> char \<Rightarrow> char option" where
  "hex4 h1 h2 h3 h4 =
     (if is_hex h1 \<and> is_hex h2 \<and> is_hex h3 \<and> is_hex h4 \<and> hex_val h1 = 0 \<and> hex_val h2 = 0
      then Some (char_of (16 * hex_val h3 + hex_val h4)) else None)"

definition push :: "char option \<Rightarrow> (pystr \<times> pystr) option \<Rightarrow> (pystr \<times> pystr) option" where
  "push c m = (case c of None \<Rightarrow> None
     | Some d \<Rightarrow> (case m of None \<Rightarrow> None | Some (t, r) \<Rightarrow> Some (d # t, r)))"

fun scan_str :: "pystr \<Rightarrow> (pystr \<times> pystr) option" where
  "scan_str [] = None"
| "scan_str (c # s) =
     (if c = CHR 0x22 then Some ([], s)
      else if c = CHR 0x5C then
        (case s of
           [] \<Rightarrow> None
         | e # s1 \<Rightarrow>
            (if e = CHR ''u'' then
               (case s1 of
                  h1 # h2 # h3 # h4 # s2 \<Rightarrow> push (hex4 h1 h2 h3 h4) (scan_str s2)
                | _ \<Rightarrow> None)
             else push (simple_escape e) (scan_str s1)))
      else if code c < 32 then None
      else push (Some c) (scan_str s))"

declare scan_str.simps [simp del]

text \<open>\<^verbatim>\<open>(-?(?:0|[1-9][0-9]*))(\.[0-9]+)?([eE][-+]?[0-9]+)?\<close>\<close>

definition scan_int :: "pystr \<Rightarrow> (pystr \<times> pystr) option" where
  "scan_int s = (case s of
      [] \<Rightarrow> None
    | c # r \<Rightarrow> if c = CHR ''0'' then Some ([c], r)
               else if is_digit c then Some (takeWhile is_digit s, dropWhile is_digit s) else None)"

definition scan_frac :: "pystr \<Rightarrow> pystr \<times> pystr" where
  "scan_frac s = (case s of
      c # d # r \<Rightarrow> if c = CHR ''.'' \<and> is_digit d
                     then (c # takeWhile is_digit (d # r), dropWhile is_digit (d # r)) else ([], s)
    | _ \<Rightarrow> ([], s))"

definition scan_exp :: "pystr \<Rightarrow> pystr \<times> pystr" where
  "scan_exp s = (case s of
      c # d # r \<Rightarrow>
        if c = CHR ''e'' \<or> c = CHR ''E''
        then if is_digit d then (c # takeWhile is_digit (d # r), dropWhile is_digit (d # r))
             else if (d = CHR ''-'' \<or> d = CHR ''+'') \<and> r \<noteq> [] \<and> is_digit (hd r)
             then (c # d # takeWhile is_digit r, dropWhile is_digit r) else ([], s)
        else ([], s)
    | _ \<Rightarrow> ([], s))"

text \<open>
  The hooks of \<^verbatim>\<open>json.loads\<close>: \<^verbatim>\<open>object_pairs_hook\<close> turns the pairs of an object into the object's
  items, \<^verbatim>\<open>parse_int\<close>, \<^verbatim>\<open>parse_float\<close> and \<^verbatim>\<open>parse_constant\<close> read the literal text of a number. \<open>None\<close>
  is a hook that raises.
\<close>

type_synonym pairs_hook = "(pystr \<times> json) list \<Rightarrow> (pystr \<times> json) list option"

record hooks =
  on_pairs :: pairs_hook
  on_int :: "pystr \<Rightarrow> json option"
  on_float :: "pystr \<Rightarrow> json option"
  on_constant :: "pystr \<Rightarrow> json option"

text \<open>\<^verbatim>\<open>int(literal)\<close>.\<close>

definition literal_int :: "pystr \<Rightarrow> int" where
  "literal_int t = (if t \<noteq> [] \<and> hd t = CHR ''-'' then - int (digits_val (tl t)) else int (digits_val t))"

definition plain :: "pairs_hook \<Rightarrow> hooks" where
  "plain h = \<lparr>on_pairs = h, on_int = (\<lambda>t. Some (JInt (literal_int t))),
     on_float = (\<lambda>t. Some (JFloat t)), on_constant = (\<lambda>t. Some (JFloat t))\<rparr>"

definition scan_number :: "hooks \<Rightarrow> bool \<Rightarrow> pystr \<Rightarrow> (json \<times> pystr) option" where
  "scan_number h neg s = (case scan_int s of
      None \<Rightarrow> None
    | Some (ds, r) \<Rightarrow>
       (case scan_frac r of (fr, r1) \<Rightarrow> (case scan_exp r1 of (ex, r2) \<Rightarrow>
          if fr = [] \<and> ex = []
          then map_option (\<lambda>v. (v, r)) (on_int h ((if neg then ''-'' else []) @ ds))
          else map_option (\<lambda>v. (v, r2)) (on_float h ((if neg then ''-'' else []) @ ds @ fr @ ex)))))"

definition strip_prefix :: "pystr \<Rightarrow> pystr \<Rightarrow> pystr option" where
  "strip_prefix p s = (if prefix p s then Some (drop (length p) s) else None)"

text \<open>The values that start with neither a quote nor a bracket.\<close>

definition scan_constant :: "hooks \<Rightarrow> pystr \<Rightarrow> pystr \<Rightarrow> (json \<times> pystr) option" where
  "scan_constant h name s = (case strip_prefix name s of
      None \<Rightarrow> None
    | Some r \<Rightarrow> map_option (\<lambda>v. (v, r)) (on_constant h name))"

definition scan_atom :: "hooks \<Rightarrow> pystr \<Rightarrow> (json \<times> pystr) option" where
  "scan_atom h s = (case s of
      [] \<Rightarrow> None
    | c # r \<Rightarrow>
       (if c = CHR ''n'' then map_option (Pair JNull) (strip_prefix ''null'' s)
        else if c = CHR ''t'' then map_option (Pair (JBool True)) (strip_prefix ''true'' s)
        else if c = CHR ''f'' then map_option (Pair (JBool False)) (strip_prefix ''false'' s)
        else if c = CHR ''N'' then scan_constant h ''NaN'' s
        else if c = CHR ''I'' then scan_constant h ''Infinity'' s
        else if c = CHR ''-'' then
          (case strip_prefix ''Infinity'' r of
             Some r' \<Rightarrow> map_option (\<lambda>v. (v, r')) (on_constant h ''-Infinity'')
           | None \<Rightarrow> scan_number h True r)
        else scan_number h False s))"

text \<open>Inserting into a \<^verbatim>\<open>dict\<close>: a key already present keeps its place and takes the new value.\<close>

fun dict_put :: "'k \<Rightarrow> 'v \<Rightarrow> ('k \<times> 'v) list \<Rightarrow> ('k \<times> 'v) list" where
  "dict_put k v [] = [(k, v)]"
| "dict_put k v ((k', v') # kvs) = (if k = k' then (k', v) # kvs else (k', v') # dict_put k v kvs)"

definition dict_of :: "('k \<times> 'v) list \<Rightarrow> ('k \<times> 'v) list" where
  "dict_of kvs = fold (\<lambda>(k, v) d. dict_put k v d) kvs []"

text \<open>
  The recursive-descent scanner. The first argument holds the hooks, the second is fuel: every call
  spends one unit, and of two nested calls at least one has consumed a character, so twice the
  length of the text is enough (lemma \<open>scan_value_fuel\<close>).
\<close>

fun scan_value :: "hooks \<Rightarrow> nat \<Rightarrow> pystr \<Rightarrow> (json \<times> pystr) option"
and scan_elems :: "hooks \<Rightarrow> nat \<Rightarrow> pystr \<Rightarrow> (json list \<times> pystr) option"
and scan_members :: "hooks \<Rightarrow> nat \<Rightarrow> pystr \<Rightarrow> ((pystr \<times> json) list \<times> pystr) option" where
  "scan_value h 0 s = None"
| "scan_value h (Suc n) s = (case s of
      [] \<Rightarrow> None
    | c # r \<Rightarrow>
       (if c = CHR 0x22 then map_option (\<lambda>(t, r'). (JStr t, r')) (scan_str r)
        else if c = CHR ''{'' then
          (case skip_ws r of
             [] \<Rightarrow> None
           | d # r' \<Rightarrow>
              if d = CHR ''}'' then map_option (\<lambda>o'. (JObj o', r')) (on_pairs h [])
              else (case scan_members h n (d # r') of
                 None \<Rightarrow> None
               | Some (kvs, r'') \<Rightarrow> map_option (\<lambda>o'. (JObj o', r'')) (on_pairs h kvs)))
        else if c = CHR ''['' then
          (case skip_ws r of
             [] \<Rightarrow> None
           | d # r' \<Rightarrow>
              if d = CHR '']'' then Some (JArr [], r')
              else map_option (\<lambda>(vs, r''). (JArr vs, r'')) (scan_elems h n (d # r')))
        else scan_atom h s))"
| "scan_elems h 0 s = None"
| "scan_elems h (Suc n) s = (case scan_value h n s of
      None \<Rightarrow> None
    | Some (v, r) \<Rightarrow>
       (case skip_ws r of
          [] \<Rightarrow> None
        | d # r' \<Rightarrow>
           if d = CHR '']'' then Some ([v], r')
           else if d = CHR '','' then map_option (\<lambda>(vs, r''). (v # vs, r'')) (scan_elems h n (skip_ws r'))
           else None))"
| "scan_members h 0 s = None"
| "scan_members h (Suc n) s = (case s of
      [] \<Rightarrow> None
    | c # r \<Rightarrow>
       (if c \<noteq> CHR 0x22 then None
        else (case scan_str r of
           None \<Rightarrow> None
         | Some (k, r1) \<Rightarrow>
            (case skip_ws r1 of
               [] \<Rightarrow> None
             | c2 # r2 \<Rightarrow>
                (if c2 \<noteq> CHR '':'' then None
                 else (case scan_value h n (skip_ws r2) of
                    None \<Rightarrow> None
                  | Some (v, r3) \<Rightarrow>
                     (case skip_ws r3 of
                        [] \<Rightarrow> None
                      | d # r4 \<Rightarrow>
                         if d = CHR ''}'' then Some ([(k, v)], r4)
                         else if d = CHR '','' then
                           map_option (\<lambda>(kvs, r5). ((k, v) # kvs, r5)) (scan_members h n (skip_ws r4))
                         else None)))))))"

definition loads_hooked :: "hooks \<Rightarrow> pystr \<Rightarrow> json option" where
  "loads_hooked h s =
     (case scan_value h (Suc (2 * length s)) (skip_ws s) of
        None \<Rightarrow> None
      | Some (v, r) \<Rightarrow> if skip_ws r = [] then Some v else None)"

definition loads_with :: "pairs_hook \<Rightarrow> pystr \<Rightarrow> json option" where
  "loads_with h s = loads_hooked (plain h) s"

text \<open>\<^verbatim>\<open>json.loads(s)\<close>, \<open>None\<close> for \<^verbatim>\<open>JSONDecodeError\<close>.\<close>

definition loads :: "pystr \<Rightarrow> json option" where
  "loads s = loads_with (\<lambda>kvs. Some (dict_of kvs)) s"

section \<open>Fuel\<close>

declare scan_value.simps [simp del] scan_elems.simps [simp del] scan_members.simps [simp del]

lemma length_skip_ws: "length (skip_ws s) \<le> length s"
  by (simp add: skip_ws_def length_dropWhile_le)

lemma skip_ws_Cons_length: "skip_ws s = c # r \<Longrightarrow> length r < length s"
  using length_skip_ws [of s] by simp

lemma push_SomeD: "push c m = Some (t, r) \<Longrightarrow> \<exists>t'. m = Some (t', r)"
  by (auto simp: push_def split: option.splits)

lemma scan_str_shorter: "scan_str s = Some (t, r) \<Longrightarrow> length r < length s"
proof (induction s arbitrary: t r rule: length_induct)
  case (1 s)
  then have IH: "scan_str u = Some (t', r) \<Longrightarrow> length u < length s \<Longrightarrow> length r < length u" for u t'
    by blast
  from 1(2) IH show ?case
    by (cases s; simp add: scan_str.simps split: if_splits list.splits)
       (fastforce dest!: push_SomeD)+
qed

lemma scan_number_shorter: "scan_number h neg s = Some (v, r) \<Longrightarrow> length r < length s"
proof -
  have i: "length r < length s" if "scan_int s = Some (ds, r)" for s ds r
    using that by (auto simp: scan_int_def less_Suc_eq_le length_dropWhile_le split: list.splits if_splits)
  have f: "length r \<le> length s" if "scan_frac s = (fr, r)" for s fr r
    using that by (auto simp: scan_frac_def length_dropWhile_le le_SucI split: list.splits if_splits)
  have e: "length r \<le> length s" if "scan_exp s = (ex, r)" for s ex r
    using that by (auto simp: scan_exp_def length_dropWhile_le le_SucI split: list.splits if_splits)
  assume "scan_number h neg s = Some (v, r)"
  then obtain ds r0 fr r1 ex r2 where
    "scan_int s = Some (ds, r0)" "scan_frac r0 = (fr, r1)" "scan_exp r1 = (ex, r2)" "r = r0 \<or> r = r2"
    unfolding scan_number_def by (auto split: option.splits prod.splits if_splits)
  with i [of s] f [of r0] e [of r1] show "length r < length s" by fastforce
qed

lemma strip_prefix_length: "strip_prefix p s = Some r \<Longrightarrow> length s = length p + length r"
  by (auto simp: strip_prefix_def prefix_def split: if_splits)

lemma scan_atom_shorter: "scan_atom h s = Some (v, r) \<Longrightarrow> length r < length s"
  unfolding scan_atom_def scan_constant_def
  by (auto split: list.splits if_splits option.splits dest!: strip_prefix_length scan_number_shorter)

lemma scan_elems_SomeD:
  assumes "scan_elems h (Suc n) s = Some (vs, r)"
  obtains v r1 d r2 where "scan_value h n s = Some (v, r1)" "skip_ws r1 = d # r2"
    "d = CHR '']'' \<and> vs = [v] \<and> r = r2
     \<or> d = CHR '','' \<and> (\<exists>vs'. vs = v # vs' \<and> scan_elems h n (skip_ws r2) = Some (vs', r))"
  using assms unfolding scan_elems.simps by (auto split: list.splits if_splits option.splits)

lemma scan_members_SomeD:
  assumes "scan_members h (Suc n) s = Some (kvs, r)"
  obtains r0 k r1 r2 v r3 d r4 where "s = CHR 0x22 # r0" "scan_str r0 = Some (k, r1)"
    "skip_ws r1 = CHR '':'' # r2" "scan_value h n (skip_ws r2) = Some (v, r3)" "skip_ws r3 = d # r4"
    "d = CHR ''}'' \<and> kvs = [(k, v)] \<and> r = r4
     \<or> d = CHR '','' \<and> (\<exists>kvs'. kvs = (k, v) # kvs' \<and> scan_members h n (skip_ws r4) = Some (kvs', r))"
  using assms unfolding scan_members.simps by (auto split: list.splits if_splits option.splits)

lemma scan_shorter:
  "(\<forall>v r. scan_value h n s = Some (v, r) \<longrightarrow> length r < length s)
   \<and> (\<forall>vs r. scan_elems h n s = Some (vs, r) \<longrightarrow> length r < length s)
   \<and> (\<forall>kvs r. scan_members h n s = Some (kvs, r) \<longrightarrow> length r < length s)"
proof (induction n arbitrary: s)
  case 0
  then show ?case by (simp add: scan_value.simps scan_elems.simps scan_members.simps)
next
  case (Suc n)
  have V: "length r < length u" if "scan_value h n u = Some (v, r)" for u v r using Suc that by blast
  have E: "length r < length u" if "scan_elems h n u = Some (v, r)" for u v r using Suc that by blast
  have M: "length r < length u" if "scan_members h n u = Some (v, r)" for u v r using Suc that by blast
  have "length r < length s" if "scan_value h (Suc n) s = Some (v, r)" for v r
    using that unfolding scan_value.simps
    by (auto split: list.splits if_splits option.splits
        dest!: scan_str_shorter scan_atom_shorter skip_ws_Cons_length E M)
  moreover have "length r < length s" if "scan_elems h (Suc n) s = Some (v, r)" for v r
  proof -
    from that obtain w r1 d r2 where w: "scan_value h n s = Some (w, r1)" and d: "skip_ws r1 = d # r2"
      and "r = r2 \<or> (\<exists>vs. scan_elems h n (skip_ws r2) = Some (vs, r))"
      by (elim scan_elems_SomeD) auto
    then have "length r \<le> length r2" using E length_skip_ws [of r2] by fastforce
    with V [OF w] skip_ws_Cons_length [OF d] show ?thesis by linarith
  qed
  moreover have "length r < length s" if "scan_members h (Suc n) s = Some (v, r)" for v r
  proof -
    from that obtain r0 k r1 r2 w r3 d r4 where s: "s = CHR 0x22 # r0" and k: "scan_str r0 = Some (k, r1)"
      and c: "skip_ws r1 = CHR '':'' # r2" and w: "scan_value h n (skip_ws r2) = Some (w, r3)"
      and d: "skip_ws r3 = d # r4" and "r = r4 \<or> (\<exists>kvs. scan_members h n (skip_ws r4) = Some (kvs, r))"
      by (elim scan_members_SomeD) auto
    then have "length r \<le> length r4" using M length_skip_ws [of r4] by fastforce
    with s scan_str_shorter [OF k] skip_ws_Cons_length [OF c] V [OF w] length_skip_ws [of r2]
      skip_ws_Cons_length [OF d] show ?thesis by simp
  qed
  ultimately show ?case by blast
qed

lemma scan_value_shorter: "scan_value h n s = Some (v, r) \<Longrightarrow> length r < length s"
  using scan_shorter by blast

text \<open>Beyond twice the length of the text the result does not depend on the fuel.\<close>

lemma scan_fuel:
  "(2 * length s < n \<longrightarrow> 2 * length s < m \<longrightarrow> scan_value h n s = scan_value h m s)
   \<and> (Suc (2 * length s) < n \<longrightarrow> Suc (2 * length s) < m \<longrightarrow> scan_elems h n s = scan_elems h m s)
   \<and> (2 * length s < n \<longrightarrow> 2 * length s < m \<longrightarrow> scan_members h n s = scan_members h m s)"
proof (induction n arbitrary: m s)
  case 0
  then show ?case by simp
next
  case (Suc n)
  show ?case
  proof (cases m)
    case 0
    then show ?thesis by simp
  next
    case (Suc k)
    have V: "scan_value h n u = scan_value h k u" if "2 * length u < n" "2 * length u < k" for u
      using Suc.IH that by blast
    have E: "scan_elems h n u = scan_elems h k u" if "Suc (2 * length u) < n" "Suc (2 * length u) < k" for u
      using Suc.IH that by blast
    have M: "scan_members h n u = scan_members h k u" if "2 * length u < n" "2 * length u < k" for u
      using Suc.IH that by blast
    have "scan_value h (Suc n) s = scan_value h (Suc k) s" if "2 * length s \<le> n" "2 * length s \<le> k"
    proof (cases s)
      case (Cons c t)
      have "scan_members h n (d # u) = scan_members h k (d # u) \<and> scan_elems h n (d # u) = scan_elems h k (d # u)"
        if "skip_ws t = d # u" for d u
        using E [of "d # u"] M [of "d # u"] skip_ws_Cons_length [OF that] Cons \<open>2 * length s \<le> n\<close> \<open>2 * length s \<le> k\<close>
        by simp
      then show ?thesis by (simp add: Cons scan_value.simps split: list.splits)
    qed (simp add: scan_value.simps)
    moreover have "scan_elems h (Suc n) s = scan_elems h (Suc k) s"
      if le: "2 * length s < n" "2 * length s < k"
    proof -
      have "scan_elems h n (skip_ws r2) = scan_elems h k (skip_ws r2)"
        if "scan_value h k s = Some (v, r1)" "skip_ws r1 = d # r2" for v r1 d r2
        using E [of "skip_ws r2"] scan_value_shorter [OF that(1)] skip_ws_Cons_length [OF that(2)]
          length_skip_ws [of r2] le by simp
      then show ?thesis
        by (simp add: scan_elems.simps V [OF le] split: option.splits list.splits)
    qed
    moreover have "scan_members h (Suc n) s = scan_members h (Suc k) s"
      if "2 * length s \<le> n" "2 * length s \<le> k"
    proof (cases s)
      case (Cons c t)
      have "scan_value h n (skip_ws r2) = scan_value h k (skip_ws r2)"
        if "scan_str t = Some (x, r1)" "skip_ws r1 = e # r2" for x r1 e r2
        using V [of "skip_ws r2"] scan_str_shorter [OF that(1)] skip_ws_Cons_length [OF that(2)]
          length_skip_ws [of r2] Cons \<open>2 * length s \<le> n\<close> \<open>2 * length s \<le> k\<close> by simp
      moreover have "scan_members h n (skip_ws r4) = scan_members h k (skip_ws r4)"
        if "scan_str t = Some (x, r1)" "skip_ws r1 = e # r2" "scan_value h k (skip_ws r2) = Some (v, r3)"
          "skip_ws r3 = d # r4" for x r1 e r2 v r3 d r4
        using M [of "skip_ws r4"] scan_str_shorter [OF that(1)] skip_ws_Cons_length [OF that(2)]
          scan_value_shorter [OF that(3)] skip_ws_Cons_length [OF that(4)]
          length_skip_ws [of r2] length_skip_ws [of r4] Cons \<open>2 * length s \<le> n\<close> \<open>2 * length s \<le> k\<close> by simp
      ultimately show ?thesis
        by (simp add: Cons scan_members.simps split: option.splits list.splits)
    qed (simp add: scan_members.simps)
    ultimately show ?thesis by (simp add: Suc)
  qed
qed

lemma scan_value_fuel: "2 * length s < n \<Longrightarrow> 2 * length s < m \<Longrightarrow> scan_value h n s = scan_value h m s"
  using scan_fuel by blast

section \<open>Canonical values and the round trip\<close>

text \<open>The values canonical text can carry: no float, and no object with a repeated key.
  \<open>canon\<close> sorts the keys of every object.\<close>

fun json_ok :: "json \<Rightarrow> bool" where
  "json_ok (JFloat _) = False"
| "json_ok (JArr vs) = list_all json_ok vs"
| "json_ok (JObj kvs) = (distinct (map fst kvs) \<and> list_all (\<lambda>(_, v). json_ok v) kvs)"
| "json_ok _ = True"

fun canon :: "json \<Rightarrow> json" where
  "canon (JArr vs) = JArr (map canon vs)"
| "canon (JObj kvs) = JObj (sort_key fst (map (\<lambda>(k, v). (k, canon v)) kvs))"
| "canon v = v"

fun sorted_json :: "json \<Rightarrow> bool" where
  "sorted_json (JArr vs) = list_all sorted_json vs"
| "sorted_json (JObj kvs) = (sorted (map fst kvs) \<and> list_all (\<lambda>(_, v). sorted_json v) kvs)"
| "sorted_json _ = True"

lemma insort_key_map_snd:
  "insort_key fst (k, f v) (map (\<lambda>(k, v). (k, f v)) kvs) = map (\<lambda>(k, v). (k, f v)) (insort_key fst (k, v) kvs)"
  by (induction kvs) auto

lemma sort_key_map_snd:
  "sort_key fst (map (\<lambda>(k, v). (k, f v)) kvs) = map (\<lambda>(k, v). (k, f v)) (sort_key fst kvs)"
  by (induction kvs) (auto simp: insort_key_map_snd)

lemma list_all_sort_key [simp]: "list_all P (sort_key f xs) = list_all P xs"
  by (simp add: list_all_iff)

lemma distinct_map_sort_key [simp]: "distinct (map f (sort_key f xs)) = distinct (map f xs)"
  by (simp add: distinct_map)

lemma dumps_JObj:
  "dumps (JObj kvs) = ''{'' @ join '','' (map (\<lambda>(k, v). quoted k @ '':'' @ dumps v) (sort_key fst kvs)) @ ''}''"
  unfolding dumps.simps sort_key_map_snd by (simp add: case_prod_unfold comp_def)

lemma map_fst_canon [simp]: "map fst (map (\<lambda>(k, v). (k, f v)) kvs) = map fst kvs"
  by (simp add: case_prod_unfold comp_def)

lemma sorted_json_canon: "sorted_json (canon v)"
  by (induction v) (auto simp: list_all_iff)

lemma json_ok_canon: "json_ok v \<Longrightarrow> json_ok (canon v)"
proof (induction v)
  case (JObj kvs)
  then have "distinct (map fst (sort_key fst (map (\<lambda>(k, v). (k, canon v)) kvs)))"
    by (simp only: distinct_map_sort_key map_fst_canon json_ok.simps)
  with JObj show ?case by (auto simp: list_all_iff)
qed (auto simp: list_all_iff)

lemma dumps_canon: "dumps (canon v) = dumps v"
proof (induction v)
  case (JArr vs)
  then have "map (dumps \<circ> canon) vs = map dumps vs" by simp
  then show ?case by (simp only: canon.simps dumps.simps map_map)
next
  case (JObj kvs)
  have IH: "(k, v) \<in> set kvs \<Longrightarrow> dumps (canon v) = dumps v" for k v using JObj by auto
  have eq: "map (\<lambda>(k, v). (k, dumps (canon v))) kvs = map (\<lambda>(k, v). (k, dumps v)) kvs"
    by (rule map_cong) (auto dest: IH)
  have "canon (JObj kvs) = JObj (map (\<lambda>(k, v). (k, canon v)) (sort_key fst kvs))"
    by (simp add: sort_key_map_snd)
  then have "dumps (canon (JObj kvs)) =
    ''{'' @ join '','' (map (\<lambda>(k, t). quoted k @ '':'' @ t)
      (sort_key fst (map (\<lambda>(k, v). (k, dumps v)) (map (\<lambda>(k, v). (k, canon v)) (sort_key fst kvs))))) @ ''}''"
    by simp
  also have "map (\<lambda>(k, v). (k, dumps v)) (map (\<lambda>(k, v). (k, canon v)) (sort_key fst kvs))
     = map (\<lambda>(k, v). (k, dumps (canon v))) (sort_key fst kvs)"
    by (simp add: case_prod_unfold comp_def)
  also have "\<dots> = sort_key fst (map (\<lambda>(k, v). (k, dumps (canon v))) kvs)"
    by (rule sort_key_map_snd [symmetric])
  also have "\<dots> = sort_key fst (map (\<lambda>(k, v). (k, dumps v)) kvs)" by (simp only: eq)
  finally show ?case by (simp add: sort_key_id_if_sorted)
qed simp_all

lemma canon_sorted: "sorted_json v \<Longrightarrow> canon v = v"
proof (induction v)
  case (JArr vs)
  then show ?case by (auto simp: list_all_iff intro: map_idI)
next
  case (JObj kvs)
  then have "map (\<lambda>(k, v). (k, canon v)) kvs = kvs" by (intro map_idI) (auto simp: list_all_iff)
  with JObj.prems show ?case by (simp add: sort_key_id_if_sorted)
qed simp_all

lemma dict_put_new: "k \<notin> fst ` set d \<Longrightarrow> dict_put k v d = d @ [(k, v)]"
  by (induction d) auto

lemma dict_of_distinct: "distinct (map fst kvs) \<Longrightarrow> dict_of kvs = kvs"
proof -
  have "distinct (map fst (d @ kvs)) \<Longrightarrow> fold (\<lambda>(k, v) d. dict_put k v d) kvs d = d @ kvs" for d
    by (induction kvs arbitrary: d) (auto simp: dict_put_new image_iff)
  from this [of "[]"] show "distinct (map fst kvs) \<Longrightarrow> dict_of kvs = kvs" by (simp add: dict_of_def)
qed

lemma code_eqD: "code c = code d \<Longrightarrow> c = d"
  by (simp add: of_char_eq_iff)

lemma is_hex_lower: "is_lower_hex c \<Longrightarrow> is_hex c"
  by (simp add: is_hex_def)

lemma hex4_low:
  assumes "n < 32"
  shows "hex4 (CHR ''0'') (CHR ''0'') (hex_char (n div 16)) (hex_char (n mod 16)) = Some (char_of n)"
proof -
  have "n div 16 < 16" using assms by (simp add: less_mult_imp_div_less)
  moreover have "16 * (n div 16) + n mod 16 = n" by simp
  moreover have "is_hex (CHR ''0'')" and "hex_val (CHR ''0'') = 0"
    by (simp_all add: is_hex_def is_lower_hex_def is_digit_def hex_val_def)
  ultimately show ?thesis by (simp add: hex4_def is_hex_lower)
qed

lemma scan_str_esc_char: "scan_str (esc_char c @ t) = push (Some c) (scan_str t)"
proof (cases "c \<in> set [CHR 0x22, CHR 0x5C, CHR 0x0A, CHR 0x0D, CHR 0x09, CHR 0x0C, CHR 0x08]")
  case True
  then consider "c = CHR 0x22" | "c = CHR 0x5C" | "c = CHR 0x0A" | "c = CHR 0x0D" | "c = CHR 0x09"
    | "c = CHR 0x0C" | "c = CHR 0x08" by auto
  then show ?thesis by cases (simp_all add: esc_char_def scan_str.simps simple_escape_def)
next
  case False
  have "code c \<noteq> 10" using False code_eqD [of c "CHR 0x0A"] by auto
  moreover have "code c \<noteq> 13" using False code_eqD [of c "CHR 0x0D"] by auto
  moreover have "code c \<noteq> 9" using False code_eqD [of c "CHR 0x09"] by auto
  moreover have "code c \<noteq> 12" using False code_eqD [of c "CHR 0x0C"] by auto
  moreover have "code c \<noteq> 8" using False code_eqD [of c "CHR 0x08"] by auto
  ultimately show ?thesis
    using False hex4_low [of "code c"]
    by (cases "code c < 32") (simp_all add: esc_char_def scan_str.simps)
qed

lemma scan_str_quoted: "scan_str (esc_str s @ CHR 0x22 # r) = Some (s, r)"
proof (induction s)
  case Nil
  then show ?case by (simp add: esc_str_def scan_str.simps)
next
  case (Cons c s)
  have "esc_str (c # s) @ CHR 0x22 # r = esc_char c @ (esc_str s @ CHR 0x22 # r)"
    by (simp add: esc_str_def)
  then show ?case by (simp only: scan_str_esc_char Cons.IH) (simp add: push_def)
qed

lemma skip_ws_Cons [simp]: "\<not> is_ws c \<Longrightarrow> skip_ws (c # s) = c # s"
  by (simp add: skip_ws_def)

lemma not_ws [simp]:
  "\<not> is_ws (CHR '','')" "\<not> is_ws (CHR '':'')" "\<not> is_ws (CHR '']'')" "\<not> is_ws (CHR ''}'')"
  "\<not> is_ws (CHR 0x22)" "\<not> is_ws (CHR ''['')" "\<not> is_ws (CHR ''{'')"
  by (simp_all add: is_ws_def)

text \<open>What may follow a value inside canonical text.\<close>

definition ends :: "pystr \<Rightarrow> bool" where
  "ends r = (r = [] \<or> hd r = CHR '','' \<or> hd r = CHR '']'' \<or> hd r = CHR ''}'')"

lemma scan_int_nat_str:
  assumes "ends r"
  shows "scan_int (nat_str n @ r) = Some (nat_str n, r)"
proof (cases "n = 0")
  case True
  have "nat_str 0 = [CHR ''0'']" 
    using code_eqD [of "digit_char 0" "CHR ''0''"] by (simp add: nat_str.simps)
  with True show ?thesis by (simp add: scan_int_def)
next
  case False
  obtain c s where cs: "nat_str n = c # s" by (cases "nat_str n") auto
  have "c \<noteq> CHR ''0''" and dig: "\<forall>x\<in>set (nat_str n). is_digit x"
    using hd_nat_str_eq_zero [of n] False cs nat_str_digits [of n] by auto
  moreover have "r = [] \<or> \<not> is_digit (hd r)"
    using assms by (auto simp: ends_def is_digit_def)
  with dig have "takeWhile is_digit (nat_str n @ r) = nat_str n" "dropWhile is_digit (nat_str n @ r) = r"
    using takeWhile_dropWhile_stop by blast+
  ultimately show ?thesis using cs by (simp add: scan_int_def)
qed

lemma scan_number_nat_str:
  assumes "ends r"
  shows "scan_number h neg (nat_str n @ r) = map_option (\<lambda>v. (v, r)) (on_int h ((if neg then ''-'' else []) @ nat_str n))"
proof -
  have "scan_frac r = ([], r)" and "scan_exp r = ([], r)"
    using assms by (auto simp: ends_def scan_frac_def scan_exp_def split: list.splits)
  then show ?thesis by (simp add: scan_number_def scan_int_nat_str [OF assms])
qed

lemma digit_neq:
  "is_digit c \<Longrightarrow> c \<noteq> CHR 0x22 \<and> c \<noteq> CHR ''{'' \<and> c \<noteq> CHR ''['' \<and> c \<noteq> CHR ''n'' \<and> c \<noteq> CHR ''t'' \<and> c \<noteq> CHR ''f''
     \<and> c \<noteq> CHR ''N'' \<and> c \<noteq> CHR ''I'' \<and> c \<noteq> CHR ''-'' \<and> c \<noteq> CHR '']'' \<and> c \<noteq> CHR ''}'' \<and> \<not> is_ws c"
  by (auto simp: is_digit_def is_ws_def)

lemma scan_int_str:
  assumes "ends r"
  shows "scan_value h (Suc n) (int_str i @ r) = map_option (\<lambda>v. (v, r)) (on_int h (int_str i))"
proof (cases "i < 0")
  case True
  obtain c s where cs: "nat_str (nat (- i)) = c # s" by (cases "nat_str (nat (- i))") auto
  then have "is_digit c" using nat_str_digits [of "nat (- i)"] by simp
  then have "strip_prefix ''Infinity'' (nat_str (nat (- i)) @ r) = None"
    using digit_neq [of c] by (auto simp: strip_prefix_def cs)
  with True scan_number_nat_str [OF assms, of h True "nat (- i)"] show ?thesis
    by (simp add: scan_value.simps int_str_def scan_atom_def)
next
  case False
  obtain c s where cs: "nat_str (nat i) = c # s" by (cases "nat_str (nat i)") auto
  then have "is_digit c" using nat_str_digits [of "nat i"] by simp
  with digit_neq [of c] scan_number_nat_str [OF assms, of h False "nat i"] False show ?thesis
    by (simp add: scan_value.simps int_str_def scan_atom_def cs)
qed

lemma dumps_head:
  assumes "json_ok v"
  shows "\<exists>c t. dumps v = c # t \<and> \<not> is_ws c \<and> c \<noteq> CHR '']''"
proof (cases v)
  case (JInt i)
  obtain c t where "nat_str (nat i) = c # t" by (cases "nat_str (nat i)") auto
  moreover from this have "is_digit c" using nat_str_digits [of "nat i"] by simp
  ultimately show ?thesis
    using JInt digit_neq [of c] by (cases "i < 0") (auto simp: int_str_def is_ws_def)
next
  case (JBool b)
  then show ?thesis by (cases b) (auto simp: is_ws_def)
qed (use assms in \<open>auto simp: quoted_def is_ws_def\<close>)

lemma join_Cons: "join sep (p # ps) = p @ (if ps = [] then [] else sep @ join sep ps)"
  by (cases ps) simp_all

definition scans :: "hooks \<Rightarrow> json \<Rightarrow> bool" where
  "scans h v = (\<forall>n r. ends r \<longrightarrow> length (dumps v) \<le> n \<longrightarrow> scan_value h n (dumps v @ r) = Some (v, r))"

lemma scansD: "scans h v \<Longrightarrow> ends r \<Longrightarrow> length (dumps v) \<le> n \<Longrightarrow> scan_value h n (dumps v @ r) = Some (v, r)"
  by (simp add: scans_def)

lemma scan_elems_dumps:
  assumes "\<forall>v\<in>set vs. scans h v \<and> json_ok v" "vs \<noteq> []" "length (join '','' (map dumps vs)) < n"
  shows "scan_elems h n (join '','' (map dumps vs) @ CHR '']'' # r) = Some (vs, r)"
  using assms
proof (induction vs arbitrary: n)
  case Nil
  then show ?case by simp
next
  case (Cons v vs)
  obtain m where n: "n = Suc m" using Cons.prems(3) by (cases n) simp_all
  show ?case
  proof (cases "vs = []")
    case True
    have "scan_value h m (dumps v @ CHR '']'' # r) = Some (v, CHR '']'' # r)"
      using Cons.prems True n by (intro scansD) (simp_all add: ends_def)
    then show ?thesis by (simp add: True n scan_elems.simps)
  next
    case False
    obtain w ws where w: "vs = w # ws" using False by (cases vs) auto
    obtain c t where "dumps w = c # t" "\<not> is_ws c"
      using dumps_head [of w] Cons.prems(1) w by fastforce
    then have skip: "skip_ws (join '','' (map dumps vs) @ x) = join '','' (map dumps vs) @ x" for x
      by (simp add: w join_Cons)
    have len: "length (dumps v) + Suc (length (join '','' (map dumps vs))) \<le> m"
      using Cons.prems(3) False by (simp add: join_Cons n)
    let ?rest = "CHR '','' # join '','' (map dumps vs) @ CHR '']'' # r"
    have "scan_value h m (dumps v @ ?rest) = Some (v, ?rest)"
      using Cons.prems len by (intro scansD) (simp_all add: ends_def)
    moreover have "scan_elems h m (join '','' (map dumps vs) @ CHR '']'' # r) = Some (vs, r)"
      using Cons.IH Cons.prems len False by simp
    ultimately show ?thesis
      using False by (simp add: n scan_elems.simps join_Cons skip)
  qed
qed

abbreviation member_text :: "pystr \<times> json \<Rightarrow> pystr" where
  "member_text \<equiv> \<lambda>(k, v). quoted k @ '':'' @ dumps v"

lemma scan_members_dumps:
  assumes "\<forall>(k, v)\<in>set kvs. scans h v \<and> json_ok v" "kvs \<noteq> []" "length (join '','' (map member_text kvs)) < n"
  shows "scan_members h n (join '','' (map member_text kvs) @ CHR ''}'' # r) = Some (kvs, r)"
  using assms
proof (induction kvs arbitrary: n)
  case Nil
  then show ?case by simp
next
  case (Cons kv kvs)
  obtain k v where kv: "kv = (k, v)" by (cases kv)
  obtain m where n: "n = Suc m" using Cons.prems(3) by (cases n) simp_all
  have v: "scans h v" "json_ok v" using Cons.prems(1) kv by auto
  obtain c t where "dumps v = c # t" "\<not> is_ws c" using dumps_head [OF v(2)] by blast
  then have skipv: "skip_ws (dumps v @ x) = dumps v @ x" for x by simp
  show ?case
  proof (cases "kvs = []")
    case True
    have "scan_value h m (dumps v @ CHR ''}'' # r) = Some (v, CHR ''}'' # r)"
      using Cons.prems True n v by (intro scansD) (simp_all add: ends_def kv)
    then show ?thesis by (simp add: True n kv scan_members.simps quoted_def scan_str_quoted skipv)
  next
    case False
    define J where "J = join '','' (map member_text kvs)"
    obtain w ws where w: "kvs = w # ws" using False by (cases kvs) auto
    then have skip: "skip_ws (J @ x) = J @ x" for x
      by (cases w) (simp add: J_def join_Cons quoted_def)
    have printed: "join '','' (map member_text (kv # kvs)) = quoted k @ '':'' @ dumps v @ '','' @ J"
      using False by (simp add: join_Cons kv J_def)
    have len: "length (dumps v) + Suc (length J) \<le> m"
      using Cons.prems(3) unfolding printed by (simp add: n)
    have "scan_value h m (dumps v @ CHR '','' # J @ CHR ''}'' # r) = Some (v, CHR '','' # J @ CHR ''}'' # r)"
      using len v by (intro scansD) (simp_all add: ends_def)
    moreover have "scan_members h m (J @ CHR ''}'' # r) = Some (kvs, r)"
      using Cons.IH Cons.prems len False unfolding J_def by simp
    ultimately show ?thesis
      unfolding printed by (simp add: n kv scan_members.simps skip quoted_def scan_str_quoted skipv)
  qed
qed

definition hook_ok :: "pairs_hook \<Rightarrow> bool" where
  "hook_ok h = (\<forall>kvs. distinct (map fst kvs) \<longrightarrow> h kvs = Some kvs)"

text \<open>The hooks give back the parts of a value as they are.\<close>

fun reads :: "hooks \<Rightarrow> json \<Rightarrow> bool" where
  "reads h (JInt i) = (on_int h (int_str i) = Some (JInt i))"
| "reads h (JArr vs) = list_all (reads h) vs"
| "reads h (JObj kvs) = (on_pairs h kvs = Some kvs \<and> list_all (\<lambda>(_, v). reads h v) kvs)"
| "reads h _ = True"

lemma literal_int_str [simp]: "literal_int (int_str i) = i"
proof (cases "i < 0")
  case False
  obtain c s where cs: "nat_str (nat i) = c # s" by (cases "nat_str (nat i)") auto
  then have "c \<noteq> CHR ''-''" using nat_str_digits [of "nat i"] digit_neq [of c] by simp
  moreover have "digits_val (c # s) = nat i" using cs digits_val_nat_str [of "nat i"] by simp
  ultimately show ?thesis using False cs by (simp add: literal_int_def int_str_def)
qed (simp add: literal_int_def int_str_def)

lemma reads_plain: "hook_ok h \<Longrightarrow> json_ok v \<Longrightarrow> reads (plain h) v"
  by (induction v) (auto simp: plain_def hook_ok_def list_all_iff)

lemma scans_all: "reads h v \<Longrightarrow> json_ok v \<Longrightarrow> sorted_json v \<Longrightarrow> scans h v"
proof (induction v)
  case (JArr vs)
  have ok: "\<forall>v\<in>set vs. scans h v \<and> json_ok v" using JArr by (auto simp: list_all_iff)
  show ?case unfolding scans_def
  proof (intro allI impI)
    fix n r assume "ends r" and len: "length (dumps (JArr vs)) \<le> n"
    then obtain m where n: "n = Suc m" by (cases n) simp_all
    show "scan_value h n (dumps (JArr vs) @ r) = Some (JArr vs, r)"
    proof (cases vs)
      case Nil
      then show ?thesis by (simp add: n scan_value.simps)
    next
      case (Cons w ws)
      obtain c t where c: "dumps w = c # t" "\<not> is_ws c" "c \<noteq> CHR '']''"
        using dumps_head [of w] ok Cons by fastforce
      have "scan_elems h m (join '','' (map dumps vs) @ CHR '']'' # r) = Some (vs, r)"
        using ok len Cons by (intro scan_elems_dumps) (simp_all add: n)
      with c show ?thesis by (simp add: n scan_value.simps Cons join_Cons)
    qed
  qed
next
  case (JObj kvs)
  have ok: "\<forall>(k, v)\<in>set kvs. scans h v \<and> json_ok v" using JObj by (fastforce simp: list_all_iff)
  have printed: "dumps (JObj kvs) = ''{'' @ join '','' (map member_text kvs) @ ''}''"
    using JObj.prems by (simp add: dumps_JObj sort_key_id_if_sorted del: dumps.simps)
  have hook: "on_pairs h kvs = Some kvs" using JObj.prems by simp
  show ?case unfolding scans_def printed
  proof (intro allI impI)
    fix n r assume "ends r" and len: "length (''{'' @ join '','' (map member_text kvs) @ ''}'') \<le> n"
    then obtain m where n: "n = Suc m" by (cases n) simp_all
    show "scan_value h n ((''{'' @ join '','' (map member_text kvs) @ ''}'') @ r) = Some (JObj kvs, r)"
    proof (cases kvs)
      case Nil
      then show ?thesis using hook by (simp add: n scan_value.simps)
    next
      case (Cons w ws)
      have "scan_members h m (join '','' (map member_text kvs) @ CHR ''}'' # r) = Some (kvs, r)"
        using ok len Cons by (intro scan_members_dumps) (simp_all add: n)
      then show ?thesis
        using hook by (cases w) (simp add: n scan_value.simps Cons join_Cons quoted_def)
    qed
  qed
next
  case (JInt i)
  show ?case unfolding scans_def
  proof (intro allI impI)
    fix n r assume "ends r" "length (dumps (JInt i)) \<le> n"
    then show "scan_value h n (dumps (JInt i) @ r) = Some (JInt i, r)"
      using JInt.prems(1) scan_int_str [of r h] by (cases n) (auto simp: int_str_def split: if_splits)
  qed
next
  case (JStr s)
  show ?case unfolding scans_def
  proof (intro allI impI)
    fix n r assume "length (dumps (JStr s)) \<le> n"
    then show "scan_value h n (dumps (JStr s) @ r) = Some (JStr s, r)"
      by (cases n) (simp_all add: scan_value.simps quoted_def scan_str_quoted)
  qed
next
  case (JBool b)
  show ?case unfolding scans_def
  proof (intro allI impI)
    fix n r assume "length (dumps (JBool b)) \<le> n"
    then show "scan_value h n (dumps (JBool b) @ r) = Some (JBool b, r)"
      by (cases n; cases b) (simp_all add: scan_value.simps scan_atom_def strip_prefix_def)
  qed
next
  case JNull
  show ?case unfolding scans_def
  proof (intro allI impI)
    fix n r assume "length (dumps JNull) \<le> n"
    then show "scan_value h n (dumps JNull @ r) = Some (JNull, r)"
      by (cases n) (simp_all add: scan_value.simps scan_atom_def strip_prefix_def)
  qed
qed simp

lemma loads_hooked_dumps:
  assumes "reads h (canon v)" "json_ok v"
  shows "loads_hooked h (dumps v) = Some (canon v)"
proof -
  have ok: "json_ok (canon v)" and "scans h (canon v)"
    using assms json_ok_canon sorted_json_canon scans_all by blast+
  then have scan: "scan_value h n (dumps v) = Some (canon v, [])" if "length (dumps v) \<le> n" for n
    using scansD [of h "canon v" "[]" n] that by (simp add: ends_def dumps_canon)
  obtain c t where "dumps v = c # t" "\<not> is_ws c" using dumps_head [OF assms(2)] by blast
  then have "skip_ws (dumps v) = dumps v" by simp
  then show ?thesis using scan [of "Suc (2 * length (dumps v))"] by (simp add: loads_hooked_def skip_ws_def)
qed

lemma loads_with_dumps: "hook_ok h \<Longrightarrow> json_ok v \<Longrightarrow> loads_with h (dumps v) = Some (canon v)"
  unfolding loads_with_def by (intro loads_hooked_dumps reads_plain json_ok_canon)

lemma hook_ok_dict: "hook_ok (\<lambda>kvs. Some (dict_of kvs))"
  by (simp add: hook_ok_def dict_of_distinct)

lemma loads_dumps: "json_ok v \<Longrightarrow> loads (dumps v) = Some (canon v)"
  unfolding loads_def by (rule loads_with_dumps [OF hook_ok_dict])

text \<open>Printing is injective up to the order of keys.\<close>

lemma dumps_inj: "json_ok v \<Longrightarrow> json_ok w \<Longrightarrow> dumps v = dumps w \<Longrightarrow> canon v = canon w"
  using loads_dumps by (metis option.inject)

end
