(* ===== verification/Digests.thy ===== *)
theory Digests
  imports PyText
begin

unbundle bit_operations_syntax

text \<open>
  The digests the sources take from Python's standard library: \<^verbatim>\<open>hashlib.sha256\<close> (FIPS
  180-4), \<^verbatim>\<open>hmac.new(key, body, sha256)\<close> (RFC 2104) and \<^verbatim>\<open>base64.b32encode\<close> (RFC 4648).
  The lemmas give what the other theories rely on: a hexadecimal digest is 64 lower-case
  hexadecimal characters.
\<close>

section \<open>SHA-256\<close>

definition sha_k :: "32 word list" where
  "sha_k =
    [1116352408, 1899447441, 3049323471, 3921009573, 961987163, 1508970993,
     2453635748, 2870763221, 3624381080, 310598401, 607225278, 1426881987,
     1925078388, 2162078206, 2614888103, 3248222580, 3835390401, 4022224774,
     264347078, 604807628, 770255983, 1249150122, 1555081692, 1996064986,
     2554220882, 2821834349, 2952996808, 3210313671, 3336571891, 3584528711,
     113926993, 338241895, 666307205, 773529912, 1294757372, 1396182291,
     1695183700, 1986661051, 2177026350, 2456956037, 2730485921, 2820302411,
     3259730800, 3345764771, 3516065817, 3600352804, 4094571909, 275423344,
     430227734, 506948616, 659060556, 883997877, 958139571, 1322822218,
     1537002063, 1747873779, 1955562222, 2024104815, 2227730452, 2361852424,
     2428436474, 2756734187, 3204031479, 3329325298]"

record sha_state =
  ha :: "32 word"
  hb :: "32 word"
  hc :: "32 word"
  hd4 :: "32 word"
  he :: "32 word"
  hf :: "32 word"
  hg :: "32 word"
  hh :: "32 word"

definition sha_init :: sha_state where
  "sha_init = \<lparr>ha = 1779033703, hb = 3144134277, hc = 1013904242, hd4 = 2773480762,
     he = 1359893119, hf = 2600822924, hg = 528734635, hh = 1541459225\<rparr>"

definition sigma0 :: "32 word \<Rightarrow> 32 word" where
  "sigma0 x = word_rotr 7 x XOR word_rotr 18 x XOR drop_bit 3 x"

definition sigma1 :: "32 word \<Rightarrow> 32 word" where
  "sigma1 x = word_rotr 17 x XOR word_rotr 19 x XOR drop_bit 10 x"

definition sum0 :: "32 word \<Rightarrow> 32 word" where
  "sum0 x = word_rotr 2 x XOR word_rotr 13 x XOR word_rotr 22 x"

definition sum1 :: "32 word \<Rightarrow> 32 word" where
  "sum1 x = word_rotr 6 x XOR word_rotr 11 x XOR word_rotr 25 x"

definition sha_ch :: "32 word \<Rightarrow> 32 word \<Rightarrow> 32 word \<Rightarrow> 32 word" where
  "sha_ch x y z = (x AND y) XOR (NOT x AND z)"

definition sha_maj :: "32 word \<Rightarrow> 32 word \<Rightarrow> 32 word \<Rightarrow> 32 word" where
  "sha_maj x y z = (x AND y) XOR (x AND z) XOR (y AND z)"

text \<open>Big-endian words of a block, and the message schedule. The schedule list is kept newest first.\<close>

fun be_words :: "bytes \<Rightarrow> 32 word list" where
  "be_words (a # b # c # d # rest) =
     (push_bit 24 (ucast a) OR push_bit 16 (ucast b) OR push_bit 8 (ucast c) OR ucast d) # be_words rest"
| "be_words _ = []"

primrec sha_schedule :: "nat \<Rightarrow> 32 word list \<Rightarrow> 32 word list" where
  "sha_schedule 0 w = w"
| "sha_schedule (Suc n) w =
     sha_schedule n ((sigma1 (w ! 1) + w ! 6 + sigma0 (w ! 14) + w ! 15) # w)"

definition sha_round :: "32 word \<times> 32 word \<Rightarrow> sha_state \<Rightarrow> sha_state" where
  "sha_round kw s =
     (let t1 = hh s + sum1 (he s) + sha_ch (he s) (hf s) (hg s) + fst kw + snd kw;
          t2 = sum0 (ha s) + sha_maj (ha s) (hb s) (hc s)
      in \<lparr>ha = t1 + t2, hb = ha s, hc = hb s, hd4 = hc s,
          he = hd4 s + t1, hf = he s, hg = hf s, hh = hg s\<rparr>)"

definition sha_block :: "bytes \<Rightarrow> sha_state \<Rightarrow> sha_state" where
  "sha_block blk s =
     (let w = rev (sha_schedule 48 (rev (be_words blk)));
          r = fold sha_round (zip sha_k w) s
      in \<lparr>ha = ha s + ha r, hb = hb s + hb r, hc = hc s + hc r, hd4 = hd4 s + hd4 r,
          he = he s + he r, hf = hf s + hf r, hg = hg s + hg r, hh = hh s + hh r\<rparr>)"

fun chunks :: "nat \<Rightarrow> 'a list \<Rightarrow> 'a list list" where
  "chunks n [] = []"
| "chunks n (x # xs) = take (Suc n) (x # xs) # chunks n (drop n xs)"

definition be_bytes :: "nat \<Rightarrow> nat \<Rightarrow> bytes" where
  "be_bytes w n = map (\<lambda>i. byte (n div 256 ^ i mod 256)) (rev [0..<w])"

definition sha_pad :: "bytes \<Rightarrow> bytes" where
  "sha_pad m = m @ [0x80] @ replicate ((119 - length m mod 64) mod 64) 0 @ be_bytes 8 (8 * length m)"

definition word_bytes :: "32 word \<Rightarrow> bytes" where
  "word_bytes x = [ucast (drop_bit 24 x), ucast (drop_bit 16 x), ucast (drop_bit 8 x), ucast x]"

definition sha256 :: "bytes \<Rightarrow> bytes" where
  "sha256 m =
     (let s = fold sha_block (chunks 63 (sha_pad m)) sha_init
      in concat (map word_bytes [ha s, hb s, hc s, hd4 s, he s, hf s, hg s, hh s]))"

definition sha256_hex :: "bytes \<Rightarrow> pystr" where
  "sha256_hex m = bytes_hex (sha256 m)"

section \<open>HMAC-SHA256\<close>

definition hmac_key :: "bytes \<Rightarrow> bytes" where
  "hmac_key k = (let k' = (if length k > 64 then sha256 k else k) in k' @ replicate (64 - length k') 0)"

definition hmac_sha256_hex :: "bytes \<Rightarrow> bytes \<Rightarrow> pystr" where
  "hmac_sha256_hex k m =
     sha256_hex (map ((XOR) 0x5c) (hmac_key k) @ sha256 (map ((XOR) 0x36) (hmac_key k) @ m))"

section \<open>Base 32\<close>

definition b32_char :: "nat \<Rightarrow> char" where
  "b32_char d = (if d < 26 then char_of (65 + d) else char_of (24 + d))"

definition be_nat :: "bytes \<Rightarrow> nat" where
  "be_nat bs = foldl (\<lambda>a b. 256 * a + unat b) 0 bs"

text \<open>One quantum of five bytes gives eight characters; a short one of \<open>k\<close> bytes gives
  \<open>\<lceil>8k/5\<rceil>\<close> characters and \<open>=\<close> padding.\<close>

definition b32_quantum :: "bytes \<Rightarrow> pystr" where
  "b32_quantum q =
     (let n = be_nat (q @ replicate (5 - length q) 0); k = (8 * length q + 4) div 5
      in map (\<lambda>i. b32_char (n div 32 ^ i mod 32)) (rev [8 - k..<8]) @ replicate (8 - k) (CHR ''=''))"

definition b32encode :: "bytes \<Rightarrow> pystr" where
  "b32encode bs = concat (map b32_quantum (chunks 4 bs))"

section \<open>Shape of a digest\<close>

definition is_digest :: "pystr \<Rightarrow> bool" where
  "is_digest s = (length s = 64 \<and> (\<forall>c\<in>set s. is_lower_hex c))"

lemma length_sha256 [simp]: "length (sha256 m) = 32"
  by (simp add: sha256_def Let_def word_bytes_def)

lemma is_digest_sha256_hex [simp]: "is_digest (sha256_hex m)"
  using bytes_hex_lower by (simp add: is_digest_def sha256_hex_def)

lemma length_sha256_hex [simp]: "length (sha256_hex m) = 64"
  using is_digest_sha256_hex by (simp add: is_digest_def)

lemma sha256_hex_lower: "c \<in> set (sha256_hex m) \<Longrightarrow> is_lower_hex c"
  using is_digest_sha256_hex by (simp add: is_digest_def)

lemma is_digest_hmac [simp]: "is_digest (hmac_sha256_hex k m)"
  by (simp add: hmac_sha256_hex_def)

end
