(* ===== verification/Canonical.thy ===== *)
theory Canonical
  imports PyTime Json Digests
begin

text \<open>
  \<^verbatim>\<open>packages/domain/canonical.py\<close>: the canonical-JSON profile behind every domain digest.

  \<open>pyval\<close> is the union of the Python values \<^verbatim>\<open>to_canonical_primitive\<close> distinguishes. An object
  with a \<^verbatim>\<open>to_primitive\<close> method is represented by what that method returns. A \<^verbatim>\<open>StrEnum\<close>
  member is a \<^verbatim>\<open>str\<close> and is its value.
\<close>

section \<open>Values\<close>

text \<open>A \<^verbatim>\<open>decimal.Decimal\<close>: sign, coefficient and exponent, or a special value.\<close>

datatype decimal = Dec bool nat int | DInf bool | DNaN

datatype pykey = KStr pystr | KOther

datatype pyval =
    PNone
  | PBool bool
  | PInt int
  | PStr pystr
  | PFloat pystr
  | PDecimal decimal
  | PDatetime datetime
  | PEnum pyval
  | PObject pyval
  | PMap "(pykey \<times> pyval) list"
  | PSeq "pyval list"
  | POther pystr

section \<open>Timestamps\<close>

definition require_utc :: "datetime \<Rightarrow> pystr \<Rightarrow> exn + instant" where
  "require_utc value fld = (case utcoffset value of
      None \<Rightarrow> Inl (InvalidValue (fld @ '' must be timezone-aware''))
    | Some off \<Rightarrow> astimezone_utc (wall value) off)"

definition canonical_timestamp :: "datetime \<Rightarrow> exn + pystr" where
  "canonical_timestamp value = bindE (require_utc value ''timestamp'') (\<lambda>t. Inr (iso_timestamp t))"

definition parse_canonical_timestamp :: "pystr \<Rightarrow> exn + instant" where
  "parse_canonical_timestamp value = (case strptime value of
      None \<Rightarrow> Inl (InvalidValue ''timestamp is not in canonical UTC format'')
    | Some c \<Rightarrow> Inr (instant_of c))"

section \<open>Decimals\<close>

text \<open>\<^verbatim>\<open>format(value, "f")\<close> on a finite value.\<close>

fun format_f :: "decimal \<Rightarrow> pystr" where
  "format_f (Dec neg coeff ex) =
     (let digits = nat_str coeff;
          ex' = (if coeff = 0 \<and> ex > 0 then 0 else ex);
          dot = ex' + int (length digits);
          body = (if dot < 0 then ''0.'' @ replicate (nat (- dot)) (CHR ''0'') @ digits
                  else if dot \<ge> int (length digits)
                  then digits @ replicate (nat (dot - int (length digits))) (CHR ''0'')
                  else (if dot = 0 then ''0'' else take (nat dot) digits) @ ''.'' @ drop (nat dot) digits)
      in (if neg then ''-'' else []) @ body)"
| "format_f (DInf neg) = (if neg then ''-Infinity'' else ''Infinity'')"
| "format_f DNaN = ''NaN''"

definition strip_zeros :: "pystr \<Rightarrow> pystr" where
  "strip_zeros r = (if CHR ''.'' \<in> set r then rstrip_char (CHR ''.'') (rstrip_char (CHR ''0'') r) else r)"

fun is_finite :: "decimal \<Rightarrow> bool" where
  "is_finite (Dec _ _ _) = True"
| "is_finite _ = False"

definition decimal_string :: "decimal \<Rightarrow> exn + pystr" where
  "decimal_string value =
     (if \<not> is_finite value then Inl (InvalidValue ''non-finite Decimal is not canonical JSON evidence'')
      else (let rendered = strip_zeros (format_f value)
            in if rendered = [] \<or> rendered = ''-0'' then Inr ''0'' else Inr rendered))"

section \<open>Normalisation and printing\<close>

fun to_canonical_primitive :: "pyval \<Rightarrow> exn + json"
and canonical_items :: "(pykey \<times> pyval) list \<Rightarrow> (pystr \<times> json) list \<Rightarrow> exn + (pystr \<times> json) list"
and canonical_seq :: "pyval list \<Rightarrow> exn + json list" where
  "to_canonical_primitive PNone = Inr JNull"
| "to_canonical_primitive (PBool b) = Inr (JBool b)"
| "to_canonical_primitive (PInt i) = Inr (JInt i)"
| "to_canonical_primitive (PStr s) = Inr (JStr s)"
| "to_canonical_primitive (PFloat _) = Inl (InvalidValue ''float values are forbidden in canonical evidence'')"
| "to_canonical_primitive (PDecimal d) = bindE (decimal_string d) (\<lambda>s. Inr (JStr s))"
| "to_canonical_primitive (PDatetime t) = bindE (canonical_timestamp t) (\<lambda>s. Inr (JStr s))"
| "to_canonical_primitive (PEnum v) = to_canonical_primitive v"
| "to_canonical_primitive (PObject p) = to_canonical_primitive p"
| "to_canonical_primitive (PMap kvs) = bindE (canonical_items kvs []) (\<lambda>d. Inr (JObj d))"
| "to_canonical_primitive (PSeq vs) = bindE (canonical_seq vs) (\<lambda>js. Inr (JArr js))"
| "to_canonical_primitive (POther ty) =
     Inl (InvalidValue (''unsupported canonical JSON value type: '' @ ty))"
| "canonical_items [] normalized = Inr normalized"
| "canonical_items ((k, v) # kvs) normalized = (case k of
      KOther \<Rightarrow> Inl (InvalidValue ''canonical JSON object keys must be strings'')
    | KStr s \<Rightarrow> bindE (to_canonical_primitive v) (\<lambda>j. canonical_items kvs (dict_put s j normalized)))"
| "canonical_seq [] = Inr []"
| "canonical_seq (v # vs) =
     bindE (to_canonical_primitive v) (\<lambda>j. bindE (canonical_seq vs) (\<lambda>js. Inr (j # js)))"

definition canonical_json :: "pyval \<Rightarrow> exn + pystr" where
  "canonical_json value = bindE (to_canonical_primitive value) (\<lambda>j. Inr (dumps j))"

definition canonical_json_bytes :: "pyval \<Rightarrow> exn + bytes" where
  "canonical_json_bytes value = bindE (canonical_json value) (\<lambda>s. Inr (utf8 s))"

text \<open>What \<^verbatim>\<open>json.loads\<close> hands back, as a Python value.\<close>

fun py_of_json :: "json \<Rightarrow> pyval" where
  "py_of_json JNull = PNone"
| "py_of_json (JBool b) = PBool b"
| "py_of_json (JInt i) = PInt i"
| "py_of_json (JFloat t) = PFloat t"
| "py_of_json (JStr s) = PStr s"
| "py_of_json (JArr vs) = PSeq (map py_of_json vs)"
| "py_of_json (JObj kvs) = PMap (map (\<lambda>(k, v). (KStr k, py_of_json v)) kvs)"

text \<open>\<^verbatim>\<open>hashlib.sha256(canonical_json_bytes(value)).hexdigest()\<close> for a value that is already a
  canonical primitive.\<close>

definition canonical_digest :: "json \<Rightarrow> pystr" where
  "canonical_digest j = sha256_hex (utf8 (dumps j))"

section \<open>Timestamps: lemmas\<close>

lemma require_utc_utc [simp]: "in_range t \<Longrightarrow> require_utc (utc t) fld = Inr t"
  by (simp add: require_utc_def utc_def astimezone_utc_def add_time_def)

lemma require_utc_in_range [guards]: "require_utc d fld = Inr t \<Longrightarrow> in_range t"
  by (auto simp: require_utc_def astimezone_utc_def add_time_def split: option.splits if_splits)

lemma add_time_Inr [simp]: "add_time t d = Inr u \<longleftrightarrow> u = t + d \<and> in_range (t + d)"
  by (auto simp: add_time_def)

lemma canonical_timestamp_utc [simp]: "in_range t \<Longrightarrow> canonical_timestamp (utc t) = Inr (iso_timestamp t)"
  by (simp add: canonical_timestamp_def)

lemma parse_iso_timestamp:
  "1000 \<le> c_year (civil_of t) \<Longrightarrow> c_year (civil_of t) \<le> 9999 \<Longrightarrow>
     parse_canonical_timestamp (iso_timestamp t) = Inr t"
  by (simp add: parse_canonical_timestamp_def strptime_iso_timestamp instant_of_civil_of)

section \<open>Canonical values\<close>

lemma fst_set_dict_put [simp]: "fst ` set (dict_put k v d) = insert k (fst ` set d)"
proof (induction d)
  case (Cons kv d)
  then show ?case by (cases kv; cases "k = fst kv") (simp_all add: insert_commute)
qed simp

lemma distinct_dict_put: "distinct (map fst d) \<Longrightarrow> distinct (map fst (dict_put k v d))"
proof (induction d)
  case (Cons kv d)
  have "fst ` set (dict_put k v d) = insert k (fst ` set d)" by simp
  with Cons show ?case by (cases kv) (auto simp del: fst_set_dict_put)
qed simp

lemma list_all_dict_put:
  "list_all (\<lambda>(_, v). P v) d \<Longrightarrow> P v \<Longrightarrow> list_all (\<lambda>(_, v). P v) (dict_put k v d)"
  by (induction d) auto

lemma to_canonical_primitive_ok:
  "to_canonical_primitive v = Inr j \<Longrightarrow> json_ok j"
  "canonical_items kvs d = Inr d' \<Longrightarrow> json_ok (JObj d) \<Longrightarrow> json_ok (JObj d')"
  "canonical_seq vs = Inr js \<Longrightarrow> list_all json_ok js"
proof (induction v and kvs d and vs arbitrary: j and d' and js
    rule: to_canonical_primitive_canonical_items_canonical_seq.induct)
  case (14 k v kvs d)
  then obtain s i where "k = KStr s" "to_canonical_primitive v = Inr i"
    "canonical_items kvs (dict_put s i d) = Inr d'"
    by (auto split: pykey.splits)
  with 14 distinct_dict_put [of d s i] list_all_dict_put [of json_ok d i s] show ?case by simp
qed auto

lemma canonical_items_py_of_json:
  assumes "\<forall>(k, v)\<in>set kvs. to_canonical_primitive (py_of_json v) = Inr v" "distinct (map fst (d @ kvs))"
  shows "canonical_items (map (\<lambda>(k, v). (KStr k, py_of_json v)) kvs) d = Inr (d @ kvs)"
  using assms
proof (induction kvs arbitrary: d)
  case Nil
  then show ?case by simp
next
  case (Cons kv kvs)
  obtain k v where kv: "kv = (k, v)" by (cases kv)
  from Cons.prems have new: "dict_put k v d = d @ [(k, v)]" by (intro dict_put_new) (auto simp: kv)
  have "canonical_items (map (\<lambda>(k, v). (KStr k, py_of_json v)) kvs) (d @ [(k, v)]) = Inr ((d @ [(k, v)]) @ kvs)"
    using Cons.prems by (intro Cons.IH) (auto simp: kv)
  with Cons.prems show ?case by (simp add: kv new)
qed

lemma canonical_seq_py_of_json:
  "\<forall>v\<in>set vs. to_canonical_primitive (py_of_json v) = Inr v \<Longrightarrow> canonical_seq (map py_of_json vs) = Inr vs"
  by (induction vs) simp_all

text \<open>A float-free decoded value with distinct keys is its own canonical primitive.\<close>

lemma to_canonical_primitive_py_of_json: "json_ok j \<Longrightarrow> to_canonical_primitive (py_of_json j) = Inr j"
proof (induction j)
  case (JArr vs)
  then show ?case by (simp add: canonical_seq_py_of_json list_all_iff)
next
  case (JObj kvs)
  then have "\<forall>(k, v)\<in>set kvs. to_canonical_primitive (py_of_json v) = Inr v"
    by (fastforce simp: list_all_iff)
  with JObj.prems show ?case using canonical_items_py_of_json [of kvs "[]"] by simp
qed simp_all

lemma canonical_json_of_json: "json_ok j \<Longrightarrow> canonical_json (py_of_json j) = Inr (dumps j)"
  by (simp add: canonical_json_def to_canonical_primitive_py_of_json)

lemma canonical_digest_of_json:
  "json_ok j \<Longrightarrow> bindE (canonical_json_bytes (py_of_json j)) (\<lambda>b. Inr (sha256_hex b)) = Inr (canonical_digest j)"
  by (simp add: canonical_json_bytes_def canonical_json_of_json canonical_digest_def)

lemma is_digest_canonical [simp]: "is_digest (canonical_digest j)"
  by (simp add: canonical_digest_def)

text \<open>Canonical text decodes, and re-encoding the decoded value reproduces the text.\<close>

lemma canonical_json_loads:
  assumes "canonical_json v = Inr s"
  shows "\<exists>j. loads s = Some j \<and> json_ok j \<and> canonical_json (py_of_json j) = Inr s"
proof -
  from assms obtain j where j: "to_canonical_primitive v = Inr j" "s = dumps j"
    by (auto simp: canonical_json_def)
  then have ok: "json_ok j" using to_canonical_primitive_ok(1) by blast
  with j have "loads s = Some (canon j)" by (simp add: loads_dumps)
  moreover have "json_ok (canon j)" using ok by (rule json_ok_canon)
  ultimately show ?thesis using j ok
    by (simp add: canonical_json_def to_canonical_primitive_py_of_json dumps_canon)
qed

text \<open>Two values with the same canonical text have the same normal form.\<close>

lemma canonical_json_inj:
  assumes "canonical_json v = Inr s" "canonical_json w = Inr s"
  shows "\<exists>i j. to_canonical_primitive v = Inr i \<and> to_canonical_primitive w = Inr j \<and> canon i = canon j"
  using assms dumps_inj to_canonical_primitive_ok(1) by (fastforce simp: canonical_json_def)

end
