(* ===== verification/Values.thy ===== *)
theory Values
  imports Complex_Main Canonical
begin

text \<open>
  \<^verbatim>\<open>packages/domain/values.py\<close>: identifiers, the late-capture policy, money and probabilities.
  A dataclass is a record; its \<^verbatim>\<open>__post_init__\<close> is the \<open>mk_\<close> function that returns the record or
  the raised exception. What a \<^verbatim>\<open>to_primitive\<close> method returns is built from strings, integers,
  booleans, \<^verbatim>\<open>None\<close> and dictionaries of these, so it is given as a \<open>json\<close> value.
\<close>

section \<open>Identifiers\<close>

definition ident_start :: "char \<Rightarrow> bool" where
  "ident_start c = (is_upper c \<or> is_lower c \<or> is_digit c)"

definition ident_rest :: "char \<Rightarrow> bool" where
  "ident_rest c = (ident_start c \<or> c = CHR ''_'' \<or> c = CHR ''.'' \<or> c = CHR '':'' \<or> c = CHR ''-'')"

text \<open>\<^verbatim>\<open>^[A-Za-z0-9][A-Za-z0-9_.:-]{0,127}$\<close>\<close>

definition is_identifier :: "pystr \<Rightarrow> bool" where
  "is_identifier s = (case s of [] \<Rightarrow> False
     | c # r \<Rightarrow> ident_start c \<and> list_all ident_rest r \<and> length r \<le> 127)"

definition require_identifier :: "pystr \<Rightarrow> pystr \<Rightarrow> exn + pystr" where
  "require_identifier value fld =
     (if is_identifier value then Inr value
      else Inl (InvalidValue (fld @ '' must be 1-128 safe identifier characters'')))"

text \<open>\<^verbatim>\<open>^[a-z][a-z0-9_-]{0,31}$\<close>\<close>

definition is_payment_method :: "pystr \<Rightarrow> bool" where
  "is_payment_method s = (case s of [] \<Rightarrow> False
     | c # r \<Rightarrow> is_lower c \<and> length r \<le> 31
          \<and> list_all (\<lambda>d. is_lower d \<or> is_digit d \<or> d = CHR ''_'' \<or> d = CHR ''-'') r)"

definition require_payment_method :: "pystr \<Rightarrow> pystr \<Rightarrow> exn + pystr" where
  "require_payment_method value fld =
     (if is_payment_method value then Inr value
      else Inl (InvalidValue (fld @ '' must be a canonical lowercase payment-method identifier'')))"

section \<open>Late-capture policy\<close>

definition MINIMUM_LATE_CAPTURE_WINDOW :: timedelta where
  "MINIMUM_LATE_CAPTURE_WINDOW = 2 * us_minute"

record late_capture_policy =
  minimum_observation_window :: timedelta

definition mk_late_capture_policy :: "timedelta \<Rightarrow> exn + late_capture_policy" where
  "mk_late_capture_policy window =
     (if window < MINIMUM_LATE_CAPTURE_WINDOW
      then Inl (InvalidValue ''minimum_observation_window is below the safety floor'')
      else Inr \<lparr>minimum_observation_window = window\<rparr>)"

definition observation_deadline ::
  "late_capture_policy \<Rightarrow> datetime \<Rightarrow> datetime option \<Rightarrow> exn + instant" where
  "observation_deadline policy observed_at extend_until =
     bindE (require_utc observed_at ''observed_at'') (\<lambda>observed.
     bindE (add_time observed (minimum_observation_window policy)) (\<lambda>policy_deadline.
     case extend_until of
       None \<Rightarrow> Inr policy_deadline
     | Some e \<Rightarrow> bindE (require_utc e ''extend_observation_until'') (\<lambda>requested.
         Inr (max policy_deadline requested))))"

definition policy_to_primitive :: "late_capture_policy \<Rightarrow> json" where
  "policy_to_primitive policy =
     (let w = minimum_observation_window policy;
          days = w div us_day; seconds = w mod us_day div us_second; micros = w mod us_second
      in JObj [(''minimum_observation_microseconds'',
                JInt (((days * 86400) + seconds) * 1000000 + micros))])"

section \<open>Money\<close>

record money =
  minor_units :: int
  currency :: pystr

text \<open>\<^verbatim>\<open>^[A-Z]{3}$\<close>\<close>

definition is_currency :: "pystr \<Rightarrow> bool" where
  "is_currency s = (length s = 3 \<and> list_all is_upper s)"

definition mk_money :: "int \<Rightarrow> pystr \<Rightarrow> exn + money" where
  "mk_money units cur =
     (if units < 0 then Inl (InvalidValue ''money cannot be negative'')
      else if \<not> is_currency cur then Inl (InvalidValue ''currency must be three uppercase ASCII letters'')
      else Inr \<lparr>minor_units = units, currency = cur\<rparr>)"

definition money_zero :: "pystr \<Rightarrow> exn + money" where
  "money_zero cur = mk_money 0 cur"

definition require_same_currency :: "money \<Rightarrow> money \<Rightarrow> exn + unit" where
  "require_same_currency a b =
     raise_if (currency a \<noteq> currency b)
       (InvalidValue (''currency mismatch: '' @ currency a @ '' != '' @ currency b))"

definition money_add :: "money \<Rightarrow> money \<Rightarrow> exn + money" where
  "money_add a b = bindE (require_same_currency a b) (\<lambda>_. mk_money (minor_units a + minor_units b) (currency a))"

definition money_sub :: "money \<Rightarrow> money \<Rightarrow> exn + money" where
  "money_sub a b = bindE (require_same_currency a b) (\<lambda>_.
     let result = minor_units a - minor_units b
     in if result < 0 then Inl (InvalidValue ''money subtraction cannot produce a negative amount'')
        else mk_money result (currency a))"

definition money_to_primitive :: "money \<Rightarrow> json" where
  "money_to_primitive m = JObj [(''currency'', JStr (currency m)), (''minor_units'', JInt (minor_units m))]"

definition money_ok :: "money \<Rightarrow> bool" where
  "money_ok m = (0 \<le> minor_units m \<and> is_currency (currency m))"

section \<open>Probability\<close>

text \<open>What may be passed to the constructor.\<close>

datatype prob_arg = ArgDecimal decimal | ArgInt int | ArgStr pystr | ArgBool bool | ArgFloat pystr

text \<open>\<^verbatim>\<open>Decimal(s)\<close>: surrounding blanks and underscores are dropped, then a sign, digits with an
  optional point, an optional exponent, or a special value. \<open>None\<close> is \<^verbatim>\<open>InvalidOperation\<close>.\<close>

definition decimal_exponent :: "pystr \<Rightarrow> int option" where
  "decimal_exponent s = (case s of
      [] \<Rightarrow> Some 0
    | c # r \<Rightarrow>
       (if c \<noteq> CHR ''e'' \<and> c \<noteq> CHR ''E'' then None
        else (let neg = (r \<noteq> [] \<and> hd r = CHR ''-'');
                  ds = (if r \<noteq> [] \<and> (hd r = CHR ''-'' \<or> hd r = CHR ''+'') then tl r else r)
              in if ds \<noteq> [] \<and> all_digits ds
                 then Some (if neg then - int (digits_val ds) else int (digits_val ds)) else None)))"

definition decimal_number :: "bool \<Rightarrow> pystr \<Rightarrow> decimal option" where
  "decimal_number neg s =
     (let ip = takeWhile is_digit s; r = dropWhile is_digit s;
          fp = (if r \<noteq> [] \<and> hd r = CHR ''.'' then takeWhile is_digit (tl r) else []);
          r' = (if r \<noteq> [] \<and> hd r = CHR ''.'' then dropWhile is_digit (tl r) else r)
      in if ip = [] \<and> fp = [] then None
         else (case decimal_exponent r' of None \<Rightarrow> None
            | Some e \<Rightarrow> Some (Dec neg (digits_val (ip @ fp)) (e - int (length fp)))))"

definition decimal_special :: "bool \<Rightarrow> pystr \<Rightarrow> decimal option" where
  "decimal_special neg s =
     (if lower s = ''inf'' \<or> lower s = ''infinity'' then Some (DInf neg)
      else if lower (take 3 s) = ''nan'' \<and> all_digits (drop 3 s) then Some DNaN
      else if lower (take 4 s) = ''snan'' \<and> all_digits (drop 4 s) then Some DNaN else None)"

definition decimal_of_string :: "pystr \<Rightarrow> decimal option" where
  "decimal_of_string txt =
     (let s = filter (\<lambda>c. c \<noteq> CHR ''_'') (strip txt);
          neg = (s \<noteq> [] \<and> hd s = CHR ''-'');
          u = (if s \<noteq> [] \<and> (hd s = CHR ''-'' \<or> hd s = CHR ''+'') then tl s else s)
      in case decimal_special neg u of Some d \<Rightarrow> Some d | None \<Rightarrow> decimal_number neg u)"

text \<open>Exact comparison of finite decimals: scale both coefficients to the smaller exponent.\<close>

fun scaled :: "int \<Rightarrow> decimal \<Rightarrow> int" where
  "scaled m (Dec neg c e) = (if neg then - int c else int c) * 10 ^ nat (e - m)"
| "scaled m _ = 0"

fun exponent :: "decimal \<Rightarrow> int" where
  "exponent (Dec _ _ e) = e"
| "exponent _ = 0"

definition dec_less :: "decimal \<Rightarrow> decimal \<Rightarrow> bool" where
  "dec_less a b = (let m = min (exponent a) (exponent b) in scaled m a < scaled m b)"

definition dec_le :: "decimal \<Rightarrow> decimal \<Rightarrow> bool" where
  "dec_le a b = (let m = min (exponent a) (exponent b) in scaled m a \<le> scaled m b)"

record probability =
  prob_value :: decimal

definition dec_of_int :: "int \<Rightarrow> decimal" where
  "dec_of_int i = Dec (i < 0) (nat \<bar>i\<bar>) 0"

definition check_probability :: "decimal \<Rightarrow> exn + probability" where
  "check_probability parsed =
     (if \<not> is_finite parsed \<or> dec_less parsed (dec_of_int 0) \<or> dec_less (dec_of_int 1) parsed
      then Inl (InvalidValue ''probability must be finite and within [0, 1]'')
      else Inr \<lparr>prob_value = parsed\<rparr>)"

fun mk_probability :: "prob_arg \<Rightarrow> exn + probability" where
  "mk_probability (ArgBool _) = Inl (InvalidValue ''probability must use Decimal, string, or integer'')"
| "mk_probability (ArgFloat _) = Inl (InvalidValue ''probability must use Decimal, string, or integer'')"
| "mk_probability (ArgDecimal d) = check_probability d"
| "mk_probability (ArgInt i) = check_probability (dec_of_int i)"
| "mk_probability (ArgStr s) = (case decimal_of_string s of
      None \<Rightarrow> Inl (InvalidValue ''probability is not a valid decimal'')
    | Some d \<Rightarrow> check_probability d)"

definition prob_less :: "probability \<Rightarrow> probability \<Rightarrow> bool" where
  "prob_less p q = dec_less (prob_value p) (prob_value q)"

definition prob_le :: "probability \<Rightarrow> probability \<Rightarrow> bool" where
  "prob_le p q = dec_le (prob_value p) (prob_value q)"

definition prob_to_primitive :: "probability \<Rightarrow> pystr" where
  "prob_to_primitive p =
     (let rendered = strip_zeros (format_f (prob_value p)) in if rendered = [] then ''0'' else rendered)"

section \<open>Identifiers: lemmas\<close>

lemma require_identifier_Inr [simp]: "require_identifier s f = Inr t \<longleftrightarrow> is_identifier s \<and> t = s"
  by (auto simp: require_identifier_def)

lemma require_identifier_ok [simp]: "is_identifier s \<Longrightarrow> require_identifier s f = Inr s"
  by (simp add: require_identifier_def)

lemma require_payment_method_Inr [simp]: "require_payment_method s f = Inr t \<longleftrightarrow> is_payment_method s \<and> t = s"
  by (auto simp: require_payment_method_def)

lemma require_payment_method_ok [simp]: "is_payment_method s \<Longrightarrow> require_payment_method s f = Inr s"
  by (simp add: require_payment_method_def)

lemma lower_hex_ident: "is_lower_hex c \<Longrightarrow> ident_rest c"
  by (auto simp: is_lower_hex_def ident_rest_def ident_start_def is_lower_def)

section \<open>Deadlines: lemmas\<close>

lemma observation_deadline_floor:
  assumes "observation_deadline p o_at ext = Inr d"
  obtains t where "require_utc o_at ''observed_at'' = Inr t" "t + minimum_observation_window p \<le> d" "in_range d"
  using assms by (auto simp: observation_deadline_def split: option.splits dest: require_utc_in_range)
     (auto simp: max_def dest: require_utc_in_range split: if_splits)

lemma window_microseconds:
  "(((w div us_day) * 86400) + w mod us_day div us_second) * 1000000 + w mod us_second = w"
proof -
  have "w mod us_day mod us_second = w mod us_second"
    unfolding us_day_def by (rule mod_mod_cancel) simp
  then have "w mod us_day div us_second * us_second + w mod us_second = w mod us_day"
    using div_mult_mod_eq [of "w mod us_day" us_second] by simp
  moreover define q r where "q = w div us_day" and "r = w mod us_day"
  moreover have "q * us_day + r = w" unfolding q_def r_def by (rule div_mult_mod_eq)
  ultimately have "q * 86400 * us_second + (r div us_second * us_second + w mod us_second) = w"
    by (simp add: us_day_def mult.assoc)
  then have "(q * 86400 + r div us_second) * us_second + w mod us_second = w"
    by (simp only: distrib_right add.assoc)
  then show ?thesis unfolding q_def r_def us_second_def .
qed

section \<open>Money: lemmas\<close>

lemma mk_money_Inr [simp]:
  "mk_money u c = Inr m \<longleftrightarrow> 0 \<le> u \<and> is_currency c \<and> m = \<lparr>minor_units = u, currency = c\<rparr>"
  by (auto simp: mk_money_def)

lemma money_add_Inr:
  assumes "money_ok a" "money_ok b"
  shows "money_add a b = Inr m \<longleftrightarrow>
    currency a = currency b \<and> m = \<lparr>minor_units = minor_units a + minor_units b, currency = currency a\<rparr>"
  using assms by (auto simp: money_add_def require_same_currency_def money_ok_def)

lemma money_sub_Inr:
  assumes "money_ok a" "money_ok b"
  shows "money_sub a b = Inr m \<longleftrightarrow>
    currency a = currency b \<and> minor_units b \<le> minor_units a
    \<and> m = \<lparr>minor_units = minor_units a - minor_units b, currency = currency a\<rparr>"
  using assms by (auto simp: money_sub_def require_same_currency_def money_ok_def Let_def)

section \<open>Probabilities: lemmas\<close>

fun dec_rat :: "decimal \<Rightarrow> rat" where
  "dec_rat (Dec neg c e) = of_int (if neg then - int c else int c) * 10 powi e"
| "dec_rat _ = 0"

lemma scaled_rat: "is_finite a \<Longrightarrow> m \<le> exponent a \<Longrightarrow> of_int (scaled m a) = dec_rat a * 10 powi (- m)"
proof (cases a)
  case (Dec neg c e)
  assume "m \<le> exponent a"
  then have "(10 :: rat) ^ nat (e - m) = 10 powi (e + - m)"
    by (simp add: Dec power_int_def)
  also have "\<dots> = 10 powi e * 10 powi (- m)" by (rule power_int_add) simp
  finally have "(10 :: rat) ^ nat (e - m) = 10 powi e * 10 powi (- m)" .
  then show ?thesis by (simp add: Dec)
qed simp_all

lemma dec_less_rat: "is_finite a \<Longrightarrow> is_finite b \<Longrightarrow> dec_less a b \<longleftrightarrow> dec_rat a < dec_rat b"
proof -
  assume fin: "is_finite a" "is_finite b"
  let ?m = "min (exponent a) (exponent b)"
  have "dec_less a b \<longleftrightarrow> (of_int (scaled ?m a) :: rat) < of_int (scaled ?m b)"
    by (simp add: dec_less_def Let_def)
  also have "\<dots> \<longleftrightarrow> dec_rat a < dec_rat b"
    using fin by (simp add: scaled_rat)
  finally show ?thesis .
qed

lemma check_probability_Inr:
  "check_probability d = Inr p \<longleftrightarrow>
     is_finite d \<and> 0 \<le> dec_rat d \<and> dec_rat d \<le> 1 \<and> p = \<lparr>prob_value = d\<rparr>"
proof (cases "is_finite d")
  case True
  moreover have "dec_rat (dec_of_int 0) = 0" "dec_rat (dec_of_int 1) = 1" "is_finite (dec_of_int i)" for i
    by (simp_all add: dec_of_int_def)
  ultimately show ?thesis by (auto simp: check_probability_def dec_less_rat not_less)
qed (simp add: check_probability_def)

end
