(* ===== verification/Actions.thy ===== *)
theory Actions
  imports Values
begin

text \<open>
  \<^verbatim>\<open>packages/domain/actions.py\<close>: the closed action catalogue, proposals and approvals. A
  constructor receives the two times as \<^verbatim>\<open>datetime\<close> arguments and the other fields in a record;
  the constructed record holds the times as UTC instants.
\<close>

section \<open>The catalogue\<close>

datatype action_type =
    WAIT | CREATE_STANDARD_PAYMENT_LINK | NOTIFY_EXISTING_LINK | CANCEL_PAYMENT_LINK | ESCALATE | STOP

fun action_value :: "action_type \<Rightarrow> pystr" where
  "action_value WAIT = ''wait''"
| "action_value CREATE_STANDARD_PAYMENT_LINK = ''create_standard_payment_link''"
| "action_value NOTIFY_EXISTING_LINK = ''notify_existing_link''"
| "action_value CANCEL_PAYMENT_LINK = ''cancel_payment_link''"
| "action_value ESCALATE = ''escalate''"
| "action_value STOP = ''stop''"

definition COLLECTION_ACTIONS :: "action_type list" where
  "COLLECTION_ACTIONS = [CREATE_STANDARD_PAYMENT_LINK, NOTIFY_EXISTING_LINK]"

definition CONTACT_ACTIONS :: "action_type list" where
  "CONTACT_ACTIONS = [NOTIFY_EXISTING_LINK]"

definition PROTECTIVE_ACTIONS :: "action_type list" where
  "PROTECTIVE_ACTIONS = [CANCEL_PAYMENT_LINK]"

definition INTERNAL_ACTIONS :: "action_type list" where
  "INTERNAL_ACTIONS = [WAIT, ESCALATE, STOP]"

definition EXTERNAL_ACTIONS :: "action_type list" where
  "EXTERNAL_ACTIONS = COLLECTION_ACTIONS @ PROTECTIVE_ACTIONS"

section \<open>Proposals\<close>

record action_proposal =
  p_proposal_id :: pystr
  p_merchant_id :: pystr
  p_case_id :: pystr
  p_decision_version :: int
  p_action_type :: action_type
  p_created_at :: instant
  p_expires_at :: instant
  p_attempt_ordinal :: int
  p_amount :: "money option"
  p_payment_method :: "pystr option"
  p_expected_value_minor :: "int option"
  p_model_confidence :: "probability option"
  p_requires_approval :: bool
  p_instrument_reference :: "pystr option"

definition check_collection_fields :: "action_proposal \<Rightarrow> exn + unit" where
  "check_collection_fields p =
     (if p_action_type p \<in> set COLLECTION_ACTIONS
      then bindE (raise_if (case p_amount p of None \<Rightarrow> True | Some m \<Rightarrow> minor_units m = 0)
             (InvalidValue ''collection proposals require a positive amount'')) (\<lambda>_.
           raise_if (p_payment_method p = None)
             (InvalidValue ''collection proposals require a payment method''))
      else raise_if (p_amount p \<noteq> None \<or> p_payment_method p \<noteq> None)
             (InvalidValue ''non-collection proposals cannot carry amount or payment method''))"

definition check_instrument_field :: "action_proposal \<Rightarrow> exn + unit" where
  "check_instrument_field p =
     (if p_action_type p = CANCEL_PAYMENT_LINK
      then raise_if (p_instrument_reference p = None)
             (InvalidValue ''cancellation requires an instrument reference'')
      else raise_if (p_instrument_reference p \<noteq> None)
             (InvalidValue ''only cancellation proposals carry an instrument reference''))"

definition mk_action_proposal :: "action_proposal \<Rightarrow> datetime \<Rightarrow> datetime \<Rightarrow> exn + action_proposal" where
  "mk_action_proposal p created expires =
     bindE (require_identifier (p_proposal_id p) ''proposal_id'') (\<lambda>_.
     bindE (require_identifier (p_merchant_id p) ''merchant_id'') (\<lambda>_.
     bindE (require_identifier (p_case_id p) ''case_id'') (\<lambda>_.
     bindE (raise_if (p_decision_version p < 1) (InvalidValue ''decision_version must be a positive integer'')) (\<lambda>_.
     bindE (raise_if (p_attempt_ordinal p < 1) (InvalidValue ''attempt_ordinal must be a positive integer'')) (\<lambda>_.
     bindE (require_utc created ''created_at'') (\<lambda>created_at.
     bindE (require_utc expires ''expires_at'') (\<lambda>expires_at.
     bindE (raise_if (expires_at \<le> created_at) (InvalidValue ''proposal expires_at must be after created_at'')) (\<lambda>_.
     bindE (option_checkE (\<lambda>m. require_payment_method m ''payment_method'') (p_payment_method p)) (\<lambda>_.
     bindE (option_checkE (\<lambda>i. require_identifier i ''instrument_reference'') (p_instrument_reference p)) (\<lambda>_.
     bindE (check_collection_fields p) (\<lambda>_.
     bindE (check_instrument_field p) (\<lambda>_.
     Inr (p\<lparr>p_created_at := created_at, p_expires_at := expires_at\<rparr>)))))))))))))"

definition action_key :: "action_proposal \<Rightarrow> pystr" where
  "action_key p =
     ''act_'' @ canonical_digest (JObj
       [(''action_type'', JStr (action_value (p_action_type p))),
        (''attempt_ordinal'', JInt (p_attempt_ordinal p)),
        (''case_id'', JStr (p_case_id p)),
        (''decision_version'', JInt (p_decision_version p)),
        (''merchant_id'', JStr (p_merchant_id p)),
        (''schema'', JStr ''retrywise-action-key-v1'')])"

definition json_opt :: "('a \<Rightarrow> json) \<Rightarrow> 'a option \<Rightarrow> json" where
  "json_opt f x = (case x of None \<Rightarrow> JNull | Some y \<Rightarrow> f y)"

definition proposal_to_primitive :: "action_proposal \<Rightarrow> json" where
  "proposal_to_primitive p = JObj
     [(''action_key'', JStr (action_key p)),
      (''action_type'', JStr (action_value (p_action_type p))),
      (''amount'', json_opt money_to_primitive (p_amount p)),
      (''attempt_ordinal'', JInt (p_attempt_ordinal p)),
      (''case_id'', JStr (p_case_id p)),
      (''created_at'', JStr (iso_timestamp (p_created_at p))),
      (''decision_version'', JInt (p_decision_version p)),
      (''expected_value_minor'', json_opt JInt (p_expected_value_minor p)),
      (''expires_at'', JStr (iso_timestamp (p_expires_at p))),
      (''instrument_reference'', json_opt JStr (p_instrument_reference p)),
      (''merchant_id'', JStr (p_merchant_id p)),
      (''model_confidence'', json_opt (\<lambda>q. JStr (prob_to_primitive q)) (p_model_confidence p)),
      (''payment_method'', json_opt JStr (p_payment_method p)),
      (''proposal_id'', JStr (p_proposal_id p)),
      (''requires_approval'', JBool (p_requires_approval p))]"

definition proposal_digest :: "action_proposal \<Rightarrow> pystr" where
  "proposal_digest p = canonical_digest (proposal_to_primitive p)"

section \<open>Approvals\<close>

record approval =
  a_approval_id :: pystr
  a_merchant_id :: pystr
  a_case_id :: pystr
  a_action_key :: pystr
  a_proposal_digest :: pystr
  a_decision_version :: int
  a_approved_by :: pystr
  a_approved_at :: instant
  a_expires_at :: instant
  a_granted :: bool

definition mk_approval :: "approval \<Rightarrow> datetime \<Rightarrow> datetime \<Rightarrow> exn + approval" where
  "mk_approval a approved expires =
     bindE (require_identifier (a_approval_id a) ''approval_id'') (\<lambda>_.
     bindE (require_identifier (a_merchant_id a) ''merchant_id'') (\<lambda>_.
     bindE (require_identifier (a_case_id a) ''case_id'') (\<lambda>_.
     bindE (require_identifier (a_approved_by a) ''approved_by'') (\<lambda>_.
     bindE (raise_if (\<not> startswith (a_action_key a) ''act_'') (InvalidValue ''approval action_key is invalid'')) (\<lambda>_.
     bindE (raise_if (\<not> is_digest (a_proposal_digest a)) (InvalidValue ''approval proposal_digest is invalid'')) (\<lambda>_.
     bindE (raise_if (a_decision_version a < 1) (InvalidValue ''approval decision_version must be positive'')) (\<lambda>_.
     bindE (require_utc approved ''approved_at'') (\<lambda>approved_at.
     bindE (require_utc expires ''expires_at'') (\<lambda>expires_at.
     bindE (raise_if (expires_at \<le> approved_at) (InvalidValue ''approval expires_at must be after approved_at'')) (\<lambda>_.
     Inr (a\<lparr>a_approved_at := approved_at, a_expires_at := expires_at\<rparr>)))))))))))"

definition approval_to_primitive :: "approval \<Rightarrow> json" where
  "approval_to_primitive a = JObj
     [(''action_key'', JStr (a_action_key a)),
      (''approval_id'', JStr (a_approval_id a)),
      (''approved_at'', JStr (iso_timestamp (a_approved_at a))),
      (''approved_by'', JStr (a_approved_by a)),
      (''case_id'', JStr (a_case_id a)),
      (''decision_version'', JInt (a_decision_version a)),
      (''expires_at'', JStr (iso_timestamp (a_expires_at a))),
      (''granted'', JBool (a_granted a)),
      (''merchant_id'', JStr (a_merchant_id a)),
      (''proposal_digest'', JStr (a_proposal_digest a))]"

section \<open>Lemmas\<close>

lemma action_value_inj: "action_value s = action_value t \<Longrightarrow> s = t"
  by (cases s; cases t) simp_all

text \<open>Every action is exactly one of collection, protective and internal.\<close>

lemma action_partition:
  "a \<in> set EXTERNAL_ACTIONS \<longleftrightarrow> a \<notin> set INTERNAL_ACTIONS"
  by (cases a) (simp_all add: EXTERNAL_ACTIONS_def COLLECTION_ACTIONS_def PROTECTIVE_ACTIONS_def INTERNAL_ACTIONS_def)

lemmas action_sets = COLLECTION_ACTIONS_def CONTACT_ACTIONS_def PROTECTIVE_ACTIONS_def
  INTERNAL_ACTIONS_def EXTERNAL_ACTIONS_def

lemma length_action_key: "length (action_key p) = 68"
  using is_digest_canonical by (simp add: action_key_def is_digest_def)

lemma action_key_prefix [simp]: "startswith (action_key p) ''act_''"
  by (simp add: startswith_def action_key_def)

lemma list_all_digest_ident: "is_digest d \<Longrightarrow> list_all ident_rest d"
  by (auto simp: is_digest_def list_all_iff lower_hex_ident)

lemma is_identifier_action_key [simp]: "is_identifier (action_key p)"
  using list_all_digest_ident [OF is_digest_canonical] is_digest_canonical
  by (simp add: is_identifier_def action_key_def is_digest_def ident_rest_def ident_start_def is_lower_def)

lemma is_digest_proposal [simp]: "is_digest (proposal_digest p)"
  by (simp add: proposal_digest_def)

lemma json_ok_opt: "(\<And>y. json_ok (f y)) \<Longrightarrow> json_ok (json_opt f x)"
  by (simp add: json_opt_def split: option.split)

lemma json_ok_money [simp]: "json_ok (money_to_primitive m)"
  by (simp add: money_to_primitive_def)

lemma json_ok_proposal [simp]: "json_ok (proposal_to_primitive p)"
  by (simp add: proposal_to_primitive_def json_ok_opt)

lemma json_ok_approval [simp]: "json_ok (approval_to_primitive a)"
  by (simp add: approval_to_primitive_def)

text \<open>The material of the action key is a function of the case, the decision and the attempt:
  equal material means equal fields.\<close>

definition action_material :: "action_proposal \<Rightarrow> json" where
  "action_material p = JObj
       [(''action_type'', JStr (action_value (p_action_type p))),
        (''attempt_ordinal'', JInt (p_attempt_ordinal p)),
        (''case_id'', JStr (p_case_id p)),
        (''decision_version'', JInt (p_decision_version p)),
        (''merchant_id'', JStr (p_merchant_id p)),
        (''schema'', JStr ''retrywise-action-key-v1'')]"

lemma action_key_material: "action_key p = ''act_'' @ sha256_hex (utf8 (dumps (action_material p)))"
  by (simp add: action_key_def action_material_def canonical_digest_def)

lemma action_material_sorted: "sorted_json (action_material p)" "json_ok (action_material p)"
  by (simp_all add: action_material_def)

lemma action_material_inj:
  assumes "dumps (action_material p) = dumps (action_material q)"
  shows "p_action_type p = p_action_type q \<and> p_attempt_ordinal p = p_attempt_ordinal q
    \<and> p_case_id p = p_case_id q \<and> p_decision_version p = p_decision_version q
    \<and> p_merchant_id p = p_merchant_id q"
proof -
  have "action_material p = action_material q"
    using dumps_inj [OF action_material_sorted(2,2) assms] canon_sorted [OF action_material_sorted(1)]
    by metis
  then show ?thesis by (simp add: action_material_def action_value_inj)
qed

end
