(* ===== verification/States.thy ===== *)
theory States
  imports Errors
begin

text \<open>
  \<^verbatim>\<open>packages/domain/states.py\<close>: the three closed state vocabularies and their transition graphs.
  A member's \<^verbatim>\<open>.value\<close> is given by the \<open>_value\<close> function of its type. A graph is a function
  from a state to the list of its successors.
\<close>

section \<open>Vocabularies\<close>

datatype canonical_payment_state =
  UNKNOWN | UNPAID | AUTHORIZED | PARTIALLY_PAID | PAID | OVERPAID | EXCEPTION

datatype recovery_state =
    DORMANT | OBSERVING | ASSESSING | WAITING | APPROVAL_REQUIRED | ACTION_QUEUED | EXECUTING
  | ACTION_UNCERTAIN | ACTIVE | RECOVERED | SUPPRESSED_PAID | SUPPRESSED_POLICY | EXHAUSTED
  | FAILED_SAFE | ESCALATED | DUPLICATE_REVIEW

datatype incident_state = NORMAL | SUSPECTED | CONFIRMED | COOLING

fun payment_value :: "canonical_payment_state \<Rightarrow> pystr" where
  "payment_value UNKNOWN = ''unknown''"
| "payment_value UNPAID = ''unpaid''"
| "payment_value AUTHORIZED = ''authorized''"
| "payment_value PARTIALLY_PAID = ''partially_paid''"
| "payment_value PAID = ''paid''"
| "payment_value OVERPAID = ''overpaid''"
| "payment_value EXCEPTION = ''exception''"

fun recovery_value :: "recovery_state \<Rightarrow> pystr" where
  "recovery_value DORMANT = ''dormant''"
| "recovery_value OBSERVING = ''observing''"
| "recovery_value ASSESSING = ''assessing''"
| "recovery_value WAITING = ''waiting''"
| "recovery_value APPROVAL_REQUIRED = ''approval_required''"
| "recovery_value ACTION_QUEUED = ''action_queued''"
| "recovery_value EXECUTING = ''executing''"
| "recovery_value ACTION_UNCERTAIN = ''action_uncertain''"
| "recovery_value ACTIVE = ''active''"
| "recovery_value RECOVERED = ''recovered''"
| "recovery_value SUPPRESSED_PAID = ''suppressed_paid''"
| "recovery_value SUPPRESSED_POLICY = ''suppressed_policy''"
| "recovery_value EXHAUSTED = ''exhausted''"
| "recovery_value FAILED_SAFE = ''failed_safe''"
| "recovery_value ESCALATED = ''escalated''"
| "recovery_value DUPLICATE_REVIEW = ''duplicate_review''"

fun incident_value :: "incident_state \<Rightarrow> pystr" where
  "incident_value NORMAL = ''normal''"
| "incident_value SUSPECTED = ''suspected''"
| "incident_value CONFIRMED = ''confirmed''"
| "incident_value COOLING = ''cooling''"

definition all_recovery_states :: "recovery_state list" where
  "all_recovery_states =
     [DORMANT, OBSERVING, ASSESSING, WAITING, APPROVAL_REQUIRED, ACTION_QUEUED, EXECUTING,
      ACTION_UNCERTAIN, ACTIVE, RECOVERED, SUPPRESSED_PAID, SUPPRESSED_POLICY, EXHAUSTED,
      FAILED_SAFE, ESCALATED, DUPLICATE_REVIEW]"

definition COLLECTION_TERMINAL_STATES :: "recovery_state list" where
  "COLLECTION_TERMINAL_STATES =
     [RECOVERED, SUPPRESSED_PAID, SUPPRESSED_POLICY, EXHAUSTED, FAILED_SAFE, ESCALATED,
      DUPLICATE_REVIEW]"

definition NONTERMINAL_RECOVERY_STATES :: "recovery_state list" where
  "NONTERMINAL_RECOVERY_STATES =
     filter (\<lambda>s. s \<notin> set COLLECTION_TERMINAL_STATES) all_recovery_states"

section \<open>Graphs\<close>

fun payment_transitions :: "canonical_payment_state \<Rightarrow> canonical_payment_state list" where
  "payment_transitions UNKNOWN = [UNPAID, AUTHORIZED, PARTIALLY_PAID, PAID, OVERPAID, EXCEPTION]"
| "payment_transitions UNPAID = [AUTHORIZED, PARTIALLY_PAID, PAID, OVERPAID, EXCEPTION]"
| "payment_transitions AUTHORIZED = [PARTIALLY_PAID, PAID, OVERPAID, EXCEPTION]"
| "payment_transitions PARTIALLY_PAID = [PAID, OVERPAID, EXCEPTION]"
| "payment_transitions PAID = [OVERPAID, EXCEPTION]"
| "payment_transitions OVERPAID = [EXCEPTION]"
| "payment_transitions EXCEPTION = []"

fun recovery_transitions :: "recovery_state \<Rightarrow> recovery_state list" where
  "recovery_transitions DORMANT = [OBSERVING]"
| "recovery_transitions OBSERVING = [ASSESSING, SUPPRESSED_PAID]"
| "recovery_transitions ASSESSING =
     [WAITING, APPROVAL_REQUIRED, ACTION_QUEUED, EXHAUSTED, SUPPRESSED_POLICY, SUPPRESSED_PAID, ESCALATED]"
| "recovery_transitions WAITING = [ASSESSING, SUPPRESSED_PAID, SUPPRESSED_POLICY, EXHAUSTED]"
| "recovery_transitions APPROVAL_REQUIRED = [ACTION_QUEUED, SUPPRESSED_POLICY, SUPPRESSED_PAID]"
| "recovery_transitions ACTION_QUEUED = [EXECUTING, SUPPRESSED_PAID, SUPPRESSED_POLICY]"
| "recovery_transitions EXECUTING = [ACTIVE, ACTION_UNCERTAIN, FAILED_SAFE, SUPPRESSED_PAID]"
| "recovery_transitions ACTION_UNCERTAIN = [ACTIVE, ACTION_QUEUED, ESCALATED, SUPPRESSED_PAID]"
| "recovery_transitions ACTIVE = [RECOVERED, SUPPRESSED_PAID, ASSESSING, EXHAUSTED]"
| "recovery_transitions _ = []"

fun incident_transitions :: "incident_state \<Rightarrow> incident_state list" where
  "incident_transitions NORMAL = [SUSPECTED]"
| "incident_transitions SUSPECTED = [CONFIRMED, NORMAL]"
| "incident_transitions CONFIRMED = [COOLING]"
| "incident_transitions COOLING = [CONFIRMED, NORMAL]"

section \<open>Validation\<close>

definition validate_transition ::
  "pystr \<Rightarrow> 's \<Rightarrow> 's \<Rightarrow> ('s \<Rightarrow> 's list) \<Rightarrow> ('s \<Rightarrow> pystr) \<Rightarrow> exn + bool" where
  "validate_transition machine current target graph value_of =
     (if current = target then Inr False
      else if target \<notin> set (graph current)
      then Inl (InvalidTransition machine (value_of current) (value_of target))
      else Inr True)"

definition validate_payment_transition ::
  "canonical_payment_state \<Rightarrow> canonical_payment_state \<Rightarrow> exn + bool" where
  "validate_payment_transition current target =
     validate_transition ''payment'' current target payment_transitions payment_value"

definition validate_recovery_transition :: "recovery_state \<Rightarrow> recovery_state \<Rightarrow> exn + bool" where
  "validate_recovery_transition current target =
     (if current = target then Inr False
      else if target = DUPLICATE_REVIEW \<and> current \<noteq> DORMANT then Inr True
      else validate_transition ''recovery'' current target recovery_transitions recovery_value)"

definition validate_incident_transition :: "incident_state \<Rightarrow> incident_state \<Rightarrow> exn + bool" where
  "validate_incident_transition current target =
     validate_transition ''incident'' current target incident_transitions incident_value"

section \<open>What validation accepts\<close>

definition recovery_edge :: "recovery_state \<Rightarrow> recovery_state \<Rightarrow> bool" where
  "recovery_edge s t = (s = t \<or> t \<in> set (recovery_transitions s) \<or> t = DUPLICATE_REVIEW \<and> s \<noteq> DORMANT)"

lemma validate_payment_Inr [guards]:
  "validate_payment_transition s t = Inr b \<longleftrightarrow> (s = t \<and> \<not> b) \<or> (t \<in> set (payment_transitions s) \<and> s \<noteq> t \<and> b)"
  by (auto simp: validate_payment_transition_def validate_transition_def)

lemma validate_incident_Inr [guards]:
  "validate_incident_transition s t = Inr b \<longleftrightarrow> (s = t \<and> \<not> b) \<or> (t \<in> set (incident_transitions s) \<and> s \<noteq> t \<and> b)"
  by (auto simp: validate_incident_transition_def validate_transition_def)

lemma validate_recovery_Inr [guards]:
  "validate_recovery_transition s t = Inr b \<longleftrightarrow> recovery_edge s t \<and> b = (s \<noteq> t)"
  by (auto simp: validate_recovery_transition_def validate_transition_def recovery_edge_def)

lemma set_all_recovery_states [simp]: "set all_recovery_states = UNIV"
proof -
  have "s \<in> set all_recovery_states" for s by (cases s) (simp_all add: all_recovery_states_def)
  then show ?thesis by auto
qed

lemma nonterminal_iff: "s \<in> set NONTERMINAL_RECOVERY_STATES \<longleftrightarrow> s \<notin> set COLLECTION_TERMINAL_STATES"
  by (simp add: NONTERMINAL_RECOVERY_STATES_def)

text \<open>Edges out of a collection-terminal state lead only to duplicate review.\<close>

lemma terminal_edge:
  "s \<in> set COLLECTION_TERMINAL_STATES \<Longrightarrow> recovery_edge s t \<Longrightarrow> t = s \<or> t = DUPLICATE_REVIEW"
  by (cases s) (auto simp: COLLECTION_TERMINAL_STATES_def recovery_edge_def)

text \<open>Payment truth is ranked, and every payment edge goes up.\<close>

fun payment_rank :: "canonical_payment_state \<Rightarrow> nat" where
  "payment_rank UNKNOWN = 0"
| "payment_rank UNPAID = 1"
| "payment_rank AUTHORIZED = 2"
| "payment_rank PARTIALLY_PAID = 3"
| "payment_rank PAID = 4"
| "payment_rank OVERPAID = 5"
| "payment_rank EXCEPTION = 6"

lemma payment_edge_iff_rank: "t \<in> set (payment_transitions s) \<longleftrightarrow> payment_rank s < payment_rank t"
  by (cases s; cases t) simp_all

lemma payment_rank_inj: "payment_rank s = payment_rank t \<Longrightarrow> s = t"
  by (cases s; cases t) simp_all

text \<open>The order of payment truth: later truth dominates.\<close>

instantiation canonical_payment_state :: linorder
begin

definition less_eq_canonical_payment_state :: "canonical_payment_state \<Rightarrow> canonical_payment_state \<Rightarrow> bool" where
  "less_eq_canonical_payment_state s t = (payment_rank s \<le> payment_rank t)"

definition less_canonical_payment_state :: "canonical_payment_state \<Rightarrow> canonical_payment_state \<Rightarrow> bool" where
  "less_canonical_payment_state s t = (payment_rank s < payment_rank t)"

instance
  by standard (auto simp: less_eq_canonical_payment_state_def less_canonical_payment_state_def payment_rank_inj)

end

lemmas payment_order_defs = less_eq_canonical_payment_state_def less_canonical_payment_state_def

lemma validate_payment_order:
  "validate_payment_transition s t = Inr b \<longleftrightarrow> s \<le> t \<and> b = (s < t)"
  using payment_rank_inj by (auto simp: validate_payment_Inr payment_edge_iff_rank payment_order_defs)

end
