(* ===== verification/Gate.thy ===== *)
theory Gate
  imports Actions States
begin

text \<open>
  \<^verbatim>\<open>packages/domain/gate.py\<close>: the pure two-stage authorization gate. \<open>evaluate\<close> is
  \<^verbatim>\<open>DeterministicGate._evaluate\<close>; the reasons it appends are computed block by block, each block
  a definition of its own, in the order of the source. The clock is an argument (the
  \<^verbatim>\<open>evaluated_at\<close> of the context), so the only exception is the \<^verbatim>\<open>OverflowError\<close> of
  \<^verbatim>\<open>evaluated_at + allowed_clock_skew\<close>.

  The specification it meets and the lemmas are in \<open>Gate_Spec\<close>.
\<close>

section \<open>Vocabulary\<close>

datatype gate_stage = POLICY | EFFECT

datatype gate_reason =
    PROPOSAL_MERCHANT_MISMATCH | PROPOSAL_CASE_MISMATCH | ACTION_NOT_YET_VALID | ACTION_EXPIRED
  | ACTION_NOT_ALLOWED | ENVIRONMENT_EFFECTS_DISABLED | GLOBAL_KILL_SWITCH_ACTIVE
  | MERCHANT_KILL_SWITCH_ACTIVE | AGGREGATE_VERSION_MISMATCH | RECOVERY_STATE_NOT_ACTIONABLE
  | OBSERVATION_DEADLINE_MISSING | OBSERVATION_WINDOW_ACTIVE | PAYMENT_TRUTH_NOT_UNPAID
  | PROVIDER_SNAPSHOT_FROM_FUTURE | PROVIDER_SNAPSHOT_STALE | ACTIVE_INSTRUMENT_EXISTS
  | ACTIVE_INSTRUMENT_REQUIRED | POLICY_CURRENCY_MISMATCH | CURRENCY_MISMATCH | AMOUNT_MISMATCH
  | PAYMENT_METHOD_MISMATCH | CONSENT_MISSING | CUSTOMER_OPTED_OUT | COOLDOWN_ACTIVE
  | CONTACT_CAP_REACHED | QUIET_HOURS_ACTIVE | INCIDENT_HEALTH_FROM_FUTURE | INCIDENT_HEALTH_STALE
  | PAYMENT_METHOD_UNHEALTHY | ATTEMPT_BUDGET_EXHAUSTED | CONFIDENCE_UNAVAILABLE
  | CONFIDENCE_BELOW_THRESHOLD | ABSTENTION_REQUIRES_APPROVAL | EXTERNAL_DIAGNOSIS_REQUIRES_APPROVAL
  | HIGH_VALUE_REQUIRES_APPROVAL | APPROVAL_REQUIRED_REASON | APPROVAL_REJECTED | APPROVAL_EXPIRED
  | APPROVAL_NOT_YET_VALID | APPROVAL_BINDING_MISMATCH | PLAN_AUTHORIZATION_MISSING
  | PLAN_BINDING_MISMATCH | DURABLE_INTENT_MISSING

fun stage_value :: "gate_stage \<Rightarrow> pystr" where
  "stage_value POLICY = ''policy''"
| "stage_value EFFECT = ''effect''"

text \<open>\<^verbatim>\<open>APPROVAL_REQUIRED\<close> is also a recovery state; the reason has the suffix \<open>_REASON\<close> here.\<close>

fun reason_value :: "gate_reason \<Rightarrow> pystr" where
  "reason_value PROPOSAL_MERCHANT_MISMATCH = ''PROPOSAL_MERCHANT_MISMATCH''"
| "reason_value PROPOSAL_CASE_MISMATCH = ''PROPOSAL_CASE_MISMATCH''"
| "reason_value ACTION_NOT_YET_VALID = ''ACTION_NOT_YET_VALID''"
| "reason_value ACTION_EXPIRED = ''ACTION_EXPIRED''"
| "reason_value ACTION_NOT_ALLOWED = ''ACTION_NOT_ALLOWED''"
| "reason_value ENVIRONMENT_EFFECTS_DISABLED = ''ENVIRONMENT_EFFECTS_DISABLED''"
| "reason_value GLOBAL_KILL_SWITCH_ACTIVE = ''GLOBAL_KILL_SWITCH_ACTIVE''"
| "reason_value MERCHANT_KILL_SWITCH_ACTIVE = ''MERCHANT_KILL_SWITCH_ACTIVE''"
| "reason_value AGGREGATE_VERSION_MISMATCH = ''AGGREGATE_VERSION_MISMATCH''"
| "reason_value RECOVERY_STATE_NOT_ACTIONABLE = ''RECOVERY_STATE_NOT_ACTIONABLE''"
| "reason_value OBSERVATION_DEADLINE_MISSING = ''OBSERVATION_DEADLINE_MISSING''"
| "reason_value OBSERVATION_WINDOW_ACTIVE = ''OBSERVATION_WINDOW_ACTIVE''"
| "reason_value PAYMENT_TRUTH_NOT_UNPAID = ''PAYMENT_TRUTH_NOT_UNPAID''"
| "reason_value PROVIDER_SNAPSHOT_FROM_FUTURE = ''PROVIDER_SNAPSHOT_FROM_FUTURE''"
| "reason_value PROVIDER_SNAPSHOT_STALE = ''PROVIDER_SNAPSHOT_STALE''"
| "reason_value ACTIVE_INSTRUMENT_EXISTS = ''ACTIVE_INSTRUMENT_EXISTS''"
| "reason_value ACTIVE_INSTRUMENT_REQUIRED = ''ACTIVE_INSTRUMENT_REQUIRED''"
| "reason_value POLICY_CURRENCY_MISMATCH = ''POLICY_CURRENCY_MISMATCH''"
| "reason_value CURRENCY_MISMATCH = ''CURRENCY_MISMATCH''"
| "reason_value AMOUNT_MISMATCH = ''AMOUNT_MISMATCH''"
| "reason_value PAYMENT_METHOD_MISMATCH = ''PAYMENT_METHOD_MISMATCH''"
| "reason_value CONSENT_MISSING = ''CONSENT_MISSING''"
| "reason_value CUSTOMER_OPTED_OUT = ''CUSTOMER_OPTED_OUT''"
| "reason_value COOLDOWN_ACTIVE = ''COOLDOWN_ACTIVE''"
| "reason_value CONTACT_CAP_REACHED = ''CONTACT_CAP_REACHED''"
| "reason_value QUIET_HOURS_ACTIVE = ''QUIET_HOURS_ACTIVE''"
| "reason_value INCIDENT_HEALTH_FROM_FUTURE = ''INCIDENT_HEALTH_FROM_FUTURE''"
| "reason_value INCIDENT_HEALTH_STALE = ''INCIDENT_HEALTH_STALE''"
| "reason_value PAYMENT_METHOD_UNHEALTHY = ''PAYMENT_METHOD_UNHEALTHY''"
| "reason_value ATTEMPT_BUDGET_EXHAUSTED = ''ATTEMPT_BUDGET_EXHAUSTED''"
| "reason_value CONFIDENCE_UNAVAILABLE = ''CONFIDENCE_UNAVAILABLE''"
| "reason_value CONFIDENCE_BELOW_THRESHOLD = ''CONFIDENCE_BELOW_THRESHOLD''"
| "reason_value ABSTENTION_REQUIRES_APPROVAL = ''ABSTENTION_REQUIRES_APPROVAL''"
| "reason_value EXTERNAL_DIAGNOSIS_REQUIRES_APPROVAL = ''EXTERNAL_DIAGNOSIS_REQUIRES_APPROVAL''"
| "reason_value HIGH_VALUE_REQUIRES_APPROVAL = ''HIGH_VALUE_REQUIRES_APPROVAL''"
| "reason_value APPROVAL_REQUIRED_REASON = ''APPROVAL_REQUIRED''"
| "reason_value APPROVAL_REJECTED = ''APPROVAL_REJECTED''"
| "reason_value APPROVAL_EXPIRED = ''APPROVAL_EXPIRED''"
| "reason_value APPROVAL_NOT_YET_VALID = ''APPROVAL_NOT_YET_VALID''"
| "reason_value APPROVAL_BINDING_MISMATCH = ''APPROVAL_BINDING_MISMATCH''"
| "reason_value PLAN_AUTHORIZATION_MISSING = ''PLAN_AUTHORIZATION_MISSING''"
| "reason_value PLAN_BINDING_MISMATCH = ''PLAN_BINDING_MISMATCH''"
| "reason_value DURABLE_INTENT_MISSING = ''DURABLE_INTENT_MISSING''"

definition APPROVAL_BLOCKING_REASONS :: "gate_reason list" where
  "APPROVAL_BLOCKING_REASONS =
     [CONFIDENCE_UNAVAILABLE, CONFIDENCE_BELOW_THRESHOLD, ABSTENTION_REQUIRES_APPROVAL,
      EXTERNAL_DIAGNOSIS_REQUIRES_APPROVAL, HIGH_VALUE_REQUIRES_APPROVAL, APPROVAL_REQUIRED_REASON,
      APPROVAL_REJECTED, APPROVAL_EXPIRED, APPROVAL_NOT_YET_VALID, APPROVAL_BINDING_MISMATCH]"

section \<open>Policy, snapshot, context, decision\<close>

record gate_policy =
  gp_version :: pystr
  gp_allowed_actions :: "action_type list"
  gp_provider_snapshot_max_age :: timedelta
  gp_incident_health_max_age :: timedelta
  gp_max_attempts :: int
  gp_max_contacts_in_window :: int
  gp_approval_threshold :: money
  gp_min_confidence :: probability
  gp_allowed_clock_skew :: timedelta

definition require_nonneg :: "int \<Rightarrow> pystr \<Rightarrow> exn + unit" where
  "require_nonneg value name = raise_if (value < 0) (InvalidValue (name @ '' must be a non-negative integer''))"

definition require_duration :: "timedelta \<Rightarrow> pystr \<Rightarrow> exn + unit" where
  "require_duration d name = raise_if (d < 0) (InvalidValue (name @ '' must be a non-negative timedelta''))"

definition mk_gate_policy :: "gate_policy \<Rightarrow> exn + gate_policy" where
  "mk_gate_policy pol =
     bindE (require_identifier (gp_version pol) ''policy version'') (\<lambda>_.
     bindE (raise_if (gp_allowed_actions pol = []) (InvalidValue ''allowed_actions must contain ActionType values'')) (\<lambda>_.
     bindE (require_duration (gp_provider_snapshot_max_age pol) ''provider_snapshot_max_age'') (\<lambda>_.
     bindE (require_duration (gp_incident_health_max_age pol) ''incident_health_max_age'') (\<lambda>_.
     bindE (require_duration (gp_allowed_clock_skew pol) ''allowed_clock_skew'') (\<lambda>_.
     bindE (require_nonneg (gp_max_attempts pol) ''max_attempts'') (\<lambda>_.
     bindE (require_nonneg (gp_max_contacts_in_window pol) ''max_contacts_in_window'') (\<lambda>_.
     Inr pol)))))))"

record provider_snapshot =
  s_payment_state :: canonical_payment_state
  s_amount_due :: money
  s_payment_method :: pystr
  s_observed_at :: instant
  s_active_instrument_count :: int
  s_incident_state :: incident_state
  s_method_health_observed_at :: instant

definition mk_provider_snapshot :: "provider_snapshot \<Rightarrow> datetime \<Rightarrow> datetime \<Rightarrow> exn + provider_snapshot" where
  "mk_provider_snapshot s observed health =
     bindE (require_payment_method (s_payment_method s) ''snapshot payment_method'') (\<lambda>_.
     bindE (raise_if (s_active_instrument_count s < 0) (InvalidValue ''active_instrument_count cannot be negative'')) (\<lambda>_.
     bindE (require_utc observed ''observed_at'') (\<lambda>observed_at.
     bindE (require_utc health ''method_health_observed_at'') (\<lambda>health_at.
     Inr (s\<lparr>s_observed_at := observed_at, s_method_health_observed_at := health_at\<rparr>)))))"

record gate_context =
  c_merchant_id :: pystr
  c_case_id :: pystr
  c_evaluated_at :: instant
  c_aggregate_version :: int
  c_expected_aggregate_version :: int
  c_recovery_state :: recovery_state
  c_snapshot :: provider_snapshot
  c_environment_effects_enabled :: bool
  c_observation_deadline :: "instant option"
  c_global_kill_switch :: bool
  c_merchant_kill_switch :: bool
  c_consent_granted :: bool
  c_opted_out :: bool
  c_cooldown_until :: "instant option"
  c_contacts_in_window :: int
  c_quiet_hours_active :: bool
  c_attempts_used :: int
  c_abstention_required :: bool
  c_external_diagnosis_review_required :: bool
  c_approval :: "approval option"
  c_durable_intent_recorded :: bool

definition mk_gate_context ::
  "gate_context \<Rightarrow> datetime \<Rightarrow> datetime option \<Rightarrow> datetime option \<Rightarrow> exn + gate_context" where
  "mk_gate_context c evaluated cooldown deadline =
     bindE (require_identifier (c_merchant_id c) ''merchant_id'') (\<lambda>_.
     bindE (require_identifier (c_case_id c) ''case_id'') (\<lambda>_.
     bindE (require_utc evaluated ''evaluated_at'') (\<lambda>evaluated_at.
     bindE (require_nonneg (c_aggregate_version c) ''aggregate_version'') (\<lambda>_.
     bindE (require_nonneg (c_expected_aggregate_version c) ''expected_aggregate_version'') (\<lambda>_.
     bindE (require_nonneg (c_contacts_in_window c) ''contacts_in_window'') (\<lambda>_.
     bindE (require_nonneg (c_attempts_used c) ''attempts_used'') (\<lambda>_.
     bindE (option_checkE (\<lambda>d. require_utc d ''cooldown_until'') cooldown) (\<lambda>cooldown_until.
     bindE (option_checkE (\<lambda>d. require_utc d ''observation_deadline'') deadline) (\<lambda>deadline_at.
     Inr (c\<lparr>c_evaluated_at := evaluated_at, c_cooldown_until := cooldown_until,
            c_observation_deadline := deadline_at\<rparr>))))))))))"

text \<open>\<^verbatim>\<open>replace(context, evaluated_at=..., durable_intent_recorded=...)\<close> on a context whose times are UTC.\<close>

definition effect_context_of :: "gate_context \<Rightarrow> instant \<Rightarrow> bool \<Rightarrow> exn + gate_context" where
  "effect_context_of fresh now proved =
     mk_gate_context (fresh\<lparr>c_durable_intent_recorded := proved\<rparr>) (utc now)
       (map_option utc (c_cooldown_until fresh)) (map_option utc (c_observation_deadline fresh))"

record gate_decision =
  d_stage :: gate_stage
  d_policy_version :: pystr
  d_proposal_id :: pystr
  d_action_key :: pystr
  d_proposal_digest :: pystr
  d_case_id :: pystr
  d_decision_version :: int
  d_aggregate_version :: int
  d_evaluated_at :: instant
  d_reasons :: "gate_reason list"

text \<open>\<^verbatim>\<open>",".join(reason.value for reason in decision.reasons)\<close>.\<close>

definition joined_reasons :: "gate_decision \<Rightarrow> pystr" where
  "joined_reasons d = join '','' (map reason_value (d_reasons d))"

definition allowed :: "gate_decision \<Rightarrow> bool" where
  "allowed d = (d_reasons d = [])"

definition decision_to_primitive :: "gate_decision \<Rightarrow> json" where
  "decision_to_primitive d = JObj
     [(''action_key'', JStr (d_action_key d)),
      (''aggregate_version'', JInt (d_aggregate_version d)),
      (''allowed'', JBool (allowed d)),
      (''case_id'', JStr (d_case_id d)),
      (''decision_version'', JInt (d_decision_version d)),
      (''evaluated_at'', JStr (iso_timestamp (d_evaluated_at d))),
      (''policy_version'', JStr (d_policy_version d)),
      (''proposal_digest'', JStr (d_proposal_digest d)),
      (''proposal_id'', JStr (d_proposal_id d)),
      (''reasons'', JArr (map (\<lambda>r. JStr (reason_value r)) (d_reasons d))),
      (''stage'', JStr (stage_value (d_stage d)))]"

definition decision_digest :: "gate_decision \<Rightarrow> pystr" where
  "decision_digest d = canonical_digest (decision_to_primitive d)"

section \<open>Actionable states\<close>

fun policy_actionable_states :: "action_type \<Rightarrow> recovery_state list" where
  "policy_actionable_states CREATE_STANDARD_PAYMENT_LINK = [ASSESSING, APPROVAL_REQUIRED]"
| "policy_actionable_states NOTIFY_EXISTING_LINK = [ASSESSING, APPROVAL_REQUIRED, ACTIVE]"
| "policy_actionable_states CANCEL_PAYMENT_LINK =
     [EXECUTING, ACTION_UNCERTAIN, ACTIVE, SUPPRESSED_PAID, DUPLICATE_REVIEW]"
| "policy_actionable_states WAIT = [ASSESSING]"
| "policy_actionable_states ESCALATE = [ASSESSING, WAITING, ACTION_UNCERTAIN]"
| "policy_actionable_states STOP = [ASSESSING, WAITING, APPROVAL_REQUIRED, ACTION_QUEUED]"

fun effect_actionable_states :: "action_type \<Rightarrow> recovery_state list" where
  "effect_actionable_states CREATE_STANDARD_PAYMENT_LINK = [ACTION_QUEUED, EXECUTING, ACTION_UNCERTAIN]"
| "effect_actionable_states NOTIFY_EXISTING_LINK = [ACTION_QUEUED, EXECUTING, ACTIVE]"
| "effect_actionable_states CANCEL_PAYMENT_LINK = policy_actionable_states CANCEL_PAYMENT_LINK"
| "effect_actionable_states WAIT = []"
| "effect_actionable_states ESCALATE = []"
| "effect_actionable_states STOP = []"

definition actionable_states :: "gate_stage \<Rightarrow> action_type \<Rightarrow> recovery_state list" where
  "actionable_states stage = (case stage of POLICY \<Rightarrow> policy_actionable_states | EFFECT \<Rightarrow> effect_actionable_states)"

section \<open>Evaluation\<close>

text \<open>\<^verbatim>\<open>if b: reasons.append(r)\<close>\<close>

definition append_if :: "bool \<Rightarrow> gate_reason \<Rightarrow> gate_reason list" where
  "append_if b r = (if b then [r] else [])"

abbreviation is_collection :: "action_proposal \<Rightarrow> bool" where
  "is_collection p \<equiv> p_action_type p \<in> set COLLECTION_ACTIONS"

abbreviation is_contact :: "action_proposal \<Rightarrow> bool" where
  "is_contact p \<equiv> p_action_type p \<in> set CONTACT_ACTIONS"

abbreviation is_external :: "action_proposal \<Rightarrow> bool" where
  "is_external p \<equiv> p_action_type p \<in> set EXTERNAL_ACTIONS"

definition approval_failure :: "action_proposal \<Rightarrow> gate_context \<Rightarrow> gate_reason option" where
  "approval_failure p c = (case c_approval c of
      None \<Rightarrow> Some APPROVAL_REQUIRED_REASON
    | Some a \<Rightarrow>
       (if \<not> a_granted a then Some APPROVAL_REJECTED
        else if c_evaluated_at c < a_approved_at a then Some APPROVAL_NOT_YET_VALID
        else if a_expires_at a \<le> c_evaluated_at c then Some APPROVAL_EXPIRED
        else if a_merchant_id a \<noteq> p_merchant_id p \<or> a_case_id a \<noteq> p_case_id p
          \<or> a_action_key a \<noteq> action_key p \<or> a_proposal_digest a \<noteq> proposal_digest p
          \<or> a_decision_version a \<noteq> p_decision_version p then Some APPROVAL_BINDING_MISMATCH
        else None))"

definition plan_matches :: "gate_policy \<Rightarrow> gate_decision \<Rightarrow> action_proposal \<Rightarrow> gate_context \<Rightarrow> bool" where
  "plan_matches pol prior p c =
     (d_stage prior = POLICY \<and> allowed prior \<and> d_policy_version prior = gp_version pol
      \<and> d_proposal_id prior = p_proposal_id p \<and> d_action_key prior = action_key p
      \<and> d_proposal_digest prior = proposal_digest p \<and> d_case_id prior = p_case_id p
      \<and> d_decision_version prior = p_decision_version p
      \<and> d_aggregate_version prior \<le> c_aggregate_version c \<and> d_evaluated_at prior \<le> c_evaluated_at c)"

text \<open>\<open>horizon\<close> is \<^verbatim>\<open>context.evaluated_at + policy.allowed_clock_skew\<close>.\<close>

definition scope_reasons ::
  "gate_policy \<Rightarrow> gate_stage \<Rightarrow> action_proposal \<Rightarrow> gate_context \<Rightarrow> instant \<Rightarrow> gate_reason list" where
  "scope_reasons pol stage p c horizon =
     append_if (p_merchant_id p \<noteq> c_merchant_id c) PROPOSAL_MERCHANT_MISMATCH
     @ append_if (p_case_id p \<noteq> c_case_id c) PROPOSAL_CASE_MISMATCH
     @ append_if (horizon < p_created_at p) ACTION_NOT_YET_VALID
     @ append_if (p_expires_at p \<le> c_evaluated_at c) ACTION_EXPIRED
     @ append_if (p_action_type p \<notin> set (gp_allowed_actions pol)) ACTION_NOT_ALLOWED
     @ append_if (is_external p \<and> \<not> c_environment_effects_enabled c) ENVIRONMENT_EFFECTS_DISABLED
     @ append_if (is_collection p \<and> c_global_kill_switch c) GLOBAL_KILL_SWITCH_ACTIVE
     @ append_if (is_collection p \<and> c_merchant_kill_switch c) MERCHANT_KILL_SWITCH_ACTIVE
     @ append_if (c_aggregate_version c \<noteq> c_expected_aggregate_version c) AGGREGATE_VERSION_MISMATCH
     @ append_if (c_recovery_state c \<notin> set (actionable_states stage (p_action_type p))) RECOVERY_STATE_NOT_ACTIONABLE"

definition observation_reasons :: "action_proposal \<Rightarrow> gate_context \<Rightarrow> gate_reason list" where
  "observation_reasons p c =
     (if is_collection p
      then (case c_observation_deadline c of
              None \<Rightarrow> [OBSERVATION_DEADLINE_MISSING]
            | Some deadline \<Rightarrow> append_if (c_evaluated_at c < deadline) OBSERVATION_WINDOW_ACTIVE)
      else [])"

definition truth_reasons ::
  "gate_policy \<Rightarrow> action_proposal \<Rightarrow> gate_context \<Rightarrow> instant \<Rightarrow> gate_reason list" where
  "truth_reasons pol p c horizon =
     (if is_collection p
      then append_if (s_payment_state (c_snapshot c) \<noteq> UNPAID) PAYMENT_TRUTH_NOT_UNPAID
         @ (if horizon < s_observed_at (c_snapshot c) then [PROVIDER_SNAPSHOT_FROM_FUTURE]
            else append_if (gp_provider_snapshot_max_age pol < c_evaluated_at c - s_observed_at (c_snapshot c))
                   PROVIDER_SNAPSHOT_STALE)
      else [])"

definition instrument_reasons :: "action_proposal \<Rightarrow> gate_context \<Rightarrow> gate_reason list" where
  "instrument_reasons p c =
     (if p_action_type p = CREATE_STANDARD_PAYMENT_LINK
      then append_if (s_active_instrument_count (c_snapshot c) > 0) ACTIVE_INSTRUMENT_EXISTS
      else append_if (p_action_type p \<in> {NOTIFY_EXISTING_LINK, CANCEL_PAYMENT_LINK}
              \<and> s_active_instrument_count (c_snapshot c) = 0) ACTIVE_INSTRUMENT_REQUIRED)"

definition amount_reasons :: "action_proposal \<Rightarrow> gate_context \<Rightarrow> gate_reason list" where
  "amount_reasons p c = (case p_amount p of
      None \<Rightarrow> []
    | Some m \<Rightarrow>
       (if is_collection p
        then (if currency m \<noteq> currency (s_amount_due (c_snapshot c)) then [CURRENCY_MISMATCH]
              else append_if (minor_units m \<noteq> minor_units (s_amount_due (c_snapshot c))) AMOUNT_MISMATCH)
           @ append_if (p_payment_method p \<noteq> Some (s_payment_method (c_snapshot c))) PAYMENT_METHOD_MISMATCH
        else []))"

definition contact_reasons :: "gate_policy \<Rightarrow> action_proposal \<Rightarrow> gate_context \<Rightarrow> gate_reason list" where
  "contact_reasons pol p c =
     (if is_contact p
      then append_if (\<not> c_consent_granted c) CONSENT_MISSING
         @ append_if (c_opted_out c) CUSTOMER_OPTED_OUT
         @ append_if (case c_cooldown_until c of None \<Rightarrow> False | Some t \<Rightarrow> c_evaluated_at c < t) COOLDOWN_ACTIVE
         @ append_if (gp_max_contacts_in_window pol \<le> c_contacts_in_window c) CONTACT_CAP_REACHED
         @ append_if (c_quiet_hours_active c) QUIET_HOURS_ACTIVE
      else [])"

definition health_reasons ::
  "gate_policy \<Rightarrow> action_proposal \<Rightarrow> gate_context \<Rightarrow> instant \<Rightarrow> gate_reason list" where
  "health_reasons pol p c horizon =
     (if is_collection p
      then (if horizon < s_method_health_observed_at (c_snapshot c) then [INCIDENT_HEALTH_FROM_FUTURE]
            else append_if (gp_incident_health_max_age pol
                   < c_evaluated_at c - s_method_health_observed_at (c_snapshot c)) INCIDENT_HEALTH_STALE)
         @ append_if (s_incident_state (c_snapshot c) = CONFIRMED) PAYMENT_METHOD_UNHEALTHY
         @ append_if (gp_max_attempts pol \<le> c_attempts_used c) ATTEMPT_BUDGET_EXHAUSTED
      else [])"

definition policy_currency_reasons :: "gate_policy \<Rightarrow> action_proposal \<Rightarrow> gate_reason list" where
  "policy_currency_reasons pol p = (case p_amount p of
      None \<Rightarrow> []
    | Some m \<Rightarrow> append_if (currency m \<noteq> currency (gp_approval_threshold pol)) POLICY_CURRENCY_MISMATCH)"

definition approval_causes :: "gate_policy \<Rightarrow> action_proposal \<Rightarrow> gate_context \<Rightarrow> gate_reason list" where
  "approval_causes pol p c =
     (case p_amount p of
        None \<Rightarrow> []
      | Some m \<Rightarrow> append_if (currency m = currency (gp_approval_threshold pol)
                  \<and> minor_units (gp_approval_threshold pol) \<le> minor_units m) HIGH_VALUE_REQUIRES_APPROVAL)
     @ (case p_model_confidence p of
        None \<Rightarrow> [CONFIDENCE_UNAVAILABLE]
      | Some q \<Rightarrow> append_if (prob_less q (gp_min_confidence pol)) CONFIDENCE_BELOW_THRESHOLD)
     @ append_if (c_abstention_required c) ABSTENTION_REQUIRES_APPROVAL
     @ append_if (c_external_diagnosis_review_required c) EXTERNAL_DIAGNOSIS_REQUIRES_APPROVAL"

definition approval_reasons :: "gate_policy \<Rightarrow> action_proposal \<Rightarrow> gate_context \<Rightarrow> gate_reason list" where
  "approval_reasons pol p c =
     (if is_collection p
      then policy_currency_reasons pol p
         @ (let causes = approval_causes pol p c
            in if p_requires_approval p \<or> causes \<noteq> []
               then (case approval_failure p c of None \<Rightarrow> [] | Some r \<Rightarrow> causes @ [r])
               else [])
      else [])"

definition plan_reasons ::
  "gate_policy \<Rightarrow> gate_stage \<Rightarrow> action_proposal \<Rightarrow> gate_context \<Rightarrow> gate_decision option \<Rightarrow> gate_reason list" where
  "plan_reasons pol stage p c prior_plan =
     (if stage = EFFECT \<and> is_external p
      then (case prior_plan of
              None \<Rightarrow> [PLAN_AUTHORIZATION_MISSING]
            | Some prior \<Rightarrow> append_if (\<not> plan_matches pol prior p c) PLAN_BINDING_MISMATCH)
         @ append_if (\<not> c_durable_intent_recorded c) DURABLE_INTENT_MISSING
      else [])"

definition all_reasons ::
  "gate_policy \<Rightarrow> gate_stage \<Rightarrow> action_proposal \<Rightarrow> gate_context \<Rightarrow> gate_decision option \<Rightarrow> instant
     \<Rightarrow> gate_reason list" where
  "all_reasons pol stage p c prior_plan horizon =
     scope_reasons pol stage p c horizon @ observation_reasons p c @ truth_reasons pol p c horizon
     @ instrument_reasons p c @ amount_reasons p c @ contact_reasons pol p c
     @ health_reasons pol p c horizon @ approval_reasons pol p c
     @ plan_reasons pol stage p c prior_plan"

definition evaluate ::
  "gate_policy \<Rightarrow> gate_stage \<Rightarrow> action_proposal \<Rightarrow> gate_context \<Rightarrow> gate_decision option
     \<Rightarrow> exn + gate_decision" where
  "evaluate pol stage p c prior_plan =
     bindE (add_time (c_evaluated_at c) (gp_allowed_clock_skew pol)) (\<lambda>horizon.
     Inr \<lparr>d_stage = stage, d_policy_version = gp_version pol, d_proposal_id = p_proposal_id p,
          d_action_key = action_key p, d_proposal_digest = proposal_digest p, d_case_id = p_case_id p,
          d_decision_version = p_decision_version p, d_aggregate_version = c_aggregate_version c,
          d_evaluated_at = c_evaluated_at c,
          d_reasons = all_reasons pol stage p c prior_plan horizon\<rparr>)"

definition evaluate_policy :: "gate_policy \<Rightarrow> action_proposal \<Rightarrow> gate_context \<Rightarrow> exn + gate_decision" where
  "evaluate_policy pol p c = evaluate pol POLICY p c None"

definition evaluate_effect ::
  "gate_policy \<Rightarrow> action_proposal \<Rightarrow> gate_context \<Rightarrow> gate_decision option \<Rightarrow> exn + gate_decision" where
  "evaluate_effect pol p c prior_plan = evaluate pol EFFECT p c prior_plan"

end
