(* ===== verification/Aggregate.thy ===== *)
theory Aggregate
  imports Gate
begin

text \<open>
  \<^verbatim>\<open>packages/domain/aggregate.py\<close>: the versioned recovery case. A command is a function of the
  aggregate that returns a change (the new aggregate with the events it emitted) or an exception;
  \<open>apply_command\<close> dispatches on the closed set of commands. \<^verbatim>\<open>dataclasses.replace\<close> constructs a new
  instance and so runs \<^verbatim>\<open>__post_init__\<close> again: \<open>change\<close> calls \<open>mk_aggregate\<close> on the updated record.
  An event payload is a Python dictionary, given to \<open>canonical_json\<close> as the source does.
\<close>

section \<open>State\<close>

record aggregate =
  g_merchant_id :: pystr
  g_case_id :: pystr
  g_logical_order_id :: pystr
  g_amount_due :: money
  g_state :: recovery_state
  g_payment_state :: canonical_payment_state
  g_incident_state :: incident_state
  g_version :: int
  g_decision_version :: int
  g_active_action_key :: "pystr option"
  g_active_proposal_id :: "pystr option"
  g_active_instrument_reference :: "pystr option"
  g_last_transition_at :: "instant option"
  g_late_capture_policy :: late_capture_policy
  g_observation_started_at :: "instant option"
  g_observation_deadline :: "instant option"

record aggregate_event =
  e_event_type :: pystr
  e_case_id :: pystr
  e_version :: int
  e_occurred_at :: instant
  e_payload_json :: pystr

record aggregate_change =
  ch_aggregate :: aggregate
  ch_events :: "aggregate_event list"

definition changed :: "aggregate_change \<Rightarrow> bool" where
  "changed ch = (ch_events ch \<noteq> [])"

definition unchanged :: "aggregate \<Rightarrow> aggregate_change" where
  "unchanged a = \<lparr>ch_aggregate = a, ch_events = []\<rparr>"

definition event_payload :: "aggregate_event \<Rightarrow> exn + json" where
  "event_payload e = (case loads (e_payload_json e) of
      Some (JObj kvs) \<Rightarrow> Inr (JObj kvs)
    | Some _ \<Rightarrow> Inl (InvalidValue ''aggregate event payload must decode to an object'')
    | None \<Rightarrow> Inl (ValueError ''JSONDecodeError''))"

definition event_to_primitive :: "aggregate_event \<Rightarrow> exn + json" where
  "event_to_primitive e =
     bindE (event_payload e) (\<lambda>payload.
     Inr (JObj [(''case_id'', JStr (e_case_id e)), (''event_type'', JStr (e_event_type e)),
                (''occurred_at'', JStr (iso_timestamp (e_occurred_at e))), (''payload'', payload),
                (''version'', JInt (e_version e))]))"

section \<open>Construction\<close>

definition check_counters :: "aggregate \<Rightarrow> exn + unit" where
  "check_counters a =
     bindE (require_nonneg (g_version a) ''version'') (\<lambda>_.
     bindE (require_nonneg (g_decision_version a) ''decision_version'') (\<lambda>_.
     raise_if (g_version a < g_decision_version a) (InvalidValue ''decision_version cannot exceed aggregate version'')))"

definition check_active_ids :: "aggregate \<Rightarrow> exn + unit" where
  "check_active_ids a =
     bindE (option_checkE (\<lambda>v. require_identifier v ''active_action_key'') (g_active_action_key a)) (\<lambda>_.
     bindE (option_checkE (\<lambda>v. require_identifier v ''active_proposal_id'') (g_active_proposal_id a)) (\<lambda>_.
     bindE (option_checkE (\<lambda>v. require_identifier v ''active_instrument_reference'') (g_active_instrument_reference a)) (\<lambda>_.
     raise_if (case g_active_action_key a of None \<Rightarrow> False | Some k \<Rightarrow> \<not> startswith k ''act_'')
       (InvalidValue ''active_action_key has an invalid prefix''))))"

definition check_observation_timing ::
  "aggregate \<Rightarrow> instant option \<Rightarrow> instant option \<Rightarrow> instant option \<Rightarrow> exn + unit" where
  "check_observation_timing a last_t started deadline =
     bindE (if g_state a = DORMANT
            then raise_if (started \<noteq> None \<or> deadline \<noteq> None) (InvalidValue ''a dormant case cannot have observation timing'')
            else if started = None \<or> deadline = None
            then Inl (InvalidValue ''a started recovery case requires observation timing'')
            else raise_if (last_t = None) (InvalidValue ''a started recovery case requires a last transition time'')) (\<lambda>_.
     case (started, deadline) of
       (Some s, Some d) \<Rightarrow>
         bindE (add_time s (minimum_observation_window (g_late_capture_policy a))) (\<lambda>minimum_deadline.
         bindE (raise_if (d < minimum_deadline) (InvalidValue ''observation deadline is below the bound policy floor'')) (\<lambda>_.
         raise_if (case last_t of None \<Rightarrow> False | Some l \<Rightarrow> l < s)
           (InvalidValue ''observation start cannot follow the last transition'')))
     | _ \<Rightarrow> Inr ())"

definition mk_aggregate ::
  "aggregate \<Rightarrow> datetime option \<Rightarrow> datetime option \<Rightarrow> datetime option \<Rightarrow> exn + aggregate" where
  "mk_aggregate a last_t started deadline =
     bindE (require_identifier (g_merchant_id a) ''merchant_id'') (\<lambda>_.
     bindE (require_identifier (g_case_id a) ''case_id'') (\<lambda>_.
     bindE (require_identifier (g_logical_order_id a) ''logical_order_id'') (\<lambda>_.
     bindE (raise_if (minor_units (g_amount_due a) \<le> 0) (InvalidValue ''recovery amount_due must be positive'')) (\<lambda>_.
     bindE (check_counters a) (\<lambda>_.
     bindE (check_active_ids a) (\<lambda>_.
     bindE (option_checkE (\<lambda>d. require_utc d ''last_transition_at'') last_t) (\<lambda>last_at.
     bindE (option_checkE (\<lambda>d. require_utc d ''observation_started_at'') started) (\<lambda>started_at.
     bindE (option_checkE (\<lambda>d. require_utc d ''observation_deadline'') deadline) (\<lambda>deadline_at.
     bindE (check_observation_timing a last_at started_at deadline_at) (\<lambda>_.
     Inr (a\<lparr>g_last_transition_at := last_at, g_observation_started_at := started_at,
            g_observation_deadline := deadline_at\<rparr>)))))))))))"

definition collection_closed :: "aggregate \<Rightarrow> bool" where
  "collection_closed a = (g_state a \<in> set COLLECTION_TERMINAL_STATES)"

section \<open>Guards\<close>

definition require_version :: "aggregate \<Rightarrow> int \<Rightarrow> exn + unit" where
  "require_version a expected =
     (if expected < 0 then Inl (InvalidValue ''expected_version must be a non-negative integer'')
      else raise_if (expected \<noteq> g_version a) (VersionConflict expected (g_version a)))"

definition require_recovery_transition :: "aggregate \<Rightarrow> recovery_state \<Rightarrow> exn + unit" where
  "require_recovery_transition a target =
     bindE (validate_recovery_transition (g_state a) target) (\<lambda>_. Inr ())"

definition require_proposal_binding :: "aggregate \<Rightarrow> action_proposal \<Rightarrow> bool \<Rightarrow> exn + unit" where
  "require_proposal_binding a p next_decision =
     bindE (raise_if (p_merchant_id p \<noteq> g_merchant_id a \<or> p_case_id p \<noteq> g_case_id a)
       (AuthorizationBindingError ''proposal belongs to another aggregate'')) (\<lambda>_.
     let expected_decision = (if next_decision then g_decision_version a + 1 else g_decision_version a)
     in raise_if (p_decision_version p \<noteq> expected_decision)
       (AuthorizationBindingError ''proposal decision_version is stale or from the future''))"

definition require_gate_binding ::
  "aggregate \<Rightarrow> action_proposal \<Rightarrow> gate_decision \<Rightarrow> gate_stage \<Rightarrow> bool \<Rightarrow> exn + unit" where
  "require_gate_binding a p d stage is_allowed =
     bindE (raise_if (d_stage d \<noteq> stage) (AuthorizationBindingError ''gate stage does not match command'')) (\<lambda>_.
     bindE (raise_if (allowed d \<noteq> is_allowed) (AuthorizationBindingError ''gate outcome does not match command'')) (\<lambda>_.
     raise_if (d_proposal_id d \<noteq> p_proposal_id p \<or> d_action_key d \<noteq> action_key p
        \<or> d_proposal_digest d \<noteq> proposal_digest p \<or> d_case_id d \<noteq> g_case_id a
        \<or> d_decision_version d \<noteq> p_decision_version p \<or> d_aggregate_version d \<noteq> g_version a)
       (AuthorizationBindingError ''gate evidence is bound to other state'')))"

definition require_active_action :: "aggregate \<Rightarrow> pystr \<Rightarrow> exn + unit" where
  "require_active_action a key =
     raise_if (g_active_action_key a \<noteq> Some key) (AuthorizationBindingError ''action key is not active for this case'')"

definition require_observation_elapsed :: "aggregate \<Rightarrow> datetime \<Rightarrow> exn + unit" where
  "require_observation_elapsed a now =
     bindE (require_utc now ''occurred_at'') (\<lambda>evaluated_at.
     case g_observation_deadline a of
       None \<Rightarrow> Inl (DomainError ''observation deadline is missing'')
     | Some deadline \<Rightarrow> raise_if (evaluated_at < deadline)
         (DomainError ''late-capture observation window has not elapsed''))"

section \<open>Changes\<close>

type_synonym payload = "(pykey \<times> pyval) list"

definition change ::
  "aggregate \<Rightarrow> pystr \<Rightarrow> datetime \<Rightarrow> payload \<Rightarrow> (aggregate \<Rightarrow> aggregate) \<Rightarrow> exn + aggregate_change" where
  "change a event_type now payload changes =
     bindE (require_identifier event_type ''event_type'') (\<lambda>_.
     bindE (require_utc now ''occurred_at'') (\<lambda>occurred_at.
     bindE (raise_if (case g_last_transition_at a of None \<Rightarrow> False | Some l \<Rightarrow> occurred_at < l)
       (InvalidValue ''command time cannot precede the last transition'')) (\<lambda>_.
     let next_version = g_version a + 1; b = changes a
     in bindE (mk_aggregate (b\<lparr>g_version := next_version\<rparr>) (Some (utc occurred_at))
          (map_option utc (g_observation_started_at b)) (map_option utc (g_observation_deadline b))) (\<lambda>aggregate.
        bindE (canonical_json (PMap payload)) (\<lambda>payload_json.
        Inr \<lparr>ch_aggregate = aggregate,
             ch_events = [\<lparr>e_event_type = event_type, e_case_id = g_case_id a, e_version = next_version,
                           e_occurred_at = occurred_at, e_payload_json = payload_json\<rparr>]\<rparr>)))))"

definition workflow_change ::
  "aggregate \<Rightarrow> recovery_state \<Rightarrow> pystr \<Rightarrow> datetime \<Rightarrow> payload \<Rightarrow> (aggregate \<Rightarrow> aggregate)
     \<Rightarrow> exn + aggregate_change" where
  "workflow_change a target event_type now payload changes =
     bindE (validate_recovery_transition (g_state a) target) (\<lambda>_.
     bindE (if target = ASSESSING then require_observation_elapsed a now else Inr ()) (\<lambda>_.
     change a event_type now
       (payload @ [(KStr ''workflow_from'', PStr (recovery_value (g_state a))),
                   (KStr ''workflow_to'', PStr (recovery_value target))])
       (\<lambda>b. (changes b)\<lparr>g_state := target\<rparr>)))"

definition opt_time :: "instant option \<Rightarrow> pyval" where
  "opt_time t = (case t of None \<Rightarrow> PNone | Some i \<Rightarrow> PDatetime (utc i))"

section \<open>Commands: observation and truth\<close>

definition observe_failure ::
  "aggregate \<Rightarrow> int \<Rightarrow> datetime \<Rightarrow> pystr \<Rightarrow> datetime option \<Rightarrow> exn + aggregate_change" where
  "observe_failure a expected now provider_event_id extend_until =
     bindE (require_version a expected) (\<lambda>_.
     bindE (require_identifier provider_event_id ''provider_event_id'') (\<lambda>_.
     bindE (require_recovery_transition a OBSERVING) (\<lambda>_.
     bindE (require_utc now ''occurred_at'') (\<lambda>observed_at.
     bindE (observation_deadline (g_late_capture_policy a) (utc observed_at) extend_until) (\<lambda>deadline.
     change a ''RecoveryObservationStarted'' (utc observed_at)
       [(KStr ''late_capture_policy'', py_of_json (policy_to_primitive (g_late_capture_policy a))),
        (KStr ''observation_deadline'', PDatetime (utc deadline)),
        (KStr ''provider_event_id'', PStr provider_event_id)]
       (\<lambda>b. b\<lparr>g_state := OBSERVING, g_observation_started_at := Some observed_at,
              g_observation_deadline := Some deadline\<rparr>))))))"

definition reconcile_payment_truth ::
  "aggregate \<Rightarrow> canonical_payment_state \<Rightarrow> int \<Rightarrow> datetime \<Rightarrow> pystr \<Rightarrow> exn + aggregate_change" where
  "reconcile_payment_truth a target expected now evidence =
     bindE (require_version a expected) (\<lambda>_.
     bindE (require_identifier evidence ''evidence'') (\<lambda>_.
     bindE (raise_if (target \<in> {PAID, OVERPAID})
       (DomainError ''paid truth requires a path-aware success or duplicate command'')) (\<lambda>_.
     bindE (validate_payment_transition (g_payment_state a) target) (\<lambda>is_changed.
     if \<not> is_changed then Inr (unchanged a)
     else change a ''CanonicalPaymentTruthChanged'' now
       [(KStr ''evidence'', PStr evidence), (KStr ''from'', PStr (payment_value (g_payment_state a))),
        (KStr ''to'', PStr (payment_value target))]
       (\<lambda>b. b\<lparr>g_payment_state := target\<rparr>)))))"

definition update_incident_state ::
  "aggregate \<Rightarrow> incident_state \<Rightarrow> int \<Rightarrow> datetime \<Rightarrow> pystr \<Rightarrow> exn + aggregate_change" where
  "update_incident_state a target expected now evidence =
     bindE (require_version a expected) (\<lambda>_.
     bindE (require_identifier evidence ''evidence'') (\<lambda>_.
     bindE (validate_incident_transition (g_incident_state a) target) (\<lambda>is_changed.
     if \<not> is_changed then Inr (unchanged a)
     else change a ''IncidentStateChanged'' now
       [(KStr ''evidence'', PStr evidence), (KStr ''from'', PStr (incident_value (g_incident_state a))),
        (KStr ''to'', PStr (incident_value target))]
       (\<lambda>b. b\<lparr>g_incident_state := target\<rparr>))))"

definition mark_ready_for_evaluation :: "aggregate \<Rightarrow> int \<Rightarrow> datetime \<Rightarrow> exn + aggregate_change" where
  "mark_ready_for_evaluation a expected now =
     bindE (require_version a expected) (\<lambda>_.
     bindE (require_recovery_transition a ASSESSING) (\<lambda>_.
     bindE (raise_if (g_payment_state a \<noteq> UNPAID) (DomainError ''only freshly reconciled UNPAID truth can be assessed'')) (\<lambda>_.
     workflow_change a ASSESSING ''RecoveryAssessmentStarted'' now
       [(KStr ''observation_deadline'', opt_time (g_observation_deadline a))] id)))"

definition wait :: "aggregate \<Rightarrow> int \<Rightarrow> datetime \<Rightarrow> pystr \<Rightarrow> exn + aggregate_change" where
  "wait a expected now reason =
     bindE (require_version a expected) (\<lambda>_.
     bindE (require_identifier reason ''reason'') (\<lambda>_.
     bindE (require_recovery_transition a WAITING) (\<lambda>_.
     workflow_change a WAITING ''RecoveryWaitScheduled'' now [(KStr ''reason'', PStr reason)] id)))"

definition wake :: "aggregate \<Rightarrow> int \<Rightarrow> datetime \<Rightarrow> exn + aggregate_change" where
  "wake a expected now =
     bindE (require_version a expected) (\<lambda>_.
     bindE (require_recovery_transition a ASSESSING) (\<lambda>_.
     bindE (raise_if (g_payment_state a \<noteq> UNPAID) (DomainError ''waiting case cannot re-open without UNPAID truth'')) (\<lambda>_.
     workflow_change a ASSESSING ''RecoveryWaitElapsed'' now [] id)))"

section \<open>Commands: decisions\<close>

definition bind_decision :: "action_proposal \<Rightarrow> aggregate \<Rightarrow> aggregate" where
  "bind_decision p b = b\<lparr>g_decision_version := p_decision_version p,
     g_active_action_key := Some (action_key p), g_active_proposal_id := Some (p_proposal_id p)\<rparr>"

definition request_approval ::
  "aggregate \<Rightarrow> action_proposal \<Rightarrow> gate_decision \<Rightarrow> int \<Rightarrow> datetime \<Rightarrow> exn + aggregate_change" where
  "request_approval a p plan expected now =
     bindE (require_version a expected) (\<lambda>_.
     bindE (raise_if (g_state a \<noteq> ASSESSING)
       (InvalidTransition ''recovery'' (recovery_value (g_state a)) (recovery_value APPROVAL_REQUIRED))) (\<lambda>_.
     bindE (require_observation_elapsed a now) (\<lambda>_.
     bindE (require_proposal_binding a p True) (\<lambda>_.
     bindE (require_gate_binding a p plan POLICY False) (\<lambda>_.
     bindE (raise_if (d_reasons plan = [] \<or> \<not> set (d_reasons plan) \<subseteq> set APPROVAL_BLOCKING_REASONS)
       (AuthorizationBindingError ''approval cannot override non-approval safety failures'')) (\<lambda>_.
     bindE (raise_if (\<not> is_collection p) (DomainError ''only collection proposals use approval workflow'')) (\<lambda>_.
     bindE (raise_if (g_payment_state a \<noteq> UNPAID) (DomainError ''approval cannot be requested unless payment is UNPAID'')) (\<lambda>_.
     workflow_change a APPROVAL_REQUIRED ''RecoveryApprovalRequested'' now
       [(KStr ''gate_digest'', PStr (decision_digest plan)),
        (KStr ''proposal'', py_of_json (proposal_to_primitive p)),
        (KStr ''reason_codes'', PSeq (map (\<lambda>r. PStr (reason_value r)) (d_reasons plan)))]
       (bind_decision p)))))))))"

definition authorize_action ::
  "aggregate \<Rightarrow> action_proposal \<Rightarrow> gate_decision \<Rightarrow> int \<Rightarrow> datetime \<Rightarrow> exn + aggregate_change" where
  "authorize_action a p plan expected now =
     bindE (require_version a expected) (\<lambda>_.
     bindE (raise_if (g_state a \<notin> {ASSESSING, APPROVAL_REQUIRED})
       (InvalidTransition ''recovery'' (recovery_value (g_state a)) (recovery_value ACTION_QUEUED))) (\<lambda>_.
     bindE (require_observation_elapsed a now) (\<lambda>_.
     bindE (require_proposal_binding a p (g_state a = ASSESSING)) (\<lambda>_.
     bindE (require_gate_binding a p plan POLICY True) (\<lambda>_.
     bindE (raise_if (\<not> is_collection p) (DomainError ''only collection actions enter the execution workflow'')) (\<lambda>_.
     bindE (raise_if (g_payment_state a \<noteq> UNPAID) (DomainError ''only UNPAID truth can authorize collection'')) (\<lambda>_.
     bindE (raise_if (g_state a = APPROVAL_REQUIRED
           \<and> (g_active_action_key a \<noteq> Some (action_key p) \<or> g_active_proposal_id a \<noteq> Some (p_proposal_id p)))
       (AuthorizationBindingError ''approved proposal does not match the pending decision'')) (\<lambda>_.
     bindE (require_recovery_transition a ACTION_QUEUED) (\<lambda>_.
     workflow_change a ACTION_QUEUED ''RecoveryActionAuthorized'' now
       [(KStr ''gate_digest'', PStr (decision_digest plan)),
        (KStr ''proposal'', py_of_json (proposal_to_primitive p))]
       (bind_decision p))))))))))"

fun internal_target :: "action_type \<Rightarrow> recovery_state" where
  "internal_target WAIT = WAITING"
| "internal_target ESCALATE = ESCALATED"
| "internal_target _ = SUPPRESSED_POLICY"

definition record_internal_decision ::
  "aggregate \<Rightarrow> action_proposal \<Rightarrow> gate_decision \<Rightarrow> int \<Rightarrow> datetime \<Rightarrow> exn + aggregate_change" where
  "record_internal_decision a p plan expected now =
     bindE (require_version a expected) (\<lambda>_.
     bindE (raise_if (p_action_type p \<notin> set INTERNAL_ACTIONS) (DomainError ''proposal is not an internal action'')) (\<lambda>_.
     bindE (require_proposal_binding a p True) (\<lambda>_.
     bindE (require_gate_binding a p plan POLICY True) (\<lambda>_.
     let target = internal_target (p_action_type p) in
     bindE (require_recovery_transition a target) (\<lambda>_.
     workflow_change a target ''RecoveryInternalDecisionRecorded'' now
       [(KStr ''gate_digest'', PStr (decision_digest plan)),
        (KStr ''proposal'', py_of_json (proposal_to_primitive p))]
       (\<lambda>b. b\<lparr>g_decision_version := p_decision_version p\<rparr>))))))"

definition begin_execution ::
  "aggregate \<Rightarrow> action_proposal \<Rightarrow> gate_decision \<Rightarrow> int \<Rightarrow> datetime \<Rightarrow> exn + aggregate_change" where
  "begin_execution a p effect expected now =
     bindE (require_version a expected) (\<lambda>_.
     bindE (require_proposal_binding a p False) (\<lambda>_.
     bindE (require_gate_binding a p effect EFFECT True) (\<lambda>_.
     bindE (raise_if (g_state a \<noteq> ACTION_QUEUED)
       (InvalidTransition ''recovery'' (recovery_value (g_state a)) (recovery_value EXECUTING))) (\<lambda>_.
     bindE (require_observation_elapsed a now) (\<lambda>_.
     bindE (raise_if (g_active_action_key a \<noteq> Some (action_key p))
       (AuthorizationBindingError ''effect action key is not pending'')) (\<lambda>_.
     bindE (raise_if (g_payment_state a \<noteq> UNPAID) (DomainError ''payment truth changed before execution'')) (\<lambda>_.
     workflow_change a EXECUTING ''RecoveryActionExecutionStarted'' now
       [(KStr ''effect_gate_digest'', PStr (decision_digest effect)), (KStr ''action_key'', PStr (action_key p))] id)))))))"

section \<open>Commands: outcomes\<close>

definition record_action_active :: "aggregate \<Rightarrow> int \<Rightarrow> datetime \<Rightarrow> pystr \<Rightarrow> pystr \<Rightarrow> exn + aggregate_change" where
  "record_action_active a expected now key instrument_reference =
     bindE (require_version a expected) (\<lambda>_.
     bindE (require_active_action a key) (\<lambda>_.
     bindE (require_identifier instrument_reference ''instrument_reference'') (\<lambda>_.
     if g_state a = ACTIVE \<and> g_active_instrument_reference a = Some instrument_reference then Inr (unchanged a)
     else bindE (require_recovery_transition a ACTIVE) (\<lambda>_.
     workflow_change a ACTIVE ''RecoveryInstrumentActivated'' now
       [(KStr ''action_key'', PStr key), (KStr ''instrument_reference'', PStr instrument_reference)]
       (\<lambda>b. b\<lparr>g_active_instrument_reference := Some instrument_reference\<rparr>)))))"

definition record_action_uncertain :: "aggregate \<Rightarrow> int \<Rightarrow> datetime \<Rightarrow> pystr \<Rightarrow> pystr \<Rightarrow> exn + aggregate_change" where
  "record_action_uncertain a expected now key failure_code =
     bindE (require_version a expected) (\<lambda>_.
     bindE (require_active_action a key) (\<lambda>_.
     bindE (require_identifier failure_code ''failure_code'') (\<lambda>_.
     bindE (require_recovery_transition a ACTION_UNCERTAIN) (\<lambda>_.
     workflow_change a ACTION_UNCERTAIN ''RecoveryActionOutcomeUncertain'' now
       [(KStr ''action_key'', PStr key), (KStr ''failure_code'', PStr failure_code)] id))))"

definition requeue_after_absence_proven :: "aggregate \<Rightarrow> int \<Rightarrow> datetime \<Rightarrow> pystr \<Rightarrow> exn + aggregate_change" where
  "requeue_after_absence_proven a expected now key =
     bindE (require_version a expected) (\<lambda>_.
     bindE (require_active_action a key) (\<lambda>_.
     bindE (require_recovery_transition a ACTION_QUEUED) (\<lambda>_.
     workflow_change a ACTION_QUEUED ''RecoveryActionAbsenceProven'' now [(KStr ''action_key'', PStr key)] id)))"

definition escalate_uncertain_action :: "aggregate \<Rightarrow> int \<Rightarrow> datetime \<Rightarrow> pystr \<Rightarrow> pystr \<Rightarrow> exn + aggregate_change" where
  "escalate_uncertain_action a expected now key reason =
     bindE (require_version a expected) (\<lambda>_.
     bindE (require_active_action a key) (\<lambda>_.
     bindE (require_identifier reason ''reason'') (\<lambda>_.
     bindE (require_recovery_transition a ESCALATED) (\<lambda>_.
     workflow_change a ESCALATED ''RecoveryActionEscalated'' now
       [(KStr ''action_key'', PStr key), (KStr ''reason'', PStr reason)] id))))"

definition record_action_failed_safe :: "aggregate \<Rightarrow> int \<Rightarrow> datetime \<Rightarrow> pystr \<Rightarrow> pystr \<Rightarrow> exn + aggregate_change" where
  "record_action_failed_safe a expected now key failure_code =
     bindE (require_version a expected) (\<lambda>_.
     bindE (require_active_action a key) (\<lambda>_.
     bindE (require_identifier failure_code ''failure_code'') (\<lambda>_.
     bindE (require_recovery_transition a FAILED_SAFE) (\<lambda>_.
     workflow_change a FAILED_SAFE ''RecoveryActionFailedSafe'' now
       [(KStr ''action_key'', PStr key), (KStr ''failure_code'', PStr failure_code)] id))))"

definition record_active_expired :: "aggregate \<Rightarrow> int \<Rightarrow> datetime \<Rightarrow> bool \<Rightarrow> exn + aggregate_change" where
  "record_active_expired a expected now budget_remains =
     bindE (require_version a expected) (\<lambda>_.
     let target = (if budget_remains then ASSESSING else EXHAUSTED) in
     bindE (require_recovery_transition a target) (\<lambda>_.
     workflow_change a target ''RecoveryInstrumentExpired'' now [(KStr ''budget_remains'', PBool budget_remains)]
       (\<lambda>b. b\<lparr>g_active_action_key := None, g_active_proposal_id := None, g_active_instrument_reference := None\<rparr>)))"

section \<open>Commands: payment success\<close>

definition record_duplicate_collection :: "aggregate \<Rightarrow> int \<Rightarrow> datetime \<Rightarrow> pystr \<Rightarrow> exn + aggregate_change" where
  "record_duplicate_collection a expected now evidence =
     bindE (require_version a expected) (\<lambda>_.
     bindE (require_identifier evidence ''evidence'') (\<lambda>_.
     bindE (validate_payment_transition (g_payment_state a) OVERPAID) (\<lambda>payment_changed.
     bindE (validate_recovery_transition (g_state a) DUPLICATE_REVIEW) (\<lambda>workflow_changed.
     if \<not> payment_changed \<and> \<not> workflow_changed then Inr (unchanged a)
     else change a ''DuplicateCollectionDetected'' now
       [(KStr ''evidence'', PStr evidence), (KStr ''payment_from'', PStr (payment_value (g_payment_state a))),
        (KStr ''workflow_from'', PStr (recovery_value (g_state a)))]
       (\<lambda>b. b\<lparr>g_payment_state := OVERPAID, g_state := DUPLICATE_REVIEW,
              g_active_action_key := None, g_active_proposal_id := None\<rparr>)))))"

definition record_original_paid :: "aggregate \<Rightarrow> int \<Rightarrow> datetime \<Rightarrow> pystr \<Rightarrow> exn + aggregate_change" where
  "record_original_paid a expected now evidence =
     bindE (require_version a expected) (\<lambda>_.
     bindE (require_identifier evidence ''evidence'') (\<lambda>_.
     bindE (raise_if (g_state a = DORMANT) (DomainError ''a dormant case cannot process payment success'')) (\<lambda>_.
     if g_state a = DUPLICATE_REVIEW \<and> g_payment_state a = OVERPAID then Inr (unchanged a)
     else if g_state a = RECOVERED then record_duplicate_collection a expected now evidence
     else bindE (validate_payment_transition (g_payment_state a) PAID) (\<lambda>payment_changed.
     let workflow_changed = (g_state a \<in> set NONTERMINAL_RECOVERY_STATES) in
     bindE (if workflow_changed then require_recovery_transition a SUPPRESSED_PAID else Inr ()) (\<lambda>_.
     if \<not> payment_changed \<and> \<not> workflow_changed then Inr (unchanged a)
     else change a ''OriginalPaymentSucceeded'' now
       [(KStr ''evidence'', PStr evidence), (KStr ''payment_from'', PStr (payment_value (g_payment_state a))),
        (KStr ''payment_to'', PStr (payment_value PAID)),
        (KStr ''workflow_from'', PStr (recovery_value (g_state a))),
        (KStr ''workflow_to'', PStr (recovery_value (if workflow_changed then SUPPRESSED_PAID else g_state a)))]
       (\<lambda>b. if workflow_changed
            then b\<lparr>g_payment_state := PAID, g_state := SUPPRESSED_PAID,
                   g_active_action_key := None, g_active_proposal_id := None\<rparr>
            else b\<lparr>g_payment_state := PAID\<rparr>))))))"

definition record_recovery_paid :: "aggregate \<Rightarrow> int \<Rightarrow> datetime \<Rightarrow> pystr \<Rightarrow> exn + aggregate_change" where
  "record_recovery_paid a expected now evidence =
     bindE (require_version a expected) (\<lambda>_.
     bindE (require_identifier evidence ''evidence'') (\<lambda>_.
     if g_state a = RECOVERED \<and> g_payment_state a = PAID then Inr (unchanged a)
     else bindE (raise_if (g_state a \<noteq> ACTIVE)
       (InvalidTransition ''recovery'' (recovery_value (g_state a)) (recovery_value RECOVERED))) (\<lambda>_.
     if g_payment_state a = PAID then record_duplicate_collection a expected now evidence
     else bindE (validate_payment_transition (g_payment_state a) PAID) (\<lambda>_.
     bindE (require_recovery_transition a RECOVERED) (\<lambda>_.
     change a ''RecoveryPaymentSucceeded'' now
       [(KStr ''evidence'', PStr evidence), (KStr ''payment_from'', PStr (payment_value (g_payment_state a))),
        (KStr ''payment_to'', PStr (payment_value PAID))]
       (\<lambda>b. b\<lparr>g_payment_state := PAID, g_state := RECOVERED\<rparr>))))))"

section \<open>The aggregate as evidence\<close>

definition json_time :: "instant \<Rightarrow> json" where
  "json_time t = JStr (iso_timestamp t)"

definition aggregate_to_primitive :: "aggregate \<Rightarrow> json" where
  "aggregate_to_primitive a = JObj
     [(''active_action_key'', json_opt JStr (g_active_action_key a)),
      (''active_instrument_reference'', json_opt JStr (g_active_instrument_reference a)),
      (''active_proposal_id'', json_opt JStr (g_active_proposal_id a)),
      (''amount_due'', money_to_primitive (g_amount_due a)),
      (''case_id'', JStr (g_case_id a)),
      (''collection_closed'', JBool (collection_closed a)),
      (''decision_version'', JInt (g_decision_version a)),
      (''incident_state'', JStr (incident_value (g_incident_state a))),
      (''last_transition_at'', json_opt json_time (g_last_transition_at a)),
      (''logical_order_id'', JStr (g_logical_order_id a)),
      (''late_capture_policy'', policy_to_primitive (g_late_capture_policy a)),
      (''merchant_id'', JStr (g_merchant_id a)),
      (''observation_deadline'', json_opt json_time (g_observation_deadline a)),
      (''observation_started_at'', json_opt json_time (g_observation_started_at a)),
      (''payment_state'', JStr (payment_value (g_payment_state a))),
      (''state'', JStr (recovery_value (g_state a))),
      (''version'', JInt (g_version a))]"

section \<open>Dispatch\<close>

datatype command =
    ObserveFailure pystr "datetime option"
  | ReconcilePaymentTruth canonical_payment_state pystr
  | UpdateIncidentState incident_state pystr
  | MarkReady
  | Wait pystr
  | Wake
  | RequestApproval action_proposal gate_decision
  | AuthorizeAction action_proposal gate_decision
  | RecordInternalDecision action_proposal gate_decision
  | BeginExecution action_proposal gate_decision
  | RecordActionActive pystr pystr
  | RecordActionUncertain pystr pystr
  | RequeueAfterAbsence pystr
  | EscalateUncertain pystr pystr
  | RecordFailedSafe pystr pystr
  | RecordActiveExpired bool
  | RecordOriginalPaid pystr
  | RecordRecoveryPaid pystr
  | RecordDuplicate pystr

fun apply_command :: "command \<Rightarrow> aggregate \<Rightarrow> int \<Rightarrow> datetime \<Rightarrow> exn + aggregate_change" where
  "apply_command (ObserveFailure eid ext) a v now = observe_failure a v now eid ext"
| "apply_command (ReconcilePaymentTruth t ev) a v now = reconcile_payment_truth a t v now ev"
| "apply_command (UpdateIncidentState t ev) a v now = update_incident_state a t v now ev"
| "apply_command MarkReady a v now = mark_ready_for_evaluation a v now"
| "apply_command (Wait r) a v now = wait a v now r"
| "apply_command Wake a v now = wake a v now"
| "apply_command (RequestApproval p d) a v now = request_approval a p d v now"
| "apply_command (AuthorizeAction p d) a v now = authorize_action a p d v now"
| "apply_command (RecordInternalDecision p d) a v now = record_internal_decision a p d v now"
| "apply_command (BeginExecution p d) a v now = begin_execution a p d v now"
| "apply_command (RecordActionActive k i) a v now = record_action_active a v now k i"
| "apply_command (RecordActionUncertain k f) a v now = record_action_uncertain a v now k f"
| "apply_command (RequeueAfterAbsence k) a v now = requeue_after_absence_proven a v now k"
| "apply_command (EscalateUncertain k r) a v now = escalate_uncertain_action a v now k r"
| "apply_command (RecordFailedSafe k f) a v now = record_action_failed_safe a v now k f"
| "apply_command (RecordActiveExpired b) a v now = record_active_expired a v now b"
| "apply_command (RecordOriginalPaid ev) a v now = record_original_paid a v now ev"
| "apply_command (RecordRecoveryPaid ev) a v now = record_recovery_paid a v now ev"
| "apply_command (RecordDuplicate ev) a v now = record_duplicate_collection a v now ev"

end
