(* ===== verification/Gate_Spec.thy ===== *)
theory Gate_Spec
  imports Gate
begin

text \<open>
  The contract of the authorization gate. \<open>authorized\<close> says, without reason codes, what must hold
  for an action at a stage; the lemmas show that each block of the evaluation is empty exactly
  when its part of the contract holds, in which order reasons can appear, and what an approval
  can change.
\<close>

section \<open>Specification\<close>

text \<open>Freshness of an observation: not ahead of the clock by more than the skew, not older than
  the maximal age.\<close>

definition fresh :: "gate_policy \<Rightarrow> instant \<Rightarrow> instant \<Rightarrow> timedelta \<Rightarrow> bool" where
  "fresh pol now observed age = (observed \<le> now + gp_allowed_clock_skew pol \<and> now \<le> observed + age)"

definition in_scope :: "gate_policy \<Rightarrow> gate_stage \<Rightarrow> action_proposal \<Rightarrow> gate_context \<Rightarrow> bool" where
  "in_scope pol stage p c =
     (p_merchant_id p = c_merchant_id c \<and> p_case_id p = c_case_id c
      \<and> p_created_at p \<le> c_evaluated_at c + gp_allowed_clock_skew pol \<and> c_evaluated_at c < p_expires_at p
      \<and> p_action_type p \<in> set (gp_allowed_actions pol)
      \<and> c_aggregate_version c = c_expected_aggregate_version c
      \<and> c_recovery_state c \<in> set (actionable_states stage (p_action_type p))
      \<and> (is_external p \<longrightarrow> c_environment_effects_enabled c))"

definition collection_safe :: "gate_policy \<Rightarrow> action_proposal \<Rightarrow> gate_context \<Rightarrow> bool" where
  "collection_safe pol p c =
     (let s = c_snapshot c; now = c_evaluated_at c in
      \<not> c_global_kill_switch c \<and> \<not> c_merchant_kill_switch c
      \<and> (\<exists>deadline. c_observation_deadline c = Some deadline \<and> deadline \<le> now)
      \<and> s_payment_state s = UNPAID
      \<and> fresh pol now (s_observed_at s) (gp_provider_snapshot_max_age pol)
      \<and> fresh pol now (s_method_health_observed_at s) (gp_incident_health_max_age pol)
      \<and> s_incident_state s \<noteq> CONFIRMED
      \<and> c_attempts_used c < gp_max_attempts pol
      \<and> (\<forall>m. p_amount p = Some m \<longrightarrow> m = s_amount_due s \<and> p_payment_method p = Some (s_payment_method s)
             \<and> currency m = currency (gp_approval_threshold pol)))"

definition instrument_fit :: "action_proposal \<Rightarrow> gate_context \<Rightarrow> bool" where
  "instrument_fit p c = (case p_action_type p of
      CREATE_STANDARD_PAYMENT_LINK \<Rightarrow> s_active_instrument_count (c_snapshot c) \<le> 0
    | NOTIFY_EXISTING_LINK \<Rightarrow> s_active_instrument_count (c_snapshot c) \<noteq> 0
    | CANCEL_PAYMENT_LINK \<Rightarrow> s_active_instrument_count (c_snapshot c) \<noteq> 0
    | _ \<Rightarrow> True)"

definition contact_permitted :: "gate_policy \<Rightarrow> gate_context \<Rightarrow> bool" where
  "contact_permitted pol c =
     (c_consent_granted c \<and> \<not> c_opted_out c \<and> \<not> c_quiet_hours_active c
      \<and> c_contacts_in_window c < gp_max_contacts_in_window pol
      \<and> (\<forall>t. c_cooldown_until c = Some t \<longrightarrow> t \<le> c_evaluated_at c))"

text \<open>A confident, low-value proposal that nobody asked to review needs no approval.\<close>

definition autonomous :: "gate_policy \<Rightarrow> action_proposal \<Rightarrow> gate_context \<Rightarrow> bool" where
  "autonomous pol p c =
     (\<not> p_requires_approval p \<and> \<not> c_abstention_required c \<and> \<not> c_external_diagnosis_review_required c
      \<and> (\<exists>q. p_model_confidence p = Some q \<and> \<not> prob_less q (gp_min_confidence pol))
      \<and> (\<forall>m. p_amount p = Some m \<longrightarrow> currency m = currency (gp_approval_threshold pol) \<longrightarrow>
             minor_units m < minor_units (gp_approval_threshold pol)))"

definition validly_approved :: "action_proposal \<Rightarrow> gate_context \<Rightarrow> bool" where
  "validly_approved p c =
     (\<exists>a. c_approval c = Some a \<and> a_granted a
        \<and> a_approved_at a \<le> c_evaluated_at c \<and> c_evaluated_at c < a_expires_at a
        \<and> a_merchant_id a = p_merchant_id p \<and> a_case_id a = p_case_id p
        \<and> a_action_key a = action_key p \<and> a_proposal_digest a = proposal_digest p
        \<and> a_decision_version a = p_decision_version p)"

definition planned :: "gate_policy \<Rightarrow> action_proposal \<Rightarrow> gate_context \<Rightarrow> gate_decision option \<Rightarrow> bool" where
  "planned pol p c prior_plan =
     ((\<exists>prior. prior_plan = Some prior \<and> plan_matches pol prior p c) \<and> c_durable_intent_recorded c)"

definition authorized ::
  "gate_policy \<Rightarrow> gate_stage \<Rightarrow> action_proposal \<Rightarrow> gate_context \<Rightarrow> gate_decision option \<Rightarrow> bool" where
  "authorized pol stage p c prior_plan =
     (in_scope pol stage p c \<and> instrument_fit p c
      \<and> (is_collection p \<longrightarrow> collection_safe pol p c \<and> (autonomous pol p c \<or> validly_approved p c))
      \<and> (is_contact p \<longrightarrow> contact_permitted pol c)
      \<and> (stage = EFFECT \<longrightarrow> is_external p \<longrightarrow> planned pol p c prior_plan))"

section \<open>Each block is empty exactly when its part of the specification holds\<close>

lemma append_if_Nil [simp]: "append_if b r = [] \<longleftrightarrow> \<not> b"
  by (simp add: append_if_def)

lemma set_append_if [simp]: "x \<in> set (append_if b r) \<longleftrightarrow> b \<and> x = r"
  by (auto simp: append_if_def)

lemma filter_append_if [simp]: "filter P (append_if b r) = append_if (b \<and> P r) r"
  by (simp add: append_if_def)

lemma collection_external: "is_collection p \<Longrightarrow> is_external p"
  by (auto simp: action_sets)

lemma approval_failure_None: "approval_failure p c = None \<longleftrightarrow> validly_approved p c"
  by (auto simp: approval_failure_def validly_approved_def split: option.splits)

lemma approval_causes_Nil:
  "p_requires_approval p \<or> approval_causes pol p c \<noteq> [] \<longleftrightarrow> \<not> autonomous pol p c"
  by (auto simp: approval_causes_def autonomous_def split: option.splits)

lemma scope_reasons_Nil:
  "scope_reasons pol stage p c (c_evaluated_at c + gp_allowed_clock_skew pol) = [] \<longleftrightarrow>
     in_scope pol stage p c \<and> (is_collection p \<longrightarrow> \<not> c_global_kill_switch c \<and> \<not> c_merchant_kill_switch c)"
  by (auto simp: scope_reasons_def in_scope_def not_less not_le)

lemma observation_reasons_Nil:
  "observation_reasons p c = [] \<longleftrightarrow>
     (is_collection p \<longrightarrow> (\<exists>deadline. c_observation_deadline c = Some deadline \<and> deadline \<le> c_evaluated_at c))"
  by (auto simp: observation_reasons_def not_less split: option.splits)

lemma truth_reasons_Nil:
  "truth_reasons pol p c (c_evaluated_at c + gp_allowed_clock_skew pol) = [] \<longleftrightarrow>
     (is_collection p \<longrightarrow> s_payment_state (c_snapshot c) = UNPAID
        \<and> fresh pol (c_evaluated_at c) (s_observed_at (c_snapshot c)) (gp_provider_snapshot_max_age pol))"
  by (auto simp: truth_reasons_def fresh_def)

lemma health_reasons_Nil:
  "health_reasons pol p c (c_evaluated_at c + gp_allowed_clock_skew pol) = [] \<longleftrightarrow>
     (is_collection p \<longrightarrow> s_incident_state (c_snapshot c) \<noteq> CONFIRMED \<and> c_attempts_used c < gp_max_attempts pol
        \<and> fresh pol (c_evaluated_at c) (s_method_health_observed_at (c_snapshot c)) (gp_incident_health_max_age pol))"
  by (auto simp: health_reasons_def fresh_def)

lemma instrument_reasons_Nil: "instrument_reasons p c = [] \<longleftrightarrow> instrument_fit p c"
  by (cases "p_action_type p") (auto simp: instrument_reasons_def instrument_fit_def)

lemma money_eq_iff: "(m :: money) = n \<longleftrightarrow> currency m = currency n \<and> minor_units m = minor_units n"
  by (cases m; cases n) auto

lemma amount_reasons_Nil:
  "amount_reasons p c = [] \<longleftrightarrow>
     (is_collection p \<longrightarrow> (\<forall>m. p_amount p = Some m \<longrightarrow>
        m = s_amount_due (c_snapshot c) \<and> p_payment_method p = Some (s_payment_method (c_snapshot c))))"
  by (auto simp: amount_reasons_def money_eq_iff [where n = "s_amount_due (c_snapshot c)"] split: option.splits)

lemma contact_reasons_Nil: "contact_reasons pol p c = [] \<longleftrightarrow> (is_contact p \<longrightarrow> contact_permitted pol c)"
  by (auto simp: contact_reasons_def contact_permitted_def not_less not_le split: option.splits)

lemma approval_reasons_Nil:
  "approval_reasons pol p c = [] \<longleftrightarrow>
     (is_collection p \<longrightarrow> (autonomous pol p c \<or> validly_approved p c)
        \<and> (\<forall>m. p_amount p = Some m \<longrightarrow> currency m = currency (gp_approval_threshold pol)))"
proof -
  have "policy_currency_reasons pol p = [] \<longleftrightarrow>
      (\<forall>m. p_amount p = Some m \<longrightarrow> currency m = currency (gp_approval_threshold pol))"
    by (auto simp: policy_currency_reasons_def split: option.splits)
  then show ?thesis
    using approval_causes_Nil [of p pol c] approval_failure_None [of p c]
    by (auto simp: approval_reasons_def Let_def split: option.splits)
qed

lemma plan_reasons_Nil:
  "plan_reasons pol stage p c prior_plan = [] \<longleftrightarrow> (stage = EFFECT \<longrightarrow> is_external p \<longrightarrow> planned pol p c prior_plan)"
  by (auto simp: plan_reasons_def planned_def split: option.splits)

lemmas block_Nil = scope_reasons_Nil observation_reasons_Nil truth_reasons_Nil instrument_reasons_Nil
  amount_reasons_Nil contact_reasons_Nil health_reasons_Nil approval_reasons_Nil plan_reasons_Nil

lemma all_reasons_Nil:
  "all_reasons pol stage p c prior_plan (c_evaluated_at c + gp_allowed_clock_skew pol) = [] \<longleftrightarrow>
     authorized pol stage p c prior_plan"
  unfolding all_reasons_def append_is_Nil_conv block_Nil authorized_def collection_safe_def Let_def
  by blast

lemma evaluate_Inr [guards]:
  "evaluate pol stage p c prior_plan = Inr d \<longleftrightarrow>
     in_range (c_evaluated_at c + gp_allowed_clock_skew pol) \<and>
     d = \<lparr>d_stage = stage, d_policy_version = gp_version pol, d_proposal_id = p_proposal_id p,
          d_action_key = action_key p, d_proposal_digest = proposal_digest p, d_case_id = p_case_id p,
          d_decision_version = p_decision_version p, d_aggregate_version = c_aggregate_version c,
          d_evaluated_at = c_evaluated_at c,
          d_reasons = all_reasons pol stage p c prior_plan (c_evaluated_at c + gp_allowed_clock_skew pol)\<rparr>"
  by (auto simp: evaluate_def)

lemma evaluate_allowed:
  assumes "evaluate pol stage p c prior_plan = Inr d"
  shows "allowed d \<longleftrightarrow> authorized pol stage p c prior_plan"
  using assms by (simp add: evaluate_Inr allowed_def all_reasons_Nil)

section \<open>Order of the reasons\<close>

text \<open>The order in which the evaluation can emit reasons.\<close>

definition REASON_ORDER :: "gate_reason list" where
  "REASON_ORDER =
     [PROPOSAL_MERCHANT_MISMATCH, PROPOSAL_CASE_MISMATCH, ACTION_NOT_YET_VALID, ACTION_EXPIRED,
      ACTION_NOT_ALLOWED, ENVIRONMENT_EFFECTS_DISABLED, GLOBAL_KILL_SWITCH_ACTIVE,
      MERCHANT_KILL_SWITCH_ACTIVE, AGGREGATE_VERSION_MISMATCH, RECOVERY_STATE_NOT_ACTIONABLE]
     @ [OBSERVATION_DEADLINE_MISSING, OBSERVATION_WINDOW_ACTIVE]
     @ [PAYMENT_TRUTH_NOT_UNPAID, PROVIDER_SNAPSHOT_FROM_FUTURE, PROVIDER_SNAPSHOT_STALE]
     @ [ACTIVE_INSTRUMENT_EXISTS, ACTIVE_INSTRUMENT_REQUIRED]
     @ [CURRENCY_MISMATCH, AMOUNT_MISMATCH, PAYMENT_METHOD_MISMATCH]
     @ [CONSENT_MISSING, CUSTOMER_OPTED_OUT, COOLDOWN_ACTIVE, CONTACT_CAP_REACHED, QUIET_HOURS_ACTIVE]
     @ [INCIDENT_HEALTH_FROM_FUTURE, INCIDENT_HEALTH_STALE, PAYMENT_METHOD_UNHEALTHY, ATTEMPT_BUDGET_EXHAUSTED]
     @ [POLICY_CURRENCY_MISMATCH, HIGH_VALUE_REQUIRES_APPROVAL, CONFIDENCE_UNAVAILABLE,
        CONFIDENCE_BELOW_THRESHOLD, ABSTENTION_REQUIRES_APPROVAL, EXTERNAL_DIAGNOSIS_REQUIRES_APPROVAL,
        APPROVAL_REQUIRED_REASON, APPROVAL_REJECTED, APPROVAL_NOT_YET_VALID, APPROVAL_EXPIRED,
        APPROVAL_BINDING_MISMATCH]
     @ [PLAN_AUTHORIZATION_MISSING, PLAN_BINDING_MISMATCH, DURABLE_INTENT_MISSING]"

lemma subseq_append_if: "subseq xs ys \<Longrightarrow> subseq (append_if b r @ xs) (r # ys)" "subseq (append_if b r) (r # ys)"
  by (auto simp: append_if_def intro: list_emb_Cons)

lemma subseq_scope:
  "subseq (scope_reasons pol stage p c h)
     [PROPOSAL_MERCHANT_MISMATCH, PROPOSAL_CASE_MISMATCH, ACTION_NOT_YET_VALID, ACTION_EXPIRED,
      ACTION_NOT_ALLOWED, ENVIRONMENT_EFFECTS_DISABLED, GLOBAL_KILL_SWITCH_ACTIVE,
      MERCHANT_KILL_SWITCH_ACTIVE, AGGREGATE_VERSION_MISMATCH, RECOVERY_STATE_NOT_ACTIONABLE]"
  unfolding scope_reasons_def by (intro subseq_append_if)

lemma subseq_contact:
  "subseq (contact_reasons pol p c)
     [CONSENT_MISSING, CUSTOMER_OPTED_OUT, COOLDOWN_ACTIVE, CONTACT_CAP_REACHED, QUIET_HOURS_ACTIVE]"
  by (simp add: contact_reasons_def subseq_append_if)

lemma subseq_blocks:
  "subseq (scope_reasons pol stage p c h)
     [PROPOSAL_MERCHANT_MISMATCH, PROPOSAL_CASE_MISMATCH, ACTION_NOT_YET_VALID, ACTION_EXPIRED,
      ACTION_NOT_ALLOWED, ENVIRONMENT_EFFECTS_DISABLED, GLOBAL_KILL_SWITCH_ACTIVE,
      MERCHANT_KILL_SWITCH_ACTIVE, AGGREGATE_VERSION_MISMATCH, RECOVERY_STATE_NOT_ACTIONABLE]"
  "subseq (observation_reasons p c) [OBSERVATION_DEADLINE_MISSING, OBSERVATION_WINDOW_ACTIVE]"
  "subseq (truth_reasons pol p c h)
     [PAYMENT_TRUTH_NOT_UNPAID, PROVIDER_SNAPSHOT_FROM_FUTURE, PROVIDER_SNAPSHOT_STALE]"
  "subseq (instrument_reasons p c) [ACTIVE_INSTRUMENT_EXISTS, ACTIVE_INSTRUMENT_REQUIRED]"
  "subseq (amount_reasons p c) [CURRENCY_MISMATCH, AMOUNT_MISMATCH, PAYMENT_METHOD_MISMATCH]"
  "subseq (contact_reasons pol p c)
     [CONSENT_MISSING, CUSTOMER_OPTED_OUT, COOLDOWN_ACTIVE, CONTACT_CAP_REACHED, QUIET_HOURS_ACTIVE]"
  "subseq (health_reasons pol p c h)
     [INCIDENT_HEALTH_FROM_FUTURE, INCIDENT_HEALTH_STALE, PAYMENT_METHOD_UNHEALTHY, ATTEMPT_BUDGET_EXHAUSTED]"
  "subseq (plan_reasons pol stage p c prior) [PLAN_AUTHORIZATION_MISSING, PLAN_BINDING_MISMATCH, DURABLE_INTENT_MISSING]"
  by (rule subseq_scope)
    (auto simp: observation_reasons_def truth_reasons_def instrument_reasons_def
      amount_reasons_def health_reasons_def plan_reasons_def append_if_def split: option.split intro: subseq_contact)

lemma subseq_approval_causes:
  "subseq (approval_causes pol p c)
     [HIGH_VALUE_REQUIRES_APPROVAL, CONFIDENCE_UNAVAILABLE, CONFIDENCE_BELOW_THRESHOLD,
      ABSTENTION_REQUIRES_APPROVAL, EXTERNAL_DIAGNOSIS_REQUIRES_APPROVAL]"
  by (simp add: approval_causes_def append_if_def split: option.split)

lemma subseq_approval_failure:
  "approval_failure p c = Some r \<Longrightarrow> subseq [r]
     [APPROVAL_REQUIRED_REASON, APPROVAL_REJECTED, APPROVAL_NOT_YET_VALID, APPROVAL_EXPIRED, APPROVAL_BINDING_MISMATCH]"
  by (auto simp: approval_failure_def split: option.splits if_splits)

lemma subseq_approval_reasons:
  "subseq (approval_reasons pol p c)
     [POLICY_CURRENCY_MISMATCH, HIGH_VALUE_REQUIRES_APPROVAL, CONFIDENCE_UNAVAILABLE,
      CONFIDENCE_BELOW_THRESHOLD, ABSTENTION_REQUIRES_APPROVAL, EXTERNAL_DIAGNOSIS_REQUIRES_APPROVAL,
      APPROVAL_REQUIRED_REASON, APPROVAL_REJECTED, APPROVAL_NOT_YET_VALID, APPROVAL_EXPIRED,
      APPROVAL_BINDING_MISMATCH]" (is "subseq _ (?c # ?causes)")
proof -
  have currency: "subseq (policy_currency_reasons pol p) [?c]"
    by (simp add: policy_currency_reasons_def append_if_def split: option.split)
  have "subseq (case approval_failure p c of None \<Rightarrow> [] | Some r \<Rightarrow> approval_causes pol p c @ [r]) ?causes"
    using list_emb_append_mono [OF subseq_approval_causes subseq_approval_failure]
    by (simp split: option.split)
  then show ?thesis
    using list_emb_append_mono [OF currency, of _ ?causes] by (simp add: approval_reasons_def Let_def)
qed

lemma subseq_all_reasons: "subseq (all_reasons pol stage p c prior h) REASON_ORDER"
  unfolding all_reasons_def REASON_ORDER_def
  by (intro list_emb_append_mono subseq_blocks subseq_approval_reasons)

lemma distinct_REASON_ORDER: "distinct REASON_ORDER"
  by (simp add: REASON_ORDER_def)

lemma distinct_subseq: "subseq xs ys \<Longrightarrow> distinct ys \<Longrightarrow> distinct xs"
  by (auto simp: subseq_conv_nths intro: distinct_nthsI)

section \<open>What an approval can change\<close>

lemma approval_blocking_causes:
  "set (approval_causes pol p c) \<subseteq> set APPROVAL_BLOCKING_REASONS"
  "approval_failure p c = Some r \<Longrightarrow> r \<in> set APPROVAL_BLOCKING_REASONS"
  by (auto simp: approval_causes_def approval_failure_def APPROVAL_BLOCKING_REASONS_def split: option.splits if_splits)

abbreviation not_blocking :: "gate_reason \<Rightarrow> bool" where
  "not_blocking r \<equiv> r \<notin> set APPROVAL_BLOCKING_REASONS"

lemma filter_drop_tail:
  "list_all (\<lambda>r. r \<notin> B) xs \<Longrightarrow> list_all (\<lambda>r. r \<in> B) ys \<Longrightarrow> filter (\<lambda>r. r \<notin> B) (xs @ ys) = xs"
  by (auto simp: list_all_iff filter_empty_conv filter_id_conv)

definition approval_tail :: "gate_policy \<Rightarrow> action_proposal \<Rightarrow> gate_context \<Rightarrow> gate_reason list" where
  "approval_tail pol p c =
     (if p_requires_approval p \<or> approval_causes pol p c \<noteq> []
      then (case approval_failure p c of None \<Rightarrow> [] | Some r \<Rightarrow> approval_causes pol p c @ [r]) else [])"

lemma approval_reasons_tail:
  "approval_reasons pol p c = (if is_collection p then policy_currency_reasons pol p @ approval_tail pol p c else [])"
  by (simp add: approval_reasons_def approval_tail_def Let_def)

lemma approval_tail_blocking: "list_all (\<lambda>r. r \<in> set APPROVAL_BLOCKING_REASONS) (approval_tail pol p c)"
proof -
  have "list_all (\<lambda>r. r \<in> set APPROVAL_BLOCKING_REASONS) (approval_causes pol p c)"
    using approval_blocking_causes(1) [of pol p c] by (auto simp: list_all_iff)
  then show ?thesis
    using approval_blocking_causes(2) [of p c] by (cases "approval_failure p c") (simp_all add: approval_tail_def)
qed

lemma filter_approval_reasons:
  "filter not_blocking (approval_reasons pol p c) =
     (if is_collection p then policy_currency_reasons pol p else [])"
proof -
  have "list_all not_blocking (policy_currency_reasons pol p)"
    by (simp add: policy_currency_reasons_def append_if_def APPROVAL_BLOCKING_REASONS_def split: option.split)
  from filter_drop_tail [OF this approval_tail_blocking] show ?thesis
    by (simp only: approval_reasons_tail filter.simps(1) split: if_split) simp
qed

lemma filter_other_blocks:
  "filter not_blocking (scope_reasons pol stage p c h) = scope_reasons pol stage p c h"
  "filter not_blocking (observation_reasons p c) = observation_reasons p c"
  "filter not_blocking (truth_reasons pol p c h) = truth_reasons pol p c h"
  "filter not_blocking (instrument_reasons p c) = instrument_reasons p c"
  "filter not_blocking (amount_reasons p c) = amount_reasons p c"
  "filter not_blocking (contact_reasons pol p c) = contact_reasons pol p c"
  "filter not_blocking (health_reasons pol p c h) = health_reasons pol p c h"
  "filter not_blocking (plan_reasons pol stage p c prior) = plan_reasons pol stage p c prior"
  by (auto simp: scope_reasons_def observation_reasons_def truth_reasons_def instrument_reasons_def
      amount_reasons_def contact_reasons_def health_reasons_def plan_reasons_def append_if_def
      APPROVAL_BLOCKING_REASONS_def filter_id_conv split: option.splits)

lemma blocks_ignore_approval:
  "scope_reasons pol stage p (c\<lparr>c_approval := a\<rparr>) h = scope_reasons pol stage p c h"
  "observation_reasons p (c\<lparr>c_approval := a\<rparr>) = observation_reasons p c"
  "truth_reasons pol p (c\<lparr>c_approval := a\<rparr>) h = truth_reasons pol p c h"
  "instrument_reasons p (c\<lparr>c_approval := a\<rparr>) = instrument_reasons p c"
  "amount_reasons p (c\<lparr>c_approval := a\<rparr>) = amount_reasons p c"
  "contact_reasons pol p (c\<lparr>c_approval := a\<rparr>) = contact_reasons pol p c"
  "health_reasons pol p (c\<lparr>c_approval := a\<rparr>) h = health_reasons pol p c h"
  "plan_reasons pol stage p (c\<lparr>c_approval := a\<rparr>) prior = plan_reasons pol stage p c prior"
  by (simp_all add: scope_reasons_def observation_reasons_def truth_reasons_def instrument_reasons_def
      amount_reasons_def contact_reasons_def health_reasons_def plan_reasons_def plan_matches_def split: option.split)

lemma valid_approval_reasons:
  "validly_approved p c \<Longrightarrow> approval_reasons pol p c = (if is_collection p then policy_currency_reasons pol p else [])"
  by (simp add: approval_reasons_def Let_def flip: approval_failure_None)

lemma all_reasons_approved:
  assumes "validly_approved p (c\<lparr>c_approval := a\<rparr>)"
  shows "all_reasons pol stage p (c\<lparr>c_approval := a\<rparr>) prior h
       = filter not_blocking (all_reasons pol stage p c prior h)"
  by (simp add: all_reasons_def blocks_ignore_approval filter_other_blocks filter_approval_reasons
      valid_approval_reasons [OF assms])

section \<open>Sample inputs\<close>

definition sample_money :: money where
  "sample_money = \<lparr>minor_units = 49900, currency = ''INR''\<rparr>"

definition sample_policy :: gate_policy where
  "sample_policy = \<lparr>gp_version = ''policy-v1'',
     gp_allowed_actions = [WAIT, CREATE_STANDARD_PAYMENT_LINK, CANCEL_PAYMENT_LINK],
     gp_provider_snapshot_max_age = 30 * us_second, gp_incident_health_max_age = 60 * us_second,
     gp_max_attempts = 3, gp_max_contacts_in_window = 2,
     gp_approval_threshold = \<lparr>minor_units = 1000000, currency = ''INR''\<rparr>,
     gp_min_confidence = \<lparr>prob_value = Dec False 7 (-1)\<rparr>, gp_allowed_clock_skew = 5 * us_second\<rparr>"

definition sample_proposal :: action_proposal where
  "sample_proposal = \<lparr>p_proposal_id = ''prop_1'', p_merchant_id = ''m_1'', p_case_id = ''case_1'',
     p_decision_version = 1, p_action_type = CREATE_STANDARD_PAYMENT_LINK,
     p_created_at = 740000 * us_day, p_expires_at = 740001 * us_day, p_attempt_ordinal = 1,
     p_amount = Some sample_money, p_payment_method = Some ''upi'', p_expected_value_minor = None,
     p_model_confidence = Some \<lparr>prob_value = Dec False 9 (-1)\<rparr>, p_requires_approval = False,
     p_instrument_reference = None\<rparr>"

definition sample_snapshot :: provider_snapshot where
  "sample_snapshot = \<lparr>s_payment_state = UNPAID, s_amount_due = sample_money, s_payment_method = ''upi'',
     s_observed_at = 740000 * us_day, s_active_instrument_count = 0, s_incident_state = NORMAL,
     s_method_health_observed_at = 740000 * us_day\<rparr>"

definition sample_context :: "recovery_state \<Rightarrow> gate_context" where
  "sample_context st = \<lparr>c_merchant_id = ''m_1'', c_case_id = ''case_1'',
     c_evaluated_at = 740000 * us_day + 10 * us_second, c_aggregate_version = 4,
     c_expected_aggregate_version = 4, c_recovery_state = st, c_snapshot = sample_snapshot,
     c_environment_effects_enabled = True, c_observation_deadline = Some (740000 * us_day),
     c_global_kill_switch = False, c_merchant_kill_switch = False, c_consent_granted = True,
     c_opted_out = False, c_cooldown_until = None, c_contacts_in_window = 0,
     c_quiet_hours_active = False, c_attempts_used = 0, c_abstention_required = False,
     c_external_diagnosis_review_required = False, c_approval = None, c_durable_intent_recorded = True\<rparr>"

definition sample_decision :: "gate_stage \<Rightarrow> gate_reason list \<Rightarrow> gate_decision" where
  "sample_decision stage rs = \<lparr>d_stage = stage, d_policy_version = ''policy-v1'', d_proposal_id = ''prop_1'',
     d_action_key = action_key sample_proposal, d_proposal_digest = proposal_digest sample_proposal,
     d_case_id = ''case_1'', d_decision_version = 1, d_aggregate_version = 4,
     d_evaluated_at = 740000 * us_day + 10 * us_second, d_reasons = rs\<rparr>"

lemma sample_simps [simp]:
  "p_action_type sample_proposal = CREATE_STANDARD_PAYMENT_LINK"
  "p_case_id sample_proposal = ''case_1''" "p_decision_version sample_proposal = 1"
  "c_evaluated_at (sample_context st) = 740000 * us_day + 10 * us_second"
  "c_aggregate_version (sample_context st) = 4"
  "c_approval (sample_context st) = None" "c_durable_intent_recorded (sample_context st)"
  "p_proposal_id sample_proposal = ''prop_1''" "gp_version sample_policy = ''policy-v1''"
  by (simp_all add: sample_proposal_def sample_context_def sample_policy_def action_sets)

lemmas sample_defs = sample_money_def sample_policy_def sample_proposal_def sample_snapshot_def sample_context_def

lemma sample_blocks:
  "stage = POLICY \<and> st = ASSESSING \<or> stage = EFFECT \<and> st = ACTION_QUEUED \<Longrightarrow>
     in_scope sample_policy stage sample_proposal (sample_context st)"
  "instrument_fit sample_proposal (sample_context st)"
  "collection_safe sample_policy sample_proposal (sample_context st)"
  "autonomous sample_policy sample_proposal (sample_context st)"
  by (auto simp: sample_defs in_scope_def instrument_fit_def collection_safe_def autonomous_def fresh_def
      action_sets actionable_states_def us_second_def us_minute_def us_day_def prob_less_def dec_less_def Let_def)

lemma sample_in_range: "in_range (c_evaluated_at (sample_context st) + gp_allowed_clock_skew sample_policy)"
  by (simp add: sample_defs in_range_def max_instant_def us_second_def us_day_def)

lemma sample_plan_matches:
  "plan_matches sample_policy (sample_decision POLICY []) sample_proposal (sample_context st)"
  by (simp add: plan_matches_def sample_decision_def allowed_def)

lemma sample_evaluate:
  assumes "authorized sample_policy stage sample_proposal (sample_context st) prior"
  shows "evaluate sample_policy stage sample_proposal (sample_context st) prior = Inr (sample_decision stage [])"
  using assms sample_in_range [of st] all_reasons_Nil [of sample_policy stage sample_proposal "sample_context st" prior]
  by (simp add: evaluate_Inr sample_decision_def)

lemma sample_plan_allowed:
  "evaluate sample_policy POLICY sample_proposal (sample_context ASSESSING) None = Inr (sample_decision POLICY [])"
  by (rule sample_evaluate) (simp add: authorized_def sample_blocks action_sets)

lemma sample_effect_allowed:
  "evaluate_effect sample_policy sample_proposal (sample_context ACTION_QUEUED) (Some (sample_decision POLICY []))
     = Inr (sample_decision EFFECT [])"
  unfolding evaluate_effect_def
  by (rule sample_evaluate) (simp add: authorized_def sample_blocks planned_def sample_plan_matches action_sets)

lemma allowed_sample [simp]: "allowed (sample_decision stage rs) \<longleftrightarrow> rs = []"
  by (simp add: allowed_def sample_decision_def)

section \<open>Properties\<close>

text \<open>C17. The gate implements its contract: whenever the evaluation returns a decision, the decision
  is allowed exactly when the action is authorized at that stage; and it returns a decision exactly
  when the evaluation time plus the clock skew is a representable time.\<close>

theorem gate_refines_authorized:
  "(case evaluate pol stage p c prior_plan of
      Inr d \<Rightarrow> allowed d = authorized pol stage p c prior_plan
    | Inl e \<Rightarrow> e = OverflowError \<and> \<not> in_range (c_evaluated_at c + gp_allowed_clock_skew pol))"
  using evaluate_allowed [of pol stage p c prior_plan]
  by (cases "evaluate pol stage p c prior_plan") (auto simp: evaluate_def add_time_def split: if_splits)

text \<open>C1. An allowed effect decision for a payment link that would be created means: both kill
  switches are off, external effects are enabled, the observation window has elapsed, the provider
  snapshot is fresh and says the order is unpaid with no active instrument, amount, currency and
  method agree with it, the durable intent is recorded, the aggregate is at the version the caller
  expected and in a state with queued work, and an allowed planning decision for the same proposal
  digest under the same policy version, no later than now, exists.\<close>

theorem effect_create_safe:
  assumes "evaluate_effect pol p c prior_plan = Inr d" "allowed d"
    and "p_action_type p = CREATE_STANDARD_PAYMENT_LINK"
  shows "\<not> c_global_kill_switch c \<and> \<not> c_merchant_kill_switch c \<and> c_environment_effects_enabled c
    \<and> (\<exists>deadline. c_observation_deadline c = Some deadline \<and> deadline \<le> c_evaluated_at c)
    \<and> s_payment_state (c_snapshot c) = UNPAID \<and> s_active_instrument_count (c_snapshot c) \<le> 0
    \<and> c_evaluated_at c \<le> s_observed_at (c_snapshot c) + gp_provider_snapshot_max_age pol
    \<and> (\<forall>m. p_amount p = Some m \<longrightarrow> m = s_amount_due (c_snapshot c)
         \<and> p_payment_method p = Some (s_payment_method (c_snapshot c)))
    \<and> c_durable_intent_recorded c \<and> c_aggregate_version c = c_expected_aggregate_version c
    \<and> c_recovery_state c \<in> {ACTION_QUEUED, EXECUTING, ACTION_UNCERTAIN}
    \<and> (\<exists>plan. prior_plan = Some plan \<and> d_stage plan = POLICY \<and> allowed plan
         \<and> d_proposal_digest plan = proposal_digest p \<and> d_policy_version plan = gp_version pol
         \<and> d_evaluated_at plan \<le> c_evaluated_at c)"
proof -
  from assms have "authorized pol EFFECT p c prior_plan"
    using evaluate_allowed by (auto simp: evaluate_effect_def)
  then show ?thesis
    using assms(3)
    by (auto simp: authorized_def in_scope_def instrument_fit_def collection_safe_def planned_def plan_matches_def
        fresh_def actionable_states_def action_sets Let_def)
qed

theorem effect_create_safe_witness:
  "s_payment_state (c_snapshot (sample_context ACTION_QUEUED)) = UNPAID
   \<and> \<not> c_global_kill_switch (sample_context ACTION_QUEUED)"
  using effect_create_safe [OF sample_effect_allowed] by simp

text \<open>Kill switches stop collection and only collection: with either switch on no collection
  action is allowed at any stage, while the decision on a cancellation or an internal action is the
  same whatever the switches are.\<close>

lemma kill_switch_scope:
  "if is_collection p
   then (\<forall>d. evaluate pol stage p c prior_plan = Inr d \<longrightarrow> c_global_kill_switch c \<or> c_merchant_kill_switch c
            \<longrightarrow> \<not> allowed d)
   else evaluate pol stage p (c\<lparr>c_global_kill_switch := k, c_merchant_kill_switch := m\<rparr>) prior_plan
        = evaluate pol stage p c prior_plan"
proof (cases "is_collection p")
  case True
  then show ?thesis
    using evaluate_allowed [of pol stage p c prior_plan]
    by (auto simp: authorized_def collection_safe_def Let_def)
next
  case False
  then show ?thesis
    by (simp add: evaluate_def all_reasons_def scope_reasons_def observation_reasons_def truth_reasons_def
        instrument_reasons_def amount_reasons_def contact_reasons_def health_reasons_def approval_reasons_def
        plan_reasons_def plan_matches_def split: option.split)
qed

lemma kill_switch_scope_example:
  "case evaluate sample_policy POLICY sample_proposal ((sample_context ASSESSING)\<lparr>c_global_kill_switch := True\<rparr>) None of
     Inl e \<Rightarrow> False | Inr d \<Rightarrow> \<not> allowed d"
proof -
  let ?c = "(sample_context ASSESSING)\<lparr>c_global_kill_switch := True\<rparr>"
  have "is_collection sample_proposal" by (simp add: action_sets)
  moreover obtain d where "evaluate sample_policy POLICY sample_proposal ?c None = Inr d"
    using sample_in_range [of ASSESSING] by (simp add: evaluate_Inr)
  ultimately show ?thesis
    using kill_switch_scope [of sample_proposal sample_policy POLICY ?c None] by simp
qed

text \<open>Internal actions have no effect stage: waiting, escalating and stopping are never allowed
  by the effect gate, so an allowed effect decision is about an external action with an allowed plan
  for the same action key and with its durable intent recorded.\<close>

lemma effect_only_external:
  assumes "evaluate_effect pol p c prior_plan = Inr d" "allowed d"
  shows "p_action_type p \<notin> set INTERNAL_ACTIONS \<and> c_durable_intent_recorded c
    \<and> (\<exists>plan. prior_plan = Some plan \<and> allowed plan \<and> d_action_key plan = d_action_key d
         \<and> d_proposal_digest plan = d_proposal_digest d \<and> d_decision_version plan = d_decision_version d
         \<and> d_aggregate_version plan \<le> d_aggregate_version d)"
proof -
  from assms have "authorized pol EFFECT p c prior_plan"
    using evaluate_allowed by (auto simp: evaluate_effect_def)
  moreover from this have "p_action_type p \<notin> set INTERNAL_ACTIONS"
    by (auto simp: authorized_def in_scope_def actionable_states_def INTERNAL_ACTIONS_def)
  moreover from this have "is_external p" by (simp add: action_partition)
  ultimately show ?thesis
    using assms(1) by (auto simp: authorized_def planned_def plan_matches_def evaluate_effect_def evaluate_Inr)
qed

lemma effect_only_external_example:
  "c_durable_intent_recorded (sample_context ACTION_QUEUED)
   \<and> p_action_type sample_proposal \<notin> set INTERNAL_ACTIONS"
  using effect_only_external [OF sample_effect_allowed] by simp

text \<open>Reasons come out without repetition and in one fixed order, for every policy, stage,
  proposal, context and plan.\<close>

lemma reasons_in_order:
  assumes "evaluate pol stage p c prior_plan = Inr d"
  shows "subseq (d_reasons d) REASON_ORDER \<and> distinct (d_reasons d)"
  using assms subseq_all_reasons distinct_subseq [OF _ distinct_REASON_ORDER]
  by (auto simp: evaluate_Inr)

lemma reasons_in_order_example: "distinct (d_reasons (sample_decision POLICY []))"
  using reasons_in_order [OF sample_plan_allowed] by simp

text \<open>A human approval lifts approval-related denials and nothing else: adding a valid approval
  to a context removes exactly the approval-blocking reasons from the decision, so a denial that has
  any other reason stays a denial.\<close>

lemma approval_lifts_only_blocking:
  assumes "evaluate pol stage p c prior_plan = Inr d"
    and "validly_approved p (c\<lparr>c_approval := Some a\<rparr>)"
  shows "\<exists>d'. evaluate pol stage p (c\<lparr>c_approval := Some a\<rparr>) prior_plan = Inr d'
    \<and> d_reasons d' = filter (\<lambda>r. r \<notin> set APPROVAL_BLOCKING_REASONS) (d_reasons d)"
  using assms all_reasons_approved [OF assms(2)] by (auto simp: evaluate_Inr)

definition sample_approval :: approval where
  "sample_approval = \<lparr>a_approval_id = ''apr_1'', a_merchant_id = ''m_1'', a_case_id = ''case_1'',
     a_action_key = action_key sample_proposal, a_proposal_digest = proposal_digest sample_proposal,
     a_decision_version = 1, a_approved_by = ''op_1'', a_approved_at = 740000 * us_day,
     a_expires_at = 740001 * us_day, a_granted = True\<rparr>"

lemma approval_lifts_only_blocking_example:
  "\<exists>d'. evaluate sample_policy POLICY sample_proposal
          ((sample_context ASSESSING)\<lparr>c_approval := Some sample_approval\<rparr>) None = Inr d' \<and> d_reasons d' = []"
proof -
  have "validly_approved sample_proposal ((sample_context ASSESSING)\<lparr>c_approval := Some sample_approval\<rparr>)"
    by (simp add: validly_approved_def sample_approval_def us_day_def us_second_def)
      (simp add: sample_proposal_def)
  from approval_lifts_only_blocking [OF sample_plan_allowed this] show ?thesis
    by (simp add: sample_decision_def)
qed

end
