(* ===== verification/Versioned.thy ===== *)
theory Versioned
  imports Prelude
begin

text \<open>
  The contract of optimistic concurrency that the recovery case and the outbox job share: a command
  names the version it was computed from and either changes nothing or, at exactly that version, moves
  the object to the next one.
\<close>

fun run_all :: "('c \<Rightarrow> int \<Rightarrow> 's \<Rightarrow> 'e + 's) \<Rightarrow> ('c \<times> int) list \<Rightarrow> 's \<Rightarrow> 'e + 's" where
  "run_all exec [] s = Inr s"
| "run_all exec ((c, v) # cs) s = bindE (exec c v s) (run_all exec cs)"

locale versioned =
  fixes version_of :: "'s \<Rightarrow> int"
    and exec :: "'c \<Rightarrow> int \<Rightarrow> 's \<Rightarrow> 'e + 's"
  assumes exec_next: "exec c v s = Inr s' \<Longrightarrow> s' = s \<or> v = version_of s \<and> version_of s' = version_of s + 1"
begin

lemma exec_mono: "exec c v s = Inr s' \<Longrightarrow> version_of s \<le> version_of s'"
  using exec_next by fastforce

lemma stale_no_effect:
  assumes "exec c v s = Inr s'" "s' \<noteq> s" "exec d v s' = Inr s''"
  shows "s'' = s'"
  using exec_next [OF assms(1)] exec_next [OF assms(3)] assms(2) by auto

lemma run_bounds:
  "run_all exec cs s = Inr s' \<Longrightarrow> version_of s \<le> version_of s' \<and> version_of s' \<le> version_of s + int (length cs)"
proof (induction cs arbitrary: s)
  case (Cons cv cs)
  obtain c v where cv: "cv = (c, v)" by (cases cv)
  with Cons.prems obtain s1 where "exec c v s = Inr s1" "run_all exec cs s1 = Inr s'" by auto
  with Cons.IH exec_next [of c v s s1] exec_mono [of c v s s1] show ?case by fastforce
qed simp

lemma run_invariant:
  assumes "\<And>c v s s'. exec c v s = Inr s' \<Longrightarrow> P s \<Longrightarrow> P s'"
  shows "run_all exec cs s = Inr s' \<Longrightarrow> P s \<Longrightarrow> P s'"
proof (induction cs arbitrary: s)
  case (Cons cv cs)
  then show ?case using assms by (cases cv) auto
qed simp

text \<open>A version names one state: two runs that start together and keep the same version at every
  step cannot diverge silently, because a run that returns to its first version changed nothing.\<close>

lemma run_same_version: "run_all exec cs s = Inr s' \<Longrightarrow> version_of s' = version_of s \<Longrightarrow> s' = s"
proof (induction cs arbitrary: s)
  case (Cons cv cs)
  obtain c v where cv: "cv = (c, v)" by (cases cv)
  with Cons.prems obtain s1 where s1: "exec c v s = Inr s1" "run_all exec cs s1 = Inr s'" by auto
  with run_bounds [of cs s1 s'] exec_next [OF s1(1)] Cons.prems(2) have "s1 = s" by auto
  with Cons.IH [OF s1(2)] Cons.prems(2) show ?case by simp
qed simp

end

end
