(* ===== verification/Aggregate_Spec.thy ===== *)
theory Aggregate_Spec
  imports Aggregate Gate_Spec Versioned
begin

text \<open>
  What the commands of the recovery case guarantee. \<open>aggregate_ok\<close> is the validity its constructor
  enforces; \<open>window_ok\<close>, \<open>truth_ok\<close> and \<open>keys_ok\<close> are invariants of every case that starts from
  the constructor's defaults. \<open>reachable\<close> is the set of such cases.
\<close>

section \<open>Validity\<close>

definition times_ok :: "aggregate \<Rightarrow> bool" where
  "times_ok a =
     (case (g_observation_started_at a, g_observation_deadline a) of
        (None, None) \<Rightarrow> g_state a = DORMANT
      | (Some s, Some d) \<Rightarrow> g_state a \<noteq> DORMANT
          \<and> in_range (s + minimum_observation_window (g_late_capture_policy a))
          \<and> s + minimum_observation_window (g_late_capture_policy a) \<le> d
          \<and> (\<exists>l. g_last_transition_at a = Some l \<and> s \<le> l)
      | _ \<Rightarrow> False)"

definition aggregate_ok :: "aggregate \<Rightarrow> bool" where
  "aggregate_ok a =
     (is_identifier (g_merchant_id a) \<and> is_identifier (g_case_id a) \<and> is_identifier (g_logical_order_id a)
      \<and> 0 < minor_units (g_amount_due a) \<and> 0 \<le> g_decision_version a \<and> g_decision_version a \<le> g_version a
      \<and> pred_option (\<lambda>k. is_identifier k \<and> startswith k ''act_'') (g_active_action_key a)
      \<and> pred_option is_identifier (g_active_proposal_id a)
      \<and> pred_option is_identifier (g_active_instrument_reference a)
      \<and> pred_option in_range (g_last_transition_at a) \<and> pred_option in_range (g_observation_started_at a)
      \<and> pred_option in_range (g_observation_deadline a) \<and> times_ok a)"

lemma option_check_utc: "option_checkE (\<lambda>d. require_utc d f) (map_option utc t) = Inr u \<longleftrightarrow> pred_option in_range t \<and> u = t"
proof (cases t)
  case (Some i)
  have "require_utc (utc i) f = Inr z \<longleftrightarrow> in_range i \<and> z = i" for z
    by (cases "in_range i") (auto simp: require_utc_def utc_def astimezone_utc_def)
  with Some show ?thesis by auto
qed auto

lemma option_check_identifier:
  "(\<exists>u. option_checkE (\<lambda>v. require_identifier v f) x = Inr u) \<longleftrightarrow> pred_option is_identifier x"
  by (cases x) auto

lemma check_counters_Inr: "check_counters a = Inr u \<longleftrightarrow> 0 \<le> g_decision_version a \<and> g_decision_version a \<le> g_version a"
  by (auto simp: check_counters_def require_nonneg_def)

lemma check_active_ids_Inr:
  "check_active_ids a = Inr u \<longleftrightarrow>
     pred_option (\<lambda>k. is_identifier k \<and> startswith k ''act_'') (g_active_action_key a)
     \<and> pred_option is_identifier (g_active_proposal_id a) \<and> pred_option is_identifier (g_active_instrument_reference a)"
  unfolding check_active_ids_def
  by (cases "g_active_action_key a"; cases "g_active_proposal_id a"; cases "g_active_instrument_reference a") auto

lemma check_observation_timing_Inr:
  "check_observation_timing a (g_last_transition_at a) (g_observation_started_at a) (g_observation_deadline a) = Inr u
     \<longleftrightarrow> times_ok a"
  by (auto simp: check_observation_timing_def times_ok_def not_less split: option.splits)

lemma check_observation_timing_cong:
  "g_state a = g_state b \<Longrightarrow> g_late_capture_policy a = g_late_capture_policy b \<Longrightarrow>
     check_observation_timing a l s d = check_observation_timing b l s d"
  by (simp only: check_observation_timing_def)

lemma mk_aggregate_utc:
  assumes "n = a\<lparr>g_last_transition_at := l, g_observation_started_at := s, g_observation_deadline := d\<rparr>"
  shows "mk_aggregate a (map_option utc l) (map_option utc s) (map_option utc d) = Inr m \<longleftrightarrow> aggregate_ok n \<and> m = n"
proof -
  have "check_observation_timing a l s d = check_observation_timing n l s d"
    by (rule check_observation_timing_cong) (simp_all add: assms)
  moreover have "check_observation_timing n l s d = Inr u \<longleftrightarrow> times_ok n" for u
    using check_observation_timing_Inr [of n u] by (simp add: assms)
  ultimately show ?thesis
    by (auto simp: mk_aggregate_def option_check_utc check_counters_Inr check_active_ids_Inr aggregate_ok_def assms)
qed

section \<open>What a change is\<close>

definition stamped :: "aggregate \<Rightarrow> instant \<Rightarrow> aggregate \<Rightarrow> aggregate" where
  "stamped a t b = b\<lparr>g_version := g_version a + 1, g_last_transition_at := Some t\<rparr>"

lemma stamped_simps [simp]:
  "g_version (stamped a t b) = g_version a + 1"
  "g_last_transition_at (stamped a t b) = Some t"
  "g_merchant_id (stamped a t b) = g_merchant_id b"
  "g_case_id (stamped a t b) = g_case_id b"
  "g_logical_order_id (stamped a t b) = g_logical_order_id b"
  "g_amount_due (stamped a t b) = g_amount_due b"
  "g_state (stamped a t b) = g_state b"
  "g_payment_state (stamped a t b) = g_payment_state b"
  "g_incident_state (stamped a t b) = g_incident_state b"
  "g_decision_version (stamped a t b) = g_decision_version b"
  "g_active_action_key (stamped a t b) = g_active_action_key b"
  "g_active_proposal_id (stamped a t b) = g_active_proposal_id b"
  "g_active_instrument_reference (stamped a t b) = g_active_instrument_reference b"
  "g_late_capture_policy (stamped a t b) = g_late_capture_policy b"
  "g_observation_started_at (stamped a t b) = g_observation_started_at b"
  "g_observation_deadline (stamped a t b) = g_observation_deadline b"
  by (simp_all add: stamped_def)

definition emits :: "aggregate \<Rightarrow> instant \<Rightarrow> payload \<Rightarrow> aggregate_change \<Rightarrow> bool" where
  "emits a t pl ch =
     (\<exists>e. ch_events ch = [e] \<and> e_case_id e = g_case_id a \<and> e_version e = g_version a + 1
        \<and> e_occurred_at e = t \<and> canonical_json (PMap pl) = Inr (e_payload_json e))"

lemma changeE:
  assumes "change a et now pl f = Inr ch"
  obtains t where "require_utc now ''occurred_at'' = Inr t" "\<And>l. g_last_transition_at a = Some l \<Longrightarrow> l \<le> t"
    "ch_aggregate ch = stamped a t (f a)" "aggregate_ok (ch_aggregate ch)" "emits a t pl ch"
proof -
  from assms obtain t n s where t: "require_utc now ''occurred_at'' = Inr t"
    and mono: "\<not> (case g_last_transition_at a of None \<Rightarrow> False | Some l \<Rightarrow> t < l)"
    and mk: "mk_aggregate ((f a)\<lparr>g_version := g_version a + 1\<rparr>) (map_option utc (Some t))
      (map_option utc (g_observation_started_at (f a))) (map_option utc (g_observation_deadline (f a))) = Inr n"
    and s: "canonical_json (PMap pl) = Inr s"
    and ch: "ch = \<lparr>ch_aggregate = n, ch_events = [\<lparr>e_event_type = et, e_case_id = g_case_id a,
      e_version = g_version a + 1, e_occurred_at = t, e_payload_json = s\<rparr>]\<rparr>"
    by (auto simp: change_def Let_def)
  have "stamped a t (f a) = (f a)\<lparr>g_version := g_version a + 1, g_last_transition_at := Some t,
      g_observation_started_at := g_observation_started_at (f a),
      g_observation_deadline := g_observation_deadline (f a)\<rparr>"
    by (cases "f a") (simp add: stamped_def)
  from mk [unfolded mk_aggregate_utc [OF this]] have "n = stamped a t (f a)" "aggregate_ok n" by simp_all
  with t mono s ch show thesis by (intro that [of t]) (auto simp: emits_def)
qed

lemma workflow_changeE:
  assumes "workflow_change a target et now pl f = Inr ch"
  obtains t where "require_utc now ''occurred_at'' = Inr t" "\<And>l. g_last_transition_at a = Some l \<Longrightarrow> l \<le> t"
    "ch_aggregate ch = stamped a t ((f a)\<lparr>g_state := target\<rparr>)" "aggregate_ok (ch_aggregate ch)"
    "ch_events ch \<noteq> []" "recovery_edge (g_state a) target"
    "target = ASSESSING \<Longrightarrow> \<exists>d. g_observation_deadline a = Some d \<and> d \<le> t"
    "emits a t (pl @ [(KStr ''workflow_from'', PStr (recovery_value (g_state a))),
                   (KStr ''workflow_to'', PStr (recovery_value target))]) ch"
proof -
  from assms have edge: "recovery_edge (g_state a) target"
    and elapsed: "target = ASSESSING \<Longrightarrow> require_observation_elapsed a now = Inr ()"
    and ch: "change a et now (pl @ [(KStr ''workflow_from'', PStr (recovery_value (g_state a))),
                   (KStr ''workflow_to'', PStr (recovery_value target))]) (\<lambda>b. (f b)\<lparr>g_state := target\<rparr>) = Inr ch"
    by (auto simp: workflow_change_def guards split: if_splits)
  from ch show thesis
  proof (rule changeE)
    fix t assume t: "require_utc now ''occurred_at'' = Inr t"
    and rest: "\<And>l. g_last_transition_at a = Some l \<Longrightarrow> l \<le> t"
      "ch_aggregate ch = stamped a t ((f a)\<lparr>g_state := target\<rparr>)" "aggregate_ok (ch_aggregate ch)"
      "emits a t (pl @ [(KStr ''workflow_from'', PStr (recovery_value (g_state a))),
                   (KStr ''workflow_to'', PStr (recovery_value target))]) ch"
    have "target = ASSESSING \<Longrightarrow> \<exists>d. g_observation_deadline a = Some d \<and> d \<le> t"
      using elapsed t by (auto simp: require_observation_elapsed_def not_less split: option.splits)
    with edge t rest show thesis by (intro that [of t]) (auto simp: emits_def)
  qed
qed

lemma require_version_Inr [guards]: "require_version a v = Inr u \<longleftrightarrow> v = g_version a \<and> 0 \<le> v"
  by (auto simp: require_version_def)

lemma require_recovery_transition_Inr [guards]: "require_recovery_transition a s = Inr u \<longleftrightarrow> recovery_edge (g_state a) s"
  by (auto simp: require_recovery_transition_def guards)

lemma require_active_action_Inr [guards]: "require_active_action a k = Inr u \<longleftrightarrow> g_active_action_key a = Some k"
  by (auto simp: require_active_action_def)

lemma require_observation_elapsed_Inr [guards]:
  "require_observation_elapsed a now = Inr u \<longleftrightarrow>
     (\<exists>t d. require_utc now ''occurred_at'' = Inr t \<and> g_observation_deadline a = Some d \<and> d \<le> t)"
  by (auto simp: require_observation_elapsed_def not_less split: option.splits)

lemma bind_decision_simps [simp]:
  "g_decision_version (bind_decision p a) = p_decision_version p"
  "g_active_action_key (bind_decision p a) = Some (action_key p)"
  "g_active_proposal_id (bind_decision p a) = Some (p_proposal_id p)"
  "g_active_instrument_reference (bind_decision p a) = g_active_instrument_reference a"
  "g_payment_state (bind_decision p a) = g_payment_state a"
  "g_observation_deadline (bind_decision p a) = g_observation_deadline a"
  "g_observation_started_at (bind_decision p a) = g_observation_started_at a"
  "g_late_capture_policy (bind_decision p a) = g_late_capture_policy a"
  "g_merchant_id (bind_decision p a) = g_merchant_id a"
  "g_case_id (bind_decision p a) = g_case_id a"
  "g_logical_order_id (bind_decision p a) = g_logical_order_id a"
  "g_amount_due (bind_decision p a) = g_amount_due a"
  "g_incident_state (bind_decision p a) = g_incident_state a"
  by (simp_all add: bind_decision_def)

lemma unchanged_simps [simp]: "ch_aggregate (unchanged a) = a" "ch_events (unchanged a) = []"
  by (simp_all add: unchanged_def)

lemmas command_defs = observe_failure_def reconcile_payment_truth_def update_incident_state_def
  mark_ready_for_evaluation_def wait_def wake_def request_approval_def authorize_action_def
  record_internal_decision_def begin_execution_def record_action_active_def record_action_uncertain_def
  requeue_after_absence_proven_def escalate_uncertain_action_def record_action_failed_safe_def
  record_active_expired_def record_original_paid_def record_recovery_paid_def record_duplicate_collection_def

section \<open>Every command\<close>

definition same_identity :: "aggregate \<Rightarrow> aggregate \<Rightarrow> bool" where
  "same_identity a b =
     (g_merchant_id a = g_merchant_id b \<and> g_case_id a = g_case_id b \<and> g_logical_order_id a = g_logical_order_id b
      \<and> g_amount_due a = g_amount_due b \<and> g_late_capture_policy a = g_late_capture_policy b)"

text \<open>What a successful command has in common with every other: nothing happens and no event is
  emitted, or one event carries the next version and the command's time.\<close>

definition stepped :: "aggregate \<Rightarrow> datetime \<Rightarrow> aggregate_change \<Rightarrow> bool" where
  "stepped a now ch =
     (\<exists>t b pl. require_utc now ''occurred_at'' = Inr t \<and> (\<forall>l. g_last_transition_at a = Some l \<longrightarrow> l \<le> t)
        \<and> ch_aggregate ch = stamped a t b \<and> same_identity a b \<and> recovery_edge (g_state a) (g_state b)
        \<and> g_payment_state a \<le> g_payment_state b \<and> aggregate_ok (ch_aggregate ch) \<and> emits a t pl ch)"

lemma payment_le [simp]: "s \<le> EXCEPTION" "UNKNOWN \<le> s"
  by (cases s; simp add: payment_order_defs)+

lemma workflow_change_stepped:
  assumes "workflow_change a target et now pl f = Inr ch" "same_identity a (f a)" "g_payment_state (f a) = g_payment_state a"
  shows "stepped a now ch"
  using assms(1)
proof (rule workflow_changeE)
qed (use assms(2,3) in \<open>auto simp: stepped_def same_identity_def\<close>)

lemma change_stepped:
  assumes "change a et now pl f = Inr ch" "same_identity a (f a)" "g_payment_state a \<le> g_payment_state (f a)"
    "recovery_edge (g_state a) (g_state (f a))"
  shows "stepped a now ch"
  using assms(1)
proof (rule changeE)
qed (use assms(2-4) in \<open>auto simp: stepped_def\<close>)

lemma recovery_edge_refl [simp]: "recovery_edge s s"
  by (simp add: recovery_edge_def)

lemma record_duplicate_stepped:
  "record_duplicate_collection a v now ev = Inr ch \<Longrightarrow> ch = unchanged a \<or> stepped a now ch"
  by (auto simp: record_duplicate_collection_def validate_payment_order guards same_identity_def split: if_splits
      intro!: change_stepped)

lemma stepped_utc: "require_utc now ''occurred_at'' = Inr t \<Longrightarrow> stepped a (utc t) ch \<Longrightarrow> stepped a now ch"
  using require_utc_utc [OF require_utc_in_range, of now _ t "''occurred_at''"] by (auto simp: stepped_def)

lemma observe_stepped: "observe_failure a v now eid ext = Inr ch \<Longrightarrow> stepped a now ch"
  by (auto simp: observe_failure_def same_identity_def guards intro!: change_stepped elim!: stepped_utc)

lemma apply_stepped: "apply_command c a v now = Inr ch \<Longrightarrow> ch = unchanged a \<or> stepped a now ch"
proof (cases c)
  case (RecordOriginalPaid ev)
  assume "apply_command c a v now = Inr ch"
  then show ?thesis
    by (auto simp: RecordOriginalPaid record_original_paid_def Let_def validate_payment_order guards same_identity_def
        split: if_splits dest: change_stepped record_duplicate_stepped)
next
  case (RecordRecoveryPaid ev)
  assume "apply_command c a v now = Inr ch"
  then show ?thesis
    by (auto simp: RecordRecoveryPaid record_recovery_paid_def validate_payment_order guards same_identity_def
        split: if_splits dest: change_stepped record_duplicate_stepped)
next
  case (RecordDuplicate ev)
  assume "apply_command c a v now = Inr ch"
  then show ?thesis using record_duplicate_stepped by (simp add: RecordDuplicate)
next
  case (ObserveFailure eid ext)
  assume "apply_command c a v now = Inr ch"
  then show ?thesis using observe_stepped by (simp add: ObserveFailure)
qed (auto simp: command_defs Let_def validate_payment_order guards same_identity_def split: if_splits
    dest: change_stepped workflow_change_stepped)

lemma apply_version: "apply_command c a v now = Inr ch \<Longrightarrow> v = g_version a"
  by (cases c) (auto simp: command_defs guards)

lemma apply_ok: "apply_command c a v now = Inr ch \<Longrightarrow> aggregate_ok a \<Longrightarrow> aggregate_ok (ch_aggregate ch)"
  using apply_stepped [of c a v now ch] by (auto simp: stepped_def)

section \<open>Invariants\<close>

text \<open>Outside the observation phase and the paths a payment opens, the observation window has elapsed.\<close>

definition window_ok :: "aggregate \<Rightarrow> bool" where
  "window_ok a = (g_state a \<notin> {DORMANT, OBSERVING, SUPPRESSED_PAID, DUPLICATE_REVIEW} \<longrightarrow>
     (\<exists>d l. g_observation_deadline a = Some d \<and> g_last_transition_at a = Some l \<and> d \<le> l))"

text \<open>Workflow outcome and payment truth agree.\<close>

definition truth_ok :: "aggregate \<Rightarrow> bool" where
  "truth_ok a =
     ((g_state a \<notin> set COLLECTION_TERMINAL_STATES \<longrightarrow> g_payment_state a \<notin> {PAID, OVERPAID})
      \<and> (g_state a \<in> {RECOVERED, SUPPRESSED_PAID} \<longrightarrow> g_payment_state a \<in> {PAID, EXCEPTION})
      \<and> (g_state a = DUPLICATE_REVIEW \<longrightarrow> g_payment_state a \<in> {OVERPAID, EXCEPTION})
      \<and> (g_payment_state a = OVERPAID \<longrightarrow> g_state a = DUPLICATE_REVIEW))"

text \<open>Action and proposal are named together; work in flight names both, an active case names its
  instrument.\<close>

definition keys_ok :: "aggregate \<Rightarrow> bool" where
  "keys_ok a =
     ((g_state a \<in> {APPROVAL_REQUIRED, ACTION_QUEUED, EXECUTING, ACTION_UNCERTAIN, ACTIVE} \<longrightarrow>
         g_active_action_key a \<noteq> None)
      \<and> (g_active_action_key a = None \<longleftrightarrow> g_active_proposal_id a = None)
      \<and> (g_state a = ACTIVE \<longrightarrow> g_active_instrument_reference a \<noteq> None))"

lemma record_duplicate_effect:
  assumes "record_duplicate_collection a v now ev = Inr ch"
  shows "ch = unchanged a \<or> g_state (ch_aggregate ch) = DUPLICATE_REVIEW \<and> g_payment_state (ch_aggregate ch) = OVERPAID
    \<and> g_active_action_key (ch_aggregate ch) = None \<and> g_active_proposal_id (ch_aggregate ch) = None
    \<and> g_observation_deadline (ch_aggregate ch) = g_observation_deadline a
    \<and> g_observation_started_at (ch_aggregate ch) = g_observation_started_at a"
  using assms by (auto simp: record_duplicate_collection_def split: if_splits elim!: changeE)

text \<open>What recording a payment of the original order does, when it is not a duplicate.\<close>

definition paid_update :: "aggregate \<Rightarrow> aggregate" where
  "paid_update a = (if g_state a \<in> set COLLECTION_TERMINAL_STATES then a\<lparr>g_payment_state := PAID\<rparr>
     else a\<lparr>g_payment_state := PAID, g_state := SUPPRESSED_PAID, g_active_action_key := None,
            g_active_proposal_id := None\<rparr>)"

lemma record_original_effect:
  assumes "record_original_paid a v now ev = Inr ch"
  shows "ch = unchanged a \<or> record_duplicate_collection a v now ev = Inr ch
    \<or> (\<exists>t. ch_aggregate ch = stamped a t (paid_update a)) \<and> g_payment_state a \<le> PAID"
proof (cases "g_state a = RECOVERED \<or> g_state a = DUPLICATE_REVIEW \<and> g_payment_state a = OVERPAID")
  case True
  with assms show ?thesis by (auto simp: record_original_paid_def split: if_splits)
next
  case False
  with assms have le: "g_payment_state a \<le> PAID"
    by (simp add: record_original_paid_def validate_payment_order split: if_splits)
  from False assms have "ch = unchanged a \<or> (\<exists>et pl. change a et now pl (\<lambda>b. if g_state a \<notin> set COLLECTION_TERMINAL_STATES
      then b\<lparr>g_payment_state := PAID, g_state := SUPPRESSED_PAID, g_active_action_key := None, g_active_proposal_id := None\<rparr>
      else b\<lparr>g_payment_state := PAID\<rparr>) = Inr ch)"
    by (simp add: record_original_paid_def Let_def nonterminal_iff split: if_splits) blast+
  then show ?thesis
  proof (elim disjE exE)
    fix et pl assume "change a et now pl (\<lambda>b. if g_state a \<notin> set COLLECTION_TERMINAL_STATES
      then b\<lparr>g_payment_state := PAID, g_state := SUPPRESSED_PAID, g_active_action_key := None, g_active_proposal_id := None\<rparr>
      else b\<lparr>g_payment_state := PAID\<rparr>) = Inr ch"
    then show ?thesis by (rule changeE) (use le in \<open>auto simp: paid_update_def\<close>)
  qed simp
qed

text \<open>The observation window moves only while the case is observed, and assessment starts after it.\<close>

definition window_kept :: "aggregate \<Rightarrow> aggregate \<Rightarrow> bool" where
  "window_kept a n =
     ((g_observation_deadline n = g_observation_deadline a \<and> g_observation_started_at n = g_observation_started_at a
       \<or> g_state n = OBSERVING \<and> g_state a \<in> {DORMANT, OBSERVING})
      \<and> (g_state n = ASSESSING \<longrightarrow> g_state a \<noteq> ASSESSING \<longrightarrow>
          (\<exists>d l. g_observation_deadline a = Some d \<and> g_last_transition_at n = Some l \<and> d \<le> l)))"

lemma window_kept_refl [simp]: "window_kept a a"
  by (simp add: window_kept_def)

lemma workflow_window:
  assumes "workflow_change a t et now pl f = Inr ch" "g_observation_deadline (f a) = g_observation_deadline a"
    "g_observation_started_at (f a) = g_observation_started_at a"
  shows "window_kept a (ch_aggregate ch)"
  using assms(1) by (rule workflow_changeE) (use assms(2,3) in \<open>auto simp: window_kept_def\<close>)

lemma change_window:
  assumes "change a et now pl f = Inr ch" "g_observation_deadline (f a) = g_observation_deadline a"
    "g_observation_started_at (f a) = g_observation_started_at a" "g_state (f a) = ASSESSING \<Longrightarrow> g_state a = ASSESSING"
  shows "window_kept a (ch_aggregate ch)"
  using assms(1) by (rule changeE) (use assms(2-4) in \<open>auto simp: window_kept_def\<close>)

lemma duplicate_window:
  "record_duplicate_collection a v now ev = Inr ch \<Longrightarrow> window_kept a (ch_aggregate ch)"
  by (drule record_duplicate_effect) (auto simp: window_kept_def)

lemma apply_window:
  assumes "apply_command c a v now = Inr ch"
  shows "window_kept a (ch_aggregate ch)"
  using assms
proof (cases c)
  case (ObserveFailure eid ext)
  have "recovery_edge s OBSERVING \<Longrightarrow> s \<in> {DORMANT, OBSERVING}" for s by (cases s) (auto simp: recovery_edge_def)
  with assms ObserveFailure show ?thesis by (auto simp: observe_failure_def guards window_kept_def elim!: changeE)
next
  case (RecordOriginalPaid ev)
  with assms have *: "record_original_paid a v now ev = Inr ch" by simp
  then show ?thesis
    using record_original_effect [OF *]
    by (auto simp: paid_update_def window_kept_def split: if_splits dest!: record_duplicate_effect)
qed (auto simp: command_defs(2-16,18,19) Let_def split: if_splits dest!: change_window workflow_window dest: duplicate_window)

lemma apply_edge: "apply_command c a v now = Inr ch \<Longrightarrow> recovery_edge (g_state a) (g_state (ch_aggregate ch))"
  using apply_stepped [of c a v now ch] by (auto simp: stepped_def)

lemma apply_payment_le: "apply_command c a v now = Inr ch \<Longrightarrow> g_payment_state a \<le> g_payment_state (ch_aggregate ch)"
  using apply_stepped [of c a v now ch] by (auto simp: stepped_def)

lemma apply_last:
  "apply_command c a v now = Inr ch \<Longrightarrow> g_last_transition_at a = Some l \<Longrightarrow>
     \<exists>l'. g_last_transition_at (ch_aggregate ch) = Some l' \<and> l \<le> l'"
  using apply_stepped [of c a v now ch] by (auto simp: stepped_def)

lemma edge_into_work:
  assumes "recovery_edge s t" "t \<notin> {DORMANT, OBSERVING, SUPPRESSED_PAID, DUPLICATE_REVIEW}"
  shows "s \<notin> {DORMANT, OBSERVING, SUPPRESSED_PAID, DUPLICATE_REVIEW} \<or> t = ASSESSING \<and> s = OBSERVING"
  using assms by (cases s) (auto simp: recovery_edge_def)

lemma apply_window_ok:
  assumes "apply_command c a v now = Inr ch" "window_ok a"
  shows "window_ok (ch_aggregate ch)"
  using edge_into_work [OF apply_edge [OF assms(1)]] apply_window [OF assms(1)] apply_last [OF assms(1)] assms(2)
  by (fastforce simp: window_ok_def window_kept_def)

lemma truth_ok_stamped [simp]: "truth_ok (stamped a t b) = truth_ok b" "keys_ok (stamped a t b) = keys_ok b"
  by (simp_all add: truth_ok_def keys_ok_def)

lemma truth_ok_paid_update:
  assumes "truth_ok a" "g_payment_state a \<le> PAID"
  shows "truth_ok (paid_update a)"
proof (cases "g_state a \<in> set COLLECTION_TERMINAL_STATES")
  case True
  from assms have "g_state a \<noteq> DUPLICATE_REVIEW" by (auto simp: truth_ok_def payment_order_defs)
  with True show ?thesis by (simp add: paid_update_def truth_ok_def)
next
  case False
  then show ?thesis by (simp add: paid_update_def truth_ok_def COLLECTION_TERMINAL_STATES_def)
qed

lemma keys_ok_paid_update: "keys_ok a \<Longrightarrow> keys_ok (paid_update a)"
  by (simp add: paid_update_def keys_ok_def)

lemma truth_ok_duplicate: "g_state b = DUPLICATE_REVIEW \<Longrightarrow> g_payment_state b = OVERPAID \<Longrightarrow> truth_ok b"
  by (simp add: truth_ok_def COLLECTION_TERMINAL_STATES_def)

lemma keys_okI:
  "(g_active_action_key b = None \<longleftrightarrow> g_active_proposal_id b = None) \<Longrightarrow>
   (g_state b \<in> {APPROVAL_REQUIRED, ACTION_QUEUED, EXECUTING, ACTION_UNCERTAIN, ACTIVE} \<Longrightarrow> g_active_action_key b \<noteq> None) \<Longrightarrow>
   (g_state b = ACTIVE \<Longrightarrow> g_active_instrument_reference b \<noteq> None) \<Longrightarrow> keys_ok b"
  unfolding keys_ok_def by blast

lemma keys_ok_pair: "keys_ok a \<Longrightarrow> g_active_action_key a = None \<longleftrightarrow> g_active_proposal_id a = None"
  unfolding keys_ok_def by blast

lemma keys_ok_other [simp]:
  "keys_ok (a\<lparr>g_payment_state := p\<rparr>) = keys_ok a" "keys_ok (a\<lparr>g_incident_state := i\<rparr>) = keys_ok a"
  by (simp_all add: keys_ok_def)

lemma record_duplicate_truth: "record_duplicate_collection a v now ev = Inr ch \<Longrightarrow> truth_ok a \<Longrightarrow> truth_ok (ch_aggregate ch)"
  by (drule record_duplicate_effect) (auto intro: truth_ok_duplicate)

lemma record_duplicate_keys: "record_duplicate_collection a v now ev = Inr ch \<Longrightarrow> keys_ok a \<Longrightarrow> keys_ok (ch_aggregate ch)"
  by (drule record_duplicate_effect) (auto intro: keys_okI)

lemma change_truth:
  assumes "change a et now pl f = Inr ch" "truth_ok (f a)"
  shows "truth_ok (ch_aggregate ch)"
  using assms by (auto elim!: changeE)

lemma change_keys:
  assumes "change a et now pl f = Inr ch" "keys_ok (f a)"
  shows "keys_ok (ch_aggregate ch)"
  using assms by (auto elim!: changeE)

lemma truth_ok_edge:
  assumes "truth_ok a" "recovery_edge (g_state a) t" "t \<notin> {RECOVERED, SUPPRESSED_PAID, DUPLICATE_REVIEW}"
    "g_state b = t" "g_payment_state b = g_payment_state a"
  shows "truth_ok b"
proof (cases "g_state a \<in> set COLLECTION_TERMINAL_STATES")
  case True
  with assms(2,3) terminal_edge have "t = g_state a" by blast
  with assms show ?thesis by (simp add: truth_ok_def)
next
  case False
  with assms show ?thesis by (simp add: truth_ok_def)
qed

lemma workflow_truth:
  assumes "workflow_change a t et now pl f = Inr ch" "t \<notin> {RECOVERED, SUPPRESSED_PAID, DUPLICATE_REVIEW}"
    "g_payment_state (f a) = g_payment_state a" "truth_ok a"
  shows "truth_ok (ch_aggregate ch)"
  using assms(1) by (rule workflow_changeE) (use assms in \<open>auto intro: truth_ok_edge\<close>)

lemma workflow_keys:
  assumes "workflow_change a t et now pl f = Inr ch" "g_active_action_key (f a) = None \<longleftrightarrow> g_active_proposal_id (f a) = None"
    "t \<in> {APPROVAL_REQUIRED, ACTION_QUEUED, EXECUTING, ACTION_UNCERTAIN, ACTIVE} \<Longrightarrow> g_active_action_key (f a) \<noteq> None"
    "t = ACTIVE \<Longrightarrow> g_active_instrument_reference (f a) \<noteq> None"
  shows "keys_ok (ch_aggregate ch)"
  using assms(1) by (rule workflow_changeE) (use assms(2-4) in \<open>auto intro!: keys_okI\<close>)

lemma truth_ok_reconcile:
  assumes "truth_ok a" "t \<notin> {PAID, OVERPAID}" "g_payment_state a \<le> t"
  shows "truth_ok (a\<lparr>g_payment_state := t\<rparr>)"
proof -
  have "g_payment_state a \<in> {PAID, OVERPAID, EXCEPTION} \<Longrightarrow> t = EXCEPTION"
    using assms(2,3) by (cases t) (auto simp: payment_order_defs)
  moreover have "g_state a \<in> {RECOVERED, SUPPRESSED_PAID, DUPLICATE_REVIEW} \<Longrightarrow> g_payment_state a \<in> {PAID, OVERPAID, EXCEPTION}"
    using assms(1) unfolding truth_ok_def by blast
  ultimately show ?thesis using assms(2) unfolding truth_ok_def by simp
qed

lemma apply_truth_ok:
  assumes "apply_command c a v now = Inr ch" "truth_ok a"
  shows "truth_ok (ch_aggregate ch)"
  using assms
proof (cases c)
  case (RecordRecoveryPaid ev)
  have "truth_ok (a\<lparr>g_payment_state := PAID, g_state := RECOVERED\<rparr>)"
    by (simp add: truth_ok_def COLLECTION_TERMINAL_STATES_def)
  with assms RecordRecoveryPaid show ?thesis
    by (auto simp: record_recovery_paid_def split: if_splits dest: change_truth record_duplicate_truth)
next
  case (RecordOriginalPaid ev)
  with assms have "record_original_paid a v now ev = Inr ch" by simp
  from record_original_effect [OF this] show ?thesis
    using assms(2) truth_ok_paid_update record_duplicate_truth by auto
next
  case (RecordDuplicate ev)
  with assms record_duplicate_truth show ?thesis by simp
next
  case (ReconcilePaymentTruth t ev)
  then have "t \<notin> {PAID, OVERPAID}" "g_payment_state a \<le> t" using assms(1)
    by (auto simp: reconcile_payment_truth_def validate_payment_order)
  with assms(2) have "truth_ok (a\<lparr>g_payment_state := t\<rparr>)" by (rule truth_ok_reconcile)
  with assms ReconcilePaymentTruth show ?thesis
    by (auto simp: reconcile_payment_truth_def split: if_splits dest: change_truth)
next
  case (RecordInternalDecision p d)
  have "internal_target (p_action_type p) \<notin> {RECOVERED, SUPPRESSED_PAID, DUPLICATE_REVIEW}"
    by (cases "p_action_type p") simp_all
  moreover from assms(1) RecordInternalDecision obtain et pl f where
    "workflow_change a (internal_target (p_action_type p)) et now pl f = Inr ch" "g_payment_state (f a) = g_payment_state a"
    by (auto simp: record_internal_decision_def Let_def)
  ultimately show ?thesis using assms(2) workflow_truth by blast
next
  case (ObserveFailure eid ext)
  with assms show ?thesis
    by (auto simp: observe_failure_def guards intro: truth_ok_edge [of a OBSERVING] elim!: changeE)
next
  case (UpdateIncidentState t ev)
  have "truth_ok (a\<lparr>g_incident_state := t\<rparr>)" using assms(2) by (simp add: truth_ok_def)
  with assms UpdateIncidentState show ?thesis
    by (auto simp: update_incident_state_def split: if_splits dest: change_truth)
qed (auto simp: command_defs Let_def split: if_splits dest!: workflow_truth)

lemma apply_keys_ok:
  assumes "apply_command c a v now = Inr ch" "keys_ok a"
  shows "keys_ok (ch_aggregate ch)"
  using assms
proof (cases c)
  case (RecordOriginalPaid ev)
  with assms have "record_original_paid a v now ev = Inr ch" by simp
  from record_original_effect [OF this] show ?thesis
    using assms(2) keys_ok_paid_update record_duplicate_keys by auto
next
  case (RecordDuplicate ev)
  with assms record_duplicate_keys show ?thesis by simp
next
  case (RecordRecoveryPaid ev)
  have "keys_ok (a\<lparr>g_payment_state := PAID, g_state := RECOVERED\<rparr>)"
    using keys_ok_pair [OF assms(2)] by (intro keys_okI) simp_all
  with RecordRecoveryPaid assms show ?thesis
    by (auto simp: record_recovery_paid_def split: if_splits dest: change_keys record_duplicate_keys)
next
  case (RecordInternalDecision p d)
  have "internal_target (p_action_type p) \<notin> {APPROVAL_REQUIRED, ACTION_QUEUED, EXECUTING, ACTION_UNCERTAIN, ACTIVE}"
    by (cases "p_action_type p") simp_all
  moreover from assms(1) RecordInternalDecision obtain et pl where
    "workflow_change a (internal_target (p_action_type p)) et now pl (\<lambda>b. b\<lparr>g_decision_version := p_decision_version p\<rparr>) = Inr ch"
    by (auto simp: record_internal_decision_def Let_def)
  ultimately show ?thesis using keys_ok_pair [OF assms(2)] by (auto dest!: workflow_keys)
next
  case (ObserveFailure eid ext)
  with assms keys_ok_pair [OF assms(2)] show ?thesis
    by (auto simp: observe_failure_def intro!: keys_okI elim!: changeE)
qed (use keys_ok_pair [OF assms(2)] in
  \<open>auto simp: command_defs Let_def guards split: if_splits dest!: change_keys workflow_keys\<close>)

section \<open>Reachable cases\<close>

text \<open>A case as the constructor makes it with its defaults.\<close>

definition open_case :: "pystr \<Rightarrow> pystr \<Rightarrow> pystr \<Rightarrow> money \<Rightarrow> late_capture_policy \<Rightarrow> exn + aggregate" where
  "open_case merchant case_id order amount policy =
     mk_aggregate \<lparr>g_merchant_id = merchant, g_case_id = case_id, g_logical_order_id = order, g_amount_due = amount,
       g_state = DORMANT, g_payment_state = UNKNOWN, g_incident_state = NORMAL, g_version = 0,
       g_decision_version = 0, g_active_action_key = None, g_active_proposal_id = None,
       g_active_instrument_reference = None, g_last_transition_at = None, g_late_capture_policy = policy,
       g_observation_started_at = None, g_observation_deadline = None\<rparr> None None None"

inductive reachable :: "aggregate \<Rightarrow> bool" where
  opened: "mk_late_capture_policy w = Inr policy \<Longrightarrow> open_case m c order amount policy = Inr a \<Longrightarrow> reachable a"
| applied: "reachable a \<Longrightarrow> apply_command cmd a v now = Inr ch \<Longrightarrow> reachable (ch_aggregate ch)"

lemma open_case_Inr:
  assumes "open_case m c order amount policy = Inr a"
  shows "aggregate_ok a \<and> g_state a = DORMANT \<and> g_payment_state a = UNKNOWN \<and> g_version a = 0
    \<and> g_active_action_key a = None \<and> g_active_proposal_id a = None \<and> g_late_capture_policy a = policy"
  using assms mk_aggregate_utc [OF refl, where l = None and s = None and d = None] by (auto simp: open_case_def)

definition case_inv :: "aggregate \<Rightarrow> bool" where
  "case_inv a = (aggregate_ok a \<and> window_ok a \<and> truth_ok a \<and> keys_ok a
     \<and> MINIMUM_LATE_CAPTURE_WINDOW \<le> minimum_observation_window (g_late_capture_policy a))"

lemma apply_identity: "apply_command c a v now = Inr ch \<Longrightarrow> same_identity a (ch_aggregate ch)"
  using apply_stepped [of c a v now ch] by (auto simp: stepped_def same_identity_def)

lemma case_inv_apply: "apply_command c a v now = Inr ch \<Longrightarrow> case_inv a \<Longrightarrow> case_inv (ch_aggregate ch)"
  using apply_ok apply_window_ok apply_truth_ok apply_keys_ok apply_identity
  unfolding case_inv_def same_identity_def by metis

lemma reachable_inv: "reachable a \<Longrightarrow> case_inv a"
proof (induction rule: reachable.induct)
  case (opened w policy m c order amount a)
  from opened(1) have "MINIMUM_LATE_CAPTURE_WINDOW \<le> minimum_observation_window policy"
    by (auto simp: mk_late_capture_policy_def split: if_splits)
  with open_case_Inr [OF opened(2)] show ?case
    by (auto simp: case_inv_def window_ok_def truth_ok_def keys_ok_def)
next
  case (applied a cmd v now ch)
  then show ?case using case_inv_apply by blast
qed

section \<open>Optimistic concurrency\<close>

fun case_exec :: "command \<times> datetime \<Rightarrow> int \<Rightarrow> aggregate \<Rightarrow> exn + aggregate" where
  "case_exec (c, now) v a = bindE (apply_command c a v now) (\<lambda>ch. Inr (ch_aggregate ch))"

interpretation case_versions: versioned g_version case_exec
proof
  fix c :: "command \<times> datetime" and v s s'
  assume "case_exec c v s = Inr s'"
  moreover obtain cmd now where "c = (cmd, now)" by (cases c)
  ultimately obtain ch where "apply_command cmd s v now = Inr ch" "s' = ch_aggregate ch" by auto
  then show "s' = s \<or> v = g_version s \<and> g_version s' = g_version s + 1"
    using apply_version [of cmd s v now ch] apply_stepped [of cmd s v now ch] by (auto simp: stepped_def)
qed

lemma case_exec_closed:
  assumes "case_exec c v a = Inr b" "g_state a \<in> {s, DUPLICATE_REVIEW}" "s \<in> set COLLECTION_TERMINAL_STATES"
  shows "g_state b \<in> {s, DUPLICATE_REVIEW}"
proof -
  obtain cmd now where "c = (cmd, now)" by (cases c)
  with assms(1) have "recovery_edge (g_state a) (g_state b)" using apply_edge by auto
  moreover have "g_state a \<in> set COLLECTION_TERMINAL_STATES"
    using assms(2,3) by (auto simp: COLLECTION_TERMINAL_STATES_def)
  ultimately show ?thesis using terminal_edge [of "g_state a" "g_state b"] assms(2) by auto
qed

lemma case_exec_payment: "case_exec c v a = Inr b \<Longrightarrow> g_payment_state a \<le> g_payment_state b"
  using apply_payment_le by (cases c) auto

section \<open>Sufficient conditions\<close>

lemma change_ok:
  assumes "is_identifier et" "require_utc now ''occurred_at'' = Inr t" "\<forall>l. g_last_transition_at a = Some l \<longrightarrow> l \<le> t"
    "aggregate_ok (stamped a t (f a))" "canonical_json (PMap pl) = Inr s"
  shows "change a et now pl f = Inr \<lparr>ch_aggregate = stamped a t (f a),
     ch_events = [\<lparr>e_event_type = et, e_case_id = g_case_id a, e_version = g_version a + 1,
                   e_occurred_at = t, e_payload_json = s\<rparr>]\<rparr>"
proof -
  have "stamped a t (f a) = (f a)\<lparr>g_version := g_version a + 1, g_last_transition_at := Some t,
      g_observation_started_at := g_observation_started_at (f a),
      g_observation_deadline := g_observation_deadline (f a)\<rparr>"
    by (cases "f a") (simp add: stamped_def)
  from mk_aggregate_utc [OF this] assms(4)
  have "mk_aggregate ((f a)\<lparr>g_version := g_version a + 1\<rparr>) (Some (utc t)) (map_option utc (g_observation_started_at (f a)))
     (map_option utc (g_observation_deadline (f a))) = Inr (stamped a t (f a))" by simp
  then show ?thesis using assms(1-3,5) by (auto simp: change_def Let_def split: option.split)
qed

text \<open>A started, valid case stays valid when only its workflow state moves on.\<close>

lemma aggregate_ok_workflow:
  assumes "aggregate_ok a" "g_state a \<noteq> DORMANT" "target \<noteq> DORMANT" "in_range t"
    "\<forall>l. g_last_transition_at a = Some l \<longrightarrow> l \<le> t"
  shows "aggregate_ok (stamped a t (a\<lparr>g_state := target\<rparr>))"
  using assms by (auto simp: aggregate_ok_def times_ok_def split: option.splits)

lemma requeue_ok:
  assumes "aggregate_ok a" "g_state a \<in> {APPROVAL_REQUIRED, ACTION_UNCERTAIN}" "g_active_action_key a = Some k"
    "in_range t" "\<forall>l. g_last_transition_at a = Some l \<longrightarrow> l \<le> t" "v = g_version a"
  shows "\<exists>ch. requeue_after_absence_proven a v (utc t) k = Inr ch \<and> g_state (ch_aggregate ch) = ACTION_QUEUED"
proof -
  let ?pl = "[(KStr ''action_key'', PStr k), (KStr ''workflow_from'', PStr (recovery_value (g_state a))),
    (KStr ''workflow_to'', PStr (recovery_value ACTION_QUEUED))]"
  from assms(1) have "0 \<le> g_version a" by (auto simp: aggregate_ok_def)
  moreover from assms(2) have "recovery_edge (g_state a) ACTION_QUEUED" by (auto simp: recovery_edge_def)
  moreover obtain s where "canonical_json (PMap ?pl) = Inr s" by (simp add: canonical_json_def)
  moreover have "aggregate_ok (stamped a t (a\<lparr>g_state := ACTION_QUEUED\<rparr>))"
    using assms by (intro aggregate_ok_workflow) auto
  moreover have "is_identifier ''RecoveryActionAbsenceProven''" by code_simp
  ultimately show ?thesis
    using assms(3-6) change_ok [of "''RecoveryActionAbsenceProven''" "utc t" t a "\<lambda>b. b\<lparr>g_state := ACTION_QUEUED\<rparr>" ?pl]
      validate_recovery_Inr [of "g_state a" ACTION_QUEUED "g_state a \<noteq> ACTION_QUEUED"]
    by (auto simp: requeue_after_absence_proven_def workflow_change_def require_version_Inr
        require_recovery_transition_Inr require_active_action_Inr)
qed

section \<open>Sample case\<close>

definition sample_case :: "recovery_state \<Rightarrow> aggregate" where
  "sample_case st = \<lparr>g_merchant_id = ''m_1'', g_case_id = ''case_1'', g_logical_order_id = ''order_1'',
     g_amount_due = sample_money, g_state = st, g_payment_state = UNPAID, g_incident_state = NORMAL,
     g_version = 4, g_decision_version = 1, g_active_action_key = Some (action_key sample_proposal),
     g_active_proposal_id = Some ''prop_1'', g_active_instrument_reference = None,
     g_last_transition_at = Some (740000 * us_day),
     g_late_capture_policy = \<lparr>minimum_observation_window = 120 * us_second\<rparr>,
     g_observation_started_at = Some (739999 * us_day), g_observation_deadline = Some (739999 * us_day + 120 * us_second)\<rparr>"

lemma sample_case_ok: "st \<noteq> DORMANT \<Longrightarrow> aggregate_ok (sample_case st)"
proof -
  have "is_identifier ''m_1''" "is_identifier ''case_1''" "is_identifier ''order_1''" "is_identifier ''prop_1''"
    by code_simp+
  moreover assume "st \<noteq> DORMANT"
  ultimately show ?thesis
    by (simp add: sample_case_def aggregate_ok_def times_ok_def in_range_def max_instant_def us_day_def us_second_def
        sample_money_def)
qed

lemma sample_case_simps [simp]:
  "g_state (sample_case st) = st" "g_version (sample_case st) = 4"
  "g_active_action_key (sample_case st) = Some (action_key sample_proposal)"
  "g_last_transition_at (sample_case st) = Some (740000 * us_day)" "g_payment_state (sample_case st) = UNPAID"
  by (simp_all add: sample_case_def)

lemma sample_times: "in_range (740000 * us_day)" "in_range (740000 * us_day + 10 * us_second)"
  by (simp_all add: in_range_def max_instant_def us_day_def us_second_def)

lemma sample_requeue:
  "\<exists>ch. apply_command (RequeueAfterAbsence (action_key sample_proposal)) (sample_case ACTION_UNCERTAIN) 4 (utc (740000 * us_day)) = Inr ch
     \<and> g_state (ch_aggregate ch) = ACTION_QUEUED"
  using requeue_ok [of "sample_case ACTION_UNCERTAIN" "action_key sample_proposal" "740000 * us_day" 4] sample_case_ok sample_times
  by simp

end
