(* ===== verification/Case_Properties.thy ===== *)
theory Case_Properties
  imports Aggregate_Spec
begin

text \<open>
  The properties of the recovery case: what one command does, that stale commands are refused, that
  closed cases stay closed and payment truth never goes back, what holds of every reachable case, and
  what starting an execution requires.
\<close>

section \<open>Success of the first commands\<close>

lemma observe_ok:
  assumes "aggregate_ok a" "g_state a \<in> {DORMANT, OBSERVING}" "in_range t" "\<forall>l. g_last_transition_at a = Some l \<longrightarrow> l \<le> t"
    "in_range (t + minimum_observation_window (g_late_capture_policy a))" "is_identifier eid"
  shows "\<exists>ch. apply_command (ObserveFailure eid None) a (g_version a) (utc t) = Inr ch
    \<and> ch_aggregate ch = stamped a t (a\<lparr>g_state := OBSERVING, g_observation_started_at := Some t,
         g_observation_deadline := Some (t + minimum_observation_window (g_late_capture_policy a))\<rparr>)"
proof -
  let ?d = "t + minimum_observation_window (g_late_capture_policy a)"
  let ?pl = "[(KStr ''late_capture_policy'', py_of_json (policy_to_primitive (g_late_capture_policy a))),
        (KStr ''observation_deadline'', PDatetime (utc ?d)), (KStr ''provider_event_id'', PStr eid)]"
  have "is_identifier ''RecoveryObservationStarted''" by code_simp
  moreover have "\<exists>s. canonical_json (PMap ?pl) = Inr s"
    using assms(5) by (simp add: canonical_json_def policy_to_primitive_def Let_def)
  moreover have "aggregate_ok (stamped a t (a\<lparr>g_state := OBSERVING, g_observation_started_at := Some t,
         g_observation_deadline := Some ?d\<rparr>))"
    using assms by (auto simp: aggregate_ok_def times_ok_def split: option.splits)
  moreover have "0 \<le> g_version a" using assms(1) by (auto simp: aggregate_ok_def)
  ultimately show ?thesis
    using assms change_ok [of "''RecoveryObservationStarted''" "utc t" t a "\<lambda>b. b\<lparr>g_state := OBSERVING,
        g_observation_started_at := Some t, g_observation_deadline := Some ?d\<rparr>" ?pl]
    by (auto simp: observe_failure_def observation_deadline_def require_version_Inr require_recovery_transition_Inr
        recovery_edge_def)
qed

lemma reconcile_unpaid_ok:
  assumes "aggregate_ok a" "g_payment_state a = UNKNOWN" "in_range t" "\<forall>l. g_last_transition_at a = Some l \<longrightarrow> l \<le> t"
    "is_identifier ev"
  shows "\<exists>ch. apply_command (ReconcilePaymentTruth UNPAID ev) a (g_version a) (utc t) = Inr ch
    \<and> ch_aggregate ch = stamped a t (a\<lparr>g_payment_state := UNPAID\<rparr>)"
proof -
  let ?pl = "[(KStr ''evidence'', PStr ev), (KStr ''from'', PStr (payment_value (g_payment_state a))),
        (KStr ''to'', PStr (payment_value UNPAID))]"
  have "is_identifier ''CanonicalPaymentTruthChanged''" by code_simp
  moreover have "\<exists>s. canonical_json (PMap ?pl) = Inr s" by (simp add: canonical_json_def)
  moreover have "aggregate_ok (stamped a t (a\<lparr>g_payment_state := UNPAID\<rparr>))"
    using assms by (auto simp: aggregate_ok_def times_ok_def split: option.splits)
  moreover have "0 \<le> g_version a" using assms(1) by (auto simp: aggregate_ok_def)
  ultimately show ?thesis
    using assms change_ok [of "''CanonicalPaymentTruthChanged''" "utc t" t a "\<lambda>b. b\<lparr>g_payment_state := UNPAID\<rparr>" ?pl]
    by (auto simp: reconcile_payment_truth_def validate_payment_transition_def validate_transition_def require_version_Inr)
qed

lemma mark_ready_ok:
  assumes "aggregate_ok a" "g_state a = OBSERVING" "g_payment_state a = UNPAID" "in_range t"
    "\<forall>l. g_last_transition_at a = Some l \<longrightarrow> l \<le> t" "g_observation_deadline a = Some d" "d \<le> t"
  shows "\<exists>ch. apply_command MarkReady a (g_version a) (utc t) = Inr ch
    \<and> ch_aggregate ch = stamped a t (a\<lparr>g_state := ASSESSING\<rparr>)"
proof -
  let ?pl = "[(KStr ''observation_deadline'', opt_time (g_observation_deadline a)),
     (KStr ''workflow_from'', PStr (recovery_value (g_state a))), (KStr ''workflow_to'', PStr (recovery_value ASSESSING))]"
  have "in_range d" using assms(1,6) by (simp add: aggregate_ok_def)
  then have "\<exists>s. canonical_json (PMap ?pl) = Inr s" by (simp add: canonical_json_def opt_time_def assms(6))
  moreover have "is_identifier ''RecoveryAssessmentStarted''" by code_simp
  moreover have "aggregate_ok (stamped a t (a\<lparr>g_state := ASSESSING\<rparr>))"
    using assms by (intro aggregate_ok_workflow) auto
  moreover have "0 \<le> g_version a" using assms(1) by (auto simp: aggregate_ok_def)
  ultimately show ?thesis
    using assms change_ok [of "''RecoveryAssessmentStarted''" "utc t" t a "\<lambda>b. b\<lparr>g_state := ASSESSING\<rparr>" ?pl]
    by (auto simp: mark_ready_for_evaluation_def workflow_change_def require_version_Inr require_recovery_transition_Inr
        recovery_edge_def require_observation_elapsed_Inr validate_recovery_transition_def validate_transition_def)
qed

text \<open>A reachable case under assessment.\<close>

lemma reachable_assessing:
  "\<exists>a. reachable a \<and> g_state a = ASSESSING \<and> g_payment_state a = UNPAID \<and> g_merchant_id a = ''m_1''
     \<and> g_case_id a = ''case_1'' \<and> g_decision_version a = 0"
proof -
  let ?w = "120 * us_second"
  define policy where "policy = \<lparr>minimum_observation_window = ?w\<rparr>"
  have policy: "mk_late_capture_policy ?w = Inr policy"
    by (simp add: mk_late_capture_policy_def policy_def MINIMUM_LATE_CAPTURE_WINDOW_def us_minute_def us_second_def)
  have ids: "is_identifier ''m_1''" "is_identifier ''case_1''" "is_identifier ''order_1''" "is_identifier ''evt_1''"
    by code_simp+
  have range: "in_range (740000 * us_day)" "in_range (740000 * us_day + ?w)"
    by (simp_all add: in_range_def max_instant_def us_day_def us_second_def)
  obtain a0 where open_c: "open_case ''m_1'' ''case_1'' ''order_1'' sample_money policy = Inr a0"
    using ids by (simp add: open_case_def mk_aggregate_def sample_money_def check_counters_def require_nonneg_def
        check_active_ids_def check_observation_timing_def)
  note a0 = open_case_Inr [OF open_c]
  have last0: "g_last_transition_at a0 = None"
    using open_c by (auto simp: open_case_def mk_aggregate_def)
  obtain c1 where c1: "apply_command (ObserveFailure ''evt_1'' None) a0 (g_version a0) (utc (740000 * us_day)) = Inr c1"
    "ch_aggregate c1 = stamped a0 (740000 * us_day) (a0\<lparr>g_state := OBSERVING, g_observation_started_at := Some (740000 * us_day),
       g_observation_deadline := Some (740000 * us_day + ?w)\<rparr>)"
    using observe_ok [of a0 "740000 * us_day" "''evt_1''"] a0 last0 range ids by (auto simp: policy_def)
  let ?a1 = "ch_aggregate c1"
  have ok1: "aggregate_ok ?a1" using apply_ok [OF c1(1)] a0 by blast
  obtain c2 where c2: "apply_command (ReconcilePaymentTruth UNPAID ''evt_1'') ?a1 (g_version ?a1) (utc (740000 * us_day)) = Inr c2"
    "ch_aggregate c2 = stamped ?a1 (740000 * us_day) (?a1\<lparr>g_payment_state := UNPAID\<rparr>)"
    using reconcile_unpaid_ok [OF ok1, of "740000 * us_day" "''evt_1''"] a0 range ids c1(2) by auto
  let ?a2 = "ch_aggregate c2"
  have ok2: "aggregate_ok ?a2" using apply_ok [OF c2(1)] ok1 by blast
  obtain c3 where c3: "apply_command MarkReady ?a2 (g_version ?a2) (utc (740000 * us_day + ?w)) = Inr c3"
    "ch_aggregate c3 = stamped ?a2 (740000 * us_day + ?w) (?a2\<lparr>g_state := ASSESSING\<rparr>)"
    using mark_ready_ok [OF ok2, of "740000 * us_day + ?w"] range c1(2) c2(2) by (auto simp: us_second_def)
  have "reachable (ch_aggregate c3)"
    using reachable.opened [OF policy open_c] c1(1) c2(1) c3(1) by (blast intro: reachable.applied)
  moreover have "g_merchant_id a0 = ''m_1''" "g_case_id a0 = ''case_1''" "g_decision_version a0 = 0"
    using open_c by (auto simp: open_case_def mk_aggregate_def)
  then have "g_state (ch_aggregate c3) = ASSESSING \<and> g_payment_state (ch_aggregate c3) = UNPAID
     \<and> g_merchant_id (ch_aggregate c3) = ''m_1'' \<and> g_case_id (ch_aggregate c3) = ''case_1''
     \<and> g_decision_version (ch_aggregate c3) = 0"
    using c1(2) c2(2) c3(2) by simp
  ultimately show ?thesis by blast
qed

section \<open>Helpers\<close>

lemma apply_conflict:
  "0 \<le> v \<Longrightarrow> v \<noteq> g_version a \<Longrightarrow> apply_command c a v now = Inl (VersionConflict v (g_version a))"
  by (cases c) (simp_all add: command_defs require_version_def)

lemma emits_payload:
  assumes "emits a t pl ch" "e \<in> set (ch_events ch)"
  shows "\<exists>kvs. event_payload e = Inr (JObj kvs) \<and> canonical_json (py_of_json (JObj kvs)) = Inr (e_payload_json e)"
proof -
  from assms obtain j where j: "canonical_items pl [] = Inr j" "e_payload_json e = dumps (JObj j)"
    by (auto simp: emits_def canonical_json_def)
  then have "json_ok (JObj j)" using to_canonical_primitive_ok(1) [of "PMap pl"] by simp
  moreover from this have "loads (e_payload_json e) = Some (canon (JObj j))"
    unfolding j(2) by (rule loads_dumps)
  moreover obtain kvs where "canon (JObj j) = JObj kvs" by simp
  ultimately have "event_payload e = Inr (JObj kvs)" "json_ok (JObj kvs)" "dumps (JObj kvs) = e_payload_json e"
    using json_ok_canon [of "JObj j"] dumps_canon [of "JObj j"] j(2) by (simp_all add: event_payload_def)
  with canonical_json_of_json [of "JObj kvs"] show ?thesis by metis
qed

lemma begin_ok:
  assumes "aggregate_ok a" "g_state a = ACTION_QUEUED" "g_payment_state a = UNPAID" "in_range t"
    "g_last_transition_at a = Some l" "l \<le> t" "g_observation_deadline a = Some dl" "dl \<le> t"
    "require_proposal_binding a p False = Inr ()" "require_gate_binding a p d EFFECT True = Inr ()"
    "g_active_action_key a = Some (action_key p)"
  shows "is_ok (begin_execution a p d (g_version a) (utc t))"
proof -
  let ?pl = "[(KStr ''effect_gate_digest'', PStr (decision_digest d)), (KStr ''action_key'', PStr (action_key p)),
    (KStr ''workflow_from'', PStr (recovery_value (g_state a))), (KStr ''workflow_to'', PStr (recovery_value EXECUTING))]"
  have "is_identifier ''RecoveryActionExecutionStarted''" by code_simp
  moreover have "\<exists>s. canonical_json (PMap ?pl) = Inr s" by (simp add: canonical_json_def)
  moreover have "aggregate_ok (stamped a t (a\<lparr>g_state := EXECUTING\<rparr>))"
    using assms by (intro aggregate_ok_workflow) auto
  moreover have "0 \<le> g_version a" using assms(1) by (auto simp: aggregate_ok_def)
  ultimately show ?thesis
    using assms change_ok [of "''RecoveryActionExecutionStarted''" "utc t" t a "\<lambda>b. b\<lparr>g_state := EXECUTING\<rparr>" ?pl]
    by (auto simp: begin_execution_def workflow_change_def require_version_Inr is_ok_iff
        require_observation_elapsed_Inr validate_recovery_transition_def validate_transition_def)
qed

lemma authorize_ok:
  assumes "aggregate_ok a" "g_state a = ASSESSING" "g_payment_state a = UNPAID" "in_range t"
    "\<forall>l. g_last_transition_at a = Some l \<longrightarrow> l \<le> t" "g_observation_deadline a = Some dl" "dl \<le> t"
    "require_proposal_binding a p True = Inr ()" "require_gate_binding a p d POLICY True = Inr ()"
    "is_collection p" "is_identifier (p_proposal_id p)"
  shows "\<exists>ch. apply_command (AuthorizeAction p d) a (g_version a) (utc t) = Inr ch \<and> g_state (ch_aggregate ch) = ACTION_QUEUED"
proof -
  let ?pl = "[(KStr ''gate_digest'', PStr (decision_digest d)), (KStr ''proposal'', py_of_json (proposal_to_primitive p)),
    (KStr ''workflow_from'', PStr (recovery_value (g_state a))), (KStr ''workflow_to'', PStr (recovery_value ACTION_QUEUED))]"
  have "is_identifier ''RecoveryActionAuthorized''" by code_simp
  moreover have "\<exists>s. canonical_json (PMap ?pl) = Inr s"
    by (simp add: canonical_json_def to_canonical_primitive_py_of_json del: json_ok.simps)
  moreover have "aggregate_ok (stamped a t ((bind_decision p a)\<lparr>g_state := ACTION_QUEUED\<rparr>))"
    using assms by (auto simp: aggregate_ok_def times_ok_def require_proposal_binding_def Let_def split: option.splits)
  moreover have "0 \<le> g_version a" using assms(1) by (auto simp: aggregate_ok_def)
  ultimately show ?thesis
    using assms change_ok [of "''RecoveryActionAuthorized''" "utc t" t a "\<lambda>b. (bind_decision p b)\<lparr>g_state := ACTION_QUEUED\<rparr>" ?pl]
    by (auto simp: authorize_action_def workflow_change_def require_version_Inr require_observation_elapsed_Inr
        require_recovery_transition_Inr recovery_edge_def validate_recovery_transition_def validate_transition_def)
qed

lemma reachable_queued: "\<exists>a. reachable a \<and> g_state a = ACTION_QUEUED"
proof -
  obtain a where a: "reachable a" "g_state a = ASSESSING" "g_payment_state a = UNPAID" "g_merchant_id a = ''m_1''"
    "g_case_id a = ''case_1''" "g_decision_version a = 0"
    using reachable_assessing by blast
  from reachable_inv [OF a(1)] have inv: "aggregate_ok a" "window_ok a" by (simp_all add: case_inv_def)
  then obtain dl l where times: "g_observation_deadline a = Some dl" "g_last_transition_at a = Some l" "dl \<le> l"
    using a(2) by (auto simp: window_ok_def)
  with inv(1) have "in_range l" by (simp add: aggregate_ok_def)
  let ?d = "(sample_decision POLICY [])\<lparr>d_aggregate_version := g_version a\<rparr>"
  have "require_proposal_binding a sample_proposal True = Inr ()"
    using a by (simp add: require_proposal_binding_def) (simp add: sample_proposal_def)
  moreover have "require_gate_binding a sample_proposal ?d POLICY True = Inr ()"
    using a by (simp add: require_gate_binding_def allowed_def sample_decision_def)
  moreover have "is_identifier ''prop_1''" by code_simp
  ultimately have "\<exists>ch. apply_command (AuthorizeAction sample_proposal ?d) a (g_version a) (utc l) = Inr ch
      \<and> g_state (ch_aggregate ch) = ACTION_QUEUED"
    using inv(1) a times \<open>in_range l\<close> by (intro authorize_ok) (simp_all add: action_sets)
  with a(1) show ?thesis using reachable.applied by blast
qed

section \<open>One command\<close>

text \<open>A command that succeeds was computed from the current version, keeps the identity of the
  case, and either changes nothing and emits nothing, or emits exactly one event that carries the next
  version and the command's time, which is not before the last transition.\<close>

lemma command_effect:
  assumes "apply_command c a v now = Inr ch"
  shows "v = g_version a \<and> same_identity a (ch_aggregate ch)
    \<and> (if changed ch
       then \<exists>e t. ch_events ch = [e] \<and> e_version e = v + 1 \<and> g_version (ch_aggregate ch) = v + 1
              \<and> e_case_id e = g_case_id a \<and> e_occurred_at e = t \<and> g_last_transition_at (ch_aggregate ch) = Some t
              \<and> (\<forall>l. g_last_transition_at a = Some l \<longrightarrow> l \<le> t)
       else ch_aggregate ch = a)"
  using apply_version [OF assms] apply_stepped [OF assms] apply_identity [OF assms]
  by (auto simp: changed_def stepped_def emits_def)

lemma command_effect_example:
  "\<exists>ch. apply_command (RequeueAfterAbsence (action_key sample_proposal)) (sample_case ACTION_UNCERTAIN) 4 (utc (740000 * us_day)) = Inr ch
     \<and> same_identity (sample_case ACTION_UNCERTAIN) (ch_aggregate ch)"
proof -
  obtain ch where ch: "apply_command (RequeueAfterAbsence (action_key sample_proposal)) (sample_case ACTION_UNCERTAIN) 4
      (utc (740000 * us_day)) = Inr ch"
    using sample_requeue by blast
  with command_effect [OF ch] show ?thesis by blast
qed

text \<open>Lost updates are impossible: after a command computed from version \<open>v\<close> has changed the case,
  every other command computed from \<open>v\<close> is refused with a version conflict that names both versions.\<close>

lemma stale_command_conflict:
  assumes "apply_command c a v now = Inr ch" "changed ch" "0 \<le> v"
  shows "apply_command d (ch_aggregate ch) v now' = Inl (VersionConflict v (v + 1))"
proof -
  have "g_version (ch_aggregate ch) = v + 1"
    using apply_stepped [OF assms(1)] apply_version [OF assms(1)] assms(2) by (auto simp: changed_def stepped_def)
  with apply_conflict assms(3) show ?thesis by simp
qed

lemma stale_command_conflict_example:
  "\<exists>ch. apply_command (RequeueAfterAbsence (action_key sample_proposal)) (sample_case ACTION_UNCERTAIN) 4 (utc (740000 * us_day)) = Inr ch
     \<and> apply_command Wake (ch_aggregate ch) 4 (utc 0) = Inl (VersionConflict 4 5)"
proof -
  obtain ch where ch: "apply_command (RequeueAfterAbsence (action_key sample_proposal)) (sample_case ACTION_UNCERTAIN) 4
      (utc (740000 * us_day)) = Inr ch" "g_state (ch_aggregate ch) = ACTION_QUEUED"
    using sample_requeue by blast
  then have "changed ch" using apply_stepped [OF ch(1)] by (auto simp: changed_def stepped_def emits_def)
  from stale_command_conflict [OF ch(1) this, of Wake "utc 0"] ch(1) show ?thesis by (intro exI [of _ ch]) simp
qed

text \<open>The payload of every emitted event decodes to an object, and re-encoding what was decoded
  reproduces the stored text.\<close>

lemma event_payload_decodes:
  assumes "apply_command c a v now = Inr ch" "e \<in> set (ch_events ch)"
  shows "\<exists>kvs. event_payload e = Inr (JObj kvs) \<and> canonical_json (py_of_json (JObj kvs)) = Inr (e_payload_json e)"
  using apply_stepped [OF assms(1)] assms(2) emits_payload by (auto simp: stepped_def)

lemma event_payload_decodes_example:
  "\<exists>ch. apply_command (RequeueAfterAbsence (action_key sample_proposal)) (sample_case ACTION_UNCERTAIN) 4 (utc (740000 * us_day)) = Inr ch
     \<and> (\<forall>e\<in>set (ch_events ch). is_ok (event_payload e))"
proof -
  obtain ch where ch: "apply_command (RequeueAfterAbsence (action_key sample_proposal)) (sample_case ACTION_UNCERTAIN) 4
      (utc (740000 * us_day)) = Inr ch"
    using sample_requeue by blast
  with event_payload_decodes [OF ch] show ?thesis by (fastforce simp: is_ok_iff)
qed

section \<open>Runs\<close>

text \<open>C21. A closed case stays closed: whatever sequence of commands succeeds on a case in a
  collection-terminal state, the case ends in the same state or in duplicate review.\<close>

theorem closed_stays_closed:
  assumes "run_all case_exec cs a = Inr b" "collection_closed a"
  shows "g_state b \<in> {g_state a, DUPLICATE_REVIEW} \<and> collection_closed b"
proof -
  have "g_state b \<in> {g_state a, DUPLICATE_REVIEW}"
    using case_versions.run_invariant [of "\<lambda>x. g_state x \<in> {g_state a, DUPLICATE_REVIEW}", OF _ assms(1)]
      case_exec_closed assms(2) by (fastforce simp: collection_closed_def)
  with assms(2) show ?thesis by (auto simp: collection_closed_def COLLECTION_TERMINAL_STATES_def)
qed

text \<open>A late payment and then a duplicate one, recorded on an exhausted case.\<close>

abbreviation late_payments :: "((command \<times> datetime) \<times> int) list" where
  "late_payments \<equiv> [((RecordOriginalPaid ''pay_late'', utc (740000 * us_day)), 4),
     ((RecordDuplicate ''pay_again'', utc (740000 * us_day)), 5)]"

lemma late_payments_run:
  "\<exists>b. run_all case_exec late_payments (sample_case EXHAUSTED) = Inr b \<and> g_state b = DUPLICATE_REVIEW \<and> g_version b = 6"
proof -
  let ?t = "740000 * us_day" and ?a = "sample_case EXHAUSTED"
  have ids: "is_identifier ''pay_late''" "is_identifier ''pay_again''" "is_identifier ''OriginalPaymentSucceeded''"
    "is_identifier ''DuplicateCollectionDetected''"
    by code_simp+
  let ?b = "stamped ?a ?t (?a\<lparr>g_payment_state := PAID\<rparr>)"
  let ?c = "stamped ?b ?t (?b\<lparr>g_payment_state := OVERPAID, g_state := DUPLICATE_REVIEW, g_active_action_key := None,
      g_active_proposal_id := None\<rparr>)"
  have ok: "aggregate_ok ?b" "aggregate_ok ?c"
    using sample_case_ok [of EXHAUSTED] sample_times(1)
    by (auto simp: aggregate_ok_def times_ok_def stamped_def split: option.splits)
  let ?paid = "[(KStr ''evidence'', PStr ''pay_late''), (KStr ''payment_from'', PStr ''unpaid''), (KStr ''payment_to'', PStr ''paid''),
     (KStr ''workflow_from'', PStr ''exhausted''), (KStr ''workflow_to'', PStr ''exhausted'')]"
  let ?twice = "[(KStr ''evidence'', PStr ''pay_again''), (KStr ''payment_from'', PStr ''paid''), (KStr ''workflow_from'', PStr ''exhausted'')]"
  obtain p q where json: "canonical_json (PMap ?paid) = Inr p" "canonical_json (PMap ?twice) = Inr q"
    by (simp add: canonical_json_def)
  have pays: "validate_payment_transition UNPAID PAID = Inr True" "validate_payment_transition PAID OVERPAID = Inr True"
    "validate_recovery_transition EXHAUSTED DUPLICATE_REVIEW = Inr True"
    by code_simp+
  have one: "case_exec (RecordOriginalPaid ''pay_late'', utc ?t) 4 ?a = Inr ?b"
    using change_ok [of "''OriginalPaymentSucceeded''" "utc ?t" ?t ?a "\<lambda>b. b\<lparr>g_payment_state := PAID\<rparr>"]
      ok(1) ids sample_times(1) json(1) pays
    by (simp add: record_original_paid_def Let_def nonterminal_iff COLLECTION_TERMINAL_STATES_def require_version_def)
  have "case_exec (RecordDuplicate ''pay_again'', utc ?t) 5 ?b = Inr ?c"
    using change_ok [of "''DuplicateCollectionDetected''" "utc ?t" ?t ?b "\<lambda>b. b\<lparr>g_payment_state := OVERPAID, g_state := DUPLICATE_REVIEW,
        g_active_action_key := None, g_active_proposal_id := None\<rparr>"] ok(2) ids sample_times(1) json(2) pays
    by (simp add: record_duplicate_collection_def require_version_def)
  with one have "run_all case_exec late_payments ?a = Inr ?c" by (simp del: case_exec.simps)
  moreover have "g_state ?c = DUPLICATE_REVIEW" "g_version ?c = 6" by (simp_all add: stamped_def)
  ultimately show ?thesis by blast
qed

theorem closed_stays_closed_witness:
  "\<exists>b. run_all case_exec late_payments (sample_case EXHAUSTED) = Inr b \<and> collection_closed (sample_case EXHAUSTED)
     \<and> g_version b = 6 \<and> g_state b = DUPLICATE_REVIEW \<and> collection_closed b"
proof -
  obtain b where b: "run_all case_exec late_payments (sample_case EXHAUSTED) = Inr b" "g_state b = DUPLICATE_REVIEW" "g_version b = 6"
    using late_payments_run by blast
  have "collection_closed (sample_case EXHAUSTED)" by (simp add: collection_closed_def COLLECTION_TERMINAL_STATES_def)
  with closed_stays_closed [OF b(1) this] b show ?thesis by blast
qed

text \<open>C22. Payment truth only moves forward along unknown, unpaid, authorized, partially paid, paid,
  overpaid, exception, over every run of commands; and a run that ends at the version it started from
  changed nothing.\<close>

theorem payment_truth_monotone:
  assumes "run_all case_exec cs a = Inr b"
  shows "g_payment_state a \<le> g_payment_state b \<and> g_version a \<le> g_version b \<and> (g_version b = g_version a \<longrightarrow> b = a)"
proof -
  have "g_payment_state a \<le> g_payment_state b"
    using case_versions.run_invariant [of "\<lambda>x. g_payment_state a \<le> g_payment_state x", OF _ assms] case_exec_payment
    by (blast intro: order_trans)
  then show ?thesis using case_versions.run_bounds [OF assms] case_versions.run_same_version [OF assms] by blast
qed

theorem payment_truth_monotone_witness:
  "\<exists>b. run_all case_exec [((RequeueAfterAbsence (action_key sample_proposal), utc (740000 * us_day)), 4)]
          (sample_case ACTION_UNCERTAIN) = Inr b \<and> UNPAID \<le> g_payment_state b"
proof -
  obtain b where b: "run_all case_exec [((RequeueAfterAbsence (action_key sample_proposal), utc (740000 * us_day)), 4)]
          (sample_case ACTION_UNCERTAIN) = Inr b"
    using sample_requeue by auto
  from payment_truth_monotone [OF b] b show ?thesis by auto
qed

section \<open>Reachable cases\<close>

text \<open>C19. The late-capture floor: a case that is assessed, waits, is approved, queued, executed,
  uncertain, active or finished by the workflow has let at least two minutes pass since its failure was
  observed, and at least the window of its bound policy.\<close>

theorem observation_floor:
  assumes "reachable a" "g_state a \<notin> {DORMANT, OBSERVING, SUPPRESSED_PAID, DUPLICATE_REVIEW}"
  shows "\<exists>started deadline last_at. g_observation_started_at a = Some started \<and> g_observation_deadline a = Some deadline
    \<and> g_last_transition_at a = Some last_at
    \<and> started + minimum_observation_window (g_late_capture_policy a) \<le> deadline \<and> deadline \<le> last_at
    \<and> started + 120 * us_second \<le> last_at"
proof -
  from reachable_inv [OF assms(1)] have inv: "case_inv a" .
  then obtain d l where "g_observation_deadline a = Some d" "g_last_transition_at a = Some l" "d \<le> l"
    using assms(2) unfolding case_inv_def window_ok_def by blast
  moreover from this inv obtain s where "g_observation_started_at a = Some s"
    "s + minimum_observation_window (g_late_capture_policy a) \<le> d"
    by (auto simp: case_inv_def aggregate_ok_def times_ok_def split: option.splits)
  moreover have "120 * us_second \<le> minimum_observation_window (g_late_capture_policy a)"
    using inv by (auto simp: case_inv_def MINIMUM_LATE_CAPTURE_WINDOW_def us_minute_def)
  ultimately show ?thesis by auto
qed

theorem observation_floor_witness:
  "\<exists>a s l. reachable a \<and> g_observation_started_at a = Some s \<and> g_last_transition_at a = Some l \<and> s + 120 * us_second \<le> l"
proof -
  obtain a where "reachable a" "g_state a = ASSESSING" using reachable_assessing by blast
  with observation_floor [of a] show ?thesis by auto
qed

text \<open>C18. Outcomes agree with payment truth: no reachable case is still open for collection when its
  payment is known paid or overpaid; a recovered or paid-suppressed case is paid (or in exception), a
  case in duplicate review is overpaid (or in exception), and overpayment is always under review.\<close>

theorem outcome_matches_truth:
  assumes "reachable a"
  shows "(\<not> collection_closed a \<longrightarrow> g_payment_state a \<notin> {PAID, OVERPAID})
    \<and> (g_state a \<in> {RECOVERED, SUPPRESSED_PAID} \<longrightarrow> g_payment_state a \<in> {PAID, EXCEPTION})
    \<and> (g_state a = DUPLICATE_REVIEW \<longrightarrow> g_payment_state a \<in> {OVERPAID, EXCEPTION})
    \<and> (g_payment_state a = OVERPAID \<longrightarrow> g_state a = DUPLICATE_REVIEW)"
  using reachable_inv [OF assms] unfolding case_inv_def truth_ok_def collection_closed_def by blast

theorem outcome_matches_truth_witness:
  "\<exists>a. reachable a \<and> \<not> collection_closed a \<and> g_payment_state a \<notin> {PAID, OVERPAID}"
proof -
  obtain a where a: "reachable a" "g_state a = ASSESSING" using reachable_assessing by blast
  then have "\<not> collection_closed a" by (simp add: collection_closed_def COLLECTION_TERMINAL_STATES_def)
  with outcome_matches_truth [OF a(1)] a(1) show ?thesis by blast
qed

text \<open>Work in flight is accountable: every reachable case that waits for approval, is queued,
  executing, uncertain or active names its action key and proposal, an active case names its payment
  link, and the decision counter never exceeds the version.\<close>

lemma in_flight_named:
  assumes "reachable a" "g_state a \<in> {APPROVAL_REQUIRED, ACTION_QUEUED, EXECUTING, ACTION_UNCERTAIN, ACTIVE}"
  shows "(\<exists>key. g_active_action_key a = Some key \<and> startswith key ''act_'') \<and> g_active_proposal_id a \<noteq> None
    \<and> (g_state a = ACTIVE \<longrightarrow> g_active_instrument_reference a \<noteq> None) \<and> g_decision_version a \<le> g_version a"
proof -
  from reachable_inv [OF assms(1)] have keys: "keys_ok a" and ok: "aggregate_ok a" by (simp_all add: case_inv_def)
  from keys assms(2) obtain key where key: "g_active_action_key a = Some key" unfolding keys_ok_def by blast
  moreover from ok key have "startswith key ''act_''" "g_decision_version a \<le> g_version a" by (simp_all add: aggregate_ok_def)
  moreover have "g_active_proposal_id a \<noteq> None" using keys_ok_pair [OF keys] key by simp
  moreover have "g_state a = ACTIVE \<longrightarrow> g_active_instrument_reference a \<noteq> None" using keys unfolding keys_ok_def by blast
  ultimately show ?thesis by blast
qed

lemma in_flight_named_example: "\<exists>a. reachable a \<and> g_state a = ACTION_QUEUED \<and> g_active_proposal_id a \<noteq> None"
proof -
  obtain a where "reachable a" "g_state a = ACTION_QUEUED" using reachable_queued by blast
  with in_flight_named [of a] show ?thesis by auto
qed

section \<open>Execution\<close>

text \<open>C20. Execution starts only on fresh effect evidence: the case is queued and unpaid, its observation
  window has elapsed, the effect decision is allowed, belongs to this proposal and to exactly the current
  version, and the proposal's action key is the one queued; nothing but the workflow state, the version
  and the time changes.\<close>

theorem execution_needs_effect_decision:
  assumes "begin_execution a p d v now = Inr ch"
  shows "g_state a = ACTION_QUEUED \<and> g_payment_state a = UNPAID
    \<and> d_stage d = EFFECT \<and> allowed d \<and> d_aggregate_version d = g_version a \<and> d_case_id d = g_case_id a
    \<and> d_action_key d = action_key p \<and> d_proposal_digest d = proposal_digest p
    \<and> p_decision_version p = g_decision_version a \<and> g_active_action_key a = Some (action_key p)
    \<and> (\<exists>t deadline. require_utc now ''occurred_at'' = Inr t \<and> g_observation_deadline a = Some deadline \<and> deadline \<le> t
         \<and> ch_aggregate ch = a\<lparr>g_state := EXECUTING, g_version := v + 1, g_last_transition_at := Some t\<rparr>)"
proof -
  from assms have "require_gate_binding a p d EFFECT True = Inr ()" "require_proposal_binding a p False = Inr ()"
    "g_state a = ACTION_QUEUED" "g_payment_state a = UNPAID" "v = g_version a"
    "g_active_action_key a = Some (action_key p)"
    and elapsed: "require_observation_elapsed a now = Inr ()"
    and wf: "\<exists>et pl. workflow_change a EXECUTING et now pl id = Inr ch"
    by (auto simp: begin_execution_def require_version_Inr)
  then have facts: "d_stage d = EFFECT \<and> allowed d \<and> d_aggregate_version d = g_version a \<and> d_case_id d = g_case_id a
    \<and> d_action_key d = action_key p \<and> d_proposal_digest d = proposal_digest p \<and> p_decision_version p = g_decision_version a
    \<and> g_state a = ACTION_QUEUED \<and> g_payment_state a = UNPAID \<and> v = g_version a \<and> g_active_action_key a = Some (action_key p)"
    by (simp add: require_gate_binding_def require_proposal_binding_def Let_def)
  moreover obtain t where "require_utc now ''occurred_at'' = Inr t" "ch_aggregate ch = stamped a t (a\<lparr>g_state := EXECUTING\<rparr>)"
    using wf by (auto elim: workflow_changeE)
  ultimately show ?thesis using elapsed by (auto simp: require_observation_elapsed_Inr stamped_def)
qed

lemma sample_begin: "is_ok (begin_execution (sample_case ACTION_QUEUED) sample_proposal (sample_decision EFFECT []) 4 (utc (740000 * us_day)))"
proof -
  have "require_proposal_binding (sample_case ACTION_QUEUED) sample_proposal False = Inr ()"
    by (simp add: require_proposal_binding_def sample_case_def) (simp add: sample_proposal_def)
  moreover have "require_gate_binding (sample_case ACTION_QUEUED) sample_proposal (sample_decision EFFECT []) EFFECT True = Inr ()"
    by (simp add: require_gate_binding_def) (simp add: sample_decision_def sample_case_def)
  moreover have "g_observation_deadline (sample_case ACTION_QUEUED) = Some (739999 * us_day + 120 * us_second)"
    "739999 * us_day + 120 * us_second \<le> 740000 * us_day"
    by (simp_all add: sample_case_def us_day_def us_second_def)
  ultimately show ?thesis
    using begin_ok [of "sample_case ACTION_QUEUED" "740000 * us_day"] sample_case_ok [of ACTION_QUEUED] sample_times by simp
qed

theorem execution_needs_effect_decision_witness:
  "\<exists>ch. begin_execution (sample_case ACTION_QUEUED) sample_proposal (sample_decision EFFECT []) 4 (utc (740000 * us_day)) = Inr ch
     \<and> g_state (ch_aggregate ch) = EXECUTING"
proof -
  obtain ch where ch: "begin_execution (sample_case ACTION_QUEUED) sample_proposal (sample_decision EFFECT []) 4 (utc (740000 * us_day)) = Inr ch"
    using sample_begin by (auto simp: is_ok_iff)
  with execution_needs_effect_decision [OF ch] show ?thesis by auto
qed

section \<open>Where the code is laxer than its documentation\<close>

text \<open>C40. Proving absence queues a case that still waits for approval: on a valid case in the
  approval-required state the absence command succeeds and moves it to the action queue, with no approval
  and no gate decision.\<close>

theorem absence_skips_approval:
  assumes "aggregate_ok a" "g_state a = APPROVAL_REQUIRED" "g_active_action_key a = Some k" "in_range t"
    "\<forall>l. g_last_transition_at a = Some l \<longrightarrow> l \<le> t"
  shows "\<exists>ch. requeue_after_absence_proven a (g_version a) (utc t) k = Inr ch \<and> g_state (ch_aggregate ch) = ACTION_QUEUED"
  using assms by (intro requeue_ok) auto

theorem absence_skips_approval_witness:
  "\<exists>ch. requeue_after_absence_proven (sample_case APPROVAL_REQUIRED) 4 (utc (740000 * us_day)) (action_key sample_proposal) = Inr ch
     \<and> g_state (ch_aggregate ch) = ACTION_QUEUED"
  using absence_skips_approval [of "sample_case APPROVAL_REQUIRED" "action_key sample_proposal" "740000 * us_day"]
    sample_case_ok [of APPROVAL_REQUIRED] sample_times by simp

text \<open>A repeated failure can shorten the observation window: observing another failure while the case is
  observed replaces the deadline by the policy deadline of the new time, also when the old deadline had been
  extended beyond it.\<close>

lemma repeated_failure_resets_deadline:
  assumes "aggregate_ok a" "g_state a = OBSERVING" "g_observation_deadline a = Some d" "in_range t"
    "\<forall>l. g_last_transition_at a = Some l \<longrightarrow> l \<le> t"
    "t + minimum_observation_window (g_late_capture_policy a) < d" "0 \<le> minimum_observation_window (g_late_capture_policy a)"
    "is_identifier eid"
  shows "\<exists>ch d'. observe_failure a (g_version a) (utc t) eid None = Inr ch
    \<and> g_observation_deadline (ch_aggregate ch) = Some d' \<and> d' < d"
proof -
  have "in_range d" using assms(1,3) by (simp add: aggregate_ok_def)
  then have "in_range (t + minimum_observation_window (g_late_capture_policy a))"
    using assms(4,6,7) by (simp add: in_range_def)
  from observe_ok [OF assms(1) _ assms(4,5) this assms(8)] assms(2,6) show ?thesis by auto
qed

lemma repeated_failure_resets_deadline_example:
  "\<exists>ch d'. observe_failure ((sample_case OBSERVING)\<lparr>g_observation_deadline := Some (740100 * us_day)\<rparr>) 4 (utc (740000 * us_day)) ''evt_2'' None
       = Inr ch \<and> g_observation_deadline (ch_aggregate ch) = Some d' \<and> d' < 740100 * us_day"
proof -
  let ?a = "(sample_case OBSERVING)\<lparr>g_observation_deadline := Some (740100 * us_day)\<rparr>"
  have "aggregate_ok ?a"
    using sample_case_ok [of OBSERVING]
    by (simp add: aggregate_ok_def times_ok_def sample_case_def in_range_def max_instant_def us_day_def us_second_def)
  moreover have "is_identifier ''evt_2''" by code_simp
  moreover have "740000 * us_day + minimum_observation_window (g_late_capture_policy ?a) < 740100 * us_day"
    "0 \<le> minimum_observation_window (g_late_capture_policy ?a)"
    by (simp_all add: sample_case_def us_day_def us_second_def)
  ultimately show ?thesis
    using repeated_failure_resets_deadline [of ?a "740100 * us_day" "740000 * us_day" "''evt_2''"] sample_times by simp
qed

end
