(* ===== verification/Ledger.thy ===== *)
theory Ledger
  imports Values
begin

text \<open>
  \<^verbatim>\<open>packages/domain/ledger.py\<close>: the append-only, hash-chained decision ledger. \<open>verify_from\<close> is the
  loop of \<^verbatim>\<open>verify_ledger\<close>, \<open>check_entry\<close> its body: it returns the failed verification or the values
  the loop carries on (chain case, previous hash, previous time).
\<close>

section \<open>Entries\<close>

definition GENESIS_HASH :: pystr where
  "GENESIS_HASH = replicate 64 (CHR ''0'')"

datatype ledger_reason =
    LOK | ENTRY_INVALID | SEQUENCE_MISMATCH | CASE_MISMATCH | PREVIOUS_HASH_MISMATCH | TIMESTAMP_INVALID
  | TIMESTAMP_REGRESSION | PAYLOAD_INVALID | PAYLOAD_NOT_CANONICAL | ENTRY_HASH_INVALID | ENTRY_HASH_MISMATCH

fun ledger_reason_value :: "ledger_reason \<Rightarrow> pystr" where
  "ledger_reason_value LOK = ''OK''"
| "ledger_reason_value ENTRY_INVALID = ''ENTRY_INVALID''"
| "ledger_reason_value SEQUENCE_MISMATCH = ''SEQUENCE_MISMATCH''"
| "ledger_reason_value CASE_MISMATCH = ''CASE_MISMATCH''"
| "ledger_reason_value PREVIOUS_HASH_MISMATCH = ''PREVIOUS_HASH_MISMATCH''"
| "ledger_reason_value TIMESTAMP_INVALID = ''TIMESTAMP_INVALID''"
| "ledger_reason_value TIMESTAMP_REGRESSION = ''TIMESTAMP_REGRESSION''"
| "ledger_reason_value PAYLOAD_INVALID = ''PAYLOAD_INVALID''"
| "ledger_reason_value PAYLOAD_NOT_CANONICAL = ''PAYLOAD_NOT_CANONICAL''"
| "ledger_reason_value ENTRY_HASH_INVALID = ''ENTRY_HASH_INVALID''"
| "ledger_reason_value ENTRY_HASH_MISMATCH = ''ENTRY_HASH_MISMATCH''"

record ledger_entry =
  l_sequence :: int
  l_case_id :: pystr
  l_recorded_at :: pystr
  l_entry_type :: pystr
  l_payload_json :: pystr
  l_previous_hash :: pystr
  l_entry_hash :: pystr

definition entry_payload :: "ledger_entry \<Rightarrow> exn + json" where
  "entry_payload e = (case loads (l_payload_json e) of
      None \<Rightarrow> Inl (ValueError ''JSONDecodeError'') | Some j \<Rightarrow> Inr j)"

definition hash_document :: "ledger_entry \<Rightarrow> exn + pyval" where
  "hash_document e = bindE (entry_payload e) (\<lambda>payload.
     Inr (PMap [(KStr ''case_id'', PStr (l_case_id e)), (KStr ''entry_type'', PStr (l_entry_type e)),
                (KStr ''payload'', py_of_json payload), (KStr ''recorded_at'', PStr (l_recorded_at e)),
                (KStr ''sequence'', PInt (l_sequence e))]))"

definition entry_to_primitive :: "ledger_entry \<Rightarrow> exn + pyval" where
  "entry_to_primitive e = bindE (entry_payload e) (\<lambda>payload.
     Inr (PMap [(KStr ''case_id'', PStr (l_case_id e)), (KStr ''entry_type'', PStr (l_entry_type e)),
                (KStr ''payload'', py_of_json payload), (KStr ''recorded_at'', PStr (l_recorded_at e)),
                (KStr ''sequence'', PInt (l_sequence e)), (KStr ''entry_hash'', PStr (l_entry_hash e)),
                (KStr ''previous_hash'', PStr (l_previous_hash e))]))"

text \<open>\<^verbatim>\<open>s.encode("ascii")\<close>\<close>

definition encode_ascii :: "pystr \<Rightarrow> exn + bytes" where
  "encode_ascii s = (if list_all (\<lambda>c. code c < 128) s then Inr (utf8 s) else Inl (ValueError ''UnicodeEncodeError''))"

definition hash_material :: "ledger_entry \<Rightarrow> exn + bytes" where
  "hash_material e =
     bindE (hash_document e) (\<lambda>doc.
     bindE (canonical_json_bytes doc) (\<lambda>body.
     bindE (encode_ascii (l_previous_hash e)) (\<lambda>prev. Inr (body @ prev))))"

definition entry_hash :: "ledger_entry \<Rightarrow> exn + pystr" where
  "entry_hash e = bindE (hash_material e) (\<lambda>material. Inr (sha256_hex material))"

section \<open>Verification\<close>

record ledger_verification =
  v_valid :: bool
  v_reason :: ledger_reason
  v_checked_entries :: int
  v_error_index :: "int option"
  v_expected_hash :: "pystr option"
  v_actual_hash :: "pystr option"

definition failed_at :: "int \<Rightarrow> ledger_reason \<Rightarrow> ledger_verification" where
  "failed_at index reason = \<lparr>v_valid = False, v_reason = reason, v_checked_entries = index,
     v_error_index = Some index, v_expected_hash = None, v_actual_hash = None\<rparr>"

definition failed_hash :: "int \<Rightarrow> ledger_reason \<Rightarrow> pystr \<Rightarrow> pystr \<Rightarrow> ledger_verification" where
  "failed_hash index reason expected actual =
     (failed_at index reason)\<lparr>v_expected_hash := Some expected, v_actual_hash := Some actual\<rparr>"

definition check_payload :: "int \<Rightarrow> ledger_entry \<Rightarrow> ledger_verification + unit" where
  "check_payload index e = (case loads (l_payload_json e) of
      None \<Rightarrow> Inl (failed_at index PAYLOAD_INVALID)
    | Some payload \<Rightarrow> (case canonical_json (py_of_json payload) of
        Inl _ \<Rightarrow> Inl (failed_at index PAYLOAD_INVALID)
      | Inr text_json \<Rightarrow> raise_if (text_json \<noteq> l_payload_json e) (failed_at index PAYLOAD_NOT_CANONICAL)))"

definition check_hash :: "int \<Rightarrow> ledger_entry \<Rightarrow> ledger_verification + unit" where
  "check_hash index e =
     bindE (raise_if (\<not> is_digest (l_entry_hash e)) (failed_at index ENTRY_HASH_INVALID)) (\<lambda>_.
     case entry_hash e of
       Inl _ \<Rightarrow> Inl (failed_at index PAYLOAD_INVALID)
     | Inr computed \<Rightarrow> raise_if (l_entry_hash e \<noteq> computed) (failed_hash index ENTRY_HASH_MISMATCH computed (l_entry_hash e)))"

definition check_entry ::
  "int \<Rightarrow> pystr option \<Rightarrow> pystr \<Rightarrow> instant option \<Rightarrow> ledger_entry \<Rightarrow> ledger_verification + (pystr \<times> instant)" where
  "check_entry index chain_case_id previous_hash previous_time e =
     bindE (raise_if (l_sequence e \<noteq> index + 1) (failed_at index SEQUENCE_MISMATCH)) (\<lambda>_.
     bindE (mapE_error (\<lambda>_. failed_at index ENTRY_INVALID)
       (bindE (require_identifier (l_case_id e) ''entry case_id'') (\<lambda>_. require_identifier (l_entry_type e) ''entry_type''))) (\<lambda>_.
     let chain = (case chain_case_id of None \<Rightarrow> l_case_id e | Some c \<Rightarrow> c) in
     bindE (raise_if (l_case_id e \<noteq> chain) (failed_at index CASE_MISMATCH)) (\<lambda>_.
     bindE (raise_if (l_previous_hash e \<noteq> previous_hash)
       (failed_hash index PREVIOUS_HASH_MISMATCH previous_hash (l_previous_hash e))) (\<lambda>_.
     bindE (mapE_error (\<lambda>_. failed_at index TIMESTAMP_INVALID) (parse_canonical_timestamp (l_recorded_at e))) (\<lambda>recorded_at.
     bindE (raise_if (case previous_time of None \<Rightarrow> False | Some p \<Rightarrow> recorded_at < p)
       (failed_at index TIMESTAMP_REGRESSION)) (\<lambda>_.
     bindE (check_payload index e) (\<lambda>_.
     bindE (check_hash index e) (\<lambda>_.
     Inr (chain, recorded_at)))))))))"

fun verify_from ::
  "int \<Rightarrow> pystr option \<Rightarrow> pystr \<Rightarrow> instant option \<Rightarrow> ledger_entry list \<Rightarrow> ledger_verification" where
  "verify_from index chain previous_hash previous_time [] =
     \<lparr>v_valid = True, v_reason = LOK, v_checked_entries = index, v_error_index = None,
      v_expected_hash = None, v_actual_hash = None\<rparr>"
| "verify_from index chain previous_hash previous_time (e # es) =
     (case check_entry index chain previous_hash previous_time e of
        Inl v \<Rightarrow> v
      | Inr (c, t) \<Rightarrow> verify_from (index + 1) (Some c) (l_entry_hash e) (Some t) es)"

definition verify_ledger :: "ledger_entry list \<Rightarrow> pystr option \<Rightarrow> exn + ledger_verification" where
  "verify_ledger entries expected_case_id =
     bindE (option_checkE (\<lambda>c. require_identifier c ''expected_case_id'') expected_case_id) (\<lambda>_.
     Inr (verify_from 0 expected_case_id GENESIS_HASH None entries))"

section \<open>The ledger of a case\<close>

record decision_ledger =
  dl_case_id :: pystr
  dl_entries :: "ledger_entry list"

definition mk_decision_ledger :: "pystr \<Rightarrow> ledger_entry list \<Rightarrow> exn + decision_ledger" where
  "mk_decision_ledger case_id entries =
     bindE (require_identifier case_id ''case_id'') (\<lambda>_.
     bindE (verify_ledger entries (Some case_id)) (\<lambda>verification.
     bindE (raise_if (\<not> v_valid verification)
       (LedgerIntegrityError (''cannot load invalid ledger: '' @ ledger_reason_value (v_reason verification)))) (\<lambda>_.
     Inr \<lparr>dl_case_id = case_id, dl_entries = entries\<rparr>)))"

definition head_hash :: "decision_ledger \<Rightarrow> pystr" where
  "head_hash l = (if dl_entries l \<noteq> [] then l_entry_hash (last (dl_entries l)) else GENESIS_HASH)"

definition ledger_append ::
  "decision_ledger \<Rightarrow> pystr \<Rightarrow> (pykey \<times> pyval) list \<Rightarrow> datetime \<Rightarrow> exn + (decision_ledger \<times> ledger_entry)" where
  "ledger_append l entry_type payload recorded_at =
     bindE (require_identifier entry_type ''entry_type'') (\<lambda>_.
     bindE (require_utc recorded_at ''recorded_at'') (\<lambda>timestamp.
     bindE (if dl_entries l \<noteq> []
            then bindE (parse_canonical_timestamp (l_recorded_at (last (dl_entries l)))) (\<lambda>previous_time.
                 raise_if (timestamp < previous_time) (LedgerIntegrityError ''ledger timestamps cannot move backwards''))
            else Inr ()) (\<lambda>_.
     bindE (canonical_json (PMap payload)) (\<lambda>payload_json.
     bindE (canonical_timestamp (utc timestamp)) (\<lambda>recorded.
     let provisional = \<lparr>l_sequence = int (length (dl_entries l)) + 1, l_case_id = dl_case_id l, l_recorded_at = recorded,
           l_entry_type = entry_type, l_payload_json = payload_json, l_previous_hash = head_hash l,
           l_entry_hash = GENESIS_HASH\<rparr>
     in bindE (entry_hash provisional) (\<lambda>h.
        let entry = provisional\<lparr>l_entry_hash := h\<rparr>
        in Inr (l\<lparr>dl_entries := dl_entries l @ [entry]\<rparr>, entry)))))))"

definition ledger_verify :: "decision_ledger \<Rightarrow> exn + ledger_verification" where
  "ledger_verify l = verify_ledger (dl_entries l) (Some (dl_case_id l))"

end
