(* ===== verification/Ledger_Spec.thy ===== *)
theory Ledger_Spec
  imports Ledger
begin

text \<open>
  What a verified ledger is: \<open>entry_ok\<close> says when an entry may follow a chain, and a ledger verifies
  exactly when each entry may follow the ones before it. From this: appending keeps validity, every
  prefix of a valid ledger is valid, a failed verification points at the first bad entry, and the head
  hash commits to the whole history.
\<close>

definition payload_ok :: "ledger_entry \<Rightarrow> bool" where
  "payload_ok e = (\<exists>p. loads (l_payload_json e) = Some p \<and> canonical_json (py_of_json p) = Inr (l_payload_json e))"

definition entry_ok :: "int \<Rightarrow> pystr \<Rightarrow> pystr \<Rightarrow> instant option \<Rightarrow> ledger_entry \<Rightarrow> instant \<Rightarrow> bool" where
  "entry_ok i c h t e u =
     (l_sequence e = i + 1 \<and> is_identifier (l_case_id e) \<and> is_identifier (l_entry_type e) \<and> l_case_id e = c
      \<and> l_previous_hash e = h \<and> parse_canonical_timestamp (l_recorded_at e) = Inr u \<and> (\<forall>p. t = Some p \<longrightarrow> p \<le> u)
      \<and> payload_ok e \<and> is_digest (l_entry_hash e) \<and> entry_hash e = Inr (l_entry_hash e))"

lemma check_payload_Inr: "check_payload i e = Inr x \<longleftrightarrow> payload_ok e"
  by (auto simp: check_payload_def payload_ok_def split: option.splits sum.splits)

lemma check_hash_Inr: "check_hash i e = Inr x \<longleftrightarrow> is_digest (l_entry_hash e) \<and> entry_hash e = Inr (l_entry_hash e)"
  by (auto simp: check_hash_def split: sum.splits)

lemma check_entry_Inr:
  "check_entry i (Some c) h t e = Inr r \<longleftrightarrow> (\<exists>u. r = (c, u) \<and> entry_ok i c h t e u)"
  by (auto simp: check_entry_def entry_ok_def check_payload_Inr check_hash_Inr Let_def not_less split: option.splits)

lemma check_entry_Inl:
  "check_entry i c h t e = Inl v \<Longrightarrow> \<not> v_valid v \<and> v_error_index v = Some i \<and> v_checked_entries v = i"
  by (auto simp: check_entry_def bindE_eq_Inl check_payload_def check_hash_def failed_at_def failed_hash_def mapE_error_def
      Let_def raise_if_def split: option.splits sum.splits if_splits)

section \<open>The state of the loop after a prefix\<close>

definition end_hash :: "pystr \<Rightarrow> ledger_entry list \<Rightarrow> pystr" where
  "end_hash h es = (if es = [] then h else l_entry_hash (last es))"

definition end_time :: "instant option \<Rightarrow> ledger_entry list \<Rightarrow> instant option" where
  "end_time t es = (if es = [] then t else
     (case parse_canonical_timestamp (l_recorded_at (last es)) of Inr u \<Rightarrow> Some u | Inl _ \<Rightarrow> None))"

abbreviation valid_from :: "int \<Rightarrow> pystr \<Rightarrow> pystr \<Rightarrow> instant option \<Rightarrow> ledger_entry list \<Rightarrow> bool" where
  "valid_from i c h t es \<equiv> v_valid (verify_from i (Some c) h t es)"

lemma valid_from_Cons:
  "valid_from i c h t (e # es) \<longleftrightarrow> (\<exists>u. entry_ok i c h t e u \<and> valid_from (i + 1) c (l_entry_hash e) (Some u) es)"
proof (cases "check_entry i (Some c) h t e")
  case (Inl v)
  then have "\<not> entry_ok i c h t e u" for u using check_entry_Inr [of i c h t e "(c, u)"] by simp
  with Inl check_entry_Inl [OF Inl] show ?thesis by simp
next
  case (Inr r)
  then obtain u where "r = (c, u)" "entry_ok i c h t e u" by (auto simp: check_entry_Inr)
  moreover have "entry_ok i c h t e u' \<Longrightarrow> u' = u" for u' using calculation(2) by (auto simp: entry_ok_def)
  moreover have "valid_from i c h t (e # es) \<longleftrightarrow> valid_from (i + 1) c (l_entry_hash e) (Some u) es"
    using Inr calculation(1) by simp
  ultimately show ?thesis by blast
qed

lemma valid_from_append:
  "valid_from i c h t (xs @ ys) \<longleftrightarrow>
     valid_from i c h t xs \<and> valid_from (i + int (length xs)) c (end_hash h xs) (end_time t xs) ys"
proof (induction xs arbitrary: i h t)
  case Nil
  then show ?case by (simp add: end_hash_def end_time_def)
next
  case (Cons x xs)
  have "entry_ok i c h t x u \<Longrightarrow> end_time (Some u) xs = end_time t (x # xs)" for u
    by (auto simp: end_time_def entry_ok_def)
  moreover have "end_hash (l_entry_hash x) xs = end_hash h (x # xs)" by (simp add: end_hash_def)
  ultimately show ?case
    unfolding append_Cons valid_from_Cons Cons.IH by (auto simp: algebra_simps)
qed

lemma valid_from_snoc:
  "valid_from i c h t (xs @ [e]) \<longleftrightarrow>
     valid_from i c h t xs \<and> (\<exists>u. entry_ok (i + int (length xs)) c (end_hash h xs) (end_time t xs) e u)"
  by (simp only: valid_from_append valid_from_Cons) simp

lemma verify_ledger_Inr:
  "verify_ledger es (Some c) = Inr v \<longleftrightarrow> is_identifier c \<and> v = verify_from 0 (Some c) GENESIS_HASH None es"
  by (auto simp: verify_ledger_def)

section \<open>A failure points at the first bad entry\<close>

lemma first_bad:
  assumes "\<not> v_valid (verify_from i (Some c) h t es)"
  shows "\<exists>n < length es. v_error_index (verify_from i (Some c) h t es) = Some (i + int n)
    \<and> v_checked_entries (verify_from i (Some c) h t es) = i + int n
    \<and> valid_from i c h t (take n es) \<and> \<not> valid_from i c h t (take (Suc n) es)"
  using assms
proof (induction es arbitrary: i h t)
  case (Cons e es)
  show ?case
  proof (cases "check_entry i (Some c) h t e")
    case (Inl v)
    with check_entry_Inl [OF Inl] show ?thesis by (intro exI [of _ 0]) simp
  next
    case (Inr r)
    then obtain u where u: "r = (c, u)" "entry_ok i c h t e u" by (auto simp: check_entry_Inr)
    with Inr Cons.prems have "\<not> valid_from (i + 1) c (l_entry_hash e) (Some u) es" by simp
    from Cons.IH [OF this] obtain n where n: "n < length es"
      "v_error_index (verify_from (i + 1) (Some c) (l_entry_hash e) (Some u) es) = Some (i + 1 + int n)"
      "v_checked_entries (verify_from (i + 1) (Some c) (l_entry_hash e) (Some u) es) = i + 1 + int n"
      "valid_from (i + 1) c (l_entry_hash e) (Some u) (take n es)"
      "\<not> valid_from (i + 1) c (l_entry_hash e) (Some u) (take (Suc n) es)" by blast
    have step: "verify_from i (Some c) h t (e # fs) = verify_from (i + 1) (Some c) (l_entry_hash e) (Some u) fs" for fs
      using Inr u(1) by simp
    have "v_error_index (verify_from i (Some c) h t (e # es)) = Some (i + int (Suc n))"
      "v_checked_entries (verify_from i (Some c) h t (e # es)) = i + int (Suc n)"
      unfolding step n(2,3) by simp_all
    moreover have "valid_from i c h t (take (Suc n) (e # es))" "\<not> valid_from i c h t (take (Suc (Suc n)) (e # es))"
      unfolding take_Suc_Cons step using n(4,5) by blast+
    ultimately show ?thesis using n(1) by (intro exI [of _ "Suc n"]) (simp only: length_Cons Suc_less_eq simp_thms)
  qed
qed simp

section \<open>The head hash commits to the history\<close>

text \<open>The document of an entry, normalised.\<close>

definition entry_json :: "ledger_entry \<Rightarrow> json \<Rightarrow> json" where
  "entry_json e p = JObj [(''case_id'', JStr (l_case_id e)), (''entry_type'', JStr (l_entry_type e)), (''payload'', p),
     (''recorded_at'', JStr (l_recorded_at e)), (''sequence'', JInt (l_sequence e))]"

lemma canonical_loads_ok:
  assumes "loads s = Some p" "canonical_json (py_of_json p) = Inr s"
  shows "json_ok p"
proof -
  from assms(2) obtain j where j: "to_canonical_primitive (py_of_json p) = Inr j" "s = dumps j"
    by (auto simp: canonical_json_def)
  then have "json_ok j" using to_canonical_primitive_ok(1) by blast
  with j assms(1) have "p = canon j" by (simp add: loads_dumps)
  with \<open>json_ok j\<close> json_ok_canon show ?thesis by simp
qed

lemma payload_okE:
  assumes "payload_ok e"
  obtains p where "loads (l_payload_json e) = Some p" "json_ok p" "dumps p = l_payload_json e"
proof -
  from assms obtain p where p: "loads (l_payload_json e) = Some p" "canonical_json (py_of_json p) = Inr (l_payload_json e)"
    by (auto simp: payload_ok_def)
  with canonical_loads_ok have "json_ok p" by blast
  with p that show thesis by (simp add: canonical_json_of_json)
qed

lemma canon_entry_json: "canon (entry_json e p) = entry_json e (canon p)"
  by (simp add: entry_json_def)

lemma hash_material_Inr:
  assumes "loads (l_payload_json e) = Some p" "json_ok p" "list_all (\<lambda>c. code c < 128) (l_previous_hash e)"
  shows "hash_material e = Inr (utf8 (dumps (entry_json e p)) @ utf8 (l_previous_hash e))"
proof -
  have "json_ok (entry_json e p)" using assms(2) by (simp add: entry_json_def)
  moreover have "hash_document e = Inr (py_of_json (entry_json e p))"
    using assms(1) by (simp add: hash_document_def entry_payload_def entry_json_def)
  ultimately have "bindE (hash_document e) canonical_json_bytes = Inr (utf8 (dumps (entry_json e p)))"
    by (simp add: canonical_json_bytes_def canonical_json_of_json)
  then show ?thesis using assms(3) by (auto simp: hash_material_def encode_ascii_def)
qed

lemma length_utf8_ascii: "list_all (\<lambda>c. code c < 128) s \<Longrightarrow> length (utf8 s) = length s"
  by (induction s) (simp_all add: utf8_char_def)

lemma digest_ascii:
  assumes "is_digest d"
  shows "list_all (\<lambda>c. code c < 128) d" "length (utf8 d) = 64"
proof -
  show ascii: "list_all (\<lambda>c. code c < 128) d"
    using assms by (auto simp: is_digest_def list_all_iff is_lower_hex_def is_digit_def)
  then show "length (utf8 d) = 64" using assms length_utf8_ascii by (simp add: is_digest_def)
qed

lemma is_digest_genesis [simp]: "is_digest GENESIS_HASH"
  by (simp add: is_digest_def GENESIS_HASH_def is_lower_hex_def is_digit_def)

lemma valid_last_digest: "valid_from i c h t es \<Longrightarrow> is_digest h \<Longrightarrow> is_digest (end_hash h es)"
proof (induction es rule: rev_induct)
  case (snoc e es)
  then show ?case unfolding valid_from_snoc by (auto simp: end_hash_def entry_ok_def)
qed (simp add: end_hash_def)

text \<open>Entries with valid payloads whose hash material is equal are equal, up to their own hash.\<close>

lemma same_material:
  assumes "payload_ok e" "payload_ok f" "is_digest (l_previous_hash e)" "is_digest (l_previous_hash f)"
    "hash_material e = hash_material f" "l_entry_hash e = l_entry_hash f"
  shows "e = f"
proof -
  obtain p where p: "loads (l_payload_json e) = Some p" "json_ok p" "dumps p = l_payload_json e"
    using assms(1) by (rule payload_okE)
  obtain q where q: "loads (l_payload_json f) = Some q" "json_ok q" "dumps q = l_payload_json f"
    using assms(2) by (rule payload_okE)
  have "utf8 (dumps (entry_json e p)) @ utf8 (l_previous_hash e) = utf8 (dumps (entry_json f q)) @ utf8 (l_previous_hash f)"
    using assms(5) hash_material_Inr [OF p(1,2) digest_ascii(1) [OF assms(3)]]
      hash_material_Inr [OF q(1,2) digest_ascii(1) [OF assms(4)]] by simp
  then have eq: "dumps (entry_json e p) = dumps (entry_json f q)" "l_previous_hash e = l_previous_hash f"
    using digest_ascii(2) [OF assms(3)] digest_ascii(2) [OF assms(4)]
    by (simp_all add: append_eq_append_conv utf8_inj)
  moreover have "json_ok (entry_json e p)" "json_ok (entry_json f q)" using p q by (simp_all add: entry_json_def)
  ultimately have "entry_json e (canon p) = entry_json f (canon q)"
    using dumps_inj [of "entry_json e p" "entry_json f q"] by (simp only: canon_entry_json)
  then have "canon p = canon q" "l_case_id e = l_case_id f" "l_entry_type e = l_entry_type f"
    "l_recorded_at e = l_recorded_at f" "l_sequence e = l_sequence f"
    by (simp_all add: entry_json_def)
  moreover from this have "l_payload_json e = l_payload_json f"
    using p(3) q(3) dumps_canon by metis
  ultimately show ?thesis using assms(6) eq(2) by (cases e; cases f) simp
qed

definition materials :: "ledger_entry list \<Rightarrow> bytes set" where
  "materials es = {m. \<exists>e\<in>set es. hash_material e = Inr m}"

lemma same_head:
  assumes "valid_from 0 c GENESIS_HASH None xs" "valid_from 0 d GENESIS_HASH None ys" "xs \<noteq> []" "ys \<noteq> []"
    "l_entry_hash (last xs) = l_entry_hash (last ys)" "inj_on sha256_hex (materials (xs @ ys))"
  shows "xs = ys"
  using assms
proof (induction xs arbitrary: ys rule: rev_induct)
  case (snoc e xs)
  obtain f zs where ys: "ys = zs @ [f]" using snoc.prems(4) by (cases ys rule: rev_cases) auto
  from snoc.prems(1) obtain u where e: "valid_from 0 c GENESIS_HASH None xs"
    "entry_ok (int (length xs)) c (end_hash GENESIS_HASH xs) (end_time None xs) e u"
    unfolding valid_from_snoc by auto
  from snoc.prems(2) obtain v where f: "valid_from 0 d GENESIS_HASH None zs"
    "entry_ok (int (length zs)) d (end_hash GENESIS_HASH zs) (end_time None zs) f v"
    unfolding ys valid_from_snoc by auto
  have dig: "is_digest (l_previous_hash e)" "is_digest (l_previous_hash f)"
    using e f valid_last_digest by (simp_all add: entry_ok_def)
  from e(2) f(2) obtain me mf where m: "hash_material e = Inr me" "hash_material f = Inr mf"
    "l_entry_hash e = sha256_hex me" "l_entry_hash f = sha256_hex mf"
    by (auto simp: entry_ok_def entry_hash_def)
  moreover have "me \<in> materials ((xs @ [e]) @ ys)" "mf \<in> materials ((xs @ [e]) @ ys)"
    using m by (auto simp: materials_def ys)
  ultimately have "me = mf" using snoc.prems(5,6) by (auto simp: ys dest: inj_onD)
  with m e(2) f(2) dig snoc.prems(5) have ef: "e = f" by (intro same_material) (auto simp: entry_ok_def ys)
  with e(2) f(2) have len: "length xs = length zs" and prev: "end_hash GENESIS_HASH xs = end_hash GENESIS_HASH zs"
    by (auto simp: entry_ok_def)
  show ?case
  proof (cases "xs = []")
    case True
    with len ef show ?thesis by (simp add: ys)
  next
    case False
    with len have "zs \<noteq> []" by auto
    moreover have "inj_on sha256_hex (materials (xs @ zs))"
      using snoc.prems(6) by (rule inj_on_subset) (auto simp: materials_def ys)
    moreover have "l_entry_hash (last xs) = l_entry_hash (last zs)"
      using prev False \<open>zs \<noteq> []\<close> by (simp add: end_hash_def)
    ultimately have "xs = zs" using snoc.IH e(1) f(1) False by blast
    with ef show ?thesis by (simp add: ys)
  qed
qed simp

section \<open>Appending\<close>

lemma mk_decision_ledger_Inr:
  "mk_decision_ledger c es = Inr l \<longleftrightarrow>
     is_identifier c \<and> valid_from 0 c GENESIS_HASH None es \<and> l = \<lparr>dl_case_id = c, dl_entries = es\<rparr>"
  by (auto simp: mk_decision_ledger_def verify_ledger_Inr)

lemma head_hash_end: "head_hash l = end_hash GENESIS_HASH (dl_entries l)"
  by (simp add: head_hash_def end_hash_def)

lemma entry_hash_own [simp]: "entry_hash (e\<lparr>l_entry_hash := h\<rparr>) = entry_hash e"
  by (simp add: entry_hash_def hash_material_def hash_document_def entry_payload_def)

lemma ledger_append_entry:
  assumes "ledger_append l et pl recorded = Inr (l', e)" "is_identifier (dl_case_id l)"
    "require_utc recorded ''recorded_at'' = Inr t" "1000 \<le> c_year (civil_of t)" "c_year (civil_of t) \<le> 9999"
  shows "l' = l\<lparr>dl_entries := dl_entries l @ [e]\<rparr> \<and>
    entry_ok (int (length (dl_entries l))) (dl_case_id l) (head_hash l) (end_time None (dl_entries l)) e t"
proof -
  from assms(1,3) obtain s h where et: "is_identifier et"
    and time: "dl_entries l \<noteq> [] \<Longrightarrow> \<exists>p. parse_canonical_timestamp (l_recorded_at (last (dl_entries l))) = Inr p \<and> p \<le> t"
    and s: "canonical_json (PMap pl) = Inr s"
    and h: "entry_hash (e\<lparr>l_entry_hash := GENESIS_HASH\<rparr>) = Inr h"
    and e: "e = \<lparr>l_sequence = int (length (dl_entries l)) + 1, l_case_id = dl_case_id l, l_recorded_at = iso_timestamp t,
           l_entry_type = et, l_payload_json = s, l_previous_hash = head_hash l, l_entry_hash = h\<rparr>"
    and l': "l' = l\<lparr>dl_entries := dl_entries l @ [e]\<rparr>"
    by (auto simp: ledger_append_def Let_def not_less canonical_timestamp_utc [OF require_utc_in_range] split: if_splits)
  have fields: "l_sequence e = int (length (dl_entries l)) + 1" "l_case_id e = dl_case_id l"
    "l_recorded_at e = iso_timestamp t" "l_entry_type e = et" "l_previous_hash e = head_hash l" "l_entry_hash e = h"
    by (simp_all add: e)
  from canonical_json_loads [OF s] have "payload_ok e" by (auto simp: payload_ok_def e)
  moreover have "is_digest h" using h by (auto simp: entry_hash_def)
  moreover have "\<forall>p. end_time None (dl_entries l) = Some p \<longrightarrow> p \<le> t"
    using time by (auto simp: end_time_def split: sum.splits if_splits)
  ultimately have "entry_ok (int (length (dl_entries l))) (dl_case_id l) (head_hash l) (end_time None (dl_entries l)) e t"
    using assms(2,4,5) et h parse_iso_timestamp [of t] fields by (simp add: entry_ok_def)
  with l' show ?thesis by blast
qed

section \<open>A sample ledger\<close>

definition sample_instant :: instant where
  "sample_instant = 740000 * us_day"

lemma sample_year: "1000 \<le> c_year (civil_of sample_instant)" "c_year (civil_of sample_instant) \<le> 9999"
  unfolding sample_instant_def by code_simp+

lemma sample_instant_range [simp]: "in_range sample_instant"
  by (simp add: sample_instant_def in_range_def max_instant_def us_day_def us_second_def)

lemma sample_empty: "mk_decision_ledger ''case_1'' [] = Inr \<lparr>dl_case_id = ''case_1'', dl_entries = []\<rparr>"
  unfolding mk_decision_ledger_Inr by code_simp

lemma sample_append:
  "\<exists>l e. ledger_append \<lparr>dl_case_id = ''case_1'', dl_entries = []\<rparr> ''decision'' [(KStr ''ok'', PBool True)] (utc sample_instant)
     = Inr (l, e)"
proof -
  let ?p = "\<lparr>l_sequence = 1, l_case_id = ''case_1'', l_recorded_at = iso_timestamp sample_instant,
    l_entry_type = ''decision'', l_payload_json = dumps (JObj [(''ok'', JBool True)]), l_previous_hash = GENESIS_HASH,
    l_entry_hash = GENESIS_HASH\<rparr>"
  have "hash_material ?p = Inr (utf8 (dumps (entry_json ?p (JObj [(''ok'', JBool True)]))) @ utf8 (l_previous_hash ?p))"
    using loads_dumps [of "JObj [(''ok'', JBool True)]"] digest_ascii(1) [OF is_digest_genesis]
    by (intro hash_material_Inr) simp_all
  then have "\<exists>h. entry_hash ?p = Inr h" by (simp add: entry_hash_def)
  moreover have "canonical_json (PMap [(KStr ''ok'', PBool True)]) = Inr (dumps (JObj [(''ok'', JBool True)]))"
    by (simp add: canonical_json_def)
  moreover have "is_identifier ''decision''" by code_simp
  ultimately show ?thesis by (auto simp: ledger_append_def head_hash_def Let_def simp del: dumps.simps)
qed

section \<open>Properties\<close>

text \<open>Appending keeps a ledger valid: an entry appended to a loaded ledger goes at its end, links to
  the former head, becomes the head, and the extended ledger loads again. (The year bounds are those for
  which the timestamp format is parsed back.)\<close>

lemma append_keeps_valid:
  assumes "mk_decision_ledger c es = Inr l" "ledger_append l entry_type payload recorded = Inr (l', e)"
    and "require_utc recorded ''recorded_at'' = Inr t" "1000 \<le> c_year (civil_of t)" "c_year (civil_of t) \<le> 9999"
  shows "dl_entries l' = es @ [e] \<and> l_previous_hash e = head_hash l \<and> head_hash l' = l_entry_hash e
    \<and> mk_decision_ledger c (dl_entries l') = Inr l'"
proof -
  from assms(1) have l: "l = \<lparr>dl_case_id = c, dl_entries = es\<rparr>" "is_identifier c" "valid_from 0 c GENESIS_HASH None es"
    by (simp_all only: mk_decision_ledger_Inr)
  from ledger_append_entry [OF assms(2) _ assms(3-5)] l(1,2)
  have e: "l' = \<lparr>dl_case_id = c, dl_entries = es @ [e]\<rparr>"
    "entry_ok (int (length es)) c (end_hash GENESIS_HASH es) (end_time None es) e t"
    by (simp_all add: head_hash_end)
  then have "valid_from 0 c GENESIS_HASH None (es @ [e])" using l(3) unfolding valid_from_snoc by auto
  with e l(1,2) show ?thesis by (auto simp: mk_decision_ledger_Inr head_hash_end end_hash_def entry_ok_def)
qed

lemma append_keeps_valid_example:
  "\<exists>l e. ledger_append \<lparr>dl_case_id = ''case_1'', dl_entries = []\<rparr> ''decision'' [(KStr ''ok'', PBool True)] (utc sample_instant)
     = Inr (l, e) \<and> mk_decision_ledger ''case_1'' (dl_entries l) = Inr l"
proof -
  obtain l e where le: "ledger_append \<lparr>dl_case_id = ''case_1'', dl_entries = []\<rparr> ''decision'' [(KStr ''ok'', PBool True)]
      (utc sample_instant) = Inr (l, e)"
    using sample_append by blast
  from append_keeps_valid [OF sample_empty this require_utc_utc [OF sample_instant_range] sample_year] le
  show ?thesis by blast
qed

lemma head_material:
  assumes "valid_from 0 c GENESIS_HASH None es" "es \<noteq> []"
  shows "l_entry_hash (last es) \<in> sha256_hex ` materials es"
proof -
  obtain e fs where es: "es = fs @ [e]" using assms(2) by (cases es rule: rev_cases) auto
  from assms(1) obtain u where "entry_ok (int (length fs)) c (end_hash GENESIS_HASH fs) (end_time None fs) e u"
    unfolding es valid_from_snoc by auto
  then obtain m where m: "hash_material e = Inr m" "l_entry_hash e = sha256_hex m" by (auto simp: entry_ok_def entry_hash_def)
  have "e \<in> set es" by (simp add: es)
  with m(1) have "m \<in> materials es" unfolding materials_def by blast
  with m(2) show ?thesis by (simp add: es)
qed

text \<open>C23. The ledger is tamper-evident: if no two of the entries at hand collide under SHA-256, two valid ledgers
  with the same head hash are the same ledger, entry by entry and of the same case. The one exception, stated as such, is
  an empty ledger against one that is not: their heads agree only if some entry at hand hashes to the genesis
  digest of sixty-four zeros. (Empty ledgers of different cases have the same head and the same entries.)\<close>

theorem head_hash_commits:
  assumes "mk_decision_ledger c xs = Inr l" "mk_decision_ledger d ys = Inr m"
    and "head_hash l = head_hash m" "inj_on sha256_hex (materials (xs @ ys))"
  shows "xs = ys \<and> (xs = [] \<or> c = d) \<or> (xs = []) \<noteq> (ys = []) \<and> GENESIS_HASH \<in> sha256_hex ` materials (xs @ ys)"
proof -
  from assms(1,2) have l: "l = \<lparr>dl_case_id = c, dl_entries = xs\<rparr>" "valid_from 0 c GENESIS_HASH None xs"
    and m: "m = \<lparr>dl_case_id = d, dl_entries = ys\<rparr>" "valid_from 0 d GENESIS_HASH None ys"
    by (simp_all only: mk_decision_ledger_Inr)
  consider "xs = []" "ys = []" | "xs \<noteq> []" "ys \<noteq> []" | "xs = []" "ys \<noteq> []" | "xs \<noteq> []" "ys = []" by blast
  then show ?thesis
  proof cases
    case 2
    then have eq: "xs = ys" using l m assms(3,4) by (intro same_head) (simp_all add: head_hash_def)
    moreover obtain e es where "xs = e # es" using 2(1) by (cases xs) auto
    ultimately have "c = d" using l(2) m(2) by (auto simp: valid_from_Cons entry_ok_def simp del: verify_from.simps(2))
    with eq show ?thesis by blast
  next
    case 3
    then have "GENESIS_HASH = l_entry_hash (last ys)" using l(1) m(1) assms(3) by (simp add: head_hash_def)
    with head_material [OF m(2) 3(2)] 3 show ?thesis by simp
  next
    case 4
    then have "GENESIS_HASH = l_entry_hash (last xs)" using l(1) m(1) assms(3) by (simp add: head_hash_def)
    with head_material [OF l(2) 4(1)] 4 show ?thesis by simp
  qed simp
qed

theorem head_hash_commits_witness:
  "\<exists>e l. mk_decision_ledger ''case_1'' [e] = Inr l \<and> inj_on sha256_hex (materials ([e] @ [e]))
     \<and> [e] = dl_entries l \<and> ''case_1'' = dl_case_id l"
proof -
  obtain l e where le: "ledger_append \<lparr>dl_case_id = ''case_1'', dl_entries = []\<rparr> ''decision'' [(KStr ''ok'', PBool True)]
      (utc sample_instant) = Inr (l, e)"
    using sample_append by blast
  have "is_identifier ''case_1''" by code_simp
  with ledger_append_entry [OF le, of sample_instant] sample_year
  have l: "l = \<lparr>dl_case_id = ''case_1'', dl_entries = [e]\<rparr>" and ok: "entry_ok 0 ''case_1'' GENESIS_HASH None e sample_instant"
    by (simp_all add: head_hash_def end_time_def)
  then have mk: "mk_decision_ledger ''case_1'' [e] = Inr l" using \<open>is_identifier ''case_1''\<close>
    by (auto simp: mk_decision_ledger_Inr valid_from_Cons simp del: verify_from.simps(2))
  moreover have inj: "inj_on sha256_hex (materials ([e] @ [e]))" by (auto simp: materials_def inj_on_def)
  moreover from l have mk': "mk_decision_ledger (dl_case_id l) (dl_entries l) = Inr l" using mk by simp
  have "[e] = dl_entries l \<and> ''case_1'' = dl_case_id l"
    using head_hash_commits [OF mk mk'] inj l by simp
  ultimately show ?thesis by blast
qed

text \<open>Verification points at the first bad entry: when it fails, the reported index is that of an
  entry, the entries before it form a valid ledger, and with it the ledger is invalid.\<close>

lemma verification_localises:
  assumes "verify_ledger es (Some c) = Inr v" "\<not> v_valid v"
  shows "\<exists>n < length es. v_error_index v = Some (int n) \<and> v_checked_entries v = int n
    \<and> (\<exists>w. verify_ledger (take n es) (Some c) = Inr w \<and> v_valid w)
    \<and> (\<exists>w. verify_ledger (take (Suc n) es) (Some c) = Inr w \<and> \<not> v_valid w)"
proof -
  from assms have v: "is_identifier c" "v = verify_from 0 (Some c) GENESIS_HASH None es" by (simp_all add: verify_ledger_Inr)
  then have "\<not> v_valid (verify_from 0 (Some c) GENESIS_HASH None es)" using assms(2) by simp
  from first_bad [OF this] v show ?thesis by (auto simp: verify_ledger_Inr)
qed

definition bad_entry :: ledger_entry where
  "bad_entry = \<lparr>l_sequence = 7, l_case_id = ''case_1'', l_recorded_at = [], l_entry_type = ''decision'',
     l_payload_json = ''{}'', l_previous_hash = GENESIS_HASH, l_entry_hash = GENESIS_HASH\<rparr>"

lemma bad_entry_rejected:
  "verify_ledger [bad_entry] (Some ''case_1'') = Inr (failed_at 0 SEQUENCE_MISMATCH)"
  unfolding verify_ledger_Inr by (simp add: bad_entry_def check_entry_def) code_simp

lemma verification_localises_example: "v_error_index (failed_at 0 SEQUENCE_MISMATCH) = Some 0"
  using verification_localises [OF bad_entry_rejected] by (simp add: failed_at_def)

text \<open>Every prefix of a valid ledger is a valid ledger.\<close>

lemma prefix_valid:
  assumes "mk_decision_ledger c (xs @ ys) = Inr l"
  shows "\<exists>k. mk_decision_ledger c xs = Inr k"
  using assms by (auto simp: mk_decision_ledger_Inr valid_from_append)

lemma prefix_valid_example: "\<exists>k. mk_decision_ledger ''case_1'' [] = Inr k"
  using prefix_valid [of "''case_1''" "[]" "[]"] sample_empty by simp

end
