(* ===== verification/Outbox.thy ===== *)
theory Outbox
  imports Canonical
begin

text \<open>
  \<^verbatim>\<open>services/control_plane/outbox.py\<close>: the delivery job with fenced leases and its retry schedule.
  Every transition builds a new job with \<^verbatim>\<open>dataclasses.replace\<close>, which runs \<^verbatim>\<open>__post_init__\<close> again:
  \<open>replace_job\<close> validates the updated record with \<open>mk_outbox_job\<close>.
\<close>

section \<open>Vocabulary and argument checks\<close>

datatype outbox_state = PENDING | LEASED | COMPLETED | DEAD_LETTER

fun outbox_state_value :: "outbox_state \<Rightarrow> pystr" where
  "outbox_state_value PENDING = ''pending''"
| "outbox_state_value LEASED = ''leased''"
| "outbox_state_value COMPLETED = ''completed''"
| "outbox_state_value DEAD_LETTER = ''dead_letter''"

datatype retry_mode = RNORMAL | RECONCILE_ONLY | RETRY_SAME_EFFECT

definition require_utc_exact :: "datetime \<Rightarrow> pystr \<Rightarrow> exn + instant" where
  "require_utc_exact value fld = (case utcoffset value of
      None \<Rightarrow> Inl (ValueError (fld @ '' must be a timezone-aware datetime''))
    | Some off \<Rightarrow> if off \<noteq> 0 then Inl (ValueError (fld @ '' must be expressed in UTC''))
                 else astimezone_utc (wall value) off)"

definition clean_text :: "pystr \<Rightarrow> nat \<Rightarrow> bool" where
  "clean_text value maximum =
     (value \<noteq> [] \<and> value = strip value \<and> length value \<le> maximum \<and> \<not> list_ex is_control value)"

definition require_text :: "pystr \<Rightarrow> pystr \<Rightarrow> nat \<Rightarrow> exn + pystr" where
  "require_text value fld maximum =
     (if clean_text value maximum then Inr value else Inl (ValueError (fld @ '' must be clean, non-empty text'')))"

section \<open>Backoff\<close>

record backoff_policy =
  base_delay :: timedelta
  maximum_delay :: timedelta

definition mk_backoff_policy :: "timedelta \<Rightarrow> timedelta \<Rightarrow> exn + backoff_policy" where
  "mk_backoff_policy base maximum =
     bindE (raise_if (base \<le> 0) (ValueError ''base_delay must be a positive timedelta'')) (\<lambda>_.
     bindE (raise_if (maximum < base) (ValueError ''maximum_delay must be at least base_delay'')) (\<lambda>_.
     Inr \<lparr>base_delay = base, maximum_delay = maximum\<rparr>))"

text \<open>\<^verbatim>\<open>timedelta / 2\<close>: the exact half in microseconds, ties to even.\<close>

definition halve :: "timedelta \<Rightarrow> timedelta" where
  "halve d = (if d mod 2 = 0 then d div 2 else if (d div 2) mod 2 = 0 then d div 2 else d div 2 + 1)"

fun delay_loop :: "timedelta \<Rightarrow> nat \<Rightarrow> timedelta \<Rightarrow> timedelta" where
  "delay_loop maximum 0 delay = min delay maximum"
| "delay_loop maximum (Suc n) delay =
     (if halve maximum \<le> delay then maximum else delay_loop maximum n (delay * 2))"

definition delay_after :: "backoff_policy \<Rightarrow> int \<Rightarrow> exn + timedelta" where
  "delay_after b attempts =
     (if attempts < 1 then Inl (ValueError ''attempts must be a positive integer'')
      else Inr (delay_loop (maximum_delay b) (nat (attempts - 1)) (base_delay b)))"

section \<open>Jobs\<close>

record outbox_job =
  j_job_id :: pystr
  j_action_key :: pystr
  j_payload_digest :: pystr
  j_state :: outbox_state
  j_version :: int
  j_attempts :: int
  j_max_attempts :: int
  j_created_at :: instant
  j_updated_at :: instant
  j_available_at :: "instant option"
  j_retry_mode :: retry_mode
  j_lease_owner :: "pystr option"
  j_lease_token :: "pystr option"
  j_lease_expires_at :: "instant option"
  j_last_error :: "pystr option"
  j_completion_reference :: "pystr option"
  j_dead_letter_reason :: "pystr option"
  j_schema_version :: int

definition require_at_least :: "pystr \<Rightarrow> int \<Rightarrow> int \<Rightarrow> exn + unit" where
  "require_at_least fld value minimum =
     raise_if (value < minimum) (ValueError (fld @ '' must be an integer >= '' @ int_str minimum))"

definition check_job_counters :: "outbox_job \<Rightarrow> exn + unit" where
  "check_job_counters j =
     bindE (require_at_least ''version'' (j_version j) 0) (\<lambda>_.
     bindE (require_at_least ''attempts'' (j_attempts j) 0) (\<lambda>_.
     bindE (require_at_least ''max_attempts'' (j_max_attempts j) 1) (\<lambda>_.
     bindE (require_at_least ''schema_version'' (j_schema_version j) 1) (\<lambda>_.
     bindE (raise_if (j_schema_version j \<noteq> 1) (ValueError ''unsupported outbox schema_version'')) (\<lambda>_.
     raise_if (j_max_attempts j < j_attempts j) (ValueError ''attempts cannot exceed max_attempts''))))))"

definition check_job_texts :: "outbox_job \<Rightarrow> exn + unit" where
  "check_job_texts j =
     bindE (option_checkE (\<lambda>v. require_text v ''lease_owner'' 512) (j_lease_owner j)) (\<lambda>_.
     bindE (option_checkE (\<lambda>v. require_text v ''lease_token'' 512) (j_lease_token j)) (\<lambda>_.
     bindE (option_checkE (\<lambda>v. require_text v ''last_error'' 512) (j_last_error j)) (\<lambda>_.
     bindE (option_checkE (\<lambda>v. require_text v ''completion_reference'' 512) (j_completion_reference j)) (\<lambda>_.
     bindE (option_checkE (\<lambda>v. require_text v ''dead_letter_reason'' 512) (j_dead_letter_reason j)) (\<lambda>_.
     Inr ())))))"

definition any_lease :: "outbox_job \<Rightarrow> bool" where
  "any_lease j = (j_lease_owner j \<noteq> None \<or> j_lease_token j \<noteq> None \<or> j_lease_expires_at j \<noteq> None)"

definition missing_lease :: "outbox_job \<Rightarrow> bool" where
  "missing_lease j = (j_lease_owner j = None \<or> j_lease_token j = None \<or> j_lease_expires_at j = None)"

fun lease_not_after :: "outbox_job \<Rightarrow> bool" where
  "lease_not_after j = (case j_lease_expires_at j of None \<Rightarrow> False | Some t \<Rightarrow> t \<le> j_updated_at j)"

definition check_job_state :: "outbox_job \<Rightarrow> exn + unit" where
  "check_job_state j = (case j_state j of
      PENDING \<Rightarrow>
        bindE (raise_if (j_available_at j = None \<or> any_lease j) (ValueError ''pending jobs require available_at and no lease'')) (\<lambda>_.
        bindE (raise_if (j_max_attempts j \<le> j_attempts j) (ValueError ''a max-attempt job cannot remain pending'')) (\<lambda>_.
        raise_if (j_completion_reference j \<noteq> None \<or> j_dead_letter_reason j \<noteq> None)
          (ValueError ''pending jobs cannot have terminal metadata'')))
    | LEASED \<Rightarrow>
        bindE (raise_if (j_available_at j \<noteq> None \<or> missing_lease j)
          (ValueError ''leased jobs require all lease fields and no available_at'')) (\<lambda>_.
        bindE (raise_if (j_attempts j < 1) (ValueError ''leased jobs require at least one attempt'')) (\<lambda>_.
        bindE (raise_if (lease_not_after j) (ValueError ''lease_expires_at must be after updated_at'')) (\<lambda>_.
        raise_if (j_completion_reference j \<noteq> None \<or> j_dead_letter_reason j \<noteq> None)
          (ValueError ''leased jobs cannot have terminal metadata''))))
    | COMPLETED \<Rightarrow>
        bindE (raise_if (j_available_at j \<noteq> None \<or> any_lease j)
          (ValueError ''completed jobs cannot remain schedulable or leased'')) (\<lambda>_.
        raise_if (j_completion_reference j = None \<or> j_dead_letter_reason j \<noteq> None)
          (ValueError ''completed jobs require only a completion reference''))
    | DEAD_LETTER \<Rightarrow>
        bindE (raise_if (j_available_at j \<noteq> None \<or> any_lease j)
          (ValueError ''dead-letter jobs cannot remain schedulable or leased'')) (\<lambda>_.
        raise_if (j_dead_letter_reason j = None \<or> j_completion_reference j \<noteq> None)
          (ValueError ''dead-letter jobs require only a dead-letter reason'')))"

definition mk_outbox_job ::
  "outbox_job \<Rightarrow> datetime \<Rightarrow> datetime \<Rightarrow> datetime option \<Rightarrow> datetime option \<Rightarrow> exn + outbox_job" where
  "mk_outbox_job j created updated available lease_expires =
     bindE (require_text (j_job_id j) ''job_id'' 128) (\<lambda>_.
     bindE (require_text (j_action_key j) ''action_key'' 128) (\<lambda>_.
     bindE (raise_if (\<not> is_digest (j_payload_digest j)) (ValueError ''payload_digest must be a lowercase SHA-256 digest'')) (\<lambda>_.
     bindE (check_job_counters j) (\<lambda>_.
     bindE (require_utc_exact created ''created_at'') (\<lambda>created_at.
     bindE (require_utc_exact updated ''updated_at'') (\<lambda>updated_at.
     bindE (raise_if (updated_at < created_at) (ValueError ''updated_at cannot be before created_at'')) (\<lambda>_.
     bindE (option_checkE (\<lambda>d. require_utc_exact d ''available_at'') available) (\<lambda>available_at.
     bindE (option_checkE (\<lambda>d. require_utc_exact d ''lease_expires_at'') lease_expires) (\<lambda>lease_expires_at.
     let k = j\<lparr>j_created_at := created_at, j_updated_at := updated_at, j_available_at := available_at,
               j_lease_expires_at := lease_expires_at\<rparr>
     in bindE (check_job_texts k) (\<lambda>_.
        bindE (check_job_state k) (\<lambda>_.
        Inr k)))))))))))"

text \<open>\<^verbatim>\<open>replace(self, ...)\<close> on a job whose times are already UTC.\<close>

definition replace_job :: "outbox_job \<Rightarrow> exn + outbox_job" where
  "replace_job j = mk_outbox_job j (utc (j_created_at j)) (utc (j_updated_at j))
     (map_option utc (j_available_at j)) (map_option utc (j_lease_expires_at j))"

definition create_job ::
  "pystr \<Rightarrow> pystr \<Rightarrow> pystr \<Rightarrow> datetime \<Rightarrow> int \<Rightarrow> datetime option \<Rightarrow> exn + outbox_job" where
  "create_job job_id key digest now max_attempts available =
     bindE (require_utc_exact now ''now'') (\<lambda>now_at.
     mk_outbox_job \<lparr>j_job_id = job_id, j_action_key = key, j_payload_digest = digest, j_state = PENDING,
         j_version = 0, j_attempts = 0, j_max_attempts = max_attempts, j_created_at = now_at, j_updated_at = now_at,
         j_available_at = None, j_retry_mode = RNORMAL, j_lease_owner = None, j_lease_token = None,
         j_lease_expires_at = None, j_last_error = None, j_completion_reference = None,
         j_dead_letter_reason = None, j_schema_version = 1\<rparr>
       (utc now_at) (utc now_at) (Some (case available of None \<Rightarrow> utc now_at | Some d \<Rightarrow> d)) None)"

section \<open>Guards\<close>

definition expect_version :: "outbox_job \<Rightarrow> int \<Rightarrow> exn + unit" where
  "expect_version j expected = raise_if (expected \<noteq> j_version j) (OutboxVersionConflict expected (j_version j))"

definition transition_time :: "outbox_job \<Rightarrow> datetime \<Rightarrow> exn + instant" where
  "transition_time j value =
     bindE (require_utc_exact value ''now'') (\<lambda>t.
     bindE (raise_if (t < j_updated_at j) (ValueError ''transition time cannot move backwards'')) (\<lambda>_. Inr t))"

definition assert_active_lease :: "outbox_job \<Rightarrow> pystr \<Rightarrow> pystr \<Rightarrow> datetime \<Rightarrow> exn + unit" where
  "assert_active_lease j worker_id lease_token now =
     bindE (require_text worker_id ''worker_id'' 128) (\<lambda>_.
     bindE (require_text lease_token ''lease_token'' 128) (\<lambda>_.
     bindE (require_utc_exact now ''now'') (\<lambda>t.
     bindE (raise_if (j_state j \<noteq> LEASED) (OutboxLeaseError ''job is not leased'')) (\<lambda>_.
     bindE (raise_if (j_lease_owner j \<noteq> Some worker_id \<or> j_lease_token j \<noteq> Some lease_token)
       (OutboxLeaseError ''worker or fencing token does not own this lease'')) (\<lambda>_.
     raise_if (case j_lease_expires_at j of None \<Rightarrow> False | Some e \<Rightarrow> e \<le> t) (OutboxLeaseError ''lease has expired''))))))"

text \<open>\<^verbatim>\<open>job.lease_token or "missing-lease-token"\<close>: the token the executors present.\<close>

definition held_token :: "outbox_job \<Rightarrow> pystr" where
  "held_token job = (case j_lease_token job of
      None \<Rightarrow> ''missing-lease-token'' | Some tok \<Rightarrow> if tok = [] then ''missing-lease-token'' else tok)"

section \<open>Transitions\<close>

text \<open>\<^verbatim>\<open>value.isoformat()\<close> on a UTC value.\<close>

definition isoformat_utc :: "instant \<Rightarrow> pystr" where
  "isoformat_utc t =
     (let c = civil_of t
      in zfill 4 (dec (c_year c)) @ ''-'' @ zfill 2 (dec (c_month c)) @ ''-'' @ zfill 2 (dec (c_day c)) @ ''T''
         @ zfill 2 (dec (c_hour c)) @ '':'' @ zfill 2 (dec (c_minute c)) @ '':'' @ zfill 2 (dec (c_second c))
         @ (if c_micro c = 0 then [] else ''.'' @ zfill 6 (dec (c_micro c))) @ ''+00:00'')"

definition lease_token_of :: "outbox_job \<Rightarrow> int \<Rightarrow> int \<Rightarrow> pystr \<Rightarrow> instant \<Rightarrow> pystr" where
  "lease_token_of j next_version next_attempt worker_id expires_at =
     ''lease_'' @ sha256_hex (utf8 (j_job_id j @ ''|'' @ j_action_key j @ ''|'' @ int_str next_version @ ''|''
        @ int_str next_attempt @ ''|'' @ worker_id @ ''|'' @ isoformat_utc expires_at))"

definition claim :: "outbox_job \<Rightarrow> pystr \<Rightarrow> datetime \<Rightarrow> timedelta \<Rightarrow> int \<Rightarrow> exn + outbox_job" where
  "claim j worker_id now lease_duration expected =
     bindE (expect_version j expected) (\<lambda>_.
     bindE (require_text worker_id ''worker_id'' 128) (\<lambda>_.
     bindE (transition_time j now) (\<lambda>t.
     bindE (raise_if (lease_duration \<le> 0) (ValueError ''lease_duration must be a positive timedelta'')) (\<lambda>_.
     bindE (raise_if (j_state j \<in> {COMPLETED, DEAD_LETTER})
       (OutboxTransitionError (''cannot claim a '' @ outbox_state_value (j_state j) @ '' job''))) (\<lambda>_.
     let reclaimed = (j_state j = LEASED) in
     bindE (if j_state j = PENDING
            then raise_if (case j_available_at j of None \<Rightarrow> False | Some a \<Rightarrow> t < a) (OutboxNotReady ''job has not reached available_at'')
            else raise_if (case j_lease_expires_at j of None \<Rightarrow> False | Some e \<Rightarrow> t < e) (OutboxLeaseError ''the current lease has not expired'')) (\<lambda>_.
     let next_attempt = j_attempts j + 1; next_version = j_version j + 1 in
     if j_max_attempts j < next_attempt
     then replace_job (j\<lparr>j_state := DEAD_LETTER, j_version := next_version, j_updated_at := t, j_available_at := None,
            j_retry_mode := RECONCILE_ONLY, j_lease_owner := None, j_lease_token := None, j_lease_expires_at := None,
            j_dead_letter_reason := Some ''max_attempts_exhausted_after_stale_lease''\<rparr>)
     else bindE (add_time t lease_duration) (\<lambda>expires_at.
          replace_job (j\<lparr>j_state := LEASED, j_version := next_version, j_attempts := next_attempt, j_updated_at := t,
            j_available_at := None, j_retry_mode := (if reclaimed then RECONCILE_ONLY else j_retry_mode j),
            j_lease_owner := Some worker_id,
            j_lease_token := Some (lease_token_of j next_version next_attempt worker_id expires_at),
            j_lease_expires_at := Some expires_at, j_dead_letter_reason := None\<rparr>))))))))"

definition complete :: "outbox_job \<Rightarrow> pystr \<Rightarrow> pystr \<Rightarrow> datetime \<Rightarrow> int \<Rightarrow> pystr \<Rightarrow> exn + outbox_job" where
  "complete j worker_id lease_token now expected result_reference =
     bindE (require_text result_reference ''result_reference'' 512) (\<lambda>_.
     if j_state j = COMPLETED
     then (if j_completion_reference j = Some result_reference then Inr j
           else Inl (OutboxTransitionError ''completed result conflicts with prior completion''))
     else bindE (expect_version j expected) (\<lambda>_.
          bindE (transition_time j now) (\<lambda>t.
          bindE (assert_active_lease j worker_id lease_token (utc t)) (\<lambda>_.
          replace_job (j\<lparr>j_state := COMPLETED, j_version := j_version j + 1, j_updated_at := t, j_available_at := None,
            j_lease_owner := None, j_lease_token := None, j_lease_expires_at := None, j_last_error := None,
            j_completion_reference := Some result_reference\<rparr>)))))"

definition requeue ::
  "outbox_job \<Rightarrow> pystr \<Rightarrow> pystr \<Rightarrow> datetime \<Rightarrow> int \<Rightarrow> pystr \<Rightarrow> backoff_policy \<Rightarrow> retry_mode \<Rightarrow> exn + outbox_job" where
  "requeue j worker_id lease_token now expected reason backoff mode =
     bindE (require_text reason ''reason'' 512) (\<lambda>_.
     bindE (expect_version j expected) (\<lambda>_.
     bindE (transition_time j now) (\<lambda>t.
     bindE (assert_active_lease j worker_id lease_token (utc t)) (\<lambda>_.
     if j_max_attempts j \<le> j_attempts j
     then replace_job (j\<lparr>j_state := DEAD_LETTER, j_version := j_version j + 1, j_updated_at := t, j_available_at := None,
            j_retry_mode := mode, j_lease_owner := None, j_lease_token := None, j_lease_expires_at := None,
            j_last_error := Some reason, j_dead_letter_reason := Some (''max_attempts_exhausted:'' @ reason)\<rparr>)
     else bindE (delay_after backoff (j_attempts j)) (\<lambda>delay.
          bindE (add_time t delay) (\<lambda>available_at.
          replace_job (j\<lparr>j_state := PENDING, j_version := j_version j + 1, j_updated_at := t,
            j_available_at := Some available_at, j_retry_mode := mode, j_lease_owner := None, j_lease_token := None,
            j_lease_expires_at := None, j_last_error := Some reason\<rparr>)))))))"

definition dead_letter :: "outbox_job \<Rightarrow> pystr \<Rightarrow> pystr \<Rightarrow> datetime \<Rightarrow> int \<Rightarrow> pystr \<Rightarrow> exn + outbox_job" where
  "dead_letter j worker_id lease_token now expected reason =
     bindE (require_text reason ''reason'' 512) (\<lambda>_.
     if j_state j = DEAD_LETTER
     then (if j_dead_letter_reason j = Some reason then Inr j
           else Inl (OutboxTransitionError ''dead-letter reason conflicts with terminal state''))
     else bindE (expect_version j expected) (\<lambda>_.
          bindE (transition_time j now) (\<lambda>t.
          bindE (assert_active_lease j worker_id lease_token (utc t)) (\<lambda>_.
          replace_job (j\<lparr>j_state := DEAD_LETTER, j_version := j_version j + 1, j_updated_at := t, j_available_at := None,
            j_lease_owner := None, j_lease_token := None, j_lease_expires_at := None, j_last_error := Some reason,
            j_dead_letter_reason := Some reason\<rparr>)))))"

end
