(* ===== verification/Outbox_Spec.thy ===== *)
theory Outbox_Spec
  imports Outbox Versioned
begin

text \<open>
  What the delivery job guarantees. \<open>job_ok\<close> is the validity its constructor enforces, kept by every
  transition; the other lemmas say what a claim and a settlement (completion, requeue, dead letter)
  require and do, that terminal jobs never change, and how the retry schedule relates to its formula.
\<close>

section \<open>Validity\<close>

definition state_ok :: "outbox_job \<Rightarrow> bool" where
  "state_ok j = (case j_state j of
      PENDING \<Rightarrow> j_available_at j \<noteq> None \<and> \<not> any_lease j \<and> j_attempts j < j_max_attempts j
        \<and> j_completion_reference j = None \<and> j_dead_letter_reason j = None
    | LEASED \<Rightarrow> j_available_at j = None \<and> \<not> missing_lease j \<and> 1 \<le> j_attempts j \<and> \<not> lease_not_after j
        \<and> j_completion_reference j = None \<and> j_dead_letter_reason j = None
    | COMPLETED \<Rightarrow> j_available_at j = None \<and> \<not> any_lease j \<and> j_completion_reference j \<noteq> None \<and> j_dead_letter_reason j = None
    | DEAD_LETTER \<Rightarrow> j_available_at j = None \<and> \<not> any_lease j \<and> j_dead_letter_reason j \<noteq> None \<and> j_completion_reference j = None)"

definition texts_ok :: "outbox_job \<Rightarrow> bool" where
  "texts_ok j =
     (pred_option (\<lambda>v. clean_text v 512) (j_lease_owner j) \<and> pred_option (\<lambda>v. clean_text v 512) (j_lease_token j)
      \<and> pred_option (\<lambda>v. clean_text v 512) (j_last_error j) \<and> pred_option (\<lambda>v. clean_text v 512) (j_completion_reference j)
      \<and> pred_option (\<lambda>v. clean_text v 512) (j_dead_letter_reason j))"

definition job_ok :: "outbox_job \<Rightarrow> bool" where
  "job_ok j =
     (clean_text (j_job_id j) 128 \<and> clean_text (j_action_key j) 128 \<and> is_digest (j_payload_digest j)
      \<and> 0 \<le> j_version j \<and> 0 \<le> j_attempts j \<and> 1 \<le> j_max_attempts j \<and> j_schema_version j = 1
      \<and> j_attempts j \<le> j_max_attempts j
      \<and> in_range (j_created_at j) \<and> in_range (j_updated_at j) \<and> j_created_at j \<le> j_updated_at j
      \<and> pred_option in_range (j_available_at j) \<and> pred_option in_range (j_lease_expires_at j)
      \<and> texts_ok j \<and> state_ok j)"

lemma require_text_Inr [simp]: "require_text s f n = Inr t \<longleftrightarrow> clean_text s n \<and> t = s"
  by (auto simp: require_text_def)

lemma require_utc_exact_utc [simp]: "require_utc_exact (utc t) f = Inr u \<longleftrightarrow> in_range t \<and> u = t"
  by (auto simp: require_utc_exact_def utc_def astimezone_utc_def)

lemma require_utc_exact_range [guards]: "require_utc_exact d f = Inr t \<Longrightarrow> in_range t"
  by (auto simp: require_utc_exact_def astimezone_utc_def split: option.splits if_splits)

lemma option_check_exact:
  "option_checkE (\<lambda>d. require_utc_exact d f) (map_option utc t) = Inr u \<longleftrightarrow> pred_option in_range t \<and> u = t"
  by (cases t) auto

lemma check_job_counters_Inr:
  "check_job_counters j = Inr u \<longleftrightarrow> 0 \<le> j_version j \<and> 0 \<le> j_attempts j \<and> 1 \<le> j_max_attempts j
     \<and> j_schema_version j = 1 \<and> j_attempts j \<le> j_max_attempts j"
  by (auto simp: check_job_counters_def require_at_least_def)

lemma option_check_text: "option_checkE (\<lambda>v. require_text v f n) x = Inr u \<longleftrightarrow> pred_option (\<lambda>v. clean_text v n) x \<and> u = x"
  by (cases x) auto

lemma check_job_texts_Inr: "check_job_texts j = Inr u \<longleftrightarrow> texts_ok j"
  by (simp add: check_job_texts_def option_check_text texts_ok_def)

lemma check_job_state_Inr: "check_job_state j = Inr u \<longleftrightarrow> state_ok j"
  by (cases "j_state j") (auto simp: check_job_state_def state_ok_def not_le)

lemma replace_job_Inr: "replace_job j = Inr k \<longleftrightarrow> job_ok j \<and> k = j"
proof -
  have "j\<lparr>j_created_at := j_created_at j, j_updated_at := j_updated_at j, j_available_at := j_available_at j,
      j_lease_expires_at := j_lease_expires_at j\<rparr> = j" by (cases j) simp
  then show ?thesis
    by (auto simp: replace_job_def mk_outbox_job_def check_job_counters_Inr check_job_texts_Inr check_job_state_Inr
        option_check_exact Let_def job_ok_def)
qed

section \<open>Guards\<close>

lemma expect_version_Inr [guards]: "expect_version j v = Inr u \<longleftrightarrow> v = j_version j"
  by (auto simp: expect_version_def)

lemma transition_time_Inr [guards]:
  "transition_time j now = Inr t \<longleftrightarrow> require_utc_exact now ''now'' = Inr t \<and> j_updated_at j \<le> t"
  by (auto simp: transition_time_def)

definition holds_lease :: "outbox_job \<Rightarrow> pystr \<Rightarrow> pystr \<Rightarrow> instant \<Rightarrow> bool" where
  "holds_lease j w tok t =
     (j_state j = LEASED \<and> j_lease_owner j = Some w \<and> j_lease_token j = Some tok
      \<and> (\<forall>e. j_lease_expires_at j = Some e \<longrightarrow> t < e))"

lemma assert_active_lease_Inr:
  "assert_active_lease j w tok (utc t) = Inr u \<longleftrightarrow> clean_text w 128 \<and> clean_text tok 128 \<and> in_range t \<and> holds_lease j w tok t"
  by (auto simp: assert_active_lease_def holds_lease_def not_le split: option.splits)

section \<open>Commands\<close>

datatype job_command =
    Claim pystr timedelta
  | Complete pystr pystr pystr
  | Requeue pystr pystr pystr backoff_policy retry_mode
  | DeadLetter pystr pystr pystr

fun job_exec :: "job_command \<times> datetime \<Rightarrow> int \<Rightarrow> outbox_job \<Rightarrow> exn + outbox_job" where
  "job_exec (Claim w d, now) v j = claim j w now d v"
| "job_exec (Complete w tok res, now) v j = complete j w tok now v res"
| "job_exec (Requeue w tok reason b mode, now) v j = requeue j w tok now v reason b mode"
| "job_exec (DeadLetter w tok reason, now) v j = dead_letter j w tok now v reason"

text \<open>What a successful claim did.\<close>

lemma claim_Inr:
  assumes "claim j w now d v = Inr k"
  shows "\<exists>t. require_utc_exact now ''now'' = Inr t \<and> j_updated_at j \<le> t \<and> v = j_version j \<and> 0 < d \<and> clean_text w 128
    \<and> job_ok k \<and> j_state j \<in> {PENDING, LEASED}
    \<and> (j_state j = PENDING \<longrightarrow> (\<forall>a. j_available_at j = Some a \<longrightarrow> a \<le> t))
    \<and> (j_state j = LEASED \<longrightarrow> (\<forall>e. j_lease_expires_at j = Some e \<longrightarrow> e \<le> t))
    \<and> (if j_max_attempts j < j_attempts j + 1
       then k = j\<lparr>j_state := DEAD_LETTER, j_version := j_version j + 1, j_updated_at := t, j_available_at := None,
            j_retry_mode := RECONCILE_ONLY, j_lease_owner := None, j_lease_token := None, j_lease_expires_at := None,
            j_dead_letter_reason := Some ''max_attempts_exhausted_after_stale_lease''\<rparr>
       else k = j\<lparr>j_state := LEASED, j_version := j_version j + 1, j_attempts := j_attempts j + 1, j_updated_at := t,
            j_available_at := None, j_retry_mode := (if j_state j = LEASED then RECONCILE_ONLY else j_retry_mode j),
            j_lease_owner := Some w,
            j_lease_token := Some (lease_token_of j (j_version j + 1) (j_attempts j + 1) w (t + d)),
            j_lease_expires_at := Some (t + d), j_dead_letter_reason := None\<rparr>)"
proof -
  from assms obtain t where "require_utc_exact now ''now'' = Inr t" "j_updated_at j \<le> t" "v = j_version j" "0 < d"
    "clean_text w 128" "j_state j \<in> {PENDING, LEASED}"
    by (cases "j_state j") (auto simp: claim_def guards Let_def)
  with assms show ?thesis
    by (intro exI [of _ t])
      (simp add: claim_def expect_version_Inr transition_time_Inr Let_def replace_job_Inr not_less split: if_splits option.splits;
       elim conjE disjE; simp)
qed

text \<open>What a successful settlement of a leased job has in common: the caller holds the lease, and the job
  loses it.\<close>

definition settled :: "outbox_job \<Rightarrow> pystr \<Rightarrow> pystr \<Rightarrow> datetime \<Rightarrow> int \<Rightarrow> outbox_job \<Rightarrow> bool" where
  "settled j w tok now v k =
     (\<exists>t. require_utc_exact now ''now'' = Inr t \<and> j_updated_at j \<le> t \<and> v = j_version j \<and> holds_lease j w tok t
        \<and> job_ok k \<and> j_version k = j_version j + 1 \<and> j_attempts k = j_attempts j \<and> j_max_attempts k = j_max_attempts j
        \<and> j_updated_at k = t \<and> j_state k \<noteq> LEASED \<and> \<not> any_lease k)"

lemma complete_Inr:
  assumes "complete j w tok now v res = Inr k"
  shows "k = j \<and> j_state j = COMPLETED \<and> j_completion_reference j = Some res
    \<or> settled j w tok now v k \<and> j_state k = COMPLETED \<and> j_completion_reference k = Some res \<and> j_state j \<noteq> COMPLETED"
  using assms
  by (auto simp: complete_def expect_version_Inr transition_time_Inr assert_active_lease_Inr replace_job_Inr settled_def
      any_lease_def split: if_splits)

lemma dead_letter_Inr:
  assumes "dead_letter j w tok now v reason = Inr k"
  shows "k = j \<and> j_state j = DEAD_LETTER \<and> j_dead_letter_reason j = Some reason
    \<or> settled j w tok now v k \<and> j_state k = DEAD_LETTER \<and> j_dead_letter_reason k = Some reason \<and> j_state j \<noteq> DEAD_LETTER"
  using assms
  by (auto simp: dead_letter_def expect_version_Inr transition_time_Inr assert_active_lease_Inr replace_job_Inr settled_def
      any_lease_def split: if_splits)

lemma requeue_Inr:
  assumes "requeue j w tok now v reason b mode = Inr k"
  shows "settled j w tok now v k \<and> j_retry_mode k = mode \<and> j_last_error k = Some reason
    \<and> (if j_max_attempts j \<le> j_attempts j then j_state k = DEAD_LETTER
       else j_state k = PENDING \<and> (\<exists>t delay. require_utc_exact now ''now'' = Inr t \<and> delay_after b (j_attempts j) = Inr delay
              \<and> j_available_at k = Some (t + delay)))"
proof -
  from assms obtain t where t: "require_utc_exact now ''now'' = Inr t" "j_updated_at j \<le> t" "v = j_version j" "holds_lease j w tok t"
    by (auto simp: requeue_def expect_version_Inr transition_time_Inr assert_active_lease_Inr)
  show ?thesis
  proof (cases "j_max_attempts j \<le> j_attempts j")
    case True
    with assms have "job_ok k" "k = j\<lparr>j_state := DEAD_LETTER, j_version := j_version j + 1, j_updated_at := t, j_available_at := None,
            j_retry_mode := mode, j_lease_owner := None, j_lease_token := None, j_lease_expires_at := None,
            j_last_error := Some reason, j_dead_letter_reason := Some (''max_attempts_exhausted:'' @ reason)\<rparr>"
      using t(1) by (auto simp: requeue_def transition_time_Inr replace_job_Inr)
    with t True show ?thesis by (auto simp: settled_def any_lease_def)
  next
    case False
    with assms obtain delay where "job_ok k" "delay_after b (j_attempts j) = Inr delay"
      "k = j\<lparr>j_state := PENDING, j_version := j_version j + 1, j_updated_at := t,
            j_available_at := Some (t + delay), j_retry_mode := mode, j_lease_owner := None, j_lease_token := None,
            j_lease_expires_at := None, j_last_error := Some reason\<rparr>"
      using t(1) by (auto simp: requeue_def transition_time_Inr replace_job_Inr)
    with t False show ?thesis by (auto simp: settled_def any_lease_def)
  qed
qed

lemma settled_leased: "settled j w tok now v k \<Longrightarrow> j_state j = LEASED"
  by (auto simp: settled_def holds_lease_def)

lemma job_exec_terminal:
  "job_exec c v j = Inr k \<Longrightarrow> j_state j \<in> {COMPLETED, DEAD_LETTER} \<Longrightarrow> k = j"
  by (cases "(c, v, j)" rule: job_exec.cases)
    (auto dest!: claim_Inr complete_Inr requeue_Inr dead_letter_Inr settled_leased)

interpretation job_versions: versioned j_version job_exec
proof
  fix c :: "job_command \<times> datetime" and v s s'
  assume "job_exec c v s = Inr s'"
  then show "s' = s \<or> v = j_version s \<and> j_version s' = j_version s + 1"
    by (cases "(c, v, s)" rule: job_exec.cases)
      (auto dest!: claim_Inr complete_Inr requeue_Inr dead_letter_Inr simp: settled_def split: if_splits)
qed

lemma job_exec_ok: "job_exec c v j = Inr k \<Longrightarrow> job_ok j \<Longrightarrow> job_ok k"
  by (cases "(c, v, j)" rule: job_exec.cases)
    (auto dest!: claim_Inr complete_Inr requeue_Inr dead_letter_Inr simp: settled_def)

lemma job_exec_frame:
  "job_exec c v j = Inr k \<Longrightarrow> j_max_attempts k = j_max_attempts j \<and> j_attempts j \<le> j_attempts k"
  by (cases "(c, v, j)" rule: job_exec.cases)
    (auto dest!: claim_Inr complete_Inr requeue_Inr dead_letter_Inr simp: settled_def split: if_splits)

section \<open>Lease tokens\<close>

lemma nat_str_no_bar: "c \<in> set (nat_str n) \<Longrightarrow> c \<noteq> CHR ''|''"
  using nat_str_digits [of n] by (force simp: is_digit_def)

lemma split_at_bar:
  "CHR ''|'' \<notin> set xs \<Longrightarrow> CHR ''|'' \<notin> set ys \<Longrightarrow> xs @ CHR ''|'' # us = ys @ CHR ''|'' # vs \<Longrightarrow> xs = ys \<and> us = vs"
proof (induction xs arbitrary: ys)
  case Nil
  then show ?case by (cases ys) auto
next
  case (Cons x xs)
  then show ?case by (cases ys) auto
qed

definition token_material :: "outbox_job \<Rightarrow> int \<Rightarrow> int \<Rightarrow> pystr \<Rightarrow> instant \<Rightarrow> bytes" where
  "token_material j next_version next_attempt worker_id expires_at =
     utf8 (j_job_id j @ ''|'' @ j_action_key j @ ''|'' @ int_str next_version @ ''|''
        @ int_str next_attempt @ ''|'' @ worker_id @ ''|'' @ isoformat_utc expires_at)"

lemma lease_token_material: "lease_token_of j nv na w e = ''lease_'' @ sha256_hex (token_material j nv na w e)"
  by (simp add: lease_token_of_def token_material_def)

text \<open>Tokens of different versions of a job hash different texts.\<close>

lemma token_material_version:
  assumes "j_job_id j = j_job_id k" "j_action_key j = j_action_key k" "0 \<le> v" "0 \<le> v'"
    "token_material j v na w e = token_material k v' na' w' e'"
  shows "v = v'"
proof -
  have "int_str v @ CHR ''|'' # int_str na @ ''|'' @ w @ ''|'' @ isoformat_utc e
      = int_str v' @ CHR ''|'' # int_str na' @ ''|'' @ w' @ ''|'' @ isoformat_utc e'"
    using assms(5) unfolding token_material_def utf8_inj assms(1,2) by simp
  moreover have "CHR ''|'' \<notin> set (int_str u)" if "0 \<le> u" for u
    using that nat_str_no_bar by (auto simp: int_str_def)
  ultimately have "int_str v = int_str v'" using split_at_bar assms(3,4) by blast
  then show ?thesis using assms(3,4) nat_str_inj [of "nat v" "nat v'"] by (simp add: int_str_def)
qed

section \<open>The retry schedule\<close>

definition ideal_delay :: "backoff_policy \<Rightarrow> nat \<Rightarrow> timedelta" where
  "ideal_delay b n = min (maximum_delay b) (base_delay b * 2 ^ n)"

lemma halve_bounds: "2 * halve d \<le> d + 1" "d \<le> 2 * halve d + 1" "even d \<Longrightarrow> 2 * halve d = d"
  unfolding halve_def by presburger+

lemma delay_loop_bounds:
  assumes "0 < delay" "delay \<le> maximum"
  shows "min maximum (delay * 2 ^ n) \<le> delay_loop maximum n delay"
    and "delay_loop maximum n delay \<le> min maximum (delay * 2 ^ n) + 1"
    and "delay_loop maximum n delay \<le> maximum"
    and "even maximum \<Longrightarrow> delay_loop maximum n delay = min maximum (delay * 2 ^ n)"
  using assms
proof (induction n arbitrary: delay)
  case (Suc n)
  {
    case 1
    then show ?case using Suc.IH(1) [of "delay * 2"] halve_bounds(1) [of maximum] by (auto simp: mult.assoc)
  next
    case 2
    define x where "x = delay * (2 * 2 ^ n)"
    have "2 * delay \<le> x" unfolding x_def using 2(1) by simp
    then show ?case using 2 Suc.IH(2) [of "delay * 2"] halve_bounds(1,2) [of maximum] by (auto simp: mult.assoc min_def simp flip: x_def)
  next
    case 3
    then show ?case using Suc.IH(3) [of "delay * 2"] halve_bounds(1) [of maximum] by auto
  next
    case 4
    define x where "x = delay * (2 * 2 ^ n)"
    have "2 * delay \<le> x" unfolding x_def using 4(2) by simp
    then show ?case using 4 Suc.IH(4) [of "delay * 2"] halve_bounds(3) [of maximum] by (auto simp: mult.assoc min_def simp flip: x_def)
  }
qed (auto simp: min_def)

end
