(* ===== verification/Outbox_Properties.thy ===== *)
theory Outbox_Properties
  imports Outbox_Spec
begin

text \<open>
  The properties of the delivery job: its invariant, delivery budget and reconciliation after a lost
  lease, fencing by lease and version, absorbing terminal states, and the retry schedule.
\<close>

section \<open>Success of a claim\<close>

definition printable :: "char \<Rightarrow> bool" where
  "printable c = (33 \<le> code c \<and> code c \<le> 126)"

lemma dropWhile_printable: "list_all printable s \<Longrightarrow> dropWhile is_space s = s"
  by (cases s) (auto simp: printable_def is_space_def)

lemma clean_printable:
  assumes "list_all printable s" "s \<noteq> []" "length s \<le> n"
  shows "clean_text s n"
proof -
  from assms(1) have "list_all printable (rev s)" by (simp add: list_all_iff)
  then have "strip s = s" using assms(1) by (simp add: strip_def lstrip_def rstrip_def dropWhile_printable)
  moreover have "\<not> list_ex is_control s" using assms(1)
    by (auto simp: list_all_iff list_ex_iff printable_def is_control_def)
  ultimately show ?thesis using assms by (simp add: clean_text_def)
qed

lemma digest_printable: "is_digest d \<Longrightarrow> list_all printable d"
  by (auto simp: is_digest_def list_all_iff printable_def is_lower_hex_def is_digit_def)

lemma clean_lease_token: "clean_text (lease_token_of j nv na w e) 128"
proof (rule clean_printable)
  have "list_all printable ''lease_''" by code_simp
  with digest_printable [OF is_digest_sha256_hex] show "list_all printable (lease_token_of j nv na w e)"
    by (simp add: lease_token_material)
qed (simp_all add: lease_token_material)

lemma clean_text_mono: "clean_text s m \<Longrightarrow> m \<le> n \<Longrightarrow> clean_text s n"
  by (auto simp: clean_text_def)

definition leased :: "outbox_job \<Rightarrow> pystr \<Rightarrow> instant \<Rightarrow> timedelta \<Rightarrow> outbox_job" where
  "leased j w t d = j\<lparr>j_state := LEASED, j_version := j_version j + 1, j_attempts := j_attempts j + 1, j_updated_at := t,
     j_available_at := None, j_retry_mode := (if j_state j = LEASED then RECONCILE_ONLY else j_retry_mode j),
     j_lease_owner := Some w, j_lease_token := Some (lease_token_of j (j_version j + 1) (j_attempts j + 1) w (t + d)),
     j_lease_expires_at := Some (t + d), j_dead_letter_reason := None\<rparr>"

lemma claim_ok:
  assumes "job_ok j" "in_range t" "in_range (t + d)" "0 < d" "j_updated_at j \<le> t" "clean_text w 128"
    "j_attempts j < j_max_attempts j"
    "j_state j = PENDING \<and> (\<forall>a. j_available_at j = Some a \<longrightarrow> a \<le> t) \<or> j_state j = LEASED \<and> (\<forall>e. j_lease_expires_at j = Some e \<longrightarrow> e \<le> t)"
  shows "claim j w (utc t) d (j_version j) = Inr (leased j w t d)"
proof -
  have "clean_text w 512" using assms(6) clean_text_mono by force
  moreover have "clean_text (lease_token_of j (j_version j + 1) (j_attempts j + 1) w (t + d)) 512"
    by (rule clean_text_mono [OF clean_lease_token]) simp
  moreover have "j_completion_reference j = None" using assms(1,8) by (auto simp: job_ok_def state_ok_def)
  ultimately have "job_ok (leased j w t d)"
    using assms by (auto simp: job_ok_def state_ok_def texts_ok_def leased_def missing_lease_def)
  then show ?thesis
    using assms by (auto simp: claim_def expect_version_Inr transition_time_Inr Let_def replace_job_Inr leased_def not_less
        expect_version_def transition_time_def split: option.splits)
qed

lemma claim_cases:
  assumes "claim j w now d v = Inr k"
  obtains t where "require_utc_exact now ''now'' = Inr t" "j_state j \<in> {PENDING, LEASED}"
    "j_state j = PENDING \<longrightarrow> (\<forall>a. j_available_at j = Some a \<longrightarrow> a \<le> t)"
    "j_state j = LEASED \<longrightarrow> (\<forall>e. j_lease_expires_at j = Some e \<longrightarrow> e \<le> t)"
    "j_attempts j < j_max_attempts j" "k = leased j w t d"
  | t where "require_utc_exact now ''now'' = Inr t" "j_state j \<in> {PENDING, LEASED}" "j_max_attempts j \<le> j_attempts j"
    "j_state k = DEAD_LETTER" "j_attempts k = j_attempts j" "j_retry_mode k = RECONCILE_ONLY"
proof -
  from claim_Inr [OF assms] obtain t where t: "require_utc_exact now ''now'' = Inr t" "j_state j \<in> {PENDING, LEASED}"
    "j_state j = PENDING \<longrightarrow> (\<forall>a. j_available_at j = Some a \<longrightarrow> a \<le> t)"
    "j_state j = LEASED \<longrightarrow> (\<forall>e. j_lease_expires_at j = Some e \<longrightarrow> e \<le> t)"
    and k: "if j_max_attempts j < j_attempts j + 1
       then k = j\<lparr>j_state := DEAD_LETTER, j_version := j_version j + 1, j_updated_at := t, j_available_at := None,
            j_retry_mode := RECONCILE_ONLY, j_lease_owner := None, j_lease_token := None, j_lease_expires_at := None,
            j_dead_letter_reason := Some ''max_attempts_exhausted_after_stale_lease''\<rparr>
       else k = leased j w t d"
    unfolding leased_def by blast
  show thesis
  proof (cases "j_max_attempts j < j_attempts j + 1")
    case True
    with k t(1,2) show thesis by (intro that(2) [of t]) simp_all
  next
    case False
    with k t show thesis by (intro that(1) [of t]) simp_all
  qed
qed

section \<open>Sample job\<close>

definition sample_job :: outbox_job where
  "sample_job = \<lparr>j_job_id = ''job-1'', j_action_key = ''act_1'', j_payload_digest = replicate 64 (CHR ''a''), j_state = PENDING,
     j_version = 0, j_attempts = 0, j_max_attempts = 2, j_created_at = 0, j_updated_at = 0, j_available_at = Some 0,
     j_retry_mode = RNORMAL, j_lease_owner = None, j_lease_token = None, j_lease_expires_at = None, j_last_error = None,
     j_completion_reference = None, j_dead_letter_reason = None, j_schema_version = 1\<rparr>"

lemma sample_clean: "clean_text ''job-1'' 128" "clean_text ''act_1'' 128" "clean_text ''w1'' 128" "clean_text ''w2'' 128"
    "clean_text ''done'' 512"
  by code_simp+

lemma sample_job_create:
  "create_job ''job-1'' ''act_1'' (replicate 64 (CHR ''a'')) (utc 0) 2 None = Inr sample_job"
proof -
  have "is_digest (replicate 64 (CHR ''a''))" by (simp add: is_digest_def is_lower_hex_def)
  then show ?thesis
    using sample_clean
    by (simp add: create_job_def require_utc_exact_def utc_def astimezone_utc_def add_time_def in_range_def max_instant_def
        us_day_def us_second_def mk_outbox_job_def require_text_def check_job_counters_def require_at_least_def check_job_texts_def
        check_job_state_def any_lease_def sample_job_def Let_def)
qed

lemma sample_job_ok: "job_ok sample_job"
proof -
  have "is_digest (replicate 64 (CHR ''a''))" by (simp add: is_digest_def is_lower_hex_def)
  then show ?thesis
    using sample_clean
    by (simp add: sample_job_def job_ok_def state_ok_def texts_ok_def any_lease_def in_range_def max_instant_def us_day_def us_second_def)
qed

definition sample_lease :: outbox_job where
  "sample_lease = leased sample_job ''w1'' 0 10"

definition sample_release :: outbox_job where
  "sample_release = leased sample_lease ''w2'' 10 10"

lemma sample_claim: "claim sample_job ''w1'' (utc 0) 10 0 = Inr sample_lease"
proof -
  have "claim sample_job ''w1'' (utc 0) 10 (j_version sample_job) = Inr (leased sample_job ''w1'' 0 10)"
    by (rule claim_ok [OF sample_job_ok])
      (simp_all add: sample_clean sample_job_def in_range_def max_instant_def us_day_def us_second_def)
  then show ?thesis by (simp add: sample_lease_def sample_job_def)
qed

lemma sample_lease_ok: "job_ok sample_lease"
  using claim_Inr [OF sample_claim] by auto

lemma sample_reclaim: "claim sample_lease ''w2'' (utc 10) 10 1 = Inr sample_release"
proof -
  have "claim sample_lease ''w2'' (utc 10) 10 (j_version sample_lease) = Inr (leased sample_lease ''w2'' 10 10)"
    by (rule claim_ok [OF sample_lease_ok])
      (simp_all add: sample_clean sample_lease_def leased_def sample_job_def in_range_def max_instant_def us_day_def us_second_def)
  then show ?thesis by (simp add: sample_release_def) (simp add: sample_lease_def leased_def sample_job_def)
qed

definition sample_done :: outbox_job where
  "sample_done = sample_lease\<lparr>j_state := COMPLETED, j_version := 2, j_available_at := None, j_lease_owner := None,
     j_lease_token := None, j_lease_expires_at := None, j_last_error := None, j_completion_reference := Some ''done''\<rparr>"

lemma sample_complete:
  "complete sample_lease ''w1'' (lease_token_of sample_job 1 1 ''w1'' 10) (utc 0) 1 ''done'' = Inr sample_done"
proof -
  have fields: "j_state sample_lease = LEASED" "j_version sample_lease = 1" "j_updated_at sample_lease = 0"
    "j_lease_owner sample_lease = Some ''w1''" "j_lease_expires_at sample_lease = Some 10"
    "j_lease_token sample_lease = Some (lease_token_of sample_job 1 1 ''w1'' 10)"
    by (simp_all add: sample_lease_def leased_def sample_job_def)
  have r: "in_range 0" by (simp add: in_range_def max_instant_def us_day_def us_second_def)
  have "job_ok sample_done"
    using sample_lease_ok sample_clean fields
    by (auto simp: sample_done_def job_ok_def state_ok_def texts_ok_def any_lease_def missing_lease_def)
  moreover have "sample_done = sample_lease\<lparr>j_state := COMPLETED, j_version := j_version sample_lease + 1, j_updated_at := 0,
      j_available_at := None, j_lease_owner := None, j_lease_token := None, j_lease_expires_at := None,
      j_last_error := None, j_completion_reference := Some ''done''\<rparr>"
    using fields by (cases sample_lease) (simp add: sample_done_def)
  ultimately have "replace_job (sample_lease\<lparr>j_state := COMPLETED, j_version := j_version sample_lease + 1, j_updated_at := 0,
      j_available_at := None, j_lease_owner := None, j_lease_token := None, j_lease_expires_at := None,
      j_last_error := None, j_completion_reference := Some ''done''\<rparr>) = Inr sample_done"
    by (simp add: replace_job_Inr)
  moreover have "assert_active_lease sample_lease ''w1'' (lease_token_of sample_job 1 1 ''w1'' 10) (utc 0) = Inr ()"
    using fields r sample_clean clean_lease_token by (simp add: assert_active_lease_Inr holds_lease_def)
  moreover have "transition_time sample_lease (utc 0) = Inr 0" using r fields by (simp add: transition_time_Inr)
  ultimately show ?thesis
    using fields sample_clean by (simp add: complete_def require_text_def expect_version_def)
qed

section \<open>Reachable jobs\<close>

inductive job_reachable :: "outbox_job \<Rightarrow> bool" where
  created: "create_job i key digest now m available = Inr j \<Longrightarrow> job_reachable j"
| executed: "job_reachable j \<Longrightarrow> job_exec c v j = Inr k \<Longrightarrow> job_reachable k"

lemma create_job_ok: "create_job i key digest now m available = Inr j \<Longrightarrow> job_ok j"
  by (auto simp: create_job_def mk_outbox_job_def check_job_counters_Inr check_job_texts_Inr check_job_state_Inr Let_def
      job_ok_def split: option.splits) (erule require_utc_exact_range)

lemma job_reachable_ok: "job_reachable j \<Longrightarrow> job_ok j"
  by (induction rule: job_reachable.induct) (auto dest: create_job_ok job_exec_ok)

section \<open>Properties\<close>

text \<open>The shape of a delivery job: every job made by the constructor and its transitions has made
  at most its budgeted attempts; a pending job has attempts left and no lease, a leased job has an owner,
  a token and an expiry after its last update, and a terminal job has neither lease nor schedule.\<close>

lemma job_shape:
  assumes "job_reachable j"
  shows "0 \<le> j_attempts j \<and> j_attempts j \<le> j_max_attempts j
    \<and> (j_state j = PENDING \<longrightarrow> j_attempts j < j_max_attempts j \<and> j_available_at j \<noteq> None \<and> \<not> any_lease j)
    \<and> (j_state j = LEASED \<longrightarrow> 1 \<le> j_attempts j \<and> (\<exists>w tok e. j_lease_owner j = Some w \<and> j_lease_token j = Some tok
         \<and> j_lease_expires_at j = Some e \<and> j_updated_at j < e))
    \<and> (j_state j \<in> {COMPLETED, DEAD_LETTER} \<longrightarrow> \<not> any_lease j \<and> j_available_at j = None)"
  using job_reachable_ok [OF assms]
  by (cases "j_state j") (auto simp: job_ok_def state_ok_def missing_lease_def)

lemma job_shape_example: "\<not> any_lease sample_job \<and> j_attempts sample_job < j_max_attempts sample_job"
  using job_shape [OF job_reachable.created [OF sample_job_create]] by (simp add: sample_job_def)

text \<open>A claim spends one attempt and a lost lease forces reconciliation: a claim needs a ready
  pending job or an expired lease; it either leases the job for exactly the requested duration with one
  more attempt, within the budget, and for reconciliation only when it took over a lease, or, when the
  budget is spent, it dead-letters the abandoned job.\<close>

lemma claim_effect:
  assumes "claim j w now d v = Inr k" "job_ok j"
  shows "\<exists>t. require_utc_exact now ''now'' = Inr t
    \<and> (if j_state k = LEASED
       then j_attempts k = j_attempts j + 1 \<and> j_attempts k \<le> j_max_attempts j \<and> j_lease_owner k = Some w
          \<and> j_lease_expires_at k = Some (t + d)
          \<and> (if j_state j = LEASED then j_retry_mode k = RECONCILE_ONLY \<and> (\<forall>e. j_lease_expires_at j = Some e \<longrightarrow> e \<le> t)
             else j_state j = PENDING \<and> j_retry_mode k = j_retry_mode j \<and> (\<forall>a. j_available_at j = Some a \<longrightarrow> a \<le> t))
       else j_state k = DEAD_LETTER \<and> j_state j = LEASED \<and> j_attempts k = j_max_attempts j \<and> j_retry_mode k = RECONCILE_ONLY)"
  using assms(1)
proof (cases rule: claim_cases)
  case (1 t)
  then show ?thesis by (intro exI [of _ t]) (auto simp: leased_def)
next
  case (2 t)
  then have "j_state j = LEASED" "j_attempts j = j_max_attempts j" using assms(2) by (auto simp: job_ok_def state_ok_def)
  with 2 show ?thesis by (intro exI [of _ t]) simp
qed

lemma claim_effect_example: "j_retry_mode sample_release = RECONCILE_ONLY \<and> j_attempts sample_release = 2"
proof -
  have "j_state sample_release = LEASED" "j_state sample_lease = LEASED" "j_attempts sample_lease = 1"
    by (simp_all add: sample_release_def sample_lease_def leased_def sample_job_def)
  with claim_effect [OF sample_reclaim sample_lease_ok] show ?thesis by auto
qed

text \<open>Settlement is fenced: a completion, requeue or dead letter that changes a job comes from the
  worker that owns the lease, presents its token before it expires, and names the current version; the
  job then moves to the next version without a lease.\<close>

lemma settlement_fenced:
  assumes "job_exec (c, now) v j = Inr k" "k \<noteq> j" "\<nexists>w d. c = Claim w d"
  shows "\<exists>w tok t e. (c = Complete w tok (the (j_completion_reference k)) \<or> (\<exists>r b m. c = Requeue w tok r b m) \<or> (\<exists>r. c = DeadLetter w tok r))
    \<and> j_state j = LEASED \<and> j_lease_owner j = Some w \<and> j_lease_token j = Some tok
    \<and> require_utc_exact now ''now'' = Inr t \<and> (j_lease_expires_at j = Some e \<longrightarrow> t < e)
    \<and> v = j_version j \<and> j_version k = v + 1 \<and> \<not> any_lease k \<and> j_attempts k = j_attempts j"
  using assms
  by (cases c) (auto dest!: complete_Inr requeue_Inr dead_letter_Inr simp: settled_def holds_lease_def)

lemma settlement_fenced_example: "\<not> any_lease sample_done \<and> j_version sample_done = 2"
proof -
  have "j_state sample_done \<noteq> j_state sample_lease" by (simp add: sample_done_def sample_lease_def leased_def)
  then have "sample_done \<noteq> sample_lease" by auto
  with settlement_fenced [of "Complete ''w1'' (lease_token_of sample_job 1 1 ''w1'' 10) ''done''" "utc 0" 1 sample_lease sample_done]
    sample_complete show ?thesis by auto
qed

text \<open>Terminal jobs are final: no sequence of commands that succeeds on a completed or dead-lettered
  job changes it.\<close>

lemma terminal_job_final:
  assumes "run_all job_exec cs j = Inr k" "j_state j \<in> {COMPLETED, DEAD_LETTER}"
  shows "k = j"
  using job_versions.run_invariant [of "\<lambda>x. x = j", OF _ assms(1)] job_exec_terminal assms(2) by blast

lemma terminal_job_final_example:
  "run_all job_exec [((Complete ''w9'' ''t9'' ''done'', utc 5), 77)] sample_done = Inr sample_done"
proof -
  have "complete sample_done ''w9'' ''t9'' (utc 5) 77 ''done'' = Inr sample_done"
    by (simp add: complete_def require_text_def sample_clean sample_done_def)
  then have run: "run_all job_exec [((Complete ''w9'' ''t9'' ''done'', utc 5), 77)] sample_done = Inr sample_done" by simp
  with terminal_job_final [OF run] show ?thesis by (simp add: sample_done_def)
qed

text \<open>C24. A lost lease is fenced for good: once another claim has taken a job over, the earlier worker's
  token settles nothing on the new lease, whatever version and worker it names, except if the two different
  token texts of the two leases collide under SHA-256.\<close>

theorem reclaim_fences:
  assumes "claim j w1 now1 d1 v1 = Inr k" "j_state k = LEASED" "job_ok j"
    and "claim k w2 now2 d2 v2 = Inr m" "j_state m = LEASED"
    and "j_lease_token k = Some old" "c \<in> {Complete w old res, Requeue w old res b mode, DeadLetter w old res}"
    and "require_utc_exact now1 ''now'' = Inr t1" "require_utc_exact now2 ''now'' = Inr t2"
  shows "\<not> is_ok (job_exec (c, now) v m)
    \<or> token_material j (j_version k) (j_attempts k) w1 (t1 + d1) \<noteq> token_material k (j_version m) (j_attempts m) w2 (t2 + d2)
      \<and> sha256_hex (token_material j (j_version k) (j_attempts k) w1 (t1 + d1))
        = sha256_hex (token_material k (j_version m) (j_attempts m) w2 (t2 + d2))"
proof -
  from assms(1,2,8) have "k = leased j w1 t1 d1" by (cases rule: claim_cases) auto
  with assms(6) have
    k: "old = lease_token_of j (j_version k) (j_attempts k) w1 (t1 + d1)" "j_version k = j_version j + 1"
      "j_job_id k = j_job_id j" "j_action_key k = j_action_key j"
    by (simp_all add: leased_def)
  from assms(4,5,9) have "m = leased k w2 t2 d2" by (cases rule: claim_cases) auto
  then have
    m: "j_lease_token m = Some (lease_token_of k (j_version m) (j_attempts m) w2 (t2 + d2))" "j_version m = j_version k + 1"
    by (simp_all add: leased_def)
  have "0 \<le> j_version j" using assms(3) by (simp add: job_ok_def)
  then have "token_material j (j_version k) (j_attempts k) w1 (t1 + d1) \<noteq> token_material k (j_version m) (j_attempts m) w2 (t2 + d2)"
    using token_material_version [of j k "j_version k" "j_version m"] k(2-4) m(2) by auto
  moreover have "j_lease_token m = Some old" if "job_exec (c, now) v m = Inr n" for n
    using that assms(5,7) by (auto dest!: complete_Inr requeue_Inr dead_letter_Inr simp: settled_def holds_lease_def)
  ultimately show ?thesis using k(1) m(1) by (auto simp: is_ok_iff lease_token_material)
qed

theorem reclaim_fences_witness:
  "case job_exec (Complete ''w1'' (lease_token_of sample_job 1 1 ''w1'' 10) ''done'', utc 11) 2 sample_release of
     Inl e \<Rightarrow> True
   | Inr k \<Rightarrow> lease_token_of sample_job 1 1 ''w1'' 10 = lease_token_of sample_lease 2 2 ''w2'' 20"
proof -
  have s: "j_state sample_lease = LEASED" "j_state sample_release = LEASED" "j_version sample_lease = 1"
    "j_attempts sample_lease = 1" "j_version sample_release = 2" "j_attempts sample_release = 2"
    "j_lease_token sample_lease = Some (lease_token_of sample_job 1 1 ''w1'' 10)"
    by (simp_all add: sample_release_def sample_lease_def leased_def sample_job_def)
  have t: "require_utc_exact (utc 0) ''now'' = Inr 0" "require_utc_exact (utc 10) ''now'' = Inr 10"
    by (simp_all add: in_range_def max_instant_def us_day_def us_second_def)
  have "\<not> is_ok (job_exec (Complete ''w1'' (lease_token_of sample_job 1 1 ''w1'' 10) ''done'', utc 11) 2 sample_release)
    \<or> sha256_hex (token_material sample_job 1 1 ''w1'' 10) = sha256_hex (token_material sample_lease 2 2 ''w2'' 20)"
    using reclaim_fences [OF sample_claim s(1) sample_job_ok sample_reclaim s(2,7) insertI1 t, of "''w1''" "''done''" "utc 11" 2]
    unfolding s(3-6) by (simp only: numeral_plus_numeral add_0_left) auto
  then show ?thesis by (auto simp: lease_token_material is_ok_iff split: sum.split)
qed

text \<open>The retry schedule is the documented exponential one up to one microsecond: after \<open>n\<close> attempts
  the delay lies between the smaller of the maximum and the doubled base and one microsecond more, never
  exceeds the maximum, and is exact when the maximum is an even number of microseconds.\<close>

lemma backoff_schedule:
  assumes "mk_backoff_policy base maximum = Inr b" "1 \<le> n"
  shows "\<exists>delay. delay_after b n = Inr delay
    \<and> min maximum (base * 2 ^ nat (n - 1)) \<le> delay \<and> delay \<le> min maximum (base * 2 ^ nat (n - 1)) + 1
    \<and> delay \<le> maximum \<and> (even maximum \<longrightarrow> delay = min maximum (base * 2 ^ nat (n - 1)))"
proof -
  from assms(1) have b: "b = \<lparr>base_delay = base, maximum_delay = maximum\<rparr>" "0 < base" "base \<le> maximum"
    by (auto simp: mk_backoff_policy_def)
  with assms(2) delay_loop_bounds [OF b(2,3), of "nat (n - 1)"] show ?thesis by (simp add: delay_after_def)
qed

lemma backoff_schedule_example:
  "delay_after \<lparr>base_delay = us_second, maximum_delay = 300 * us_second\<rparr> 4 = Inr (8 * us_second)"
  using backoff_schedule [of us_second "300 * us_second" "\<lparr>base_delay = us_second, maximum_delay = 300 * us_second\<rparr>" 4]
  by (simp add: mk_backoff_policy_def us_second_def)

text \<open>On the default-free schedule the documented formula is not met exactly: with a maximum of five
  microseconds and a base of two, the second delay is the maximum, five, where the formula gives four.\<close>

lemma backoff_rounding:
  "delay_after \<lparr>base_delay = 2, maximum_delay = 5\<rparr> 2 = Inr 5 \<and> min 5 (2 * 2 ^ 1) = (4 :: int)"
  by (simp add: delay_after_def halve_def)

text \<open>A long reason blocks the final requeue: when the last attempt of a job is requeued with a reason
  that passes the argument check but is longer than 489 characters, the derived dead-letter reason is too
  long for the job and the transition raises, so the job stays leased instead of being dead-lettered.\<close>

lemma requeue_long_reason_raises:
  assumes "j_max_attempts j \<le> j_attempts j" "489 < length reason"
  shows "\<not> is_ok (requeue j w tok now v reason b mode)"
  using assms by (auto simp: requeue_def is_ok_iff replace_job_Inr job_ok_def texts_ok_def clean_text_def)

lemma requeue_long_reason_raises_example:
  "holds_lease sample_release ''w2'' (lease_token_of sample_lease 2 2 ''w2'' 20) 11
   \<and> clean_text (replicate 500 (CHR ''x'')) 512
   \<and> \<not> is_ok (requeue sample_release ''w2'' (lease_token_of sample_lease 2 2 ''w2'' 20) (utc 11) 2 (replicate 500 (CHR ''x''))
        \<lparr>base_delay = 1, maximum_delay = 4\<rparr> RECONCILE_ONLY)"
proof (intro conjI)
  show "holds_lease sample_release ''w2'' (lease_token_of sample_lease 2 2 ''w2'' 20) 11"
    by (simp add: holds_lease_def sample_release_def leased_def) (simp add: sample_lease_def leased_def sample_job_def)
  show "clean_text (replicate 500 (CHR ''x'')) 512"
    by (rule clean_printable) (simp_all add: printable_def list_all_iff)
  show "\<not> is_ok (requeue sample_release ''w2'' (lease_token_of sample_lease 2 2 ''w2'' 20) (utc 11) 2 (replicate 500 (CHR ''x''))
        \<lparr>base_delay = 1, maximum_delay = 4\<rparr> RECONCILE_ONLY)"
    by (rule requeue_long_reason_raises) (simp_all add: sample_release_def sample_lease_def leased_def sample_job_def)
qed

end
