(* ===== verification/Wire.thy ===== *)
theory Wire
  imports Canonical
begin

text \<open>
  Text and JSON as they arrive from outside: \<^verbatim>\<open>bytes.decode("utf-8")\<close>, \<^verbatim>\<open>Mapping.get\<close> on a decoded
  object, and the Unix epoch seconds the provider uses instead of timestamps.

  The decoder covers the model's alphabet: a well-formed sequence for a code point above U+00FF is
  outside it and is not decoded here.
\<close>

section \<open>UTF-8\<close>

definition is_continuation :: "8 word \<Rightarrow> bool" where
  "is_continuation b = (128 \<le> unat b \<and> unat b < 192)"

fun utf8_decode :: "bytes \<Rightarrow> pystr option" where
  "utf8_decode [] = Some []"
| "utf8_decode (b # bs) =
     (if unat b < 128 then map_option ((#) (char_of (unat b))) (utf8_decode bs)
      else if unat b = 194 \<or> unat b = 195 then
        (case bs of
           [] \<Rightarrow> None
         | k # rest \<Rightarrow>
            if is_continuation k
            then map_option ((#) (char_of (64 * (unat b - 192) + (unat k - 128)))) (utf8_decode rest)
            else None)
      else None)"

section \<open>Decoded objects\<close>

text \<open>\<^verbatim>\<open>obj.get(key)\<close>: \<^verbatim>\<open>None\<close> when the key is absent.\<close>

definition obj_get :: "(pystr \<times> json) list \<Rightarrow> pystr \<Rightarrow> json" where
  "obj_get kvs k = (case map_of kvs k of None \<Rightarrow> JNull | Some v \<Rightarrow> v)"

section \<open>Epoch seconds\<close>

text \<open>The instant of 1970-01-01T00:00:00Z.\<close>

definition unix_epoch :: instant where
  "unix_epoch = 719162 * us_day"

text \<open>\<^verbatim>\<open>datetime.fromtimestamp(epoch, tz=UTC)\<close> for a whole number of seconds.\<close>

definition fromtimestamp :: "int \<Rightarrow> exn + instant" where
  "fromtimestamp epoch =
     (let t = unix_epoch + epoch * us_second
      in if in_range t then Inr t
         else Inl (ValueError (''year '' @ int_str (c_year (civil_of t)) @ '' is out of range'')))"

text \<open>\<^verbatim>\<open>int(value.timestamp())\<close>, which truncates towards the epoch.\<close>

definition timestamp :: "instant \<Rightarrow> int" where
  "timestamp t = (if unix_epoch \<le> t then (t - unix_epoch) div us_second else - ((unix_epoch - t) div us_second))"

text \<open>\<^verbatim>\<open>value.replace(year=y, month=m, day=d)\<close>.\<close>

definition replace_date :: "civil \<Rightarrow> int \<Rightarrow> int \<Rightarrow> int \<Rightarrow> exn + civil" where
  "replace_date c y m d =
     bindE (raise_if (y < 1 \<or> 9999 < y) (ValueError (''year '' @ int_str y @ '' is out of range''))) (\<lambda>_.
     bindE (raise_if (m < 1 \<or> 12 < m) (ValueError ''month must be in 1..12'')) (\<lambda>_.
     bindE (raise_if (d < 1 \<or> days_in_month y m < d) (ValueError ''day is out of range for month'')) (\<lambda>_.
     Inr (c\<lparr>c_year := y, c_month := m, c_day := d\<rparr>))))"

section \<open>Facts\<close>

lemma obj_get_simps [simp]:
  "obj_get [] k = JNull"
  "obj_get ((k', v) # kvs) k = (if k' = k then v else obj_get kvs k)"
  by (simp_all add: obj_get_def)

lemma obj_get_in: "obj_get kvs k \<noteq> JNull \<Longrightarrow> (k, obj_get kvs k) \<in> set kvs"
  by (induction kvs) (auto split: if_splits)

lemma utf8_decode_char: "utf8_decode (utf8_char c @ bs) = map_option ((#) c) (utf8_decode bs)"
proof -
  have lt: "code c < 256" by (rule code_less_256)
  show ?thesis
  proof (cases "code c < 128")
    case True
    then show ?thesis by (simp add: utf8_char_def)
  next
    case False
    with lt have lead: "code c div 64 = 2 \<or> code c div 64 = 3" by linarith
    have low: "code c mod 64 < 64" by simp
    have "128 + code c mod 64 = code c" if "code c div 64 = 2"
      using that div_mult_mod_eq [of "code c" 64] by linarith
    moreover have "192 + code c mod 64 = code c" if "code c div 64 = 3"
      using that div_mult_mod_eq [of "code c" 64] by linarith
    moreover have "char_of (code c) = c" by simp
    ultimately show ?thesis
      using False lt lead low by (auto simp: utf8_char_def is_continuation_def)
  qed
qed

lemma utf8_decode_utf8 [simp]: "utf8_decode (utf8 s) = Some s"
  by (induction s) (simp_all add: utf8_decode_char)

lemma dropWhile_none: "\<forall>x\<in>set xs. \<not> P x \<Longrightarrow> dropWhile P xs = xs"
  by (cases xs) simp_all

lemma strip_no_space: "list_all (\<lambda>c. \<not> is_space c) s \<Longrightarrow> strip s = s"
  by (simp add: strip_def lstrip_def rstrip_def list_all_iff dropWhile_none)

lemma timestamp_whole: "t - unix_epoch = us_second * e \<Longrightarrow> timestamp t = e"
proof -
  assume t: "t - unix_epoch = us_second * e"
  then have "unix_epoch - t = us_second * (- e)" by simp
  then have "(unix_epoch - t) div us_second = - e" by (simp add: us_second_def)
  with t show ?thesis by (simp add: timestamp_def us_second_def)
qed

lemma timestamp_fromtimestamp: "fromtimestamp e = Inr t \<Longrightarrow> timestamp t = e"
  by (rule timestamp_whole) (auto simp: fromtimestamp_def Let_def split: if_splits)

text \<open>Sorting the items of an object does not change what a lookup finds.\<close>

lemma map_of_sort_key: "distinct (map fst kvs) \<Longrightarrow> map_of (sort_key fst kvs) = map_of kvs"
  by (simp add: map_of_inject_set)

lemma obj_get_canon:
  assumes "distinct (map fst kvs)" "canon (JObj kvs) = JObj out"
  shows "obj_get out k = canon (obj_get kvs k)"
proof -
  have "map_of out = map_of (map (\<lambda>(k, v). (k, canon v)) kvs)"
    using assms map_of_sort_key [of "map (\<lambda>(k, v). (k, canon v)) kvs"]
    by (simp add: comp_def case_prod_unfold)
  then show ?thesis
    by (simp add: obj_get_def map_of_map split: option.split)
qed

end
