(* ===== verification/Payment_Links.thy ===== *)
theory Payment_Links
  imports Wire
begin

text \<open>
  \<^verbatim>\<open>packages/razorpay/payment_links.py\<close>: the validated create request for a standard Payment Link, its
  wire form, and the decision taken when the outcome of a create is unknown.

  A value of type \<^verbatim>\<open>Any\<close> is a \<open>json\<close>: what a decoded provider response can hold. The fields of a
  request are typed, so the \<^verbatim>\<open>isinstance\<close> checks on them appear only where the argument is a \<open>json\<close>.
\<close>

section \<open>Argument checks\<close>

definition LINK_STATUSES :: "pystr list" where
  "LINK_STATUSES = [''created'', ''partially_paid'', ''expired'', ''cancelled'', ''paid'']"

definition MIN_EXPIRY_LEAD_SECONDS :: int where
  "MIN_EXPIRY_LEAD_SECONDS = 15 * 60"

abbreviation link_error :: "pystr \<Rightarrow> exn + 'a" where
  "link_error msg \<equiv> Inl (PaymentLinkValidationError msg)"

definition strict_positive_int :: "json \<Rightarrow> pystr \<Rightarrow> exn + int" where
  "strict_positive_int value field_name = (case value of
      JInt i \<Rightarrow> if i \<le> 0 then link_error (field_name @ '' must be a positive integer in minor units'') else Inr i
    | _ \<Rightarrow> link_error (field_name @ '' must be a positive integer in minor units''))"

definition link_clean_text :: "json \<Rightarrow> pystr \<Rightarrow> nat \<Rightarrow> exn + pystr" where
  "link_clean_text value field_name maximum = (case value of
      JStr s \<Rightarrow>
        if s = [] \<or> s \<noteq> strip s then link_error (field_name @ '' must be a non-empty string'')
        else if maximum < length s then link_error (field_name @ '' exceeds '' @ nat_str maximum @ '' characters'')
        else if list_ex is_control s then link_error (field_name @ '' contains control characters'')
        else Inr s
    | _ \<Rightarrow> link_error (field_name @ '' must be a non-empty string''))"

text \<open>\<^verbatim>\<open>_CURRENCY_RE.fullmatch\<close>.\<close>

definition link_currency :: "pystr \<Rightarrow> bool" where
  "link_currency s = (length s = 3 \<and> list_all is_upper s)"

definition six_calendar_months_after :: "int \<Rightarrow> exn + int" where
  "six_calendar_months_after epoch =
     bindE (fromtimestamp epoch) (\<lambda>t.
       let now = civil_of t;
           month_index = (c_month now - 1) + 6;
           target_year = c_year now + month_index div 12;
           target_month = month_index mod 12 + 1;
           target_day = min (c_day now) (days_in_month target_year target_month)
       in bindE (replace_date now target_year target_month target_day) (\<lambda>c.
          Inr (timestamp (instant_of c))))"

section \<open>Customers and requests\<close>

record link_customer =
  cu_name :: pystr
  cu_contact :: "pystr option"
  cu_email :: "pystr option"

definition mk_link_customer :: "link_customer \<Rightarrow> exn + link_customer" where
  "mk_link_customer cu =
     bindE (link_clean_text (JStr (cu_name cu)) ''customer.name'' 256) (\<lambda>_.
     bindE (option_checkE (\<lambda>s. link_clean_text (JStr s) ''customer.contact'' 64) (cu_contact cu)) (\<lambda>_.
     bindE (option_checkE (\<lambda>s. link_clean_text (JStr s) ''customer.email'' 254) (cu_email cu)) (\<lambda>_.
     Inr cu)))"

definition opt_item :: "pystr \<Rightarrow> pystr option \<Rightarrow> (pystr \<times> json) list" where
  "opt_item k v = (case v of None \<Rightarrow> [] | Some s \<Rightarrow> [(k, JStr s)])"

definition customer_payload :: "link_customer \<Rightarrow> (pystr \<times> json) list" where
  "customer_payload cu =
     [(''name'', JStr (cu_name cu))] @ opt_item ''contact'' (cu_contact cu) @ opt_item ''email'' (cu_email cu)"

record link_request =
  lr_amount_minor :: int
  lr_currency :: pystr
  lr_reference_id :: pystr
  lr_description :: pystr
  lr_expire_by_epoch :: int
  lr_notes :: "(pystr \<times> pystr) list"
  lr_customer :: "link_customer option"

fun copy_notes :: "(pystr \<times> pystr) list \<Rightarrow> (pystr \<times> pystr) list \<Rightarrow> exn + (pystr \<times> pystr) list" where
  "copy_notes [] copied = Inr copied"
| "copy_notes ((key, value) # rest) copied =
     bindE (link_clean_text (JStr key) ''notes key'' 256) (\<lambda>clean_key.
     bindE (link_clean_text (JStr value) (''notes['' @ clean_key @ '']'') 256) (\<lambda>clean_value.
     copy_notes rest (dict_put clean_key clean_value copied)))"

definition mk_link_request :: "link_request \<Rightarrow> exn + link_request" where
  "mk_link_request r =
     bindE (strict_positive_int (JInt (lr_amount_minor r)) ''amount_minor'') (\<lambda>_.
     bindE (raise_if (\<not> link_currency (lr_currency r))
       (PaymentLinkValidationError ''currency must be an uppercase three-letter ISO code'')) (\<lambda>_.
     bindE (link_clean_text (JStr (lr_reference_id r)) ''reference_id'' 40) (\<lambda>_.
     bindE (link_clean_text (JStr (lr_description r)) ''description'' 2048) (\<lambda>_.
     bindE (raise_if (lr_expire_by_epoch r \<le> 0)
       (PaymentLinkValidationError ''expire_by_epoch must be a positive integer epoch'')) (\<lambda>_.
     bindE (raise_if (15 < length (lr_notes r))
       (PaymentLinkValidationError ''notes cannot contain more than 15 items'')) (\<lambda>_.
     bindE (copy_notes (lr_notes r) []) (\<lambda>copied_notes.
     Inr (r\<lparr>lr_notes := copied_notes\<rparr>))))))))"

definition validate_expiry :: "link_request \<Rightarrow> int \<Rightarrow> exn + unit" where
  "validate_expiry r now_epoch =
     bindE (raise_if (now_epoch < 0) (PaymentLinkValidationError ''now_epoch must be a non-negative integer epoch'')) (\<lambda>_.
     bindE (raise_if (lr_expire_by_epoch r < now_epoch + MIN_EXPIRY_LEAD_SECONDS)
       (PaymentLinkValidationError ''expire_by_epoch must be at least 15 minutes in the future'')) (\<lambda>_.
     bindE (six_calendar_months_after now_epoch) (\<lambda>latest.
     raise_if (latest < lr_expire_by_epoch r)
       (PaymentLinkValidationError ''expire_by_epoch cannot be more than six calendar months ahead''))))"

definition link_payload :: "link_request \<Rightarrow> int option \<Rightarrow> exn + json" where
  "link_payload r now_epoch =
     bindE (option_checkE (validate_expiry r) now_epoch) (\<lambda>_.
     Inr (JObj (
       [(''amount'', JInt (lr_amount_minor r)),
        (''currency'', JStr (lr_currency r)),
        (''accept_partial'', JBool False),
        (''upi_link'', JBool False),
        (''reference_id'', JStr (lr_reference_id r)),
        (''description'', JStr (lr_description r)),
        (''expire_by'', JInt (lr_expire_by_epoch r)),
        (''notify'', JObj [(''sms'', JBool False), (''email'', JBool False)]),
        (''reminder_enable'', JBool False),
        (''notes'', JObj (map (\<lambda>(k, v). (k, JStr v)) (lr_notes r)))]
       @ (case lr_customer r of None \<Rightarrow> [] | Some cu \<Rightarrow> [(''customer'', JObj (customer_payload cu))]))))"

definition link_json_bytes :: "link_request \<Rightarrow> int option \<Rightarrow> exn + bytes" where
  "link_json_bytes r now_epoch =
     bindE (link_payload r now_epoch) (\<lambda>payload. Inr (utf8 (dumps payload)))"

section \<open>Lookup and the ambiguous create\<close>

record link_lookup =
  lk_completed :: bool
  lk_candidates :: "json list"

definition mk_link_lookup :: "bool \<Rightarrow> json list \<Rightarrow> exn + link_lookup" where
  "mk_link_lookup completed candidates =
     bindE (raise_if (\<not> completed \<and> candidates \<noteq> []) (ValueError ''an incomplete lookup cannot contain candidates'')) (\<lambda>_.
     Inr \<lparr>lk_completed = completed, lk_candidates = candidates\<rparr>)"

datatype ambiguous_create_action = ADOPT_EXISTING | RETRY_CREATE_SAME_REFERENCE | REQUERY | ESCALATE_CREATE

record ambiguous_create_decision =
  ac_action :: ambiguous_create_action
  ac_reason_code :: pystr
  ac_payment_link_id :: "pystr option"

record link_snapshot =
  ls_payment_link_id :: pystr
  ls_reference_id :: pystr
  ls_amount_minor :: int
  ls_currency :: pystr
  ls_accept_partial :: bool
  ls_upi_link :: bool
  ls_status :: pystr

definition candidate_currency :: "json \<Rightarrow> exn + pystr" where
  "candidate_currency v = (case v of
      JStr s \<Rightarrow> if link_currency s then Inr s else link_error ''candidate.currency is invalid''
    | _ \<Rightarrow> link_error ''candidate.currency is invalid'')"

definition candidate_flags :: "json \<Rightarrow> json \<Rightarrow> exn + bool \<times> bool" where
  "candidate_flags accept_partial upi_link = (case (accept_partial, upi_link) of
      (JBool a, JBool u) \<Rightarrow> Inr (a, u)
    | _ \<Rightarrow> link_error ''candidate link-mode flags must be booleans'')"

definition candidate_status :: "json \<Rightarrow> exn + pystr" where
  "candidate_status v = (case v of
      JStr s \<Rightarrow> if s \<in> set LINK_STATUSES then Inr s else link_error ''candidate.status is invalid''
    | _ \<Rightarrow> link_error ''candidate.status is invalid'')"

definition link_snapshot_from_mapping :: "json \<Rightarrow> exn + link_snapshot" where
  "link_snapshot_from_mapping candidate = (case candidate of
      JObj c \<Rightarrow>
        bindE (link_clean_text (obj_get c ''id'') ''candidate.id'' 128) (\<lambda>payment_link_id.
        bindE (link_clean_text (obj_get c ''reference_id'') ''candidate.reference_id'' 40) (\<lambda>reference_id.
        bindE (strict_positive_int (obj_get c ''amount'') ''candidate.amount'') (\<lambda>amount_minor.
        bindE (candidate_currency (obj_get c ''currency'')) (\<lambda>currency.
        bindE (candidate_flags (obj_get c ''accept_partial'') (obj_get c ''upi_link'')) (\<lambda>(accept_partial, upi_link).
        bindE (candidate_status (obj_get c ''status'')) (\<lambda>status.
        Inr \<lparr>ls_payment_link_id = payment_link_id, ls_reference_id = reference_id, ls_amount_minor = amount_minor,
             ls_currency = currency, ls_accept_partial = accept_partial, ls_upi_link = upi_link, ls_status = status\<rparr>))))))
    | _ \<Rightarrow> link_error ''provider candidate must be an object'')"

definition link_matches :: "link_snapshot \<Rightarrow> link_request \<Rightarrow> bool" where
  "link_matches s r =
     (ls_reference_id s = lr_reference_id r \<and> ls_amount_minor s = lr_amount_minor r
      \<and> ls_currency s = lr_currency r \<and> \<not> ls_accept_partial s \<and> \<not> ls_upi_link s)"

definition ambiguous_decision :: "ambiguous_create_action \<Rightarrow> pystr \<Rightarrow> pystr option \<Rightarrow> ambiguous_create_decision" where
  "ambiguous_decision action reason link =
     \<lparr>ac_action = action, ac_reason_code = reason, ac_payment_link_id = link\<rparr>"

definition decide_ambiguous_create :: "link_request \<Rightarrow> link_lookup \<Rightarrow> ambiguous_create_decision" where
  "decide_ambiguous_create request lookup =
     (if \<not> lk_completed lookup then ambiguous_decision REQUERY ''lookup_not_completed'' None
      else case lk_candidates lookup of
        [] \<Rightarrow> ambiguous_decision RETRY_CREATE_SAME_REFERENCE ''completed_lookup_found_no_link'' None
      | [candidate] \<Rightarrow>
         (case link_snapshot_from_mapping candidate of
            Inl _ \<Rightarrow> ambiguous_decision ESCALATE_CREATE ''malformed_provider_candidate'' None
          | Inr snapshot \<Rightarrow>
             if \<not> link_matches snapshot request
             then ambiguous_decision ESCALATE_CREATE ''provider_candidate_conflicts_with_command''
                    (Some (ls_payment_link_id snapshot))
             else ambiguous_decision ADOPT_EXISTING ''matching_link_proves_create_succeeded''
                    (Some (ls_payment_link_id snapshot)))
      | _ \<Rightarrow> ambiguous_decision ESCALATE_CREATE ''multiple_links_found_for_unique_reference'' None)"

end
