(* ===== verification/References.thy ===== *)
theory References
  imports Payment_Links
begin

text \<open>
  \<^verbatim>\<open>packages/razorpay/references.py\<close>: the stable external identifier of a recovery case.
\<close>

section \<open>Unicode compatibility decomposition\<close>

text \<open>\<^verbatim>\<open>unicodedata.normalize("NFKD", c).encode("ascii", "ignore")\<close> for one character of the model's
  alphabet: an ASCII character is itself, an accented Latin letter its base letter, and the fractions,
  ordinals, superscripts and spacing marks their ASCII parts.\<close>

definition nfkd_table :: "(nat \<times> nat \<times> pystr) list" where
  "nfkd_table =
     [(160, 160, '' ''), (168, 168, '' ''), (170, 170, ''a''), (175, 175, '' ''), (178, 178, ''2''), (179, 179, ''3''),
      (180, 180, '' ''), (184, 184, '' ''), (185, 185, ''1''), (186, 186, ''o''),
      (188, 188, ''14''), (189, 189, ''12''), (190, 190, ''34''),
      (192, 197, ''A''), (199, 199, ''C''), (200, 203, ''E''), (204, 207, ''I''), (209, 209, ''N''),
      (210, 214, ''O''), (217, 220, ''U''), (221, 221, ''Y''),
      (224, 229, ''a''), (231, 231, ''c''), (232, 235, ''e''), (236, 239, ''i''), (241, 241, ''n''),
      (242, 246, ''o''), (249, 252, ''u''), (253, 253, ''y''), (255, 255, ''y'')]"

definition nfkd_ascii_char :: "char \<Rightarrow> pystr" where
  "nfkd_ascii_char c =
     (if code c < 128 then [c]
      else case find (\<lambda>(lo, hi, _). lo \<le> code c \<and> code c \<le> hi) nfkd_table of
             None \<Rightarrow> [] | Some (_, _, s) \<Rightarrow> s)"

definition nfkd_ascii :: "pystr \<Rightarrow> pystr" where
  "nfkd_ascii s = concat (map nfkd_ascii_char s)"

section \<open>The reference\<close>

definition REFERENCE_PREFIX :: pystr where
  "REFERENCE_PREFIX = ''rtw_''"

definition REFERENCE_NAMESPACE :: bytes where
  "REFERENCE_NAMESPACE = utf8 ''retrywise:razorpay:recovery-reference:v1'' @ [0]"

text \<open>\<^verbatim>\<open>[^a-z0-9]\<close> is what \<^verbatim>\<open>_NON_ALNUM\<close> removes.\<close>

definition is_slug_char :: "char \<Rightarrow> bool" where
  "is_slug_char c = (is_lower c \<or> is_digit c)"

definition validated_identifier :: "pystr \<Rightarrow> pystr \<Rightarrow> exn + pystr" where
  "validated_identifier value fld =
     bindE (raise_if (value = []) (ReferenceIdError (fld @ '' must be a non-empty string''))) (\<lambda>_.
     bindE (raise_if (value \<noteq> strip value) (ReferenceIdError (fld @ '' cannot contain surrounding whitespace''))) (\<lambda>_.
     bindE (raise_if (512 < length value) (ReferenceIdError (fld @ '' exceeds 512 characters''))) (\<lambda>_.
     Inr value)))"

definition reference_slug :: "pystr \<Rightarrow> pystr" where
  "reference_slug case_id =
     (let s = take 8 (filter is_slug_char (lower (nfkd_ascii case_id))) in if s = [] then ''case'' else s)"

definition reference_material :: "pystr \<Rightarrow> pystr \<Rightarrow> bytes" where
  "reference_material account_id case_id = REFERENCE_NAMESPACE @ utf8 account_id @ [0] @ utf8 case_id"

definition reference_digest :: "bytes \<Rightarrow> pystr" where
  "reference_digest material = lower (rstrip_char (CHR ''='') (b32encode (take 16 (sha256 material))))"

definition make_recovery_reference_id :: "pystr \<Rightarrow> pystr \<Rightarrow> exn + pystr" where
  "make_recovery_reference_id recovery_case_id provider_account_id =
     bindE (validated_identifier recovery_case_id ''recovery_case_id'') (\<lambda>case_id.
     bindE (validated_identifier provider_account_id ''provider_account_id'') (\<lambda>account_id.
       let reference_id = REFERENCE_PREFIX @ reference_slug case_id @ ''_''
             @ reference_digest (reference_material account_id case_id)
       in bindE (raise_if (40 < length reference_id)
            (AssertionError ''generated Razorpay reference_id exceeds 40 characters'')) (\<lambda>_.
          Inr reference_id)))"

end
