(* ===== verification/Payment_Link_Spec.thy ===== *)
theory Payment_Link_Spec
  imports Payment_Links
begin

text \<open>
  What the Payment Link code promises: the expiry window in days, the shape of every request that is
  sent, and the decision taken after an ambiguous create.
\<close>

section \<open>Argument checks\<close>

lemma strict_positive_int_Inr [guards]: "strict_positive_int v f = Inr i \<longleftrightarrow> v = JInt i \<and> 0 < i"
  by (auto simp: strict_positive_int_def split: json.splits)

lemma link_clean_text_Inr [guards]:
  "link_clean_text v f n = Inr s \<longleftrightarrow>
     v = JStr s \<and> s \<noteq> [] \<and> strip s = s \<and> length s \<le> n \<and> \<not> list_ex is_control s"
  by (auto simp: link_clean_text_def split: json.splits)

lemma candidate_currency_Inr [guards]: "candidate_currency v = Inr s \<longleftrightarrow> v = JStr s \<and> link_currency s"
  by (auto simp: candidate_currency_def split: json.splits)

lemma candidate_flags_Inr [guards]: "candidate_flags v w = Inr (a, u) \<longleftrightarrow> v = JBool a \<and> w = JBool u"
  by (auto simp: candidate_flags_def split: json.splits)

lemma candidate_status_Inr [guards]: "candidate_status v = Inr s \<longleftrightarrow> v = JStr s \<and> s \<in> set LINK_STATUSES"
  by (auto simp: candidate_status_def split: json.splits)

section \<open>Half a year\<close>

lemma div_pred_diff:
  fixes y k :: int
  assumes "0 < k"
  shows "y div k - (y - 1) div k = (if y mod k = 0 then 1 else 0)"
proof (cases "y mod k = 0")
  case True
  then have "y - 1 = k * (y div k - 1) + (k - 1)"
    using mult_div_mod_eq [of k y] by (simp add: algebra_simps)
  then have "(y - 1) div k = (k * (y div k - 1) + (k - 1)) div k"
    by (rule arg_cong)
  with True show ?thesis
    using div_shift [of "k - 1" k "y div k - 1"] assms by simp
next
  case False
  then have "0 < y mod k" using assms pos_mod_sign [of k y] by linarith
  moreover have "y - 1 = k * (y div k) + (y mod k - 1)"
    using mult_div_mod_eq [of k y] by simp
  then have "(y - 1) div k = (k * (y div k) + (y mod k - 1)) div k"
    by (rule arg_cong)
  moreover have "(k * (y div k) + (y mod k - 1)) div k = y div k"
    by (rule div_shift) (use \<open>0 < y mod k\<close> assms pos_mod_bound [of k y] in linarith)+
  ultimately show ?thesis
    using False by simp
qed

lemma days_before_year_next: "days_before_year (y + 1) = days_before_year y + (if is_leap y then 366 else 365)"
proof -
  have total: "D = (if a \<and> (\<not> b \<or> c) then 366 else 365)"
    if "D = 365 + p - q + r" "p = (if a then 1 else 0)" "q = (if b then 1 else 0)" "r = (if c then 1 else 0)"
      "c \<Longrightarrow> b" "b \<Longrightarrow> a" for D p q r :: int and a b c
    using that by (cases a; cases b; cases c) simp_all
  have "y mod 400 mod 100 = y mod 100" "y mod 100 mod 4 = y mod 4"
    by (rule mod_mod_cancel; simp)+
  then have steps: "y mod 400 = 0 \<Longrightarrow> y mod 100 = 0" "y mod 100 = 0 \<Longrightarrow> y mod 4 = 0"
    by auto
  have "days_before_year (y + 1) - days_before_year y =
      365 + (y div 4 - (y - 1) div 4) - (y div 100 - (y - 1) div 100) + (y div 400 - (y - 1) div 400)"
    by (simp add: days_before_year_def Let_def)
  then have "days_before_year (y + 1) - days_before_year y = (if is_leap y then 366 else 365)"
    unfolding is_leap_def by (rule total [OF _ div_pred_diff div_pred_diff div_pred_diff steps]) simp_all
  then show ?thesis by simp
qed

lemma month_cases:
  fixes m :: int
  assumes "1 \<le> m" "m \<le> 12"
  obtains "m = 1" | "m = 2" | "m = 3" | "m = 4" | "m = 5" | "m = 6"
    | "m = 7" | "m = 8" | "m = 9" | "m = 10" | "m = 11" | "m = 12"
proof -
  have "m = 1 \<or> m = 2 \<or> m = 3 \<or> m = 4 \<or> m = 5 \<or> m = 6 \<or> m = 7 \<or> m = 8 \<or> m = 9 \<or> m = 10 \<or> m = 11 \<or> m = 12"
    using assms by presburger
  then show thesis using that by blast
qed

lemmas calendar_defs = ymd2ord_def days_before_month_def days_in_month_def month_lengths_def

lemma half_year_days:
  fixes y m d :: int
  assumes "1 \<le> m" "m \<le> 12" "1 \<le> d" "d \<le> days_in_month y m"
    and "ty = y + (m - 1 + 6) div 12" "tm = (m - 1 + 6) mod 12 + 1" "td = min d (days_in_month ty tm)"
  shows "181 \<le> ymd2ord ty tm td - ymd2ord y m d \<and> ymd2ord ty tm td - ymd2ord y m d \<le> 184
    \<and> 1 \<le> td \<and> td \<le> days_in_month ty tm \<and> 1 \<le> tm \<and> tm \<le> 12"
  using assms(1,2)
  by (cases rule: month_cases)
     (use assms(3-) in \<open>auto simp: calendar_defs days_before_year_next min_def split: if_splits\<close>)

lemma ymd2ord_bounds:
  fixes y m d :: int
  assumes "1 \<le> m" "m \<le> 12" "1 \<le> d" "d \<le> days_in_month y m"
  shows "days_before_year y < ymd2ord y m d \<and> ymd2ord y m d \<le> days_before_year y + 366"
  using assms(1,2)
  by (cases rule: month_cases) (use assms(3-) in \<open>auto simp: calendar_defs split: if_splits\<close>)

lemma days_before_year_bounds:
  "1 \<le> y \<Longrightarrow> 365 * (y - 1) \<le> days_before_year y" "y < 1 \<Longrightarrow> days_before_year y \<le> -366"
proof -
  show "365 * (y - 1) \<le> days_before_year y" if "1 \<le> y"
    using that zdiv_mono2 [of "y - 1" 4 100] pos_imp_zdiv_nonneg_iff [of 400 "y - 1"]
    by (simp add: days_before_year_def Let_def)
  show "days_before_year y \<le> -366" if "y < 1"
    using that zdiv_mono2_neg [of "y - 1" 4 100] neg_imp_zdiv_neg_iff [of 400 "y - 1"]
    by (simp add: days_before_year_def Let_def)
qed

text \<open>The year of an instant lies between 1 and a bound read off the day number.\<close>

lemma civil_year_bounds:
  assumes "0 \<le> t" "t div us_day < 365 * n"
  shows "1 \<le> c_year (civil_of t) \<and> c_year (civil_of t) \<le> n"
proof -
  obtain y m d where ymd: "ord2ymd (t div us_day + 1) = (y, m, d)"
    by (cases "ord2ymd (t div us_day + 1)")
  have year: "c_year (civil_of t) = y" by (simp add: civil_of_def ymd Let_def)
  have ord: "ymd2ord y m d = t div us_day + 1" and "days_before_year y < ymd2ord y m d"
    "ymd2ord y m d \<le> days_before_year y + 366"
    using ymd2ord_ord2ymd [OF ymd] ymd2ord_bounds [of m d y] by simp_all
  moreover have "0 \<le> t div us_day" using assms(1) by (simp add: pos_imp_zdiv_nonneg_iff)
  ultimately show ?thesis
    using days_before_year_bounds [of y] assms(2) unfolding year by (cases "1 \<le> y") auto
qed

section \<open>The expiry window\<close>

lemma six_calendar_months_step:
  assumes "fromtimestamp e = Inr t" "now = civil_of t"
    and "ty = c_year now + (c_month now - 1 + 6) div 12" "tm = (c_month now - 1 + 6) mod 12 + 1"
    and "td = min (c_day now) (days_in_month ty tm)" "1 \<le> ty" "ty \<le> 9999"
  shows "six_calendar_months_after e
    = Inr (e + 86400 * (ymd2ord ty tm td - ymd2ord (c_year now) (c_month now) (c_day now)))"
proof -
  let ?c = "now\<lparr>c_year := ty, c_month := tm, c_day := td\<rparr>"
  have "instant_of ?c = t + us_day * (ymd2ord ty tm td - ymd2ord (c_year now) (c_month now) (c_day now))"
    using instant_of_civil_of [of t] assms(2) by (simp add: instant_of_def algebra_simps)
  also have "\<dots> - unix_epoch = us_second * (e + 86400 * (ymd2ord ty tm td - ymd2ord (c_year now) (c_month now) (c_day now)))"
    using assms(1) by (simp add: fromtimestamp_def Let_def us_day_def algebra_simps split: if_splits)
  finally have "timestamp (instant_of ?c) = e + 86400 * (ymd2ord ty tm td - ymd2ord (c_year now) (c_month now) (c_day now))"
    by (rule timestamp_whole)
  moreover have "1 \<le> td \<and> td \<le> days_in_month ty tm \<and> 1 \<le> tm \<and> tm \<le> 12"
    using half_year_days [OF _ _ _ _ assms(3-5)] civil_of_fields [of t] unfolding assms(2) [symmetric] by blast
  then have "replace_date now ty tm td = Inr ?c"
    using assms(6,7) by (simp add: replace_date_def)
  ultimately show ?thesis
    by (simp only: six_calendar_months_after_def assms(1) Let_def bindE_simps
        assms(2) [symmetric] assms(3) [symmetric] assms(4) [symmetric] assms(5) [symmetric])
qed

lemma six_calendar_months_Inr:
  assumes "six_calendar_months_after e = Inr r"
  shows "e + 181 * 86400 \<le> r \<and> r \<le> e + 184 * 86400"
proof -
  from assms obtain t where t: "fromtimestamp e = Inr t" by (auto simp: six_calendar_months_after_def)
  define now where "now = civil_of t"
  define ty where "ty = c_year now + (c_month now - 1 + 6) div 12"
  define tm where "tm = (c_month now - 1 + 6) mod 12 + 1"
  define td where "td = min (c_day now) (days_in_month ty tm)"
  have "\<exists>c. replace_date now ty tm td = Inr c"
    using assms unfolding six_calendar_months_after_def t bindE_simps Let_def now_def [symmetric]
      ty_def [symmetric] tm_def [symmetric] td_def [symmetric] by auto
  then have "1 \<le> ty" "ty \<le> 9999" by (auto simp: replace_date_def)
  with six_calendar_months_step [OF t now_def ty_def tm_def td_def] assms
  have "r = e + 86400 * (ymd2ord ty tm td - ymd2ord (c_year now) (c_month now) (c_day now))" by simp
  moreover have "181 \<le> ymd2ord ty tm td - ymd2ord (c_year now) (c_month now) (c_day now)
      \<and> ymd2ord ty tm td - ymd2ord (c_year now) (c_month now) (c_day now) \<le> 184"
    using half_year_days [OF _ _ _ _ ty_def tm_def td_def] civil_of_fields [of t] unfolding now_def [symmetric] by blast
  ultimately show ?thesis by simp
qed

lemma six_calendar_months_defined:
  assumes "0 \<le> e" "e \<le> 253000000000"
  shows "\<exists>r. six_calendar_months_after e = Inr r"
proof -
  define t where "t = unix_epoch + e * us_second"
  have "t \<le> unix_epoch + 253000000000 * us_second" using assms(2) by (simp add: t_def us_second_def)
  also have "\<dots> < 365 * 9998 * us_day" by (simp add: unix_epoch_def us_day_def us_second_def)
  finally have hi: "t < 365 * 9998 * us_day" .
  have lo: "0 \<le> t" using assms(1) by (simp add: t_def unix_epoch_def us_day_def us_second_def)
  have "in_range t" using hi lo by (simp add: in_range_def max_instant_def us_day_def us_second_def)
  then have ft: "fromtimestamp e = Inr t" by (simp add: fromtimestamp_def Let_def t_def)
  have "t div us_day < 365 * 9998"
    using zdiv_mono1 [of t "365 * 9998 * us_day - 1" us_day] hi by (simp add: us_day_def us_second_def)
  then have "1 \<le> c_year (civil_of t) \<and> c_year (civil_of t) \<le> 9998"
    using civil_year_bounds [of t 9998] lo by simp
  moreover have "0 \<le> (c_month (civil_of t) - 1 + 6) div 12 \<and> (c_month (civil_of t) - 1 + 6) div 12 \<le> 1"
    using civil_of_fields [of t] by auto
  ultimately show ?thesis
    using six_calendar_months_step [OF ft refl refl refl refl] by force
qed

lemma validate_expiry_ok:
  assumes "0 \<le> now" "now \<le> 253000000000" "now + 900 \<le> lr_expire_by_epoch r"
    "lr_expire_by_epoch r \<le> now + 181 * 86400"
  shows "validate_expiry r now = Inr ()"
proof -
  obtain latest where "six_calendar_months_after now = Inr latest"
    using six_calendar_months_defined [of now] assms by auto
  then show ?thesis
    using six_calendar_months_Inr [of now latest] assms by (auto simp: validate_expiry_def MIN_EXPIRY_LEAD_SECONDS_def)
qed

text \<open>C35. The expiry window: a request passes the expiry check only when it expires at least fifteen
  minutes and at most 184 days after the given moment, and every expiry from fifteen minutes to 181
  days ahead passes, for any present moment up to the year 9987.\<close>

theorem expiry_window:
  "(validate_expiry r now = Inr () \<longrightarrow>
      0 \<le> now \<and> now + 900 \<le> lr_expire_by_epoch r \<and> lr_expire_by_epoch r \<le> now + 184 * 86400)
   \<and> (0 \<le> now \<and> now \<le> 253000000000 \<and> now + 900 \<le> lr_expire_by_epoch r
        \<and> lr_expire_by_epoch r \<le> now + 181 * 86400 \<longrightarrow> validate_expiry r now = Inr ())"
proof (intro conjI impI)
  assume "validate_expiry r now = Inr ()"
  then obtain latest where "0 \<le> now" "now + 900 \<le> lr_expire_by_epoch r" "lr_expire_by_epoch r \<le> latest"
    "six_calendar_months_after now = Inr latest"
    by (auto simp: validate_expiry_def MIN_EXPIRY_LEAD_SECONDS_def)
  then show "0 \<le> now" "now + 900 \<le> lr_expire_by_epoch r" "lr_expire_by_epoch r \<le> now + 184 * 86400"
    using six_calendar_months_Inr [of now latest] by auto
next
  assume a: "0 \<le> now \<and> now \<le> 253000000000 \<and> now + 900 \<le> lr_expire_by_epoch r
        \<and> lr_expire_by_epoch r \<le> now + 181 * 86400"
  then show "validate_expiry r now = Inr ()" by (intro validate_expiry_ok) auto
qed

definition sample_request :: link_request where
  "sample_request = \<lparr>lr_amount_minor = 49900, lr_currency = ''INR'', lr_reference_id = ''rtw_case1_abc'',
     lr_description = ''Order 17'', lr_expire_by_epoch = 1700003600, lr_notes = [(''case'', ''case_1'')],
     lr_customer = None\<rparr>"

theorem expiry_window_witness: "validate_expiry sample_request 1700000000 = Inr ()"
  using expiry_window [of sample_request 1700000000] by (simp add: sample_request_def)

section \<open>The request\<close>

definition clean_link_text :: "nat \<Rightarrow> pystr \<Rightarrow> bool" where
  "clean_link_text n s = (s \<noteq> [] \<and> strip s = s \<and> length s \<le> n \<and> \<not> list_ex is_control s)"

definition link_request_ok :: "link_request \<Rightarrow> bool" where
  "link_request_ok r =
     (0 < lr_amount_minor r \<and> link_currency (lr_currency r) \<and> clean_link_text 40 (lr_reference_id r)
      \<and> clean_link_text 2048 (lr_description r) \<and> 0 < lr_expire_by_epoch r
      \<and> length (lr_notes r) \<le> 15 \<and> list_all (\<lambda>(k, v). clean_link_text 256 k \<and> clean_link_text 256 v) (lr_notes r))"

lemma link_clean_text_JStr: "link_clean_text (JStr s) f n = Inr t \<longleftrightarrow> t = s \<and> clean_link_text n s"
  by (auto simp: link_clean_text_Inr clean_link_text_def)

lemma copy_notes_Inr:
  "copy_notes kvs acc = Inr out \<longleftrightarrow>
     list_all (\<lambda>(k, v). clean_link_text 256 k \<and> clean_link_text 256 v) kvs \<and> out = fold (\<lambda>(k, v). dict_put k v) kvs acc"
  by (induction kvs acc rule: copy_notes.induct) (auto simp: link_clean_text_JStr)

lemma copy_notes_dict:
  "distinct (map fst kvs) \<Longrightarrow> copy_notes kvs [] = Inr out \<longleftrightarrow>
     out = kvs \<and> list_all (\<lambda>(k, v). clean_link_text 256 k \<and> clean_link_text 256 v) kvs"
  using dict_of_distinct [of kvs] by (auto simp: copy_notes_Inr dict_of_def)

text \<open>C39. The request constructor accepts exactly the well-formed requests (positive amount in minor
  units, three upper-case currency letters, clean reference of at most 40 and description of at most
  2048 characters, positive expiry, at most fifteen clean notes) and keeps every field as given.\<close>

theorem request_constructor:
  assumes "distinct (map fst (lr_notes r))"
  shows "mk_link_request r = Inr r' \<longleftrightarrow> link_request_ok r \<and> r' = r"
proof -
  have "r\<lparr>lr_notes := lr_notes r\<rparr> = r" by simp
  then show ?thesis
    by (auto simp: mk_link_request_def link_request_ok_def link_clean_text_JStr strict_positive_int_Inr
        copy_notes_dict [OF assms] not_le not_less)
qed

lemma sample_request_ok: "link_request_ok sample_request"
  unfolding sample_request_def link_request_ok_def clean_link_text_def by code_simp

theorem request_constructor_witness: "mk_link_request sample_request = Inr sample_request"
  using request_constructor [of sample_request sample_request] sample_request_ok
  by (simp add: sample_request_def)

section \<open>The wire form\<close>

lemma payload_Inr:
  "link_payload r now = Inr p \<longleftrightarrow>
     (\<forall>n. now = Some n \<longrightarrow> validate_expiry r n = Inr ()) \<and> link_payload r None = Inr p"
  by (cases now) (auto simp: link_payload_def)

lemma link_payload_None:
  "link_payload r None = Inr (JObj kvs) \<Longrightarrow>
     obj_get kvs ''amount'' = JInt (lr_amount_minor r) \<and> obj_get kvs ''currency'' = JStr (lr_currency r)
     \<and> obj_get kvs ''reference_id'' = JStr (lr_reference_id r) \<and> obj_get kvs ''expire_by'' = JInt (lr_expire_by_epoch r)
     \<and> obj_get kvs ''accept_partial'' = JBool False \<and> obj_get kvs ''upi_link'' = JBool False
     \<and> obj_get kvs ''reminder_enable'' = JBool False
     \<and> obj_get kvs ''notify'' = JObj [(''sms'', JBool False), (''email'', JBool False)]"
  by (auto simp: link_payload_def)

lemma json_ok_payload:
  assumes "distinct (map fst (lr_notes r))" "link_payload r None = Inr p"
  shows "json_ok p"
proof -
  have "json_ok (JObj (map (\<lambda>(k, v). (k, JStr v)) (lr_notes r)))"
    using assms(1) by (auto simp: list_all_iff case_prod_unfold comp_def)
  moreover have "json_ok (JObj (customer_payload cu))" for cu
    by (auto simp: customer_payload_def opt_item_def split: option.split)
  ultimately show ?thesis
    using assms(2) by (auto simp: link_payload_def split: option.split)
qed

lemma link_json_bytes_decode:
  assumes "distinct (map fst (lr_notes r))" "link_json_bytes r now = Inr body"
  obtains kvs wire where "utf8_decode body = Some wire" "loads wire = Some (JObj kvs)"
    "obj_get kvs ''amount'' = JInt (lr_amount_minor r)" "obj_get kvs ''currency'' = JStr (lr_currency r)"
    "obj_get kvs ''reference_id'' = JStr (lr_reference_id r)" "obj_get kvs ''expire_by'' = JInt (lr_expire_by_epoch r)"
    "obj_get kvs ''accept_partial'' = JBool False" "obj_get kvs ''upi_link'' = JBool False"
    "obj_get kvs ''reminder_enable'' = JBool False"
    "obj_get kvs ''notify'' = JObj [(''email'', JBool False), (''sms'', JBool False)]"
proof -
  from assms(2) obtain p where p: "link_payload r now = Inr p" "body = utf8 (dumps p)"
    by (auto simp: link_json_bytes_def)
  then have none: "link_payload r None = Inr p" using payload_Inr by blast
  then obtain items where items: "p = JObj items" by (auto simp: link_payload_def)
  have ok: "json_ok p" by (rule json_ok_payload [OF assms(1) none])
  obtain kvs where kvs: "canon (JObj items) = JObj kvs" by simp
  have get: "obj_get kvs k = canon (obj_get items k)" for k
    by (rule obj_get_canon [OF _ kvs]) (use ok items in simp)
  note fields = link_payload_None [OF none [unfolded items]]
  show thesis
  proof (rule that [of "dumps p" kvs])
    show "utf8_decode body = Some (dumps p)" by (simp add: p(2))
    show "loads (dumps p) = Some (JObj kvs)" using loads_dumps [OF ok] kvs items by simp
    show "obj_get kvs ''notify'' = JObj [(''email'', JBool False), (''sms'', JBool False)]"
      unfolding get using fields by simp
  qed (use fields in \<open>simp_all add: get\<close>)
qed

text \<open>What is sent to the provider decodes to an object that asks for exactly the requested amount,
  currency, reference and expiry, and never enables partial payment, a UPI link, reminders or
  provider-side notifications.\<close>

lemma sent_link_is_safe:
  assumes "distinct (map fst (lr_notes r))" "link_json_bytes r now = Inr body"
  shows "\<exists>wire kvs. utf8_decode body = Some wire \<and> loads wire = Some (JObj kvs)
    \<and> obj_get kvs ''amount'' = JInt (lr_amount_minor r) \<and> obj_get kvs ''currency'' = JStr (lr_currency r)
    \<and> obj_get kvs ''reference_id'' = JStr (lr_reference_id r) \<and> obj_get kvs ''expire_by'' = JInt (lr_expire_by_epoch r)
    \<and> obj_get kvs ''accept_partial'' = JBool False \<and> obj_get kvs ''upi_link'' = JBool False
    \<and> obj_get kvs ''reminder_enable'' = JBool False
    \<and> obj_get kvs ''notify'' = JObj [(''email'', JBool False), (''sms'', JBool False)]"
  by (rule link_json_bytes_decode [OF assms]) blast

lemma sent_link_is_safe_example:
  "case link_json_bytes sample_request None of Inl e \<Rightarrow> False
   | Inr body \<Rightarrow> (\<exists>wire kvs. utf8_decode body = Some wire \<and> loads wire = Some (JObj kvs)
       \<and> obj_get kvs ''accept_partial'' = JBool False)"
proof -
  obtain body where "link_json_bytes sample_request None = Inr body"
    by (auto simp: link_json_bytes_def link_payload_def)
  moreover have "distinct (map fst (lr_notes sample_request))" by (simp add: sample_request_def)
  ultimately show ?thesis using sent_link_is_safe [of sample_request None body] by auto
qed

section \<open>After an ambiguous create\<close>

lemma snapshot_Inr:
  "link_snapshot_from_mapping c = Inr s \<longleftrightarrow>
     (\<exists>kvs. c = JObj kvs
       \<and> obj_get kvs ''id'' = JStr (ls_payment_link_id s) \<and> clean_link_text 128 (ls_payment_link_id s)
       \<and> obj_get kvs ''reference_id'' = JStr (ls_reference_id s) \<and> clean_link_text 40 (ls_reference_id s)
       \<and> obj_get kvs ''amount'' = JInt (ls_amount_minor s) \<and> 0 < ls_amount_minor s
       \<and> obj_get kvs ''currency'' = JStr (ls_currency s) \<and> link_currency (ls_currency s)
       \<and> obj_get kvs ''accept_partial'' = JBool (ls_accept_partial s) \<and> obj_get kvs ''upi_link'' = JBool (ls_upi_link s)
       \<and> obj_get kvs ''status'' = JStr (ls_status s) \<and> ls_status s \<in> set LINK_STATUSES)"
  by (cases c; cases s) (auto simp: link_snapshot_from_mapping_def guards clean_link_text_def)

text \<open>The fields of the create request that a link found later has to repeat, and what it has to carry
  of its own.\<close>

definition echoes_request :: "(pystr \<times> json) list \<Rightarrow> (pystr \<times> json) list \<Rightarrow> bool" where
  "echoes_request sent found = (\<forall>k \<in> {''reference_id'', ''amount'', ''currency'', ''accept_partial'', ''upi_link''}.
     obj_get found k = obj_get sent k)"

definition identified_link :: "pystr \<Rightarrow> (pystr \<times> json) list \<Rightarrow> bool" where
  "identified_link link found \<longleftrightarrow> obj_get found ''id'' = JStr link \<and> clean_link_text 128 link
     \<and> (\<exists>status \<in> set LINK_STATUSES. obj_get found ''status'' = JStr status)"

lemma request_sent:
  assumes "distinct (map fst (lr_notes r))" "link_json_bytes r now = Inr body"
    and "utf8_decode body = Some wire" "loads wire = Some (JObj sent)"
  shows "obj_get sent ''reference_id'' = JStr (lr_reference_id r)" "obj_get sent ''amount'' = JInt (lr_amount_minor r)"
    "obj_get sent ''currency'' = JStr (lr_currency r)"
    "obj_get sent ''accept_partial'' = JBool False" "obj_get sent ''upi_link'' = JBool False"
  by (rule link_json_bytes_decode [OF assms(1,2)], use assms(3,4) in simp)+

lemma matching_snapshot:
  assumes "link_request_ok r" "distinct (map fst (lr_notes r))" "link_json_bytes r now = Inr body"
    and "utf8_decode body = Some wire" "loads wire = Some (JObj sent)"
  shows "(\<exists>s. link_snapshot_from_mapping c = Inr s \<and> link_matches s r \<and> ls_payment_link_id s = link) \<longleftrightarrow>
    (\<exists>found. c = JObj found \<and> identified_link link found \<and> echoes_request sent found)" (is "?l \<longleftrightarrow> ?r")
proof
  assume ?l
  then show ?r
    by (auto simp: snapshot_Inr link_matches_def identified_link_def echoes_request_def request_sent [OF assms(2-5)])
next
  assume ?r
  then obtain found status where found: "c = JObj found" "echoes_request sent found" "identified_link link found"
    and "status \<in> set LINK_STATUSES" "obj_get found ''status'' = JStr status"
    by (auto simp: identified_link_def)
  with assms(1) show ?l
    by (intro exI [of _ "\<lparr>ls_payment_link_id = link, ls_reference_id = lr_reference_id r,
          ls_amount_minor = lr_amount_minor r, ls_currency = lr_currency r, ls_accept_partial = False,
          ls_upi_link = False, ls_status = status\<rparr>"])
       (auto simp: snapshot_Inr link_matches_def identified_link_def echoes_request_def link_request_ok_def
         request_sent [OF assms(2-5)])
qed

lemma decided_ambiguous_create:
  "ac_action (decide_ambiguous_create r lk) = REQUERY \<longleftrightarrow> \<not> lk_completed lk"
  "ac_action (decide_ambiguous_create r lk) = RETRY_CREATE_SAME_REFERENCE \<longleftrightarrow> lk_completed lk \<and> lk_candidates lk = []"
  "ac_action (decide_ambiguous_create r lk) = ADOPT_EXISTING \<and> ac_payment_link_id (decide_ambiguous_create r lk) = Some link
     \<longleftrightarrow> lk_completed lk \<and> (\<exists>c. lk_candidates lk = [c]
        \<and> (\<exists>s. link_snapshot_from_mapping c = Inr s \<and> link_matches s r \<and> ls_payment_link_id s = link))"
  by (auto simp: decide_ambiguous_create_def ambiguous_decision_def split: list.split sum.split)

lemma adopted_names_link:
  "ac_action (decide_ambiguous_create r lk) = ADOPT_EXISTING \<Longrightarrow> \<exists>link. ac_payment_link_id (decide_ambiguous_create r lk) = Some link"
  by (auto simp: decide_ambiguous_create_def ambiguous_decision_def split: list.splits sum.splits if_splits)

text \<open>C34. After a create of a well formed request (its notes, a mapping, have distinct keys) whose outcome is
  unknown, where a body was encoded and decodes to the object sent: a link is adopted exactly when the lookup completed, found that one candidate
  and no other, and the candidate, as raw JSON, has a clean identifier and a known status and repeats the
  reference, the amount, the currency and the two mode flags of the body that was sent. So the link the
  request itself created is always adopted, with the identifier the provider gave it, and a link that
  differs in the reference, the amount, the currency or a mode never is. The create is sent again only when
  a completed lookup found nothing, the lookup is repeated exactly when it did not complete, and everything
  else is escalated.\<close>

theorem ambiguous_create_adopts_own_link:
  assumes "link_request_ok r" "distinct (map fst (lr_notes r))" "link_json_bytes r now = Inr body"
    and "utf8_decode body = Some wire" "loads wire = Some (JObj sent)"
  shows "(ac_action (decide_ambiguous_create r lk) = ADOPT_EXISTING \<and> ac_payment_link_id (decide_ambiguous_create r lk) = Some link
        \<longleftrightarrow> lk_completed lk \<and> (\<exists>found. lk_candidates lk = [JObj found] \<and> identified_link link found \<and> echoes_request sent found))
    \<and> (ac_action (decide_ambiguous_create r lk) = RETRY_CREATE_SAME_REFERENCE \<longleftrightarrow> lk_completed lk \<and> lk_candidates lk = [])
    \<and> (ac_action (decide_ambiguous_create r lk) = REQUERY \<longleftrightarrow> \<not> lk_completed lk)
    \<and> (ac_action (decide_ambiguous_create r lk) = ESCALATE_CREATE \<longleftrightarrow>
        lk_completed lk \<and> lk_candidates lk \<noteq> []
        \<and> (\<forall>i found. lk_candidates lk = [JObj found] \<longrightarrow> \<not> (identified_link i found \<and> echoes_request sent found)))"
proof (intro conjI)
  show adopt: "ac_action (decide_ambiguous_create r lk) = ADOPT_EXISTING \<and> ac_payment_link_id (decide_ambiguous_create r lk) = Some link
      \<longleftrightarrow> lk_completed lk \<and> (\<exists>found. lk_candidates lk = [JObj found] \<and> identified_link link found \<and> echoes_request sent found)"
    for link
    unfolding decided_ambiguous_create(3) matching_snapshot [OF assms] by blast
  show retry: "ac_action (decide_ambiguous_create r lk) = RETRY_CREATE_SAME_REFERENCE \<longleftrightarrow> lk_completed lk \<and> lk_candidates lk = []"
    and again: "ac_action (decide_ambiguous_create r lk) = REQUERY \<longleftrightarrow> \<not> lk_completed lk"
    by (rule decided_ambiguous_create)+
  show "ac_action (decide_ambiguous_create r lk) = ESCALATE_CREATE \<longleftrightarrow>
      lk_completed lk \<and> lk_candidates lk \<noteq> []
      \<and> (\<forall>i found. lk_candidates lk = [JObj found] \<longrightarrow> \<not> (identified_link i found \<and> echoes_request sent found))"
    using adopt adopted_names_link [of r lk] retry again
    by (cases "ac_action (decide_ambiguous_create r lk)") auto
qed

text \<open>The request of the examples is sent; the provider's link repeats its fields and is adopted, and the
  same link with one paisa more, or under another reference, is escalated.\<close>

definition sample_found :: "int \<Rightarrow> pystr \<Rightarrow> link_lookup" where
  "sample_found amount reference = \<lparr>lk_completed = True, lk_candidates = [JObj
     [(''id'', JStr ''plink_1''), (''status'', JStr ''created''), (''amount'', JInt amount),
      (''currency'', JStr (lr_currency sample_request)), (''reference_id'', JStr reference),
      (''accept_partial'', JBool False), (''upi_link'', JBool False)]]\<rparr>"

theorem ambiguous_create_adopts_own_link_witness:
  "ac_action (decide_ambiguous_create sample_request
       (sample_found (lr_amount_minor sample_request) (lr_reference_id sample_request))) = ADOPT_EXISTING
   \<and> ac_payment_link_id (decide_ambiguous_create sample_request
       (sample_found (lr_amount_minor sample_request) (lr_reference_id sample_request))) = Some ''plink_1''
   \<and> ac_action (decide_ambiguous_create sample_request
       (sample_found (lr_amount_minor sample_request + 1) (lr_reference_id sample_request))) = ESCALATE_CREATE
   \<and> ac_action (decide_ambiguous_create sample_request
       (sample_found (lr_amount_minor sample_request) ''another_reference'')) = ESCALATE_CREATE"
proof -
  obtain body where body: "link_json_bytes sample_request None = Inr body"
    by (auto simp: link_json_bytes_def link_payload_def)
  have d: "distinct (map fst (lr_notes sample_request))" by (simp add: sample_request_def)
  obtain kvs wire where wire: "utf8_decode body = Some wire" "loads wire = Some (JObj kvs)"
    by (rule link_json_bytes_decode [OF d body])
  note applied = ambiguous_create_adopts_own_link [OF sample_request_ok d body wire]
  let ?found = "\<lambda>amount reference. [(''id'', JStr ''plink_1''), (''status'', JStr ''created''), (''amount'', JInt amount),
      (''currency'', JStr (lr_currency sample_request)), (''reference_id'', JStr reference),
      (''accept_partial'', JBool False), (''upi_link'', JBool False)]"
  have "clean_link_text 128 ''plink_1''" "''created'' \<in> set LINK_STATUSES" by code_simp+
  then have identified: "identified_link i (?found amount reference) \<longleftrightarrow> i = ''plink_1''" for i amount reference
    by (auto simp: identified_link_def obj_get_def)
  have echoes: "echoes_request kvs (?found amount reference)
      \<longleftrightarrow> amount = lr_amount_minor sample_request \<and> reference = lr_reference_id sample_request" for amount reference
    by (auto simp: echoes_request_def request_sent [OF d body wire] obj_get_def [of "_ # _"])
  have "lr_reference_id sample_request \<noteq> ''another_reference''" by (simp add: sample_request_def)
  then show ?thesis
    unfolding applied sample_found_def by (simp add: applied identified echoes)
qed

end
