(* ===== verification/Reference_Spec.thy ===== *)
theory Reference_Spec
  imports References Payment_Link_Spec
begin

text \<open>
  What a recovery reference promises: it always fits the provider's field, and it identifies the
  account and the case up to a collision of the truncated digest.
\<close>

section \<open>Base 32 of sixteen bytes\<close>

lemma chunks_16:
  fixes bs :: "'a list"
  assumes "length bs = 16"
  shows "chunks 4 bs = [take 5 bs, take 5 (drop 5 bs), take 5 (drop 10 bs), drop 15 bs]"
proof -
  have step: "chunks 4 xs = take 5 xs # chunks 4 (drop 5 xs)" if "xs \<noteq> []" for xs :: "'a list"
    using that by (cases xs) simp_all
  have "chunks 4 (drop 15 bs) = [drop 15 bs]" using assms step [of "drop 15 bs"] by simp
  moreover have "bs \<noteq> []" "drop 5 bs \<noteq> []" "drop 10 bs \<noteq> []" using assms by auto
  ultimately show ?thesis by (simp add: step)
qed

definition is_b32_char :: "char \<Rightarrow> bool" where
  "is_b32_char c = (is_upper c \<or> 50 \<le> code c \<and> code c \<le> 55)"

lemma is_b32_b32_char: "d < 32 \<Longrightarrow> is_b32_char (b32_char d)"
  by (auto simp: b32_char_def is_b32_char_def is_upper_def)

lemma b32_char_inj: "a < 32 \<Longrightarrow> b < 32 \<Longrightarrow> b32_char a = b32_char b \<longleftrightarrow> a = b"
proof -
  assume "a < 32" "b < 32"
  then have "code (b32_char a) = code (b32_char b) \<longleftrightarrow> a = b"
    by (auto simp: b32_char_def)
  then show ?thesis by auto
qed

text \<open>The characters of a quantum without its padding.\<close>

definition b32_digits :: "nat \<Rightarrow> nat \<Rightarrow> pystr" where
  "b32_digits k n = map (\<lambda>i. b32_char (n div 32 ^ i mod 32)) (rev [8 - k..<8])"

lemma length_b32_digits: "k \<le> 8 \<Longrightarrow> length (b32_digits k n) = k"
  by (simp add: b32_digits_def)

lemma b32_digits_chars: "\<forall>c\<in>set (b32_digits k n). is_b32_char c"
  by (auto simp: b32_digits_def is_b32_b32_char)

lemma b32_quantum_digits:
  "b32_quantum q = (let k = (8 * length q + 4) div 5
     in b32_digits k (be_nat (q @ replicate (5 - length q) 0)) @ replicate (8 - k) (CHR ''=''))"
  by (simp add: b32_quantum_def b32_digits_def Let_def)

lemma b32encode_16:
  assumes "length bs = 16"
  shows "rstrip_char (CHR ''='') (b32encode bs) =
    b32_digits 8 (be_nat (take 5 bs)) @ b32_digits 8 (be_nat (take 5 (drop 5 bs)))
    @ b32_digits 8 (be_nat (take 5 (drop 10 bs))) @ b32_digits 2 (be_nat (drop 15 bs @ replicate 4 0))"
proof -
  have pad: "rstrip_char (CHR ''='') (xs @ b32_digits 2 n @ replicate 6 (CHR ''='')) = xs @ b32_digits 2 n" for xs n
  proof -
    obtain ys y where y: "xs @ b32_digits 2 n = ys @ [y]" "is_b32_char y"
      by (auto simp: b32_digits_def numeral_2_eq_2 is_b32_b32_char)
    then have "y \<noteq> CHR ''=''" by (auto simp: is_b32_char_def is_upper_def)
    then have "rstrip_char (CHR ''='') ((ys @ [y]) @ replicate 6 (CHR ''='')) = ys @ [y]"
      by (simp add: rstrip_char_def dropWhile_append3 eval_nat_numeral)
    then show ?thesis unfolding y(1) [symmetric] by simp
  qed
  show ?thesis
    using assms pad [of "b32_digits 8 (be_nat (take 5 bs)) @ b32_digits 8 (be_nat (take 5 (drop 5 bs)))
        @ b32_digits 8 (be_nat (take 5 (drop 10 bs)))"]
    by (simp add: b32encode_def chunks_16 b32_quantum_digits Let_def)
qed

section \<open>Shape\<close>

lemma slug_char_clean: "is_slug_char c \<Longrightarrow> \<not> is_space c \<and> \<not> is_control c"
  by (auto simp: is_slug_char_def is_lower_def is_digit_def is_space_def is_control_def)

lemma slug_char_lower_b32: "is_b32_char c \<Longrightarrow> is_slug_char (lower_char c)"
  by (auto simp: is_b32_char_def lower_char_def is_slug_char_def is_lower_def is_upper_def is_digit_def)

lemma reference_digest_shape:
  "length (reference_digest m) = 26" "list_all is_slug_char (reference_digest m)"
  using b32_digits_chars slug_char_lower_b32
  by (auto simp: reference_digest_def b32encode_16 lower_def length_b32_digits list_all_iff)

lemma reference_slug_shape:
  "reference_slug c \<noteq> []" "length (reference_slug c) \<le> 8" "list_all is_slug_char (reference_slug c)"
  by (auto simp: reference_slug_def Let_def list_all_iff is_slug_char_def is_lower_def dest!: in_set_takeD)

definition reference_text :: "pystr \<Rightarrow> pystr \<Rightarrow> pystr" where
  "reference_text c a = ''rtw_'' @ reference_slug c @ ''_'' @ reference_digest (reference_material a c)"

lemma reference_text_clean: "clean_link_text 40 (reference_text c a) \<and> length (reference_text c a) \<le> 39"
proof -
  have "list_all (\<lambda>x. \<not> is_space x \<and> \<not> is_control x) (reference_text c a)"
    using reference_slug_shape(3) [of c] reference_digest_shape(2) [of "reference_material a c"] slug_char_clean
    by (auto simp: reference_text_def list_all_iff is_space_def is_control_def)
  then have "list_all (\<lambda>x. \<not> is_space x) (reference_text c a)" "\<not> list_ex is_control (reference_text c a)"
    by (auto simp: list_all_iff list_ex_iff)
  moreover have "length (reference_text c a) \<le> 39"
    using reference_slug_shape(2) [of c] by (simp add: reference_text_def reference_digest_shape)
  ultimately show ?thesis
    using strip_no_space by (auto simp: clean_link_text_def reference_text_def)
qed

definition reference_input :: "pystr \<Rightarrow> bool" where
  "reference_input v = (v \<noteq> [] \<and> strip v = v \<and> length v \<le> 512)"

lemma validated_identifier_Inr [guards]: "validated_identifier v f = Inr w \<longleftrightarrow> w = v \<and> reference_input v"
  by (auto simp: validated_identifier_def reference_input_def)

lemma make_reference_Inr:
  "make_recovery_reference_id c a = Inr ref \<longleftrightarrow> reference_input c \<and> reference_input a \<and> ref = reference_text c a"
  using reference_text_clean [of c a]
  by (auto simp: make_recovery_reference_id_def guards Let_def REFERENCE_PREFIX_def reference_text_def)

text \<open>A reference exists for every pair of valid identifiers and always fits the provider's field:
  it has at most 39 characters and is accepted as the reference of a Payment Link request, so the
  defensive assertion in the code cannot fire.\<close>

lemma reference_fits:
  assumes "reference_input case_id" "reference_input account_id"
  shows "\<exists>ref. make_recovery_reference_id case_id account_id = Inr ref
    \<and> length ref \<le> 39 \<and> link_clean_text (JStr ref) ''reference_id'' 40 = Inr ref"
  using assms reference_text_clean [of case_id account_id]
  by (auto simp: make_reference_Inr link_clean_text_JStr)

lemma sample_reference_input: "reference_input ''case_1''" "reference_input ''acc_1''"
  unfolding reference_input_def by code_simp+

lemma reference_fits_example:
  "\<exists>ref. make_recovery_reference_id ''case_1'' ''acc_1'' = Inr ref \<and> length ref \<le> 39"
  using reference_fits [OF sample_reference_input] by blast

section \<open>Identity\<close>

lemma b32_digits_inj:
  "k \<le> 8 \<Longrightarrow> n < 32 ^ 8 \<Longrightarrow> m < 32 ^ 8 \<Longrightarrow> b32_digits k n = b32_digits k m \<Longrightarrow>
     n div 32 ^ (8 - k) = m div 32 ^ (8 - k)"
proof (induction k)
  case 0
  then show ?case by simp
next
  case (Suc k)
  define j where "j = 8 - Suc k"
  have j: "8 - k = Suc j" "[j..<8] = j # [Suc j..<8]"
    using Suc.prems(1) by (auto simp: j_def upt_conv_Cons)
  have "b32_digits (Suc k) x = b32_digits k x @ [b32_char (x div 32 ^ j mod 32)]" for x
    unfolding b32_digits_def j_def [symmetric] j by simp
  with Suc.prems have eq: "b32_digits k n = b32_digits k m" "n div 32 ^ j mod 32 = m div 32 ^ j mod 32"
    by (simp_all add: b32_char_inj)
  have "n div 32 ^ Suc j = m div 32 ^ Suc j" using Suc.IH Suc.prems eq(1) j(1) by simp
  then have "n div 32 ^ j div 32 = m div 32 ^ j div 32" by (metis div_mult2_eq power_Suc2)
  with eq(2) show ?case unfolding j_def [symmetric] by (metis div_mult_mod_eq)
qed

lemma be_nat_snoc [simp]: "be_nat (bs @ [b]) = 256 * be_nat bs + unat b"
  by (simp add: be_nat_def)

lemma be_nat_less: "be_nat bs < 256 ^ length bs"
proof (induction bs rule: rev_induct)
  case Nil
  then show ?case by (simp add: be_nat_def)
next
  case (snoc b bs)
  then show ?case using unat_byte_less [of b] by simp
qed

lemma base256_digit: "256 * a + u = 256 * b + v \<Longrightarrow> u < 256 \<Longrightarrow> v < 256 \<Longrightarrow> a = b \<and> u = v" for a b u v :: nat
proof -
  assume eq: "256 * a + u = 256 * b + v" and lt: "u < 256" "v < 256"
  have "(256 * a + u) div 256 = (256 * b + v) div 256" by (simp only: eq)
  with lt have "a = b" by simp
  with eq show "a = b \<and> u = v" by simp
qed

lemma be_nat_inj: "length xs = length ys \<Longrightarrow> be_nat xs = be_nat ys \<Longrightarrow> xs = ys"
proof (induction xs arbitrary: ys rule: rev_induct)
  case Nil
  then show ?case by simp
next
  case (snoc x xs)
  then obtain zs z where ys: "ys = zs @ [z]" by (cases ys rule: rev_cases) auto
  have "be_nat xs = be_nat zs \<and> unat x = unat z"
    using snoc.prems(2) unfolding ys be_nat_snoc by (rule base256_digit) (rule unat_byte_less)+
  then show ?case using snoc.IH [of zs] snoc.prems(1) ys by (auto simp: unsigned_word_eqI)
qed

lemma b32_digits_8_inj:
  assumes "length xs = 5" "length ys = 5" "b32_digits 8 (be_nat xs) = b32_digits 8 (be_nat ys)"
  shows "xs = ys"
proof -
  have "be_nat xs < 32 ^ 8" "be_nat ys < 32 ^ 8"
    using be_nat_less [of xs] be_nat_less [of ys] assms(1,2) by simp_all
  then have "be_nat xs = be_nat ys" using b32_digits_inj [of 8 "be_nat xs" "be_nat ys"] assms(3) by simp
  then show ?thesis using be_nat_inj assms(1,2) by simp
qed

lemma b32_digits_2_inj:
  assumes "b32_digits 2 (be_nat ([x] @ replicate 4 0)) = b32_digits 2 (be_nat ([y] @ replicate 4 0))"
  shows "x = y"
proof -
  have "replicate 4 (0 :: 8 word) = [0, 0, 0, 0]" by (simp add: numeral_eq_Suc)
  then have be: "be_nat ([b] @ replicate 4 0) = 4294967296 * unat b" for b
    by (simp add: be_nat_def)
  have lt: "4294967296 * unat b < 32 ^ 8" for b :: "8 word" using unat_byte_less [of b] by simp
  have "4294967296 * unat x div 32 ^ 6 = 4294967296 * unat y div 32 ^ 6"
    using b32_digits_inj [of 2, OF _ lt lt] assms unfolding be by simp
  moreover have "4294967296 * k div 32 ^ 6 = 4 * k" for k :: nat by simp
  ultimately have "unat x = unat y" by simp
  then show ?thesis by (simp add: unsigned_word_eqI)
qed

lemma lower_b32_inj: "is_b32_char a \<Longrightarrow> is_b32_char b \<Longrightarrow> lower_char a = lower_char b \<Longrightarrow> a = b"
proof -
  assume b32: "is_b32_char a" "is_b32_char b" and eq: "lower_char a = lower_char b"
  have "code (lower_char c) = (if is_upper c then code c + 32 else code c)" if "is_b32_char c" for c
    using that by (auto simp: is_b32_char_def lower_char_def is_upper_def)
  with b32 eq have "(if is_upper a then code a + 32 else code a) = (if is_upper b then code b + 32 else code b)"
    by metis
  with b32 have "code a = code b" by (auto simp: is_b32_char_def is_upper_def split: if_splits)
  then show "a = b" by (rule code_eqD)
qed

lemma lower_b32_list_inj:
  "\<forall>c\<in>set s. is_b32_char c \<Longrightarrow> \<forall>c\<in>set t. is_b32_char c \<Longrightarrow> lower s = lower t \<Longrightarrow> s = t"
  unfolding lower_def by (rule map_inj_on) (auto intro!: inj_onI lower_b32_inj)

lemma b32encode_16_inj:
  assumes "length xs = 16" "length ys = 16"
    and "rstrip_char (CHR ''='') (b32encode xs) = rstrip_char (CHR ''='') (b32encode ys)"
  shows "xs = ys"
proof -
  have single: "drop 15 zs = [zs ! 15]" if "length zs = 16" for zs :: bytes
    using that Cons_nth_drop_Suc [of 15 zs] by simp
  have parts: "take 5 xs = take 5 ys \<and> take 5 (drop 5 xs) = take 5 (drop 5 ys)
      \<and> take 5 (drop 10 xs) = take 5 (drop 10 ys) \<and> drop 15 xs = drop 15 ys"
    using assms(3) b32_digits_2_inj [of "xs ! 15" "ys ! 15"]
    by (simp add: b32encode_16 assms(1,2) length_b32_digits single b32_digits_8_inj)
  have "zs = take 5 zs @ take 5 (drop 5 zs) @ take 5 (drop 10 zs) @ drop 15 zs" for zs :: bytes
    using append_take_drop_id [of 5 zs] append_take_drop_id [of 5 "drop 5 zs"] append_take_drop_id [of 5 "drop 10 zs"]
    by simp
  with parts show ?thesis by metis
qed

lemma reference_digest_inj:
  assumes "reference_digest m = reference_digest n"
  shows "take 16 (sha256 m) = take 16 (sha256 n)"
proof -
  let ?b = "\<lambda>x. rstrip_char (CHR ''='') (b32encode (take 16 (sha256 x)))"
  have "\<forall>c\<in>set (?b x). is_b32_char c" for x
    using b32_digits_chars by (auto simp: b32encode_16)
  then have "?b m = ?b n"
    using assms lower_b32_list_inj unfolding reference_digest_def by blast
  then show ?thesis by (rule b32encode_16_inj [rotated 2]) simp_all
qed

lemma append_same_length: "xs @ us = ys @ vs \<Longrightarrow> length us = length vs \<Longrightarrow> us = vs"
  by (simp add: append_eq_append_conv)

lemma reference_material_utf8:
  "reference_material a c = utf8 (''retrywise:razorpay:recovery-reference:v1'' @ [CHR 0x00] @ a @ [CHR 0x00] @ c)"
  by (simp add: reference_material_def REFERENCE_NAMESPACE_def utf8_char_def byte_def)

lemma reference_material_inj:
  assumes "CHR 0x00 \<notin> set a" "CHR 0x00 \<notin> set a'" "reference_material a c = reference_material a' c'"
  shows "a = a' \<and> c = c'"
proof -
  have eq: "a @ CHR 0x00 # c = a' @ CHR 0x00 # c'"
    using assms(3) by (simp only: reference_material_utf8 utf8_inj) simp
  have split: "takeWhile (\<lambda>x. x \<noteq> CHR 0x00) (s @ CHR 0x00 # t) = s" if "CHR 0x00 \<notin> set s" for s t
    using that by (induction s) auto
  from eq have "a = a'" using split [OF assms(1), of c] split [OF assms(2), of c'] by simp
  with eq show ?thesis by simp
qed

text \<open>A reference names one case of one account: when two pairs of identifiers give the same
  reference and the account identifiers contain no NUL character, either the pairs are equal or the
  first sixteen bytes of SHA-256 collide on their two different digest inputs.\<close>

lemma reference_binds_case:
  assumes "make_recovery_reference_id c a = Inr ref" "make_recovery_reference_id c' a' = Inr ref"
    and "CHR 0x00 \<notin> set a" "CHR 0x00 \<notin> set a'"
  shows "(c, a) = (c', a')
    \<or> reference_material a c \<noteq> reference_material a' c'
      \<and> take 16 (sha256 (reference_material a c)) = take 16 (sha256 (reference_material a' c'))"
proof -
  have "(''rtw_'' @ reference_slug c @ ''_'') @ reference_digest (reference_material a c)
      = (''rtw_'' @ reference_slug c' @ ''_'') @ reference_digest (reference_material a' c')"
    using assms(1,2) by (simp add: make_reference_Inr reference_text_def)
  then have "reference_digest (reference_material a c) = reference_digest (reference_material a' c')"
    by (rule append_same_length) (simp add: reference_digest_shape)
  then have "take 16 (sha256 (reference_material a c)) = take 16 (sha256 (reference_material a' c'))"
    by (rule reference_digest_inj)
  then show ?thesis using reference_material_inj [OF assms(3,4), of c c'] by auto
qed

lemma reference_binds_case_example:
  "\<exists>ref. make_recovery_reference_id ''case_1'' ''acc_1'' = Inr ref
    \<and> ((''case_1'', ''acc_1'') = (''case_1'', ''acc_1'')
       \<or> reference_material ''acc_1'' ''case_1'' \<noteq> reference_material ''acc_1'' ''case_1'')"
  using reference_binds_case [of "''case_1''" "''acc_1''" _ "''case_1''" "''acc_1''"] sample_reference_input
  by (auto simp: make_reference_Inr)

text \<open>The digest input separates account and case by a NUL character, which an identifier may itself
  contain: two different pairs can then share one reference.\<close>

theorem reference_nul_ambiguous:
  "\<exists>ref. make_recovery_reference_id (CHR 0x00 # ''x'') ''acc'' = Inr ref
    \<and> make_recovery_reference_id ''x'' (''acc'' @ [CHR 0x00]) = Inr ref"
proof -
  have "reference_input (CHR 0x00 # ''x'')" "reference_input ''acc''" "reference_input ''x''"
    "reference_input (''acc'' @ [CHR 0x00])" "reference_slug (CHR 0x00 # ''x'') = reference_slug ''x''"
    unfolding reference_input_def reference_slug_def by code_simp+
  moreover have "reference_material ''acc'' (CHR 0x00 # ''x'') = reference_material (''acc'' @ [CHR 0x00]) ''x''"
    by (simp add: reference_material_utf8)
  ultimately show ?thesis by (simp add: make_reference_Inr reference_text_def)
qed

end
