(* ===== verification/Webhooks.thy ===== *)
theory Webhooks
  imports Wire
begin

text \<open>
  \<^verbatim>\<open>packages/razorpay/webhooks.py\<close>: authentication of a raw webhook body against the configured
  secrets, and its normalisation to a canonical event.

  A \<^verbatim>\<open>Mapping\<close> in an event is an association list in insertion order; the code iterates over a
  \<^verbatim>\<open>frozenset\<close> to copy allow-listed fields, so the order of a sanitized entity carries no meaning.
  \<^verbatim>\<open>_freeze_json\<close> and \<^verbatim>\<open>_thaw_json\<close> only change the mutability of containers and are the identity on
  values here. Of a body that both repeats a key and is otherwise not JSON, the message of the decode
  error is the one for invalid JSON here; in the code it is the one of the fault met first. The limits of
  the interpreter itself (nesting depth, digits of one integer literal) are not modelled.
\<close>

section \<open>Vocabulary\<close>

definition BASE_ENTITY_FIELDS :: "pystr list" where
  "BASE_ENTITY_FIELDS = [''id'', ''entity'', ''status'', ''created_at'']"

definition ENTITY_FIELD_ALLOWLIST :: "(pystr \<times> pystr list) list" where
  "ENTITY_FIELD_ALLOWLIST =
     [(''payment'', BASE_ENTITY_FIELDS @
         [''amount'', ''amount_refunded'', ''captured'', ''currency'', ''error_code'', ''error_reason'',
          ''error_source'', ''error_step'', ''invoice_id'', ''method'', ''order_id'', ''refund_status'']),
      (''order'', BASE_ENTITY_FIELDS @ [''amount'', ''amount_due'', ''amount_paid'', ''attempts'', ''currency'']),
      (''payment_link'', BASE_ENTITY_FIELDS @
         [''accept_partial'', ''amount'', ''amount_paid'', ''cancelled_at'', ''currency'', ''expire_by'',
          ''expired_at'', ''order_id'', ''reference_id'', ''upi_link'']),
      (''payment.downtime'', BASE_ENTITY_FIELDS @
         [''bank'', ''issuer'', ''method'', ''network'', ''resolved_at'', ''scheduled'', ''severity''])]"

datatype canonical_event_type =
    PAYMENT_FAILED | PAYMENT_CAPTURED | PAYMENT_AUTHORIZED | ORDER_PAID
  | PAYMENT_DOWNTIME_STARTED | PAYMENT_DOWNTIME_UPDATED | PAYMENT_DOWNTIME_RESOLVED
  | PAYMENT_LINK_PAID | PAYMENT_LINK_PARTIALLY_PAID | PAYMENT_LINK_CANCELLED | PAYMENT_LINK_EXPIRED
  | UNKNOWN_EVENT

fun event_type_value :: "canonical_event_type \<Rightarrow> pystr" where
  "event_type_value PAYMENT_FAILED = ''payment.failed''"
| "event_type_value PAYMENT_CAPTURED = ''payment.captured''"
| "event_type_value PAYMENT_AUTHORIZED = ''payment.authorized''"
| "event_type_value ORDER_PAID = ''order.paid''"
| "event_type_value PAYMENT_DOWNTIME_STARTED = ''payment.downtime.started''"
| "event_type_value PAYMENT_DOWNTIME_UPDATED = ''payment.downtime.updated''"
| "event_type_value PAYMENT_DOWNTIME_RESOLVED = ''payment.downtime.resolved''"
| "event_type_value PAYMENT_LINK_PAID = ''payment_link.paid''"
| "event_type_value PAYMENT_LINK_PARTIALLY_PAID = ''payment_link.partially_paid''"
| "event_type_value PAYMENT_LINK_CANCELLED = ''payment_link.cancelled''"
| "event_type_value PAYMENT_LINK_EXPIRED = ''payment_link.expired''"
| "event_type_value UNKNOWN_EVENT = ''unknown''"

record event_spec =
  es_canonical_type :: canonical_event_type
  es_payload_key :: pystr
  es_resource_type :: pystr

definition event_spec_of :: "canonical_event_type \<Rightarrow> pystr \<Rightarrow> event_spec" where
  "event_spec_of t k = \<lparr>es_canonical_type = t, es_payload_key = k, es_resource_type = k\<rparr>"

definition EVENT_SPECS :: "(pystr \<times> event_spec) list" where
  "EVENT_SPECS =
     [(''payment.failed'', event_spec_of PAYMENT_FAILED ''payment''),
      (''payment.captured'', event_spec_of PAYMENT_CAPTURED ''payment''),
      (''payment.authorized'', event_spec_of PAYMENT_AUTHORIZED ''payment''),
      (''order.paid'', event_spec_of ORDER_PAID ''order''),
      (''payment.downtime.started'', event_spec_of PAYMENT_DOWNTIME_STARTED ''payment.downtime''),
      (''payment.downtime.updated'', event_spec_of PAYMENT_DOWNTIME_UPDATED ''payment.downtime''),
      (''payment.downtime.resolved'', event_spec_of PAYMENT_DOWNTIME_RESOLVED ''payment.downtime''),
      (''payment_link.paid'', event_spec_of PAYMENT_LINK_PAID ''payment_link''),
      (''payment_link.partially_paid'', event_spec_of PAYMENT_LINK_PARTIALLY_PAID ''payment_link''),
      (''payment_link.cancelled'', event_spec_of PAYMENT_LINK_CANCELLED ''payment_link''),
      (''payment_link.expired'', event_spec_of PAYMENT_LINK_EXPIRED ''payment_link'')]"

section \<open>Headers\<close>

record webhook_headers =
  wh_signature :: pystr
  wh_event_id :: pystr

definition headers_from_mapping :: "(pystr \<times> pystr) list \<Rightarrow> exn + webhook_headers" where
  "headers_from_mapping headers =
     (let lowered = dict_of (map (\<lambda>(k, v). (lower k, v)) headers);
          signature = map_of lowered ''x-razorpay-signature'';
          event_id = map_of lowered ''x-razorpay-event-id''
      in case signature of
           None \<Rightarrow> Inl (WebhookVerificationError ''missing X-Razorpay-Signature header'')
         | Some sig \<Rightarrow>
            bindE (raise_if (strip sig = []) (WebhookVerificationError ''missing X-Razorpay-Signature header'')) (\<lambda>_.
            (case event_id of
               None \<Rightarrow> Inl (WebhookDecodeError ''missing x-razorpay-event-id header'')
             | Some eid \<Rightarrow>
                bindE (raise_if (strip eid = []) (WebhookDecodeError ''missing x-razorpay-event-id header'')) (\<lambda>_.
                bindE (raise_if (eid \<noteq> strip eid \<or> 256 < length eid)
                  (WebhookDecodeError ''invalid x-razorpay-event-id header'')) (\<lambda>_.
                Inr \<lparr>wh_signature = sig, wh_event_id = eid\<rparr>)))))"

section \<open>Signatures\<close>

definition normalise_secret :: "bytes \<Rightarrow> exn + bytes" where
  "normalise_secret secret =
     bindE (raise_if (secret = []) (ValueError ''webhook secret cannot be empty'')) (\<lambda>_. Inr secret)"

definition calculate_webhook_signature :: "bytes \<Rightarrow> bytes \<Rightarrow> exn + pystr" where
  "calculate_webhook_signature raw_body secret =
     bindE (normalise_secret secret) (\<lambda>key. Inr (hmac_sha256_hex key raw_body))"

text \<open>\<^verbatim>\<open>_SIGNATURE_RE.fullmatch\<close>.\<close>

definition signature_has_valid_shape :: "pystr \<Rightarrow> bool" where
  "signature_has_valid_shape s = (length s = 64 \<and> list_all is_hex s)"

fun match_loop :: "bytes \<Rightarrow> pystr \<Rightarrow> bytes list \<Rightarrow> bool \<Rightarrow> exn + bool" where
  "match_loop raw_body candidate [] matched = Inr matched"
| "match_loop raw_body candidate (secret # rest) matched =
     bindE (calculate_webhook_signature raw_body secret) (\<lambda>expected.
     match_loop raw_body candidate rest (expected = candidate \<or> matched))"

definition is_valid_webhook_signature :: "bytes \<Rightarrow> pystr \<Rightarrow> bytes list \<Rightarrow> exn + bool" where
  "is_valid_webhook_signature raw_body signature secrets =
     bindE (traverseE normalise_secret secrets) (\<lambda>configured.
     bindE (raise_if (configured = []) (ValueError ''at least one webhook secret is required'')) (\<lambda>_.
       let shape = signature_has_valid_shape signature;
           candidate = (if shape then lower signature else replicate 64 (CHR ''0''))
       in bindE (match_loop raw_body candidate configured False) (\<lambda>matched. Inr (shape \<and> matched))))"

definition verify_webhook_signature :: "bytes \<Rightarrow> pystr \<Rightarrow> bytes list \<Rightarrow> exn + unit" where
  "verify_webhook_signature raw_body signature secrets =
     bindE (is_valid_webhook_signature raw_body signature secrets) (\<lambda>ok.
     raise_if (\<not> ok) (WebhookVerificationError ''invalid Razorpay webhook signature''))"

section \<open>Events\<close>

record canonical_event =
  ev_event_id :: pystr
  ev_provider_account_id :: pystr
  ev_event_name :: pystr
  ev_event_type :: canonical_event_type
  ev_occurred_at_epoch :: int
  ev_resource_type :: pystr
  ev_resource_id :: "pystr option"
  ev_resource :: "(pystr \<times> json) list"
  ev_related_resources :: "(pystr \<times> (pystr \<times> json) list) list"
  ev_raw_body_sha256 :: pystr
  ev_schema_version :: int

definition event_to_dict :: "canonical_event \<Rightarrow> json" where
  "event_to_dict e = JObj
     [(''schema_version'', JInt (ev_schema_version e)),
      (''event_id'', JStr (ev_event_id e)),
      (''provider_account_id'', JStr (ev_provider_account_id e)),
      (''event_name'', JStr (ev_event_name e)),
      (''event_type'', JStr (event_type_value (ev_event_type e))),
      (''occurred_at_epoch'', JInt (ev_occurred_at_epoch e)),
      (''resource_type'', JStr (ev_resource_type e)),
      (''resource_id'', (case ev_resource_id e of None \<Rightarrow> JNull | Some i \<Rightarrow> JStr i)),
      (''resource'', JObj (ev_resource e)),
      (''related_resources'', JObj (map (\<lambda>(k, r). (k, JObj r)) (ev_related_resources e))),
      (''raw_body_sha256'', JStr (ev_raw_body_sha256 e))]"

abbreviation decode_error :: "pystr \<Rightarrow> exn + 'a" where
  "decode_error msg \<equiv> Inl (WebhookDecodeError msg)"

fun reject_duplicates :: "(pystr \<times> json) list \<Rightarrow> (pystr \<times> json) list \<Rightarrow> (pystr \<times> json) list option" where
  "reject_duplicates [] decoded = Some decoded"
| "reject_duplicates ((key, value) # rest) decoded =
     (if key \<in> fst ` set decoded then None else reject_duplicates rest (dict_put key value decoded))"

definition reject_duplicate_object_pairs :: pairs_hook where
  "reject_duplicate_object_pairs pairs = reject_duplicates pairs []"

definition required_string :: "(pystr \<times> json) list \<Rightarrow> pystr \<Rightarrow> exn + pystr" where
  "required_string container fld = (case obj_get container fld of
      JStr s \<Rightarrow> if s = [] \<or> s \<noteq> strip s then decode_error (fld @ '' must be a non-empty string'') else Inr s
    | _ \<Rightarrow> decode_error (fld @ '' must be a non-empty string''))"

definition required_epoch :: "(pystr \<times> json) list \<Rightarrow> pystr \<Rightarrow> exn + int" where
  "required_epoch container fld = (case obj_get container fld of
      JInt i \<Rightarrow> if i < 0 then decode_error (fld @ '' must be a non-negative integer epoch'') else Inr i
    | _ \<Rightarrow> decode_error (fld @ '' must be a non-negative integer epoch''))"

definition extract_entity :: "(pystr \<times> json) list \<Rightarrow> pystr \<Rightarrow> exn + (pystr \<times> json) list" where
  "extract_entity payload key = (case obj_get payload key of
      JObj wrapper \<Rightarrow>
        (case obj_get wrapper ''entity'' of
           JObj entity \<Rightarrow> Inr entity
         | _ \<Rightarrow> decode_error (''payload.'' @ key @ ''.entity must be an object''))
    | _ \<Rightarrow> decode_error (''payload.'' @ key @ '' must be an object''))"

fun is_scalar :: "json \<Rightarrow> bool" where
  "is_scalar JNull = True"
| "is_scalar (JBool _) = True"
| "is_scalar (JInt _) = True"
| "is_scalar (JStr _) = True"
| "is_scalar _ = False"

definition allowed_fields :: "pystr \<Rightarrow> pystr list" where
  "allowed_fields resource_type = (case map_of ENTITY_FIELD_ALLOWLIST resource_type of
      None \<Rightarrow> BASE_ENTITY_FIELDS | Some fs \<Rightarrow> fs)"

definition sanitize_entity :: "pystr \<Rightarrow> (pystr \<times> json) list \<Rightarrow> (pystr \<times> json) list" where
  "sanitize_entity resource_type entity =
     map (\<lambda>k. (k, obj_get entity k))
       (filter (\<lambda>k. k \<in> fst ` set entity \<and> is_scalar (obj_get entity k)) (allowed_fields resource_type))"

fun related_entities :: "(pystr \<times> json) list \<Rightarrow> (pystr \<times> (pystr \<times> json) list) list" where
  "related_entities [] = []"
| "related_entities ((key, wrapper) # rest) = (case wrapper of
      JObj w \<Rightarrow> (case obj_get w ''entity'' of
                   JObj entity \<Rightarrow> (key, sanitize_entity key entity) # related_entities rest
                 | _ \<Rightarrow> related_entities rest)
    | _ \<Rightarrow> related_entities rest)"

text \<open>The resource of an event outside the catalogue: the first related entity with an identifier.\<close>

fun first_identified :: "(pystr \<times> (pystr \<times> json) list) list \<Rightarrow> pystr \<times> (pystr \<times> json) list \<times> pystr option" where
  "first_identified [] = (''unknown'', [], None)"
| "first_identified ((candidate_type, candidate) # rest) = (case obj_get candidate ''id'' of
      JStr i \<Rightarrow> if i = [] then first_identified rest else (candidate_type, candidate, Some i)
    | _ \<Rightarrow> first_identified rest)"

definition known_resource :: "event_spec \<Rightarrow> (pystr \<times> json) list \<Rightarrow> exn + (pystr \<times> json) list \<times> pystr" where
  "known_resource spec payload =
     bindE (extract_entity payload (es_payload_key spec)) (\<lambda>entity.
       let resource = sanitize_entity (es_payload_key spec) entity;
           bad = decode_error (''payload.'' @ es_payload_key spec @ ''.entity.id must be a non-empty string'')
       in case obj_get resource ''id'' of
            JStr i \<Rightarrow> if i = [] then bad else Inr (resource, i)
          | _ \<Rightarrow> bad)"

definition decode_webhook_body :: "bytes \<Rightarrow> exn + json" where
  "decode_webhook_body raw_body = (case utf8_decode raw_body of
      None \<Rightarrow> decode_error ''webhook body is not valid UTF-8 JSON''
    | Some s \<Rightarrow>
       (case loads_with reject_duplicate_object_pairs s of
          Some v \<Rightarrow> Inr v
        | None \<Rightarrow> (case loads s of
                     Some _ \<Rightarrow> decode_error ''webhook JSON contains a duplicate object key''
                   | None \<Rightarrow> decode_error ''webhook body is not valid UTF-8 JSON'')))"

definition normalize_payload ::
  "pystr \<Rightarrow> pystr \<Rightarrow> pystr \<Rightarrow> int \<Rightarrow> (pystr \<times> json) list \<Rightarrow> pystr \<Rightarrow> exn + canonical_event" where
  "normalize_payload event_id account_id event_name occurred_at payload digest =
     (let related = related_entities payload;
          event = \<lambda>etype rtype rid resource.
            \<lparr>ev_event_id = event_id, ev_provider_account_id = account_id, ev_event_name = event_name,
             ev_event_type = etype, ev_occurred_at_epoch = occurred_at, ev_resource_type = rtype,
             ev_resource_id = rid, ev_resource = resource, ev_related_resources = related,
             ev_raw_body_sha256 = digest, ev_schema_version = 1\<rparr>
      in case map_of EVENT_SPECS event_name of
           None \<Rightarrow> (case first_identified related of (rtype, resource, rid) \<Rightarrow> Inr (event UNKNOWN_EVENT rtype rid resource))
         | Some spec \<Rightarrow>
            bindE (known_resource spec payload) (\<lambda>(resource, rid).
            Inr (event (es_canonical_type spec) (es_resource_type spec) (Some rid) resource)))"

definition normalize_verified_webhook :: "bytes \<Rightarrow> pystr \<Rightarrow> pystr option \<Rightarrow> exn + canonical_event" where
  "normalize_verified_webhook raw_body event_id expected_account_id =
     bindE (raise_if (event_id = [] \<or> event_id \<noteq> strip event_id)
       (WebhookDecodeError ''event_id must be a non-empty string'')) (\<lambda>_.
     bindE (raise_if (256 < length event_id) (WebhookDecodeError ''event_id exceeds 256 characters'')) (\<lambda>_.
     bindE (decode_webhook_body raw_body) (\<lambda>root.
     (case root of
        JObj decoded \<Rightarrow>
          bindE (required_string decoded ''account_id'') (\<lambda>account_id.
          bindE (raise_if (expected_account_id \<noteq> None \<and> Some account_id \<noteq> expected_account_id)
            (AccountMismatchError ''webhook account_id does not match endpoint account'')) (\<lambda>_.
          bindE (required_string decoded ''event'') (\<lambda>event_name.
          bindE (required_epoch decoded ''created_at'') (\<lambda>occurred_at.
          (case obj_get decoded ''payload'' of
             JObj payload \<Rightarrow>
               normalize_payload event_id account_id event_name occurred_at payload (sha256_hex raw_body)
           | _ \<Rightarrow> decode_error ''payload must be an object'')))))
      | _ \<Rightarrow> decode_error ''webhook JSON root must be an object''))))"

definition verify_and_normalize_webhook ::
  "bytes \<Rightarrow> webhook_headers \<Rightarrow> bytes list \<Rightarrow> pystr option \<Rightarrow> exn + canonical_event" where
  "verify_and_normalize_webhook raw_body headers secrets expected_account_id =
     bindE (verify_webhook_signature raw_body (wh_signature headers) secrets) (\<lambda>_.
     normalize_verified_webhook raw_body (wh_event_id headers) expected_account_id)"

end
