(* ===== verification/Inbox.thy ===== *)
theory Inbox
  imports Webhooks
begin

text \<open>
  \<^verbatim>\<open>packages/razorpay/inbox.py\<close>: the persistence port for at-least-once webhook delivery and its
  in-memory implementation. The port is the locale \<open>webhook_inbox\<close>; what at-least-once delivery turns
  into is proved inside it and then transported to the in-memory inbox by interpretation.
\<close>

section \<open>Records\<close>

datatype inbox_write_result = STORED | DUPLICATE

record inbox_record =
  ir_event :: canonical_event
  ir_received_at_epoch :: int

type_synonym inbox_key = "pystr \<times> pystr"

definition mk_inbox_record :: "canonical_event \<Rightarrow> int \<Rightarrow> exn + inbox_record" where
  "mk_inbox_record event received_at_epoch =
     bindE (raise_if (received_at_epoch < 0) (ValueError ''received_at_epoch must be a non-negative integer'')) (\<lambda>_.
     Inr \<lparr>ir_event = event, ir_received_at_epoch = received_at_epoch\<rparr>)"

definition dedupe_key :: "inbox_record \<Rightarrow> inbox_key" where
  "dedupe_key r = (ev_provider_account_id (ir_event r), ev_event_id (ir_event r))"

section \<open>The in-memory inbox\<close>

type_synonym inbox = "(inbox_key \<times> inbox_record) list"

text \<open>Two records report the same signed content.\<close>

definition same_content :: "inbox_record \<Rightarrow> inbox_record \<Rightarrow> bool" where
  "same_content a b =
     (ev_raw_body_sha256 (ir_event a) = ev_raw_body_sha256 (ir_event b)
      \<and> ev_event_name (ir_event a) = ev_event_name (ir_event b))"

definition store_once :: "inbox_record \<Rightarrow> inbox \<Rightarrow> exn + inbox_write_result \<times> inbox" where
  "store_once record records =
     (let key = dedupe_key record
      in case map_of records key of
           None \<Rightarrow> Inr (STORED, dict_put key record records)
         | Some existing \<Rightarrow>
             if \<not> same_content existing record
             then Inl (InboxConflictError ''provider event id was reused with different content'')
             else Inr (DUPLICATE, records))"

definition inbox_get :: "pystr \<Rightarrow> pystr \<Rightarrow> inbox \<Rightarrow> inbox_record option" where
  "inbox_get provider_account_id event_id records = map_of records (provider_account_id, event_id)"

definition inbox_len :: "inbox \<Rightarrow> nat" where
  "inbox_len records = length records"

section \<open>The port\<close>

text \<open>\<^verbatim>\<open>WebhookInbox\<close>: uniqueness on the key, and reuse of a key with different content surfaced as a
  conflict. \<open>store\<close> and \<open>find\<close> are the operations, \<open>key\<close> and \<open>same\<close> the identity and the content
  comparison of records.\<close>

locale webhook_inbox =
  fixes store :: "'r \<Rightarrow> 's \<Rightarrow> exn + inbox_write_result \<times> 's"
    and lookup :: "'s \<Rightarrow> 'k \<Rightarrow> 'r option"
    and key :: "'r \<Rightarrow> 'k"
    and same :: "'r \<Rightarrow> 'r \<Rightarrow> bool"
  assumes store_new: "lookup s (key r) = None \<Longrightarrow>
      \<exists>s'. store r s = Inr (STORED, s') \<and> lookup s' = (lookup s)(key r \<mapsto> r)"
    and store_known: "lookup s (key r) = Some q \<Longrightarrow> same q r \<Longrightarrow> store r s = Inr (DUPLICATE, s)"
    and store_reused: "lookup s (key r) = Some q \<Longrightarrow> \<not> same q r \<Longrightarrow> \<exists>m. store r s = Inl (InboxConflictError m)"
begin

text \<open>A sequence of deliveries: the answer to each and the final inbox. A refused delivery leaves it as it was.\<close>

fun deliver :: "'r list \<Rightarrow> 's \<Rightarrow> (exn + inbox_write_result) list \<times> 's" where
  "deliver [] s = ([], s)"
| "deliver (r # rs) s = (case store r s of
      Inl e \<Rightarrow> (Inl e # fst (deliver rs s), snd (deliver rs s))
    | Inr (w, s1) \<Rightarrow> (Inr w # fst (deliver rs s1), snd (deliver rs s1)))"

lemma deliver_length: "length (fst (deliver rs s)) = length rs"
  by (induction rs arbitrary: s) (auto split: sum.split prod.split)

lemma store_cases:
  obtains (new) s' where "lookup s (key r) = None" "store r s = Inr (STORED, s')" "lookup s' = (lookup s)(key r \<mapsto> r)"
  | (known) q where "lookup s (key r) = Some q" "same q r" "store r s = Inr (DUPLICATE, s)"
  | (reused) q m where "lookup s (key r) = Some q" "\<not> same q r" "store r s = Inl (InboxConflictError m)"
  using store_new store_known store_reused by (metis option.exhaust)

lemma deliver_first_wins:
  "lookup (snd (deliver rs s)) k = (case lookup s k of Some q \<Rightarrow> Some q | None \<Rightarrow> find (\<lambda>r. key r = k) rs)"
proof (induction rs arbitrary: s)
  case Nil
  then show ?case by (simp split: option.split)
next
  case (Cons r rs)
  show ?case
    by (cases rule: store_cases [of s r]) (auto simp: Cons.IH split: option.splits prod.splits)
qed

text \<open>How often a key was answered with \<open>STORED\<close>.\<close>

definition stores_of :: "'k \<Rightarrow> 'r list \<Rightarrow> (exn + inbox_write_result) list \<Rightarrow> nat" where
  "stores_of k rs out = length (filter (\<lambda>(r, w). key r = k \<and> w = Inr STORED) (zip rs out))"

lemma stores_of_simps [simp]:
  "stores_of k [] out = 0"
  "stores_of k (r # rs) (w # out) = (if key r = k \<and> w = Inr STORED then 1 else 0) + stores_of k rs out"
  by (simp_all add: stores_of_def)

lemma deliver_stores_once:
  "stores_of k rs (fst (deliver rs s)) = (if lookup s k = None \<and> (\<exists>r\<in>set rs. key r = k) then 1 else 0)"
proof (induction rs arbitrary: s)
  case Nil
  then show ?case by simp
next
  case (Cons r rs)
  show ?case
    by (cases rule: store_cases [of s r]) (auto simp: Cons.IH)
qed

end

section \<open>The in-memory inbox keeps the contract\<close>

lemma map_of_dict_put: "map_of (dict_put k v d) = (map_of d)(k \<mapsto> v)"
  by (induction k v d rule: dict_put.induct) auto

interpretation memory_inbox: webhook_inbox store_once map_of dedupe_key same_content
  by unfold_locales (auto simp: store_once_def Let_def map_of_dict_put)

lemma store_once_distinct:
  "store_once r s = Inr (w, s') \<Longrightarrow> distinct (map fst s) \<Longrightarrow> distinct (map fst s')"
  by (auto simp: store_once_def Let_def dict_put_new map_of_eq_None_iff split: option.splits if_splits)

section \<open>Exactly once\<close>

text \<open>At-least-once delivery becomes exactly-once storage: whatever sequence of deliveries reaches an
  empty inbox, each identity is answered \<open>STORED\<close> exactly once when it occurs at all and never
  otherwise, and the record kept for it is the first one delivered; later copies and records reusing the
  identity with other content change nothing.\<close>

lemma inbox_exactly_once:
  "memory_inbox.stores_of k rs (fst (memory_inbox.deliver rs [])) = (if \<exists>r\<in>set rs. dedupe_key r = k then 1 else 0)
   \<and> map_of (snd (memory_inbox.deliver rs [])) k = find (\<lambda>r. dedupe_key r = k) rs"
  by (simp add: memory_inbox.deliver_stores_once memory_inbox.deliver_first_wins)

text \<open>Reuse of a delivery identity with other signed content is surfaced as a conflict and never
  overwrites what is stored, at every later point of a run of deliveries.\<close>

lemma reused_identity_conflicts:
  assumes "inbox_get (ev_provider_account_id (ir_event r)) (ev_event_id (ir_event r)) records = Some q"
    and "\<not> same_content q r"
  shows "\<exists>m. store_once r (snd (memory_inbox.deliver rs records)) = Inl (InboxConflictError m)"
proof -
  have "map_of (snd (memory_inbox.deliver rs records)) (dedupe_key r) = Some q"
    using assms(1) by (simp add: memory_inbox.deliver_first_wins inbox_get_def dedupe_key_def)
  then show ?thesis using assms(2) by (rule memory_inbox.store_reused)
qed

definition sample_event :: "pystr \<Rightarrow> pystr \<Rightarrow> canonical_event" where
  "sample_event eid digest = \<lparr>ev_event_id = eid, ev_provider_account_id = ''acc_1'', ev_event_name = ''payment.failed'',
     ev_event_type = PAYMENT_FAILED, ev_occurred_at_epoch = 1700000000, ev_resource_type = ''payment'',
     ev_resource_id = Some ''pay_1'', ev_resource = [(''id'', JStr ''pay_1'')], ev_related_resources = [],
     ev_raw_body_sha256 = digest, ev_schema_version = 1\<rparr>"

definition sample_record :: "pystr \<Rightarrow> pystr \<Rightarrow> inbox_record" where
  "sample_record eid digest = \<lparr>ir_event = sample_event eid digest, ir_received_at_epoch = 1700000001\<rparr>"

lemma reused_identity_conflicts_example:
  "\<exists>m. store_once (sample_record ''evt_1'' ''bb'') (snd (memory_inbox.deliver [sample_record ''evt_2'' ''cc'']
      [((''acc_1'', ''evt_1''), sample_record ''evt_1'' ''aa'')])) = Inl (InboxConflictError m)"
  by (rule reused_identity_conflicts [where q = "sample_record ''evt_1'' ''aa''"])
     (simp_all add: inbox_get_def sample_record_def sample_event_def same_content_def)

end
