(* ===== verification/Webhook_Spec.thy ===== *)
theory Webhook_Spec
  imports Webhooks
begin

text \<open>
  What the webhook boundary promises: only a body authenticated by a configured secret becomes an
  event, the event carries allow-listed scalar fields only, an object with a repeated key is refused
  wherever it occurs, and a well-formed body is accepted.
\<close>

section \<open>Signatures\<close>

lemma is_hex_lower_char: "is_lower_hex (lower_char c) \<Longrightarrow> is_hex c"
  by (auto simp: lower_char_def is_lower_hex_def is_hex_def is_digit_def is_upper_def split: if_splits)

lemma match_loop_Inr:
  "[] \<notin> set secrets \<Longrightarrow>
     match_loop body candidate secrets m = Inr (m \<or> (\<exists>k\<in>set secrets. candidate = hmac_sha256_hex k body))"
  by (induction secrets arbitrary: m) (auto simp: calculate_webhook_signature_def normalise_secret_def)

lemma traverse_secrets:
  "traverseE normalise_secret secrets =
     (if [] \<in> set secrets then Inl (ValueError ''webhook secret cannot be empty'') else Inr secrets)"
proof (induction secrets)
  case Nil
  then show ?case by simp
next
  case (Cons k ks)
  then show ?case by (cases "k = []") (simp_all add: normalise_secret_def)
qed

lemma shape_of_match:
  assumes "lower signature = hmac_sha256_hex k body"
  shows "signature_has_valid_shape signature"
proof -
  have "is_digest (lower signature)" unfolding assms by simp
  then show ?thesis
    by (auto simp: is_digest_def lower_def signature_has_valid_shape_def list_all_iff is_hex_lower_char)
qed

lemma is_valid_eq:
  "is_valid_webhook_signature body signature secrets =
     (if [] \<in> set secrets then Inl (ValueError ''webhook secret cannot be empty'')
      else if secrets = [] then Inl (ValueError ''at least one webhook secret is required'')
      else Inr (\<exists>k\<in>set secrets. lower signature = hmac_sha256_hex k body))"
proof (cases "signature_has_valid_shape signature")
  case True
  then show ?thesis
    by (simp add: is_valid_webhook_signature_def traverse_secrets match_loop_Inr)
next
  case False
  then have "\<not> (\<exists>k\<in>set secrets. lower signature = hmac_sha256_hex k body)" using shape_of_match by blast
  with False show ?thesis
    by (simp add: is_valid_webhook_signature_def traverse_secrets match_loop_Inr)
qed

text \<open>Signature checking with rotation: the check raises on an empty secret and on an empty
  configuration, and otherwise says whether the signature, compared without regard to case, is the
  HMAC of the exact body under one of the configured secrets, whatever its position. A signature of
  any other shape is never accepted, even when a secret's HMAC happened to be all zeros.\<close>

lemma signature_check:
  "is_valid_webhook_signature body signature secrets =
     (if [] \<in> set secrets then Inl (ValueError ''webhook secret cannot be empty'')
      else if secrets = [] then Inl (ValueError ''at least one webhook secret is required'')
      else Inr (\<exists>k\<in>set secrets. lower signature = hmac_sha256_hex k body))"
  by (rule is_valid_eq)

lemma verify_signature_Inr [guards]:
  "verify_webhook_signature body signature secrets = Inr u \<longleftrightarrow>
     secrets \<noteq> [] \<and> [] \<notin> set secrets \<and> (\<exists>k\<in>set secrets. lower signature = hmac_sha256_hex k body)"
  by (auto simp: verify_webhook_signature_def is_valid_eq)

section \<open>Repeated keys\<close>

fun unique_keys :: "json \<Rightarrow> bool" where
  "unique_keys (JArr vs) = list_all unique_keys vs"
| "unique_keys (JObj kvs) = (distinct (map fst kvs) \<and> list_all (\<lambda>(_, v). unique_keys v) kvs)"
| "unique_keys _ = True"

lemma reject_duplicates_eq:
  "reject_duplicates kvs d =
     (if distinct (map fst kvs) \<and> fst ` set kvs \<inter> fst ` set d = {} then Some (d @ kvs) else None)"
proof (induction kvs d rule: reject_duplicates.induct)
  case (1 d)
  then show ?case by simp
next
  case (2 k v rest d)
  show ?case
  proof (cases "k \<in> fst ` set d")
    case True
    then show ?thesis by auto
  next
    case False
    with 2 show ?thesis by (auto simp: dict_put_new)
  qed
qed

lemma reject_pairs_eq:
  "reject_duplicate_object_pairs kvs = (if distinct (map fst kvs) then Some kvs else None)"
  by (simp add: reject_duplicate_object_pairs_def reject_duplicates_eq)

text \<open>The strict scanner is the scanner that keeps every pair, cut down to the values it may return.\<close>

definition keep_if :: "('a \<Rightarrow> bool) \<Rightarrow> ('a \<times> pystr) option \<Rightarrow> ('a \<times> pystr) option" where
  "keep_if P m = (case m of None \<Rightarrow> None | Some (v, r) \<Rightarrow> if P v then Some (v, r) else None)"

lemma keep_if_simps [simp]:
  "keep_if P None = None"
  "keep_if P (Some (v, r)) = (if P v then Some (v, r) else None)"
  by (simp_all add: keep_if_def)

lemma keep_if_Cons [simp]:
  "keep_if (list_all P) (map_option (\<lambda>(vs, r). (v # vs, r)) m) =
     (if P v then map_option (\<lambda>(vs, r). (v # vs, r)) (keep_if (list_all P) m) else None)"
  by (cases m) auto

abbreviation unique_members :: "(pystr \<times> json) list \<Rightarrow> bool" where
  "unique_members kvs \<equiv> list_all (\<lambda>(_, v). unique_keys v) kvs"

lemma plain_hooks [simp]:
  "on_pairs (plain h) = h"
  "on_int (plain h) t = Some (JInt (literal_int t))"
  "on_float (plain h) t = Some (JFloat t)"
  "on_constant (plain h) t = Some (JFloat t)"
  by (simp_all add: plain_def)

lemma scan_atom_unique: "scan_atom (plain h) s = Some (v, r) \<Longrightarrow> unique_keys v"
  by (auto simp: scan_atom_def scan_number_def scan_constant_def
      split: list.splits if_splits option.splits prod.splits)

lemma scan_atom_plain: "scan_atom (plain h) s = scan_atom (plain Some) s"
  unfolding scan_atom_def scan_number_def scan_constant_def plain_hooks by simp

lemma keep_if_atom: "keep_if unique_keys (scan_atom (plain h) s) = scan_atom (plain Some) s"
  using scan_atom_unique [of Some] scan_atom_plain [of h] by (cases "scan_atom (plain Some) s") auto

lemma scan_strict:
  "scan_value (plain reject_duplicate_object_pairs) n s = keep_if unique_keys (scan_value (plain Some) n s)
   \<and> scan_elems (plain reject_duplicate_object_pairs) n s = keep_if (list_all unique_keys) (scan_elems (plain Some) n s)
   \<and> scan_members (plain reject_duplicate_object_pairs) n s = keep_if unique_members (scan_members (plain Some) n s)"
proof (induction n arbitrary: s)
  case 0
  then show ?case by (simp add: scan_value.simps scan_elems.simps scan_members.simps)
next
  case (Suc n)
  have V: "scan_value (plain reject_duplicate_object_pairs) n u = keep_if unique_keys (scan_value (plain Some) n u)" for u
    using Suc by blast
  have E: "scan_elems (plain reject_duplicate_object_pairs) n u = keep_if (list_all unique_keys) (scan_elems (plain Some) n u)" for u
    using Suc by blast
  have M: "scan_members (plain reject_duplicate_object_pairs) n u = keep_if unique_members (scan_members (plain Some) n u)" for u
    using Suc by blast
  have "scan_value (plain reject_duplicate_object_pairs) (Suc n) s = keep_if unique_keys (scan_value (plain Some) (Suc n) s)"
  proof (cases s)
    case Nil
    then show ?thesis by (simp add: scan_value.simps)
  next
    case (Cons c r)
    consider (str) "c = CHR 0x22" | (obj) "c = CHR ''{''" | (arr) "c = CHR ''[''"
      | (atom) "c \<noteq> CHR 0x22" "c \<noteq> CHR ''{''" "c \<noteq> CHR ''[''" by blast
    then show ?thesis
    proof cases
      case str
      then show ?thesis by (cases "scan_str r") (auto simp: Cons scan_value.simps)
    next
      case obj
      show ?thesis
      proof (cases "skip_ws r")
        case Nil
        then show ?thesis by (simp add: obj Cons scan_value.simps)
      next
        case skip: (Cons d r')
        then show ?thesis
          by (cases "d = CHR ''}''"; cases "scan_members (plain Some) n (d # r')")
             (auto simp: obj Cons skip scan_value.simps M reject_pairs_eq)
      qed
    next
      case arr
      show ?thesis
      proof (cases "skip_ws r")
        case Nil
        then show ?thesis by (simp add: arr Cons scan_value.simps)
      next
        case skip: (Cons d r')
        then show ?thesis
          by (cases "d = CHR '']''"; cases "scan_elems (plain Some) n (d # r')") (auto simp: arr Cons skip scan_value.simps E)
      qed
    next
      case atom
      then show ?thesis by (simp add: Cons scan_value.simps keep_if_atom scan_atom_plain [of reject_duplicate_object_pairs])
    qed
  qed
  moreover have "scan_elems (plain reject_duplicate_object_pairs) (Suc n) s
      = keep_if (list_all unique_keys) (scan_elems (plain Some) (Suc n) s)"
    unfolding scan_elems.simps V E by (auto split: list.split option.split)
  moreover have "scan_members (plain reject_duplicate_object_pairs) (Suc n) s
      = keep_if unique_members (scan_members (plain Some) (Suc n) s)"
    unfolding scan_members.simps V M by (auto split: list.split option.split)
  ultimately show ?case by blast
qed

lemma loads_strict:
  "loads_with reject_duplicate_object_pairs s = Some v \<longleftrightarrow> loads_with Some s = Some v \<and> unique_keys v"
  using scan_strict [of "Suc (2 * length s)" "skip_ws s"]
  by (auto simp: loads_with_def loads_hooked_def keep_if_def split: option.splits if_splits)

text \<open>A webhook body decodes exactly when it is UTF-8 JSON text in which no object, at any depth,
  repeats a key; the decoded value is the one read with every pair kept.\<close>

lemma duplicate_keys_refused:
  "decode_webhook_body body = Inr v \<longleftrightarrow>
     (\<exists>s. utf8_decode body = Some s \<and> loads_with Some s = Some v \<and> unique_keys v)"
  by (auto simp: decode_webhook_body_def simp flip: loads_strict split: option.splits)

section \<open>What an event keeps\<close>

definition field_ok :: "pystr \<Rightarrow> pystr \<times> json \<Rightarrow> bool" where
  "field_ok t = (\<lambda>(k, v). k \<in> set (allowed_fields t) \<and> is_scalar v)"

lemma sanitize_entity_ok: "list_all (field_ok t) (sanitize_entity t e)"
  by (auto simp: sanitize_entity_def field_ok_def list_all_iff)

lemma related_entities_ok: "list_all (\<lambda>(t, r). list_all (field_ok t) r) (related_entities payload)"
  using sanitize_entity_ok by (induction payload rule: related_entities.induct) (auto split: json.split)

lemma first_identified_ok:
  "list_all (\<lambda>(t, r). list_all (field_ok t) r) related \<Longrightarrow> first_identified related = (t, r, i) \<Longrightarrow>
     list_all (field_ok t) r"
  by (induction related rule: first_identified.induct) (auto split: json.splits if_splits)

lemma event_specs_resource: "map_of EVENT_SPECS n = Some spec \<Longrightarrow> es_resource_type spec = es_payload_key spec"
  by (drule map_of_SomeD) (auto simp: EVENT_SPECS_def event_spec_of_def)

lemma json_object_Inr:
  "(case v of JObj kvs \<Rightarrow> f kvs | _ \<Rightarrow> Inl e) = Inr x \<longleftrightarrow> (\<exists>kvs. v = JObj kvs \<and> f kvs = Inr x)"
  by (cases v) simp_all

lemma json_string_Inr:
  "(case v of JStr s \<Rightarrow> f s | _ \<Rightarrow> Inl e) = Inr x \<longleftrightarrow> (\<exists>s. v = JStr s \<and> f s = Inr x)"
  by (cases v) simp_all

lemma known_resource_Inr [guards]:
  "known_resource spec payload = Inr (resource, i) \<longleftrightarrow>
     (\<exists>entity. extract_entity payload (es_payload_key spec) = Inr entity
        \<and> resource = sanitize_entity (es_payload_key spec) entity \<and> obj_get resource ''id'' = JStr i \<and> i \<noteq> [])"
  unfolding known_resource_def bindE_eq_Inr Let_def json_string_Inr by auto

lemma normalize_payload_ok:
  assumes "normalize_payload eid acct name at' payload digest = Inr ev"
  shows "list_all (field_ok (ev_resource_type ev)) (ev_resource ev)
    \<and> list_all (\<lambda>(t, r). list_all (field_ok t) r) (ev_related_resources ev)
    \<and> ev_event_id ev = eid \<and> ev_provider_account_id ev = acct \<and> ev_event_name ev = name
    \<and> ev_occurred_at_epoch ev = at' \<and> ev_raw_body_sha256 ev = digest \<and> ev_schema_version ev = 1"
  using assms sanitize_entity_ok related_entities_ok
    first_identified_ok [OF related_entities_ok]
  by (auto simp: normalize_payload_def Let_def known_resource_Inr event_specs_resource
      split: option.splits prod.splits)

lemma normalize_webhook_Inr:
  "normalize_verified_webhook body eid expected = Inr ev \<longleftrightarrow>
     eid \<noteq> [] \<and> strip eid = eid \<and> length eid \<le> 256 \<and>
     (\<exists>decoded acct name at' payload.
        decode_webhook_body body = Inr (JObj decoded) \<and> required_string decoded ''account_id'' = Inr acct
        \<and> (expected = None \<or> expected = Some acct) \<and> required_string decoded ''event'' = Inr name
        \<and> required_epoch decoded ''created_at'' = Inr at' \<and> obj_get decoded ''payload'' = JObj payload
        \<and> normalize_payload eid acct name at' payload (sha256_hex body) = Inr ev)"
  unfolding normalize_verified_webhook_def bindE_eq_Inr raise_if_eq_Inr json_object_Inr not_less de_Morgan_disj not_not
  by (cases expected) auto

text \<open>Fields of a provider payload that carry contact data, instruments or free text.\<close>

definition private_fields :: "pystr list" where
  "private_fields = [''contact'', ''email'', ''card'', ''vpa'', ''notes'', ''description'', ''customer'']"

definition no_private :: "(pystr \<times> json) list \<Rightarrow> bool" where
  "no_private r = list_all (\<lambda>(k, _). k \<notin> set private_fields) r"

lemma allowed_not_private: "k \<in> set (allowed_fields t) \<Longrightarrow> k \<notin> set private_fields"
  using map_of_SomeD [of ENTITY_FIELD_ALLOWLIST t]
  by (auto simp: allowed_fields_def ENTITY_FIELD_ALLOWLIST_def BASE_ENTITY_FIELDS_def private_fields_def
      split: option.splits if_splits)

lemma field_ok_no_private: "list_all (field_ok t) r \<Longrightarrow> no_private r"
  using allowed_not_private by (auto simp: no_private_def field_ok_def list_all_iff)

text \<open>C37. Data minimisation: every field an event keeps, of its resource and of each related resource, is
  on the allow-list of that resource type and is a scalar; no contact, card, address or free-text field of
  the provider's payload survives normalisation.\<close>

theorem event_keeps_allowed_scalars:
  assumes "normalize_verified_webhook body eid expected = Inr ev"
  shows "list_all (field_ok (ev_resource_type ev)) (ev_resource ev)
    \<and> list_all (\<lambda>(t, r). list_all (field_ok t) r \<and> no_private r) (ev_related_resources ev)
    \<and> no_private (ev_resource ev)"
proof -
  from assms normalize_payload_ok have "list_all (field_ok (ev_resource_type ev)) (ev_resource ev)"
    and "list_all (\<lambda>(t, r). list_all (field_ok t) r) (ev_related_resources ev)"
    by (auto simp: normalize_webhook_Inr)
  moreover from this(2) have "list_all (\<lambda>(t, r). list_all (field_ok t) r \<and> no_private r) (ev_related_resources ev)"
    using field_ok_no_private by (fastforce simp: list_all_iff)
  ultimately show ?thesis using field_ok_no_private by blast
qed

section \<open>Acceptance\<close>

text \<open>Decoding the canonical text of an object reaches the same fields, with the objects in them sorted.\<close>

lemma decode_canonical:
  assumes "json_ok (JObj d)"
  obtains d' where "decode_webhook_body (utf8 (dumps (JObj d))) = Inr (JObj d')"
    "\<And>k. obj_get d' k = canon (obj_get d k)"
proof -
  obtain d' where d': "canon (JObj d) = JObj d'" by simp
  have "hook_ok reject_duplicate_object_pairs" by (simp add: hook_ok_def reject_pairs_eq)
  then have "loads_with reject_duplicate_object_pairs (dumps (JObj d)) = Some (JObj d')"
    using loads_with_dumps assms d' by metis
  moreover have "obj_get d' k = canon (obj_get d k)" for k
    by (rule obj_get_canon [OF _ d']) (use assms in simp)
  ultimately show thesis by (intro that) (simp_all add: decode_webhook_body_def del: dumps.simps)
qed

lemma obj_get_json_ok: "json_ok (JObj d) \<Longrightarrow> json_ok (obj_get d k)"
  by (auto simp: obj_get_def list_all_iff split: option.split dest!: map_of_SomeD)

lemma sanitize_canon:
  assumes "distinct (map fst e)" "canon (JObj e) = JObj e'"
  shows "sanitize_entity t e' = sanitize_entity t e"
proof -
  have get: "obj_get e' k = canon (obj_get e k)" for k by (rule obj_get_canon [OF assms])
  have scalar: "is_scalar (canon v) = is_scalar v" "is_scalar v \<Longrightarrow> canon v = v" for v by (cases v; simp)+
  have "fst ` set e' = fst ` set e" using assms(2) by (auto simp: image_iff) force+
  then show ?thesis by (auto simp: sanitize_entity_def get scalar)
qed

lemma event_names: "map_of EVENT_SPECS n = Some spec \<Longrightarrow> n \<noteq> [] \<and> strip n = n"
proof -
  have "list_all (\<lambda>(n, _). n \<noteq> [] \<and> strip n = n) EVENT_SPECS" by code_simp
  then show "map_of EVENT_SPECS n = Some spec \<Longrightarrow> n \<noteq> [] \<and> strip n = n"
    by (auto simp: list_all_iff dest!: map_of_SomeD)
qed

lemma id_allowed: "''id'' \<in> set (allowed_fields t)"
  using map_of_SomeD [of ENTITY_FIELD_ALLOWLIST t]
  by (auto simp: allowed_fields_def ENTITY_FIELD_ALLOWLIST_def BASE_ENTITY_FIELDS_def split: option.split)

lemma map_of_keyed: "map_of (map (\<lambda>k. (k, f k)) ks) x = (if x \<in> set ks then Some (f x) else None)"
  by (induction ks) auto

lemma sanitize_id: "obj_get e ''id'' = JStr i \<Longrightarrow> obj_get (sanitize_entity t e) ''id'' = JStr i"
  using obj_get_in [of e "''id''"] id_allowed [of t]
  by (force simp: sanitize_entity_def obj_get_def [of "map _ _"] map_of_keyed)

definition known_event_body ::
  "(pystr \<times> json) list \<Rightarrow> pystr \<Rightarrow> pystr \<Rightarrow> event_spec \<Rightarrow> int \<Rightarrow> (pystr \<times> json) list \<Rightarrow> pystr \<Rightarrow> bool" where
  "known_event_body d acct name spec at' entity i =
     (json_ok (JObj d) \<and> obj_get d ''account_id'' = JStr acct \<and> acct \<noteq> [] \<and> strip acct = acct
      \<and> obj_get d ''event'' = JStr name \<and> map_of EVENT_SPECS name = Some spec
      \<and> obj_get d ''created_at'' = JInt at' \<and> 0 \<le> at'
      \<and> (\<exists>payload w. obj_get d ''payload'' = JObj payload \<and> obj_get payload (es_payload_key spec) = JObj w
           \<and> obj_get w ''entity'' = JObj entity)
      \<and> obj_get entity ''id'' = JStr i \<and> i \<noteq> [])"

lemma known_event_normalized:
  assumes b: "known_event_body d acct name spec at' entity i"
    and "eid \<noteq> []" "strip eid = eid" "length eid \<le> 256"
  shows "\<exists>ev. normalize_verified_webhook (utf8 (dumps (JObj d))) eid (Some acct) = Inr ev
    \<and> ev_event_type ev = es_canonical_type spec \<and> ev_resource_id ev = Some i
    \<and> ev_resource ev = sanitize_entity (es_payload_key spec) entity
    \<and> ev_provider_account_id ev = acct \<and> ev_occurred_at_epoch ev = at'"
proof -
  note u = b [unfolded known_event_body_def]
  from u obtain payload w where p: "obj_get d ''payload'' = JObj payload"
    "obj_get payload (es_payload_key spec) = JObj w" "obj_get w ''entity'' = JObj entity" by blast
  obtain d' where d': "decode_webhook_body (utf8 (dumps (JObj d))) = Inr (JObj d')"
    "\<And>k. obj_get d' k = canon (obj_get d k)"
    by (rule decode_canonical [of d]) (use u in blast)+
  have ok: "json_ok (JObj payload)" "json_ok (JObj w)" "json_ok (JObj entity)"
    using obj_get_json_ok [of d "''payload''"] obj_get_json_ok [of payload "es_payload_key spec"]
      obj_get_json_ok [of w "''entity''"] u p by simp_all
  obtain payload' w' entity' where c: "canon (JObj payload) = JObj payload'" "canon (JObj w) = JObj w'"
    "canon (JObj entity) = JObj entity'" by simp
  have get: "obj_get d' ''payload'' = JObj payload'" "obj_get payload' (es_payload_key spec) = JObj w'"
    "obj_get w' ''entity'' = JObj entity'"
    using d'(2) p c obj_get_canon [OF _ c(1)] obj_get_canon [OF _ c(2)] ok by (simp_all del: canon.simps)
  then have "extract_entity payload' (es_payload_key spec) = Inr entity'" by (simp add: extract_entity_def)
  moreover have "sanitize_entity t entity' = sanitize_entity t entity" for t
    by (rule sanitize_canon [OF _ c(3)]) (use ok in simp)
  ultimately have known: "known_resource spec payload' = Inr (sanitize_entity (es_payload_key spec) entity, i)"
    using u sanitize_id by (simp add: known_resource_Inr)
  have "required_string d' ''account_id'' = Inr acct" "required_string d' ''event'' = Inr name"
    "required_epoch d' ''created_at'' = Inr at'"
    using u event_names [of name spec] d'(2) by (simp_all add: required_string_def required_epoch_def)
  then show ?thesis
    using assms(2-) d'(1) get(1) u by (auto simp: normalize_webhook_Inr normalize_payload_def Let_def known)
qed

text \<open>A well-formed webhook is accepted: for a body printed from an object that names the endpoint's
  account, a catalogued event, a non-negative time and a payload entity with an identifier, signed in any
  letter case with any one of the configured secrets, the boundary returns the event of the catalogued
  type about that entity.\<close>

lemma signed_event_accepted:
  assumes "known_event_body d acct name spec at' entity i"
    and "wh_event_id h \<noteq> []" "strip (wh_event_id h) = wh_event_id h" "length (wh_event_id h) \<le> 256"
    and "k \<in> set secrets" "[] \<notin> set secrets" "lower (wh_signature h) = hmac_sha256_hex k (utf8 (dumps (JObj d)))"
  shows "\<exists>ev. verify_and_normalize_webhook (utf8 (dumps (JObj d))) h secrets (Some acct) = Inr ev
    \<and> ev_event_type ev = es_canonical_type spec \<and> ev_resource_id ev = Some i
    \<and> ev_resource ev = sanitize_entity (es_payload_key spec) entity
    \<and> ev_provider_account_id ev = acct \<and> ev_occurred_at_epoch ev = at'"
proof -
  have "verify_webhook_signature (utf8 (dumps (JObj d))) (wh_signature h) secrets = Inr ()"
    using assms(5-) unfolding verify_signature_Inr by (metis empty_iff empty_set)
  then show ?thesis
    using known_event_normalized [OF assms(1-4)] by (simp add: verify_and_normalize_webhook_def del: dumps.simps)
qed

lemma event_is_authenticated_lemma:
  assumes "verify_and_normalize_webhook body h secrets expected = Inr ev"
  shows "(\<exists>k\<in>set secrets. k \<noteq> [] \<and> lower (wh_signature h) = hmac_sha256_hex k body)
    \<and> ev_raw_body_sha256 ev = sha256_hex body \<and> ev_event_id ev = wh_event_id h
    \<and> expected \<in> {None, Some (ev_provider_account_id ev)} \<and> 0 \<le> ev_occurred_at_epoch ev
    \<and> ev_event_type ev = (case map_of EVENT_SPECS (ev_event_name ev) of
          None \<Rightarrow> UNKNOWN_EVENT | Some spec \<Rightarrow> es_canonical_type spec)"
proof -
  from assms have v: "verify_webhook_signature body (wh_signature h) secrets = Inr ()"
    and n: "normalize_verified_webhook body (wh_event_id h) expected = Inr ev"
    by (auto simp: verify_and_normalize_webhook_def)
  from n obtain decoded acct name at' payload where at': "required_epoch decoded ''created_at'' = Inr at'"
    and e: "expected = None \<or> expected = Some acct"
    and p: "normalize_payload (wh_event_id h) acct name at' payload (sha256_hex body) = Inr ev"
    by (auto simp: normalize_webhook_Inr)
  have "0 \<le> at'" using at' by (auto simp: required_epoch_def split: json.splits if_splits)
  moreover have "ev_event_type ev = (case map_of EVENT_SPECS name of
          None \<Rightarrow> UNKNOWN_EVENT | Some spec \<Rightarrow> es_canonical_type spec)"
    using p by (auto simp: normalize_payload_def Let_def split: option.splits prod.splits)
  moreover have "\<exists>k\<in>set secrets. k \<noteq> [] \<and> lower (wh_signature h) = hmac_sha256_hex k body"
    using v by (metis verify_signature_Inr)
  ultimately show ?thesis using e normalize_payload_ok [OF p] by auto
qed

text \<open>C36. Nothing unauthenticated becomes an event: an event is returned only for a body whose HMAC under
  one of the non-empty configured secrets is the presented signature; the event carries that body's digest
  and the header's delivery identifier, belongs to the endpoint's account, and has the type its name has in
  the catalogue.\<close>

theorem event_is_authenticated:
  assumes "verify_and_normalize_webhook body h secrets expected = Inr ev"
  shows "(\<exists>k\<in>set secrets. k \<noteq> [] \<and> lower (wh_signature h) = hmac_sha256_hex k body)
    \<and> ev_raw_body_sha256 ev = sha256_hex body \<and> ev_event_id ev = wh_event_id h
    \<and> expected \<in> {None, Some (ev_provider_account_id ev)} \<and> 0 \<le> ev_occurred_at_epoch ev
    \<and> ev_event_type ev = (case map_of EVENT_SPECS (ev_event_name ev) of
          None \<Rightarrow> UNKNOWN_EVENT | Some spec \<Rightarrow> es_canonical_type spec)"
  by (rule event_is_authenticated_lemma [OF assms])

section \<open>A sample delivery\<close>

definition sample_entity :: "(pystr \<times> json) list" where
  "sample_entity = [(''id'', JStr ''pay_1''), (''amount'', JInt 49900), (''email'', JStr ''a@b'')]"

definition sample_body :: "(pystr \<times> json) list" where
  "sample_body = [(''account_id'', JStr ''acc_1''), (''event'', JStr ''payment.failed''), (''created_at'', JInt 1700000000),
     (''payload'', JObj [(''payment'', JObj [(''entity'', JObj sample_entity)])])]"

definition sample_headers :: webhook_headers where
  "sample_headers = \<lparr>wh_signature = hmac_sha256_hex [7] (utf8 (dumps (JObj sample_body))), wh_event_id = ''evt_1''\<rparr>"

lemma sample_known:
  "known_event_body sample_body ''acc_1'' ''payment.failed'' (event_spec_of PAYMENT_FAILED ''payment'') 1700000000
     sample_entity ''pay_1''"
proof -
  have "strip ''acc_1'' = ''acc_1''" by code_simp
  then show ?thesis
    by (simp add: known_event_body_def sample_body_def sample_entity_def EVENT_SPECS_def event_spec_of_def)
qed

lemma lower_hmac [simp]: "lower (hmac_sha256_hex k m) = hmac_sha256_hex k m"
proof -
  have "lower_char c = c" if "is_lower_hex c" for c
    using that by (auto simp: lower_char_def is_lower_hex_def is_digit_def is_upper_def)
  moreover have "is_digest (hmac_sha256_hex k m)" by simp
  ultimately show ?thesis unfolding is_digest_def lower_def by (intro map_idI) blast
qed

lemma sample_event_id: "''evt_1'' \<noteq> []" "strip ''evt_1'' = ''evt_1''" "length ''evt_1'' \<le> 256"
  by code_simp+

lemma signed_event_accepted_example:
  "\<exists>ev. verify_and_normalize_webhook (utf8 (dumps (JObj sample_body))) sample_headers [[7]] (Some ''acc_1'') = Inr ev
    \<and> ev_event_type ev = PAYMENT_FAILED"
  using signed_event_accepted [OF sample_known, of sample_headers "[7]" "[[7]]"] sample_event_id
  by (auto simp: sample_headers_def event_spec_of_def simp del: dumps.simps)

lemma sample_verified:
  obtains ev where
    "verify_and_normalize_webhook (utf8 (dumps (JObj sample_body))) sample_headers [[7]] (Some ''acc_1'') = Inr ev"
    "normalize_verified_webhook (utf8 (dumps (JObj sample_body))) ''evt_1'' (Some ''acc_1'') = Inr ev"
proof -
  obtain ev where n: "normalize_verified_webhook (utf8 (dumps (JObj sample_body))) ''evt_1'' (Some ''acc_1'') = Inr ev"
    using known_event_normalized [OF sample_known sample_event_id] by blast
  moreover have "verify_webhook_signature (utf8 (dumps (JObj sample_body))) (wh_signature sample_headers) [[7]] = Inr ()"
    unfolding verify_signature_Inr by (simp add: sample_headers_def del: dumps.simps)
  ultimately show thesis
    by (intro that) (simp_all add: verify_and_normalize_webhook_def sample_headers_def del: dumps.simps)
qed

theorem event_is_authenticated_witness:
  "\<exists>ev. verify_and_normalize_webhook (utf8 (dumps (JObj sample_body))) sample_headers [[7]] (Some ''acc_1'') = Inr ev
    \<and> ev_event_id ev = ''evt_1''"
proof -
  obtain ev where "verify_and_normalize_webhook (utf8 (dumps (JObj sample_body))) sample_headers [[7]] (Some ''acc_1'') = Inr ev"
    by (rule sample_verified)
  with event_is_authenticated [OF this] show ?thesis by (auto simp: sample_headers_def simp del: dumps.simps)
qed

theorem event_keeps_allowed_scalars_witness:
  "\<exists>ev. normalize_verified_webhook (utf8 (dumps (JObj sample_body))) ''evt_1'' (Some ''acc_1'') = Inr ev
    \<and> no_private (ev_resource ev)"
proof -
  obtain ev where "normalize_verified_webhook (utf8 (dumps (JObj sample_body))) ''evt_1'' (Some ''acc_1'') = Inr ev"
    by (rule sample_verified)
  with event_keeps_allowed_scalars [OF this] show ?thesis by blast
qed

end
