(* ===== verification/Ingress.thy ===== *)
theory Ingress
  imports Inbox Webhook_Spec
begin

text \<open>
  \<^verbatim>\<open>services/control_plane/webhook_ingress.py\<close>: endpoint bindings with secret rotation and the
  acceptance of one webhook request. The inbox is the port of \<open>webhook_inbox\<close>, so \<open>ingress_accept\<close>
  takes its \<^verbatim>\<open>store_once\<close> and its state as arguments; the clock is the reading \<open>now\<close>.
\<close>

section \<open>Endpoint bindings\<close>

definition is_endpoint_token :: "pystr \<Rightarrow> bool" where
  "is_endpoint_token s =
     (24 \<le> length s \<and> length s \<le> 128
      \<and> list_all (\<lambda>c. is_upper c \<or> is_lower c \<or> is_digit c \<or> c = CHR ''_'' \<or> c = CHR ''-'') s)"

record endpoint_binding =
  eb_endpoint_token :: pystr
  eb_merchant_id :: pystr
  eb_provider_account_id :: pystr
  eb_provider_account_identifier :: pystr
  eb_webhook_secrets :: "bytes list"
  eb_previous_secret_expires_at :: "datetime option"

definition require_binding_text :: "pystr \<Rightarrow> pystr \<Rightarrow> exn + unit" where
  "require_binding_text name value =
     raise_if (value = [] \<or> value \<noteq> strip value) (ValueError (name @ '' must be a non-empty string''))"

definition aware_utc :: "datetime \<Rightarrow> bool" where
  "aware_utc t = (utcoffset t = Some 0)"

definition check_rotation :: "bytes list \<Rightarrow> datetime option \<Rightarrow> exn + unit" where
  "check_rotation secrets expiry =
     bindE (raise_if (length secrets = 1 \<and> expiry \<noteq> None)
       (ValueError ''a previous-secret expiry requires exactly two webhook secrets'')) (\<lambda>_.
     if length secrets \<le> 1 then Inr ()
     else case expiry of
        None \<Rightarrow> Inl (ValueError ''exactly one previous webhook secret requires a UTC expiry'')
      | Some e \<Rightarrow>
         bindE (raise_if (length secrets \<noteq> 2)
           (ValueError ''exactly one previous webhook secret requires a UTC expiry'')) (\<lambda>_.
         bindE (raise_if (\<not> aware_utc e) (ValueError ''previous-secret expiry must be an aware UTC datetime'')) (\<lambda>_.
         raise_if (secrets ! 0 = secrets ! 1)
           (ValueError ''current and previous webhook secrets must be different''))))"

definition mk_endpoint_binding :: "endpoint_binding \<Rightarrow> exn + endpoint_binding" where
  "mk_endpoint_binding b =
     bindE (raise_if (\<not> is_endpoint_token (eb_endpoint_token b))
       (ValueError ''endpoint_token must be 24-128 URL-safe characters'')) (\<lambda>_.
     bindE (require_binding_text ''merchant_id'' (eb_merchant_id b)) (\<lambda>_.
     bindE (require_binding_text ''provider_account_id'' (eb_provider_account_id b)) (\<lambda>_.
     bindE (require_binding_text ''provider_account_identifier'' (eb_provider_account_identifier b)) (\<lambda>_.
     bindE (raise_if (eb_webhook_secrets b = [] \<or> [] \<in> set (eb_webhook_secrets b))
       (ValueError ''at least one non-empty byte webhook secret is required'')) (\<lambda>_.
     bindE (check_rotation (eb_webhook_secrets b) (eb_previous_secret_expires_at b)) (\<lambda>_.
     Inr b))))))"

definition active_webhook_secrets :: "endpoint_binding \<Rightarrow> datetime \<Rightarrow> exn + bytes list" where
  "active_webhook_secrets b now =
     bindE (raise_if (\<not> aware_utc now) (ValueError ''webhook verification clock must be an aware UTC datetime'')) (\<lambda>_.
     case eb_previous_secret_expires_at b of
       Some expiry \<Rightarrow> Inr (if wall expiry \<le> wall now then take 1 (eb_webhook_secrets b) else eb_webhook_secrets b)
     | None \<Rightarrow> Inr (eb_webhook_secrets b))"

type_synonym endpoint_registry = "(pystr \<times> endpoint_binding) list"

fun mk_registry :: "endpoint_binding list \<Rightarrow> endpoint_registry \<Rightarrow> exn + endpoint_registry" where
  "mk_registry [] indexed = Inr indexed"
| "mk_registry (b # bs) indexed =
     bindE (raise_if (eb_endpoint_token b \<in> fst ` set indexed) (ValueError ''duplicate endpoint token'')) (\<lambda>_.
     mk_registry bs (dict_put (eb_endpoint_token b) b indexed))"

definition registry_find :: "endpoint_registry \<Rightarrow> pystr \<Rightarrow> endpoint_binding option" where
  "registry_find registry endpoint_token = map_of registry endpoint_token"

section \<open>Acceptance\<close>

datatype ingress_status = ACCEPTED | DUPLICATE_DELIVERY

record ingress_receipt =
  rc_status :: ingress_status
  rc_merchant_id :: pystr
  rc_provider_account_id :: pystr
  rc_provider_event_id :: pystr
  rc_event_name :: pystr
  rc_body_sha256 :: pystr
  rc_canonical_event :: canonical_event

definition receipt_enqueued :: "ingress_receipt \<Rightarrow> bool" where
  "receipt_enqueued r = (rc_status r = ACCEPTED)"

definition mk_max_body_bytes :: "int \<Rightarrow> exn + int" where
  "mk_max_body_bytes n =
     bindE (raise_if (n < 1024 \<or> 1048576 < n) (ValueError ''max_body_bytes must be between 1 KiB and 1 MiB'')) (\<lambda>_. Inr n)"

record ingress_request =
  rq_endpoint_token :: pystr
  rq_raw_body :: bytes
  rq_headers :: "(pystr \<times> pystr) list"
  rq_content_type :: pystr
  rq_received_at_epoch :: int

definition media_type :: "pystr \<Rightarrow> pystr" where
  "media_type content_type = lower (strip (takeWhile (\<lambda>c. c \<noteq> CHR '';'') content_type))"

definition check_request :: "int \<Rightarrow> ingress_request \<Rightarrow> exn + unit" where
  "check_request max_body_bytes rq =
     bindE (raise_if (rq_raw_body rq = []) (IngressError ''webhook body cannot be empty'')) (\<lambda>_.
     bindE (raise_if (max_body_bytes < int (length (rq_raw_body rq)))
       (PayloadTooLarge ''webhook body exceeds configured limit'')) (\<lambda>_.
     bindE (raise_if (media_type (rq_content_type rq) \<noteq> ''application/json'')
       (UnsupportedMediaType ''webhook content type must be application/json'')) (\<lambda>_.
     raise_if (rq_received_at_epoch rq < 0) (ValueError ''received_at_epoch must be a non-negative integer''))))"

definition ingress_accept ::
  "(inbox_record \<Rightarrow> 's \<Rightarrow> exn + inbox_write_result \<times> 's) \<Rightarrow> endpoint_registry \<Rightarrow> int \<Rightarrow> datetime
     \<Rightarrow> ingress_request \<Rightarrow> 's \<Rightarrow> exn + ingress_receipt \<times> 's" where
  "ingress_accept store registry max_body_bytes now rq s =
     bindE (check_request max_body_bytes rq) (\<lambda>_.
     (case registry_find registry (rq_endpoint_token rq) of
        None \<Rightarrow> Inl (EndpointNotFound ''unknown webhook endpoint'')
      | Some binding \<Rightarrow>
         bindE (headers_from_mapping (rq_headers rq)) (\<lambda>security_headers.
         bindE (active_webhook_secrets binding now) (\<lambda>secrets.
         bindE (verify_and_normalize_webhook (rq_raw_body rq) security_headers secrets
                  (Some (eb_provider_account_identifier binding))) (\<lambda>event.
         bindE (mk_inbox_record event (rq_received_at_epoch rq)) (\<lambda>record.
         bindE (store record s) (\<lambda>(write_result, s').
         Inr (\<lparr>rc_status = (if write_result = STORED then ACCEPTED else DUPLICATE_DELIVERY),
               rc_merchant_id = eb_merchant_id binding,
               rc_provider_account_id = eb_provider_account_id binding,
               rc_provider_event_id = ev_event_id event,
               rc_event_name = ev_event_name event,
               rc_body_sha256 = sha256_hex (rq_raw_body rq),
               rc_canonical_event = event\<rparr>, s'))))))))"

section \<open>What acceptance promises, over any inbox\<close>

text \<open>The request reaches the inbox as this event.\<close>

definition request_event ::
  "endpoint_registry \<Rightarrow> int \<Rightarrow> datetime \<Rightarrow> ingress_request \<Rightarrow> exn + endpoint_binding \<times> canonical_event" where
  "request_event registry max_body_bytes now rq =
     bindE (check_request max_body_bytes rq) (\<lambda>_.
     (case registry_find registry (rq_endpoint_token rq) of
        None \<Rightarrow> Inl (EndpointNotFound ''unknown webhook endpoint'')
      | Some binding \<Rightarrow>
         bindE (headers_from_mapping (rq_headers rq)) (\<lambda>security_headers.
         bindE (active_webhook_secrets binding now) (\<lambda>secrets.
         bindE (verify_and_normalize_webhook (rq_raw_body rq) security_headers secrets
                  (Some (eb_provider_account_identifier binding))) (\<lambda>event.
         Inr (binding, event))))))"

definition delivered :: "ingress_request \<Rightarrow> canonical_event \<Rightarrow> inbox_record" where
  "delivered rq event = \<lparr>ir_event = event, ir_received_at_epoch = rq_received_at_epoch rq\<rparr>"

lemma ingress_accept_Inr:
  "ingress_accept store registry n now rq s = Inr (receipt, s') \<longleftrightarrow>
     (\<exists>binding event w. request_event registry n now rq = Inr (binding, event)
        \<and> store (delivered rq event) s = Inr (w, s')
        \<and> receipt = \<lparr>rc_status = (if w = STORED then ACCEPTED else DUPLICATE_DELIVERY),
             rc_merchant_id = eb_merchant_id binding, rc_provider_account_id = eb_provider_account_id binding,
             rc_provider_event_id = ev_event_id event, rc_event_name = ev_event_name event,
             rc_body_sha256 = sha256_hex (rq_raw_body rq), rc_canonical_event = event\<rparr>)"
proof -
  have nonneg: "0 \<le> rq_received_at_epoch rq" if "check_request n rq = Inr ()"
    using that by (simp add: check_request_def)
  show ?thesis
    by (cases "registry_find registry (rq_endpoint_token rq)")
       (auto simp: ingress_accept_def request_event_def mk_inbox_record_def delivered_def not_less dest: nonneg)
qed

locale ingress_inbox = webhook_inbox store lookup dedupe_key same_content
  for store :: "inbox_record \<Rightarrow> 's \<Rightarrow> exn + inbox_write_result \<times> 's"
    and lookup :: "'s \<Rightarrow> inbox_key \<Rightarrow> inbox_record option"
begin

lemma accepted_iff_new:
  assumes "ingress_accept store registry n now rq s = Inr (receipt, s')"
  shows "receipt_enqueued receipt \<longleftrightarrow>
     lookup s (ev_provider_account_id (rc_canonical_event receipt), rc_provider_event_id receipt) = None"
proof -
  from assms obtain event w where "store (delivered rq event) s = Inr (w, s')"
    and "rc_canonical_event receipt = event" "rc_provider_event_id receipt = ev_event_id event"
    and "receipt_enqueued receipt \<longleftrightarrow> w = STORED"
    by (auto simp: ingress_accept_Inr receipt_enqueued_def)
  then show ?thesis
    by (cases rule: store_cases [of s "delivered rq event"]) (auto simp: delivered_def dedupe_key_def)
qed

text \<open>Sending the same request again is answered as a duplicate and leaves the inbox alone.\<close>

lemma redelivery:
  assumes "ingress_accept store registry n now rq s = Inr (receipt, s')" "0 \<le> later"
  shows "ingress_accept store registry n now (rq\<lparr>rq_received_at_epoch := later\<rparr>) s'
    = Inr (receipt\<lparr>rc_status := DUPLICATE_DELIVERY\<rparr>, s')"
proof -
  let ?rq = "rq\<lparr>rq_received_at_epoch := later\<rparr>"
  from assms(1) obtain binding event w where e: "request_event registry n now rq = Inr (binding, event)"
    and st: "store (delivered rq event) s = Inr (w, s')"
    and rc: "receipt = \<lparr>rc_status = (if w = STORED then ACCEPTED else DUPLICATE_DELIVERY),
             rc_merchant_id = eb_merchant_id binding, rc_provider_account_id = eb_provider_account_id binding,
             rc_provider_event_id = ev_event_id event, rc_event_name = ev_event_name event,
             rc_body_sha256 = sha256_hex (rq_raw_body rq), rc_canonical_event = event\<rparr>"
    by (auto simp: ingress_accept_Inr)
  have key: "dedupe_key (delivered ?rq event) = dedupe_key (delivered rq event)"
    by (simp add: dedupe_key_def delivered_def)
  have same: "same_content q (delivered ?rq event) = same_content q (delivered rq event)" for q
    by (simp add: same_content_def delivered_def)
  have "\<exists>q. lookup s' (dedupe_key (delivered rq event)) = Some q \<and> same_content q (delivered rq event)"
    by (cases rule: store_cases [of s "delivered rq event"]) (use st in \<open>auto simp: same_content_def\<close>)
  then have "store (delivered ?rq event) s' = Inr (DUPLICATE, s')"
    using store_known key same by metis
  moreover have "request_event registry n now ?rq = Inr (binding, event)"
    using e assms(2) by (simp add: request_event_def check_request_def split: option.splits)
  ultimately show ?thesis by (simp add: ingress_accept_Inr rc)
qed

end

interpretation memory_ingress: ingress_inbox store_once map_of
  by unfold_locales

section \<open>Acceptance at the in-memory inbox\<close>

lemma active_secrets_Inr:
  "active_webhook_secrets b now = Inr secrets \<longleftrightarrow> aware_utc now \<and>
     secrets = (case eb_previous_secret_expires_at b of
        Some expiry \<Rightarrow> if wall expiry \<le> wall now then take 1 (eb_webhook_secrets b) else eb_webhook_secrets b
      | None \<Rightarrow> eb_webhook_secrets b)"
  by (auto simp: active_webhook_secrets_def split: option.split)

text \<open>C38. A webhook is acknowledged only for its endpoint: the request names a registered binding, the body is
  non-empty and within the limit, its HMAC under a secret that the binding still accepts at this moment is the
  presented signature (after the previous secret's expiry, the current secret only), the event is of the
  binding's provider account, the receipt names the binding's merchant and the body's digest, and it says
  ACCEPTED exactly when the inbox did not hold this delivery identity before.\<close>

theorem acceptance_is_authentic:
  assumes "ingress_accept store_once registry n now rq s = Inr (receipt, s')"
  shows "\<exists>binding k. registry_find registry (rq_endpoint_token rq) = Some binding
    \<and> rq_raw_body rq \<noteq> [] \<and> int (length (rq_raw_body rq)) \<le> n
    \<and> k \<in> set (eb_webhook_secrets binding)
    \<and> (case eb_previous_secret_expires_at binding of None \<Rightarrow> True
        | Some expiry \<Rightarrow> if wall expiry \<le> wall now then k = hd (eb_webhook_secrets binding) else True)
    \<and> (case headers_from_mapping (rq_headers rq) of Inl _ \<Rightarrow> False
        | Inr h \<Rightarrow> lower (wh_signature h) = hmac_sha256_hex k (rq_raw_body rq)
                    \<and> rc_provider_event_id receipt = wh_event_id h)
    \<and> ev_provider_account_id (rc_canonical_event receipt) = eb_provider_account_identifier binding
    \<and> rc_merchant_id receipt = eb_merchant_id binding \<and> rc_body_sha256 receipt = sha256_hex (rq_raw_body rq)
    \<and> (receipt_enqueued receipt \<longleftrightarrow>
         inbox_get (eb_provider_account_identifier binding) (rc_provider_event_id receipt) s = None)"
proof -
  from assms obtain binding event w where e: "request_event registry n now rq = Inr (binding, event)"
    and rc: "rc_merchant_id receipt = eb_merchant_id binding" "rc_body_sha256 receipt = sha256_hex (rq_raw_body rq)"
      "rc_canonical_event receipt = event" "rc_provider_event_id receipt = ev_event_id event"
    by (auto simp: ingress_accept_Inr)
  from e obtain h secrets where h: "headers_from_mapping (rq_headers rq) = Inr h"
    and secrets: "active_webhook_secrets binding now = Inr secrets"
    and v: "verify_and_normalize_webhook (rq_raw_body rq) h secrets (Some (eb_provider_account_identifier binding)) = Inr event"
    and find: "registry_find registry (rq_endpoint_token rq) = Some binding"
    and body: "rq_raw_body rq \<noteq> []" "int (length (rq_raw_body rq)) \<le> n"
    by (auto simp: request_event_def check_request_def split: option.splits)
  note ev = event_is_authenticated_lemma [OF v]
  from ev have id: "ev_event_id event = wh_event_id h"
    and acct: "ev_provider_account_id event = eb_provider_account_identifier binding" by simp_all
  from ev obtain k where k: "k \<in> set secrets" "lower (wh_signature h) = hmac_sha256_hex k (rq_raw_body rq)" by blast
  have "k \<in> set (eb_webhook_secrets binding) \<and>
      (case eb_previous_secret_expires_at binding of None \<Rightarrow> True
       | Some expiry \<Rightarrow> if wall expiry \<le> wall now then k = hd (eb_webhook_secrets binding) else True)"
    using k(1) secrets by (cases "eb_webhook_secrets binding") (auto simp: active_secrets_Inr split: option.splits if_splits)
  moreover have "receipt_enqueued receipt \<longleftrightarrow>
      inbox_get (eb_provider_account_identifier binding) (rc_provider_event_id receipt) s = None"
    using memory_ingress.accepted_iff_new [OF assms] by (simp add: inbox_get_def rc acct)
  ultimately show ?thesis
    by (intro exI [of _ binding] exI [of _ k]) (simp add: find body h k(2) rc id acct)
qed

text \<open>Redelivery is idempotent: when a request was answered, sending it again, at any later receipt time,
  is answered with the same receipt marked as a duplicate, and the inbox stays exactly as it is.\<close>

lemma redelivery_is_duplicate:
  assumes "ingress_accept store_once registry n now rq s = Inr (receipt, s')" "0 \<le> later"
  shows "ingress_accept store_once registry n now (rq\<lparr>rq_received_at_epoch := later\<rparr>) s'
    = Inr (receipt\<lparr>rc_status := DUPLICATE_DELIVERY\<rparr>, s')"
  by (rule memory_ingress.redelivery [OF assms])

section \<open>A sample request\<close>

definition sample_binding :: endpoint_binding where
  "sample_binding = \<lparr>eb_endpoint_token = ''tok_0123456789_0123456789'', eb_merchant_id = ''m_1'',
     eb_provider_account_id = ''pa_1'', eb_provider_account_identifier = ''acc_1'',
     eb_webhook_secrets = [[7]], eb_previous_secret_expires_at = None\<rparr>"

definition sample_ingress :: ingress_request where
  "sample_ingress = \<lparr>rq_endpoint_token = ''tok_0123456789_0123456789'', rq_raw_body = utf8 (dumps (JObj sample_body)),
     rq_headers = [(''X-Razorpay-Signature'', wh_signature sample_headers), (''X-Razorpay-Event-Id'', ''evt_1'')],
     rq_content_type = ''application/json; charset=utf-8'', rq_received_at_epoch = 1700000001\<rparr>"

abbreviation sample_registry :: endpoint_registry where
  "sample_registry \<equiv> [(''tok_0123456789_0123456789'', sample_binding)]"

definition sample_limit :: int where
  "sample_limit = max 1024 (int (length (utf8 (dumps (JObj sample_body)))))"

lemma sample_ingress_fields:
  "rq_endpoint_token sample_ingress = ''tok_0123456789_0123456789''"
  "rq_raw_body sample_ingress = utf8 (dumps (JObj sample_body))"
  by (simp_all add: sample_ingress_def)

lemma sample_find: "registry_find sample_registry ''tok_0123456789_0123456789'' = Some sample_binding"
  by (simp add: registry_find_def)

lemma sample_secrets: "active_webhook_secrets sample_binding (utc 0) = Inr [[7]]"
  by (simp add: active_secrets_Inr sample_binding_def aware_utc_def utc_def)

lemma sample_binding_fields:
  "eb_provider_account_identifier sample_binding = ''acc_1''" "eb_merchant_id sample_binding = ''m_1''"
  by (simp_all add: sample_binding_def)

lemma sample_check: "check_request sample_limit sample_ingress = Inr ()"
proof -
  have "media_type ''application/json; charset=utf-8'' = ''application/json''" by code_simp
  moreover have "utf8 (dumps (JObj sample_body)) \<noteq> []" by simp
  ultimately show ?thesis by (simp add: check_request_def sample_ingress_def sample_limit_def del: dumps.simps)
qed

lemma sample_header_values: "headers_from_mapping (rq_headers sample_ingress) = Inr sample_headers"
proof -
  have digest: "is_digest (wh_signature sample_headers)" by (simp add: sample_headers_def)
  have "strip (wh_signature sample_headers) = wh_signature sample_headers"
    by (rule strip_no_space)
      (use digest in \<open>auto simp: is_digest_def list_all_iff is_lower_hex_def is_digit_def is_space_def\<close>)
  moreover have "wh_signature sample_headers \<noteq> []" using digest by (auto simp: is_digest_def)
  moreover have "lower ''X-Razorpay-Signature'' = ''x-razorpay-signature''"
    "lower ''X-Razorpay-Event-Id'' = ''x-razorpay-event-id''" by code_simp+
  ultimately show ?thesis
    using sample_event_id
    by (simp add: headers_from_mapping_def sample_ingress_def dict_of_def) (simp add: sample_headers_def)
qed

lemma sample_accepted:
  obtains receipt s' where
    "ingress_accept store_once sample_registry sample_limit (utc 0) sample_ingress [] = Inr (receipt, s')"
proof -
  obtain ev where "verify_and_normalize_webhook (utf8 (dumps (JObj sample_body))) sample_headers [[7]] (Some ''acc_1'') = Inr ev"
    by (rule sample_verified)
  then have "request_event sample_registry sample_limit (utc 0) sample_ingress = Inr (sample_binding, ev)"
    by (simp add: request_event_def sample_check sample_header_values sample_find sample_ingress_fields
        sample_secrets sample_binding_fields del: dumps.simps)
  then show thesis
    by (intro that [OF ingress_accept_Inr [THEN iffD2]] exI conjI) (assumption | simp add: store_once_def | rule refl)+
qed

theorem acceptance_is_authentic_witness:
  "case ingress_accept store_once sample_registry sample_limit (utc 0) sample_ingress [] of
     Inl _ \<Rightarrow> False | Inr (receipt, s') \<Rightarrow> rc_merchant_id receipt = ''m_1'' \<and> receipt_enqueued receipt"
proof -
  obtain receipt s' where a: "ingress_accept store_once sample_registry sample_limit (utc 0) sample_ingress [] = Inr (receipt, s')"
    by (rule sample_accepted)
  show ?thesis
    using acceptance_is_authentic [OF a]
    by (simp add: a sample_find sample_ingress_fields sample_binding_fields inbox_get_def del: dumps.simps) blast
qed

lemma redelivery_is_duplicate_example:
  "case ingress_accept store_once sample_registry sample_limit (utc 0) sample_ingress [] of
     Inl _ \<Rightarrow> False
   | Inr (receipt, s') \<Rightarrow>
       ingress_accept store_once sample_registry sample_limit (utc 0) (sample_ingress\<lparr>rq_received_at_epoch := 1800000000\<rparr>) s'
         = Inr (receipt\<lparr>rc_status := DUPLICATE_DELIVERY\<rparr>, s')"
proof -
  obtain receipt s' where a: "ingress_accept store_once sample_registry sample_limit (utc 0) sample_ingress [] = Inr (receipt, s')"
    by (rule sample_accepted)
  show ?thesis using redelivery_is_duplicate [OF a, of 1800000000] by (simp add: a)
qed

end
