(* ===== verification/Ports.thy ===== *)
theory Ports
  imports Errors
begin

text \<open>
  Calls to injected ports. The outside world is a state of any type \<open>'w\<close> that only the ports read and
  change; a port returns a value or raises, and every call is written to a trace together with what it
  answered. A program over ports maps a world and a trace to its result and the world and trace after it.
\<close>

type_synonym ('w, 'ev) env = "'w \<times> 'ev list"
type_synonym ('w, 'ev, 'a) io = "('w, 'ev) env \<Rightarrow> (exn + 'a) \<times> ('w, 'ev) env"
type_synonym ('w, 'a) port = "'w \<Rightarrow> (exn + 'a) \<times> 'w"

definition returnIO :: "'a \<Rightarrow> ('w, 'ev, 'a) io" where
  "returnIO x s = (Inr x, s)"

definition liftIO :: "exn + 'a \<Rightarrow> ('w, 'ev, 'a) io" where
  "liftIO r s = (r, s)"

definition bindIO :: "('w, 'ev, 'a) io \<Rightarrow> ('a \<Rightarrow> ('w, 'ev, 'b) io) \<Rightarrow> ('w, 'ev, 'b) io" where
  "bindIO m f s = (case m s of (Inl e, s') \<Rightarrow> (Inl e, s') | (Inr x, s') \<Rightarrow> f x s')"

definition call :: "(exn + 'a \<Rightarrow> 'ev) \<Rightarrow> ('w, 'a) port \<Rightarrow> ('w, 'ev, 'a) io" where
  "call event p s = (case p (fst s) of (r, w) \<Rightarrow> (r, (w, snd s @ [event r])))"

text \<open>\<^verbatim>\<open>try: ... except Exception\<close> around a call: what the port raised is a value of the program.\<close>

definition try_call :: "(exn + 'a \<Rightarrow> 'ev) \<Rightarrow> ('w, 'a) port \<Rightarrow> ('w, 'ev, exn + 'a) io" where
  "try_call event p s = (case p (fst s) of (r, w) \<Rightarrow> (Inr r, (w, snd s @ [event r])))"

section \<open>Outcomes\<close>

lemma returnIO_eq [simp]: "returnIO x s = (r, s') \<longleftrightarrow> r = Inr x \<and> s' = s"
  by (auto simp: returnIO_def)

lemma liftIO_eq [simp]: "liftIO m s = (r, s') \<longleftrightarrow> m = r \<and> s' = s"
  by (auto simp: liftIO_def)

lemma bindIO_eq:
  "bindIO m f s = (r, s') \<longleftrightarrow>
     (\<exists>e. m s = (Inl e, s') \<and> r = Inl e) \<or> (\<exists>x s1. m s = (Inr x, s1) \<and> f x s1 = (r, s'))"
  by (auto simp: bindIO_def split: prod.split sum.split)

lemma call_eq:
  "call event p s = (r, s') \<longleftrightarrow> p (fst s) = (r, fst s') \<and> snd s' = snd s @ [event r]"
  by (cases s'; cases "p (fst s)") (auto simp: call_def)

lemma try_call_eq:
  "try_call event p s = (r, s') \<longleftrightarrow> (\<exists>x. r = Inr x \<and> p (fst s) = (x, fst s') \<and> snd s' = snd s @ [event x])"
  by (cases s'; cases "p (fst s)") (auto simp: try_call_def)

text \<open>Sequencing as an elimination: the first part raised and the trace is its own, or it returned.\<close>

lemma bindIO_cases:
  assumes "bindIO m f s = (r, s')"
  obtains (raised) e where "m s = (Inl e, s')" "r = Inl e"
  | (returned) x s1 where "m s = (Inr x, s1)" "f x s1 = (r, s')"
  using assms by (auto simp: bindIO_eq)

lemma liftIO_bind_cases:
  assumes "bindIO (liftIO m) f s = (r, s')"
  obtains (raised) e where "m = Inl e" "s' = s" "r = Inl e"
  | (returned) x where "m = Inr x" "f x s = (r, s')"
  using assms by (auto simp: bindIO_eq)

lemma call_bind_cases:
  assumes "bindIO (call event p) f s = (r, s')"
  obtains (raised) e where "snd s' = snd s @ [event (Inl e)]" "r = Inl e"
  | (returned) x s1 where "snd s1 = snd s @ [event (Inr x)]" "f x s1 = (r, s')"
  using assms by (auto simp: bindIO_eq call_eq)

lemma try_call_bind_cases:
  assumes "bindIO (try_call event p) f s = (r, s')"
  obtains x s1 where "snd s1 = snd s @ [event x]" "f x s1 = (r, s')"
  using assms by (auto simp: bindIO_eq try_call_eq)

text \<open>Evaluation on a known world.\<close>

lemma bindIO_returned: "m s = (Inr x, s1) \<Longrightarrow> bindIO m f s = f x s1"
  by (simp add: bindIO_def)

lemma bindIO_liftIO [simp]: "bindIO (liftIO (Inr x)) f s = f x s"
  by (simp add: bindIO_def liftIO_def)

lemma bindIO_liftIO_Inl [simp]: "bindIO (liftIO (Inl e)) f s = (Inl e, s)"
  by (simp add: bindIO_def liftIO_def)

lemma bindIO_Inr: "bindIO m f s = (Inr y, s') \<longleftrightarrow> (\<exists>x s1. m s = (Inr x, s1) \<and> f x s1 = (Inr y, s'))"
  by (auto simp: bindIO_eq)

section \<open>What a program may write to the trace\<close>

text \<open>Whatever happens, raising included, the trace is only extended, and only by events satisfying \<open>P\<close>.\<close>

definition emits :: "('ev \<Rightarrow> bool) \<Rightarrow> ('w, 'ev, 'a) io \<Rightarrow> bool" where
  "emits P m = (\<forall>s r s'. m s = (r, s') \<longrightarrow> (\<exists>tr. snd s' = snd s @ tr \<and> list_all P tr))"

named_theorems emits_intros

lemma emitsD: "emits P m \<Longrightarrow> m s = (r, s') \<Longrightarrow> \<exists>tr. snd s' = snd s @ tr \<and> list_all P tr"
  unfolding emits_def by blast

lemma emits_return [emits_intros]: "emits P (returnIO x)"
  by (simp add: emits_def)

lemma emits_lift [emits_intros]: "emits P (liftIO m)"
  by (simp add: emits_def)

lemma emits_call [emits_intros]: "(\<And>x. P (event x)) \<Longrightarrow> emits P (call event p)"
  by (auto simp: emits_def call_eq)

lemma emits_try_call [emits_intros]: "(\<And>x. P (event x)) \<Longrightarrow> emits P (try_call event p)"
  by (auto simp: emits_def try_call_eq)

lemma emits_bind [emits_intros]:
  assumes m: "emits P m" and f: "\<And>x. emits P (f x)"
  shows "emits P (bindIO m f)"
  unfolding emits_def
proof (intro allI impI)
  fix s r s' assume "bindIO m f s = (r, s')"
  then show "\<exists>tr. snd s' = snd s @ tr \<and> list_all P tr"
  proof (cases rule: bindIO_cases)
    case (raised e)
    then show ?thesis using emitsD [OF m] by blast
  next
    case (returned x s1)
    then obtain t1 t2 where "snd s1 = snd s @ t1" "list_all P t1" "snd s' = snd s1 @ t2" "list_all P t2"
      using emitsD [OF m] emitsD [OF f] by blast
    then show ?thesis by simp
  qed
qed

section \<open>Runs that return\<close>

text \<open>From the world \<open>w\<close> the program returns \<open>x\<close> in the world \<open>w'\<close>, whatever the trace so far.\<close>

definition yields :: "('w, 'ev, 'a) io \<Rightarrow> 'w \<Rightarrow> 'a \<Rightarrow> 'w \<Rightarrow> bool" where
  "yields m w x w' = (\<forall>log. \<exists>log'. m (w, log) = (Inr x, (w', log')))"

named_theorems yields_intros

lemma yields_return [yields_intros]: "yields (returnIO x) w x w"
  by (simp add: yields_def returnIO_def)

lemma yields_lift [yields_intros]: "m = Inr x \<Longrightarrow> yields (liftIO m) w x w"
  by (simp add: yields_def liftIO_def)

lemma yields_call [yields_intros]: "p w = (Inr x, w') \<Longrightarrow> yields (call ev p) w x w'"
  by (simp add: yields_def call_def)

lemma yields_try_call [yields_intros]: "p w = (r, w') \<Longrightarrow> yields (try_call ev p) w r w'"
  by (simp add: yields_def try_call_def)

lemma yields_bind: "yields m w x w' \<Longrightarrow> yields (f x) w' y w'' \<Longrightarrow> yields (bindIO m f) w y w''"
  unfolding yields_def by (metis bindIO_returned)

lemma yieldsD: "yields m w x w' \<Longrightarrow> \<exists>log'. m (w, log) = (Inr x, (w', log'))"
  by (simp add: yields_def)

end
