(* ===== verification/Cancellation.thy ===== *)
theory Cancellation
  imports Ports References Outbox Gate
begin

text \<open>
  \<^verbatim>\<open>services/control_plane/cancellation.py\<close>: the protective cancellation of a Payment Link by a leased job.
  The clock, the binding reader, the context reader, the provider and the authorization recorder are
  arguments of the model; every call is recorded in the trace with its answer. The provider answers with
  objects the code inspects attribute by attribute: a \<open>json\<close> per attribute.
\<close>

section \<open>Vocabulary and argument checks\<close>

definition is_link_id_char :: "char \<Rightarrow> bool" where
  "is_link_id_char c = (is_upper c \<or> is_lower c \<or> is_digit c)"

definition is_payment_link_id :: "pystr \<Rightarrow> bool" where
  "is_payment_link_id s =
     (startswith s ''plink_'' \<and> 1 \<le> length (drop 6 s) \<and> length (drop 6 s) \<le> 120 \<and> list_all is_link_id_char (drop 6 s))"

definition is_reason_start :: "char \<Rightarrow> bool" where
  "is_reason_start c = (is_lower c \<or> is_digit c)"

definition is_reason_char :: "char \<Rightarrow> bool" where
  "is_reason_char c = (is_lower c \<or> is_digit c \<or> c \<in> set ''_:.-'')"

definition is_reason_code :: "pystr \<Rightarrow> bool" where
  "is_reason_code s = (case s of [] \<Rightarrow> False | c # cs \<Rightarrow> is_reason_start c \<and> length cs \<le> 127 \<and> list_all is_reason_char cs)"

definition require_reason_code :: "json \<Rightarrow> exn + pystr" where
  "require_reason_code value = (case value of
      JStr s \<Rightarrow> if is_reason_code s then Inr s else Inl (ValueError ''reason_code must be a bounded lowercase machine code'')
    | _ \<Rightarrow> Inl (ValueError ''reason_code must be a bounded lowercase machine code''))"

definition safe_exception_reason :: "pystr \<Rightarrow> exn \<Rightarrow> pystr" where
  "safe_exception_reason head e =
     (let name = take 80 (map (\<lambda>c. if is_lower c \<or> is_digit c \<or> c = CHR ''_'' then c else CHR ''_'') (lower (exception_name e)))
      in head @ '':'' @ (if name = [] then ''exception'' else name))"

datatype instrument_status =
    I_CREATING | I_UNCERTAIN | I_ISSUED | I_ACTIVE | I_CANCEL_PENDING | I_PAID | I_PARTIALLY_PAID | I_CANCELLED | I_EXPIRED | I_FAILED

fun instrument_status_value :: "instrument_status \<Rightarrow> pystr" where
  "instrument_status_value I_CREATING = ''CREATING''"
| "instrument_status_value I_UNCERTAIN = ''UNCERTAIN''"
| "instrument_status_value I_ISSUED = ''ISSUED''"
| "instrument_status_value I_ACTIVE = ''ACTIVE''"
| "instrument_status_value I_CANCEL_PENDING = ''CANCEL_PENDING''"
| "instrument_status_value I_PAID = ''PAID''"
| "instrument_status_value I_PARTIALLY_PAID = ''PARTIALLY_PAID''"
| "instrument_status_value I_CANCELLED = ''CANCELLED''"
| "instrument_status_value I_EXPIRED = ''EXPIRED''"
| "instrument_status_value I_FAILED = ''FAILED''"

datatype provider_link_status = LS_CREATED | LS_PARTIALLY_PAID | LS_EXPIRED | LS_CANCELLED | LS_PAID

fun provider_link_status_value :: "provider_link_status \<Rightarrow> pystr" where
  "provider_link_status_value LS_CREATED = ''created''"
| "provider_link_status_value LS_PARTIALLY_PAID = ''partially_paid''"
| "provider_link_status_value LS_EXPIRED = ''expired''"
| "provider_link_status_value LS_CANCELLED = ''cancelled''"
| "provider_link_status_value LS_PAID = ''paid''"

datatype cancellation_status = CS_CERTAIN_SUCCESS | CS_CERTAIN_FAILURE | CS_AMBIGUOUS

fun cancellation_status_value :: "cancellation_status \<Rightarrow> pystr" where
  "cancellation_status_value CS_CERTAIN_SUCCESS = ''certain_success''"
| "cancellation_status_value CS_CERTAIN_FAILURE = ''certain_failure''"
| "cancellation_status_value CS_AMBIGUOUS = ''ambiguous''"

datatype cancellation_disposition =
    CD_CANCELLED | CD_ALREADY_CANCELLED | CD_EXPIRED | CD_BLOCKED | CD_RECONCILE_REQUIRED | CD_REVIEW_REQUIRED | CD_ESCALATED | CD_DEAD_LETTER

fun cancellation_disposition_value :: "cancellation_disposition \<Rightarrow> pystr" where
  "cancellation_disposition_value CD_CANCELLED = ''cancelled''"
| "cancellation_disposition_value CD_ALREADY_CANCELLED = ''already_cancelled''"
| "cancellation_disposition_value CD_EXPIRED = ''expired''"
| "cancellation_disposition_value CD_BLOCKED = ''blocked''"
| "cancellation_disposition_value CD_RECONCILE_REQUIRED = ''reconcile_required''"
| "cancellation_disposition_value CD_REVIEW_REQUIRED = ''review_required''"
| "cancellation_disposition_value CD_ESCALATED = ''escalated''"
| "cancellation_disposition_value CD_DEAD_LETTER = ''dead_letter''"

section \<open>Targets, commands and bindings\<close>

record cancellation_target =
  ct_merchant_id :: pystr
  ct_case_id :: pystr
  ct_action_id :: pystr
  ct_action_key :: pystr
  ct_instrument_id :: pystr
  ct_provider_account_id :: pystr
  ct_payment_link_id :: pystr
  ct_reference_id :: pystr
  ct_amount_minor :: int
  ct_currency :: pystr

definition require_opaque :: "pystr \<Rightarrow> pystr \<Rightarrow> exn + unit" where
  "require_opaque value message = raise_if (\<not> is_identifier value) (ValueError message)"

definition mk_cancellation_target :: "cancellation_target \<Rightarrow> exn + cancellation_target" where
  "mk_cancellation_target t =
     bindE (require_opaque (ct_merchant_id t) ''merchant_id must be an opaque identifier'') (\<lambda>_.
     bindE (require_opaque (ct_case_id t) ''case_id must be an opaque identifier'') (\<lambda>_.
     bindE (require_opaque (ct_action_id t) ''action_id must be an opaque identifier'') (\<lambda>_.
     bindE (require_opaque (ct_instrument_id t) ''instrument_id must be an opaque identifier'') (\<lambda>_.
     bindE (require_opaque (ct_provider_account_id t) ''provider_account_id must be an opaque identifier'') (\<lambda>_.
     bindE (require_text (ct_action_key t) ''action_key'' 68) (\<lambda>_.
     bindE (raise_if (\<not> startswith (ct_action_key t) ''act_'' \<or> \<not> is_digest (drop 4 (ct_action_key t)))
       (ValueError ''action_key must be a RetryWise action digest'')) (\<lambda>_.
     bindE (raise_if (\<not> is_payment_link_id (ct_payment_link_id t))
       (ValueError ''payment_link_id must be a Razorpay Payment Link id'')) (\<lambda>_.
     bindE (require_opaque (ct_reference_id t) ''reference_id must be an opaque provider reference'') (\<lambda>_.
     bindE (raise_if (40 < length (ct_reference_id t)) (ValueError ''reference_id cannot exceed the provider limit'')) (\<lambda>_.
     bindE (make_recovery_reference_id (ct_case_id t) (ct_provider_account_id t)) (\<lambda>expected_reference_id.
     bindE (raise_if (ct_reference_id t \<noteq> expected_reference_id)
       (ValueError ''reference_id must be the controller-derived recovery reference'')) (\<lambda>_.
     bindE (raise_if (ct_amount_minor t \<le> 0) (ValueError ''amount_minor must be a positive integer'')) (\<lambda>_.
     bindE (raise_if (\<not> link_currency (ct_currency t)) (ValueError ''currency must be a three-letter uppercase code'')) (\<lambda>_.
     Inr t))))))))))))))"

definition target_to_primitive :: "cancellation_target \<Rightarrow> json" where
  "target_to_primitive t = JObj
     [(''action_id'', JStr (ct_action_id t)), (''action_key'', JStr (ct_action_key t)),
      (''amount_minor'', JInt (ct_amount_minor t)), (''case_id'', JStr (ct_case_id t)),
      (''currency'', JStr (ct_currency t)), (''instrument_id'', JStr (ct_instrument_id t)),
      (''merchant_id'', JStr (ct_merchant_id t)), (''payment_link_id'', JStr (ct_payment_link_id t)),
      (''provider_account_id'', JStr (ct_provider_account_id t)), (''reference_id'', JStr (ct_reference_id t))]"

definition target_digest :: "cancellation_target \<Rightarrow> pystr" where
  "target_digest t = canonical_digest (JObj
     [(''schema'', JStr ''retrywise-cancellation-target-v1''), (''target'', target_to_primitive t)])"

record cancel_command =
  cl_proposal :: action_proposal
  cl_prior_plan :: gate_decision
  cl_target :: cancellation_target

definition mk_cancel_command :: "cancel_command \<Rightarrow> exn + cancel_command" where
  "mk_cancel_command c =
     (let p = cl_proposal c; plan = cl_prior_plan c; t = cl_target c in
     bindE (raise_if (p_action_type p \<noteq> CANCEL_PAYMENT_LINK)
       (ValueError ''cancellation command requires a cancellation proposal'')) (\<lambda>_.
     bindE (raise_if (p_instrument_reference p \<noteq> Some (ct_payment_link_id t))
       (ValueError ''proposal instrument is not the target Payment Link'')) (\<lambda>_.
     bindE (raise_if (p_merchant_id p \<noteq> ct_merchant_id t \<or> p_case_id p \<noteq> ct_case_id t \<or> action_key p \<noteq> ct_action_key t)
       (ValueError ''cancellation proposal is not bound to its target'')) (\<lambda>_.
     bindE (raise_if (d_stage plan \<noteq> POLICY \<or> \<not> allowed plan)
       (ValueError ''cancellation command requires an allowed policy plan'')) (\<lambda>_.
     bindE (raise_if (d_proposal_id plan \<noteq> p_proposal_id p \<or> d_action_key plan \<noteq> action_key p
         \<or> d_proposal_digest plan \<noteq> proposal_digest p \<or> d_case_id plan \<noteq> p_case_id p
         \<or> d_decision_version plan \<noteq> p_decision_version p)
       (ValueError ''cancellation policy plan is not bound to the proposal'')) (\<lambda>_.
     Inr c))))))"

definition cancel_payload_digest :: "cancel_command \<Rightarrow> pystr" where
  "cancel_payload_digest c = canonical_digest (JObj
     [(''action_key'', JStr (action_key (cl_proposal c))),
      (''prior_plan_digest'', JStr (decision_digest (cl_prior_plan c))),
      (''proposal_digest'', JStr (proposal_digest (cl_proposal c))),
      (''schema'', JStr ''retrywise-cancel-payment-link-command-v1''),
      (''target_digest'', JStr (target_digest (cl_target c)))])"

record instrument_binding =
  ib_target :: cancellation_target
  ib_persisted_target_digest :: pystr
  ib_instrument_status :: instrument_status
  ib_recorded_at :: instant
  ib_schema_version :: int

definition mk_instrument_binding :: "instrument_binding \<Rightarrow> datetime \<Rightarrow> exn + instrument_binding" where
  "mk_instrument_binding b recorded_at =
     bindE (raise_if (\<not> is_digest (ib_persisted_target_digest b))
       (ValueError ''persisted_target_digest must be a lowercase SHA-256 digest'')) (\<lambda>_.
     bindE (require_utc_exact recorded_at ''recorded_at'') (\<lambda>recorded.
     bindE (raise_if (ib_schema_version b \<noteq> 1) (ValueError ''unsupported durable instrument binding schema_version'')) (\<lambda>_.
     Inr (b\<lparr>ib_recorded_at := recorded\<rparr>))))"

definition record_binding :: "cancellation_target \<Rightarrow> instrument_status \<Rightarrow> datetime \<Rightarrow> exn + instrument_binding" where
  "record_binding t status recorded_at = mk_instrument_binding
     \<lparr>ib_target = t, ib_persisted_target_digest = target_digest t, ib_instrument_status = status, ib_recorded_at = 0,
      ib_schema_version = 1\<rparr> recorded_at"

definition binding_matches :: "instrument_binding \<Rightarrow> cancel_command \<Rightarrow> bool" where
  "binding_matches b c = (ib_target b = cl_target c \<and> ib_persisted_target_digest b = target_digest (cl_target c))"

section \<open>Provider truth\<close>

record link_truth =
  lt_payment_link_id :: pystr
  lt_reference_id :: pystr
  lt_amount_minor :: int
  lt_amount_paid_minor :: int
  lt_currency :: pystr
  lt_accept_partial :: bool
  lt_upi_link :: bool
  lt_status :: provider_link_status

definition check_paid_amount :: "link_truth \<Rightarrow> exn + unit" where
  "check_paid_amount t = (case lt_status t of
      LS_PAID \<Rightarrow> raise_if (lt_amount_paid_minor t \<noteq> lt_amount_minor t)
        (ValueError ''paid provider truth must have its full amount paid'')
    | LS_PARTIALLY_PAID \<Rightarrow> raise_if (\<not> (0 < lt_amount_paid_minor t \<and> lt_amount_paid_minor t < lt_amount_minor t))
        (ValueError ''partially paid provider truth must have a proper partial amount'')
    | _ \<Rightarrow> raise_if (lt_amount_paid_minor t \<noteq> 0)
        (ValueError ''created, cancelled, or expired no-partial provider truth must be unpaid''))"

definition mk_link_truth :: "link_truth \<Rightarrow> exn + link_truth" where
  "mk_link_truth t =
     bindE (raise_if (\<not> is_payment_link_id (lt_payment_link_id t)) (ValueError ''provider truth payment_link_id is invalid'')) (\<lambda>_.
     bindE (require_opaque (lt_reference_id t) ''provider truth reference_id is invalid'') (\<lambda>_.
     bindE (raise_if (40 < length (lt_reference_id t)) (ValueError ''provider truth reference_id exceeds the provider limit'')) (\<lambda>_.
     bindE (raise_if (lt_amount_minor t \<le> 0) (ValueError ''provider truth amount_minor is invalid'')) (\<lambda>_.
     bindE (raise_if (lt_amount_paid_minor t < 0 \<or> lt_amount_minor t < lt_amount_paid_minor t)
       (ValueError ''provider truth amount_paid_minor is outside its amount'')) (\<lambda>_.
     bindE (raise_if (\<not> link_currency (lt_currency t)) (ValueError ''provider truth currency is invalid'')) (\<lambda>_.
     bindE (check_paid_amount t) (\<lambda>_.
     Inr t)))))))"

definition truth_matches :: "link_truth \<Rightarrow> cancellation_target \<Rightarrow> bool" where
  "truth_matches t target =
     (lt_payment_link_id t = ct_payment_link_id target \<and> lt_reference_id t = ct_reference_id target
      \<and> lt_amount_minor t = ct_amount_minor target \<and> lt_currency t = ct_currency target
      \<and> \<not> lt_accept_partial t \<and> \<not> lt_upi_link t)"

record cancel_outcome =
  co_status :: cancellation_status
  co_reason_code :: pystr
  co_payment_link :: "link_truth option"

definition mk_cancel_outcome :: "cancellation_status \<Rightarrow> json \<Rightarrow> link_truth option \<Rightarrow> exn + cancel_outcome" where
  "mk_cancel_outcome status reason_code payment_link =
     bindE (require_reason_code reason_code) (\<lambda>reason.
     bindE (if status = CS_CERTAIN_SUCCESS
            then (case payment_link of
                    None \<Rightarrow> Inl (ValueError ''certain cancellation success requires provider truth'')
                  | Some t \<Rightarrow> raise_if (lt_status t \<noteq> LS_CANCELLED)
                      (ValueError ''certain cancellation success requires cancelled provider truth''))
            else raise_if (payment_link \<noteq> None) (ValueError ''only certain cancellation success may carry provider truth'')) (\<lambda>_.
     Inr \<lparr>co_status = status, co_reason_code = reason, co_payment_link = payment_link\<rparr>))"

text \<open>What a provider port may hand back: a value of the projection class, or any object, of which the code
  reads the attributes by name. A missing attribute is an \<^verbatim>\<open>AttributeError\<close>.\<close>

datatype raw_link = LinkTruth link_truth | LinkObject "(pystr \<times> json) list"

datatype raw_outcome = CancelOutcome cancel_outcome | OutcomeObject "json option" "json option" "raw_link option option"

definition attribute :: "(pystr \<times> json) list \<Rightarrow> pystr \<Rightarrow> exn + json" where
  "attribute obj name = (case map_of obj name of None \<Rightarrow> Inl (AttributeError name) | Some v \<Rightarrow> Inr v)"

definition text_attribute :: "(pystr \<times> json) list \<Rightarrow> pystr \<Rightarrow> exn + pystr" where
  "text_attribute obj name =
     bindE (attribute obj name) (\<lambda>v. case v of JStr s \<Rightarrow> Inr s | _ \<Rightarrow> Inl (TypeError ''expected string or bytes-like object''))"

definition int_attribute :: "(pystr \<times> json) list \<Rightarrow> pystr \<Rightarrow> exn + int" where
  "int_attribute obj name =
     bindE (attribute obj name) (\<lambda>v. case v of JInt i \<Rightarrow> Inr i | _ \<Rightarrow> Inl (ValueError (''provider truth '' @ name @ '' is invalid'')))"

definition bool_attribute :: "(pystr \<times> json) list \<Rightarrow> pystr \<Rightarrow> exn + bool" where
  "bool_attribute obj name =
     bindE (attribute obj name) (\<lambda>v. case v of JBool b \<Rightarrow> Inr b | _ \<Rightarrow> Inl (ValueError ''provider truth link-mode flags must be booleans''))"

definition all_link_statuses :: "provider_link_status list" where
  "all_link_statuses = [LS_CREATED, LS_PARTIALLY_PAID, LS_EXPIRED, LS_CANCELLED, LS_PAID]"

definition link_status_of :: "json \<Rightarrow> exn + provider_link_status" where
  "link_status_of v = (case v of
      JStr s \<Rightarrow> (case find (\<lambda>st. provider_link_status_value st = s) all_link_statuses of
                  None \<Rightarrow> Inl (ValueError (s @ '' is not a valid ProviderPaymentLinkStatus'')) | Some st \<Rightarrow> Inr st)
    | _ \<Rightarrow> Inl (ValueError ''not a valid ProviderPaymentLinkStatus''))"

definition truth_of_object :: "(pystr \<times> json) list \<Rightarrow> exn + link_truth" where
  "truth_of_object obj =
     bindE (attribute obj ''status'') (\<lambda>status_value.
     bindE (link_status_of status_value) (\<lambda>status.
     bindE (text_attribute obj ''payment_link_id'') (\<lambda>payment_link_id.
     bindE (text_attribute obj ''reference_id'') (\<lambda>reference_id.
     bindE (int_attribute obj ''amount_minor'') (\<lambda>amount_minor.
     bindE (int_attribute obj ''amount_paid_minor'') (\<lambda>amount_paid_minor.
     bindE (text_attribute obj ''currency'') (\<lambda>currency.
     bindE (bool_attribute obj ''accept_partial'') (\<lambda>accept_partial.
     bindE (bool_attribute obj ''upi_link'') (\<lambda>upi_link.
     mk_link_truth \<lparr>lt_payment_link_id = payment_link_id, lt_reference_id = reference_id, lt_amount_minor = amount_minor,
        lt_amount_paid_minor = amount_paid_minor, lt_currency = currency, lt_accept_partial = accept_partial,
        lt_upi_link = upi_link, lt_status = status\<rparr>)))))))))"

text \<open>Every failure of the projection is an \<^verbatim>\<open>AttributeError\<close>, a \<^verbatim>\<open>TypeError\<close> or a \<^verbatim>\<open>ValueError\<close>,
  which the code turns into the same reason.\<close>

definition normalize_truth :: "raw_link \<Rightarrow> pystr + link_truth" where
  "normalize_truth raw = (case raw of
      LinkTruth t \<Rightarrow> Inr t
    | LinkObject obj \<Rightarrow> (case truth_of_object obj of
        Inr t \<Rightarrow> Inr t | Inl _ \<Rightarrow> Inl ''provider_truth_contract_invalid''))"

definition all_cancellation_statuses :: "cancellation_status list" where
  "all_cancellation_statuses = [CS_CERTAIN_SUCCESS, CS_CERTAIN_FAILURE, CS_AMBIGUOUS]"

definition cancellation_status_of :: "json option \<Rightarrow> exn + cancellation_status" where
  "cancellation_status_of v = (case v of
      None \<Rightarrow> Inl (AttributeError ''status'')
    | Some (JStr s) \<Rightarrow> (case find (\<lambda>st. cancellation_status_value st = s) all_cancellation_statuses of
                  None \<Rightarrow> Inl (ValueError (s @ '' is not a valid ProviderCancellationStatus'')) | Some st \<Rightarrow> Inr st)
    | Some _ \<Rightarrow> Inl (ValueError ''not a valid ProviderCancellationStatus''))"

definition required_attribute :: "pystr \<Rightarrow> 'a option \<Rightarrow> exn + 'a" where
  "required_attribute name v = (case v of None \<Rightarrow> Inl (AttributeError name) | Some x \<Rightarrow> Inr x)"

definition cancel_contract :: "exn + 'a \<Rightarrow> pystr + 'a" where
  "cancel_contract r = (case r of Inl _ \<Rightarrow> Inl ''provider_cancel_contract_invalid'' | Inr v \<Rightarrow> Inr v)"

definition normalize_cancel_outcome :: "raw_outcome \<Rightarrow> pystr + cancel_outcome" where
  "normalize_cancel_outcome raw = (case raw of
      CancelOutcome out \<Rightarrow> Inr out
    | OutcomeObject status_attr reason_attr link_attr \<Rightarrow>
        bindE (cancel_contract (cancellation_status_of status_attr)) (\<lambda>status.
        bindE (cancel_contract (required_attribute ''reason_code'' reason_attr)) (\<lambda>reason.
        bindE (cancel_contract (required_attribute ''payment_link'' link_attr)) (\<lambda>raw_payment_link.
        bindE (case raw_payment_link of None \<Rightarrow> Inr None
               | Some raw_truth \<Rightarrow> bindE (normalize_truth raw_truth) (\<lambda>t. Inr (Some t))) (\<lambda>payment_link.
        cancel_contract (mk_cancel_outcome status reason payment_link))))))"

section \<open>Ports\<close>

record binding_query =
  bq_merchant_id :: pystr
  bq_case_id :: pystr
  bq_action_id :: pystr
  bq_action_key :: pystr
  bq_instrument_id :: pystr
  bq_provider_account_id :: pystr
  bq_payment_link_id :: pystr
  bq_target_digest :: pystr

record 'w cancel_ports =
  cp_clock :: "('w, datetime) port"
  cp_load_binding :: "binding_query \<Rightarrow> ('w, instrument_binding option) port"
  cp_load_context :: "action_proposal \<Rightarrow> pystr \<Rightarrow> instant \<Rightarrow> ('w, gate_context) port"
  cp_fetch :: "pystr \<Rightarrow> pystr \<Rightarrow> ('w, raw_link) port"
  cp_cancel :: "pystr \<Rightarrow> pystr \<Rightarrow> ('w, raw_outcome) port"
  cp_record_authorization :: "(gate_decision \<Rightarrow> gate_context \<Rightarrow> ('w, unit) port) option"

datatype cancel_event =
    CancelClockRead "exn + datetime"
  | BindingLoaded binding_query "exn + instrument_binding option"
  | CancelContextLoaded action_proposal pystr instant "exn + gate_context"
  | TruthFetched pystr pystr "exn + raw_link"
  | CancelAuthorized gate_decision gate_context "exn + unit"
  | CancelAttempted pystr pystr "exn + raw_outcome"

type_synonym ('w, 'a) cio = "('w, cancel_event, 'a) io"

record cancel_report =
  cr_disposition :: cancellation_disposition
  cr_job :: outbox_job
  cr_effect_decision :: gate_decision
  cr_reason_code :: pystr
  cr_payment_link_id :: pystr
  cr_target_digest :: pystr
  cr_provider_status :: "provider_link_status option"
  cr_cancel_attempted :: bool

definition CANCEL_AUTHORIZATION_FAULTS :: "gate_reason list" where
  "CANCEL_AUTHORIZATION_FAULTS = [PLAN_AUTHORIZATION_MISSING, PLAN_BINDING_MISMATCH, DURABLE_INTENT_MISSING]"

definition BINDING_STATUSES_WITH_PROVIDER_TARGET :: "instrument_status list" where
  "BINDING_STATUSES_WITH_PROVIDER_TARGET =
     [I_UNCERTAIN, I_ISSUED, I_ACTIVE, I_CANCEL_PENDING, I_PAID, I_PARTIALLY_PAID, I_CANCELLED, I_EXPIRED]"

definition CANCELLABLE_BINDING_STATUSES :: "instrument_status list" where
  "CANCELLABLE_BINDING_STATUSES = [I_UNCERTAIN, I_ISSUED, I_ACTIVE, I_CANCEL_PENDING]"

definition PAID_BINDING_STATUSES :: "instrument_status list" where
  "PAID_BINDING_STATUSES = [I_PAID, I_PARTIALLY_PAID]"

definition TERMINAL_BINDING_STATUSES :: "instrument_status list" where
  "TERMINAL_BINDING_STATUSES = [I_CANCELLED, I_EXPIRED]"

section \<open>Settling the job\<close>

text \<open>What every settlement shares: the job, its command and the worker, the decision the report carries, the
  provider status it mentions and whether a cancel call was made.\<close>

record cancelling =
  cn_job :: outbox_job
  cn_command :: cancel_command
  cn_worker_id :: pystr
  cn_effect :: gate_decision
  cn_provider_status :: "provider_link_status option"
  cn_attempted :: bool

definition cancel_now :: "'w cancel_ports \<Rightarrow> ('w, instant) cio" where
  "cancel_now ports = bindIO (call CancelClockRead (cp_clock ports)) (\<lambda>d. liftIO (require_utc_exact d ''clock result''))"

definition cancel_report_of :: "cancelling \<Rightarrow> cancellation_disposition \<Rightarrow> outbox_job \<Rightarrow> pystr \<Rightarrow> cancel_report" where
  "cancel_report_of cn disposition job reason =
     \<lparr>cr_disposition = disposition, cr_job = job, cr_effect_decision = cn_effect cn, cr_reason_code = reason,
      cr_payment_link_id = ct_payment_link_id (cl_target (cn_command cn)),
      cr_target_digest = target_digest (cl_target (cn_command cn)),
      cr_provider_status = cn_provider_status cn, cr_cancel_attempted = cn_attempted cn\<rparr>"

definition cancel_complete :: "'w cancel_ports \<Rightarrow> cancelling \<Rightarrow> pystr \<Rightarrow> cancellation_disposition \<Rightarrow> ('w, cancel_report) cio" where
  "cancel_complete ports cn reason disposition =
     bindIO (cancel_now ports) (\<lambda>now.
     liftIO (bindE (Outbox.complete (cn_job cn) (cn_worker_id cn) (held_token (cn_job cn)) (utc now) (j_version (cn_job cn))
         (cancellation_disposition_value disposition @ '':'' @ target_digest (cl_target (cn_command cn)))) (\<lambda>completed.
       Inr (cancel_report_of cn disposition completed reason))))"

definition cancel_dead_letter :: "'w cancel_ports \<Rightarrow> cancelling \<Rightarrow> pystr \<Rightarrow> cancellation_disposition \<Rightarrow> ('w, cancel_report) cio" where
  "cancel_dead_letter ports cn reason disposition =
     bindIO (cancel_now ports) (\<lambda>now.
     liftIO (bindE (dead_letter (cn_job cn) (cn_worker_id cn) (held_token (cn_job cn)) (utc now) (j_version (cn_job cn)) reason)
       (\<lambda>dead. Inr (cancel_report_of cn disposition dead reason))))"

definition cancel_review :: "'w cancel_ports \<Rightarrow> cancelling \<Rightarrow> pystr \<Rightarrow> ('w, cancel_report) cio" where
  "cancel_review ports cn reason = cancel_dead_letter ports cn reason CD_REVIEW_REQUIRED"

definition cancel_requeue ::
  "'w cancel_ports \<Rightarrow> backoff_policy \<Rightarrow> cancelling \<Rightarrow> pystr \<Rightarrow> retry_mode \<Rightarrow> ('w, cancel_report) cio" where
  "cancel_requeue ports backoff cn reason mode =
     bindIO (cancel_now ports) (\<lambda>now.
     liftIO (bindE (requeue (cn_job cn) (cn_worker_id cn) (held_token (cn_job cn)) (utc now) (j_version (cn_job cn))
         reason backoff mode) (\<lambda>updated.
       Inr (cancel_report_of cn (if j_state updated = DEAD_LETTER then CD_DEAD_LETTER else CD_RECONCILE_REQUIRED) updated reason))))"

section \<open>Binding and truth\<close>

definition binding_query_of :: "cancel_command \<Rightarrow> binding_query" where
  "binding_query_of c =
     (let t = cl_target c in
      \<lparr>bq_merchant_id = ct_merchant_id t, bq_case_id = ct_case_id t, bq_action_id = ct_action_id t,
       bq_action_key = ct_action_key t, bq_instrument_id = ct_instrument_id t,
       bq_provider_account_id = ct_provider_account_id t, bq_payment_link_id = ct_payment_link_id t,
       bq_target_digest = target_digest t\<rparr>)"

definition load_binding :: "'w cancel_ports \<Rightarrow> cancel_command \<Rightarrow> ('w, instrument_binding option) cio" where
  "load_binding ports c = call (BindingLoaded (binding_query_of c)) (cp_load_binding ports (binding_query_of c))"

definition cancel_binding_failure :: "outbox_job \<Rightarrow> cancel_command \<Rightarrow> instrument_binding option \<Rightarrow> instant \<Rightarrow> pystr option" where
  "cancel_binding_failure job c binding now =
     (if j_action_key job \<noteq> action_key (cl_proposal c) then Some ''job_action_key_mismatch''
      else if j_payload_digest job \<noteq> cancel_payload_digest c then Some ''job_payload_digest_mismatch''
      else (case binding of
        None \<Rightarrow> Some ''durable_instrument_binding_missing''
      | Some b \<Rightarrow>
          if \<not> binding_matches b c then Some ''durable_instrument_binding_mismatch''
          else if now < ib_recorded_at b then Some ''durable_instrument_binding_from_future''
          else if ib_instrument_status b \<notin> set BINDING_STATUSES_WITH_PROVIDER_TARGET
          then Some ''instrument_status_has_no_cancellable_provider_target'' else None))"

definition fetch_truth :: "'w cancel_ports \<Rightarrow> cancel_command \<Rightarrow> ('w, pystr + link_truth) cio" where
  "fetch_truth ports c =
     (let link = ct_payment_link_id (cl_target c); account = ct_provider_account_id (cl_target c) in
      bindIO (try_call (TruthFetched link account) (cp_fetch ports link account)) (\<lambda>raw.
        returnIO (case raw of
          Inl e \<Rightarrow> Inl (safe_exception_reason ''provider_fetch_exception'' e)
        | Inr raw_truth \<Rightarrow> normalize_truth raw_truth)))"

text \<open>The settlement a binding and a provider truth decide without a cancel call, if they decide one.\<close>

definition resolve_without_cancel ::
  "'w cancel_ports \<Rightarrow> backoff_policy \<Rightarrow> cancelling \<Rightarrow> instrument_binding \<Rightarrow> link_truth \<Rightarrow> pystr
     \<Rightarrow> ('w, cancel_report) cio option" where
  "resolve_without_cancel ports backoff cancelling binding truth phase =
     (let cn = cancelling\<lparr>cn_provider_status := Some (lt_status truth)\<rparr>;
          durable = lower (instrument_status_value (ib_instrument_status binding)) in
      if ib_instrument_status binding \<in> set PAID_BINDING_STATUSES
      then Some (cancel_review ports cn (phase @ ''_durable_'' @ durable @ ''_requires_review''))
      else if lt_status truth \<in> {LS_PAID, LS_PARTIALLY_PAID}
      then Some (cancel_review ports cn (phase @ ''_provider_'' @ provider_link_status_value (lt_status truth) @ ''_requires_review''))
      else if lt_status truth = LS_CANCELLED
      then Some (cancel_complete ports cn (phase @ ''_provider_already_cancelled'') CD_ALREADY_CANCELLED)
      else if lt_status truth = LS_EXPIRED
      then Some (cancel_complete ports cn (phase @ ''_provider_expired'') CD_EXPIRED)
      else if ib_instrument_status binding \<in> set TERMINAL_BINDING_STATUSES
      then Some (cancel_requeue ports backoff cn
             (phase @ ''_durable_'' @ durable @ ''_conflicts_with_created_provider_truth'') RECONCILE_ONLY)
      else if ib_instrument_status binding \<notin> set CANCELLABLE_BINDING_STATUSES
      then Some (cancel_dead_letter ports cn (phase @ ''_instrument_status_not_cancellable'') CD_ESCALATED)
      else None)"

section \<open>After the cancel call\<close>

definition settle_after_effect ::
  "'w cancel_ports \<Rightarrow> backoff_policy \<Rightarrow> cancelling \<Rightarrow> instrument_binding \<Rightarrow> link_truth \<Rightarrow> pystr \<Rightarrow> ('w, cancel_report) cio" where
  "settle_after_effect ports backoff cancelling binding truth reason =
     (let cn = cancelling\<lparr>cn_provider_status := Some (lt_status truth)\<rparr>;
          durable = lower (instrument_status_value (ib_instrument_status binding)) in
      if \<not> truth_matches truth (cl_target (cn_command cn))
      then cancel_dead_letter ports cn ''post_cancel_provider_target_mismatch'' CD_ESCALATED
      else if ib_instrument_status binding \<in> set PAID_BINDING_STATUSES
      then cancel_review ports cn (''post_cancel_durable_'' @ durable @ ''_requires_review'')
      else if lt_status truth \<in> {LS_PAID, LS_PARTIALLY_PAID}
      then cancel_review ports cn (''post_cancel_provider_'' @ provider_link_status_value (lt_status truth) @ ''_requires_review'')
      else if lt_status truth = LS_CANCELLED
      then cancel_complete ports cn (''post_cancel_provider_cancelled:'' @ reason) CD_CANCELLED
      else (case resolve_without_cancel ports backoff cn binding truth ''post_cancel'' of
        Some terminal \<Rightarrow> terminal
      | None \<Rightarrow> cancel_requeue ports backoff cn (''post_cancel_fresh_unpaid_link_grants_effect_retry:'' @ reason) RETRY_SAME_EFFECT))"

definition reconcile_after_effect ::
  "'w cancel_ports \<Rightarrow> backoff_policy \<Rightarrow> cancelling \<Rightarrow> pystr \<Rightarrow> ('w, cancel_report) cio" where
  "reconcile_after_effect ports backoff cancelling reason =
     (let cn = cancelling\<lparr>cn_attempted := True, cn_provider_status := None\<rparr>; c = cn_command cn in
      bindIO (fetch_truth ports c) (\<lambda>fetched.
      bindIO (load_binding ports c) (\<lambda>refreshed.
      bindIO (cancel_now ports) (\<lambda>now.
      case cancel_binding_failure (cn_job cn) c refreshed now of
        Some failure \<Rightarrow>
          cancel_dead_letter ports (cn\<lparr>cn_provider_status := (case fetched of Inl _ \<Rightarrow> None | Inr t \<Rightarrow> Some (lt_status t))\<rparr>)
            (''post_cancel_binding_failure:'' @ failure) CD_ESCALATED
      | None \<Rightarrow> (case refreshed of
          None \<Rightarrow> cancel_dead_letter ports (cn\<lparr>cn_provider_status := (case fetched of Inl _ \<Rightarrow> None | Inr t \<Rightarrow> Some (lt_status t))\<rparr>)
            ''post_cancel_binding_failure:binding_missing'' CD_ESCALATED
        | Some binding \<Rightarrow> (case fetched of
            Inl failure \<Rightarrow> cancel_requeue ports backoff cn (''post_cancel_truth_unavailable:'' @ reason @ '':'' @ failure) RECONCILE_ONLY
          | Inr truth \<Rightarrow> settle_after_effect ports backoff cn binding truth reason))))))"

definition cancel_outcome_reason :: "cancellation_target \<Rightarrow> pystr + cancel_outcome \<Rightarrow> pystr" where
  "cancel_outcome_reason target outcome = (case outcome of
      Inl failure \<Rightarrow> ''cancel_outcome_invalid:'' @ failure
    | Inr out \<Rightarrow>
       (let reason = cancellation_status_value (co_status out) @ '':'' @ co_reason_code out in
        if co_status out = CS_CERTAIN_SUCCESS
           \<and> (case co_payment_link out of None \<Rightarrow> True | Some t \<Rightarrow> \<not> truth_matches t target)
        then reason @ '':response_target_mismatch'' else reason))"

definition attempt_cancel :: "'w cancel_ports \<Rightarrow> backoff_policy \<Rightarrow> cancelling \<Rightarrow> ('w, cancel_report) cio" where
  "attempt_cancel ports backoff cn =
     (let target = cl_target (cn_command cn); link = ct_payment_link_id target; account = ct_provider_account_id target in
      bindIO (try_call (CancelAttempted link account) (cp_cancel ports link account)) (\<lambda>answer.
      reconcile_after_effect ports backoff cn (case answer of
        Inl e \<Rightarrow> safe_exception_reason ''cancel_port_exception'' e
      | Inr raw_outcome \<Rightarrow> cancel_outcome_reason target (normalize_cancel_outcome raw_outcome))))"

section \<open>Before the cancel call\<close>

definition gate_effect_at ::
  "gate_policy \<Rightarrow> cancel_command \<Rightarrow> gate_context \<Rightarrow> instant \<Rightarrow> bool \<Rightarrow> exn + gate_decision" where
  "gate_effect_at pol c context now proved =
     bindE (effect_context_of context now proved) (\<lambda>effect_context.
     evaluate_effect pol (cl_proposal c) effect_context (Some (cl_prior_plan c)))"

text \<open>The final authorization and the call: the lease and the gate once more, at the clock of this moment.\<close>

definition authorize_and_cancel ::
  "gate_policy \<Rightarrow> backoff_policy \<Rightarrow> 'w cancel_ports \<Rightarrow> cancelling \<Rightarrow> link_truth \<Rightarrow> ('w, cancel_report) cio" where
  "authorize_and_cancel pol backoff ports cancelling truth =
     (let job = cn_job cancelling; c = cn_command cancelling; account = ct_provider_account_id (cl_target c) in
      bindIO (cancel_now ports) (\<lambda>before_effect.
      bindIO (liftIO (assert_active_lease job (cn_worker_id cancelling) (held_token job) (utc before_effect))) (\<lambda>_.
      bindIO (call (CancelContextLoaded (cl_proposal c) account before_effect)
                (cp_load_context ports (cl_proposal c) account before_effect)) (\<lambda>final_context.
      bindIO (liftIO (gate_effect_at pol c final_context before_effect True)) (\<lambda>final_effect.
      let cn = cancelling\<lparr>cn_effect := final_effect, cn_provider_status := Some (lt_status truth)\<rparr> in
      if \<not> allowed final_effect
      then cancel_dead_letter ports cn (''final_effect_gate_denied:'' @ joined_reasons final_effect) CD_BLOCKED
      else if lt_amount_paid_minor truth \<noteq> 0
      then cancel_review ports cn ''final_provider_amount_paid_requires_review''
      else bindIO (case cp_record_authorization ports of
             None \<Rightarrow> returnIO ()
           | Some recorder \<Rightarrow> call (CancelAuthorized final_effect final_context) (recorder final_effect final_context)) (\<lambda>_.
           attempt_cancel ports backoff cn))))))"

definition recheck_binding ::
  "gate_policy \<Rightarrow> backoff_policy \<Rightarrow> 'w cancel_ports \<Rightarrow> cancelling \<Rightarrow> link_truth \<Rightarrow> ('w, cancel_report) cio" where
  "recheck_binding pol backoff ports cancelling truth =
     (let job = cn_job cancelling; c = cn_command cancelling;
          cn = cancelling\<lparr>cn_provider_status := Some (lt_status truth)\<rparr> in
      bindIO (load_binding ports c) (\<lambda>refreshed.
      bindIO (cancel_now ports) (\<lambda>now.
      case cancel_binding_failure job c refreshed now of
        Some failure \<Rightarrow> cancel_dead_letter ports cn (''pre_effect_binding_failure:'' @ failure) CD_ESCALATED
      | None \<Rightarrow> (case refreshed of
          None \<Rightarrow> cancel_dead_letter ports cn ''pre_effect_binding_failure:binding_missing'' CD_ESCALATED
        | Some binding \<Rightarrow> (case resolve_without_cancel ports backoff cn binding truth ''pre_effect'' of
            Some terminal \<Rightarrow> terminal
          | None \<Rightarrow>
              if j_retry_mode job = RECONCILE_ONLY
              then cancel_requeue ports backoff cn ''reconcile_only_fresh_unpaid_link_grants_effect_retry'' RETRY_SAME_EFFECT
              else authorize_and_cancel pol backoff ports cn truth)))))"

definition cancel_with_truth ::
  "gate_policy \<Rightarrow> backoff_policy \<Rightarrow> 'w cancel_ports \<Rightarrow> cancelling \<Rightarrow> instrument_binding \<Rightarrow> ('w, cancel_report) cio" where
  "cancel_with_truth pol backoff ports cn binding =
     bindIO (fetch_truth ports (cn_command cn)) (\<lambda>fetched. case fetched of
       Inl failure \<Rightarrow> cancel_requeue ports backoff cn (''pre_cancel_truth_unavailable:'' @ failure)
         (if j_retry_mode (cn_job cn) = RECONCILE_ONLY then RECONCILE_ONLY else RNORMAL)
     | Inr truth \<Rightarrow>
         if \<not> truth_matches truth (cl_target (cn_command cn))
         then cancel_dead_letter ports (cn\<lparr>cn_provider_status := Some (lt_status truth)\<rparr>) ''pre_cancel_provider_target_mismatch'' CD_ESCALATED
         else (case resolve_without_cancel ports backoff cn binding truth ''pre_cancel'' of
           Some terminal \<Rightarrow> terminal
         | None \<Rightarrow> recheck_binding pol backoff ports cn truth))"

definition cancel_execute ::
  "gate_policy \<Rightarrow> backoff_policy \<Rightarrow> 'w cancel_ports \<Rightarrow> outbox_job \<Rightarrow> cancel_command \<Rightarrow> pystr \<Rightarrow> ('w, cancel_report) cio" where
  "cancel_execute pol backoff ports job c worker_id =
     (let account = ct_provider_account_id (cl_target c) in
      bindIO (cancel_now ports) (\<lambda>now.
      bindIO (liftIO (assert_active_lease job worker_id (held_token job) (utc now))) (\<lambda>_.
      bindIO (load_binding ports c) (\<lambda>binding.
      let failure = cancel_binding_failure job c binding now in
      bindIO (call (CancelContextLoaded (cl_proposal c) account now) (cp_load_context ports (cl_proposal c) account now)) (\<lambda>context.
      bindIO (liftIO (gate_effect_at pol c context now (binding \<noteq> None \<and> failure = None))) (\<lambda>effect.
      let cn = \<lparr>cn_job = job, cn_command = c, cn_worker_id = worker_id, cn_effect = effect, cn_provider_status = None,
                cn_attempted = False\<rparr> in
      case failure of
        Some f \<Rightarrow> cancel_dead_letter ports cn (''binding_failure:'' @ f) CD_ESCALATED
      | None \<Rightarrow> (case binding of
          None \<Rightarrow> cancel_dead_letter ports cn ''binding_failure:binding_missing'' CD_ESCALATED
        | Some b \<Rightarrow>
            if \<not> allowed effect
            then cancel_dead_letter ports cn
                   ((if list_ex (\<lambda>r. r \<in> set CANCEL_AUTHORIZATION_FAULTS) (d_reasons effect)
                     then ''effect_authorization_fault'' else ''effect_gate_denied'') @ '':'' @ joined_reasons effect) CD_BLOCKED
            else cancel_with_truth pol backoff ports cn b)))))))"

end
