(* ===== verification/Cancellation_Spec.thy ===== *)
theory Cancellation_Spec
  imports Cancellation Outbox_Properties Gate_Spec
begin

text \<open>
  What the cancellation executor may do, read off the trace of its port calls: when a cancel call is
  licensed, what follows it, and how each disposition is justified by the latest read of provider truth.
\<close>

section \<open>Reading a trace\<close>

fun is_cancel :: "cancel_event \<Rightarrow> bool" where
  "is_cancel (CancelAttempted _ _ _) = True"
| "is_cancel _ = False"

text \<open>The last read of provider truth in a trace.\<close>

fun last_fetch :: "cancel_event list \<Rightarrow> cancel_event option" where
  "last_fetch [] = None"
| "last_fetch (e # es) = (case last_fetch es of
      Some f \<Rightarrow> Some f
    | None \<Rightarrow> (case e of TruthFetched _ _ _ \<Rightarrow> Some e | _ \<Rightarrow> None))"

lemma last_fetch_append [simp]:
  "last_fetch (xs @ ys) = (case last_fetch ys of Some f \<Rightarrow> Some f | None \<Rightarrow> last_fetch xs)"
  by (induction xs) (auto split: option.splits)

definition latest_truth :: "cancel_command \<Rightarrow> cancel_event list \<Rightarrow> link_truth option" where
  "latest_truth c tr = (case last_fetch tr of
      Some (TruthFetched link account (Inr raw)) \<Rightarrow>
        if link = ct_payment_link_id (cl_target c) \<and> account = ct_provider_account_id (cl_target c)
        then (case normalize_truth raw of Inl _ \<Rightarrow> None | Inr t \<Rightarrow> Some t) else None
    | _ \<Rightarrow> None)"

text \<open>An event that says nothing about provider truth.\<close>

fun is_local :: "cancel_event \<Rightarrow> bool" where
  "is_local (TruthFetched _ _ _) = False"
| "is_local (CancelAttempted _ _ _) = False"
| "is_local _ = True"

lemma cancel_local_events: "list_all is_local tr \<Longrightarrow> \<not> list_ex is_cancel tr \<and> last_fetch tr = None"
  by (induction tr) (auto elim: is_local.elims)

lemma cancel_local_tail:
  assumes "list_all is_local tr"
  shows "list_ex is_cancel (tr' @ tr) = list_ex is_cancel tr'" "latest_truth c (tr' @ tr) = latest_truth c tr'"
  using cancel_local_events [OF assms] by (simp_all add: latest_truth_def)

lemma latest_truth_local [simp]: "last_fetch ys = None \<Longrightarrow> latest_truth c (xs @ ys) = latest_truth c xs"
  by (simp add: latest_truth_def)

section \<open>Settlements\<close>

definition settled_cancel :: "cancelling \<Rightarrow> cancel_report \<Rightarrow> bool" where
  "settled_cancel cn rep =
     ((\<exists>now. settled (cn_job cn) (cn_worker_id cn) (held_token (cn_job cn)) (utc now) (j_version (cn_job cn)) (cr_job rep))
      \<and> cr_cancel_attempted rep = cn_attempted cn \<and> cr_effect_decision rep = cn_effect cn)"

lemma clock_settle:
  assumes "bindIO (cancel_now ports) (\<lambda>now. liftIO (f now)) s = (r, s')"
  shows "\<exists>x. snd s' = snd s @ [CancelClockRead x]" "r = Inr rep \<Longrightarrow> \<exists>now. f now = Inr rep"
  using assms by (auto simp: cancel_now_def bindIO_eq call_eq)

lemmas cancel_settle_defs = cancel_complete_def cancel_dead_letter_def cancel_requeue_def

lemma cancel_complete_run:
  assumes "cancel_complete ports cn reason d s = (r, s')" "j_state (cn_job cn) = LEASED"
  shows "(\<exists>x. snd s' = snd s @ [CancelClockRead x])
    \<and> (\<forall>rep. r = Inr rep \<longrightarrow> settled_cancel cn rep \<and> j_state (cr_job rep) = COMPLETED \<and> cr_disposition rep = d)"
  using clock_settle [OF assms(1) [unfolded cancel_settle_defs]] assms(2)
  by (fastforce simp: settled_cancel_def cancel_report_of_def dest!: complete_Inr)

lemma cancel_dead_letter_run:
  assumes "cancel_dead_letter ports cn reason d s = (r, s')" "j_state (cn_job cn) = LEASED"
  shows "(\<exists>x. snd s' = snd s @ [CancelClockRead x])
    \<and> (\<forall>rep. r = Inr rep \<longrightarrow> settled_cancel cn rep \<and> j_state (cr_job rep) = DEAD_LETTER \<and> cr_disposition rep = d)"
  using clock_settle [OF assms(1) [unfolded cancel_settle_defs]] assms(2)
  by (fastforce simp: settled_cancel_def cancel_report_of_def dest!: dead_letter_Inr)

lemma cancel_requeue_run:
  assumes "cancel_requeue ports backoff cn reason mode s = (r, s')"
  shows "(\<exists>x. snd s' = snd s @ [CancelClockRead x])
    \<and> (\<forall>rep. r = Inr rep \<longrightarrow> settled_cancel cn rep
         \<and> (cr_disposition rep = CD_DEAD_LETTER \<and> j_state (cr_job rep) = DEAD_LETTER
            \<or> cr_disposition rep = CD_RECONCILE_REQUIRED \<and> j_state (cr_job rep) = PENDING \<and> j_retry_mode (cr_job rep) = mode))"
  using clock_settle [OF assms(1) [unfolded cancel_settle_defs]]
  by (fastforce simp: settled_cancel_def cancel_report_of_def dest!: requeue_Inr split: if_splits)

section \<open>Justification\<close>

text \<open>What a disposition says about the job, about whether a cancel call was made, and about what the
  provider answered when it was read last.\<close>

definition cancel_justified :: "cancel_command \<Rightarrow> cancel_event list \<Rightarrow> cancel_report \<Rightarrow> bool" where
  "cancel_justified c tr rep =
     (let k = cr_job rep; attempted = list_ex is_cancel tr;
          seen = (\<lambda>statuses. \<exists>t. latest_truth c tr = Some t \<and> truth_matches t (cl_target c) \<and> lt_status t \<in> statuses) in
      cr_cancel_attempted rep = attempted
      \<and> (case cr_disposition rep of
           CD_CANCELLED \<Rightarrow> j_state k = COMPLETED \<and> attempted \<and> seen {LS_CANCELLED}
         | CD_ALREADY_CANCELLED \<Rightarrow> j_state k = COMPLETED \<and> \<not> attempted \<and> seen {LS_CANCELLED}
         | CD_EXPIRED \<Rightarrow> j_state k = COMPLETED \<and> seen {LS_EXPIRED}
         | CD_REVIEW_REQUIRED \<Rightarrow> j_state k = DEAD_LETTER
             \<and> (seen {LS_PAID, LS_PARTIALLY_PAID}
                \<or> (\<exists>t. latest_truth c tr = Some t \<and> lt_amount_paid_minor t \<noteq> 0)
                \<or> (\<exists>b. BindingLoaded (binding_query_of c) (Inr (Some b)) \<in> set tr \<and> ib_instrument_status b \<in> set PAID_BINDING_STATUSES))
         | CD_BLOCKED \<Rightarrow> j_state k = DEAD_LETTER \<and> \<not> attempted \<and> \<not> allowed (cr_effect_decision rep)
         | CD_RECONCILE_REQUIRED \<Rightarrow> j_state k = PENDING
             \<and> (case j_retry_mode k of
                  RETRY_SAME_EFFECT \<Rightarrow> seen {LS_CREATED}
                | RNORMAL \<Rightarrow> \<not> attempted \<and> latest_truth c tr = None
                | RECONCILE_ONLY \<Rightarrow> latest_truth c tr = None \<or> seen {LS_CREATED})
         | CD_ESCALATED \<Rightarrow> j_state k = DEAD_LETTER
         | CD_DEAD_LETTER \<Rightarrow> j_state k = DEAD_LETTER))"

text \<open>What licenses a cancel call: it is the only one, and it is followed at once by a read of the truth;
  before it, the truth read last is the target, unpaid and open, a cancellable binding of the target was loaded,
  the job is not in reconciliation mode, and at one moment the lease was active and the effect gate allowed the
  cancellation; that decision is on record first when there is a recorder.\<close>

definition cancel_licensed ::
  "gate_policy \<Rightarrow> bool \<Rightarrow> outbox_job \<Rightarrow> cancel_command \<Rightarrow> pystr \<Rightarrow> cancel_event list \<Rightarrow> bool" where
  "cancel_licensed pol recorder job c worker tr =
     (let link = ct_payment_link_id (cl_target c); account = ct_provider_account_id (cl_target c) in
      \<exists>before answer reread after truth binding now context ctx effect.
        tr = before @ CancelAttempted link account answer # TruthFetched link account reread # after
        \<and> \<not> list_ex is_cancel before \<and> \<not> list_ex is_cancel after
        \<and> latest_truth c before = Some truth \<and> truth_matches truth (cl_target c)
        \<and> lt_status truth = LS_CREATED \<and> lt_amount_paid_minor truth = 0
        \<and> BindingLoaded (binding_query_of c) (Inr (Some binding)) \<in> set before
        \<and> binding_matches binding c \<and> ib_instrument_status binding \<in> set CANCELLABLE_BINDING_STATUSES
        \<and> j_action_key job = action_key (cl_proposal c) \<and> j_payload_digest job = cancel_payload_digest c
        \<and> j_retry_mode job \<noteq> RECONCILE_ONLY \<and> holds_lease job worker (held_token job) now
        \<and> CancelContextLoaded (cl_proposal c) account now (Inr context) \<in> set before
        \<and> effect_context_of context now True = Inr ctx
        \<and> evaluate_effect pol (cl_proposal c) ctx (Some (cl_prior_plan c)) = Inr effect \<and> allowed effect
        \<and> (if recorder then CancelAuthorized effect context (Inr ()) \<in> set before else True))"

section \<open>A decided settlement\<close>

definition settle_ok :: "cancelling \<Rightarrow> cancel_event list \<Rightarrow> exn + cancel_report \<Rightarrow> cancel_event list \<Rightarrow> bool" where
  "settle_ok cn tr r tr' =
     ((\<exists>x. tr' = tr @ [CancelClockRead x])
      \<and> (\<forall>rep. r = Inr rep \<longrightarrow> settled_cancel cn rep \<and> cancel_justified (cn_command cn) tr' rep))"

lemma cancel_clock_tail [simp]:
  "list_ex is_cancel (tr @ [CancelClockRead x]) = list_ex is_cancel tr"
  "latest_truth c (tr @ [CancelClockRead x]) = latest_truth c tr"
  using cancel_local_tail [of "[CancelClockRead x]"] by simp_all

lemma cancel_dead_letter_ok:
  assumes "cancel_dead_letter ports cn reason d s = (r, s')" "j_state (cn_job cn) = LEASED"
    and "list_ex is_cancel (snd s) = cn_attempted cn"
    and "d = CD_ESCALATED \<or> d = CD_BLOCKED \<and> \<not> cn_attempted cn \<and> \<not> allowed (cn_effect cn)"
  shows "settle_ok cn (snd s) r (snd s')"
  using cancel_dead_letter_run [OF assms(1,2)] assms(3,4)
  by (auto simp: settle_ok_def cancel_justified_def settled_cancel_def)

lemma cancel_review_ok:
  assumes "cancel_review ports cn reason s = (r, s')" "j_state (cn_job cn) = LEASED"
    and "list_ex is_cancel (snd s) = cn_attempted cn"
    and "(\<exists>t. latest_truth (cn_command cn) (snd s) = Some t \<and> truth_matches t (cl_target (cn_command cn)) \<and> lt_status t \<in> {LS_PAID, LS_PARTIALLY_PAID})
      \<or> (\<exists>t. latest_truth (cn_command cn) (snd s) = Some t \<and> lt_amount_paid_minor t \<noteq> 0)
      \<or> (\<exists>b. BindingLoaded (binding_query_of (cn_command cn)) (Inr (Some b)) \<in> set (snd s) \<and> ib_instrument_status b \<in> set PAID_BINDING_STATUSES)"
  shows "settle_ok cn (snd s) r (snd s')"
  using cancel_dead_letter_run [OF assms(1) [unfolded cancel_review_def] assms(2)] assms(3,4)
  by (auto simp: settle_ok_def cancel_justified_def settled_cancel_def)

lemma cancel_complete_ok:
  assumes "cancel_complete ports cn reason d s = (r, s')" "j_state (cn_job cn) = LEASED"
    and "list_ex is_cancel (snd s) = cn_attempted cn" "latest_truth (cn_command cn) (snd s) = Some t"
    and "truth_matches t (cl_target (cn_command cn))"
    and "d = CD_EXPIRED \<and> lt_status t = LS_EXPIRED
      \<or> lt_status t = LS_CANCELLED \<and> d = (if cn_attempted cn then CD_CANCELLED else CD_ALREADY_CANCELLED)"
  shows "settle_ok cn (snd s) r (snd s')"
  using cancel_complete_run [OF assms(1,2)] assms(3-6)
  by (auto simp: settle_ok_def cancel_justified_def settled_cancel_def split: if_splits)

lemma cancel_requeue_ok:
  assumes "cancel_requeue ports backoff cn reason mode s = (r, s')"
    and "list_ex is_cancel (snd s) = cn_attempted cn"
    and "case latest_truth (cn_command cn) (snd s) of
        None \<Rightarrow> mode = RECONCILE_ONLY \<or> mode = RNORMAL \<and> \<not> cn_attempted cn
      | Some t \<Rightarrow> mode \<noteq> RNORMAL \<and> truth_matches t (cl_target (cn_command cn)) \<and> lt_status t = LS_CREATED"
  shows "settle_ok cn (snd s) r (snd s')"
  using cancel_requeue_run [OF assms(1)] assms(2,3)
  by (fastforce simp: settle_ok_def cancel_justified_def settled_cancel_def split: option.splits retry_mode.splits)

lemma cancel_resolve_ok:
  assumes "resolve_without_cancel ports backoff cn b t phase = Some m" "m s = (r, s')" "j_state (cn_job cn) = LEASED"
    and "latest_truth (cn_command cn) (snd s) = Some t" "truth_matches t (cl_target (cn_command cn))"
    and "BindingLoaded (binding_query_of (cn_command cn)) (Inr (Some b)) \<in> set (snd s)"
    and "list_ex is_cancel (snd s) = cn_attempted cn" "cn_attempted cn \<Longrightarrow> lt_status t \<noteq> LS_CANCELLED"
  shows "settle_ok (cn\<lparr>cn_provider_status := Some (lt_status t)\<rparr>) (snd s) r (snd s')"
proof -
  have created: "lt_status t = LS_CREATED"
    if "lt_status t \<notin> {LS_PAID, LS_PARTIALLY_PAID}" "lt_status t \<noteq> LS_CANCELLED" "lt_status t \<noteq> LS_EXPIRED"
    using that by (cases "lt_status t") auto
  show ?thesis
    using assms created unfolding resolve_without_cancel_def Let_def
    by (auto split: if_splits elim!: cancel_review_ok cancel_complete_ok cancel_requeue_ok cancel_dead_letter_ok)
qed

section \<open>After the cancel call\<close>

lemma cancel_fetch_run:
  assumes "fetch_truth ports c s = (r, s')"
  obtains raw fetched where "r = Inr fetched"
    "snd s' = snd s @ [TruthFetched (ct_payment_link_id (cl_target c)) (ct_provider_account_id (cl_target c)) raw]"
    "latest_truth c (snd s') = (case fetched of Inl _ \<Rightarrow> None | Inr t \<Rightarrow> Some t)"
proof -
  from assms obtain raw where run:
    "snd s' = snd s @ [TruthFetched (ct_payment_link_id (cl_target c)) (ct_provider_account_id (cl_target c)) raw]"
    "r = Inr (case raw of Inl e \<Rightarrow> Inl (safe_exception_reason ''provider_fetch_exception'' e) | Inr t \<Rightarrow> normalize_truth t)"
    unfolding fetch_truth_def Let_def by (cases rule: try_call_bind_cases) auto
  show thesis
    by (rule that [OF run(2,1)]) (auto simp: run(1) latest_truth_def split: sum.splits)
qed

definition done_ok :: "outbox_job \<Rightarrow> pystr \<Rightarrow> cancel_command \<Rightarrow> exn + cancel_report \<Rightarrow> cancel_event list \<Rightarrow> bool" where
  "done_ok job worker c r tr =
     (\<forall>rep. r = Inr rep \<longrightarrow> (\<exists>now. settled job worker (held_token job) (utc now) (j_version job) (cr_job rep))
        \<and> cancel_justified c tr rep)"

lemma done_raised [simp]: "done_ok job worker c (Inl e) tr"
  by (simp add: done_ok_def)

text \<open>A settlement ends a run: the trace is extended by local events only.\<close>

definition ends :: "outbox_job \<Rightarrow> pystr \<Rightarrow> cancel_command \<Rightarrow> cancel_event list \<Rightarrow> exn + cancel_report \<Rightarrow> cancel_event list \<Rightarrow> bool" where
  "ends job worker c tr r tr' = (done_ok job worker c r tr' \<and> (\<exists>rest. tr' = tr @ rest \<and> list_all is_local rest))"

lemma settle_ends: "settle_ok cn tr r tr' \<Longrightarrow> ends (cn_job cn) (cn_worker_id cn) (cn_command cn) tr r tr'"
  by (auto simp: settle_ok_def done_ok_def settled_cancel_def ends_def)

lemmas cancel_ending = cancel_dead_letter_ok [THEN settle_ends] cancel_review_ok [THEN settle_ends] cancel_complete_ok [THEN settle_ends]
  cancel_requeue_ok [THEN settle_ends] cancel_resolve_ok [THEN settle_ends]

lemma settle_after_ok:
  assumes "settle_after_effect ports backoff cn b t reason s = (r, s')" "j_state (cn_job cn) = LEASED"
    and "latest_truth (cn_command cn) (snd s) = Some t" "list_ex is_cancel (snd s)" "cn_attempted cn"
    and "BindingLoaded (binding_query_of (cn_command cn)) (Inr (Some b)) \<in> set (snd s)"
  shows "settle_ok (cn\<lparr>cn_provider_status := Some (lt_status t)\<rparr>) (snd s) r (snd s')"
proof -
  let ?cn = "cn\<lparr>cn_provider_status := Some (lt_status t)\<rparr>"
  consider (other) "\<not> truth_matches t (cl_target (cn_command cn))"
    | (paid) "truth_matches t (cl_target (cn_command cn))" "ib_instrument_status b \<in> set PAID_BINDING_STATUSES \<or> lt_status t \<in> {LS_PAID, LS_PARTIALLY_PAID}"
    | (cancelled) "truth_matches t (cl_target (cn_command cn))" "ib_instrument_status b \<notin> set PAID_BINDING_STATUSES" "lt_status t = LS_CANCELLED"
    | (decided) m where "truth_matches t (cl_target (cn_command cn))" "ib_instrument_status b \<notin> set PAID_BINDING_STATUSES"
        "lt_status t \<notin> {LS_PAID, LS_PARTIALLY_PAID, LS_CANCELLED}" "resolve_without_cancel ports backoff ?cn b t ''post_cancel'' = Some m"
    | (open_link) "truth_matches t (cl_target (cn_command cn))" "ib_instrument_status b \<notin> set PAID_BINDING_STATUSES"
        "lt_status t \<notin> {LS_PAID, LS_PARTIALLY_PAID, LS_CANCELLED}" "resolve_without_cancel ports backoff ?cn b t ''post_cancel'' = None"
    by (cases "resolve_without_cancel ports backoff ?cn b t ''post_cancel''") auto
  then show ?thesis
  proof cases
    case decided
    with assms have "m s = (r, s')" by (simp add: settle_after_effect_def Let_def)
    from cancel_resolve_ok [OF decided(4) this] decided assms show ?thesis by simp
  next
    case open_link
    then have "lt_status t = LS_CREATED" by (cases "lt_status t") (auto simp: resolve_without_cancel_def Let_def split: if_splits)
    then show ?thesis using open_link assms
      by (auto simp: settle_after_effect_def Let_def elim!: cancel_requeue_ok)
  qed (use assms in \<open>auto simp: settle_after_effect_def Let_def split: if_splits elim!: cancel_dead_letter_ok cancel_review_ok cancel_complete_ok\<close>)
qed

lemmas settle_after_ends = settle_after_ok [THEN settle_ends]

lemma load_binding_bind_cases:
  assumes "bindIO (load_binding ports c) f s = (r, s')"
  obtains (raised) e where "snd s' = snd s @ [BindingLoaded (binding_query_of c) (Inl e)]" "r = Inl e"
  | (returned) b s1 where "snd s1 = snd s @ [BindingLoaded (binding_query_of c) (Inr b)]" "f b s1 = (r, s')"
  using assms unfolding load_binding_def by (cases rule: call_bind_cases) auto

lemma cancel_now_bind_cases:
  assumes "bindIO (cancel_now ports) f s = (r, s')"
  obtains (raised) e x where "snd s' = snd s @ [CancelClockRead x]" "r = Inl e"
  | (returned) now x s1 where "snd s1 = snd s @ [CancelClockRead x]" "in_range now" "f now s1 = (r, s')"
  using assms unfolding cancel_now_def bindIO_eq call_eq liftIO_eq
  by (auto dest: require_utc_exact_range)

lemma reconcile_after_run:
  assumes "reconcile_after_effect ports backoff cn reason s = (r, s')" "j_state (cn_job cn) = LEASED" "list_ex is_cancel (snd s)"
  shows "\<exists>fetched rest. snd s' = snd s
        @ TruthFetched (ct_payment_link_id (cl_target (cn_command cn))) (ct_provider_account_id (cl_target (cn_command cn))) fetched # rest
      \<and> list_all is_local rest \<and> done_ok (cn_job cn) (cn_worker_id cn) (cn_command cn) r (snd s')"
  using assms(1) unfolding reconcile_after_effect_def Let_def
proof (cases rule: bindIO_cases)
  case (raised e)
  then show ?thesis by (auto elim: cancel_fetch_run)
next
  case (returned fetched s1)
  let ?c = "cn_command cn"
  from returned(1) obtain raw where f:
    "snd s1 = snd s @ [TruthFetched (ct_payment_link_id (cl_target ?c)) (ct_provider_account_id (cl_target ?c)) raw]"
    "latest_truth ?c (snd s1) = (case fetched of Inl _ \<Rightarrow> None | Inr t \<Rightarrow> Some t)"
    by (auto elim: cancel_fetch_run)
  have att: "list_ex is_cancel (snd s1)" using f(1) assms(3) by simp
  from returned(2) show ?thesis
  proof (cases rule: load_binding_bind_cases)
    case (raised e)
    then show ?thesis using f(1) by auto
  next
    case (returned b s2)
    note load = returned(1)
    have s2: "list_ex is_cancel (snd s2)" "latest_truth ?c (snd s2) = latest_truth ?c (snd s1)"
      using returned(1) att by simp_all
    from returned(2) show ?thesis
    proof (cases rule: cancel_now_bind_cases)
      case (raised e x)
      then show ?thesis using f(1) returned(1) by auto
    next
      case (returned now x s3)
      have s3: "list_ex is_cancel (snd s3)" "latest_truth ?c (snd s3) = latest_truth ?c (snd s1)" "BindingLoaded (binding_query_of ?c) (Inr b) \<in> set (snd s3)"
        using returned(1) att load by simp_all
      have "ends (cn_job cn) (cn_worker_id cn) ?c (snd s3) r (snd s')"
        using returned(3) s3 assms(2) f(2)
        by (auto split: option.splits sum.splits dest!: cancel_ending settle_after_ends)
      then show ?thesis using f(1) returned(1) load by (auto simp: ends_def)
    qed
  qed
qed

section \<open>A whole execution\<close>

definition run_ok ::
  "gate_policy \<Rightarrow> bool \<Rightarrow> outbox_job \<Rightarrow> cancel_command \<Rightarrow> pystr \<Rightarrow> exn + cancel_report \<Rightarrow> cancel_event list \<Rightarrow> bool" where
  "run_ok pol recorder job c worker r tr =
     ((list_ex is_cancel tr \<longrightarrow> cancel_licensed pol recorder job c worker tr) \<and> done_ok job worker c r tr)"

lemma run_ok_raised: "\<not> list_ex is_cancel tr \<Longrightarrow> run_ok pol recorder job c worker (Inl e) tr"
  by (simp add: run_ok_def)

lemma ends_run_ok: "ends job worker c tr r tr' \<Longrightarrow> \<not> list_ex is_cancel tr \<Longrightarrow> run_ok pol recorder job c worker r tr'"
  by (auto simp: ends_def run_ok_def dest: cancel_local_events)

lemma cancel_attempt_run:
  assumes "attempt_cancel ports backoff cn s = (r, s')" "j_state (cn_job cn) = LEASED"
  shows "\<exists>answer fetched rest. snd s' = snd s
        @ CancelAttempted (ct_payment_link_id (cl_target (cn_command cn))) (ct_provider_account_id (cl_target (cn_command cn))) answer
        # TruthFetched (ct_payment_link_id (cl_target (cn_command cn))) (ct_provider_account_id (cl_target (cn_command cn))) fetched # rest
      \<and> list_all is_local rest \<and> done_ok (cn_job cn) (cn_worker_id cn) (cn_command cn) r (snd s')"
  using assms(1) unfolding attempt_cancel_def Let_def
proof (cases rule: try_call_bind_cases)
  case (1 x s1)
  then have "list_ex is_cancel (snd s1)" by simp
  from reconcile_after_run [OF 1(2) assms(2) this] 1(1) show ?thesis by auto
qed

text \<open>What is known of the binding, the job and the truth when the final authorization begins.\<close>

definition ready :: "outbox_job \<Rightarrow> cancel_command \<Rightarrow> cancel_event list \<Rightarrow> link_truth \<Rightarrow> bool" where
  "ready job c tr t =
     (\<not> list_ex is_cancel tr \<and> latest_truth c tr = Some t \<and> truth_matches t (cl_target c) \<and> lt_status t = LS_CREATED
      \<and> j_action_key job = action_key (cl_proposal c) \<and> j_payload_digest job = cancel_payload_digest c
      \<and> j_retry_mode job \<noteq> RECONCILE_ONLY
      \<and> (\<exists>b. BindingLoaded (binding_query_of c) (Inr (Some b)) \<in> set tr \<and> binding_matches b c
            \<and> ib_instrument_status b \<in> set CANCELLABLE_BINDING_STATUSES))"

lemma gate_effect_at_Inr:
  "gate_effect_at pol c cx now b = Inr effect \<longleftrightarrow>
     (\<exists>ctx. effect_context_of cx now b = Inr ctx \<and> evaluate_effect pol (cl_proposal c) ctx (Some (cl_prior_plan c)) = Inr effect)"
  by (simp add: gate_effect_at_def)

lemma licensedI:
  assumes "ready job c tr t" "lt_amount_paid_minor t = 0" "holds_lease job worker (held_token job) now"
    and "tr' = tr @ CancelClockRead x # CancelContextLoaded (cl_proposal c) (ct_provider_account_id (cl_target c)) now (Inr cx) # auth
      @ CancelAttempted (ct_payment_link_id (cl_target c)) (ct_provider_account_id (cl_target c)) answer
      # TruthFetched (ct_payment_link_id (cl_target c)) (ct_provider_account_id (cl_target c)) fetched # rest"
    and "list_all is_local auth" "list_all is_local rest" "gate_effect_at pol c cx now True = Inr effect" "allowed effect"
    and "recorder \<Longrightarrow> CancelAuthorized effect cx (Inr ()) \<in> set auth"
  shows "cancel_licensed pol recorder job c worker tr'"
proof -
  let ?before = "tr @ CancelClockRead x # CancelContextLoaded (cl_proposal c) (ct_provider_account_id (cl_target c)) now (Inr cx) # auth"
  from assms(1) obtain b where b: "BindingLoaded (binding_query_of c) (Inr (Some b)) \<in> set tr" "binding_matches b c"
    "ib_instrument_status b \<in> set CANCELLABLE_BINDING_STATUSES" by (auto simp: ready_def)
  have tail: "\<not> list_ex is_cancel ?before" "latest_truth c ?before = Some t" "\<not> list_ex is_cancel rest"
    using assms(1) cancel_local_events [OF assms(5)] cancel_local_events [OF assms(6)] by (simp_all add: ready_def)
  obtain ctx where "effect_context_of cx now True = Inr ctx"
    "evaluate_effect pol (cl_proposal c) ctx (Some (cl_prior_plan c)) = Inr effect"
    using assms(7) by (auto simp: gate_effect_at_Inr)
  then show ?thesis
    unfolding cancel_licensed_def Let_def
    using assms b tail
    by (intro exI [of _ ?before] exI [of _ answer] exI [of _ fetched] exI [of _ rest] exI [of _ t] exI [of _ b] exI [of _ now]
        exI [of _ cx] exI [of _ ctx] exI [of _ effect]) (simp add: ready_def)
qed

text \<open>The recorded authorization and the call.\<close>

lemma record_attempt_run:
  assumes "bindIO (case cp_record_authorization ports of None \<Rightarrow> returnIO ()
      | Some recorder \<Rightarrow> call (CancelAuthorized effect cx) (recorder effect cx))
      (\<lambda>_. attempt_cancel ports backoff cn) s = (r, s')" "j_state (cn_job cn) = LEASED"
  obtains (unrecorded) y where "r = Inl y" "snd s' = snd s @ [CancelAuthorized effect cx (Inl y)]"
  | (attempted) auth answer fetched rest where "list_all is_local auth" "list_all is_local rest"
      "cp_record_authorization ports \<noteq> None \<Longrightarrow> CancelAuthorized effect cx (Inr ()) \<in> set auth"
      "snd s' = snd s @ auth
        @ CancelAttempted (ct_payment_link_id (cl_target (cn_command cn))) (ct_provider_account_id (cl_target (cn_command cn))) answer
        # TruthFetched (ct_payment_link_id (cl_target (cn_command cn))) (ct_provider_account_id (cl_target (cn_command cn))) fetched # rest"
      "done_ok (cn_job cn) (cn_worker_id cn) (cn_command cn) r (snd s')"
proof (cases "cp_record_authorization ports")
  case None
  with assms(1) have "attempt_cancel ports backoff cn s = (r, s')" by (simp add: bindIO_eq)
  from cancel_attempt_run [OF this assms(2)] None show thesis by (auto intro: attempted [of "[]"])
next
  case (Some recorder)
  from assms(1) show thesis unfolding Some option.case
  proof (cases rule: call_bind_cases)
    case (raised e)
    then show thesis by (intro unrecorded) auto
  next
    case (returned y s3)
    from cancel_attempt_run [OF returned(2) assms(2)] returned(1) show thesis
      by (auto intro: attempted [of "[CancelAuthorized effect cx (Inr ())]"])
  qed
qed

lemma cancel_authorize_run:
  assumes "authorize_and_cancel pol backoff ports cn t s = (r, s')" "\<not> cn_attempted cn"
    and "ready (cn_job cn) (cn_command cn) (snd s) t"
  shows "run_ok pol (cp_record_authorization ports \<noteq> None) (cn_job cn) (cn_command cn) (cn_worker_id cn) r (snd s')"
  using assms(1) unfolding authorize_and_cancel_def Let_def
proof (cases rule: cancel_now_bind_cases)
  case (raised e x)
  then show ?thesis using assms(3) by (simp add: run_ok_raised ready_def)
next
  let ?job = "cn_job cn" and ?c = "cn_command cn"
  let ?account = "ct_provider_account_id (cl_target ?c)"
  case (returned now x s1)
  note s1 = returned(1)
  have pre: "\<not> list_ex is_cancel (snd s)" "latest_truth ?c (snd s) = Some t" using assms(3) by (simp_all add: ready_def)
  from returned(3) show ?thesis
  proof (cases rule: liftIO_bind_cases)
    case (raised e)
    then show ?thesis using s1 pre by (simp add: run_ok_raised)
  next
    case (returned u)
    then have lease: "holds_lease ?job (cn_worker_id cn) (held_token ?job) now" by (simp add: assert_active_lease_Inr)
    then have leased: "j_state ?job = LEASED" by (simp add: holds_lease_def)
    from returned(2) show ?thesis
    proof (cases rule: call_bind_cases)
      case (raised e)
      then show ?thesis using s1 pre by (simp add: run_ok_raised)
    next
      case (returned cx s2)
      note s2 = returned(1)
      have pre2: "\<not> list_ex is_cancel (snd s2)" "latest_truth ?c (snd s2) = Some t" using s1 s2 pre by simp_all
      from returned(2) show ?thesis
      proof (cases rule: liftIO_bind_cases)
        case (raised e)
        then show ?thesis using pre2 by (simp add: run_ok_raised)
      next
        case (returned effect)
        note effect = returned(1)
        let ?cn = "cn\<lparr>cn_effect := effect, cn_provider_status := Some (lt_status t)\<rparr>"
        show ?thesis
        proof (cases "allowed effect \<and> lt_amount_paid_minor t = 0")
          case False
          then have "ends ?job (cn_worker_id cn) ?c (snd s2) r (snd s')"
            using returned(2) pre2 leased assms(2) by (auto split: if_splits dest!: cancel_ending)
          then show ?thesis using pre2 ends_run_ok by blast
        next
          case True
          have leased_cn: "j_state (cn_job ?cn) = LEASED" using leased by simp
          from True returned(2) have run: "bindIO (case cp_record_authorization ports of None \<Rightarrow> returnIO ()
              | Some recorder \<Rightarrow> call (CancelAuthorized effect cx) (recorder effect cx))
              (\<lambda>_. attempt_cancel ports backoff ?cn) s2 = (r, s')" by simp
          then show ?thesis using leased_cn
          proof (cases rule: record_attempt_run)
            case (unrecorded y)
            then show ?thesis using pre2 by (simp add: run_ok_raised)
          next
            case (attempted auth answer fetched rest)
            have "cancel_licensed pol (cp_record_authorization ports \<noteq> None) ?job ?c (cn_worker_id cn) (snd s')"
              by (rule licensedI [OF assms(3) _ lease _ attempted(1,2) effect])
                (use True attempted(3,4) s1 s2 in auto)
            then show ?thesis using attempted(5) by (simp add: run_ok_def)
          qed
        qed
      qed
    qed
  qed
qed

lemma cancel_resolve_None:
  "resolve_without_cancel ports backoff cn b t phase = None \<Longrightarrow>
     lt_status t = LS_CREATED \<and> ib_instrument_status b \<in> set CANCELLABLE_BINDING_STATUSES"
  by (cases "lt_status t") (auto simp: resolve_without_cancel_def Let_def split: if_splits)

lemma cancel_binding_failure_None:
  "cancel_binding_failure job c (Some b) now = None \<Longrightarrow>
     j_action_key job = action_key (cl_proposal c) \<and> j_payload_digest job = cancel_payload_digest c \<and> binding_matches b c"
  by (auto simp: cancel_binding_failure_def split: if_splits)

lemma cancel_recheck_run:
  assumes "recheck_binding pol backoff ports cn t s = (r, s')" "\<not> cn_attempted cn" "j_state (cn_job cn) = LEASED"
    and "\<not> list_ex is_cancel (snd s)" "latest_truth (cn_command cn) (snd s) = Some t" "truth_matches t (cl_target (cn_command cn))"
  shows "run_ok pol (cp_record_authorization ports \<noteq> None) (cn_job cn) (cn_command cn) (cn_worker_id cn) r (snd s')"
  using assms(1) unfolding recheck_binding_def Let_def
proof (cases rule: load_binding_bind_cases)
  case (raised e)
  then show ?thesis using assms(4) by (simp add: run_ok_raised)
next
  let ?cn = "cn\<lparr>cn_provider_status := Some (lt_status t)\<rparr>"
  case (returned loaded s1)
  note load = returned(1)
  from returned(2) show ?thesis
  proof (cases rule: cancel_now_bind_cases)
    case (raised e x)
    then show ?thesis using load assms(4) by (simp add: run_ok_raised)
  next
    case (returned now x s2)
    have pre: "\<not> list_ex is_cancel (snd s2)" "latest_truth (cn_command cn) (snd s2) = Some t"
      "BindingLoaded (binding_query_of (cn_command cn)) (Inr loaded) \<in> set (snd s2)"
      using load returned(1) assms(4,5) by simp_all
    show ?thesis
    proof (cases "cancel_binding_failure (cn_job cn) (cn_command cn) loaded now = None \<and> loaded \<noteq> None")
      case False
      then have "ends (cn_job cn) (cn_worker_id cn) (cn_command cn) (snd s2) r (snd s')"
        using returned(3) pre assms(2,3) by (auto split: option.splits dest!: cancel_ending)
      then show ?thesis using pre(1) ends_run_ok by blast
    next
      case True
      then obtain b where b: "loaded = Some b" "cancel_binding_failure (cn_job cn) (cn_command cn) (Some b) now = None" by auto
      note bound = cancel_binding_failure_None [OF b(2)]
      show ?thesis
      proof (cases "resolve_without_cancel ports backoff ?cn b t ''pre_effect'' = None \<and> j_retry_mode (cn_job cn) \<noteq> RECONCILE_ONLY")
        case False
        then have "ends (cn_job cn) (cn_worker_id cn) (cn_command cn) (snd s2) r (snd s')"
          using returned(3) pre assms(2,3,6) b
          by (auto split: option.splits if_splits dest: cancel_resolve_None dest!: cancel_ending)
        then show ?thesis using pre(1) ends_run_ok by blast
      next
        case True
        with returned(3) b have run: "authorize_and_cancel pol backoff ports ?cn t s2 = (r, s')" by simp
        have "ready (cn_job ?cn) (cn_command ?cn) (snd s2) t"
          using True pre b(1) bound assms(6) cancel_resolve_None [of ports backoff ?cn b t] by (auto simp: ready_def)
        from cancel_authorize_run [OF run _ this] assms(2) show ?thesis by simp
      qed
    qed
  qed
qed

lemma cancel_with_truth_run:
  assumes "cancel_with_truth pol backoff ports cn b s = (r, s')" "\<not> cn_attempted cn" "j_state (cn_job cn) = LEASED"
    and "\<not> list_ex is_cancel (snd s)" "BindingLoaded (binding_query_of (cn_command cn)) (Inr (Some b)) \<in> set (snd s)"
  shows "run_ok pol (cp_record_authorization ports \<noteq> None) (cn_job cn) (cn_command cn) (cn_worker_id cn) r (snd s')"
  using assms(1) unfolding cancel_with_truth_def
proof (cases rule: bindIO_cases)
  case (raised e)
  then show ?thesis by (auto elim: cancel_fetch_run)
next
  case (returned fetched s1)
  from returned(1) have f: "latest_truth (cn_command cn) (snd s1) = (case fetched of Inl _ \<Rightarrow> None | Inr t \<Rightarrow> Some t)"
    "\<not> list_ex is_cancel (snd s1)" "BindingLoaded (binding_query_of (cn_command cn)) (Inr (Some b)) \<in> set (snd s1)"
    using assms(4,5) by (auto elim!: cancel_fetch_run)
  show ?thesis
  proof (cases "\<exists>t. fetched = Inr t \<and> truth_matches t (cl_target (cn_command cn)) \<and> resolve_without_cancel ports backoff cn b t ''pre_cancel'' = None")
    case False
    then have "ends (cn_job cn) (cn_worker_id cn) (cn_command cn) (snd s1) r (snd s')"
      using returned(2) f assms(2,3)
      by (auto split: sum.splits option.splits if_splits dest!: cancel_ending)
    then show ?thesis using f(2) ends_run_ok by blast
  next
    case True
    then obtain t where "fetched = Inr t" "truth_matches t (cl_target (cn_command cn))" "recheck_binding pol backoff ports cn t s1 = (r, s')"
      using returned(2) by auto
    then show ?thesis using cancel_recheck_run [OF _ assms(2,3) f(2)] f(1) by simp
  qed
qed

lemma cancel_execute_run:
  assumes "cancel_execute pol backoff ports job c worker (w, []) = (r, (w', tr))"
  shows "run_ok pol (cp_record_authorization ports \<noteq> None) job c worker r tr"
  using assms unfolding cancel_execute_def Let_def
proof (cases rule: cancel_now_bind_cases)
  case (raised e x)
  then show ?thesis by (simp add: run_ok_raised)
next
  case (returned now x s1)
  note s1 = returned(1)
  from returned(3) show ?thesis
  proof (cases rule: liftIO_bind_cases)
    case (raised e)
    then show ?thesis using s1 by (auto simp: run_ok_raised)
  next
    case (returned u)
    then have leased: "j_state job = LEASED" by (simp add: assert_active_lease_Inr holds_lease_def)
    from returned(2) show ?thesis
    proof (cases rule: load_binding_bind_cases)
      case (raised e)
      then show ?thesis using s1 by (auto simp: run_ok_raised)
    next
      case (returned loaded s2)
      note s2 = returned(1)
      from returned(2) show ?thesis
      proof (cases rule: call_bind_cases)
        case (raised e)
        then show ?thesis using s1 s2 by (auto simp: run_ok_raised)
      next
        case (returned cx s3)
        have s3: "\<not> list_ex is_cancel (snd s3)" "BindingLoaded (binding_query_of c) (Inr loaded) \<in> set (snd s3)"
          using returned(1) s1 s2 by auto
        from returned(2) show ?thesis
        proof (cases rule: liftIO_bind_cases)
          case (raised e)
          then show ?thesis using s3 by (auto simp: run_ok_raised)
        next
          case (returned effect)
          let ?cn = "\<lparr>cn_job = job, cn_command = c, cn_worker_id = worker, cn_effect = effect, cn_provider_status = None, cn_attempted = False\<rparr>"
          show ?thesis
          proof (cases "\<exists>b. loaded = Some b \<and> cancel_binding_failure job c loaded now = None \<and> allowed effect")
            case False
            then have "ends job worker c (snd s3) r tr"
              using returned(2) s3 leased by (auto split: option.splits if_splits dest!: cancel_ending)
            then show ?thesis using s3 ends_run_ok by blast
          next
            case True
            then obtain b where "loaded = Some b" "cancel_with_truth pol backoff ports ?cn b s3 = (r, (w', tr))"
              using returned(2) by auto
            then show ?thesis using cancel_with_truth_run [of pol backoff ports ?cn b s3 r "(w', tr)"] s3 leased by simp
          qed
        qed
      qed
    qed
  qed
qed

end
