(* ===== verification/Executor.thy ===== *)
theory Executor
  imports Ports Payment_Links Outbox Gate
begin

text \<open>
  \<^verbatim>\<open>services/control_plane/executor.py\<close>: the executor that creates a single Payment Link for a leased
  job. Its four ports (clock and intent reader, context reader, provider, authorization recorder) are
  arguments of the model; every call is recorded in the trace with its answer.
\<close>

section \<open>Commands and durable intents\<close>

text \<open>\<^verbatim>\<open>_require_text\<close> of this module is the one of \<^verbatim>\<open>outbox.py\<close>, and \<^verbatim>\<open>_sha256_json\<close> on a JSON
  primitive is \<open>canonical_digest\<close>.\<close>

definition payment_link_request_digest :: "link_request \<Rightarrow> exn + pystr" where
  "payment_link_request_digest request =
     bindE (link_json_bytes request None) (\<lambda>body. Inr (sha256_hex body))"

record create_command =
  cc_proposal :: action_proposal
  cc_prior_plan :: gate_decision
  cc_request :: link_request
  cc_provider_account_id :: pystr

definition mk_create_command :: "create_command \<Rightarrow> exn + create_command" where
  "mk_create_command c =
     bindE (require_text (cc_provider_account_id c) ''provider_account_id'' 128) (\<lambda>_. Inr c)"

definition command_request_digest :: "create_command \<Rightarrow> exn + pystr" where
  "command_request_digest c = payment_link_request_digest (cc_request c)"

definition command_payload_digest :: "create_command \<Rightarrow> exn + pystr" where
  "command_payload_digest c =
     bindE (command_request_digest c) (\<lambda>request_digest.
     Inr (canonical_digest (JObj
       [(''action_key'', JStr (action_key (cc_proposal c))),
        (''merchant_id'', JStr (p_merchant_id (cc_proposal c))),
        (''prior_plan_digest'', JStr (decision_digest (cc_prior_plan c))),
        (''proposal_digest'', JStr (proposal_digest (cc_proposal c))),
        (''provider_account_id'', JStr (cc_provider_account_id c)),
        (''reference_id'', JStr (lr_reference_id (cc_request c))),
        (''request_digest'', JStr request_digest),
        (''schema'', JStr ''retrywise-create-payment-link-command-v1'')])))"

record durable_intent =
  di_action_key :: pystr
  di_merchant_id :: pystr
  di_provider_account_id :: pystr
  di_proposal_digest :: pystr
  di_prior_plan_digest :: pystr
  di_request_digest :: pystr
  di_payload_digest :: pystr
  di_reference_id :: pystr
  di_recorded_at :: instant
  di_schema_version :: int

definition require_digest :: "pystr \<Rightarrow> pystr \<Rightarrow> exn + unit" where
  "require_digest value fld =
     raise_if (length value \<noteq> 64 \<or> list_ex (\<lambda>c. \<not> is_lower_hex c) value)
       (ValueError (fld @ '' must be a lowercase SHA-256 digest''))"

definition mk_durable_intent :: "durable_intent \<Rightarrow> datetime \<Rightarrow> exn + durable_intent" where
  "mk_durable_intent i recorded_at =
     bindE (require_text (di_action_key i) ''action_key'' 128) (\<lambda>_.
     bindE (require_text (di_merchant_id i) ''merchant_id'' 128) (\<lambda>_.
     bindE (require_text (di_provider_account_id i) ''provider_account_id'' 128) (\<lambda>_.
     bindE (require_text (di_reference_id i) ''reference_id'' 40) (\<lambda>_.
     bindE (require_digest (di_proposal_digest i) ''proposal_digest'') (\<lambda>_.
     bindE (require_digest (di_prior_plan_digest i) ''prior_plan_digest'') (\<lambda>_.
     bindE (require_digest (di_request_digest i) ''request_digest'') (\<lambda>_.
     bindE (require_digest (di_payload_digest i) ''payload_digest'') (\<lambda>_.
     bindE (require_utc_exact recorded_at ''recorded_at'') (\<lambda>recorded.
     bindE (raise_if (di_schema_version i \<noteq> 1) (ValueError ''unsupported durable intent schema_version'')) (\<lambda>_.
     Inr (i\<lparr>di_recorded_at := recorded\<rparr>)))))))))))"

definition record_intent :: "create_command \<Rightarrow> datetime \<Rightarrow> exn + durable_intent" where
  "record_intent c recorded_at =
     bindE (command_request_digest c) (\<lambda>request_digest.
     bindE (command_payload_digest c) (\<lambda>payload_digest.
     mk_durable_intent
       \<lparr>di_action_key = action_key (cc_proposal c), di_merchant_id = p_merchant_id (cc_proposal c),
        di_provider_account_id = cc_provider_account_id c, di_proposal_digest = proposal_digest (cc_proposal c),
        di_prior_plan_digest = decision_digest (cc_prior_plan c), di_request_digest = request_digest,
        di_payload_digest = payload_digest, di_reference_id = lr_reference_id (cc_request c),
        di_recorded_at = 0, di_schema_version = 1\<rparr> recorded_at))"

definition intent_matches :: "durable_intent \<Rightarrow> create_command \<Rightarrow> bool" where
  "intent_matches i c =
     (di_action_key i = action_key (cc_proposal c)
      \<and> di_merchant_id i = p_merchant_id (cc_proposal c)
      \<and> di_provider_account_id i = cc_provider_account_id c
      \<and> di_proposal_digest i = proposal_digest (cc_proposal c)
      \<and> di_prior_plan_digest i = decision_digest (cc_prior_plan c)
      \<and> Inr (di_request_digest i) = command_request_digest c
      \<and> Inr (di_payload_digest i) = command_payload_digest c
      \<and> di_reference_id i = lr_reference_id (cc_request c))"

section \<open>Provider outcomes and results\<close>

datatype provider_create_status = CERTAIN_SUCCESS | CERTAIN_FAILURE | AMBIGUOUS

record provider_create_outcome =
  po_status :: provider_create_status
  po_reason_code :: pystr
  po_payment_link_id :: "pystr option"

definition mk_provider_create_outcome :: "provider_create_outcome \<Rightarrow> exn + provider_create_outcome" where
  "mk_provider_create_outcome po =
     bindE (require_text (po_reason_code po) ''reason_code'' 256) (\<lambda>_.
     if po_status po = CERTAIN_SUCCESS
     then (case po_payment_link_id po of
             None \<Rightarrow> Inl (ValueError ''certain success requires payment_link_id'')
           | Some link \<Rightarrow> bindE (require_text link ''payment_link_id'' 128) (\<lambda>_. Inr po))
     else bindE (raise_if (po_payment_link_id po \<noteq> None)
            (ValueError ''only certain success may carry payment_link_id'')) (\<lambda>_. Inr po))"

definition outcome_succeeded :: "pystr \<Rightarrow> exn + provider_create_outcome" where
  "outcome_succeeded payment_link_id = mk_provider_create_outcome
     \<lparr>po_status = CERTAIN_SUCCESS, po_reason_code = ''provider_confirmed_create'', po_payment_link_id = Some payment_link_id\<rparr>"

definition outcome_failed_safely :: "pystr \<Rightarrow> exn + provider_create_outcome" where
  "outcome_failed_safely reason_code = mk_provider_create_outcome
     \<lparr>po_status = CERTAIN_FAILURE, po_reason_code = reason_code, po_payment_link_id = None\<rparr>"

definition outcome_ambiguous :: "pystr \<Rightarrow> exn + provider_create_outcome" where
  "outcome_ambiguous reason_code = mk_provider_create_outcome
     \<lparr>po_status = AMBIGUOUS, po_reason_code = reason_code, po_payment_link_id = None\<rparr>"

datatype execution_disposition =
    X_CREATED | X_ADOPTED | X_SUPPRESSED | X_REQUEUED | X_REQUERY_REQUIRED | X_ESCALATED | X_DEAD_LETTER

record execution_result =
  xr_disposition :: execution_disposition
  xr_job :: outbox_job
  xr_effect_decision :: gate_decision
  xr_reason_code :: pystr
  xr_reference_id :: pystr
  xr_payment_link_id :: "pystr option"

definition AUTHORIZATION_FAULTS :: "gate_reason list" where
  "AUTHORIZATION_FAULTS = [PLAN_AUTHORIZATION_MISSING, PLAN_BINDING_MISMATCH, DURABLE_INTENT_MISSING]"

section \<open>Ports\<close>

record 'w executor_ports =
  pt_clock :: "('w, datetime) port"
  pt_load_durable_intent :: "pystr \<Rightarrow> pystr \<Rightarrow> ('w, durable_intent option) port"
  pt_load_fresh_gate_context :: "action_proposal \<Rightarrow> pystr \<Rightarrow> instant \<Rightarrow> ('w, gate_context) port"
  pt_create :: "link_request \<Rightarrow> pystr \<Rightarrow> ('w, provider_create_outcome) port"
  pt_lookup :: "pystr \<Rightarrow> pystr \<Rightarrow> ('w, link_lookup) port"
  pt_record_authorization :: "(gate_decision \<Rightarrow> gate_context \<Rightarrow> bool \<Rightarrow> ('w, unit) port) option"

datatype port_event =
    ClockRead "exn + datetime"
  | IntentLoaded pystr pystr "exn + durable_intent option"
  | ContextLoaded action_proposal pystr instant "exn + gate_context"
  | AuthorizationRecorded gate_decision gate_context bool "exn + unit"
  | CreateAttempted link_request pystr "exn + provider_create_outcome"
  | LinksLookedUp pystr pystr "exn + link_lookup"

type_synonym ('w, 'a) xio = "('w, port_event, 'a) io"

section \<open>Settling the job\<close>

text \<open>The parts every settlement shares: the leased job, its command, the worker, the moment of the
  decision and the decision.\<close>

record delivery =
  dl_job :: outbox_job
  dl_command :: create_command
  dl_worker_id :: pystr
  dl_now :: instant
  dl_effect :: gate_decision

definition execution_result_of ::
  "delivery \<Rightarrow> execution_disposition \<Rightarrow> outbox_job \<Rightarrow> pystr \<Rightarrow> pystr option \<Rightarrow> execution_result" where
  "execution_result_of dl disposition job reason link =
     \<lparr>xr_disposition = disposition, xr_job = job, xr_effect_decision = dl_effect dl, xr_reason_code = reason,
      xr_reference_id = lr_reference_id (cc_request (dl_command dl)), xr_payment_link_id = link\<rparr>"

definition complete_delivery :: "delivery \<Rightarrow> pystr \<Rightarrow> exn + outbox_job" where
  "complete_delivery dl result_reference =
     Outbox.complete (dl_job dl) (dl_worker_id dl) (held_token (dl_job dl)) (utc (dl_now dl)) (j_version (dl_job dl)) result_reference"

definition requeue_delivery ::
  "backoff_policy \<Rightarrow> delivery \<Rightarrow> pystr \<Rightarrow> retry_mode \<Rightarrow> execution_disposition \<Rightarrow> exn + execution_result" where
  "requeue_delivery backoff dl reason mode disposition =
     bindE (requeue (dl_job dl) (dl_worker_id dl) (held_token (dl_job dl)) (utc (dl_now dl)) (j_version (dl_job dl))
              reason backoff mode) (\<lambda>updated.
     Inr (execution_result_of dl (if j_state updated = DEAD_LETTER then X_DEAD_LETTER else disposition) updated reason None))"

definition suppress_delivery :: "delivery \<Rightarrow> pystr \<Rightarrow> exn + execution_result" where
  "suppress_delivery dl reason =
     bindE (complete_delivery dl (''suppressed_'' @ decision_digest (dl_effect dl))) (\<lambda>completed.
     Inr (execution_result_of dl X_SUPPRESSED completed reason None))"

definition escalate_delivery :: "delivery \<Rightarrow> pystr \<Rightarrow> exn + execution_result" where
  "escalate_delivery dl reason =
     bindE (dead_letter (dl_job dl) (dl_worker_id dl) (held_token (dl_job dl)) (utc (dl_now dl)) (j_version (dl_job dl)) reason)
       (\<lambda>dead. Inr (execution_result_of dl X_ESCALATED dead reason None))"

section \<open>Binding and denial\<close>

definition binding_failure :: "outbox_job \<Rightarrow> create_command \<Rightarrow> durable_intent option \<Rightarrow> exn + pystr option" where
  "binding_failure job c intent =
     (let proposal = cc_proposal c in
      if j_action_key job \<noteq> action_key proposal then Inr (Some ''job_action_key_mismatch'')
      else bindE (command_payload_digest c) (\<lambda>payload_digest.
        Inr (if j_payload_digest job \<noteq> payload_digest then Some ''job_payload_digest_mismatch''
             else if p_action_type proposal \<noteq> CREATE_STANDARD_PAYMENT_LINK then Some ''proposal_action_type_mismatch''
             else (case p_amount proposal of
               None \<Rightarrow> Some ''proposal_amount_missing''
             | Some amount \<Rightarrow>
                if minor_units amount \<noteq> lr_amount_minor (cc_request c) then Some ''proposal_request_amount_mismatch''
                else if currency amount \<noteq> lr_currency (cc_request c) then Some ''proposal_request_currency_mismatch''
                else (case intent of
                  None \<Rightarrow> Some ''durable_intent_missing''
                | Some i \<Rightarrow> if \<not> intent_matches i c then Some ''durable_intent_command_mismatch'' else None)))))"

definition deny_delivery :: "delivery \<Rightarrow> exn + execution_result" where
  "deny_delivery dl =
     (let reasons = d_reasons (dl_effect dl); reason_values = joined_reasons (dl_effect dl) in
      if list_ex (\<lambda>r. r \<in> set AUTHORIZATION_FAULTS) reasons
      then escalate_delivery dl (''effect_authorization_fault:'' @ reason_values)
      else if PAYMENT_TRUTH_NOT_UNPAID \<in> set reasons
      then suppress_delivery dl ''fresh_payment_truth_blocks_collection''
      else suppress_delivery dl (''effect_gate_denied:'' @ reason_values))"

section \<open>Provider effects\<close>

definition reconcile_delivery :: "backoff_policy \<Rightarrow> 'w executor_ports \<Rightarrow> delivery \<Rightarrow> ('w, execution_result) xio" where
  "reconcile_delivery backoff ports dl =
     (let request = cc_request (dl_command dl); account = cc_provider_account_id (dl_command dl) in
      bindIO (call (LinksLookedUp (lr_reference_id request) account) (pt_lookup ports (lr_reference_id request) account)) (\<lambda>lookup.
      let decision = decide_ambiguous_create request lookup in
      case ac_action decision of
        ADOPT_EXISTING \<Rightarrow>
          (case ac_payment_link_id decision of
             None \<Rightarrow> liftIO (Inl (AssertionError ''adoption decision has no payment_link_id''))
           | Some link \<Rightarrow>
               liftIO (bindE (complete_delivery dl link) (\<lambda>completed.
                 Inr (execution_result_of dl X_ADOPTED completed (ac_reason_code decision) (Some link)))))
      | RETRY_CREATE_SAME_REFERENCE \<Rightarrow>
          liftIO (requeue_delivery backoff dl (ac_reason_code decision) RETRY_SAME_EFFECT X_REQUEUED)
      | REQUERY \<Rightarrow>
          liftIO (requeue_delivery backoff dl (ac_reason_code decision) RECONCILE_ONLY X_REQUERY_REQUIRED)
      | ESCALATE_CREATE \<Rightarrow>
          liftIO (escalate_delivery dl (''ambiguous_create_conflict:'' @ ac_reason_code decision))))"

definition create_delivery :: "backoff_policy \<Rightarrow> 'w executor_ports \<Rightarrow> delivery \<Rightarrow> ('w, execution_result) xio" where
  "create_delivery backoff ports dl =
     (let request = cc_request (dl_command dl); account = cc_provider_account_id (dl_command dl) in
      case validate_expiry request (timestamp (dl_now dl)) of
        Inl (PaymentLinkValidationError msg) \<Rightarrow> liftIO (escalate_delivery dl (''request_not_effect_safe:'' @ msg))
      | Inl e \<Rightarrow> liftIO (Inl e)
      | Inr _ \<Rightarrow>
         bindIO (call (CreateAttempted request account) (pt_create ports request account)) (\<lambda>create.
         case po_status create of
           CERTAIN_SUCCESS \<Rightarrow>
             (case po_payment_link_id create of
                None \<Rightarrow> liftIO (Inl (AssertionError ''certain success has no payment_link_id''))
              | Some link \<Rightarrow>
                  liftIO (bindE (complete_delivery dl link) (\<lambda>completed.
                    Inr (execution_result_of dl X_CREATED completed (po_reason_code create) (Some link)))))
         | CERTAIN_FAILURE \<Rightarrow>
             liftIO (requeue_delivery backoff dl (''certain_failure:'' @ po_reason_code create) RETRY_SAME_EFFECT X_REQUEUED)
         | AMBIGUOUS \<Rightarrow> reconcile_delivery backoff ports dl))"

section \<open>Execution\<close>

definition read_clock :: "'w executor_ports \<Rightarrow> ('w, instant) xio" where
  "read_clock ports = bindIO (call ClockRead (pt_clock ports)) (\<lambda>d. liftIO (require_utc_exact d ''clock result''))"

text \<open>Everything before the decision: lease, intent, fresh context, and the effect gate at the second clock
  reading.\<close>

definition authorize_delivery ::
  "gate_policy \<Rightarrow> 'w executor_ports \<Rightarrow> outbox_job \<Rightarrow> create_command \<Rightarrow> pystr
     \<Rightarrow> ('w, delivery \<times> gate_context \<times> pystr option) xio" where
  "authorize_delivery pol ports job c worker_id =
     bindIO (read_clock ports) (\<lambda>before.
     bindIO (liftIO (assert_active_lease job worker_id (held_token job) (utc before))) (\<lambda>_.
     bindIO (call (IntentLoaded (j_action_key job) (cc_provider_account_id c))
               (pt_load_durable_intent ports (j_action_key job) (cc_provider_account_id c))) (\<lambda>intent.
     bindIO (liftIO (binding_failure job c intent)) (\<lambda>failure.
     bindIO (call (ContextLoaded (cc_proposal c) (cc_provider_account_id c) before)
               (pt_load_fresh_gate_context ports (cc_proposal c) (cc_provider_account_id c) before)) (\<lambda>fresh.
     bindIO (read_clock ports) (\<lambda>now.
     bindIO (liftIO (assert_active_lease job worker_id (held_token job) (utc now))) (\<lambda>_.
     bindIO (liftIO (effect_context_of fresh now (intent \<noteq> None \<and> failure = None))) (\<lambda>ctx.
     bindIO (liftIO (evaluate_effect pol (cc_proposal c) ctx (Some (cc_prior_plan c)))) (\<lambda>effect.
     returnIO (\<lparr>dl_job = job, dl_command = c, dl_worker_id = worker_id, dl_now = now, dl_effect = effect\<rparr>,
               ctx, failure))))))))))"

definition record_authorization :: "'w executor_ports \<Rightarrow> delivery \<Rightarrow> gate_context \<Rightarrow> ('w, unit) xio" where
  "record_authorization ports dl ctx = (case pt_record_authorization ports of
      None \<Rightarrow> returnIO ()
    | Some recorder \<Rightarrow>
       (let reconciliation_only = (j_retry_mode (dl_job dl) = RECONCILE_ONLY)
        in call (AuthorizationRecorded (dl_effect dl) ctx reconciliation_only)
             (recorder (dl_effect dl) ctx reconciliation_only)))"

definition execute ::
  "gate_policy \<Rightarrow> backoff_policy \<Rightarrow> 'w executor_ports \<Rightarrow> outbox_job \<Rightarrow> create_command \<Rightarrow> pystr
     \<Rightarrow> ('w, execution_result) xio" where
  "execute pol backoff ports job c worker_id =
     bindIO (authorize_delivery pol ports job c worker_id) (\<lambda>(dl, ctx, failure).
     case failure of
       Some f \<Rightarrow> liftIO (escalate_delivery dl (''binding_failure:'' @ f))
     | None \<Rightarrow>
        if \<not> allowed (dl_effect dl) then liftIO (deny_delivery dl)
        else bindIO (record_authorization ports dl ctx) (\<lambda>_.
             if j_retry_mode job = RECONCILE_ONLY then reconcile_delivery backoff ports dl
             else create_delivery backoff ports dl))"

end
