(* ===== verification/Executor_Spec.thy ===== *)
theory Executor_Spec
  imports Executor Gate_Spec Outbox_Properties Payment_Link_Spec
begin

text \<open>
  What the create executor may do, read off the trace of its port calls: at most one create, and only
  under an active lease, a matching durable intent and an allowed effect decision; and how each
  disposition relates to the settled job and to what the provider answered.
\<close>

section \<open>Port events\<close>

fun is_create :: "port_event \<Rightarrow> bool" where
  "is_create (CreateAttempted _ _ _) = True"
| "is_create _ = False"

fun is_read :: "port_event \<Rightarrow> bool" where
  "is_read (ClockRead _) = True"
| "is_read (IntentLoaded _ _ _) = True"
| "is_read (ContextLoaded _ _ _ _) = True"
| "is_read _ = False"

section \<open>Settlements\<close>

lemma requeue_delivery_Inr:
  assumes "requeue_delivery backoff dl reason mode d = Inr x"
  shows "settled (dl_job dl) (dl_worker_id dl) (held_token (dl_job dl)) (utc (dl_now dl)) (j_version (dl_job dl)) (xr_job x)
    \<and> xr_payment_link_id x = None
    \<and> (xr_disposition x = X_DEAD_LETTER \<and> j_state (xr_job x) = DEAD_LETTER
       \<or> xr_disposition x = d \<and> j_state (xr_job x) = PENDING \<and> j_retry_mode (xr_job x) = mode)"
  using assms
  by (auto simp: requeue_delivery_def execution_result_of_def split: if_splits dest!: requeue_Inr)

lemma escalate_delivery_Inr:
  assumes "escalate_delivery dl reason = Inr x" "j_state (dl_job dl) = LEASED"
  shows "settled (dl_job dl) (dl_worker_id dl) (held_token (dl_job dl)) (utc (dl_now dl)) (j_version (dl_job dl)) (xr_job x)
    \<and> xr_payment_link_id x = None \<and> xr_disposition x = X_ESCALATED \<and> j_state (xr_job x) = DEAD_LETTER"
  using assms by (auto simp: escalate_delivery_def execution_result_of_def dest!: dead_letter_Inr)

lemma complete_delivery_Inr:
  assumes "complete_delivery dl res = Inr k" "j_state (dl_job dl) = LEASED"
  shows "settled (dl_job dl) (dl_worker_id dl) (held_token (dl_job dl)) (utc (dl_now dl)) (j_version (dl_job dl)) k
    \<and> j_state k = COMPLETED \<and> j_completion_reference k = Some res"
  using assms by (auto simp: complete_delivery_def dest!: complete_Inr)

lemma suppress_delivery_Inr:
  assumes "suppress_delivery dl reason = Inr x" "j_state (dl_job dl) = LEASED"
  shows "settled (dl_job dl) (dl_worker_id dl) (held_token (dl_job dl)) (utc (dl_now dl)) (j_version (dl_job dl)) (xr_job x)
    \<and> xr_payment_link_id x = None \<and> xr_disposition x = X_SUPPRESSED \<and> j_state (xr_job x) = COMPLETED"
  using assms complete_delivery_Inr by (auto simp: suppress_delivery_def execution_result_of_def)

section \<open>Before the decision\<close>

text \<open>The evidence collected before the decision is these four reads, in this order: a clock reading with the lease
  active, the durable intent, the fresh context asked for at that reading, and a second clock reading with the lease
  active again. The decision is the gate's on exactly the context that was read, moved to the second reading and marked
  with whether the intent binds the command.\<close>

definition decision_context :: "gate_context \<Rightarrow> instant \<Rightarrow> bool \<Rightarrow> gate_context" where
  "decision_context fc now proved = fc\<lparr>c_evaluated_at := now, c_durable_intent_recorded := proved\<rparr>"

definition pre_effect_reads ::
  "outbox_job \<Rightarrow> create_command \<Rightarrow> datetime \<Rightarrow> instant \<Rightarrow> durable_intent option \<Rightarrow> gate_context \<Rightarrow> datetime \<Rightarrow> port_event list" where
  "pre_effect_reads job c d0 start intent fc d1 =
     [ClockRead (Inr d0), IntentLoaded (j_action_key job) (cc_provider_account_id c) (Inr intent),
      ContextLoaded (cc_proposal c) (cc_provider_account_id c) start (Inr fc), ClockRead (Inr d1)]"

definition collected ::
  "gate_policy \<Rightarrow> outbox_job \<Rightarrow> create_command \<Rightarrow> pystr \<Rightarrow> port_event list \<Rightarrow> delivery \<Rightarrow> gate_context \<Rightarrow> pystr option \<Rightarrow> bool" where
  "collected pol job c worker tr dl ctx failure =
     (\<exists>d0 start intent fc d1.
        tr = pre_effect_reads job c d0 start intent fc d1
        \<and> require_utc_exact d0 ''clock result'' = Inr start \<and> holds_lease job worker (held_token job) start
        \<and> require_utc_exact d1 ''clock result'' = Inr (dl_now dl) \<and> holds_lease job worker (held_token job) (dl_now dl)
        \<and> dl_job dl = job \<and> dl_command dl = c \<and> dl_worker_id dl = worker \<and> in_range (dl_now dl)
        \<and> binding_failure job c intent = Inr failure
        \<and> ctx = decision_context fc (dl_now dl) (intent \<noteq> None \<and> failure = None)
        \<and> evaluate_effect pol (cc_proposal c) ctx (Some (cc_prior_plan c)) = Inr (dl_effect dl))"

lemma option_utc_kept: "option_checkE (\<lambda>d. require_utc d f) (map_option utc v) = Inr v' \<Longrightarrow> v' = v"
  by (cases v) (auto simp: option_checkE_def require_utc_def utc_def astimezone_utc_def add_time_def split: if_splits)

lemma effect_context_Inr: "effect_context_of fc now b = Inr ctx \<Longrightarrow> ctx = decision_context fc now b"
  by (auto simp: effect_context_of_def mk_gate_context_def decision_context_def dest!: option_utc_kept)
    (auto simp: require_utc_def utc_def astimezone_utc_def add_time_def split: if_splits)

lemma read_clock_emits [emits_intros]: "emits is_read (read_clock ports)"
  by (auto simp: read_clock_def intro!: emits_intros)

lemma authorize_emits: "emits is_read (authorize_delivery pol ports job c worker)"
  unfolding authorize_delivery_def by (auto intro!: emits_intros)

lemma collected_reads: "collected pol job c worker tr dl ctx failure \<Longrightarrow> list_all is_read tr"
  by (auto simp: collected_def pre_effect_reads_def)

lemma authorize_collects:
  assumes "authorize_delivery pol ports job c worker s = (Inr (dl, ctx, failure), s')"
  obtains tr where "snd s' = snd s @ tr" "collected pol job c worker tr dl ctx failure"
proof -
  from assms obtain tr where tr: "snd s' = snd s @ tr" "collected pol job c worker tr dl ctx failure"
    unfolding authorize_delivery_def bindIO_Inr read_clock_def call_eq liftIO_eq returnIO_eq
    by (auto simp: collected_def pre_effect_reads_def assert_active_lease_Inr require_utc_exact_utc dest!: effect_context_Inr)
  then show thesis by (rule that)
qed

section \<open>The provider phase\<close>

lemma decide_cases:
  obtains (requery) "\<not> lk_completed l"
      "decide_ambiguous_create r l = ambiguous_decision REQUERY ''lookup_not_completed'' None"
  | (retry) "lk_completed l" "lk_candidates l = []"
      "decide_ambiguous_create r l = ambiguous_decision RETRY_CREATE_SAME_REFERENCE ''completed_lookup_found_no_link'' None"
  | (adopt) cand s where "lk_completed l" "lk_candidates l = [cand]" "link_snapshot_from_mapping cand = Inr s" "link_matches s r"
      "decide_ambiguous_create r l
         = ambiguous_decision ADOPT_EXISTING ''matching_link_proves_create_succeeded'' (Some (ls_payment_link_id s))"
  | (escalate) reason link where "decide_ambiguous_create r l = ambiguous_decision ESCALATE_CREATE reason link"
proof -
  consider "\<not> lk_completed l" | "lk_completed l" "lk_candidates l = []"
    | cand where "lk_completed l" "lk_candidates l = [cand]"
    | cand cand' rest where "lk_completed l" "lk_candidates l = cand # cand' # rest"
    by (cases "lk_candidates l" rule: remdups_adj.cases) auto
  then show thesis
  proof cases
    case (3 cand)
    then show thesis
      by (cases "link_snapshot_from_mapping cand"; cases "link_matches (projr (link_snapshot_from_mapping cand)) r")
         (auto simp: decide_ambiguous_create_def intro: adopt escalate)
  qed (auto simp: decide_ambiguous_create_def intro: requery retry escalate)
qed

text \<open>A completed lookup found the link as the only candidate, and it is the requested one.\<close>

definition found_own_link :: "create_command \<Rightarrow> port_event list \<Rightarrow> pystr \<Rightarrow> bool" where
  "found_own_link c tr link =
     (\<exists>l cand s. LinksLookedUp (lr_reference_id (cc_request c)) (cc_provider_account_id c) (Inr l) \<in> set tr
        \<and> lk_completed l \<and> lk_candidates l = [cand] \<and> link_snapshot_from_mapping cand = Inr s
        \<and> link_matches s (cc_request c) \<and> ls_payment_link_id s = link)"

lemma found_own_linkI:
  "LinksLookedUp (lr_reference_id (cc_request c)) (cc_provider_account_id c) (Inr l) \<in> set tr \<Longrightarrow>
   lk_completed l \<Longrightarrow> lk_candidates l = [cand] \<Longrightarrow> link_snapshot_from_mapping cand = Inr s \<Longrightarrow>
   link_matches s (cc_request c) \<Longrightarrow> found_own_link c tr (ls_payment_link_id s)"
  unfolding found_own_link_def by blast

text \<open>What a disposition says about the settled job and about what the ports answered.\<close>

definition outcome_justified :: "create_command \<Rightarrow> port_event list \<Rightarrow> execution_result \<Rightarrow> bool" where
  "outcome_justified c tr x =
     (let request = cc_request c; account = cc_provider_account_id c; k = xr_job x in
      case xr_disposition x of
        X_CREATED \<Rightarrow> j_state k = COMPLETED \<and> (\<exists>link created.
            xr_payment_link_id x = Some link \<and> j_completion_reference k = Some link
            \<and> CreateAttempted request account (Inr created) \<in> set tr
            \<and> po_status created = CERTAIN_SUCCESS \<and> po_payment_link_id created = Some link)
      | X_ADOPTED \<Rightarrow> j_state k = COMPLETED \<and> (\<exists>link.
            xr_payment_link_id x = Some link \<and> j_completion_reference k = Some link \<and> found_own_link c tr link)
      | X_SUPPRESSED \<Rightarrow> j_state k = COMPLETED \<and> xr_payment_link_id x = None \<and> list_all is_read tr
      | X_REQUEUED \<Rightarrow> j_state k = PENDING \<and> j_retry_mode k = RETRY_SAME_EFFECT
            \<and> ((\<exists>failed. CreateAttempted request account (Inr failed) \<in> set tr \<and> po_status failed = CERTAIN_FAILURE)
               \<or> (\<exists>l. LinksLookedUp (lr_reference_id request) account (Inr l) \<in> set tr
                      \<and> lk_completed l \<and> lk_candidates l = []))
      | X_REQUERY_REQUIRED \<Rightarrow> j_state k = PENDING \<and> j_retry_mode k = RECONCILE_ONLY
            \<and> (\<exists>l. LinksLookedUp (lr_reference_id request) account (Inr l) \<in> set tr \<and> \<not> lk_completed l)
      | X_ESCALATED \<Rightarrow> j_state k = DEAD_LETTER
      | X_DEAD_LETTER \<Rightarrow> j_state k = DEAD_LETTER)"

definition settles :: "delivery \<Rightarrow> execution_result \<Rightarrow> bool" where
  "settles dl x = settled (dl_job dl) (dl_worker_id dl) (held_token (dl_job dl)) (utc (dl_now dl)) (j_version (dl_job dl)) (xr_job x)"

lemma reconcile_run:
  assumes "reconcile_delivery backoff ports dl s = (r, s')" "j_state (dl_job dl) = LEASED"
  obtains lk where
    "snd s' = snd s @ [LinksLookedUp (lr_reference_id (cc_request (dl_command dl))) (cc_provider_account_id (dl_command dl)) lk]"
    "\<And>x. r = Inr x \<Longrightarrow> settles dl x \<and> xr_disposition x \<noteq> X_SUPPRESSED
       \<and> outcome_justified (dl_command dl) (snd s') x"
  using assms(1) unfolding reconcile_delivery_def Let_def
proof (cases rule: call_bind_cases)
  case (raised e)
  then show thesis by (intro that) auto
next
  case (returned l s1)
  have tr: "snd s' = snd s1" using returned(2)
    by (cases rule: decide_cases [of l "cc_request (dl_command dl)"]) (simp_all add: ambiguous_decision_def)
  have "settles dl x \<and> xr_disposition x \<noteq> X_SUPPRESSED \<and> outcome_justified (dl_command dl) (snd s') x" if "r = Inr x" for x
    using returned(2) assms(2) that
    by (cases rule: decide_cases [of l "cc_request (dl_command dl)"])
       (auto simp: ambiguous_decision_def returned(1) tr settles_def outcome_justified_def execution_result_of_def Let_def
          intro!: found_own_linkI dest!: requeue_delivery_Inr escalate_delivery_Inr complete_delivery_Inr)
  with returned(1) tr show thesis by (intro that [of "Inr l"]) auto
qed

text \<open>The create phase makes at most one create call, and only for a request that passes its expiry check;
  what follows a create is at most one lookup.\<close>

lemma create_run:
  assumes "create_delivery backoff ports dl s = (r, s')" "j_state (dl_job dl) = LEASED"
  obtains (refused) "snd s' = snd s" "\<And>x. r = Inr x \<Longrightarrow> settles dl x \<and> xr_disposition x = X_ESCALATED
       \<and> outcome_justified (dl_command dl) (snd s') x"
  | (attempted) created rest where "validate_expiry (cc_request (dl_command dl)) (timestamp (dl_now dl)) = Inr ()"
      "snd s' = snd s @ CreateAttempted (cc_request (dl_command dl)) (cc_provider_account_id (dl_command dl)) created # rest"
      "\<not> list_ex is_create rest"
      "\<And>x. r = Inr x \<Longrightarrow> settles dl x \<and> xr_disposition x \<noteq> X_SUPPRESSED \<and> outcome_justified (dl_command dl) (snd s') x"
proof (cases "validate_expiry (cc_request (dl_command dl)) (timestamp (dl_now dl))")
  case (Inl e)
  then show thesis
    using assms by (intro refused)
      (cases e; auto simp: create_delivery_def Let_def settles_def outcome_justified_def dest!: escalate_delivery_Inr)+
next
  case (Inr u)
  then have "validate_expiry (cc_request (dl_command dl)) (timestamp (dl_now dl)) = Inr ()" by simp
  note att = attempted [OF this]
  from assms(1) show thesis unfolding create_delivery_def Let_def Inr sum.case
  proof (cases rule: call_bind_cases)
    case (raised e)
    then show thesis by (intro att [of "Inl e" "[]"]) auto
  next
    case (returned created s1)
    show thesis
    proof (cases "po_status created")
      case CERTAIN_SUCCESS
      then show thesis
        using returned assms(2) by (intro att [of "Inr created" "[]"])
          (auto simp: settles_def outcome_justified_def execution_result_of_def Let_def split: option.splits
             dest!: complete_delivery_Inr)
    next
      case CERTAIN_FAILURE
      then show thesis
        using returned assms(2) by (intro att [of "Inr created" "[]"])
          (auto simp: settles_def outcome_justified_def execution_result_of_def Let_def dest!: requeue_delivery_Inr)
    next
      case AMBIGUOUS
      with returned have "reconcile_delivery backoff ports dl s1 = (r, s')" by simp
      then show thesis using assms(2)
      proof (cases rule: reconcile_run)
        case (1 lk)
        then show thesis using returned(1) by (intro att [of "Inr created"]) auto
      qed
    qed
  qed
qed

section \<open>A whole execution\<close>

lemma binding_failure_None:
  "binding_failure job c intent = Inr None \<longleftrightarrow>
     j_action_key job = action_key (cc_proposal c) \<and> command_payload_digest c = Inr (j_payload_digest job)
     \<and> p_action_type (cc_proposal c) = CREATE_STANDARD_PAYMENT_LINK
     \<and> p_amount (cc_proposal c) = Some \<lparr>minor_units = lr_amount_minor (cc_request c), currency = lr_currency (cc_request c)\<rparr>
     \<and> (\<exists>i. intent = Some i \<and> intent_matches i c)"
  by (auto simp: binding_failure_def Let_def split: option.splits if_splits)

lemma collected_leased: "collected pol job c worker tr dl ctx failure \<Longrightarrow> j_state (dl_job dl) = LEASED"
  by (auto simp: collected_def holds_lease_def)

lemma read_not_create: "list_all is_read tr \<Longrightarrow> \<not> list_ex is_create tr"
  by (induction tr) (auto elim: is_read.elims)

text \<open>The four ways an execution ends: it raised or settled before any decision to act, it reconciled, or it
  went through the create phase after the decision was recorded.\<close>

lemma execute_run:
  assumes "execute pol backoff ports job c worker s = (r, s')"
  obtains (quiet) tr where "snd s' = snd s @ tr" "\<not> list_ex is_create tr"
      "\<And>x. r = Inr x \<Longrightarrow> \<exists>dl ctx failure. collected pol job c worker tr dl ctx failure \<and> settles dl x \<and> outcome_justified c tr x"
  | (acting) tr dl ctx auth s1 where "collected pol job c worker tr dl ctx None" "allowed (dl_effect dl)"
      "snd s1 = snd s @ tr @ auth"
      "auth = (if pt_record_authorization ports = None then []
         else [AuthorizationRecorded (dl_effect dl) ctx (j_retry_mode job = RECONCILE_ONLY) (Inr ())])"
      "(if j_retry_mode job = RECONCILE_ONLY then reconcile_delivery backoff ports dl s1 else create_delivery backoff ports dl s1) = (r, s')"
  using assms unfolding execute_def
proof (cases rule: bindIO_cases)
  case (raised e)
  then obtain tr where "snd s' = snd s @ tr" "list_all is_read tr" using emitsD [OF authorize_emits] by blast
  then show thesis using raised(2) read_not_create by (intro quiet) auto
next
  case (returned y s0)
  obtain dl ctx failure where y: "y = (dl, ctx, failure)" by (cases y)
  obtain tr where tr: "snd s0 = snd s @ tr" and col: "collected pol job c worker tr dl ctx failure"
    by (rule authorize_collects [OF returned(1) [unfolded y]])
  note leased = collected_leased [OF col]
  have cmd: "dl_command dl = c" "dl_job dl = job" using col by (auto simp: collected_def)
  note reads = collected_reads [OF col]
  show thesis
  proof (cases failure)
    case (Some f)
    then have "settles dl x \<and> outcome_justified c tr x" if "r = Inr x" for x
      using that returned(2) y leased
      by (auto simp: settles_def outcome_justified_def Let_def dest!: escalate_delivery_Inr)
    moreover have "snd s' = snd s @ tr" using Some returned(2) y tr by simp
    ultimately show thesis using col read_not_create [OF reads] quiet by blast
  next
    case None
    show thesis
    proof (cases "allowed (dl_effect dl)")
      case False
      then have "settles dl x \<and> outcome_justified c tr x" if "r = Inr x" for x
        using that None returned(2) y leased reads
        by (auto simp: settles_def outcome_justified_def deny_delivery_def Let_def
            dest!: escalate_delivery_Inr suppress_delivery_Inr split: if_splits)
      moreover have "snd s' = snd s @ tr" using False None returned(2) y tr by simp
      ultimately show thesis using col read_not_create [OF reads] quiet by blast
    next
      case True
      with None returned(2) y have run: "bindIO (record_authorization ports dl ctx) (\<lambda>_.
          if j_retry_mode job = RECONCILE_ONLY then reconcile_delivery backoff ports dl
          else create_delivery backoff ports dl) s0 = (r, s')" by simp
      show thesis
      proof (cases "pt_record_authorization ports")
        case None
        then show thesis using run True col tr \<open>failure = None\<close>
          by (intro acting [of tr dl ctx s0 "[]"]) (auto simp: record_authorization_def bindIO_eq split: if_splits)
      next
        case (Some recorder)
        from run show thesis unfolding record_authorization_def Some Let_def option.case
        proof (cases rule: call_bind_cases)
          case (raised e)
          then show thesis using tr reads read_not_create by (intro quiet [of "tr @ [_]"]) auto
        next
          case (returned u s1)
          then show thesis using True col tr \<open>failure = None\<close> cmd Some
            by (intro acting [of tr dl ctx s1 "[_]"]) (auto split: if_splits)
        qed
      qed
    qed
  qed
qed

text \<open>What licenses the create call: the trace up to it is exactly the four reads, and the record of the decision when
  there is a recorder; no other create follows. The lease is active at both clock readings and the job is not in
  reconciliation mode; the intent that was read binds exactly this command, the job carries the command's digest, and the
  request asks for the proposed amount and passes its expiry check at the second reading. The context that was read shows
  the payment unpaid, no active instrument and both kill switches off, and the effect gate authorizes the proposal on that
  very context at the second reading.\<close>

definition create_licensed ::
  "gate_policy \<Rightarrow> bool \<Rightarrow> outbox_job \<Rightarrow> create_command \<Rightarrow> pystr \<Rightarrow> port_event list \<Rightarrow> bool" where
  "create_licensed pol recorder job c worker tr =
     (\<exists>d0 start intent fc d1 now ctx effect created after.
        tr = pre_effect_reads job c d0 start (Some intent) fc d1
             @ (if recorder then [AuthorizationRecorded effect ctx False (Inr ())] else [])
             @ CreateAttempted (cc_request c) (cc_provider_account_id c) created # after
        \<and> \<not> list_ex is_create after
        \<and> require_utc_exact d0 ''clock result'' = Inr start \<and> holds_lease job worker (held_token job) start
        \<and> require_utc_exact d1 ''clock result'' = Inr now \<and> holds_lease job worker (held_token job) now
        \<and> j_retry_mode job \<noteq> RECONCILE_ONLY
        \<and> intent_matches intent c \<and> j_action_key job = action_key (cc_proposal c)
        \<and> command_payload_digest c = Inr (j_payload_digest job)
        \<and> p_action_type (cc_proposal c) = CREATE_STANDARD_PAYMENT_LINK
        \<and> p_amount (cc_proposal c) = Some \<lparr>minor_units = lr_amount_minor (cc_request c), currency = lr_currency (cc_request c)\<rparr>
        \<and> validate_expiry (cc_request c) (timestamp now) = Inr ()
        \<and> s_payment_state (c_snapshot fc) = UNPAID \<and> s_active_instrument_count (c_snapshot fc) \<le> 0
        \<and> \<not> c_global_kill_switch fc \<and> \<not> c_merchant_kill_switch fc
        \<and> ctx = decision_context fc now True
        \<and> evaluate_effect pol (cc_proposal c) ctx (Some (cc_prior_plan c)) = Inr effect \<and> allowed effect)"

lemma collected_licensed:
  assumes "collected pol job c worker tr dl ctx None" "allowed (dl_effect dl)"
  obtains d0 start intent fc d1 where
    "tr = pre_effect_reads job c d0 start (Some intent) fc d1"
    "require_utc_exact d0 ''clock result'' = Inr start" "holds_lease job worker (held_token job) start"
    "require_utc_exact d1 ''clock result'' = Inr (dl_now dl)" "holds_lease job worker (held_token job) (dl_now dl)"
    "intent_matches intent c"
    "j_action_key job = action_key (cc_proposal c)" "command_payload_digest c = Inr (j_payload_digest job)"
    "p_action_type (cc_proposal c) = CREATE_STANDARD_PAYMENT_LINK"
    "p_amount (cc_proposal c) = Some \<lparr>minor_units = lr_amount_minor (cc_request c), currency = lr_currency (cc_request c)\<rparr>"
    "ctx = decision_context fc (dl_now dl) True" "s_payment_state (c_snapshot fc) = UNPAID"
    "s_active_instrument_count (c_snapshot fc) \<le> 0" "\<not> c_global_kill_switch fc" "\<not> c_merchant_kill_switch fc"
proof -
  from assms(1) obtain d0 start intent fc d1 where
    t: "tr = pre_effect_reads job c d0 start intent fc d1"
      "require_utc_exact d0 ''clock result'' = Inr start" "holds_lease job worker (held_token job) start"
      "require_utc_exact d1 ''clock result'' = Inr (dl_now dl)" "holds_lease job worker (held_token job) (dl_now dl)"
    and i: "binding_failure job c intent = Inr None" "ctx = decision_context fc (dl_now dl) (intent \<noteq> None)"
    and e: "evaluate_effect pol (cc_proposal c) ctx (Some (cc_prior_plan c)) = Inr (dl_effect dl)"
    by (auto simp: collected_def)
  from i(1) obtain j where j: "intent = Some j" "intent_matches j c" by (auto simp: binding_failure_None)
  have b: "p_action_type (cc_proposal c) = CREATE_STANDARD_PAYMENT_LINK" using i(1) by (simp add: binding_failure_None)
  have "authorized pol EFFECT (cc_proposal c) ctx (Some (cc_prior_plan c))"
    using e assms(2) evaluate_allowed unfolding evaluate_effect_def by blast
  then have "collection_safe pol (cc_proposal c) ctx" "instrument_fit (cc_proposal c) ctx"
    using b by (auto simp: authorized_def action_sets)
  then show thesis
    using t i j b by (intro that [of d0 start j fc d1])
      (auto simp: collection_safe_def instrument_fit_def decision_context_def Let_def binding_failure_None)
qed

end
