(* ===== verification/Execution_Properties.thy ===== *)
theory Execution_Properties
  imports Executor_Spec
begin

text \<open>
  The properties of a whole execution: what a create call and a returned result are worth, and that an
  execution whose ports answer and whose gate allows creates the link and completes the job. The sample is a
  leased job for the proposal, plan and context of \<open>Gate_Spec\<close>.
\<close>

section \<open>The create phase succeeds\<close>

lemma complete_ok:
  assumes "job_ok j" "holds_lease j w tok t" "in_range t" "j_updated_at j \<le> t" "clean_text w 128" "clean_text tok 128"
    and "clean_text res 512"
  obtains k where "Outbox.complete j w tok (utc t) (j_version j) res = Inr k" "j_state k = COMPLETED"
    "j_completion_reference k = Some res"
proof -
  let ?k = "j\<lparr>j_state := COMPLETED, j_version := j_version j + 1, j_updated_at := t, j_available_at := None,
      j_lease_owner := None, j_lease_token := None, j_lease_expires_at := None, j_last_error := None,
      j_completion_reference := Some res\<rparr>"
  have "j_state j = LEASED" using assms(2) by (simp add: holds_lease_def)
  then have "job_ok ?k" using assms(1,3,4,7)
    by (simp add: job_ok_def state_ok_def texts_ok_def any_lease_def)
  moreover have lease: "assert_active_lease j w tok (utc t) = Inr ()" and time: "transition_time j (utc t) = Inr t"
    using assms by (simp_all add: assert_active_lease_Inr transition_time_Inr)
  ultimately have "Outbox.complete j w tok (utc t) (j_version j) res = Inr ?k"
    using \<open>j_state j = LEASED\<close> assms(7) lease time
    by (simp add: Outbox.complete_def require_text_def expect_version_def replace_job_Inr)
  then show thesis by (rule that) simp_all
qed

text \<open>The ports answer up to the provider: from the world \<open>w\<close> to \<open>w'\<close> the clock, the intent, the context and the
  clock again return, and the recorder, when there is one, records the decision. Each call may change the world.\<close>

definition authorization_answers ::
  "'w executor_ports \<Rightarrow> outbox_job \<Rightarrow> create_command \<Rightarrow> instant \<Rightarrow> durable_intent \<Rightarrow> gate_context \<Rightarrow> instant \<Rightarrow> gate_decision
     \<Rightarrow> 'w \<Rightarrow> 'w \<Rightarrow> bool" where
  "authorization_answers ports job c start intent fc now effect w w' =
     (let account = cc_provider_account_id c in
      \<exists>w1 w2 w3 w4. pt_clock ports w = (Inr (utc start), w1)
        \<and> pt_load_durable_intent ports (j_action_key job) account w1 = (Inr (Some intent), w2)
        \<and> pt_load_fresh_gate_context ports (cc_proposal c) account start w2 = (Inr fc, w3)
        \<and> pt_clock ports w3 = (Inr (utc now), w4)
        \<and> (case pt_record_authorization ports of
             None \<Rightarrow> w' = w4
           | Some recorder \<Rightarrow>
               recorder effect (decision_context fc now True) (j_retry_mode job = RECONCILE_ONLY) w4 = (Inr (), w')))"

text \<open>The provider confirms \<open>link\<close>: a lookup finds it as the only candidate and it is the requested one, which is all a
  job in reconciliation mode asks; otherwise the create of an unexpired request is a certain success, or is ambiguous
  and the lookup after it finds the link.\<close>

definition lookup_finds :: "'w executor_ports \<Rightarrow> create_command \<Rightarrow> pystr \<Rightarrow> 'w \<Rightarrow> 'w \<Rightarrow> bool" where
  "lookup_finds ports c link w w' =
     (\<exists>l cand s. pt_lookup ports (lr_reference_id (cc_request c)) (cc_provider_account_id c) w = (Inr l, w')
        \<and> lk_completed l \<and> lk_candidates l = [cand] \<and> link_snapshot_from_mapping cand = Inr s
        \<and> link_matches s (cc_request c) \<and> ls_payment_link_id s = link)"

definition provider_confirms ::
  "'w executor_ports \<Rightarrow> outbox_job \<Rightarrow> create_command \<Rightarrow> instant \<Rightarrow> pystr \<Rightarrow> execution_disposition \<Rightarrow> 'w \<Rightarrow> 'w \<Rightarrow> bool" where
  "provider_confirms ports job c now link d w w' =
     (if j_retry_mode job = RECONCILE_ONLY then lookup_finds ports c link w w' \<and> d = X_ADOPTED
      else validate_expiry (cc_request c) (timestamp now) = Inr ()
        \<and> (\<exists>out w1. pt_create ports (cc_request c) (cc_provider_account_id c) w = (Inr out, w1)
             \<and> (po_status out = CERTAIN_SUCCESS \<and> po_payment_link_id out = Some link \<and> w' = w1 \<and> d = X_CREATED
                \<or> po_status out = AMBIGUOUS \<and> lookup_finds ports c link w1 w' \<and> d = X_ADOPTED)))"

lemma call_then: "p w = (Inr x, w') \<Longrightarrow> yields (f x) w' y w'' \<Longrightarrow> yields (bindIO (call ev p) f) w y w''"
  by (rule yields_bind [OF yields_call])

lemma lift_then: "m = Inr x \<Longrightarrow> yields (f x) w y w' \<Longrightarrow> yields (bindIO (liftIO m) f) w y w'"
  by (rule yields_bind [OF yields_lift])

lemma read_clock_yields:
  "pt_clock ports w = (Inr (utc t), w') \<Longrightarrow> in_range t \<Longrightarrow> yields (read_clock ports) w t w'"
  unfolding read_clock_def by (rule yields_bind, rule yields_call, assumption, rule yields_lift) simp

lemma reconcile_yields:
  assumes "lookup_finds ports (dl_command dl) link w w'" "complete_delivery dl link = Inr k"
  shows "\<exists>reason. yields (reconcile_delivery backoff ports dl) w (execution_result_of dl X_ADOPTED k reason (Some link)) w'"
proof -
  obtain l cand s where l: "pt_lookup ports (lr_reference_id (cc_request (dl_command dl))) (cc_provider_account_id (dl_command dl)) w = (Inr l, w')"
    "lk_completed l" "lk_candidates l = [cand]" "link_snapshot_from_mapping cand = Inr s" "link_matches s (cc_request (dl_command dl))"
    "ls_payment_link_id s = link"
    using assms(1) by (auto simp: lookup_finds_def)
  then have d: "decide_ambiguous_create (cc_request (dl_command dl)) l
      = ambiguous_decision ADOPT_EXISTING ''matching_link_proves_create_succeeded'' (Some link)"
    by (simp add: decide_ambiguous_create_def)
  have "yields (reconcile_delivery backoff ports dl) w
      (execution_result_of dl X_ADOPTED k ''matching_link_proves_create_succeeded'' (Some link)) w'"
    unfolding reconcile_delivery_def Let_def
    by (rule call_then, rule l(1)) (simp add: d ambiguous_decision_def assms(2) yields_lift)
  then show ?thesis by blast
qed

lemma create_yields:
  assumes "validate_expiry (cc_request (dl_command dl)) (timestamp (dl_now dl)) = Inr ()"
    and out: "pt_create ports (cc_request (dl_command dl)) (cc_provider_account_id (dl_command dl)) w = (Inr out, w1)"
    and confirmed: "po_status out = CERTAIN_SUCCESS \<and> po_payment_link_id out = Some link \<and> w' = w1 \<and> d = X_CREATED
      \<or> po_status out = AMBIGUOUS \<and> lookup_finds ports (dl_command dl) link w1 w' \<and> d = X_ADOPTED"
    and k: "complete_delivery dl link = Inr k"
  shows "\<exists>reason. yields (create_delivery backoff ports dl) w (execution_result_of dl d k reason (Some link)) w'"
  using confirmed
proof
  assume "po_status out = CERTAIN_SUCCESS \<and> po_payment_link_id out = Some link \<and> w' = w1 \<and> d = X_CREATED"
  then have "yields (create_delivery backoff ports dl) w (execution_result_of dl d k (po_reason_code out) (Some link)) w'"
    using assms(1) k unfolding create_delivery_def Let_def
    by (auto intro!: call_then out yields_lift)
  then show ?thesis by blast
next
  assume a: "po_status out = AMBIGUOUS \<and> lookup_finds ports (dl_command dl) link w1 w' \<and> d = X_ADOPTED"
  then obtain reason where "yields (reconcile_delivery backoff ports dl) w1 (execution_result_of dl d k reason (Some link)) w'"
    using reconcile_yields [OF _ k, of ports w1 w' backoff] by auto
  then have "yields (create_delivery backoff ports dl) w (execution_result_of dl d k reason (Some link)) w'"
    using assms(1) a unfolding create_delivery_def Let_def by (auto intro!: call_then out)
  then show ?thesis by blast
qed

lemma authorize_yields:
  assumes "pt_clock ports w = (Inr (utc start), w1)" "in_range start"
    and "pt_load_durable_intent ports (j_action_key job) (cc_provider_account_id c) w1 = (Inr intent, w2)"
    and "pt_load_fresh_gate_context ports (cc_proposal c) (cc_provider_account_id c) start w2 = (Inr fc, w3)"
    and "pt_clock ports w3 = (Inr (utc now), w4)" "in_range now"
    and "assert_active_lease job worker (held_token job) (utc start) = Inr ()" "assert_active_lease job worker (held_token job) (utc now) = Inr ()"
    and "binding_failure job c intent = Inr None" "effect_context_of fc now True = Inr ctx"
    and "evaluate_effect pol (cc_proposal c) ctx (Some (cc_prior_plan c)) = Inr effect"
  shows "yields (authorize_delivery pol ports job c worker) w
    (\<lparr>dl_job = job, dl_command = c, dl_worker_id = worker, dl_now = now, dl_effect = effect\<rparr>, ctx, None) w4"
proof -
  have loaded: "intent \<noteq> None" using assms(9) by (auto simp: binding_failure_None)
  show ?thesis
    unfolding authorize_delivery_def
    by (rule yields_bind, rule read_clock_yields, rule assms(1), rule assms(2), rule lift_then, rule assms(7),
        rule call_then, rule assms(3), rule lift_then, rule assms(9), rule call_then, rule assms(4),
        rule yields_bind, rule read_clock_yields, rule assms(5), rule assms(6), rule lift_then, rule assms(8))
      (simp add: loaded assms(10) lift_then [OF assms(11)] yields_return lift_then)
qed

lemma execution_confirmed:
  assumes answers: "authorization_answers ports job c start intent fc now effect w w5"
    and "job_ok job" "holds_lease job worker (held_token job) start" "holds_lease job worker (held_token job) now"
    and "in_range start" "in_range now" "j_updated_at job \<le> now"
    and "clean_text worker 128" "clean_text (held_token job) 128"
    and "binding_failure job c (Some intent) = Inr None" "effect_context_of fc now True = Inr ctx"
    and "evaluate_effect pol (cc_proposal c) ctx (Some (cc_prior_plan c)) = Inr effect" "allowed effect"
    and confirms: "provider_confirms ports job c now link d w5 w6" and "clean_text link 512"
  shows "\<exists>x. yields (execute pol backoff ports job c worker) w x w6
    \<and> xr_disposition x = d \<and> xr_payment_link_id x = Some link
    \<and> j_state (xr_job x) = COMPLETED \<and> j_completion_reference (xr_job x) = Some link"
proof -
  let ?dl = "\<lparr>dl_job = job, dl_command = c, dl_worker_id = worker, dl_now = now, dl_effect = effect\<rparr>"
  have lease: "assert_active_lease job worker (held_token job) (utc start) = Inr ()"
    "assert_active_lease job worker (held_token job) (utc now) = Inr ()"
    using assms(3-6,8,9) by (simp_all add: assert_active_lease_Inr)
  obtain k where k: "complete_delivery ?dl link = Inr k" "j_state k = COMPLETED" "j_completion_reference k = Some link"
    using complete_ok [OF assms(2,4,6,7,8,9,15)] unfolding complete_delivery_def by auto
  have ctx: "ctx = decision_context fc now True" using assms(11) by (rule effect_context_Inr)
  from answers obtain w1 w2 w3 w4 where a: "pt_clock ports w = (Inr (utc start), w1)"
    "pt_load_durable_intent ports (j_action_key job) (cc_provider_account_id c) w1 = (Inr (Some intent), w2)"
    "pt_load_fresh_gate_context ports (cc_proposal c) (cc_provider_account_id c) start w2 = (Inr fc, w3)"
    "pt_clock ports w3 = (Inr (utc now), w4)"
    and r: "case pt_record_authorization ports of None \<Rightarrow> w5 = w4
      | Some recorder \<Rightarrow> recorder effect ctx (j_retry_mode job = RECONCILE_ONLY) w4 = (Inr (), w5)"
    unfolding authorization_answers_def Let_def ctx by blast
  have auth: "yields (authorize_delivery pol ports job c worker) w (?dl, ctx, None) w4"
    by (rule authorize_yields [OF a(1) assms(5) a(2,3,4) assms(6) lease assms(10-12)])
  have recorded: "yields (record_authorization ports ?dl ctx) w4 () w5"
    using r by (auto simp: record_authorization_def Let_def split: option.splits intro: yields_return yields_call)
  have "\<exists>reason. yields (if j_retry_mode job = RECONCILE_ONLY then reconcile_delivery backoff ports ?dl else create_delivery backoff ports ?dl)
      w5 (execution_result_of ?dl d k reason (Some link)) w6"
  proof (cases "j_retry_mode job = RECONCILE_ONLY")
    case True
    with confirms reconcile_yields [of ports ?dl, OF _ k(1)] show ?thesis by (auto simp: provider_confirms_def)
  next
    case False
    with confirms obtain out w7 where "validate_expiry (cc_request c) (timestamp now) = Inr ()"
      "pt_create ports (cc_request c) (cc_provider_account_id c) w5 = (Inr out, w7)"
      "po_status out = CERTAIN_SUCCESS \<and> po_payment_link_id out = Some link \<and> w6 = w7 \<and> d = X_CREATED
         \<or> po_status out = AMBIGUOUS \<and> lookup_finds ports c link w7 w6 \<and> d = X_ADOPTED"
      unfolding provider_confirms_def by auto
    then show ?thesis using create_yields [of ?dl, OF _ _ _ k(1)] False by simp
  qed
  then obtain reason where "yields (if j_retry_mode job = RECONCILE_ONLY then reconcile_delivery backoff ports ?dl
      else create_delivery backoff ports ?dl) w5 (execution_result_of ?dl d k reason (Some link)) w6" by blast
  then have "yields (execute pol backoff ports job c worker) w (execution_result_of ?dl d k reason (Some link)) w6"
    using assms(13) unfolding execute_def by (auto intro!: yields_bind [OF auth] yields_bind [OF recorded])
  then show ?thesis using k by (intro exI conjI) (auto simp: execution_result_of_def)
qed

section \<open>Sample execution\<close>

definition sample_time :: instant where
  "sample_time = 740000 * us_day + 10 * us_second"

definition sample_start :: instant where
  "sample_start = 740000 * us_day + 9 * us_second"

definition sample_command :: create_command where
  "sample_command = \<lparr>cc_proposal = sample_proposal, cc_prior_plan = sample_decision POLICY [],
     cc_request = sample_request\<lparr>lr_expire_by_epoch := 1800410000\<rparr>, cc_provider_account_id = ''acc_1''\<rparr>"

definition sample_leased_job :: outbox_job where
  "sample_leased_job = \<lparr>j_job_id = ''job-1'', j_action_key = action_key sample_proposal,
     j_payload_digest = projr (command_payload_digest sample_command), j_state = LEASED,
     j_version = 1, j_attempts = 1, j_max_attempts = 2, j_created_at = 740000 * us_day, j_updated_at = 740000 * us_day,
     j_available_at = None, j_retry_mode = RNORMAL, j_lease_owner = Some ''w1'', j_lease_token = Some ''tok-1'',
     j_lease_expires_at = Some (740001 * us_day), j_last_error = None, j_completion_reference = None,
     j_dead_letter_reason = None, j_schema_version = 1\<rparr>"

definition sample_intent :: durable_intent where
  "sample_intent = projr (record_intent sample_command (utc (740000 * us_day)))"

definition sample_created :: provider_create_outcome where
  "sample_created = \<lparr>po_status = CERTAIN_SUCCESS, po_reason_code = ''provider_confirmed_create'',
     po_payment_link_id = Some ''plink_1''\<rparr>"

text \<open>The world counts the calls, and the decision is recorded.\<close>

definition sample_ports :: "nat executor_ports" where
  "sample_ports = \<lparr>pt_clock = (\<lambda>w. (Inr (utc (if w = 0 then sample_start else sample_time)), Suc w)),
     pt_load_durable_intent = (\<lambda>key account w. (Inr (Some sample_intent), Suc w)),
     pt_load_fresh_gate_context = (\<lambda>p account t w. (Inr (sample_context ACTION_QUEUED), Suc w)),
     pt_create = (\<lambda>r account w. (Inr sample_created, Suc w)),
     pt_lookup = (\<lambda>r account w. (Inr \<lparr>lk_completed = False, lk_candidates = []\<rparr>, Suc w)),
     pt_record_authorization = Some (\<lambda>d ctx only w. (Inr (), Suc w))\<rparr>"

lemma sample_texts: "clean_text ''job-1'' 128" "clean_text ''w1'' 128" "clean_text ''w1'' 512" "clean_text ''tok-1'' 128"
    "clean_text ''tok-1'' 512" "clean_text ''plink_1'' 512" "clean_text ''acc_1'' 128" "clean_text ''m_1'' 128"
    "clean_text ''rtw_case1_abc'' 40" "is_identifier ''m_1''" "is_identifier ''case_1''"
  by code_simp+

lemma sample_time_in_range: "in_range sample_time" "in_range (740000 * us_day)" "in_range (740001 * us_day)" "in_range sample_start"
  by (simp_all add: sample_time_def sample_start_def in_range_def max_instant_def us_day_def us_second_def)

lemma sample_timestamp: "timestamp sample_time = 1800403210"
  by (rule timestamp_whole) (simp add: sample_time_def unix_epoch_def us_day_def us_second_def)

lemma command_digests:
  obtains rd where "command_request_digest c = Inr rd" "is_digest rd"
  using is_digest_sha256_hex
  by (auto simp: command_request_digest_def payment_link_request_digest_def link_json_bytes_def link_payload_def)

lemma command_payload_is_digest: "\<exists>d. command_payload_digest c = Inr d \<and> is_digest d"
  by (rule command_digests [of c]) (simp add: command_payload_digest_def)

lemma digest_clean: "is_digest d \<Longrightarrow> require_digest d f = Inr ()"
  by (auto simp: is_digest_def require_digest_def list_all_iff list_ex_iff)

lemma clean_action_key: "clean_text (action_key p) 128"
proof (rule clean_printable)
  have "list_all printable ''act_''" by code_simp
  then show "list_all printable (action_key p)"
    using digest_printable [OF is_digest_canonical] by (simp add: action_key_def)
qed (simp_all add: length_action_key, simp add: action_key_def)

lemma sample_intent_ok: "record_intent sample_command (utc (740000 * us_day)) = Inr sample_intent
    \<and> intent_matches sample_intent sample_command"
proof -
  obtain rd where rd: "command_request_digest sample_command = Inr rd" "is_digest rd" by (rule command_digests)
  obtain pd where pd: "command_payload_digest sample_command = Inr pd" "is_digest pd"
    using command_payload_is_digest by blast
  have "is_digest (decision_digest (sample_decision POLICY []))" by (simp add: decision_digest_def)
  with rd pd have r: "record_intent sample_command (utc (740000 * us_day)) = Inr
       \<lparr>di_action_key = action_key sample_proposal, di_merchant_id = ''m_1'',
        di_provider_account_id = ''acc_1'', di_proposal_digest = proposal_digest sample_proposal,
        di_prior_plan_digest = decision_digest (sample_decision POLICY []), di_request_digest = rd,
        di_payload_digest = pd, di_reference_id = ''rtw_case1_abc'',
        di_recorded_at = 740000 * us_day, di_schema_version = 1\<rparr>"
    using sample_texts clean_action_key sample_time_in_range(2)
    by (simp add: record_intent_def mk_durable_intent_def digest_clean require_text_def sample_command_def
        sample_proposal_def sample_request_def)
  then show ?thesis
    using rd pd by (simp add: sample_intent_def intent_matches_def)
      (simp add: sample_command_def sample_proposal_def sample_request_def)
qed

lemma sample_binding: "binding_failure sample_leased_job sample_command (Some sample_intent) = Inr None"
  using sample_intent_ok command_payload_is_digest [of sample_command]
  by (auto simp: binding_failure_None sample_leased_job_def)
    (auto simp: sample_command_def sample_proposal_def sample_money_def sample_request_def)

lemma sample_leased_job_ok: "job_ok sample_leased_job"
proof -
  have "is_digest (j_payload_digest sample_leased_job)"
    using command_payload_is_digest [of sample_command] by (auto simp: sample_leased_job_def)
  then show ?thesis
    using sample_texts clean_action_key sample_time_in_range
    by (simp add: job_ok_def state_ok_def texts_ok_def missing_lease_def sample_leased_job_def us_day_def)
qed

lemma sample_fresh_context: "effect_context_of (sample_context ACTION_QUEUED) sample_time True = Inr (sample_context ACTION_QUEUED)"
  using sample_texts sample_time_in_range
  by (simp add: effect_context_of_def mk_gate_context_def require_utc_def utc_def astimezone_utc_def require_nonneg_def sample_context_def
      sample_time_def add_time_def)

lemma sample_validate: "validate_expiry (sample_request\<lparr>lr_expire_by_epoch := 1800410000\<rparr>) 1800403210 = Inr ()"
  by (rule validate_expiry_ok) simp_all

lemma sample_run:
  shows sample_answers: "authorization_answers sample_ports sample_leased_job sample_command sample_start sample_intent
      (sample_context ACTION_QUEUED) sample_time (sample_decision EFFECT []) 0 5"
    and sample_holds: "holds_lease sample_leased_job ''w1'' (held_token sample_leased_job) sample_start"
      "holds_lease sample_leased_job ''w1'' (held_token sample_leased_job) sample_time"
    and sample_forward: "j_updated_at sample_leased_job \<le> sample_time"
    and sample_token: "clean_text (held_token sample_leased_job) 128"
    and sample_effect: "evaluate_effect sample_policy (cc_proposal sample_command) (sample_context ACTION_QUEUED)
      (Some (cc_prior_plan sample_command)) = Inr (sample_decision EFFECT [])"
    and sample_confirms: "provider_confirms sample_ports sample_leased_job sample_command sample_time ''plink_1'' X_CREATED 5 6"
  using sample_texts sample_effect_allowed
  by (simp_all add: authorization_answers_def provider_confirms_def sample_ports_def holds_lease_def held_token_def
      sample_leased_job_def sample_time_def sample_start_def us_day_def us_second_def sample_command_def sample_created_def
      sample_timestamp [unfolded sample_time_def us_day_def us_second_def, simplified] validate_expiry_ok Let_def)

lemmas sample_run_facts = sample_answers sample_leased_job_ok sample_holds sample_time_in_range(4,1) sample_forward
  sample_texts(2) sample_token sample_binding sample_fresh_context sample_effect allowed_sample [THEN iffD2, OF refl]
  sample_confirms sample_texts(6)

abbreviation sample_retry_policy :: backoff_policy where
  "sample_retry_policy \<equiv> \<lparr>base_delay = 1, maximum_delay = 4\<rparr>"

lemma sample_execution:
  obtains x w' tr where "execute sample_policy sample_retry_policy sample_ports sample_leased_job sample_command
      ''w1'' (0, []) = (Inr x, (w', tr))" "xr_disposition x = X_CREATED" "list_ex is_create tr"
proof -
  obtain x where x: "yields (execute sample_policy sample_retry_policy sample_ports sample_leased_job sample_command ''w1'') 0 x 6"
    "xr_disposition x = X_CREATED"
    using execution_confirmed [OF sample_run_facts] by blast
  obtain tr where run: "execute sample_policy sample_retry_policy sample_ports sample_leased_job sample_command ''w1'' (0, []) = (Inr x, (6, tr))"
    using yieldsD [OF x(1)] by blast
  have "list_ex is_create tr"
    using run
  proof (cases rule: execute_run)
    case (quiet tr')
    then show ?thesis using x(2) by (auto simp: outcome_justified_def Let_def list_ex_iff)
  next
    case (acting tr0 dl ctx auth s1)
    then have leased: "j_state (dl_job dl) = LEASED" "dl_command dl = sample_command" by (auto simp: collected_def holds_lease_def)
    have "create_delivery sample_retry_policy sample_ports dl s1 = (Inr x, 6, tr)" using acting(5) by (simp add: sample_leased_job_def)
    then show ?thesis using leased(1) by (cases rule: create_run) (use x(2) in auto)
  qed
  with run x(2) show thesis by (rule that)
qed

section \<open>Properties\<close>

text \<open>C2. At most one create, and only a licensed one: whatever the ports answer or raise, an execution that
  reaches the provider's create call makes exactly one, for the job's own request and account, outside reconciliation mode.
  Everything before it in the trace is the clock reading, the durable intent, the fresh context asked for at that reading,
  the second clock reading, and the record of the decision when a recorder is configured. The lease is active at both
  readings, the intent that was read binds this very command, the context that was read shows the payment unpaid, no active
  instrument and both kill switches off, and the effect gate allows the proposal on exactly that context at the second
  reading.\<close>

theorem create_is_licensed:
  assumes "execute pol backoff ports job c worker (w, []) = (r, (w', tr))" "list_ex is_create tr"
  shows "create_licensed pol (pt_record_authorization ports \<noteq> None) job c worker tr"
  using assms(1)
proof (cases rule: execute_run)
  case (quiet tr')
  then show ?thesis using assms(2) by simp
next
  case (acting tr0 dl ctx auth s1)
  obtain d0 start intent fc d1 where i: "tr0 = pre_effect_reads job c d0 start (Some intent) fc d1"
    "require_utc_exact d0 ''clock result'' = Inr start" "holds_lease job worker (held_token job) start"
    "require_utc_exact d1 ''clock result'' = Inr (dl_now dl)" "holds_lease job worker (held_token job) (dl_now dl)"
    "intent_matches intent c"
    "j_action_key job = action_key (cc_proposal c)" "command_payload_digest c = Inr (j_payload_digest job)"
    "p_action_type (cc_proposal c) = CREATE_STANDARD_PAYMENT_LINK"
    "p_amount (cc_proposal c) = Some \<lparr>minor_units = lr_amount_minor (cc_request c), currency = lr_currency (cc_request c)\<rparr>"
    "ctx = decision_context fc (dl_now dl) True" "s_payment_state (c_snapshot fc) = UNPAID"
    "s_active_instrument_count (c_snapshot fc) \<le> 0" "\<not> c_global_kill_switch fc" "\<not> c_merchant_kill_switch fc"
    by (rule collected_licensed [OF acting(1,2)])
  have col: "dl_command dl = c" "evaluate_effect pol (cc_proposal c) ctx (Some (cc_prior_plan c)) = Inr (dl_effect dl)"
    using acting(1) by (auto simp: collected_def)
  have before: "snd s1 = tr0 @ auth" "\<not> list_ex is_create (tr0 @ auth)"
    using acting(3,4) i(1) by (auto simp: pre_effect_reads_def)
  have leased: "j_state (dl_job dl) = LEASED" by (rule collected_leased [OF acting(1)])
  show ?thesis
  proof (cases "j_retry_mode job = RECONCILE_ONLY")
    case True
    with acting(5) have "reconcile_delivery backoff ports dl s1 = (r, w', tr)" by simp
    then show ?thesis using leased by (cases rule: reconcile_run) (use before assms(2) in auto)
  next
    case False
    with acting(5) have "create_delivery backoff ports dl s1 = (r, w', tr)" by simp
    then show ?thesis using leased
    proof (cases rule: create_run)
      case refused
      then show ?thesis using before assms(2) by simp
    next
      case (attempted created rest)
      have "tr = pre_effect_reads job c d0 start (Some intent) fc d1
          @ (if pt_record_authorization ports \<noteq> None then [AuthorizationRecorded (dl_effect dl) ctx False (Inr ())] else [])
          @ CreateAttempted (cc_request c) (cc_provider_account_id c) created # rest"
        using attempted(2) before(1) col(1) i(1) acting(4) False by simp
      then show ?thesis
        unfolding create_licensed_def using i(2-) attempted(1,3) col acting(2) False
        by (intro exI [of _ d0] exI [of _ start] exI [of _ intent] exI [of _ fc] exI [of _ d1] exI [of _ "dl_now dl"]
            exI [of _ ctx] exI [of _ "dl_effect dl"] exI [of _ created] exI [of _ rest]) simp
    qed
  qed
qed

theorem create_is_licensed_witness:
  "\<exists>tr. create_licensed sample_policy True sample_leased_job sample_command ''w1'' tr"
proof (rule sample_execution)
  fix x w' tr
  assume "execute sample_policy sample_retry_policy sample_ports sample_leased_job sample_command
      ''w1'' (0, []) = (Inr x, (w', tr))" "list_ex is_create tr"
  then have "create_licensed sample_policy (pt_record_authorization sample_ports \<noteq> None) sample_leased_job sample_command ''w1'' tr"
    by (rule create_is_licensed)
  then show ?thesis by (auto simp: sample_ports_def)
qed

text \<open>C3. Every execution that returns has settled its job under the lease it holds, at a moment read from the
  clock, and its disposition is justified by what the provider answered: created by a certain success, adopted
  by a lookup that found the command's own link, suppressed without any call to the provider, requeued for the
  same effect only after a certain failure or a completed lookup that found nothing, requeued for
  reconciliation only after a lookup that did not complete, and dead-lettered otherwise.\<close>

theorem execution_settles_job:
  assumes "execute pol backoff ports job c worker (w, []) = (Inr x, (w', tr))"
  shows "(\<exists>now. settled job worker (held_token job) (utc now) (j_version job) (xr_job x)) \<and> outcome_justified c tr x"
  using assms
proof (cases rule: execute_run)
  case (quiet tr')
  then obtain dl ctx failure where "collected pol job c worker tr dl ctx failure" "settles dl x" "outcome_justified c tr x"
    by auto
  then show ?thesis by (auto simp: collected_def settles_def)
next
  case (acting tr0 dl ctx auth s1)
  have col: "dl_command dl = c" "dl_job dl = job" "dl_worker_id dl = worker" using acting(1) by (auto simp: collected_def)
  have leased: "j_state (dl_job dl) = LEASED" by (rule collected_leased [OF acting(1)])
  have "settles dl x \<and> outcome_justified c tr x"
  proof (cases "j_retry_mode job = RECONCILE_ONLY")
    case True
    with acting(5) have "reconcile_delivery backoff ports dl s1 = (Inr x, w', tr)" by simp
    then show ?thesis using leased by (cases rule: reconcile_run) (use col in auto)
  next
    case False
    with acting(5) have "create_delivery backoff ports dl s1 = (Inr x, w', tr)" by simp
    then show ?thesis using leased by (cases rule: create_run) (use col in auto)
  qed
  then show ?thesis using col by (auto simp: settles_def)
qed

theorem execution_settles_job_witness:
  "\<exists>x tr. outcome_justified sample_command tr x \<and> xr_disposition x = X_CREATED"
proof (rule sample_execution)
  fix x w' tr
  assume run: "execute sample_policy sample_retry_policy sample_ports sample_leased_job sample_command
      ''w1'' (0, []) = (Inr x, (w', tr))" and "xr_disposition x = X_CREATED"
  then show ?thesis using execution_settles_job [OF run] by blast
qed

text \<open>C4. An execution that is due succeeds, in either mode, with or without a recorder, and whatever its calls do to the
  world. Take a well-formed job that the worker holds under its lease at both clock readings (representable instants, the
  second not before the job's last update; worker and token clean texts), ports that answer up to the provider (the
  recorder, when there is one, records the decision), a loaded intent that binds the command, a context that is well
  formed and on which the gate allows the effect. If the provider confirms the link, under an identifier of clean text that
  a job can store, the execution returns, and the job is completed with the link as its reference. The link is reported as created after a certain success of the create
  call of an unexpired request. It is reported as adopted when the lookup finds it: after an ambiguous create, or at once
  for a job in reconciliation mode.\<close>

theorem execution_creates:
  assumes "authorization_answers ports job c start intent fc now effect w w5"
    and "job_ok job" "holds_lease job worker (held_token job) start" "holds_lease job worker (held_token job) now"
    and "in_range start" "in_range now" "j_updated_at job \<le> now"
    and "clean_text worker 128" "clean_text (held_token job) 128"
    and "binding_failure job c (Some intent) = Inr None" "effect_context_of fc now True = Inr ctx"
    and "evaluate_effect pol (cc_proposal c) ctx (Some (cc_prior_plan c)) = Inr effect" "allowed effect"
    and "provider_confirms ports job c now link d w5 w6" "clean_text link 512"
  shows "\<exists>x tr. execute pol backoff ports job c worker (w, []) = (Inr x, (w6, tr))
    \<and> xr_disposition x = d \<and> xr_payment_link_id x = Some link
    \<and> j_state (xr_job x) = COMPLETED \<and> j_completion_reference (xr_job x) = Some link"
  using execution_confirmed [OF assms, where backoff = backoff] unfolding yields_def by blast

theorem execution_creates_witness:
  "\<exists>x tr. execute sample_policy sample_retry_policy sample_ports sample_leased_job sample_command
      ''w1'' (0, []) = (Inr x, (6, tr)) \<and> xr_disposition x = X_CREATED \<and> xr_payment_link_id x = Some ''plink_1''"
  using execution_creates [OF sample_run_facts, where backoff = sample_retry_policy] by blast

end
