(* ===== verification/Cancellation_Properties.thy ===== *)
theory Cancellation_Properties
  imports Cancellation_Spec Execution_Properties
begin

text \<open>
  The properties of a whole cancellation, and that a cancellation whose ports answer is confirmed by the
  provider read after it, whatever the cancel call itself answered.
\<close>

section \<open>Runs that end well\<close>

text \<open>From the world \<open>w\<close> the program returns, with a value and a world that satisfy \<open>Q\<close>.\<close>

definition ends_in :: "('w, 'ev, 'a) io \<Rightarrow> 'w \<Rightarrow> ('a \<Rightarrow> 'w \<Rightarrow> bool) \<Rightarrow> bool" where
  "ends_in m w Q = (\<forall>log. \<exists>x w' log'. m (w, log) = (Inr x, (w', log')) \<and> Q x w')"

text \<open>In every world of \<open>P\<close> the port answers with a value of \<open>R\<close> and stays in \<open>P\<close>.\<close>

definition answers_in :: "('w \<Rightarrow> bool) \<Rightarrow> ('w, 'a) port \<Rightarrow> ('a \<Rightarrow> bool) \<Rightarrow> bool" where
  "answers_in P p R = (\<forall>w. P w \<longrightarrow> (\<exists>x w'. p w = (Inr x, w') \<and> P w' \<and> R x))"

lemma ends_return: "Q x w \<Longrightarrow> ends_in (returnIO x) w Q"
  by (simp add: ends_in_def returnIO_def)

lemma ends_bind:
  assumes "ends_in m w R" "\<And>x w'. R x w' \<Longrightarrow> ends_in (f x) w' Q"
  shows "ends_in (bindIO m f) w Q"
  unfolding ends_in_def
proof
  fix log
  obtain x w' log' where m: "m (w, log) = (Inr x, (w', log'))" "R x w'" using assms(1) unfolding ends_in_def by blast
  show "\<exists>x w' log'. bindIO m f (w, log) = (Inr x, (w', log')) \<and> Q x w'"
    using assms(2) [OF m(2)] unfolding bindIO_returned [of m, OF m(1)] ends_in_def by blast
qed

lemma ends_lift: "m = Inr x \<Longrightarrow> ends_in (f x) w Q \<Longrightarrow> ends_in (bindIO (liftIO m) f) w Q"
  by (simp add: ends_in_def)

lemma ends_call: "answers_in P p R \<Longrightarrow> P w \<Longrightarrow> ends_in (call ev p) w (\<lambda>x w'. P w' \<and> R x)"
  by (fastforce simp: ends_in_def answers_in_def call_def)

lemma ends_try_call: "answers_in P p R \<Longrightarrow> P w \<Longrightarrow> ends_in (try_call ev p) w (\<lambda>r w'. P w' \<and> (\<exists>x. r = Inr x \<and> R x))"
  by (fastforce simp: ends_in_def answers_in_def try_call_def)

section \<open>A confirmed cancellation\<close>

lemma undecided:
  "ib_instrument_status b \<in> set CANCELLABLE_BINDING_STATUSES \<Longrightarrow> lt_status truth = LS_CREATED \<Longrightarrow>
   resolve_without_cancel ports backoff cn b truth phase = None"
  by (auto simp: resolve_without_cancel_def Let_def CANCELLABLE_BINDING_STATUSES_def PAID_BINDING_STATUSES_def
      TERMINAL_BINDING_STATUSES_def)

definition usable_binding :: "outbox_job \<Rightarrow> cancel_command \<Rightarrow> instant set \<Rightarrow> instrument_binding option \<Rightarrow> bool" where
  "usable_binding job c T r =
     (\<exists>b. r = Some b \<and> ib_instrument_status b \<in> set CANCELLABLE_BINDING_STATUSES
          \<and> (\<forall>t\<in>T. cancel_binding_failure job c (Some b) t = None))"

definition gate_allows :: "gate_policy \<Rightarrow> cancel_command \<Rightarrow> instant set \<Rightarrow> gate_context \<Rightarrow> bool" where
  "gate_allows pol c T cx = (\<forall>t\<in>T. \<exists>effect. gate_effect_at pol c cx t True = Inr effect \<and> allowed effect)"

definition shows_link :: "cancel_command \<Rightarrow> (link_truth \<Rightarrow> bool) \<Rightarrow> raw_link \<Rightarrow> bool" where
  "shows_link c P raw = (\<exists>t. raw = LinkTruth t \<and> truth_matches t (cl_target c) \<and> P t)"

text \<open>How the ports answer around the cancel call, in worlds before it and after it; each call may change the world
  within its side. The clock reads moments of \<open>T\<close>, the binding is usable and the context passes the gate at all of them,
  the provider shows the open and unpaid link before the call and the cancelled link after it, and the recorder, when there
  is one, records the decision. What the cancel call itself answers or raises is open.\<close>

definition cancel_ports_answer ::
  "gate_policy \<Rightarrow> 'w cancel_ports \<Rightarrow> outbox_job \<Rightarrow> cancel_command \<Rightarrow> instant set \<Rightarrow> ('w \<Rightarrow> bool) \<Rightarrow> ('w \<Rightarrow> bool) \<Rightarrow> bool" where
  "cancel_ports_answer pol ports job c T before after =
     (let link = ct_payment_link_id (cl_target c); account = ct_provider_account_id (cl_target c) in
      (\<forall>P. P = before \<or> P = after \<longrightarrow>
         answers_in P (cp_clock ports) (\<lambda>d. \<exists>t\<in>T. d = utc t)
         \<and> answers_in P (cp_load_binding ports (binding_query_of c)) (usable_binding job c T))
      \<and> (\<forall>t\<in>T. answers_in before (cp_load_context ports (cl_proposal c) account t) (gate_allows pol c T))
      \<and> answers_in before (cp_fetch ports link account)
          (shows_link c (\<lambda>t. lt_status t = LS_CREATED \<and> lt_amount_paid_minor t = 0))
      \<and> answers_in after (cp_fetch ports link account) (shows_link c (\<lambda>t. lt_status t = LS_CANCELLED))
      \<and> (\<forall>w. before w \<longrightarrow> after (snd (cp_cancel ports link account w)))
      \<and> (case cp_record_authorization ports of None \<Rightarrow> True
         | Some recorder \<Rightarrow> \<forall>effect cx. answers_in before (recorder effect cx) (\<lambda>_. True)))"

text \<open>The worker holds the lease of a well-formed job at every moment of \<open>T\<close>.\<close>

definition lease_lasts :: "outbox_job \<Rightarrow> pystr \<Rightarrow> instant set \<Rightarrow> bool" where
  "lease_lasts job worker T =
     (job_ok job \<and> clean_text worker 128 \<and> clean_text (held_token job) 128
      \<and> (\<forall>t\<in>T. in_range t \<and> j_updated_at job \<le> t \<and> holds_lease job worker (held_token job) t))"

definition confirmed_cancelled :: "('w \<Rightarrow> bool) \<Rightarrow> cancel_report \<Rightarrow> 'w \<Rightarrow> bool" where
  "confirmed_cancelled after rep w = (cr_disposition rep = CD_CANCELLED \<and> j_state (cr_job rep) = COMPLETED \<and> after w)"

lemma clean_target_reference: "clean_text (cancellation_disposition_value CD_CANCELLED @ '':'' @ target_digest t) 512"
proof (rule clean_printable)
  have "list_all printable ''cancelled:''" by code_simp
  then show "list_all printable (cancellation_disposition_value CD_CANCELLED @ '':'' @ target_digest t)"
    using digest_printable [of "target_digest t"] by (simp add: target_digest_def)
  show "length (cancellation_disposition_value CD_CANCELLED @ '':'' @ target_digest t) \<le> 512"
    using is_digest_canonical by (simp add: target_digest_def is_digest_def)
qed simp

lemma lease_lasts_at:
  assumes "lease_lasts job worker T" "t \<in> T"
  shows "assert_active_lease job worker (held_token job) (utc t) = Inr ()" "in_range t"
    "\<exists>k. Outbox.complete job worker (held_token job) (utc t) (j_version job)
      (cancellation_disposition_value CD_CANCELLED @ '':'' @ target_digest g) = Inr k \<and> j_state k = COMPLETED"
proof -
  have l: "job_ok job" "holds_lease job worker (held_token job) t" "in_range t" "j_updated_at job \<le> t" "clean_text worker 128"
    "clean_text (held_token job) 128"
    using assms by (auto simp: lease_lasts_def)
  then show "assert_active_lease job worker (held_token job) (utc t) = Inr ()" "in_range t"
    by (simp_all add: assert_active_lease_Inr)
  show "\<exists>k. Outbox.complete job worker (held_token job) (utc t) (j_version job)
      (cancellation_disposition_value CD_CANCELLED @ '':'' @ target_digest g) = Inr k \<and> j_state k = COMPLETED"
    using Execution_Properties.complete_ok [OF l clean_target_reference] by metis
qed

lemma clock_ends:
  assumes a: "answers_in P (cp_clock ports) (\<lambda>d. \<exists>t\<in>T. d = utc t)" and l: "lease_lasts job worker T" and "P w"
  shows "ends_in (cancel_now ports) w (\<lambda>t w'. t \<in> T \<and> P w')"
  unfolding cancel_now_def
  by (rule ends_bind [OF ends_call [OF a \<open>P w\<close>]]) (auto simp: ends_in_def liftIO_def lease_lasts_at(2) [OF l])

lemma fetch_ends:
  assumes a: "answers_in P (cp_fetch ports (ct_payment_link_id (cl_target c)) (ct_provider_account_id (cl_target c))) (shows_link c R)"
    and "P w"
  shows "ends_in (fetch_truth ports c) w (\<lambda>r w'. P w' \<and> (\<exists>t. r = Inr t \<and> truth_matches t (cl_target c) \<and> R t))"
  unfolding fetch_truth_def Let_def
  by (rule ends_bind [OF ends_try_call [OF a \<open>P w\<close>]]) (auto simp: shows_link_def normalize_truth_def intro: ends_return)

text \<open>After the call, the provider read decides.\<close>

lemma complete_ends:
  assumes a: "answers_in P (cp_clock ports) (\<lambda>d. \<exists>t\<in>T. d = utc t)" and l: "lease_lasts job worker T" and "P w"
    and cn: "cn_job cn = job" "cn_worker_id cn = worker"
  shows "ends_in (cancel_complete ports cn reason CD_CANCELLED) w (confirmed_cancelled P)"
  unfolding cancel_complete_def
proof (rule ends_bind, rule clock_ends [OF a l \<open>P w\<close>], goal_cases)
  case (1 t w')
  obtain k where "Outbox.complete job worker (held_token job) (utc t) (j_version job)
      (cancellation_disposition_value CD_CANCELLED @ '':'' @ target_digest (cl_target (cn_command cn))) = Inr k" "j_state k = COMPLETED"
    using lease_lasts_at(3) [OF l] 1 by blast
  with 1 cn show ?case by (simp add: ends_in_def confirmed_cancelled_def cancel_report_of_def liftIO_def)
qed

lemma reconcile_ends:
  assumes a: "cancel_ports_answer pol ports job c T before after" and l: "lease_lasts job worker T" and "after w"
    and cn: "cn_job cn = job" "cn_command cn = c" "cn_worker_id cn = worker"
  shows "ends_in (reconcile_after_effect ports backoff cn reason) w (confirmed_cancelled after)"
proof -
  have fetch: "answers_in after (cp_fetch ports (ct_payment_link_id (cl_target c)) (ct_provider_account_id (cl_target c)))
      (shows_link c (\<lambda>t. lt_status t = LS_CANCELLED))"
    and load: "answers_in after (cp_load_binding ports (binding_query_of c)) (usable_binding job c T)"
    and clock: "answers_in after (cp_clock ports) (\<lambda>d. \<exists>t\<in>T. d = utc t)"
    using a by (simp_all add: cancel_ports_answer_def Let_def)
  have kept: "cn_job (cn\<lparr>cn_attempted := True, cn_provider_status := None\<rparr>) = job"
    "cn_command (cn\<lparr>cn_attempted := True, cn_provider_status := None\<rparr>) = c"
    using cn by simp_all
  show ?thesis
    unfolding reconcile_after_effect_def Let_def load_binding_def kept
  proof (rule ends_bind, rule fetch_ends [OF fetch \<open>after w\<close>], rule ends_bind, rule ends_call [OF load], blast,
      rule ends_bind, rule clock_ends [OF clock l], blast, goal_cases)
    case (1 fetched w1 refreshed w2 t w3)
    then obtain truth b where "fetched = Inr truth" "truth_matches truth (cl_target c)" "lt_status truth = LS_CANCELLED"
      "refreshed = Some b" "ib_instrument_status b \<notin> set PAID_BINDING_STATUSES" "cancel_binding_failure job c refreshed t = None"
      by (auto simp: usable_binding_def CANCELLABLE_BINDING_STATUSES_def PAID_BINDING_STATUSES_def)
    then show ?case using 1 cn complete_ends [OF clock l] by (simp add: settle_after_effect_def Let_def)
  qed
qed

lemma attempt_ends:
  assumes a: "cancel_ports_answer pol ports job c T before after" and l: "lease_lasts job worker T" and "before w"
    and cn: "cn_job cn = job" "cn_command cn = c" "cn_worker_id cn = worker"
  shows "ends_in (attempt_cancel ports backoff cn) w (confirmed_cancelled after)"
proof -
  let ?link = "ct_payment_link_id (cl_target c)" and ?account = "ct_provider_account_id (cl_target c)"
  have "after (snd (cp_cancel ports ?link ?account w))" using a \<open>before w\<close> by (simp add: cancel_ports_answer_def Let_def)
  then have "ends_in (try_call (CancelAttempted ?link ?account) (cp_cancel ports ?link ?account)) w (\<lambda>_ w'. after w')"
    by (auto simp: ends_in_def try_call_def split: prod.split)
  then show ?thesis
    unfolding attempt_cancel_def Let_def cn by (rule ends_bind) (rule reconcile_ends [OF a l _ cn])
qed

text \<open>Before the call, every recheck passes.\<close>

lemma authorize_ends:
  assumes a: "cancel_ports_answer pol ports job c T before after" and l: "lease_lasts job worker T" and "before w"
    and cn: "cn_job cn = job" "cn_command cn = c" "cn_worker_id cn = worker" and paid: "lt_amount_paid_minor truth = 0"
  shows "ends_in (authorize_and_cancel pol backoff ports cn truth) w (confirmed_cancelled after)"
proof -
  have load: "\<And>t. t \<in> T \<Longrightarrow> answers_in before (cp_load_context ports (cl_proposal c) (ct_provider_account_id (cl_target c)) t) (gate_allows pol c T)"
    and clock: "answers_in before (cp_clock ports) (\<lambda>d. \<exists>t\<in>T. d = utc t)"
    and recorder: "case cp_record_authorization ports of None \<Rightarrow> True
      | Some recorder \<Rightarrow> \<forall>effect cx. answers_in before (recorder effect cx) (\<lambda>_. True)"
    using a by (simp_all add: cancel_ports_answer_def Let_def)
  have recorded: "ends_in (case cp_record_authorization ports of None \<Rightarrow> returnIO ()
      | Some recorder \<Rightarrow> call (CancelAuthorized effect cx) (recorder effect cx)) w' (\<lambda>_ w''. before w'')" if "before w'" for effect cx w'
    using recorder that by (auto split: option.splits intro: ends_return ends_call [where R = "\<lambda>_. True", simplified])
  show ?thesis
    unfolding authorize_and_cancel_def Let_def cn
  proof (rule ends_bind, rule clock_ends [OF clock l \<open>before w\<close>], rule ends_lift, rule lease_lasts_at(1) [OF l], blast,
      rule ends_bind, rule ends_call [OF load], blast, blast, goal_cases)
    case (1 t w1 cx w2)
    then obtain effect where e: "before w2" "gate_effect_at pol c cx t True = Inr effect" "allowed effect"
      by (auto simp: gate_allows_def)
    show ?case
      by (rule ends_lift, rule e(2))
        (use e paid cn in \<open>auto intro!: ends_bind [OF recorded] attempt_ends [OF a l]\<close>)
  qed
qed

lemma recheck_ends:
  assumes a: "cancel_ports_answer pol ports job c T before after" and l: "lease_lasts job worker T" and "before w"
    and cn: "cn_job cn = job" "cn_command cn = c" "cn_worker_id cn = worker" and truth: "lt_amount_paid_minor truth = 0"
    and created: "lt_status truth = LS_CREATED" and mode: "j_retry_mode job \<noteq> RECONCILE_ONLY"
  shows "ends_in (recheck_binding pol backoff ports cn truth) w (confirmed_cancelled after)"
proof -
  have load: "answers_in before (cp_load_binding ports (binding_query_of c)) (usable_binding job c T)"
    and clock: "answers_in before (cp_clock ports) (\<lambda>d. \<exists>t\<in>T. d = utc t)"
    using a by (simp_all add: cancel_ports_answer_def Let_def)
  show ?thesis
    unfolding recheck_binding_def Let_def cn load_binding_def
  proof (rule ends_bind, rule ends_call [OF load \<open>before w\<close>], rule ends_bind, rule clock_ends [OF clock l], blast, goal_cases)
    case (1 refreshed w1 t w2)
    then obtain b where "refreshed = Some b" "cancel_binding_failure job c refreshed t = None"
      "ib_instrument_status b \<in> set CANCELLABLE_BINDING_STATUSES" by (auto simp: usable_binding_def)
    then show ?case using mode created 1 cn by (auto simp: undecided intro!: authorize_ends [OF a l] truth)
  qed
qed

lemma with_truth_ends:
  assumes a: "cancel_ports_answer pol ports job c T before after" and l: "lease_lasts job worker T" and "before w"
    and cn: "cn_job cn = job" "cn_command cn = c" "cn_worker_id cn = worker" and mode: "j_retry_mode job \<noteq> RECONCILE_ONLY"
    and b: "ib_instrument_status b \<in> set CANCELLABLE_BINDING_STATUSES"
  shows "ends_in (cancel_with_truth pol backoff ports cn b) w (confirmed_cancelled after)"
proof -
  have "answers_in before (cp_fetch ports (ct_payment_link_id (cl_target c)) (ct_provider_account_id (cl_target c)))
      (shows_link c (\<lambda>t. lt_status t = LS_CREATED \<and> lt_amount_paid_minor t = 0))"
    using a by (simp add: cancel_ports_answer_def Let_def)
  from fetch_ends [OF this \<open>before w\<close>] show ?thesis
    unfolding cancel_with_truth_def cn
    by (rule ends_bind) (use cn b mode in \<open>auto simp: undecided intro!: recheck_ends [OF a l]\<close>)
qed

lemma cancel_ends:
  assumes a: "cancel_ports_answer pol ports job c T before after" and l: "lease_lasts job worker T" and "before w"
    and mode: "j_retry_mode job \<noteq> RECONCILE_ONLY"
  shows "ends_in (cancel_execute pol backoff ports job c worker) w (confirmed_cancelled after)"
proof -
  let ?account = "ct_provider_account_id (cl_target c)"
  have binding: "answers_in before (cp_load_binding ports (binding_query_of c)) (usable_binding job c T)"
    and clock: "answers_in before (cp_clock ports) (\<lambda>d. \<exists>t\<in>T. d = utc t)"
    and load: "\<And>t. t \<in> T \<Longrightarrow> answers_in before (cp_load_context ports (cl_proposal c) ?account t) (gate_allows pol c T)"
    using a by (simp_all add: cancel_ports_answer_def Let_def)
  show ?thesis
    unfolding cancel_execute_def Let_def load_binding_def
  proof (rule ends_bind, rule clock_ends [OF clock l \<open>before w\<close>], rule ends_lift, rule lease_lasts_at(1) [OF l], blast,
      rule ends_bind, rule ends_call [OF binding], blast, rule ends_bind, rule ends_call [OF load], blast, blast, goal_cases)
    case (1 t w1 r w2 cx w3)
    then obtain b where b: "r = Some b" "cancel_binding_failure job c r t = None"
      "ib_instrument_status b \<in> set CANCELLABLE_BINDING_STATUSES" by (auto simp: usable_binding_def)
    from 1 obtain effect where e: "gate_effect_at pol c cx t True = Inr effect" "allowed effect"
      by (auto simp: gate_allows_def)
    show ?case
      by (rule ends_lift [where x = effect]) (use 1 b e mode in \<open>auto intro!: with_truth_ends [OF a l]\<close>)
  qed
qed

section \<open>Sample cancellation\<close>

definition sample_cancel_proposal :: action_proposal where
  "sample_cancel_proposal = sample_proposal\<lparr>p_action_type := CANCEL_PAYMENT_LINK, p_amount := None, p_payment_method := None,
     p_instrument_reference := Some ''plink_1''\<rparr>"

definition sample_cancel_context :: gate_context where
  "sample_cancel_context = (sample_context ACTIVE)\<lparr>c_snapshot := sample_snapshot\<lparr>s_active_instrument_count := 1\<rparr>\<rparr>"

definition sample_cancel_decision :: "gate_stage \<Rightarrow> gate_decision" where
  "sample_cancel_decision stage = \<lparr>d_stage = stage, d_policy_version = ''policy-v1'', d_proposal_id = ''prop_1'',
     d_action_key = action_key sample_cancel_proposal, d_proposal_digest = proposal_digest sample_cancel_proposal,
     d_case_id = ''case_1'', d_decision_version = 1, d_aggregate_version = 4, d_evaluated_at = sample_time, d_reasons = []\<rparr>"

definition sample_target :: cancellation_target where
  "sample_target = \<lparr>ct_merchant_id = ''m_1'', ct_case_id = ''case_1'', ct_action_id = ''action_1'',
     ct_action_key = action_key sample_cancel_proposal, ct_instrument_id = ''inst_1'', ct_provider_account_id = ''acc_1'',
     ct_payment_link_id = ''plink_1'', ct_reference_id = ''rtw_case1_abc'', ct_amount_minor = 49900, ct_currency = ''INR''\<rparr>"

definition sample_cancel :: cancel_command where
  "sample_cancel = \<lparr>cl_proposal = sample_cancel_proposal, cl_prior_plan = sample_cancel_decision POLICY, cl_target = sample_target\<rparr>"

definition sample_cancel_job :: outbox_job where
  "sample_cancel_job = sample_leased_job\<lparr>j_action_key := action_key sample_cancel_proposal,
     j_payload_digest := cancel_payload_digest sample_cancel\<rparr>"

definition sample_instrument :: instrument_binding where
  "sample_instrument = \<lparr>ib_target = sample_target, ib_persisted_target_digest = target_digest sample_target,
     ib_instrument_status = I_ACTIVE, ib_recorded_at = 740000 * us_day, ib_schema_version = 1\<rparr>"

definition sample_truth :: "provider_link_status \<Rightarrow> link_truth" where
  "sample_truth st = \<lparr>lt_payment_link_id = ''plink_1'', lt_reference_id = ''rtw_case1_abc'', lt_amount_minor = 49900,
     lt_amount_paid_minor = 0, lt_currency = ''INR'', lt_accept_partial = False, lt_upi_link = False, lt_status = st\<rparr>"

text \<open>The world says whether the cancel call was made and counts the other calls; the call times out, but the provider
  has cancelled the link. The decision is recorded.\<close>

definition sample_cancel_ports :: "(bool \<times> nat) cancel_ports" where
  "sample_cancel_ports = (let tick = (\<lambda>(done, n). (done, Suc n)) in
    \<lparr>cp_clock = (\<lambda>w. (Inr (utc sample_time), tick w)), cp_load_binding = (\<lambda>q w. (Inr (Some sample_instrument), tick w)),
     cp_load_context = (\<lambda>p account t w. (Inr sample_cancel_context, tick w)),
     cp_fetch = (\<lambda>l account w. (Inr (LinkTruth (if fst w then sample_truth LS_CANCELLED else sample_truth LS_CREATED)), tick w)),
     cp_cancel = (\<lambda>l account w. (Inl (ForeignException ''TimeoutError''), (True, snd w))),
     cp_record_authorization = Some (\<lambda>effect cx w. (Inr (), tick w))\<rparr>)"

lemma sample_cancel_allowed:
  "evaluate_effect sample_policy sample_cancel_proposal sample_cancel_context (Some (sample_cancel_decision POLICY))
     = Inr (sample_cancel_decision EFFECT)"
proof -
  have facts: "c_evaluated_at sample_cancel_context = sample_time" "p_action_type sample_cancel_proposal = CANCEL_PAYMENT_LINK"
    "in_range (sample_time + gp_allowed_clock_skew sample_policy)"
    by (simp_all add: sample_cancel_context_def sample_cancel_proposal_def sample_context_def sample_time_def sample_policy_def
        in_range_def max_instant_def us_day_def us_second_def)
  have "authorized sample_policy EFFECT sample_cancel_proposal sample_cancel_context (Some (sample_cancel_decision POLICY))"
    by (simp add: authorized_def in_scope_def instrument_fit_def planned_def plan_matches_def action_sets actionable_states_def
        sample_cancel_context_def sample_cancel_proposal_def sample_cancel_decision_def sample_defs allowed_def sample_time_def
        us_day_def us_second_def)
  then have "all_reasons sample_policy EFFECT sample_cancel_proposal sample_cancel_context (Some (sample_cancel_decision POLICY))
      (sample_time + gp_allowed_clock_skew sample_policy) = []"
    using all_reasons_Nil facts(1) by metis
  then show ?thesis
    unfolding evaluate_effect_def using facts
    by (simp add: evaluate_Inr sample_cancel_decision_def)
      (simp add: sample_cancel_context_def sample_cancel_proposal_def sample_defs)
qed

lemma sample_cancel_job_ok: "job_ok sample_cancel_job"
  using sample_leased_job_ok clean_action_key
  by (simp add: job_ok_def state_ok_def texts_ok_def missing_lease_def sample_cancel_job_def cancel_payload_digest_def sample_leased_job_def)

lemma sample_cancel_fresh: "effect_context_of sample_cancel_context sample_time True = Inr sample_cancel_context"
  using sample_texts sample_time_in_range
  by (simp add: effect_context_of_def mk_gate_context_def require_nonneg_def sample_cancel_context_def sample_context_def sample_time_def)

lemma sample_cancel_binding: "usable_binding sample_cancel_job sample_cancel {sample_time} (Some sample_instrument)"
  by (simp add: usable_binding_def cancel_binding_failure_def binding_matches_def sample_cancel_job_def sample_cancel_def
      sample_instrument_def sample_target_def CANCELLABLE_BINDING_STATUSES_def BINDING_STATUSES_WITH_PROVIDER_TARGET_def
      sample_time_def us_day_def us_second_def)

lemma sample_cancel_gate: "gate_allows sample_policy sample_cancel {sample_time} sample_cancel_context"
  using sample_cancel_allowed sample_cancel_fresh
  by (simp add: gate_allows_def gate_effect_at_def sample_cancel_def allowed_def sample_cancel_decision_def)

lemma sample_cancel_shown: "shows_link sample_cancel P (LinkTruth (sample_truth s)) \<longleftrightarrow> P (sample_truth s)"
  by (simp add: shows_link_def truth_matches_def sample_truth_def sample_cancel_def sample_target_def)

lemma sample_cancel_answers:
  "cancel_ports_answer sample_policy sample_cancel_ports sample_cancel_job sample_cancel {sample_time} (\<lambda>w. \<not> fst w) fst"
  using sample_cancel_binding sample_cancel_gate
  by (auto simp: cancel_ports_answer_def answers_in_def Let_def sample_cancel_ports_def sample_cancel_shown)
    (simp_all add: sample_truth_def)

lemma sample_cancel_lease: "lease_lasts sample_cancel_job ''w1'' {sample_time}" "j_retry_mode sample_cancel_job \<noteq> RECONCILE_ONLY"
  using sample_texts sample_cancel_job_ok sample_time_in_range
  by (simp_all add: lease_lasts_def holds_lease_def held_token_def sample_cancel_job_def sample_leased_job_def sample_time_def
      us_day_def us_second_def)

lemma sample_cancellation:
  obtains rep w' tr where "cancel_execute sample_policy sample_retry_policy sample_cancel_ports sample_cancel_job
      sample_cancel ''w1'' ((False, 0), []) = (Inr rep, (w', tr))" "cr_disposition rep = CD_CANCELLED" "list_ex is_cancel tr"
proof -
  have "ends_in (cancel_execute sample_policy sample_retry_policy sample_cancel_ports sample_cancel_job sample_cancel ''w1'') (False, 0)
      (confirmed_cancelled fst)"
    using cancel_ends [OF sample_cancel_answers sample_cancel_lease(1) _ sample_cancel_lease(2), of "(False, 0)"] by simp
  then obtain rep w' tr where run: "cancel_execute sample_policy sample_retry_policy sample_cancel_ports
      sample_cancel_job sample_cancel ''w1'' ((False, 0), []) = (Inr rep, (w', tr))" and d: "cr_disposition rep = CD_CANCELLED"
    unfolding ends_in_def confirmed_cancelled_def by blast
  have "list_ex is_cancel tr"
    using cancel_execute_run [OF run] d by (auto simp: run_ok_def done_ok_def cancel_justified_def Let_def)
  with run d show thesis by (rule that)
qed

section \<open>Properties\<close>

text \<open>C5. At most one cancel call, and only a licensed one: whatever the ports answer or raise, an execution that
  reaches the provider's cancel call makes exactly one, for the command's own link and account, outside
  reconciliation mode, after the latest provider read showed this very link open and unpaid and a durable
  binding of the same target was read back, with the lease active and the effect gate allowing the
  cancellation at one moment before it, and with that decision recorded first when a recorder is configured;
  and the next thing it does is to read the provider again.\<close>

theorem cancel_is_licensed:
  assumes "cancel_execute pol backoff ports job c worker (w, []) = (r, (w', tr))" "list_ex is_cancel tr"
  shows "cancel_licensed pol (cp_record_authorization ports \<noteq> None) job c worker tr"
  using cancel_execute_run [OF assms(1)] assms(2) by (simp add: run_ok_def)

theorem cancel_is_licensed_witness:
  "\<exists>tr. cancel_licensed sample_policy True sample_cancel_job sample_cancel ''w1'' tr"
proof (rule sample_cancellation)
  fix rep w' tr
  assume "cancel_execute sample_policy sample_retry_policy sample_cancel_ports sample_cancel_job
      sample_cancel ''w1'' ((False, 0), []) = (Inr rep, (w', tr))" "list_ex is_cancel tr"
  then have "cancel_licensed sample_policy (cp_record_authorization sample_cancel_ports \<noteq> None) sample_cancel_job sample_cancel ''w1'' tr"
    by (rule cancel_is_licensed)
  then show ?thesis by (auto simp: sample_cancel_ports_def Let_def)
qed

text \<open>C6. A cancellation reports what the provider showed last: every execution that returns has settled its job
  under the lease it holds; it reports a link as cancelled only when the latest read after its call showed this
  link cancelled, as cancelled before or expired only when the latest read showed that, asks for review on
  paid evidence, grants another attempt of the same effect only on a latest read that shows the link open,
  returns to normal mode only when nothing was attempted and nothing could be read, and dead-letters otherwise.\<close>

theorem cancellation_justified:
  assumes "cancel_execute pol backoff ports job c worker (w, []) = (Inr rep, (w', tr))"
  shows "(\<exists>now. settled job worker (held_token job) (utc now) (j_version job) (cr_job rep)) \<and> cancel_justified c tr rep"
  using cancel_execute_run [OF assms] by (simp add: run_ok_def done_ok_def)

theorem cancellation_justified_witness:
  "\<exists>rep tr. cancel_justified sample_cancel tr rep \<and> cr_disposition rep = CD_CANCELLED"
proof (rule sample_cancellation)
  fix rep w' tr
  assume run: "cancel_execute sample_policy sample_retry_policy sample_cancel_ports sample_cancel_job
      sample_cancel ''w1'' ((False, 0), []) = (Inr rep, (w', tr))" and "cr_disposition rep = CD_CANCELLED"
  then show ?thesis using cancellation_justified [OF run] by blast
qed



end
