(* ===== verification/Delivery_Table.thy ===== *)
theory Delivery_Table
  imports Ports Outbox
begin

text \<open>
  \<^verbatim>\<open>services/control_plane/postgres_outbox.py\<close>: the durable delivery queue. The three statements of the
  module (claim a batch, settle with retry, completion or dead letter) are functions on the table of rows, with
  the statement clock and the rows locked by concurrent transactions as arguments; a statement is atomic.
  Rows are typed, so the shape checks on driver results do not appear.
\<close>

section \<open>Rows\<close>

datatype row_status = R_PENDING | R_RETRY_SCHEDULED | R_IN_PROGRESS | R_SUCCEEDED | R_DEAD_LETTER

record outbox_row =
  w_status :: row_status
  w_id :: pystr
  w_merchant_id :: pystr
  w_aggregate_type :: pystr
  w_aggregate_id :: pystr
  w_command_type :: pystr
  w_command_schema_version :: int
  w_command_payload :: json
  w_idempotency_key :: pystr
  w_attempt_count :: int
  w_max_attempts :: int
  w_lease_owner :: "pystr option"
  w_lease_token :: "pystr option"
  w_lease_expires_at :: "instant option"
  w_delivery_version :: int
  w_retry_mode :: retry_mode
  w_next_attempt_at :: instant
  w_last_error_code :: "pystr option"
  w_last_error_at :: "instant option"
  w_completion_reference :: "pystr option"
  w_completed_at :: "instant option"
  w_dead_letter_reason :: "pystr option"
  w_dead_lettered_at :: "instant option"
  w_created_at :: instant
  w_updated_at :: instant

section \<open>Claiming a batch\<close>

definition claimable :: "instant \<Rightarrow> outbox_row \<Rightarrow> bool" where
  "claimable now r =
     ((w_status r = R_PENDING \<or> w_status r = R_RETRY_SCHEDULED) \<and> w_next_attempt_at r \<le> now
      \<or> w_status r = R_IN_PROGRESS \<and> (case w_lease_expires_at r of None \<Rightarrow> False | Some e \<Rightarrow> e \<le> now))"

definition claim_time :: "outbox_row \<Rightarrow> instant" where
  "claim_time r =
     (if w_status r = R_IN_PROGRESS then (case w_lease_expires_at r of None \<Rightarrow> w_next_attempt_at r | Some e \<Rightarrow> e)
      else w_next_attempt_at r)"

text \<open>\<^verbatim>\<open>ORDER BY claim time, id LIMIT n FOR UPDATE SKIP LOCKED\<close>.\<close>

definition claim_candidates :: "instant \<Rightarrow> pystr set \<Rightarrow> nat \<Rightarrow> outbox_row list \<Rightarrow> outbox_row list" where
  "claim_candidates now locked n rows =
     take n (sort_key claim_time (sort_key w_id (filter (\<lambda>r. claimable now r \<and> w_id r \<notin> locked) rows)))"

definition row_lease_token :: "pystr \<Rightarrow> outbox_row \<Rightarrow> pystr" where
  "row_lease_token nonce r = nonce @ '':'' @ w_id r @ '':'' @ int_str (w_delivery_version r + 1)"

definition claim_row :: "instant \<Rightarrow> timedelta \<Rightarrow> pystr \<Rightarrow> pystr \<Rightarrow> outbox_row \<Rightarrow> outbox_row" where
  "claim_row now duration nonce worker r =
     (if w_max_attempts r \<le> w_attempt_count r
      then r\<lparr>w_status := R_DEAD_LETTER, w_delivery_version := w_delivery_version r + 1, w_lease_owner := None,
             w_lease_token := None, w_lease_expires_at := None, w_retry_mode := RECONCILE_ONLY,
             w_last_error_code := Some ''max_attempts_exhausted_before_claim'', w_last_error_at := Some now,
             w_dead_lettered_at := Some now, w_dead_letter_reason := Some ''max_attempts_exhausted_before_claim'',
             w_updated_at := now\<rparr>
      else r\<lparr>w_status := R_IN_PROGRESS, w_attempt_count := w_attempt_count r + 1,
             w_delivery_version := w_delivery_version r + 1, w_lease_owner := Some worker,
             w_lease_token := Some (row_lease_token nonce r), w_lease_expires_at := Some (now + duration),
             w_retry_mode := (if w_status r = R_IN_PROGRESS then RECONCILE_ONLY else w_retry_mode r),
             w_dead_lettered_at := None, w_dead_letter_reason := None, w_updated_at := now\<rparr>)"

definition claim_statement ::
  "instant \<Rightarrow> pystr set \<Rightarrow> nat \<Rightarrow> timedelta \<Rightarrow> pystr \<Rightarrow> pystr \<Rightarrow> outbox_row list \<Rightarrow> outbox_row list \<times> outbox_row list" where
  "claim_statement now locked n duration nonce worker rows =
     (let chosen = map w_id (claim_candidates now locked n rows);
          mutated = map (\<lambda>r. if w_id r \<in> set chosen then claim_row now duration nonce worker r else r) rows
      in (sort_key w_id (filter (\<lambda>r. w_id r \<in> set chosen) mutated), mutated))"

section \<open>Claimed commands\<close>

record claimed_command =
  oc_job_id :: pystr
  oc_merchant_id :: pystr
  oc_aggregate_type :: pystr
  oc_aggregate_id :: pystr
  oc_command_type :: pystr
  oc_command_schema_version :: int
  oc_command_payload :: json
  oc_idempotency_key :: pystr
  oc_attempt_count :: int
  oc_max_attempts :: int
  oc_worker_id :: pystr
  oc_lease_token :: pystr
  oc_lease_expires_at :: instant
  oc_delivery_version :: int
  oc_retry_mode :: retry_mode
  oc_created_at :: instant
  oc_claimed_at :: instant

definition is_ulid_char :: "char \<Rightarrow> bool" where
  "is_ulid_char c = (is_digit c \<or> is_upper c \<and> c \<notin> set ''ILOU'')"

definition internal_ulid :: "pystr \<Rightarrow> pystr \<Rightarrow> exn + unit" where
  "internal_ulid value fld =
     raise_if (length value \<noteq> 26 \<or> \<not> list_all is_ulid_char value)
       (ValueError (fld @ '' must match the RetryWise ULID database domain''))"

definition bounded_text :: "pystr \<Rightarrow> pystr \<Rightarrow> nat \<Rightarrow> exn + pystr" where
  "bounded_text value fld maximum =
     (if clean_text value maximum then Inr value
      else Inl (ValueError (fld @ '' must be clean, non-empty text of at most '' @ nat_str maximum @ '' characters'')))"

definition positive_int :: "int \<Rightarrow> pystr \<Rightarrow> exn + unit" where
  "positive_int value fld = raise_if (value < 1) (ValueError (fld @ '' must be a positive integer''))"

definition object_payload :: "json \<Rightarrow> exn + unit" where
  "object_payload v = (case v of JObj _ \<Rightarrow> Inr () | _ \<Rightarrow> Inl (RuntimeError ''outbox command_payload must be a JSON object''))"

definition mk_claimed_command :: "claimed_command \<Rightarrow> exn + claimed_command" where
  "mk_claimed_command c =
     bindE (internal_ulid (oc_job_id c) ''job_id'') (\<lambda>_.
     bindE (internal_ulid (oc_merchant_id c) ''merchant_id'') (\<lambda>_.
     bindE (bounded_text (oc_aggregate_type c) ''aggregate_type'' 100) (\<lambda>_.
     bindE (bounded_text (oc_aggregate_id c) ''aggregate_id'' 200) (\<lambda>_.
     bindE (bounded_text (oc_command_type c) ''command_type'' 100) (\<lambda>_.
     bindE (bounded_text (oc_idempotency_key c) ''idempotency_key'' 300) (\<lambda>_.
     bindE (bounded_text (oc_worker_id c) ''worker_id'' 128) (\<lambda>_.
     bindE (bounded_text (oc_lease_token c) ''lease_token'' 200) (\<lambda>_.
     bindE (positive_int (oc_command_schema_version c) ''command_schema_version'') (\<lambda>_.
     bindE (positive_int (oc_attempt_count c) ''attempt_count'') (\<lambda>_.
     bindE (positive_int (oc_max_attempts c) ''max_attempts'') (\<lambda>_.
     bindE (positive_int (oc_delivery_version c) ''delivery_version'') (\<lambda>_.
     bindE (raise_if (oc_max_attempts c < oc_attempt_count c) (ValueError ''attempt_count cannot exceed max_attempts'')) (\<lambda>_.
     bindE (object_payload (oc_command_payload c)) (\<lambda>_.
     bindE (raise_if (oc_claimed_at c < oc_created_at c) (ValueError ''claimed_at cannot precede created_at'')) (\<lambda>_.
     bindE (raise_if (oc_lease_expires_at c \<le> oc_claimed_at c) (ValueError ''lease_expires_at must be after claimed_at'')) (\<lambda>_.
     Inr c))))))))))))))))"

text \<open>A row in progress has its lease fields; a missing one is what the driver reports as a non-text value.\<close>

definition claimed_from_row :: "outbox_row \<Rightarrow> exn + claimed_command" where
  "claimed_from_row r = (case (w_lease_owner r, w_lease_token r, w_lease_expires_at r) of
      (Some owner, Some tok, Some expires) \<Rightarrow>
        bindE (object_payload (w_command_payload r)) (\<lambda>_.
        mk_claimed_command
          \<lparr>oc_job_id = w_id r, oc_merchant_id = w_merchant_id r, oc_aggregate_type = w_aggregate_type r,
           oc_aggregate_id = w_aggregate_id r, oc_command_type = w_command_type r,
           oc_command_schema_version = w_command_schema_version r, oc_command_payload = w_command_payload r,
           oc_idempotency_key = w_idempotency_key r, oc_attempt_count = w_attempt_count r,
           oc_max_attempts = w_max_attempts r, oc_worker_id = owner, oc_lease_token = tok,
           oc_lease_expires_at = expires, oc_delivery_version = w_delivery_version r,
           oc_retry_mode = w_retry_mode r, oc_created_at = w_created_at r, oc_claimed_at = w_updated_at r\<rparr>)
    | (Some _, Some _, None) \<Rightarrow> Inl (RuntimeError ''outbox claim returned a non-datetime lease or audit field'')
    | _ \<Rightarrow> Inl (RuntimeError ''outbox claim returned a non-text command or lease field''))"

record claim_batch =
  cb_selected_count :: int
  cb_commands :: "claimed_command list"
  cb_expired_dead_lettered :: int

definition mk_claim_batch :: "claim_batch \<Rightarrow> exn + claim_batch" where
  "mk_claim_batch b =
     bindE (raise_if (cb_selected_count b < 0) (ValueError ''selected_count must be a non-negative integer'')) (\<lambda>_.
     bindE (raise_if (cb_expired_dead_lettered b < 0) (ValueError ''expired_dead_lettered must be a non-negative integer'')) (\<lambda>_.
     bindE (raise_if (cb_selected_count b \<noteq> int (length (cb_commands b)) + cb_expired_dead_lettered b)
       (ValueError ''selected_count must account for every claimed or expired row'')) (\<lambda>_.
     Inr b)))"

section \<open>The repository\<close>

text \<open>The database: its rows and its clock, which every statement reads.\<close>

record database =
  db_rows :: "outbox_row list"
  db_clock :: "nat \<Rightarrow> instant"
  db_statements :: nat
  db_locked :: "nat \<Rightarrow> pystr set"

definition statement_now :: "database \<Rightarrow> instant" where
  "statement_now db = db_clock db (db_statements db)"

definition after_statement :: "outbox_row list \<Rightarrow> database \<Rightarrow> database" where
  "after_statement rows db = db\<lparr>db_rows := rows, db_statements := db_statements db + 1\<rparr>"

fun collect_claims :: "outbox_row list \<Rightarrow> claimed_command list \<Rightarrow> int \<Rightarrow> exn + claimed_command list \<times> int" where
  "collect_claims [] commands expired = Inr (commands, expired)"
| "collect_claims (r # rs) commands expired =
     (if w_status r = R_DEAD_LETTER then collect_claims rs commands (expired + 1)
      else if w_status r = R_IN_PROGRESS then
        bindE (claimed_from_row r) (\<lambda>c. collect_claims rs (commands @ [c]) expired)
      else Inl (RuntimeError ''outbox claim returned unexpected status''))"

definition check_claim_arguments :: "pystr \<Rightarrow> int \<Rightarrow> timedelta \<Rightarrow> pystr \<Rightarrow> exn + unit" where
  "check_claim_arguments worker_id batch_size lease_duration nonce =
     bindE (bounded_text worker_id ''worker_id'' 128) (\<lambda>_.
     bindE (raise_if (\<not> (1 \<le> batch_size \<and> batch_size \<le> 100)) (ValueError ''batch_size must be between 1 and 100'')) (\<lambda>_.
     bindE (raise_if (lease_duration \<le> 0) (ValueError ''lease_duration must be a positive timedelta'')) (\<lambda>_.
     bindE (raise_if (15 * us_minute < lease_duration) (ValueError ''lease_duration must not exceed 15 minutes'')) (\<lambda>_.
     bindE (bounded_text nonce ''token_factory result'' 96) (\<lambda>_.
     Inr ())))))"

definition pg_claim_batch :: "pystr \<Rightarrow> pystr \<Rightarrow> int \<Rightarrow> timedelta \<Rightarrow> (database, claim_batch) port" where
  "pg_claim_batch nonce worker_id batch_size lease_duration db =
     (case check_claim_arguments worker_id batch_size lease_duration nonce of
        Inl e \<Rightarrow> (Inl e, db)
      | Inr _ \<Rightarrow>
         (case claim_statement (statement_now db) (db_locked db (db_statements db)) (nat batch_size) lease_duration nonce worker_id
                 (db_rows db) of
            (rows, table) \<Rightarrow>
              (if batch_size < int (length rows) then Inl (RuntimeError ''outbox claim exceeded its requested batch bound'')
               else bindE (collect_claims rows [] 0) (\<lambda>(commands, expired).
                 mk_claim_batch \<lparr>cb_selected_count = int (length rows), cb_commands = commands, cb_expired_dead_lettered = expired\<rparr>),
               after_statement table db)))"

definition fence_matches :: "instant \<Rightarrow> claimed_command \<Rightarrow> outbox_row \<Rightarrow> bool" where
  "fence_matches now c r =
     (w_id r = oc_job_id c \<and> w_merchant_id r = oc_merchant_id c \<and> w_status r = R_IN_PROGRESS
      \<and> w_delivery_version r = oc_delivery_version c \<and> w_lease_owner r = Some (oc_worker_id c)
      \<and> w_lease_token r = Some (oc_lease_token c)
      \<and> (case w_lease_expires_at r of None \<Rightarrow> False | Some e \<Rightarrow> now < e))"

definition released :: "outbox_row \<Rightarrow> outbox_row" where
  "released r = r\<lparr>w_delivery_version := w_delivery_version r + 1, w_lease_owner := None, w_lease_token := None,
     w_lease_expires_at := None\<rparr>"

definition complete_row :: "pystr \<Rightarrow> instant \<Rightarrow> outbox_row \<Rightarrow> outbox_row" where
  "complete_row reference now r = (released r)\<lparr>w_status := R_SUCCEEDED, w_completion_reference := Some reference,
     w_completed_at := Some now, w_updated_at := now\<rparr>"

definition retry_row :: "pystr \<Rightarrow> timedelta \<Rightarrow> retry_mode \<Rightarrow> instant \<Rightarrow> outbox_row \<Rightarrow> outbox_row" where
  "retry_row reason delay mode now r = (released r)\<lparr>w_status := R_RETRY_SCHEDULED, w_retry_mode := mode,
     w_next_attempt_at := now + delay, w_last_error_code := Some reason, w_last_error_at := Some now, w_updated_at := now\<rparr>"

definition dead_letter_row :: "pystr \<Rightarrow> instant \<Rightarrow> outbox_row \<Rightarrow> outbox_row" where
  "dead_letter_row reason now r = (released r)\<lparr>w_status := R_DEAD_LETTER, w_retry_mode := RECONCILE_ONLY,
     w_last_error_code := Some reason, w_last_error_at := Some now, w_dead_lettered_at := Some now,
     w_dead_letter_reason := Some reason, w_updated_at := now\<rparr>"

text \<open>\<^verbatim>\<open>UPDATE ... RETURNING delivery_version\<close> behind the fence, and the check of the returned version.\<close>

definition settle_statement :: "instant \<Rightarrow> (instant \<Rightarrow> outbox_row \<Rightarrow> outbox_row) \<Rightarrow> claimed_command \<Rightarrow> outbox_row list \<Rightarrow> int list \<times> outbox_row list" where
  "settle_statement now f c rows =
     (map (\<lambda>r. w_delivery_version (f now r)) (filter (fence_matches now c) rows),
      map (\<lambda>r. if fence_matches now c r then f now r else r) rows)"

definition pg_settle :: "pystr \<Rightarrow> (instant \<Rightarrow> outbox_row \<Rightarrow> outbox_row) \<Rightarrow> claimed_command \<Rightarrow> (database, int) port" where
  "pg_settle operation f c db =
     (case settle_statement (statement_now db) f c (db_rows db) of
        ([], _) \<Rightarrow> (Inl (OutboxFenceLost (operation @ '' lost its fenced lease'')), after_statement (db_rows db) db)
      | (version # _, table) \<Rightarrow>
         (if version \<noteq> oc_delivery_version c + 1 then Inl (RuntimeError (operation @ '' returned an invalid delivery version''))
          else Inr version, after_statement table db))"

definition pg_complete :: "claimed_command \<Rightarrow> pystr \<Rightarrow> (database, int) port" where
  "pg_complete c reference db = (case bounded_text reference ''completion_reference'' 500 of
      Inl e \<Rightarrow> (Inl e, db)
    | Inr _ \<Rightarrow> pg_settle ''complete'' (complete_row reference) c db)"

definition pg_dead_letter :: "claimed_command \<Rightarrow> pystr \<Rightarrow> (database, int) port" where
  "pg_dead_letter c reason db = (case bounded_text reason ''reason'' 500 of
      Inl e \<Rightarrow> (Inl e, db)
    | Inr _ \<Rightarrow> pg_settle ''dead_letter'' (dead_letter_row reason) c db)"

definition prefixed_reason :: "pystr \<Rightarrow> pystr \<Rightarrow> exn + pystr" where
  "prefixed_reason head reason =
     (let available = 500 - int (length head) - 1 in
      bindE (raise_if (available < 1) (AssertionError ''internal reason prefix exceeds its storage boundary'')) (\<lambda>_.
      Inr (head @ '':'' @ take (nat available) reason)))"

definition pg_retry :: "backoff_policy \<Rightarrow> claimed_command \<Rightarrow> pystr \<Rightarrow> retry_mode \<Rightarrow> (database, int) port" where
  "pg_retry backoff c reason mode db = (case bounded_text reason ''reason'' 500 of
      Inl e \<Rightarrow> (Inl e, db)
    | Inr _ \<Rightarrow>
       if oc_max_attempts c \<le> oc_attempt_count c
       then (case prefixed_reason ''max_attempts_exhausted'' reason of
               Inl e \<Rightarrow> (Inl e, db) | Inr exhausted \<Rightarrow> pg_dead_letter c exhausted db)
       else (case delay_after backoff (oc_attempt_count c) of
               Inl e \<Rightarrow> (Inl e, db) | Inr delay \<Rightarrow> pg_settle ''retry'' (retry_row reason delay mode) c db))"

end
