(* ===== verification/Delivery_Worker.thy ===== *)
theory Delivery_Worker
  imports Delivery_Table
begin

text \<open>
  \<^verbatim>\<open>services/control_plane/outbox_worker.py\<close>: the poller that dispatches claimed commands to registered
  handlers and settles every one of them. The repository, the handlers, the stop request and the sleeper are
  arguments of the model.
\<close>

section \<open>Handler results\<close>

datatype handler_disposition = H_SUCCEEDED | H_RETRY | H_DEAD_LETTER

record handler_result =
  hr_disposition :: handler_disposition
  hr_completion_reference :: "pystr option"
  hr_reason :: "pystr option"
  hr_retry_mode :: "retry_mode option"

definition check_success :: "handler_result \<Rightarrow> exn + unit" where
  "check_success h =
     bindE (case hr_completion_reference h of
              None \<Rightarrow> Inl (ValueError ''successful handler results require completion_reference'')
            | Some reference \<Rightarrow> bounded_text reference ''completion_reference'' 500) (\<lambda>_.
     raise_if (hr_reason h \<noteq> None \<or> hr_retry_mode h \<noteq> None)
       (ValueError ''successful handler results cannot include retry metadata''))"

definition check_failure :: "handler_result \<Rightarrow> exn + unit" where
  "check_failure h =
     bindE (case hr_reason h of
              None \<Rightarrow> Inl (ValueError ''non-success handler results require reason'')
            | Some reason \<Rightarrow> bounded_text reason ''reason'' 500) (\<lambda>_.
     if hr_disposition h = H_RETRY
     then bindE (raise_if (hr_retry_mode h \<notin> {Some RECONCILE_ONLY, Some RETRY_SAME_EFFECT})
            (ValueError ''retry results require an explicit safe retry mode'')) (\<lambda>_.
          raise_if (hr_completion_reference h \<noteq> None) (ValueError ''retry results cannot include completion_reference''))
     else raise_if (hr_retry_mode h \<noteq> None \<or> hr_completion_reference h \<noteq> None)
            (ValueError ''dead-letter results can only include a reason''))"

definition mk_handler_result :: "handler_result \<Rightarrow> exn + handler_result" where
  "mk_handler_result h =
     bindE (if hr_disposition h = H_SUCCEEDED then check_success h else check_failure h) (\<lambda>_. Inr h)"

definition handler_succeeded :: "pystr \<Rightarrow> exn + handler_result" where
  "handler_succeeded reference = mk_handler_result
     \<lparr>hr_disposition = H_SUCCEEDED, hr_completion_reference = Some reference, hr_reason = None, hr_retry_mode = None\<rparr>"

definition handler_retry_safely :: "pystr \<Rightarrow> retry_mode \<Rightarrow> exn + handler_result" where
  "handler_retry_safely reason mode = mk_handler_result
     \<lparr>hr_disposition = H_RETRY, hr_completion_reference = None, hr_reason = Some reason, hr_retry_mode = Some mode\<rparr>"

definition handler_dead_letter :: "pystr \<Rightarrow> exn + handler_result" where
  "handler_dead_letter reason = mk_handler_result
     \<lparr>hr_disposition = H_DEAD_LETTER, hr_completion_reference = None, hr_reason = Some reason, hr_retry_mode = None\<rparr>"

section \<open>Results of a poll\<close>

record poll_result =
  pl_selected :: int
  pl_claimed :: int
  pl_succeeded :: int
  pl_retried :: int
  pl_dead_lettered :: int
  pl_fence_lost :: int

definition count_check :: "pystr \<Rightarrow> int \<Rightarrow> exn + unit" where
  "count_check fld value = raise_if (value < 0) (ValueError (fld @ '' must be a non-negative integer''))"

definition mk_poll_result :: "poll_result \<Rightarrow> exn + poll_result" where
  "mk_poll_result p =
     bindE (count_check ''selected'' (pl_selected p)) (\<lambda>_.
     bindE (count_check ''claimed'' (pl_claimed p)) (\<lambda>_.
     bindE (count_check ''succeeded'' (pl_succeeded p)) (\<lambda>_.
     bindE (count_check ''retried'' (pl_retried p)) (\<lambda>_.
     bindE (count_check ''dead_lettered'' (pl_dead_lettered p)) (\<lambda>_.
     bindE (count_check ''fence_lost'' (pl_fence_lost p)) (\<lambda>_.
     bindE (raise_if (pl_selected p < pl_claimed p) (ValueError ''claimed cannot exceed selected'')) (\<lambda>_.
     bindE (raise_if (pl_succeeded p + pl_retried p + pl_dead_lettered p + pl_fence_lost p \<noteq> pl_selected p)
       (ValueError ''every selected row must have exactly one poll outcome'')) (\<lambda>_.
     Inr p))))))))"

record run_summary = poll_result +
  rs_polls :: int

definition empty_summary :: run_summary where
  "empty_summary = \<lparr>pl_selected = 0, pl_claimed = 0, pl_succeeded = 0, pl_retried = 0, pl_dead_lettered = 0, pl_fence_lost = 0,
     rs_polls = 0\<rparr>"

definition summary_add :: "run_summary \<Rightarrow> poll_result \<Rightarrow> run_summary" where
  "summary_add s p =
     \<lparr>pl_selected = pl_selected s + pl_selected p, pl_claimed = pl_claimed s + pl_claimed p,
      pl_succeeded = pl_succeeded s + pl_succeeded p, pl_retried = pl_retried s + pl_retried p,
      pl_dead_lettered = pl_dead_lettered s + pl_dead_lettered p, pl_fence_lost = pl_fence_lost s + pl_fence_lost p,
      rs_polls = rs_polls s + 1\<rparr>"

section \<open>The worker\<close>

text \<open>A handler returns a handler result, or \<open>None\<close> for a value of any other class.\<close>

record 'w delivery_ports =
  dp_claim_batch :: "pystr \<Rightarrow> int \<Rightarrow> timedelta \<Rightarrow> ('w, claim_batch) port"
  dp_complete :: "claimed_command \<Rightarrow> pystr \<Rightarrow> ('w, int) port"
  dp_retry :: "claimed_command \<Rightarrow> pystr \<Rightarrow> retry_mode \<Rightarrow> ('w, int) port"
  dp_dead_letter :: "claimed_command \<Rightarrow> pystr \<Rightarrow> ('w, int) port"
  dp_handlers :: "(pystr \<times> (claimed_command \<Rightarrow> ('w, handler_result option) port)) list"
  dp_stop_requested :: "('w, bool) port"
  dp_sleep :: "int \<Rightarrow> ('w, unit) port"

datatype delivery_event =
    BatchClaimed "exn + claim_batch"
  | Handled claimed_command "exn + handler_result option"
  | Completed claimed_command pystr "exn + int"
  | Retried claimed_command pystr retry_mode "exn + int"
  | DeadLettered claimed_command pystr "exn + int"
  | StopChecked "exn + bool"
  | Slept int "exn + unit"

type_synonym ('w, 'a) dio = "('w, delivery_event, 'a) io"

record worker_config =
  wc_worker_id :: pystr
  wc_batch_size :: int
  wc_lease_duration :: timedelta

definition check_handlers :: "(pystr \<times> 'h) list \<Rightarrow> exn + unit" where
  "check_handlers handlers =
     bindE (traverseE (\<lambda>(command_type, _). bounded_text command_type ''command_type'' 100) handlers) (\<lambda>_. Inr ())"

definition mk_worker :: "worker_config \<Rightarrow> (pystr \<times> 'h) list \<Rightarrow> exn + worker_config" where
  "mk_worker cfg handlers =
     bindE (bounded_text (wc_worker_id cfg) ''worker_id'' 128) (\<lambda>_.
     bindE (raise_if (\<not> (1 \<le> wc_batch_size cfg \<and> wc_batch_size cfg \<le> 100)) (ValueError ''batch_size must be between 1 and 100'')) (\<lambda>_.
     bindE (raise_if (wc_lease_duration cfg \<le> 0) (ValueError ''lease_duration must be a positive timedelta'')) (\<lambda>_.
     bindE (raise_if (15 * us_minute < wc_lease_duration cfg) (ValueError ''lease_duration must not exceed 15 minutes'')) (\<lambda>_.
     bindE (check_handlers handlers) (\<lambda>_.
     Inr cfg)))))"

definition handler_answer :: "exn + handler_result option \<Rightarrow> exn + handler_result" where
  "handler_answer answer = (case answer of
      Inl e \<Rightarrow> handler_retry_safely (''handler_exception:'' @ exception_name e) RECONCILE_ONLY
    | Inr None \<Rightarrow> handler_dead_letter ''invalid_handler_result''
    | Inr (Some h) \<Rightarrow> Inr h)"

text \<open>What a command's handler asks for: unregistered types and values of another class are dead-lettered, a
  handler's exception is retried for reconciliation.\<close>

definition dispatch :: "'w delivery_ports \<Rightarrow> claimed_command \<Rightarrow> ('w, handler_result) dio" where
  "dispatch ports c = (case map_of (dp_handlers ports) (oc_command_type c) of
      None \<Rightarrow> liftIO (handler_dead_letter (''unregistered_command_type:'' @ oc_command_type c))
    | Some handler \<Rightarrow>
        bindIO (try_call (Handled c) (handler c)) (\<lambda>answer. liftIO (handler_answer answer)))"

text \<open>\<^verbatim>\<open>except OutboxFenceLost\<close> around a settlement: whether the fence held.\<close>

definition fence_held :: "exn + int \<Rightarrow> exn + bool" where
  "fence_held r = (case r of Inr _ \<Rightarrow> Inr True | Inl (OutboxFenceLost _) \<Rightarrow> Inr False | Inl e \<Rightarrow> Inl e)"

definition settle_result :: "'w delivery_ports \<Rightarrow> claimed_command \<Rightarrow> handler_result \<Rightarrow> ('w, bool) dio" where
  "settle_result ports c h = (case hr_disposition h of
      H_SUCCEEDED \<Rightarrow>
        (case hr_completion_reference h of
           None \<Rightarrow> liftIO (Inl (AssertionError ''successful handler result has no reference''))
         | Some reference \<Rightarrow>
             bindIO (try_call (Completed c reference) (dp_complete ports c reference)) (\<lambda>r. liftIO (fence_held r)))
    | H_RETRY \<Rightarrow>
        (case (hr_reason h, hr_retry_mode h) of
           (Some reason, Some mode) \<Rightarrow>
             bindIO (try_call (Retried c reason mode) (dp_retry ports c reason mode)) (\<lambda>r. liftIO (fence_held r))
         | _ \<Rightarrow> liftIO (Inl (AssertionError ''retry handler result lacks retry metadata'')))
    | H_DEAD_LETTER \<Rightarrow>
        (case hr_reason h of
           None \<Rightarrow> liftIO (Inl (AssertionError ''dead-letter handler result has no reason''))
         | Some reason \<Rightarrow>
             bindIO (try_call (DeadLettered c reason) (dp_dead_letter ports c reason)) (\<lambda>r. liftIO (fence_held r))))"

definition count_outcome :: "handler_disposition \<Rightarrow> bool \<Rightarrow> poll_result \<Rightarrow> poll_result" where
  "count_outcome d held p =
     (if \<not> held then p\<lparr>pl_fence_lost := pl_fence_lost p + 1\<rparr>
      else case d of
        H_SUCCEEDED \<Rightarrow> p\<lparr>pl_succeeded := pl_succeeded p + 1\<rparr>
      | H_RETRY \<Rightarrow> p\<lparr>pl_retried := pl_retried p + 1\<rparr>
      | H_DEAD_LETTER \<Rightarrow> p\<lparr>pl_dead_lettered := pl_dead_lettered p + 1\<rparr>)"

fun settle_all :: "'w delivery_ports \<Rightarrow> claimed_command list \<Rightarrow> poll_result \<Rightarrow> ('w, poll_result) dio" where
  "settle_all ports [] p = returnIO p"
| "settle_all ports (c # cs) p =
     bindIO (dispatch ports c) (\<lambda>h.
     bindIO (settle_result ports c h) (\<lambda>held.
     settle_all ports cs (count_outcome (hr_disposition h) held p)))"

definition poll_once :: "'w delivery_ports \<Rightarrow> worker_config \<Rightarrow> ('w, poll_result) dio" where
  "poll_once ports cfg =
     bindIO (call BatchClaimed (dp_claim_batch ports (wc_worker_id cfg) (wc_batch_size cfg) (wc_lease_duration cfg))) (\<lambda>batch.
     bindIO (settle_all ports (cb_commands batch)
        \<lparr>pl_selected = cb_selected_count batch, pl_claimed = int (length (cb_commands batch)), pl_succeeded = 0, pl_retried = 0,
         pl_dead_lettered = cb_expired_dead_lettered batch, pl_fence_lost = 0\<rparr>) (\<lambda>p.
     liftIO (mk_poll_result p)))"

text \<open>The loop, at most \<open>n\<close> polls long: \<open>None\<close> when no stop request was seen within them. The delay is a
  number of microseconds in the code's range of zero (exclusive) to sixty seconds.\<close>

definition check_idle_delay :: "int \<Rightarrow> exn + unit" where
  "check_idle_delay delay =
     raise_if (\<not> (0 < delay \<and> delay \<le> 60 * us_second)) (ValueError ''idle_delay_seconds must be in (0, 60]'')"

fun poll_loop :: "nat \<Rightarrow> 'w delivery_ports \<Rightarrow> worker_config \<Rightarrow> int \<Rightarrow> run_summary \<Rightarrow> ('w, run_summary option) dio" where
  "poll_loop 0 ports cfg delay summary = returnIO None"
| "poll_loop (Suc n) ports cfg delay summary =
     bindIO (call StopChecked (dp_stop_requested ports)) (\<lambda>stop.
     if stop then returnIO (Some summary)
     else bindIO (poll_once ports cfg) (\<lambda>result.
          bindIO (if pl_selected result = 0
                  then bindIO (call StopChecked (dp_stop_requested ports)) (\<lambda>stop_now.
                       if stop_now then returnIO () else call (Slept delay) (dp_sleep ports delay))
                  else returnIO ()) (\<lambda>_.
          poll_loop n ports cfg delay (summary_add summary result))))"

definition run_until_stopped :: "nat \<Rightarrow> 'w delivery_ports \<Rightarrow> worker_config \<Rightarrow> int \<Rightarrow> ('w, run_summary option) dio" where
  "run_until_stopped n ports cfg delay =
     bindIO (liftIO (check_idle_delay delay)) (\<lambda>_. poll_loop n ports cfg delay empty_summary)"

end
