(* ===== verification/Worker_Spec.thy ===== *)
theory Worker_Spec
  imports Delivery_Worker Delivery_Spec
begin

text \<open>
  The poller over any repository whose settlements of storable texts raise nothing but a lost fence, and the
  PostgreSQL queue as such a repository: a poll settles the claimed commands in order and at most once, accounts
  for every selected row when it returns, and stops short only at a handler's answer that cannot be stored.
\<close>

section \<open>What a handler may ask for\<close>

text \<open>A reason the queue can store even as the truncated reason of an exhausted job.\<close>

definition storable_reason :: "pystr \<Rightarrow> bool" where
  "storable_reason reason = (clean_text reason 500 \<and> clean_text (take 477 reason) 500)"

definition settleable :: "handler_result \<Rightarrow> bool" where
  "settleable h = (case hr_disposition h of
      H_SUCCEEDED \<Rightarrow> \<exists>reference. hr_completion_reference h = Some reference \<and> clean_text reference 500
    | H_RETRY \<Rightarrow> \<exists>reason mode. hr_reason h = Some reason \<and> hr_retry_mode h = Some mode \<and> storable_reason reason
    | H_DEAD_LETTER \<Rightarrow> \<exists>reason. hr_reason h = Some reason \<and> clean_text reason 500)"

lemma bounded_text_Inr [simp]: "bounded_text s f n = Inr t \<longleftrightarrow> clean_text s n \<and> t = s"
  by (auto simp: bounded_text_def)

lemma bounded_text_ok [simp]: "clean_text s n \<Longrightarrow> bounded_text s f n = Inr s"
  by (simp add: bounded_text_def)

lemma short_storable: "clean_text reason 477 \<Longrightarrow> storable_reason reason"
  using clean_text_mono [of reason 477 500] by (simp add: storable_reason_def clean_text_def)

lemma printable_name: "list_all printable (exception_name e) \<Longrightarrow> length (exception_name e) \<le> 400 \<Longrightarrow>
    clean_text (''handler_exception:'' @ exception_name e) 477"
proof (rule clean_printable)
  have "list_all printable ''handler_exception:''" by code_simp
  then show "list_all printable (exception_name e) \<Longrightarrow> list_all printable (''handler_exception:'' @ exception_name e)" by simp
qed simp_all

lemma dropWhile_id: "dropWhile P s = s \<longleftrightarrow> s = [] \<or> \<not> P (hd s)"
  by (cases s) (auto dest: arg_cong [of _ _ length] simp: length_dropWhile_le le_imp_less_Suc [THEN less_imp_neq])

lemma strip_id: "t \<noteq> [] \<Longrightarrow> strip t = t \<longleftrightarrow> \<not> is_space (hd t) \<and> \<not> is_space (last t)"
proof
  assume "t \<noteq> []" "strip t = t"
  then have "length (dropWhile is_space (rev (dropWhile is_space t))) = length t"
    by (metis length_rev lstrip_def rstrip_def strip_def)
  then have "length (dropWhile is_space t) = length t"
    using length_dropWhile_le [of is_space "rev (dropWhile is_space t)"] length_dropWhile_le [of is_space t] by simp
  then have "dropWhile is_space t = t" by (metis append_Nil append_eq_append_conv takeWhile_dropWhile_id)
  moreover from this \<open>strip t = t\<close> have "dropWhile is_space (rev t) = rev t"
    by (simp add: strip_def lstrip_def rstrip_def) (metis rev_rev_ident)
  ultimately show "\<not> is_space (hd t) \<and> \<not> is_space (last t)"
    using \<open>t \<noteq> []\<close> by (simp add: dropWhile_id hd_rev)
next
  assume "t \<noteq> []" "\<not> is_space (hd t) \<and> \<not> is_space (last t)"
  then show "strip t = t" by (simp add: strip_def lstrip_def rstrip_def dropWhile_id [THEN iffD2] hd_rev)
qed

lemma clean_append:
  assumes "list_all printable s" "s \<noteq> []" "clean_text t n" "length s + n \<le> m"
  shows "clean_text (s @ t) m"
proof -
  have t: "t \<noteq> []" "strip t = t" "length t \<le> n" "\<not> list_ex is_control t" using assms(3) by (auto simp: clean_text_def)
  have "\<not> is_space (hd s)" "\<not> list_ex is_control s" using assms(1,2)
    by (cases s; auto simp: printable_def is_space_def list_all_iff list_ex_iff is_control_def)+
  then have "strip (s @ t) = s @ t" using t strip_id [of t] strip_id [of "s @ t"] assms(2) by simp
  then show ?thesis using t assms \<open>\<not> list_ex is_control s\<close> by (simp add: clean_text_def)
qed

section \<open>The repository contract\<close>

definition fenced_answer :: "exn + int \<Rightarrow> bool" where
  "fenced_answer r = (case r of Inr _ \<Rightarrow> True | Inl (OutboxFenceLost _) \<Rightarrow> True | _ \<Rightarrow> False)"

lemma fence_held_Inr: "fenced_answer r \<Longrightarrow> \<exists>b. fence_held r = Inr b"
  by (cases r) (auto simp: fenced_answer_def fence_held_def split: exn.splits)

definition batch_accounts :: "claim_batch \<Rightarrow> bool" where
  "batch_accounts b =
     (0 \<le> cb_expired_dead_lettered b \<and> cb_selected_count b = int (length (cb_commands b)) + cb_expired_dead_lettered b
      \<and> list_all (\<lambda>c. clean_text (oc_command_type c) 100 \<and> 1 \<le> oc_attempt_count c) (cb_commands b))"

fun settlement_of :: "delivery_event \<Rightarrow> claimed_command option" where
  "settlement_of (Completed c _ _) = Some c"
| "settlement_of (Retried c _ _ _) = Some c"
| "settlement_of (DeadLettered c _ _) = Some c"
| "settlement_of _ = None"

definition settlements :: "delivery_event list \<Rightarrow> claimed_command list" where
  "settlements tr = List.map_filter settlement_of tr"

lemma settlements_simps [simp]:
  "settlements [] = []"
  "settlements (e # tr) = (case settlement_of e of None \<Rightarrow> settlements tr | Some c \<Rightarrow> c # settlements tr)"
  "settlements (tr @ tr') = settlements tr @ settlements tr'"
  by (simp_all add: settlements_def List.map_filter_def split: option.split)

text \<open>What a handler answered can be stored: a result whose texts the queue accepts, an exception whose name
  makes such a reason, or a value of another class, for which the worker has a reason of its own.\<close>

definition storable_answer :: "exn + handler_result option \<Rightarrow> bool" where
  "storable_answer answer = (case answer of
      Inl e \<Rightarrow> clean_text (''handler_exception:'' @ exception_name e) 477
    | Inr None \<Rightarrow> True
    | Inr (Some h) \<Rightarrow> settleable h)"

text \<open>A handler the worker found for the command gave an answer that cannot be stored.\<close>

definition unstorable_answer :: "'w delivery_ports \<Rightarrow> claimed_command \<Rightarrow> delivery_event list \<Rightarrow> bool" where
  "unstorable_answer ports c tr = (\<exists>answer handler w. Handled c answer \<in> set tr \<and> \<not> storable_answer answer
     \<and> map_of (dp_handlers ports) (oc_command_type c) = Some handler \<and> fst (handler c w) = answer)"

lemma unstorable_answer_mono: "unstorable_answer ports c tr \<Longrightarrow> set tr \<subseteq> set tr' \<Longrightarrow> unstorable_answer ports c tr'"
  unfolding unstorable_answer_def by blast

lemma unregistered_answer:
  assumes "clean_text t 100"
  shows "\<exists>h. handler_dead_letter (''unregistered_command_type:'' @ t) = Inr h \<and> settleable h"
proof -
  have "list_all printable ''unregistered_command_type:''" by code_simp
  from clean_append [OF this _ assms, of 500] show ?thesis
    by (simp add: handler_dead_letter_def mk_handler_result_def check_failure_def settleable_def)
qed

lemma invalid_answer: "\<exists>h. handler_dead_letter ''invalid_handler_result'' = Inr h \<and> settleable h"
proof -
  have "clean_text ''invalid_handler_result'' 500" by code_simp
  then show ?thesis by (simp add: handler_dead_letter_def mk_handler_result_def check_failure_def settleable_def)
qed

lemma exception_retry:
  assumes "clean_text (''handler_exception:'' @ exception_name e) 477"
  shows "\<exists>h. handler_retry_safely (''handler_exception:'' @ exception_name e) RECONCILE_ONLY = Inr h \<and> settleable h"
  using short_storable [OF assms]
  by (simp add: handler_retry_safely_def mk_handler_result_def check_failure_def settleable_def storable_reason_def)

lemma storable_answer_settleable:
  "storable_answer answer \<Longrightarrow> \<exists>h. handler_answer answer = Inr h \<and> settleable h"
  using exception_retry invalid_answer unfolding handler_answer_def storable_answer_def
  by (cases answer) (auto split: option.splits simp del: append_Cons append_Nil)

lemma dispatch_run:
  assumes "dispatch ports c s = (r, s')" "clean_text (oc_command_type c) 100"
  shows "\<exists>tr. snd s' = snd s @ tr \<and> settlements tr = []
    \<and> ((\<exists>h. r = Inr h \<and> settleable h) \<or> unstorable_answer ports c tr)"
proof (cases "map_of (dp_handlers ports) (oc_command_type c)")
  case None
  then show ?thesis using assms(1) unregistered_answer [OF assms(2)]
    by (auto simp: dispatch_def liftIO_def simp del: append_Cons append_Nil)
next
  case (Some handler)
  from assms(1) obtain answer where "snd s' = snd s @ [Handled c answer]" "handler_answer answer = r" "fst (handler c (fst s)) = answer"
    by (auto simp: dispatch_def Some bindIO_eq try_call_eq liftIO_def)
  then show ?thesis using storable_answer_settleable [of answer] Some
    by (cases "storable_answer answer") (auto simp: unstorable_answer_def)
qed

text \<open>Whatever is asked for, one command's settlement calls the repository for that command alone, and at
  most once; it calls it when it returns.\<close>

lemma settle_result_calls:
  assumes "settle_result ports c h s = (r, s')"
  shows "\<exists>tr. snd s' = snd s @ tr \<and> (settlements tr = [c] \<or> settlements tr = [] \<and> (\<exists>e. r = Inl e))"
proof -
  have step: "\<exists>tr. snd s' = snd s @ tr \<and> (settlements tr = [c] \<or> settlements tr = [] \<and> (\<exists>e. r = Inl e))"
    if "bindIO (try_call ev p) (\<lambda>r. liftIO (fence_held r)) s = (r, s')" "\<And>x. settlement_of (ev x) = Some c" for ev p
    using that by (auto simp: bindIO_eq try_call_eq liftIO_def)
  have none: ?thesis if "liftIO (Inl e) s = (r, s')" for e using that by (auto simp: liftIO_def)
  show ?thesis
    using assms unfolding settle_result_def
    by (auto split: handler_disposition.splits option.splits elim!: step none)
qed

section \<open>A poll\<close>

locale outbox_repository =
  fixes claim :: "pystr \<Rightarrow> int \<Rightarrow> timedelta \<Rightarrow> ('w, claim_batch) port"
    and completes :: "claimed_command \<Rightarrow> pystr \<Rightarrow> ('w, int) port"
    and retries :: "claimed_command \<Rightarrow> pystr \<Rightarrow> retry_mode \<Rightarrow> ('w, int) port"
    and buries :: "claimed_command \<Rightarrow> pystr \<Rightarrow> ('w, int) port"
  assumes claim_accounts: "claim worker n d w = (Inr b, w') \<Longrightarrow> batch_accounts b"
    and complete_fenced: "clean_text reference 500 \<Longrightarrow> fenced_answer (fst (completes c reference w))"
    and retry_fenced: "storable_reason reason \<Longrightarrow> 1 \<le> oc_attempt_count c \<Longrightarrow> fenced_answer (fst (retries c reason mode w))"
    and bury_fenced: "clean_text reason 500 \<Longrightarrow> fenced_answer (fst (buries c reason w))"
begin

definition uses :: "'w delivery_ports \<Rightarrow> bool" where
  "uses ports = (dp_claim_batch ports = claim \<and> dp_complete ports = completes \<and> dp_retry ports = retries
     \<and> dp_dead_letter ports = buries)"

lemma settle_result_run:
  assumes "settle_result ports c h s = (r, s')" "uses ports" "settleable h" "1 \<le> oc_attempt_count c"
  shows "\<exists>held. r = Inr held"
proof -
  have ports: "dp_complete ports = completes" "dp_retry ports = retries" "dp_dead_letter ports = buries"
    using assms(2) by (simp_all add: uses_def)
  have step: "\<exists>held. r = Inr held"
    if "bindIO (try_call ev p) (\<lambda>r. liftIO (fence_held r)) s = (r, s')" "fenced_answer (fst (p (fst s)))"
    for ev :: "exn + int \<Rightarrow> delivery_event" and p
  proof -
    from that(1) obtain x s1 where "p (fst s) = (x, fst s1)" "fence_held x = r"
      by (auto simp: bindIO_eq try_call_eq)
    with that(2) fence_held_Inr [of x] show ?thesis by auto
  qed
  show ?thesis
  proof (cases "hr_disposition h")
    case H_SUCCEEDED
    with assms(3) obtain reference where "hr_completion_reference h = Some reference" "clean_text reference 500"
      by (auto simp: settleable_def)
    then show ?thesis using assms(1) H_SUCCEEDED complete_fenced [of reference c "fst s"]
      by (intro step) (auto simp: settle_result_def ports)
  next
    case H_RETRY
    with assms(3) obtain reason mode where "hr_reason h = Some reason" "hr_retry_mode h = Some mode" "storable_reason reason"
      by (auto simp: settleable_def)
    then show ?thesis using assms(1,4) H_RETRY retry_fenced [of reason c mode "fst s"]
      by (intro step) (auto simp: settle_result_def ports)
  next
    case H_DEAD_LETTER
    with assms(3) obtain reason where "hr_reason h = Some reason" "clean_text reason 500" by (auto simp: settleable_def)
    then show ?thesis using assms(1) H_DEAD_LETTER bury_fenced [of reason c "fst s"]
      by (intro step) (auto simp: settle_result_def ports)
  qed
qed

definition outcomes :: "poll_result \<Rightarrow> int" where
  "outcomes p = pl_succeeded p + pl_retried p + pl_dead_lettered p + pl_fence_lost p"

definition counts_ok :: "poll_result \<Rightarrow> bool" where
  "counts_ok p = (0 \<le> pl_succeeded p \<and> 0 \<le> pl_retried p \<and> 0 \<le> pl_dead_lettered p \<and> 0 \<le> pl_fence_lost p)"

lemma count_outcome_simps:
  "pl_selected (count_outcome d held p) = pl_selected p" "pl_claimed (count_outcome d held p) = pl_claimed p"
  "outcomes (count_outcome d held p) = outcomes p + 1" "counts_ok p \<Longrightarrow> counts_ok (count_outcome d held p)"
  by (cases d; simp add: count_outcome_def outcomes_def counts_ok_def)+

text \<open>Settling a batch: the repository was asked about the commands in order, and either about all of them,
  with the counts to match, or up to a command whose handler's answer cannot be stored.\<close>

definition settled_upto :: "'w delivery_ports \<Rightarrow> claimed_command list \<Rightarrow> poll_result \<Rightarrow> exn + poll_result \<Rightarrow> delivery_event list \<Rightarrow> bool" where
  "settled_upto ports cs p r tr = ((\<exists>rest. cs = settlements tr @ rest) \<and> (case r of
      Inr q \<Rightarrow> settlements tr = cs \<and> counts_ok q \<and> pl_selected q = pl_selected p \<and> pl_claimed q = pl_claimed p
        \<and> outcomes q = outcomes p + int (length cs)
    | Inl e \<Rightarrow> \<exists>c \<in> set cs. unstorable_answer ports c tr))"

lemma settle_all_run:
  assumes "settle_all ports cs p s = (r, s')" "uses ports" "counts_ok p"
    and "list_all (\<lambda>c. clean_text (oc_command_type c) 100 \<and> 1 \<le> oc_attempt_count c) cs"
  shows "\<exists>tr. snd s' = snd s @ tr \<and> settled_upto ports cs p r tr"
  using assms(1,3,4)
proof (induction cs arbitrary: p s)
  case (Cons c cs)
  from Cons.prems(3) have c: "clean_text (oc_command_type c) 100" "1 \<le> oc_attempt_count c" by simp_all
  from Cons.prems(1) show ?case unfolding settle_all.simps
  proof (cases rule: bindIO_cases)
    case (raised e)
    with dispatch_run [OF raised(1) c(1)] show ?thesis by (fastforce simp: settled_upto_def)
  next
    case (returned h s1)
    from dispatch_run [OF returned(1) c(1)] obtain tr1 where tr1: "snd s1 = snd s @ tr1" "settlements tr1 = []"
      "settleable h \<or> unstorable_answer ports c tr1" by auto
    from returned(2) show ?thesis
    proof (cases rule: bindIO_cases)
      case (raised e)
      from settle_result_calls [OF raised(1)] obtain tr2 where "snd s' = snd s1 @ tr2" "settlements tr2 \<in> {[c], []}" by auto
      moreover have "unstorable_answer ports c (tr1 @ tr2)" for tr2
        using tr1(3) settle_result_run [OF raised(1) assms(2) _ c(2)] raised(2) unstorable_answer_mono [of ports c tr1 "tr1 @ tr2"] by auto
      ultimately show ?thesis using raised(2) tr1(1,2) by (intro exI [of _ "tr1 @ tr2"]) (auto simp: settled_upto_def)
    next
      case (returned held s2)
      from settle_result_calls [OF returned(1)] obtain tr2 where tr2: "snd s2 = snd s1 @ tr2" "settlements tr2 = [c]" by auto
      from Cons.IH [OF returned(2) count_outcome_simps(4) [OF Cons.prems(2)]] Cons.prems(3) obtain tr where
        "snd s' = snd s2 @ tr" "settled_upto ports cs (count_outcome (hr_disposition h) held p) r tr" by auto
      moreover have "unstorable_answer ports d tr \<Longrightarrow> unstorable_answer ports d (tr1 @ tr2 @ tr)" for d
        by (erule unstorable_answer_mono) auto
      ultimately show ?thesis using tr1(1,2) tr2
        by (intro exI [of _ "tr1 @ tr2 @ tr"]) (auto simp: settled_upto_def count_outcome_simps split: sum.splits)
    qed
  qed
qed (auto simp: returnIO_def settled_upto_def)

lemma poll_accounts:
  assumes "poll_once ports cfg s = (r, s')" "uses ports"
  obtains (unclaimed) e where "r = Inl e" "snd s' = snd s @ [BatchClaimed (Inl e)]"
      "fst (claim (wc_worker_id cfg) (wc_batch_size cfg) (wc_lease_duration cfg) (fst s)) = Inl e"
  | (polled) b p tr where "r = Inr p" "snd s' = snd s @ BatchClaimed (Inr b) # tr" "settlements tr = cb_commands b"
      "fst (claim (wc_worker_id cfg) (wc_batch_size cfg) (wc_lease_duration cfg) (fst s)) = Inr b"
      "pl_selected p = cb_selected_count b" "pl_claimed p = int (length (cb_commands b))" "outcomes p = pl_selected p"
  | (stopped) b e tr rest c where "r = Inl e" "snd s' = snd s @ BatchClaimed (Inr b) # tr" "cb_commands b = settlements tr @ rest"
      "fst (claim (wc_worker_id cfg) (wc_batch_size cfg) (wc_lease_duration cfg) (fst s)) = Inr b"
      "c \<in> set (cb_commands b)" "unstorable_answer ports c tr"
  using assms(1) unfolding poll_once_def
proof (cases rule: bindIO_cases)
  case (raised e)
  then show thesis using assms(2) by (intro unclaimed) (auto simp: call_eq uses_def)
next
  case (returned b s1)
  then have b: "batch_accounts b" and s1: "snd s1 = snd s @ [BatchClaimed (Inr b)]"
    and claimed: "fst (claim (wc_worker_id cfg) (wc_batch_size cfg) (wc_lease_duration cfg) (fst s)) = Inr b"
    using assms(2) claim_accounts by (auto simp: call_eq uses_def)
  let ?p = "\<lparr>pl_selected = cb_selected_count b, pl_claimed = int (length (cb_commands b)), pl_succeeded = 0, pl_retried = 0,
      pl_dead_lettered = cb_expired_dead_lettered b, pl_fence_lost = 0\<rparr>"
  obtain r2 s2 where run: "settle_all ports (cb_commands b) ?p s1 = (r2, s2)" by (cases "settle_all ports (cb_commands b) ?p s1")
  from settle_all_run [OF run assms(2)] b obtain tr where tr: "snd s2 = snd s1 @ tr" "settled_upto ports (cb_commands b) ?p r2 tr"
    by (auto simp: batch_accounts_def counts_ok_def)
  show thesis
  proof (cases r2)
    case (Inl e)
    then have "r = Inl e" "s' = s2" using returned(2) run by (simp_all add: bindIO_def)
    then show thesis using tr s1 claimed Inl by (auto simp: settled_upto_def intro: stopped)
  next
    case (Inr q)
    with tr(2) have q: "settlements tr = cb_commands b" "counts_ok q" "pl_selected q = cb_selected_count b"
      "pl_claimed q = int (length (cb_commands b))" "outcomes q = cb_expired_dead_lettered b + int (length (cb_commands b))"
      by (simp_all add: settled_upto_def outcomes_def)
    have "mk_poll_result q = Inr q"
      using q b by (simp add: mk_poll_result_def count_check_def counts_ok_def outcomes_def batch_accounts_def)
    then have "r = Inr q" "s' = s2" using returned(2) run Inr by (simp_all add: bindIO_def liftIO_def)
    then show thesis using q s1 b claimed tr(1) by (intro polled [of q b tr]) (auto simp: batch_accounts_def)
  qed
qed

end

section \<open>The queue as a repository\<close>

lemma pg_settle_fenced: "settlement f \<Longrightarrow> fenced_answer (fst (pg_settle op f c db))"
proof (cases "filter (fence_matches (statement_now db) c) (db_rows db)")
  case (Cons r rs)
  then have "r \<in> set (filter (fence_matches (statement_now db) c) (db_rows db))" by simp
  then have "fence_matches (statement_now db) c r" by simp
  then show "settlement f \<Longrightarrow> ?thesis" using Cons fence_version
    by (auto simp: pg_settle_def settle_statement_def settlement_row fenced_answer_def)
qed (auto simp: pg_settle_def settle_statement_def fenced_answer_def)

lemma claimed_from_row_Inr:
  "claimed_from_row r = Inr c \<Longrightarrow> clean_text (oc_command_type c) 100 \<and> 1 \<le> oc_attempt_count c"
  by (auto simp: claimed_from_row_def mk_claimed_command_def positive_int_def split: option.splits)

lemma collect_claims_Inr:
  assumes "collect_claims rows cs n = Inr (cs', n')"
  shows "\<exists>new. cs' = cs @ new \<and> n \<le> n' \<and> int (length new) + (n' - n) = int (length rows)
    \<and> list_all (\<lambda>c. clean_text (oc_command_type c) 100 \<and> 1 \<le> oc_attempt_count c) new"
  using assms
proof (induction rows arbitrary: cs n)
  case (Cons r rows)
  then show ?case
    by (fastforce split: if_splits dest: claimed_from_row_Inr)
qed simp

lemma pg_claim_accounts: "pg_claim_batch nonce worker n d db = (Inr b, db') \<Longrightarrow> batch_accounts b"
  by (fastforce simp: pg_claim_batch_def mk_claim_batch_def batch_accounts_def split: sum.splits prod.splits if_splits
      dest!: collect_claims_Inr)

interpretation pg_queue: outbox_repository "pg_claim_batch nonce" pg_complete "pg_retry backoff" pg_dead_letter
proof
  fix worker n d b and w w' :: database
  show "pg_claim_batch nonce worker n d w = (Inr b, w') \<Longrightarrow> batch_accounts b" by (rule pg_claim_accounts)
next
  fix reference c and w :: database
  show "clean_text reference 500 \<Longrightarrow> fenced_answer (fst (pg_complete c reference w))"
    by (simp add: pg_complete_def pg_settle_fenced settlement.intros)
next
  fix reason c and w :: database
  show "clean_text reason 500 \<Longrightarrow> fenced_answer (fst (pg_dead_letter c reason w))"
    by (simp add: pg_dead_letter_def pg_settle_fenced settlement.intros)
next
  fix reason mode and c :: claimed_command and w :: database
  assume reason: "storable_reason reason" and attempts: "1 \<le> oc_attempt_count c"
  have "list_all printable ''max_attempts_exhausted:''" by code_simp
  then have "clean_text (''max_attempts_exhausted:'' @ take 477 reason) 500"
    using reason clean_append [of "''max_attempts_exhausted:''" "take 477 reason" 477 500] by (simp add: storable_reason_def clean_text_def)
  then show "fenced_answer (fst (pg_retry backoff c reason mode w))"
    using reason attempts
    by (auto simp: pg_retry_def storable_reason_def prefixed_reason_def delay_after_def pg_dead_letter_def pg_settle_fenced settlement.intros)
qed

end
