(* ===== verification/Delivery_Refinement.thy ===== *)
theory Delivery_Refinement
  imports Worker_Spec
begin

text \<open>
  The table and the domain job agree: rows and jobs are read as the same abstract delivery, and the claim and
  settlement statements of \<^verbatim>\<open>postgres_outbox.py\<close> do to a row what \<^verbatim>\<open>OutboxJob\<close> does to a job. The
  texts of lease tokens and dead-letter reasons, which the two write differently, are not part of a delivery.
\<close>

section \<open>Abstract deliveries\<close>

datatype delivery_phase =
    Waiting instant retry_mode
  | Held pystr instant retry_mode
  | Finished pystr
  | Buried

record delivery =
  dl_phase :: delivery_phase
  dl_version :: int
  dl_attempts :: int
  dl_budget :: int

definition job_phase :: "outbox_job \<Rightarrow> delivery_phase option" where
  "job_phase j = (case j_state j of
      PENDING \<Rightarrow> map_option (\<lambda>a. Waiting a (j_retry_mode j)) (j_available_at j)
    | LEASED \<Rightarrow> (case (j_lease_owner j, j_lease_expires_at j) of
         (Some w, Some e) \<Rightarrow> Some (Held w e (j_retry_mode j)) | _ \<Rightarrow> None)
    | COMPLETED \<Rightarrow> map_option Finished (j_completion_reference j)
    | DEAD_LETTER \<Rightarrow> Some Buried)"

definition row_phase :: "outbox_row \<Rightarrow> delivery_phase option" where
  "row_phase r = (case w_status r of
      R_IN_PROGRESS \<Rightarrow> (case (w_lease_owner r, w_lease_expires_at r) of
         (Some w, Some e) \<Rightarrow> Some (Held w e (w_retry_mode r)) | _ \<Rightarrow> None)
    | R_SUCCEEDED \<Rightarrow> map_option Finished (w_completion_reference r)
    | R_DEAD_LETTER \<Rightarrow> Some Buried
    | _ \<Rightarrow> Some (Waiting (w_next_attempt_at r) (w_retry_mode r)))"

definition job_delivery :: "outbox_job \<Rightarrow> delivery option" where
  "job_delivery j = map_option (\<lambda>ph. \<lparr>dl_phase = ph, dl_version = j_version j, dl_attempts = j_attempts j, dl_budget = j_max_attempts j\<rparr>)
     (job_phase j)"

definition row_delivery :: "outbox_row \<Rightarrow> delivery option" where
  "row_delivery r = map_option (\<lambda>ph. \<lparr>dl_phase = ph, dl_version = w_delivery_version r, dl_attempts = w_attempt_count r,
     dl_budget = w_max_attempts r\<rparr>) (row_phase r)"

lemmas delivery_defs = job_delivery_def row_delivery_def job_phase_def row_phase_def

definition agree :: "outbox_row \<Rightarrow> outbox_job \<Rightarrow> bool" where
  "agree r j = (row_delivery r = job_delivery j \<and> job_delivery j \<noteq> None)"

lemma agree_counts:
  "agree r j \<Longrightarrow> w_delivery_version r = j_version j \<and> w_attempt_count r = j_attempts j \<and> w_max_attempts r = j_max_attempts j"
  by (auto simp: agree_def job_delivery_def row_delivery_def)

lemma agree_phase: "agree r j \<Longrightarrow> row_phase r = job_phase j \<and> job_phase j \<noteq> None"
  by (auto simp: agree_def job_delivery_def row_delivery_def)

lemma agreeI:
  "row_phase r = job_phase j \<Longrightarrow> job_phase j \<noteq> None \<Longrightarrow> w_delivery_version r = j_version j \<Longrightarrow>
   w_attempt_count r = j_attempts j \<Longrightarrow> w_max_attempts r = j_max_attempts j \<Longrightarrow> agree r j"
  by (auto simp: agree_def job_delivery_def row_delivery_def)

lemma agree_waiting:
  assumes "agree r j" "j_state j = PENDING"
  obtains a where "j_available_at j = Some a" "w_status r = R_PENDING \<or> w_status r = R_RETRY_SCHEDULED"
    "w_next_attempt_at r = a" "w_retry_mode r = j_retry_mode j"
  using agree_phase [OF assms(1)] assms(2)
  by (auto simp: job_phase_def row_phase_def split: row_status.splits option.splits prod.splits)

lemma agree_held:
  assumes "agree r j" "j_state j = LEASED"
  obtains w e where "j_lease_owner j = Some w" "j_lease_expires_at j = Some e" "w_status r = R_IN_PROGRESS"
    "w_lease_owner r = Some w" "w_lease_expires_at r = Some e" "w_retry_mode r = j_retry_mode j"
  using agree_phase [OF assms(1)] assms(2)
  by (auto simp: job_phase_def row_phase_def split: row_status.splits option.splits prod.splits)

lemma agree_closed:
  assumes "agree r j" "j_state j = COMPLETED \<or> j_state j = DEAD_LETTER"
  shows "w_status r = R_SUCCEEDED \<or> w_status r = R_DEAD_LETTER"
  using agree_phase [OF assms(1)] assms(2)
  by (auto simp: job_phase_def row_phase_def split: row_status.splits option.splits prod.splits)

section \<open>Claims\<close>

lemma claim_row_leased:
  assumes "agree r j" "j_state j = PENDING \<or> j_state j = LEASED" "j_attempts j < j_max_attempts j"
  shows "agree (claim_row t d nonce worker r) (leased j worker t d)"
proof -
  have "(w_status r = R_IN_PROGRESS) = (j_state j = LEASED)" "w_retry_mode r = j_retry_mode j"
    using assms(1,2) by (auto elim: agree_waiting agree_held)
  then show ?thesis using agree_counts [OF assms(1)] assms(3)
    by (intro agreeI) (auto simp: claim_row_def leased_def job_phase_def row_phase_def)
qed

lemma claimable_agree:
  assumes "agree r j"
  shows "claimable t r \<longleftrightarrow> j_state j = PENDING \<and> (\<forall>a. j_available_at j = Some a \<longrightarrow> a \<le> t)
    \<or> j_state j = LEASED \<and> (\<forall>e. j_lease_expires_at j = Some e \<longrightarrow> e \<le> t)"
proof (cases "j_state j")
  case PENDING
  with assms show ?thesis by (elim agree_waiting) (auto simp: claimable_def)
next
  case LEASED
  with assms show ?thesis by (elim agree_held) (auto simp: claimable_def)
qed (use agree_closed [OF assms] in \<open>auto simp: claimable_def\<close>)

lemma exhausted_claim:
  assumes "job_ok j" "in_range t" "0 < d" "j_updated_at j \<le> t" "clean_text w 128" "j_max_attempts j \<le> j_attempts j"
    and "j_state j = LEASED" "\<forall>e. j_lease_expires_at j = Some e \<longrightarrow> e \<le> t"
  shows "\<exists>k. claim j w (utc t) d (j_version j) = Inr k \<and> j_state k = DEAD_LETTER \<and> j_version k = j_version j + 1
    \<and> j_attempts k = j_attempts j \<and> j_max_attempts k = j_max_attempts j"
proof -
  let ?k = "j\<lparr>j_state := DEAD_LETTER, j_version := j_version j + 1, j_updated_at := t, j_available_at := None,
      j_retry_mode := RECONCILE_ONLY, j_lease_owner := None, j_lease_token := None, j_lease_expires_at := None,
      j_dead_letter_reason := Some ''max_attempts_exhausted_after_stale_lease''\<rparr>"
  have "clean_text ''max_attempts_exhausted_after_stale_lease'' 512" by code_simp
  then have "job_ok ?k" using assms by (auto simp: job_ok_def state_ok_def texts_ok_def any_lease_def)
  then have "claim j w (utc t) d (j_version j) = Inr ?k"
    using assms by (simp add: claim_def expect_version_def transition_time_def require_text_def Let_def replace_job_Inr
        require_utc_exact_utc not_less split: option.splits)
  then show ?thesis by simp
qed

section \<open>Settlements\<close>

datatype settlement_request =
    Finish pystr
  | Again pystr retry_mode
  | Bury pystr

text \<open>What the domain job is asked to do by a settlement request of the holder of its lease.\<close>

definition job_settle :: "backoff_policy \<Rightarrow> settlement_request \<Rightarrow> pystr \<Rightarrow> instant \<Rightarrow> outbox_job \<Rightarrow> exn + outbox_job" where
  "job_settle b req worker t j = (case req of
      Finish reference \<Rightarrow> Outbox.complete j worker (held_token j) (utc t) (j_version j) reference
    | Again reason mode \<Rightarrow> requeue j worker (held_token j) (utc t) (j_version j) reason b mode
    | Bury reason \<Rightarrow> dead_letter j worker (held_token j) (utc t) (j_version j) reason)"

text \<open>What the repository is asked, and what its statement does to the row behind the fence.\<close>

definition pg_request :: "backoff_policy \<Rightarrow> settlement_request \<Rightarrow> claimed_command \<Rightarrow> (database, int) port" where
  "pg_request b req c = (case req of
      Finish reference \<Rightarrow> pg_complete c reference
    | Again reason mode \<Rightarrow> pg_retry b c reason mode
    | Bury reason \<Rightarrow> pg_dead_letter c reason)"

definition row_settle :: "backoff_policy \<Rightarrow> settlement_request \<Rightarrow> claimed_command \<Rightarrow> instant \<Rightarrow> outbox_row \<Rightarrow> outbox_row" where
  "row_settle b req c t r = (case req of
      Finish reference \<Rightarrow> complete_row reference t r
    | Again reason mode \<Rightarrow>
        if oc_max_attempts c \<le> oc_attempt_count c
        then dead_letter_row (''max_attempts_exhausted:'' @ take 477 reason) t r
        else (case delay_after b (oc_attempt_count c) of Inr delay \<Rightarrow> retry_row reason delay mode t r | Inl _ \<Rightarrow> r)
    | Bury reason \<Rightarrow> dead_letter_row reason t r)"

text \<open>The requests each side can carry out on a held lease. The repository stores texts of at most 500
  characters and cuts the reason of a spent budget to 477; the job stores texts of at most 512, prefixes the
  whole reason of a spent budget, and has to name the instant of the next attempt.\<close>

definition repository_takes :: "settlement_request \<Rightarrow> claimed_command \<Rightarrow> bool" where
  "repository_takes req c = (case req of
      Finish reference \<Rightarrow> clean_text reference 500
    | Again reason mode \<Rightarrow> clean_text reason 500 \<and> (oc_max_attempts c \<le> oc_attempt_count c \<longrightarrow> clean_text (take 477 reason) 500)
    | Bury reason \<Rightarrow> clean_text reason 500)"

definition job_takes :: "backoff_policy \<Rightarrow> settlement_request \<Rightarrow> instant \<Rightarrow> outbox_job \<Rightarrow> bool" where
  "job_takes b req t j = (case req of
      Finish reference \<Rightarrow> clean_text reference 512
    | Again reason mode \<Rightarrow> clean_text reason 512
        \<and> (if j_max_attempts j \<le> j_attempts j then length reason \<le> 489
           else \<forall>delay. delay_after b (j_attempts j) = Inr delay \<longrightarrow> in_range (t + delay))
    | Bury reason \<Rightarrow> clean_text reason 512)"

definition presents :: "claimed_command \<Rightarrow> outbox_row \<Rightarrow> bool" where
  "presents c r =
     (w_id r = oc_job_id c \<and> w_merchant_id r = oc_merchant_id c \<and> w_delivery_version r = oc_delivery_version c
      \<and> w_lease_owner r = Some (oc_worker_id c) \<and> w_lease_token r = Some (oc_lease_token c)
      \<and> w_attempt_count r = oc_attempt_count c \<and> w_max_attempts r = oc_max_attempts c)"

lemma holds_held_token:
  assumes "job_ok j" "j_state j = LEASED" "j_lease_owner j = Some w"
  shows "holds_lease j w (held_token j) t \<longleftrightarrow> (\<forall>e. j_lease_expires_at j = Some e \<longrightarrow> t < e)"
  using assms
  by (auto simp: holds_lease_def held_token_def job_ok_def state_ok_def missing_lease_def texts_ok_def clean_text_def)

lemma fence_is_lease:
  assumes "agree r j" "job_ok j" "j_state j = LEASED" "presents c r"
  shows "fence_matches t c r \<longleftrightarrow> holds_lease j (oc_worker_id c) (held_token j) t"
  using agree_held [OF assms(1,3)]
proof cases
  case (1 w e)
  then have "j_lease_owner j = Some (oc_worker_id c)" using assms(4) by (simp add: presents_def)
  from holds_held_token [OF assms(2,3) this] 1 assms(4) show ?thesis
    by (auto simp: fence_matches_def presents_def)
qed

lemma lease_guards:
  assumes "holds_lease j w tok t" "in_range t" "j_updated_at j \<le> t" "clean_text w 128" "clean_text tok 128"
  shows "assert_active_lease j w tok (utc t) = Inr ()" "transition_time j (utc t) = Inr t"
    "expect_version j (j_version j) = Inr ()" "j_state j = LEASED"
  using assms by (simp_all add: assert_active_lease_Inr transition_time_Inr expect_version_def holds_lease_def)

lemma exhausted_prefix: "list_all printable ''max_attempts_exhausted:''"
  by code_simp

lemma exhausted_reason:
  "clean_text reason 512 \<Longrightarrow> clean_text (''max_attempts_exhausted:'' @ reason) 512 \<longleftrightarrow> length reason \<le> 489"
proof
  assume reason: "clean_text reason 512"
  show "length reason \<le> 489" if "clean_text (''max_attempts_exhausted:'' @ reason) 512"
    using that by (simp add: clean_text_def)
  assume "length reason \<le> 489"
  with reason have "clean_text reason 489" by (simp add: clean_text_def)
  from clean_append [OF exhausted_prefix _ this, of 512] show "clean_text (''max_attempts_exhausted:'' @ reason) 512" by simp
qed

lemma cut_reason:
  assumes "clean_text reason 500"
  shows "clean_text (''max_attempts_exhausted:'' @ take 477 reason) 500 \<longleftrightarrow> clean_text (take 477 reason) 500"
proof
  assume "clean_text (take 477 reason) 500"
  then have "clean_text (take 477 reason) 477" by (simp add: clean_text_def)
  from clean_append [OF exhausted_prefix _ this, of 500] show "clean_text (''max_attempts_exhausted:'' @ take 477 reason) 500" by simp
next
  let ?t = "take 477 reason" and ?p = "''max_attempts_exhausted:''"
  assume cut: "clean_text (?p @ ?t) 500"
  have reason: "reason \<noteq> []" "strip reason = reason" "\<not> list_ex is_control reason" using assms by (auto simp: clean_text_def)
  then have t: "?t \<noteq> []" "hd ?t = hd reason" "last (?p @ ?t) = last ?t" by (simp_all add: hd_take)
  have "strip (?p @ ?t) = ?p @ ?t" using cut by (auto simp: clean_text_def simp del: append_Cons append_Nil)
  then have "\<not> is_space (last ?t)" using strip_id [of "?p @ ?t"] t(1,3) by (simp del: append_Cons append_Nil)
  moreover have "\<not> is_space (hd ?t)" using strip_id [OF reason(1)] reason(2) t(2) by simp
  moreover have "\<not> list_ex is_control ?t" using reason(3) by (auto simp: list_ex_iff dest: in_set_takeD)
  ultimately show "clean_text ?t 500" using strip_id [OF t(1)] t(1) by (simp add: clean_text_def)
qed

lemma settle_succeeds:
  assumes "agree r j" "job_ok j" "job_takes b req t j" "holds_lease j w (held_token j) t" "presents c r"
    and "clean_text w 128" "clean_text (held_token j) 128" "in_range t" "j_updated_at j \<le> t"
  shows "\<exists>k. job_settle b req w t j = Inr k \<and> agree (row_settle b req c t r) k"
proof -
  note guards = lease_guards [OF assms(4,8,9,6,7)]
  have positive: "1 \<le> j_attempts j" and budget: "j_attempts j \<le> j_max_attempts j"
    using assms(2) guards(4) by (simp_all add: job_ok_def state_ok_def)
  have counts: "oc_attempt_count c = j_attempts j" "oc_max_attempts c = j_max_attempts j" "w_delivery_version r = j_version j"
    "w_attempt_count r = j_attempts j" "w_max_attempts r = j_max_attempts j"
    using agree_counts [OF assms(1)] assms(5) by (simp_all add: presents_def)
  show ?thesis
  proof (cases req)
    case (Finish reference)
    then have "clean_text reference 512" using assms(3) by (simp add: job_takes_def)
    then show ?thesis using Finish guards assms(2,8,9) counts
      by (simp add: job_settle_def Outbox.complete_def require_text_def replace_job_Inr row_settle_def complete_row_def released_def
          job_ok_def state_ok_def texts_ok_def any_lease_def agree_def delivery_defs)
  next
    case (Bury reason)
    then have "clean_text reason 512" using assms(3) by (simp add: job_takes_def)
    then show ?thesis using Bury guards assms(2,8,9) counts
      by (simp add: job_settle_def dead_letter_def require_text_def replace_job_Inr row_settle_def dead_letter_row_def released_def
          job_ok_def state_ok_def texts_ok_def any_lease_def agree_def delivery_defs)
  next
    case (Again reason mode)
    then have reason: "clean_text reason 512" using assms(3) by (simp add: job_takes_def)
    show ?thesis
    proof (cases "j_max_attempts j \<le> j_attempts j")
      case True
      then have "clean_text (''max_attempts_exhausted:'' @ reason) 512"
        using assms(3) Again exhausted_reason [OF reason] by (simp add: job_takes_def del: append_Cons append_Nil)
      then show ?thesis using Again reason guards assms(2,8,9) counts True
        by (simp add: job_settle_def requeue_def require_text_def replace_job_Inr row_settle_def dead_letter_row_def released_def
            job_ok_def state_ok_def texts_ok_def any_lease_def agree_def delivery_defs del: append_Cons append_Nil)
    next
      case False
      obtain delay where delay: "delay_after b (j_attempts j) = Inr delay" using positive by (simp add: delay_after_def)
      then have "in_range (t + delay)" using assms(3) Again False by (simp add: job_takes_def)
      then show ?thesis using Again reason guards assms(2,8,9) counts delay False
        by (simp add: job_settle_def requeue_def require_text_def replace_job_Inr row_settle_def retry_row_def released_def
            job_ok_def state_ok_def texts_ok_def any_lease_def agree_def delivery_defs add_time_def)
    qed
  qed
qed

lemma settle_refused:
  assumes "\<not> job_takes b req t j" "j_state j = LEASED" "in_range t"
  shows "\<exists>e. job_settle b req w t j = Inl e"
proof (cases "job_settle b req w t j")
  case (Inr k)
  have time: "require_utc_exact (utc t) f = Inr t" for f using assms(3) require_utc_exact_utc by blast
  have False
  proof (cases req)
    case (Again reason mode)
    with Inr have reason: "clean_text reason 512" by (auto simp: job_settle_def requeue_def require_text_def split: if_splits)
    show False
    proof (cases "j_max_attempts j \<le> j_attempts j")
      case True
      with Inr Again have "clean_text (''max_attempts_exhausted:'' @ reason) 512"
        by (auto simp: job_settle_def requeue_def replace_job_Inr job_ok_def texts_ok_def simp del: append_Cons append_Nil)
      then show False using assms(1) Again True exhausted_reason [OF reason] reason by (simp add: job_takes_def del: append_Cons append_Nil)
    next
      case False
      with Inr Again have "\<exists>delay. delay_after b (j_attempts j) = Inr delay \<and> in_range (t + delay)"
        by (auto simp: job_settle_def requeue_def add_time_def transition_time_Inr time split: if_splits)
      then show False using assms(1) Again False reason by (auto simp: job_takes_def)
    qed
  qed (use Inr assms(1) in \<open>auto simp: job_settle_def Outbox.complete_def dead_letter_def require_text_def job_takes_def split: if_splits\<close>)
  then show ?thesis ..
qed simp

lemma settle_fails:
  assumes "j_state j = LEASED" "\<not> holds_lease j w tok t" "tok = held_token j"
  shows "\<exists>e. job_settle b req w t j = Inl e"
proof (cases "job_settle b req w t j")
  case (Inr k)
  then show ?thesis using assms
    by (cases req) (auto simp: job_settle_def settled_def dest!: complete_Inr requeue_Inr dead_letter_Inr dest: require_utc_exact_utc [THEN iffD1])
qed simp

lemma pg_request_refused: "\<not> repository_takes req c \<Longrightarrow> \<exists>msg. pg_request b req c db = (Inl (ValueError msg), db)"
proof (cases req)
  case (Again reason mode)
  assume "\<not> repository_takes req c"
  with Again consider "\<not> clean_text reason 500"
    | "clean_text reason 500" "oc_max_attempts c \<le> oc_attempt_count c" "\<not> clean_text (take 477 reason) 500"
    by (auto simp: repository_takes_def)
  then show ?thesis
  proof cases
    case 2
    from 2(3) cut_reason [OF 2(1)] have "\<not> clean_text (''max_attempts_exhausted:'' @ take 477 reason) 500" by blast
    with 2 Again show ?thesis
      by (simp add: pg_request_def pg_retry_def prefixed_reason_def pg_dead_letter_def) (simp add: bounded_text_def)
  qed (use Again in \<open>simp add: pg_request_def pg_retry_def bounded_text_def\<close>)
qed (simp_all add: repository_takes_def pg_request_def pg_complete_def pg_dead_letter_def bounded_text_def)

lemma pg_request_settles:
  assumes "repository_takes req c" "1 \<le> oc_attempt_count c"
  obtains op where "pg_request b req c db = pg_settle op (row_settle b req c) c db" "settlement (row_settle b req c)"
proof (cases req)
  case (Finish reference)
  then have "row_settle b req c = complete_row reference" by (intro ext) (simp add: row_settle_def)
  then show thesis using Finish assms(1)
    by (intro that [of "''complete''"]) (simp_all add: pg_request_def pg_complete_def repository_takes_def settlement.intros)
next
  case (Bury reason)
  then have "row_settle b req c = dead_letter_row reason" by (intro ext) (simp add: row_settle_def)
  then show thesis using Bury assms(1)
    by (intro that [of "''dead_letter''"]) (simp_all add: pg_request_def pg_dead_letter_def repository_takes_def settlement.intros)
next
  case (Again reason mode)
  then have reason: "clean_text reason 500" using assms(1) by (simp add: repository_takes_def)
  show thesis
  proof (cases "oc_max_attempts c \<le> oc_attempt_count c")
    case True
    then have "clean_text (''max_attempts_exhausted:'' @ take 477 reason) 500"
      using assms(1) Again cut_reason [OF reason] by (simp add: repository_takes_def del: append_Cons append_Nil)
    moreover have "row_settle b req c = dead_letter_row (''max_attempts_exhausted:'' @ take 477 reason)"
      using Again True by (intro ext) (simp add: row_settle_def)
    ultimately show thesis using Again reason True
      by (intro that [of "''dead_letter''"]) (simp_all add: pg_request_def pg_retry_def prefixed_reason_def pg_dead_letter_def settlement.intros)
  next
    case False
    obtain delay where delay: "delay_after b (oc_attempt_count c) = Inr delay" using assms(2) by (simp add: delay_after_def)
    then have "row_settle b req c = retry_row reason delay mode" using Again False by (intro ext) (simp add: row_settle_def)
    then show thesis using Again reason False delay
      by (intro that [of "''retry''"]) (simp_all add: pg_request_def pg_retry_def settlement.intros)
  qed
qed

end
