(* ===== verification/Worker_Loop.thy ===== *)
theory Worker_Loop
  imports Worker_Spec
begin

text \<open>
  The polling loop of \<^verbatim>\<open>outbox_worker.py\<close>: a measure on the world that no call of the worker raises and that
  every unanswered stop check lowers bounds the number of polls, so the fuel of \<open>poll_loop\<close> is enough.
\<close>

section \<open>Calls that do not move the stop away\<close>

definition lowers :: "('w \<Rightarrow> nat) \<Rightarrow> ('w, 'ev, 'a) io \<Rightarrow> bool" where
  "lowers left m = (\<forall>s. left (fst (snd (m s))) \<le> left (fst s))"

definition port_lowers :: "('w \<Rightarrow> nat) \<Rightarrow> ('w, 'a) port \<Rightarrow> bool" where
  "port_lowers left p = (\<forall>w. left (snd (p w)) \<le> left w)"

named_theorems lowers_intros

lemma lowersD: "lowers left m \<Longrightarrow> m s = (r, s') \<Longrightarrow> left (fst s') \<le> left (fst s)"
  unfolding lowers_def by (metis snd_conv)

lemma lowers_return [lowers_intros]: "lowers left (returnIO x)"
  by (simp add: lowers_def returnIO_def)

lemma lowers_lift [lowers_intros]: "lowers left (liftIO m)"
  by (simp add: lowers_def liftIO_def)

lemma lowers_call [lowers_intros]: "port_lowers left p \<Longrightarrow> lowers left (call ev p)"
  by (auto simp: lowers_def port_lowers_def call_def split: prod.split) (metis snd_conv)

lemma lowers_try_call [lowers_intros]: "port_lowers left p \<Longrightarrow> lowers left (try_call ev p)"
  by (auto simp: lowers_def port_lowers_def try_call_def split: prod.split) (metis snd_conv)

lemma lowers_bind [lowers_intros]:
  assumes "lowers left m" "\<And>x. lowers left (f x)"
  shows "lowers left (bindIO m f)"
  unfolding lowers_def
proof
  fix s
  obtain r s' where run: "bindIO m f s = (r, s')" by (cases "bindIO m f s")
  then have "left (fst s') \<le> left (fst s)"
  proof (cases rule: bindIO_cases)
    case (raised e)
    then show ?thesis using lowersD [OF assms(1)] by blast
  next
    case (returned x s1)
    from lowersD [OF assms(1) returned(1)] lowersD [OF assms(2) returned(2)] show ?thesis by (rule order_trans [rotated])
  qed
  then show "left (fst (snd (bindIO m f s))) \<le> left (fst s)" using run by simp
qed

text \<open>A stop check that answers no brings the stop nearer; no other call of the worker moves it away.\<close>

definition winds_down :: "('w \<Rightarrow> nat) \<Rightarrow> 'w delivery_ports \<Rightarrow> bool" where
  "winds_down left ports =
     ((\<forall>w. fst (dp_stop_requested ports w) = Inr False \<longrightarrow> left (snd (dp_stop_requested ports w)) < left w)
      \<and> port_lowers left (dp_stop_requested ports) \<and> (\<forall>delay. port_lowers left (dp_sleep ports delay))
      \<and> (\<forall>worker n d. port_lowers left (dp_claim_batch ports worker n d))
      \<and> (\<forall>c reference. port_lowers left (dp_complete ports c reference))
      \<and> (\<forall>c reason mode. port_lowers left (dp_retry ports c reason mode))
      \<and> (\<forall>c reason. port_lowers left (dp_dead_letter ports c reason))
      \<and> (\<forall>(command_type, handler) \<in> set (dp_handlers ports). \<forall>c. port_lowers left (handler c)))"

lemma lowers_dispatch:
  assumes "winds_down left ports"
  shows "lowers left (dispatch ports c)"
proof (cases "map_of (dp_handlers ports) (oc_command_type c)")
  case (Some handler)
  then have "port_lowers left (handler c)" using assms map_of_SomeD [OF Some] by (force simp: winds_down_def)
  then show ?thesis by (simp add: dispatch_def Some lowers_intros)
qed (simp add: dispatch_def lowers_intros)

lemma lowers_settle_result: "winds_down left ports \<Longrightarrow> lowers left (settle_result ports c h)"
  unfolding settle_result_def
  by (auto simp: winds_down_def split: handler_disposition.split option.split intro!: lowers_intros)

lemma lowers_settle_all: "winds_down left ports \<Longrightarrow> lowers left (settle_all ports cs p)"
  by (induction cs arbitrary: p) (auto intro!: lowers_intros lowers_dispatch lowers_settle_result)

lemma lowers_poll: "winds_down left ports \<Longrightarrow> lowers left (poll_once ports cfg)"
  unfolding poll_once_def by (auto intro!: lowers_intros lowers_settle_all) (simp add: winds_down_def)

section \<open>One turn of the loop\<close>

definition idle_wait :: "'w delivery_ports \<Rightarrow> int \<Rightarrow> poll_result \<Rightarrow> ('w, unit) dio" where
  "idle_wait ports delay result =
     (if pl_selected result = 0
      then bindIO (call StopChecked (dp_stop_requested ports)) (\<lambda>stop_now.
           if stop_now then returnIO () else call (Slept delay) (dp_sleep ports delay))
      else returnIO ())"

lemma lowers_idle: "winds_down left ports \<Longrightarrow> lowers left (idle_wait ports delay result)"
  unfolding idle_wait_def by (auto simp: winds_down_def intro!: lowers_intros)

lemma poll_loop_Suc:
  "poll_loop (Suc n) ports cfg delay summary s = (r, s') \<longleftrightarrow>
     (\<exists>e. call StopChecked (dp_stop_requested ports) s = (Inl e, s') \<and> r = Inl e)
     \<or> (call StopChecked (dp_stop_requested ports) s = (Inr True, s') \<and> r = Inr (Some summary))
     \<or> (\<exists>s1 e. call StopChecked (dp_stop_requested ports) s = (Inr False, s1) \<and> poll_once ports cfg s1 = (Inl e, s') \<and> r = Inl e)
     \<or> (\<exists>s1 result s2 e. call StopChecked (dp_stop_requested ports) s = (Inr False, s1) \<and> poll_once ports cfg s1 = (Inr result, s2)
          \<and> idle_wait ports delay result s2 = (Inl e, s') \<and> r = Inl e)
     \<or> (\<exists>s1 result s2 s3. call StopChecked (dp_stop_requested ports) s = (Inr False, s1)
          \<and> poll_once ports cfg s1 = (Inr result, s2) \<and> idle_wait ports delay result s2 = (Inr (), s3)
          \<and> poll_loop n ports cfg delay (summary_add summary result) s3 = (r, s'))"
proof -
  have if_run: "(if b then m else m') s1 = x \<longleftrightarrow> b \<and> m s1 = x \<or> \<not> b \<and> m' s1 = x" for b s1 x and m m' :: "('w, run_summary option) dio"
    by simp
  have ex_unit: "(\<exists>u::unit. P u) \<longleftrightarrow> P ()" for P by (auto intro: exI [of _ "()"])
  show ?thesis
    unfolding poll_loop.simps(2) idle_wait_def [symmetric] bindIO_eq if_run returnIO_eq
    by (simp only: ex_bool_eq simp_thms ex_unit) blast
qed

lemma poll_accounted:
  "poll_once ports cfg s = (Inr p, s') \<Longrightarrow>
     pl_succeeded p + pl_retried p + pl_dead_lettered p + pl_fence_lost p = pl_selected p"
  by (auto simp: poll_once_def bindIO_eq mk_poll_result_def)

definition accounted :: "run_summary \<Rightarrow> bool" where
  "accounted s = (pl_succeeded s + pl_retried s + pl_dead_lettered s + pl_fence_lost s = pl_selected s)"

text \<open>With more fuel than the measure the loop ends; the summary adds up and counts no more polls than the
  measure allowed.\<close>

lemma poll_loop_ends:
  assumes "winds_down left ports" "poll_loop n ports cfg delay summary s = (r, s')" "left (fst s) < n" "accounted summary"
  shows "(\<exists>e. r = Inl e) \<or> (\<exists>total. r = Inr (Some total) \<and> accounted total
    \<and> rs_polls total \<le> rs_polls summary + int (left (fst s)))"
  using assms(2-4)
proof (induction n arbitrary: summary s)
  case (Suc n)
  from Suc.prems(1) [unfolded poll_loop_Suc] consider e where "r = Inl e" | "r = Inr (Some summary)"
    | s1 result s2 s3 where "call StopChecked (dp_stop_requested ports) s = (Inr False, s1)"
        "poll_once ports cfg s1 = (Inr result, s2)" "idle_wait ports delay result s2 = (Inr (), s3)"
        "poll_loop n ports cfg delay (summary_add summary result) s3 = (r, s')" by blast
  then show ?case
  proof cases
    case 3
    have "left (fst s1) < left (fst s)"
      using 3(1) assms(1) unfolding call_eq winds_down_def by (metis fst_conv snd_conv)
    then have lower: "left (fst s3) < left (fst s)"
      using lowersD [OF lowers_poll [OF assms(1)] 3(2)] lowersD [OF lowers_idle [OF assms(1)] 3(3)] by simp
    moreover have "accounted (summary_add summary result)"
      using Suc.prems(3) poll_accounted [OF 3(2)] by (simp add: accounted_def summary_add_def)
    ultimately have "(\<exists>e. r = Inl e) \<or> (\<exists>total. r = Inr (Some total) \<and> accounted total
        \<and> rs_polls total \<le> rs_polls (summary_add summary result) + int (left (fst s3)))"
      using Suc.IH [OF 3(4)] Suc.prems(2) by simp
    with lower show ?thesis by (force simp: summary_add_def)
  qed (use Suc.prems(3) in auto)
qed simp

text \<open>Fuel that was enough stays enough.\<close>

lemma poll_loop_more:
  "fst (poll_loop n ports cfg delay summary s) \<noteq> Inr None \<Longrightarrow>
     poll_loop (n + k) ports cfg delay summary s = poll_loop n ports cfg delay summary s"
proof (induction n arbitrary: summary s)
  case 0
  then show ?case by (simp add: returnIO_def)
next
  case (Suc n)
  have "poll_loop (Suc n + k) ports cfg delay summary s = (r, s')"
    if "poll_loop (Suc n) ports cfg delay summary s = (r, s')" for r s'
  proof -
    have "fst (poll_loop (Suc n) ports cfg delay summary s) = r" using that by simp
    with Suc.prems have r: "r \<noteq> Inr None" by simp
    have IH: "poll_loop (n + k) ports cfg delay (summary_add summary result) s3 = (r, s')"
      if "poll_loop n ports cfg delay (summary_add summary result) s3 = (r, s')" for result s3
      using Suc.IH [of "summary_add summary result" s3] that r by simp
    from that show ?thesis unfolding add_Suc poll_loop_Suc using IH by blast
  qed
  then show ?case by (cases "poll_loop (Suc n) ports cfg delay summary s") simp
qed

end
