(* ===== verification/Delivery_Properties.thy ===== *)
theory Delivery_Properties
  imports Delivery_Refinement Worker_Loop
begin

text \<open>
  The properties of the delivery queue and its poller: a delivery settles once, a claim takes the oldest due
  rows, a poll accounts for every row and settles every command, and the polling loop stops. The sample is the
  leased job of \<open>Outbox_Properties\<close> as a row.
\<close>

section \<open>Sample rows\<close>

definition sample_row :: outbox_row where
  "sample_row = \<lparr>w_status = R_PENDING, w_id = ''job-1'', w_merchant_id = ''m'', w_aggregate_type = ''case'', w_aggregate_id = ''c1'',
     w_command_type = ''create'', w_command_schema_version = 1, w_command_payload = JObj [], w_idempotency_key = ''k'',
     w_attempt_count = 0, w_max_attempts = 2, w_lease_owner = None, w_lease_token = None, w_lease_expires_at = None,
     w_delivery_version = 0, w_retry_mode = RNORMAL, w_next_attempt_at = 0, w_last_error_code = None, w_last_error_at = None,
     w_completion_reference = None, w_completed_at = None, w_dead_letter_reason = None, w_dead_lettered_at = None,
     w_created_at = 0, w_updated_at = 0\<rparr>"

definition sample_claimed_row :: outbox_row where
  "sample_claimed_row = claim_row 0 10 ''n'' ''w1'' sample_row"

definition sample_claimed_command :: claimed_command where
  "sample_claimed_command = \<lparr>oc_job_id = ''job-1'', oc_merchant_id = ''m'', oc_aggregate_type = ''case'', oc_aggregate_id = ''c1'',
     oc_command_type = ''create'', oc_command_schema_version = 1, oc_command_payload = JObj [], oc_idempotency_key = ''k'',
     oc_attempt_count = 1, oc_max_attempts = 2, oc_worker_id = ''w1'', oc_lease_token = row_lease_token ''n'' sample_row,
     oc_lease_expires_at = 10, oc_delivery_version = 1, oc_retry_mode = RNORMAL, oc_created_at = 0, oc_claimed_at = 0\<rparr>"

definition sample_db :: database where
  "sample_db = \<lparr>db_rows = [sample_claimed_row], db_clock = (\<lambda>n. int n), db_statements = 5, db_locked = (\<lambda>n. {})\<rparr>"

lemmas sample_delivery_defs = sample_row_def sample_claimed_row_def sample_claimed_command_def sample_db_def

lemma sample_agree: "agree sample_row sample_job" "agree sample_claimed_row sample_lease"
  by (simp_all add: agree_def delivery_defs sample_delivery_defs claim_row_def sample_job_def sample_lease_def leased_def)

lemma sample_presents: "presents sample_claimed_command sample_claimed_row" "w_id sample_claimed_row = ''job-1''"
  by (simp_all add: presents_def sample_delivery_defs claim_row_def)

lemma sample_fence: "fence_matches t sample_claimed_command sample_claimed_row \<longleftrightarrow> t < 10"
  by (simp add: fence_matches_def sample_delivery_defs claim_row_def row_lease_token_def)

lemma sample_instants: "in_range 0" "in_range 5" "in_range 10"
  by (simp_all add: in_range_def max_instant_def us_day_def us_second_def)

section \<open>The table\<close>

text \<open>C25. A claimed delivery settles at most once: after a settlement of a command succeeded, no settlement of
  the same command, of whatever kind and at whatever time, finds its row again, in any table reached by any
  interleaving of claims, settlements and insertions.\<close>

theorem delivery_settles_once:
  assumes "pg_settle op f c db = (Inr v, db')" "settlement f" "distinct (map w_id (db_rows db))"
    and "table_step\<^sup>*\<^sup>* (db_rows db') rows"
  shows "settle_statement now g c rows = ([], rows)"
  using held_moves_on [OF assms(1-3)] moved_on_fenced [OF assms(4)] by metis

theorem delivery_settles_once_witness:
  "settle_statement 6 (dead_letter_row ''late'') sample_claimed_command (db_rows (snd (pg_complete sample_claimed_command ''ref'' sample_db)))
     = ([], db_rows (snd (pg_complete sample_claimed_command ''ref'' sample_db)))"
proof -
  have run: "pg_settle ''complete'' (complete_row ''ref'') sample_claimed_command sample_db
      = (Inr 2, after_statement [complete_row ''ref'' 5 sample_claimed_row] sample_db)"
    using sample_fence by (simp add: pg_settle_def settle_statement_def sample_db_def statement_now_def complete_row_def
        released_def sample_claimed_row_def sample_claimed_command_def claim_row_def sample_row_def)
  moreover have "clean_text ''ref'' 500" by code_simp
  ultimately show ?thesis
    using delivery_settles_once [OF run completion, of "db_rows (after_statement [complete_row ''ref'' 5 sample_claimed_row] sample_db)"]
    by (simp add: pg_complete_def sample_db_def)
qed

text \<open>A claim takes the oldest due rows and nothing else: the rows a claim statement changes are due,
  unlocked and at most as many as asked for; every other due and unlocked row is at least as young as
  each of them, and is left out only when the batch is full; and all other rows are untouched.\<close>

lemma claim_takes_oldest:
  assumes "claim_statement now locked n d nonce worker rows = (returned, rows')" "distinct (map w_id rows)"
  shows "\<exists>chosen. set chosen \<subseteq> set rows \<and> distinct chosen \<and> length chosen \<le> n
    \<and> list_all (\<lambda>r. claimable now r \<and> w_id r \<notin> locked) chosen
    \<and> list_all (\<lambda>r. claimable now r \<and> w_id r \<notin> locked \<longrightarrow> r \<in> set chosen
         \<or> length chosen = n \<and> list_all (\<lambda>x. claim_time x \<le> claim_time r) chosen) rows
    \<and> rows' = map (\<lambda>r. if r \<in> set chosen then claim_row now d nonce worker r else r) rows
    \<and> set returned = claim_row now d nonce worker ` set chosen \<and> length returned = length chosen"
proof -
  let ?due = "\<lambda>r. claimable now r \<and> w_id r \<notin> locked"
  let ?claim = "claim_row now d nonce worker"
  obtain ys where ys_def: "ys = sort_key claim_time (sort_key w_id (filter ?due rows))" by blast
  obtain chosen where chosen_def: "chosen = take n ys" by blast
  have inj: "inj_on w_id (set rows)" and "distinct rows" using assms(2) by (auto simp: distinct_map)
  then have ys: "distinct ys" "set ys = {r \<in> set rows. ?due r}" "sorted (map claim_time ys)" by (auto simp: ys_def)
  have chosen: "set chosen \<subseteq> set ys" "distinct chosen" "length chosen \<le> n"
    using set_take_subset [of n ys] distinct_take [OF ys(1)] by (simp_all add: chosen_def)
  have ids: "w_id r \<in> w_id ` set chosen \<longleftrightarrow> r \<in> set chosen" if "r \<in> set rows" for r
    using inj that chosen(1) ys(2) by (subst inj_on_image_mem_iff [OF inj]) auto
  have rows': "rows' = map (\<lambda>r. if r \<in> set chosen then ?claim r else r) rows"
    using assms(1) ids by (auto simp: claim_statement_def claim_candidates_def Let_def ys_def chosen_def)
  have "returned = sort_key w_id (filter (\<lambda>r. w_id r \<in> w_id ` set chosen) rows')"
    using assms(1) by (auto simp: claim_statement_def claim_candidates_def Let_def ys_def chosen_def)
  also have "filter (\<lambda>r. w_id r \<in> w_id ` set chosen) rows' = map ?claim (filter (\<lambda>r. r \<in> set chosen) rows)"
  proof -
    let ?g = "\<lambda>r. if r \<in> set chosen then ?claim r else r"
    have "filter (\<lambda>r. w_id r \<in> w_id ` set chosen) rows' = map ?g (filter (\<lambda>r. w_id (?g r) \<in> w_id ` set chosen) rows)"
      unfolding rows' filter_map comp_def ..
    also have "filter (\<lambda>r. w_id (?g r) \<in> w_id ` set chosen) rows = filter (\<lambda>r. r \<in> set chosen) rows"
      by (rule filter_cong [OF refl]) (simp only: if_distrib [of w_id] claim_row_simps if_cancel ids)
    also have "map ?g \<dots> = map ?claim \<dots>" by (rule map_cong [OF refl]) (simp only: set_filter mem_Collect_eq if_True)
    finally show ?thesis .
  qed
  finally have returned: "returned = sort_key w_id (map ?claim (filter (\<lambda>r. r \<in> set chosen) rows))" .
  have "set chosen \<subseteq> set rows" using chosen(1) ys(2) by (simp only: subset_iff mem_Collect_eq) blast
  note members = filter_members [OF this] filter_members_length [OF this \<open>distinct rows\<close> chosen(2)]
  have "set returned = ?claim ` set chosen" "length returned = length chosen"
    unfolding returned by (simp_all only: set_sort set_map length_sort length_map members)
  moreover have "list_all (\<lambda>r. ?due r \<longrightarrow> r \<in> set chosen \<or> length chosen = n \<and> list_all (\<lambda>x. claim_time x \<le> claim_time r) chosen) rows"
  proof (unfold list_all_iff, intro ballI impI)
    fix r assume "r \<in> set rows" "?due r"
    then have "r \<in> set ys" using ys(2) by simp
    from oldest_first [OF ys(3) this, of n]
    show "r \<in> set chosen \<or> length chosen = n \<and> (\<forall>x\<in>set chosen. claim_time x \<le> claim_time r)"
      by (simp only: list_all_iff chosen_def)
  qed
  moreover have "list_all ?due chosen" using chosen(1) ys(2) by (simp only: list_all_iff subset_iff mem_Collect_eq) blast
  ultimately show ?thesis using \<open>set chosen \<subseteq> set rows\<close> chosen(2,3) rows' by blast
qed

lemma claim_takes_oldest_example:
  "fst (claim_statement 3 {} 1 10 ''n'' ''w'' [sample_row, sample_row\<lparr>w_id := ''job-0'', w_next_attempt_at := 1\<rparr>])
     = [claim_row 3 10 ''n'' ''w'' sample_row]"
proof -
  let ?rows = "[sample_row, sample_row\<lparr>w_id := ''job-0'', w_next_attempt_at := 1\<rparr>]"
  obtain returned rows' where run: "claim_statement 3 {} 1 10 ''n'' ''w'' ?rows = (returned, rows')"
    by (cases "claim_statement 3 {} 1 10 ''n'' ''w'' ?rows")
  have "distinct (map w_id ?rows)" by (simp add: sample_row_def)
  from claim_takes_oldest [OF run this] obtain chosen where chosen: "set chosen \<subseteq> set ?rows" "length chosen \<le> 1"
    "list_all (\<lambda>r. claimable 3 r \<and> w_id r \<notin> {} \<longrightarrow> r \<in> set chosen
       \<or> length chosen = 1 \<and> list_all (\<lambda>x. claim_time x \<le> claim_time r) chosen) ?rows"
    "set returned = claim_row 3 10 ''n'' ''w'' ` set chosen" "length returned = length chosen" by blast
  have times: "claimable 3 sample_row" "claim_time sample_row = 0" "claim_time (sample_row\<lparr>w_id := ''job-0'', w_next_attempt_at := 1\<rparr>) = 1"
    by (simp_all add: sample_row_def claimable_def claim_time_def)
  have "chosen = [sample_row]"
  proof (cases chosen)
    case Nil
    then show ?thesis using chosen(3) times(1) by simp
  next
    case (Cons x xs)
    then have "chosen = [x]" using chosen(2) by simp
    then show ?thesis using chosen(1,3) times by (cases "x = sample_row") auto
  qed
  then have "length returned = 1" "set returned = {claim_row 3 10 ''n'' ''w'' sample_row}"
    using chosen(4,5) by (simp_all only: list.set image_insert image_empty list.size One_nat_def add_0)
  then have "returned = [claim_row 3 10 ''n'' ''w'' sample_row]" by (cases returned) (simp_all add: singleton_iff)
  then show ?thesis using run by (simp only: fst_conv)
qed

section \<open>The table and the job\<close>

text \<open>C26. The claim statement implements the claim of the domain job. A row that agrees with a valid job is
  claimable exactly when the job accepts a claim at that time, and then the claimed row agrees with the claimed
  job: the same phase, owner, lease expiry, retry mode, version and attempts, or both buried.\<close>

theorem claim_implements_job:
  assumes "agree r j" "job_ok j" "clean_text worker 128" "0 < d"
    and "in_range t" "in_range (t + d)" "j_updated_at j \<le> t"
  shows "if claimable t r
    then \<exists>k. claim j worker (utc t) d (j_version j) = Inr k \<and> agree (claim_row t d nonce worker r) k
    else \<exists>e. claim j worker (utc t) d (j_version j) = Inl e"
proof (cases "claimable t r")
  case True
  note ready = True [unfolded claimable_agree [OF assms(1)]]
  show ?thesis
  proof (cases "j_attempts j < j_max_attempts j")
    case less: True
    from claim_ok [OF assms(2,5,6,4,7,3) less ready] claim_row_leased [OF assms(1) _ less] ready True
    show ?thesis by auto
  next
    case False
    then have "j_state j = LEASED" using ready assms(2) by (auto simp: job_ok_def state_ok_def)
    with ready exhausted_claim [OF assms(2,5,4,7,3)] False obtain k where
      "claim j worker (utc t) d (j_version j) = Inr k" "j_state k = DEAD_LETTER" "j_version k = j_version j + 1"
      "j_attempts k = j_attempts j" "j_max_attempts k = j_max_attempts j" by auto
    moreover from this have "agree (claim_row t d nonce worker r) k"
      using agree_counts [OF assms(1)] False by (intro agreeI) (auto simp: claim_row_def job_phase_def row_phase_def)
    ultimately show ?thesis using True by auto
  qed
next
  case False
  have "claim j worker (utc t) d (j_version j) \<noteq> Inr k" for k
  proof
    assume "claim j worker (utc t) d (j_version j) = Inr k"
    from claim_Inr [OF this] False [unfolded claimable_agree [OF assms(1)]] show False by (auto simp: assms(5))
  qed
  then show ?thesis using False by (cases "claim j worker (utc t) d (j_version j)") auto
qed

theorem claim_implements_job_witness:
  "claim sample_job ''w1'' (utc 0) 10 0 = Inr sample_lease \<and> agree sample_claimed_row sample_lease"
proof -
  have "claimable 0 sample_row" "j_version sample_job = 0" "j_updated_at sample_job = 0"
    by (simp_all add: claimable_def sample_row_def sample_job_def)
  with claim_implements_job [OF sample_agree(1) sample_job_ok sample_clean(3), of 10 0 "''n''"] sample_claim
  show ?thesis by (simp add: sample_instants sample_claimed_row_def)
qed

text \<open>C27. The fenced settlements of the repository against the settlements of the domain job, for every request.
  The row agrees with a valid leased job and belongs to the command that claimed it. A request whose text the
  repository does not store is refused with \<open>ValueError\<close> before any statement: a reference or reason that is not clean
  text of at most 500 characters, or, on a spent budget, one whose 477-character cut is not clean. Otherwise the
  fence opens exactly when the job still accepts its lease. Open, the repository settles the row, and only that row,
  and answers the next version; the job settles exactly the requests it takes (texts of at most 512 characters, on
  a spent budget a reason of at most 489, else an instant of the next attempt inside the calendar), and then the row
  agrees with the settled job, a retry on a spent budget being a burial. Closed, the repository reports the lost
  fence, no row changes, and the job refuses as well.\<close>

theorem settlement_implements_job:
  assumes "row_of (db_rows db) (oc_job_id c) = Some r" "distinct (map w_id (db_rows db))" "presents c r"
    and "agree r j" "job_ok j" "j_state j = LEASED" "t = statement_now db"
    and "clean_text (oc_worker_id c) 128" "clean_text (held_token j) 128" "in_range t" "j_updated_at j \<le> t"
  shows "\<exists>res db'. pg_request b req c db = (res, db') \<and>
    (if \<not> repository_takes req c then (\<exists>msg. res = Inl (ValueError msg)) \<and> db' = db
     else if fence_matches t c r
     then \<exists>r'. res = Inr (j_version j + 1) \<and> row_of (db_rows db') (oc_job_id c) = Some r'
       \<and> (\<forall>i. i \<noteq> oc_job_id c \<longrightarrow> row_of (db_rows db') i = row_of (db_rows db) i)
       \<and> (if job_takes b req t j
          then \<exists>k. job_settle b req (oc_worker_id c) t j = Inr k \<and> j_version k = j_version j + 1 \<and> agree r' k
          else \<exists>e. job_settle b req (oc_worker_id c) t j = Inl e)
     else (\<exists>msg. res = Inl (OutboxFenceLost msg)) \<and> db_rows db' = db_rows db
       \<and> (\<exists>e. job_settle b req (oc_worker_id c) t j = Inl e))"
proof (cases "repository_takes req c")
  case False
  then obtain msg where "pg_request b req c db = (Inl (ValueError msg), db)" using pg_request_refused by blast
  with False show ?thesis by auto
next
  case takes: True
  have r: "r \<in> set (db_rows db)" "w_id r = oc_job_id c" using row_of_SomeD [OF assms(1)] by auto
  have fence: "fence_matches t c r \<longleftrightarrow> holds_lease j (oc_worker_id c) (held_token j) t"
    using fence_is_lease [OF assms(4-6,3)] .
  have counts: "1 \<le> oc_attempt_count c" "oc_delivery_version c = j_version j"
    using assms(3,5,6) agree_counts [OF assms(4)] by (simp_all add: presents_def job_ok_def state_ok_def)
  then obtain op where op: "pg_request b req c db = pg_settle op (row_settle b req c) c db" "settlement (row_settle b req c)"
    using pg_request_settles [OF takes] by blast
  obtain res db' where run: "pg_settle op (row_settle b req c) c db = (res, db')" by (cases "pg_settle op (row_settle b req c) c db")
  from run op(2) assms(2) show ?thesis
  proof (cases rule: settle_cases)
    case lost
    then have "\<not> fence_matches t c r" using r(1) assms(7) by (simp add: list_all_iff)
    moreover from this settle_fails [OF assms(6) _ refl] fence obtain e where "job_settle b req (oc_worker_id c) t j = Inl e"
      by blast
    ultimately show ?thesis using lost op(1) run takes by auto
  next
    case (held x)
    from fence_version [OF held(3)] r row_of_in [OF assms(2) held(2)] assms(1) have "x = r" by simp
    then have open_fence: "fence_matches t c r" using held(3) assms(7) by simp
    have row: "row_of (db_rows db') (oc_job_id c) = Some (row_settle b req c t r)"
      using held(4) assms(1,7) open_fence by (simp add: settle_statement_def row_of_map settlement_row [OF op(2)])
    have others: "row_of (db_rows db') i = row_of (db_rows db) i" if "i \<noteq> oc_job_id c" for i
      using that row_of_SomeD [of "db_rows db" i] fence_version [of "statement_now db" c]
      by (cases "row_of (db_rows db) i") (auto simp: held(4) settle_statement_def row_of_map settlement_row [OF op(2)])
    have job: "if job_takes b req t j
        then \<exists>k. job_settle b req (oc_worker_id c) t j = Inr k \<and> j_version k = j_version j + 1 \<and> agree (row_settle b req c t r) k
        else \<exists>e. job_settle b req (oc_worker_id c) t j = Inl e"
      using settle_succeeds [OF assms(4,5) _ _ assms(3,8-11), of b req] fence open_fence settle_refused [OF _ assms(6,10)]
        agree_counts settlement_row [OF op(2), of t r] assms(3) counts(2) by (force simp: presents_def)
    show ?thesis using takes op(1) run open_fence held(1) counts(2) row others job by auto
  qed
qed

lemma sample_row_found: "row_of (db_rows sample_db) (oc_job_id sample_claimed_command) = Some sample_claimed_row"
  using sample_presents by (simp add: row_of_def sample_db_def presents_def)

definition sample_backoff :: backoff_policy where
  "sample_backoff = \<lparr>base_delay = 1, maximum_delay = 8\<rparr>"

theorem settlement_implements_job_witness:
  "\<exists>k r'. job_settle sample_backoff (Finish ''done'') ''w1'' 5 sample_lease = Inr k \<and> agree r' k
     \<and> fst (pg_request sample_backoff (Finish ''done'') sample_claimed_command sample_db) = Inr (j_version k)"
proof -
  have lease: "j_state sample_lease = LEASED" "j_updated_at sample_lease = 0" by (simp_all add: sample_lease_def leased_def)
  have tok: "clean_text (held_token sample_lease) 128"
    using sample_lease_ok lease(1) clean_lease_token clean_lease_token [THEN clean_text_def [THEN iffD1]]
    by (simp add: sample_lease_def leased_def held_token_def)
  have db: "statement_now sample_db = 5" "distinct (map w_id (db_rows sample_db))" by (simp_all add: sample_db_def statement_now_def)
  have takes: "repository_takes (Finish ''done'') sample_claimed_command" "job_takes sample_backoff (Finish ''done'') 5 sample_lease"
    unfolding repository_takes_def job_takes_def settlement_request.case by code_simp+
  have worker: "oc_worker_id sample_claimed_command = ''w1''" by (simp add: sample_claimed_command_def)
  note at_sample = settlement_implements_job [OF sample_row_found db(2) sample_presents(1) sample_agree(2) sample_lease_ok lease(1)
      db(1) [symmetric], unfolded worker, OF sample_clean(3) tok sample_instants(2), where b = sample_backoff and req = "Finish ''done''"]
  have "j_updated_at sample_lease \<le> 5" using lease(2) by simp
  from at_sample [OF this] obtain r' k where
    "fst (pg_request sample_backoff (Finish ''done'') sample_claimed_command sample_db) = Inr (j_version sample_lease + 1)"
    "job_settle sample_backoff (Finish ''done'') ''w1'' 5 sample_lease = Inr k" "j_version k = j_version sample_lease + 1" "agree r' k"
    using takes sample_fence [of 5] by auto
  then show ?thesis by auto
qed

section \<open>The worker\<close>

text \<open>A worker on the PostgreSQL queue, with any handlers.\<close>

definition queue_worker :: "pystr \<Rightarrow> backoff_policy \<Rightarrow> database delivery_ports \<Rightarrow> bool" where
  "queue_worker nonce backoff ports =
     (dp_claim_batch ports = pg_claim_batch nonce \<and> dp_complete ports = pg_complete \<and> dp_retry ports = pg_retry backoff
      \<and> dp_dead_letter ports = pg_dead_letter)"

definition pg_claims :: "pystr \<Rightarrow> worker_config \<Rightarrow> database \<Rightarrow> exn + claim_batch" where
  "pg_claims nonce cfg db = fst (pg_claim_batch nonce (wc_worker_id cfg) (wc_batch_size cfg) (wc_lease_duration cfg) db)"

lemma queue_worker_uses: "queue_worker nonce backoff ports = pg_queue.uses nonce backoff ports"
  by (simp add: queue_worker_def pg_queue.uses_def)

text \<open>C28. A poll of the queue settles what it claims, in order, whatever the handlers do. Either the claim
  raised, and nothing else happened; or the batch was claimed, and the repository was asked to settle its commands in
  order, each at most once, and nothing else. The poll then either returned, with every claimed command settled
  and every selected row given exactly one outcome in its counts; or it raised, and then a handler registered for a
  claimed command gave an answer that the queue cannot store: a result whose reference or reason is not clean text of
  at most 500 characters (for a retry also after the cut to 477), or an exception whose class name makes no such
  reason. Raises and answers of any other kind never keep the poll from returning.\<close>

theorem poll_settles_batch:
  assumes "queue_worker nonce backoff ports" "poll_once ports cfg s = (r, s')"
  shows "(\<exists>e. pg_claims nonce cfg (fst s) = Inl e \<and> r = Inl e \<and> snd s' = snd s @ [BatchClaimed (Inl e)])
    \<or> (\<exists>b tr rest. pg_claims nonce cfg (fst s) = Inr b \<and> snd s' = snd s @ BatchClaimed (Inr b) # tr
        \<and> cb_commands b = settlements tr @ rest
        \<and> (case r of
             Inr p \<Rightarrow> rest = [] \<and> pl_selected p = cb_selected_count b \<and> pl_claimed p = int (length (cb_commands b))
               \<and> pl_succeeded p + pl_retried p + pl_dead_lettered p + pl_fence_lost p = pl_selected p
           | Inl e \<Rightarrow> \<exists>c \<in> set (cb_commands b). unstorable_answer ports c tr))"
  using pg_queue.poll_accounts [OF assms(2) assms(1) [unfolded queue_worker_uses]]
proof cases
  case (1 e)
  then show ?thesis unfolding pg_claims_def by blast
next
  case (2 b p tr)
  then show ?thesis unfolding pg_claims_def pg_queue.outcomes_def
    by (intro disjI2 exI [of _ b] exI [of _ tr] exI [of _ "[]"]) simp
next
  case (3 b e tr rest c)
  then show ?thesis unfolding pg_claims_def
    by (intro disjI2 exI [of _ b] exI [of _ tr] exI [of _ rest]) auto
qed

text \<open>The sample row with database identifiers, due at once, and a worker that has no handler for it.\<close>

definition sample_queue :: database where
  "sample_queue = \<lparr>db_rows = [sample_row\<lparr>w_id := replicate 26 (CHR ''7''), w_merchant_id := replicate 26 (CHR ''1'')\<rparr>],
     db_clock = (\<lambda>n. int n), db_statements = 5, db_locked = (\<lambda>n. {})\<rparr>"

definition sample_worker_ports :: "database delivery_ports" where
  "sample_worker_ports = \<lparr>dp_claim_batch = pg_claim_batch ''n'', dp_complete = pg_complete,
     dp_retry = pg_retry \<lparr>base_delay = 1, maximum_delay = 8\<rparr>, dp_dead_letter = pg_dead_letter, dp_handlers = [],
     dp_stop_requested = (\<lambda>w. (Inr (9 < db_statements w), w\<lparr>db_statements := db_statements w + 1\<rparr>)),
     dp_sleep = (\<lambda>d w. (Inr (), w))\<rparr>"

definition sample_worker :: worker_config where
  "sample_worker = \<lparr>wc_worker_id = ''w1'', wc_batch_size = 1, wc_lease_duration = 10\<rparr>"

lemma sample_queue_claim: "\<exists>b. fst (pg_claim_batch ''n'' ''w1'' 1 10 sample_queue) = Inr b \<and> cb_selected_count b = 1 \<and> length (cb_commands b) = 1"
proof -
  have texts: "clean_text ''w1'' 128" "clean_text ''n'' 96" "clean_text ''case'' 100" "clean_text ''c1'' 200" "clean_text ''create'' 100"
    "clean_text ''k'' 300" "clean_text (row_lease_token ''n'' (sample_row\<lparr>w_id := replicate 26 (CHR ''7'')\<rparr>)) 200"
    "list_all is_ulid_char (replicate 26 (CHR ''7''))" "list_all is_ulid_char (replicate 26 (CHR ''1''))"
    by code_simp+
  then show ?thesis
    by (simp add: pg_claim_batch_def check_claim_arguments_def sample_queue_def statement_now_def claim_statement_def
        claim_candidates_def claimable_def sample_row_def claim_row_def claimed_from_row_def mk_claimed_command_def
        internal_ulid_def positive_int_def object_payload_def mk_claim_batch_def us_minute_def us_second_def row_lease_token_def)
qed

theorem poll_settles_batch_witness:
  "\<exists>p tr. fst (poll_once sample_worker_ports sample_worker (sample_queue, [])) = Inr p \<and> pl_selected p = 1
     \<and> snd (snd (poll_once sample_worker_ports sample_worker (sample_queue, []))) = tr \<and> length (settlements tr) = 1"
proof -
  have worker: "queue_worker ''n'' \<lparr>base_delay = 1, maximum_delay = 8\<rparr> sample_worker_ports"
    by (simp add: queue_worker_def sample_worker_ports_def)
  obtain b where b: "fst (pg_claim_batch ''n'' ''w1'' 1 10 sample_queue) = Inr b" "cb_selected_count b = 1" "length (cb_commands b) = 1"
    using sample_queue_claim by blast
  obtain r s' where run: "poll_once sample_worker_ports sample_worker (sample_queue, []) = (r, s')"
    by (cases "poll_once sample_worker_ports sample_worker (sample_queue, [])")
  have "pg_claims ''n'' sample_worker (fst (sample_queue, [])) = Inr b" using b(1) by (simp add: pg_claims_def sample_worker_def)
  moreover have "\<not> unstorable_answer sample_worker_ports c tr" for c tr
    by (simp add: unstorable_answer_def sample_worker_ports_def)
  ultimately show ?thesis using poll_settles_batch [OF worker run] b(2,3) run by (cases r) auto
qed

text \<open>C29. The polling loop ends. When every stop check that answers no brings the stop nearer on some measure of
  the world, and no other call moves it away, fuel above that measure is enough: the loop returns a summary or
  raises, more fuel changes nothing, and the summary counts at most that many polls and gives every selected row
  one outcome.\<close>

theorem polling_ends:
  assumes "winds_down left ports" "left (fst s) < n"
  shows "(\<forall>k. run_until_stopped (n + k) ports cfg delay s = run_until_stopped n ports cfg delay s)
    \<and> ((\<exists>e s'. run_until_stopped n ports cfg delay s = (Inl e, s'))
      \<or> (\<exists>total s'. run_until_stopped n ports cfg delay s = (Inr (Some total), s') \<and> rs_polls total \<le> int (left (fst s))
          \<and> pl_succeeded total + pl_retried total + pl_dead_lettered total + pl_fence_lost total = pl_selected total))"
proof -
  obtain r s' where run: "poll_loop n ports cfg delay empty_summary s = (r, s')" by (cases "poll_loop n ports cfg delay empty_summary s")
  have "accounted empty_summary" "rs_polls empty_summary = 0" by (simp_all add: accounted_def empty_summary_def)
  with poll_loop_ends [OF assms(1) run assms(2)] have ends: "(\<exists>e. r = Inl e)
      \<or> (\<exists>total. r = Inr (Some total) \<and> accounted total \<and> rs_polls total \<le> int (left (fst s)))" by simp
  then have "fst (poll_loop n ports cfg delay empty_summary s) \<noteq> Inr None" using run by auto
  from poll_loop_more [OF this] have "run_until_stopped (n + k) ports cfg delay s = run_until_stopped n ports cfg delay s" for k
    by (cases "check_idle_delay delay") (simp_all add: run_until_stopped_def)
  moreover have "run_until_stopped n ports cfg delay s = (r, s') \<or> (\<exists>e. run_until_stopped n ports cfg delay s = (Inl e, s))"
    using run by (cases "check_idle_delay delay") (simp_all add: run_until_stopped_def)
  ultimately show ?thesis using ends unfolding accounted_def by metis
qed

lemma pg_statements:
  "db_statements db \<le> db_statements (snd (pg_claim_batch nonce worker n d db))"
  "db_statements db \<le> db_statements (snd (pg_complete c reference db))"
  "db_statements db \<le> db_statements (snd (pg_dead_letter c reason db))"
  "db_statements db \<le> db_statements (snd (pg_retry b c reason mode db))"
  by (auto simp: pg_claim_batch_def pg_complete_def pg_dead_letter_def pg_retry_def pg_settle_def after_statement_def
      split: sum.split prod.split list.split)

lemma sample_winds_down: "winds_down (\<lambda>db. 10 - db_statements db) sample_worker_ports"
  using pg_statements by (auto simp: winds_down_def port_lowers_def sample_worker_ports_def diff_le_mono2)

theorem polling_ends_witness:
  "\<exists>total s'. run_until_stopped 6 sample_worker_ports sample_worker us_second (sample_queue, []) = (total, s') \<and> total \<noteq> Inr None"
  using polling_ends [OF sample_winds_down, of "(sample_queue, [])" 6 sample_worker us_second]
  by (auto simp: sample_queue_def)

section \<open>A retry that cannot be buried\<close>

text \<open>When the budget is spent and the 477-character cut of the reason ends in white space, the reason that
  \<open>_prefixed_reason\<close> builds is refused by the dead letter: the retry raises \<open>ValueError\<close>, which is no lost fence,
  and leaves the row leased.\<close>

lemma exhausted_retry_raises:
  assumes "clean_text reason 500" "477 \<le> length reason" "is_space (reason ! 476)" "oc_max_attempts c \<le> oc_attempt_count c"
  shows "\<exists>msg. pg_retry b c reason mode db = (Inl (ValueError msg), db)"
proof -
  have "last (take 477 reason) = reason ! 476" using assms(2) by (subst last_conv_nth) auto
  moreover have "take 477 reason \<noteq> []" using assms(2) by auto
  ultimately have "is_space (last (''max_attempts_exhausted:'' @ take 477 reason))" using assms(3) by simp
  then have "\<not> clean_text (''max_attempts_exhausted:'' @ take 477 reason) 500"
    using strip_id [of "''max_attempts_exhausted:'' @ take 477 reason"] by (auto simp: clean_text_def simp del: append_Cons)
  then show ?thesis using assms(1,4)
    by (simp add: pg_retry_def prefixed_reason_def pg_dead_letter_def) (simp add: bounded_text_def)
qed

end
