(* ===== verification/Audited_Controls.thy ===== *)
theory Audited_Controls
  imports Digests Errors
begin

text \<open>
  What the two operator controls of \<^verbatim>\<open>services/control_plane\<close> (the merchant kill switch and the diagnosis mode)
  share: tables of immutable events with a sequence number per merchant, requests identified by the digest of an
  idempotency key, ULIDs, and the contract of such a control as a locale: every accepted request is recorded
  once, replays change nothing, and the current value is that of the last event.
\<close>

section \<open>ULIDs\<close>

definition crockford_base32 :: pystr where
  "crockford_base32 = ''0123456789ABCDEFGHJKMNPQRSTVWXYZ''"

text \<open>\<^verbatim>\<open>for index in range(25, -1, -1): characters[index] = alphabet[value & 31]; value >>= 5\<close>.\<close>

fun ulid_characters :: "nat \<Rightarrow> nat \<Rightarrow> pystr \<Rightarrow> pystr" where
  "ulid_characters 0 v acc = acc"
| "ulid_characters (Suc n) v acc = ulid_characters n (v div 32) (crockford_base32 ! (v mod 32) # acc)"

definition ulid_text :: "nat \<Rightarrow> nat \<Rightarrow> pystr" where
  "ulid_text ms random = ulid_characters 26 (ms * 2 ^ 80 + random) []"

definition is_ulid :: "pystr \<Rightarrow> bool" where
  "is_ulid s = (length s = 26 \<and> list_all (\<lambda>c. is_digit c \<or> is_upper c \<and> c \<notin> set ''ILOU'') s)"

lemma crockford_ulid: "d < 32 \<Longrightarrow> is_digit (crockford_base32 ! d) \<or> is_upper (crockford_base32 ! d) \<and> crockford_base32 ! d \<notin> set ''ILOU''"
proof -
  have "list_all (\<lambda>c. is_digit c \<or> is_upper c \<and> c \<notin> set ''ILOU'') crockford_base32" by code_simp
  moreover have "length crockford_base32 = 32" by code_simp
  ultimately show "d < 32 \<Longrightarrow> ?thesis" by (auto simp: list_all_length)
qed

lemma ulid_characters_shape:
  "length (ulid_characters n v acc) = n + length acc"
  "list_all (\<lambda>c. is_digit c \<or> is_upper c \<and> c \<notin> set ''ILOU'') acc \<Longrightarrow>
     list_all (\<lambda>c. is_digit c \<or> is_upper c \<and> c \<notin> set ''ILOU'') (ulid_characters n v acc)"
  by (induction n arbitrary: v acc) (use crockford_ulid in auto)

lemma ulid_text_valid: "is_ulid (ulid_text ms random)"
  unfolding is_ulid_def ulid_text_def using ulid_characters_shape(2) [of "[]"] by (simp add: ulid_characters_shape(1))

lemma crockford_inj: "d < 32 \<Longrightarrow> d' < 32 \<Longrightarrow> crockford_base32 ! d = crockford_base32 ! d' \<Longrightarrow> d = d'"
proof -
  have "distinct crockford_base32" "length crockford_base32 = 32" by code_simp+
  then show "d < 32 \<Longrightarrow> d' < 32 \<Longrightarrow> crockford_base32 ! d = crockford_base32 ! d' \<Longrightarrow> d = d'"
    by (simp add: nth_eq_iff_index_eq)
qed

lemma ulid_characters_inj:
  "ulid_characters n v acc = ulid_characters n v' acc' \<Longrightarrow> length acc = length acc' \<Longrightarrow> v mod 32 ^ n = v' mod 32 ^ n \<and> acc = acc'"
proof (induction n arbitrary: v v' acc acc')
  case (Suc n)
  from Suc.IH [OF Suc.prems(1) [unfolded ulid_characters.simps]] Suc.prems(2)
  have eq: "v div 32 mod 32 ^ n = v' div 32 mod 32 ^ n" "crockford_base32 ! (v mod 32) = crockford_base32 ! (v' mod 32)" "acc = acc'"
    by simp_all
  then have "v mod 32 = v' mod 32" by (intro crockford_inj) simp_all
  with eq show ?case by (simp add: mod_mult2_eq)
qed simp

text \<open>Two identifiers are equal only when the time and the random bits are.\<close>

lemma ulid_text_inj:
  assumes "ms < 2 ^ 48" "ms' < 2 ^ 48" "random < 2 ^ 80" "random' < 2 ^ 80"
    and "ulid_text ms random = ulid_text ms' random'"
  shows "ms = ms' \<and> random = random'"
proof -
  have small: "a * 2 ^ 80 + b < 32 ^ 26" if "a < 2 ^ 48" "b < 2 ^ 80" for a b :: nat
  proof -
    have "a * 2 ^ 80 + b < (a + 1) * 2 ^ 80" using that(2) by simp
    also have "\<dots> \<le> 2 ^ 48 * 2 ^ 80" using that(1) by (intro mult_le_mono1) simp
    also have "\<dots> \<le> (32::nat) ^ 26" by simp
    finally show ?thesis .
  qed
  from ulid_characters_inj [OF assms(5) [unfolded ulid_text_def]] small [OF assms(1,3)] small [OF assms(2,4)]
  have eq: "ms * 2 ^ 80 + random = ms' * 2 ^ 80 + random'" by (simp only: mod_less)
  then have "(ms * 2 ^ 80 + random) div 2 ^ 80 = (ms' * 2 ^ 80 + random') div 2 ^ 80" by (rule arg_cong)
  then have "ms = ms'" using assms(3,4) by (simp del: power_numeral)
  with eq show ?thesis by simp
qed

section \<open>Events and requests\<close>

record 'v audit_event =
  ae_id :: pystr
  ae_merchant :: pystr
  ae_sequence :: int
  ae_value :: 'v
  ae_reason :: pystr
  ae_actor :: bytes
  ae_key :: bytes
  ae_created_at :: int

definition text_digest :: "pystr \<Rightarrow> bytes" where
  "text_digest value = sha256 (utf8 value)"

definition clean_control :: "pystr \<Rightarrow> nat \<Rightarrow> nat \<Rightarrow> bool" where
  "clean_control value minimum maximum =
     (value = strip value \<and> minimum \<le> length value \<and> length value \<le> maximum \<and> \<not> list_ex is_control value)"

definition control_text :: "pystr \<Rightarrow> pystr \<Rightarrow> nat \<Rightarrow> nat \<Rightarrow> exn + pystr" where
  "control_text value fld minimum maximum =
     (if clean_control value minimum maximum then Inr value else Inl (ValueError (fld @ '' is invalid'')))"

definition control_ulid :: "pystr \<Rightarrow> pystr \<Rightarrow> exn + pystr" where
  "control_ulid value fld = (if is_ulid value then Inr value else Inl (ValueError (fld @ '' must be a RetryWise ULID'')))"

lemma control_checks [simp]:
  "control_text v f lo hi = Inr u \<longleftrightarrow> clean_control v lo hi \<and> u = v"
  "control_ulid v f = Inr u \<longleftrightarrow> is_ulid v \<and> u = v"
  by (auto simp: control_text_def control_ulid_def)

text \<open>The queries of the modules: the event of an idempotency key, the next sequence number, the last event.\<close>

definition merchant_events :: "pystr \<Rightarrow> 'v audit_event list \<Rightarrow> 'v audit_event list" where
  "merchant_events m evs = filter (\<lambda>e. ae_merchant e = m) evs"

definition find_event :: "pystr \<Rightarrow> bytes \<Rightarrow> 'v audit_event list \<Rightarrow> 'v audit_event option" where
  "find_event m key evs = find (\<lambda>e. ae_merchant e = m \<and> ae_key e = key) evs"

definition next_sequence :: "pystr \<Rightarrow> 'v audit_event list \<Rightarrow> int" where
  "next_sequence m evs = fold max (map ae_sequence (merchant_events m evs)) 0 + 1"

definition later_event :: "'v audit_event \<Rightarrow> 'v audit_event \<Rightarrow> 'v audit_event" where
  "later_event e best = (if ae_sequence best < ae_sequence e then e else best)"

definition last_event :: "pystr \<Rightarrow> 'v audit_event list \<Rightarrow> 'v audit_event option" where
  "last_event m evs = (case merchant_events m evs of [] \<Rightarrow> None | e # es \<Rightarrow> Some (fold later_event es e))"

lemma merchant_events_append [simp]:
  "merchant_events m (evs @ [e]) = (if ae_merchant e = m then merchant_events m evs @ [e] else merchant_events m evs)"
  "merchant_events m [] = []"
  by (simp_all add: merchant_events_def)

lemma find_event_append:
  "find_event m key (evs @ [e]) = (case find_event m key evs of Some x \<Rightarrow> Some x
     | None \<Rightarrow> if ae_merchant e = m \<and> ae_key e = key then Some e else None)"
  by (induction evs) (auto simp: find_event_def)

section \<open>Event tables in order\<close>

text \<open>The events of each merchant carry the numbers 1, 2, 3, and so on, in the order of insertion, and no
  identifier or key twice.\<close>

definition in_sequence :: "'v audit_event list \<Rightarrow> bool" where
  "in_sequence evs =
     (distinct (map ae_id evs)
      \<and> (\<forall>m. map ae_sequence (merchant_events m evs) = map int [1..<Suc (length (merchant_events m evs))]
            \<and> distinct (map ae_key (merchant_events m evs))))"

lemma fold_max_upt: "fold max (map int [1..<Suc n]) (0::int) = int n"
  by (induction n) auto

lemma next_in_sequence: "in_sequence evs \<Longrightarrow> next_sequence m evs = int (length (merchant_events m evs)) + 1"
  using fold_max_upt by (simp add: in_sequence_def next_sequence_def del: upt_Suc)

lemma find_event_None: "find_event m key evs = None \<longleftrightarrow> key \<notin> ae_key ` set (merchant_events m evs)"
  by (auto simp: find_event_def find_None_iff merchant_events_def)

lemma in_sequence_snoc:
  assumes "in_sequence evs" "ae_id e \<notin> ae_id ` set evs" "ae_sequence e = next_sequence (ae_merchant e) evs"
    and "find_event (ae_merchant e) (ae_key e) evs = None"
  shows "in_sequence (evs @ [e])"
  using assms(1,2,4) unfolding in_sequence_def
  by (auto simp: assms(3) next_in_sequence [OF assms(1)] find_event_None)

lemma last_in_sequence:
  assumes "in_sequence evs"
  shows "last_event m evs = (if merchant_events m evs = [] then None else Some (last (merchant_events m evs)))"
proof -
  have "fold later_event es e = last (e # es)" if "sorted_wrt (<) (map ae_sequence (e # es))" for e :: "'a audit_event" and es
    using that
  proof (induction es arbitrary: e)
    case (Cons x xs)
    then have "later_event x e = x" by (simp add: later_event_def)
    with Cons show ?case by simp
  qed simp
  moreover have "sorted_wrt (<) (map ae_sequence (merchant_events m evs))"
    using assms by (simp add: in_sequence_def sorted_wrt_map del: upt_Suc)
  ultimately show ?thesis by (cases "merchant_events m evs") (simp_all add: last_event_def)
qed

section \<open>The contract of a control\<close>

record 'v control_request =
  rq_merchant :: pystr
  rq_value :: 'v
  rq_reason :: pystr
  rq_subject :: pystr
  rq_key :: pystr
  rq_event_id :: pystr

text \<open>An event records the request with the reason \<open>why\<close>.\<close>

definition records :: "pystr \<Rightarrow> 'v control_request \<Rightarrow> 'v audit_event \<Rightarrow> bool" where
  "records why q e =
     (ae_merchant e = rq_merchant q \<and> ae_value e = rq_value q \<and> ae_reason e = why
      \<and> ae_actor e = text_digest (rq_subject q) \<and> ae_key e = text_digest (rq_key q))"

locale audited_control =
  fixes events :: "'s \<Rightarrow> 'v audit_event list"
    and setting :: "'s \<Rightarrow> pystr \<Rightarrow> 'v option"
    and reason_of :: "'v control_request \<Rightarrow> pystr"
    and submit :: "'v control_request \<Rightarrow> 's \<Rightarrow> (exn + 'a) \<times> 's"
    and elsewhere :: "'s \<Rightarrow> 's \<Rightarrow> bool"
  assumes refused: "submit q s = (Inl e, s') \<Longrightarrow> s' = s"
    and replayed: "submit q s = (Inr x, s') \<Longrightarrow> find_event (rq_merchant q) (text_digest (rq_key q)) (events s) = Some ev \<Longrightarrow>
      s' = s \<and> records (reason_of q) q ev"
    and recorded: "submit q s = (Inr x, s') \<Longrightarrow> find_event (rq_merchant q) (text_digest (rq_key q)) (events s) = None \<Longrightarrow>
      \<exists>ev. events s' = events s @ [ev] \<and> records (reason_of q) q ev \<and> ae_id ev = rq_event_id q \<and> rq_event_id q \<notin> ae_id ` set (events s)
        \<and> ae_sequence ev = next_sequence (rq_merchant q) (events s)
        \<and> setting s' = (setting s)(rq_merchant q \<mapsto> rq_value q)"
    and apart: "elsewhere s s' \<Longrightarrow> events s' = events s \<and> setting s' = setting s"
begin

inductive control_step :: "'s \<Rightarrow> 's \<Rightarrow> bool" where
  submitted: "submit q s = (r, s') \<Longrightarrow> control_step s s'"
| unrelated: "elsewhere s s' \<Longrightarrow> control_step s s'"

definition kept :: "'s \<Rightarrow> bool" where
  "kept s = (in_sequence (events s) \<and> (\<forall>m e. last_event m (events s) = Some e \<longrightarrow> setting s m = Some (ae_value e)))"

lemma submit_cases:
  assumes "submit q s = (r, s')"
  obtains (same) "s' = s"
  | (new) x ev where "r = Inr x" "find_event (rq_merchant q) (text_digest (rq_key q)) (events s) = None"
      "events s' = events s @ [ev]" "records (reason_of q) q ev" "ae_id ev = rq_event_id q" "rq_event_id q \<notin> ae_id ` set (events s)"
      "ae_sequence ev = next_sequence (rq_merchant q) (events s)" "setting s' = (setting s)(rq_merchant q \<mapsto> rq_value q)"
proof (cases r)
  case (Inl e)
  with refused assms show thesis by (intro same) blast
next
  case (Inr x)
  show thesis
  proof (cases "find_event (rq_merchant q) (text_digest (rq_key q)) (events s)")
    case None
    from recorded [OF assms [unfolded Inr] None] obtain ev where "events s' = events s @ [ev]" "records (reason_of q) q ev"
      "ae_id ev = rq_event_id q" "rq_event_id q \<notin> ae_id ` set (events s)"
      "ae_sequence ev = next_sequence (rq_merchant q) (events s)" "setting s' = (setting s)(rq_merchant q \<mapsto> rq_value q)" by blast
    with Inr None show thesis by (rule new)
  next
    case (Some ev)
    with replayed [OF assms [unfolded Inr]] show thesis by (intro same) blast
  qed
qed

lemma kept_submit:
  assumes "submit q s = (r, s')" "kept s"
  shows "kept s'"
  using assms(1)
proof (cases rule: submit_cases)
  case same
  then show ?thesis using assms(2) by simp
next
  case (new x ev)
  have seq: "in_sequence (events s')"
    unfolding new(3) using assms(2) new by (intro in_sequence_snoc) (simp_all add: kept_def records_def)
  moreover have "setting s' m = Some (ae_value e)" if "last_event m (events s') = Some e" for m e
  proof (cases "m = rq_merchant q")
    case True
    then have "e = ev" using that new(4) unfolding last_in_sequence [OF seq] unfolding new(3) by (simp add: records_def)
    then show ?thesis using True new(4,8) by (simp add: records_def)
  next
    case False
    then have "merchant_events m (events s') = merchant_events m (events s)" using new(3,4) by (auto simp: records_def)
    then have "last_event m (events s) = Some e" using that by (simp add: last_event_def)
    then show ?thesis using assms(2) new(8) False by (simp add: kept_def)
  qed
  ultimately show ?thesis by (simp add: kept_def)
qed

lemma kept_steps: "control_step\<^sup>*\<^sup>* s s' \<Longrightarrow> kept s \<Longrightarrow> kept s'"
proof (induction rule: rtranclp_induct)
  case (step s1 s2)
  from step.hyps(2) step.IH [OF step.prems] show ?case
  proof cases
    case unrelated
    from apart [OF this] step.IH [OF step.prems] show ?thesis by (simp add: kept_def)
  qed (rule kept_submit)
qed simp

lemma found_forever:
  "control_step\<^sup>*\<^sup>* s s' \<Longrightarrow> find_event m key (events s) = Some ev \<Longrightarrow> find_event m key (events s') = Some ev"
proof (induction rule: rtranclp_induct)
  case (step s1 s2)
  from step.hyps(2) step.IH [OF step.prems] show ?case
  proof cases
    case (submitted q r)
    from submitted step.IH [OF step.prems] show ?thesis by (cases rule: submit_cases) (simp_all add: find_event_append)
  qed (auto dest: apart)
qed simp

text \<open>After a request was accepted, every later request with its key for the same merchant changes nothing, and
  is accepted only for the same value, reason and actor.\<close>

lemma submit_found:
  assumes "submit q s = (Inr x, s1)" "control_step\<^sup>*\<^sup>* s1 s2"
  obtains ev where "find_event (rq_merchant q) (text_digest (rq_key q)) (events s2) = Some ev" "records (reason_of q) q ev"
proof (cases "find_event (rq_merchant q) (text_digest (rq_key q)) (events s)")
  case None
  from recorded [OF assms(1) None] obtain ev where "events s1 = events s @ [ev]" "records (reason_of q) q ev" by blast
  with None have "find_event (rq_merchant q) (text_digest (rq_key q)) (events s1) = Some ev"
    by (simp add: find_event_append records_def)
  from found_forever [OF assms(2) this] \<open>records (reason_of q) q ev\<close> show thesis by (rule that)
next
  case (Some ev)
  from replayed [OF assms(1) Some] found_forever [OF assms(2)] Some show thesis by (auto intro: that)
qed

lemma submit_once:
  assumes "submit q s = (Inr x, s1)" "control_step\<^sup>*\<^sup>* s1 s2" "submit q' s2 = (r, s3)"
    and "rq_merchant q' = rq_merchant q" "text_digest (rq_key q') = text_digest (rq_key q)"
  shows "s3 = s2 \<and> (\<forall>y. r = Inr y \<longrightarrow> rq_value q' = rq_value q \<and> reason_of q' = reason_of q
    \<and> text_digest (rq_subject q') = text_digest (rq_subject q))"
proof -
  obtain ev where "find_event (rq_merchant q) (text_digest (rq_key q)) (events s2) = Some ev" and rec: "records (reason_of q) q ev"
    using submit_found [OF assms(1,2)] .
  then have found: "find_event (rq_merchant q') (text_digest (rq_key q')) (events s2) = Some ev" by (simp add: assms(4,5))
  show ?thesis
  proof (cases r)
    case (Inl e)
    then show ?thesis using refused assms(3) by blast
  next
    case (Inr y)
    with replayed [OF assms(3) [unfolded Inr] found] rec Inr show ?thesis by (auto simp: records_def)
  qed
qed

end

end
