(* ===== verification/Operator_Controls.thy ===== *)
theory Operator_Controls
  imports Audited_Controls Outbox
begin

text \<open>
  \<^verbatim>\<open>services/control_plane/merchant_controls.py\<close> and \<^verbatim>\<open>diagnosis_controls.py\<close>: the merchant kill switch and the
  diagnosis mode, as transactions on the tables of merchants and of their control events. A transaction locks
  the merchant row, so it is atomic; one that raises is rolled back. The identifier that the injected factory
  returns is an argument. Rows are typed, so the shape checks on driver results do not appear.
\<close>

section \<open>Tables\<close>

datatype diagnosis_mode = LOCAL_ML | HYBRID_GEMINI | SHADOW

fun diagnosis_mode_value :: "diagnosis_mode \<Rightarrow> pystr" where
  "diagnosis_mode_value LOCAL_ML = ''LOCAL_ML''"
| "diagnosis_mode_value HYBRID_GEMINI = ''HYBRID_GEMINI''"
| "diagnosis_mode_value SHADOW = ''SHADOW''"

record merchant_row =
  mr_id :: pystr
  mr_active :: bool
  mr_kill_switch :: bool
  mr_policy_version :: pystr
  mr_diagnosis_mode :: diagnosis_mode

record control_store =
  cs_merchants :: "merchant_row list"
  cs_kill_events :: "bool audit_event list"
  cs_mode_events :: "diagnosis_mode audit_event list"
  cs_clock :: "nat \<Rightarrow> instant"
  cs_ticks :: nat

definition active_merchant :: "pystr \<Rightarrow> control_store \<Rightarrow> merchant_row option" where
  "active_merchant m st = find (\<lambda>r. mr_id r = m \<and> mr_active r) (cs_merchants st)"

text \<open>\<^verbatim>\<open>UPDATE ... WHERE id = ... AND status = 'ACTIVE'\<close>.\<close>

definition update_active :: "(merchant_row \<Rightarrow> merchant_row) \<Rightarrow> pystr \<Rightarrow> control_store \<Rightarrow> control_store" where
  "update_active f m st = st\<lparr>cs_merchants := map (\<lambda>r. if mr_id r = m \<and> mr_active r then f r else r) (cs_merchants st)\<rparr>"

definition tick :: "control_store \<Rightarrow> control_store" where
  "tick st = st\<lparr>cs_ticks := cs_ticks st + 1\<rparr>"

text \<open>A database transaction: what raises inside it leaves the store as it was.\<close>

definition transaction :: "(control_store \<Rightarrow> exn + 'a \<times> control_store) \<Rightarrow> control_store \<Rightarrow> (exn + 'a) \<times> control_store" where
  "transaction body st = (case body st of Inl e \<Rightarrow> (Inl e, st) | Inr (x, st') \<Rightarrow> (Inr x, st'))"

text \<open>\<^verbatim>\<open>INSERT ... SELECT COALESCE(max(sequence_number), 0) + 1\<close>; a repeated identifier violates the primary key.\<close>

definition new_event :: "'v audit_event list \<Rightarrow> pystr \<Rightarrow> pystr \<Rightarrow> 'v \<Rightarrow> pystr \<Rightarrow> bytes \<Rightarrow> bytes \<Rightarrow> instant \<Rightarrow> exn + 'v audit_event" where
  "new_event evs event_id m v reason actor key now =
     (if event_id \<in> ae_id ` set evs then Inl (ForeignException ''UniqueViolation'')
      else Inr \<lparr>ae_id = event_id, ae_merchant = m, ae_sequence = next_sequence m evs, ae_value = v, ae_reason = reason,
              ae_actor = actor, ae_key = key, ae_created_at = now\<rparr>)"

section \<open>The merchant kill switch\<close>

record merchant_control_state =
  mc_merchant_id :: pystr
  mc_kill_switch_enabled :: bool
  mc_policy_version :: pystr
  mc_event_id :: "pystr option"
  mc_sequence_number :: "int option"
  mc_reason_code :: "pystr option"
  mc_changed_at :: "instant option"
  mc_idempotent_replay :: bool

definition is_control_reason :: "pystr \<Rightarrow> bool" where
  "is_control_reason s = (case s of [] \<Rightarrow> False
     | c # cs \<Rightarrow> is_lower c \<and> 2 \<le> length cs \<and> length cs \<le> 99 \<and> list_all (\<lambda>x. is_lower x \<or> is_digit x \<or> x = CHR ''_'') cs)"

definition ENABLE_REASONS :: "pystr list" where
  "ENABLE_REASONS = [''emergency_stop'', ''operator_safety_hold'', ''test_mode_hold'']"

definition DISABLE_REASONS :: "pystr list" where
  "DISABLE_REASONS = [''resume_after_verification'', ''enable_test_mode_effects'']"

definition check_event_fields ::
  "(pystr \<Rightarrow> bool) \<Rightarrow> pystr \<Rightarrow> pystr option \<Rightarrow> int option \<Rightarrow> pystr option \<Rightarrow> instant option \<Rightarrow> exn + unit" where
  "check_event_fields reason_ok together event_id sequence reason changed_at =
     bindE (raise_if ((event_id = None \<or> sequence = None \<or> reason = None \<or> changed_at = None)
                      \<and> (event_id \<noteq> None \<or> sequence \<noteq> None \<or> reason \<noteq> None \<or> changed_at \<noteq> None)) (ValueError together)) (\<lambda>_.
     case (event_id, sequence, reason) of
       (Some i, Some n, Some r) \<Rightarrow>
         bindE (control_ulid i ''event_id'') (\<lambda>_.
         bindE (raise_if (n \<le> 0) (ValueError ''sequence_number must be positive'')) (\<lambda>_.
         raise_if (\<not> reason_ok r) (ValueError ''reason_code is invalid'')))
     | _ \<Rightarrow> Inr ())"

definition mk_merchant_control_state :: "merchant_control_state \<Rightarrow> exn + merchant_control_state" where
  "mk_merchant_control_state s =
     bindE (control_ulid (mc_merchant_id s) ''merchant_id'') (\<lambda>_.
     bindE (control_text (mc_policy_version s) ''policy_version'' 1 100) (\<lambda>_.
     bindE (check_event_fields is_control_reason ''last control event fields must be present together''
              (mc_event_id s) (mc_sequence_number s) (mc_reason_code s) (mc_changed_at s)) (\<lambda>_.
     Inr s)))"

definition event_json :: "pystr option \<Rightarrow> int option \<Rightarrow> pystr option \<Rightarrow> instant option \<Rightarrow> json" where
  "event_json event_id sequence reason changed_at = (case event_id of None \<Rightarrow> JNull
     | Some i \<Rightarrow> JObj [(''id'', JStr i),
         (''sequence_number'', case sequence of None \<Rightarrow> JNull | Some n \<Rightarrow> JInt n),
         (''reason_code'', case reason of None \<Rightarrow> JNull | Some r \<Rightarrow> JStr r),
         (''changed_at'', case changed_at of None \<Rightarrow> JNull | Some t \<Rightarrow> JStr (isoformat_utc t))])"

definition merchant_control_to_primitive :: "merchant_control_state \<Rightarrow> json" where
  "merchant_control_to_primitive s = JObj
     [(''environment'', JStr ''RAZORPAY_TEST_MODE''), (''merchant_id'', JStr (mc_merchant_id s)),
      (''kill_switch_enabled'', JBool (mc_kill_switch_enabled s)),
      (''collection_effects_enabled'', JBool (\<not> mc_kill_switch_enabled s)),
      (''policy_version'', JStr (mc_policy_version s)),
      (''last_event'', event_json (mc_event_id s) (mc_sequence_number s) (mc_reason_code s) (mc_changed_at s)),
      (''idempotent_replay'', JBool (mc_idempotent_replay s))]"

definition merchant_state_of :: "merchant_row \<Rightarrow> bool \<Rightarrow> bool audit_event option \<Rightarrow> bool \<Rightarrow> exn + merchant_control_state" where
  "merchant_state_of row enabled ev replay = mk_merchant_control_state
     \<lparr>mc_merchant_id = mr_id row, mc_kill_switch_enabled = enabled, mc_policy_version = mr_policy_version row,
      mc_event_id = map_option ae_id ev, mc_sequence_number = map_option ae_sequence ev,
      mc_reason_code = map_option ae_reason ev, mc_changed_at = map_option ae_created_at ev, mc_idempotent_replay = replay\<rparr>"

definition get_merchant_control :: "pystr \<Rightarrow> control_store \<Rightarrow> exn + merchant_control_state" where
  "get_merchant_control m st =
     bindE (control_ulid m ''merchant_id'') (\<lambda>_.
     case active_merchant m st of
       None \<Rightarrow> Inl (MerchantControlNotFound ''merchant_control_not_found'')
     | Some row \<Rightarrow> merchant_state_of row (mr_kill_switch row) (last_event m (cs_kill_events st)) False)"

definition kill_switch_transaction ::
  "bool control_request \<Rightarrow> bytes \<Rightarrow> bytes \<Rightarrow> control_store \<Rightarrow> exn + merchant_control_state \<times> control_store" where
  "kill_switch_transaction q actor key st = (case active_merchant (rq_merchant q) st of
      None \<Rightarrow> Inl (MerchantControlNotFound ''merchant_control_not_found'')
    | Some row \<Rightarrow>
       (case find_event (rq_merchant q) key (cs_kill_events st) of
          Some ev \<Rightarrow>
            bindE (raise_if (ae_value ev \<noteq> rq_value q \<or> ae_reason ev \<noteq> rq_reason q \<or> ae_actor ev \<noteq> actor)
              (MerchantControlConflict ''idempotency_key_conflict'')) (\<lambda>_.
            bindE (merchant_state_of row (mr_kill_switch row) (Some ev) True) (\<lambda>state.
            Inr (state, st)))
        | None \<Rightarrow>
            let st1 = update_active (\<lambda>r. r\<lparr>mr_kill_switch := rq_value q\<rparr>) (rq_merchant q) st in
            bindE (new_event (cs_kill_events st) (rq_event_id q) (rq_merchant q) (rq_value q) (rq_reason q) actor key
              (cs_clock st (cs_ticks st))) (\<lambda>ev.
            bindE (merchant_state_of row (rq_value q) (Some ev) False) (\<lambda>state.
            Inr (state, tick (st1\<lparr>cs_kill_events := cs_kill_events st @ [ev]\<rparr>))))))"

definition check_kill_request :: "bool control_request \<Rightarrow> exn + unit" where
  "check_kill_request q =
     bindE (control_ulid (rq_merchant q) ''merchant_id'') (\<lambda>_.
     bindE (control_text (rq_reason q) ''reason_code'' 3 100) (\<lambda>_.
     bindE (raise_if (rq_reason q \<notin> set (if rq_value q then ENABLE_REASONS else DISABLE_REASONS))
       (ValueError ''reason_code is not allowed for the requested state'')) (\<lambda>_.
     bindE (control_text (rq_subject q) ''operator_subject'' 1 200) (\<lambda>_.
     bindE (control_text (rq_key q) ''idempotency_key'' 16 128) (\<lambda>_.
     bindE (control_ulid (rq_event_id q) ''id_factory result'') (\<lambda>_.
     Inr ()))))))"

definition set_kill_switch :: "bool control_request \<Rightarrow> control_store \<Rightarrow> (exn + merchant_control_state) \<times> control_store" where
  "set_kill_switch q st = (case check_kill_request q of
      Inl e \<Rightarrow> (Inl e, st)
    | Inr _ \<Rightarrow> transaction (kill_switch_transaction q (text_digest (rq_subject q)) (text_digest (rq_key q))) st)"

section \<open>The diagnosis mode\<close>

definition mode_reason :: "diagnosis_mode \<Rightarrow> pystr" where
  "mode_reason m = (case m of LOCAL_ML \<Rightarrow> ''operator_selected_local_ml'' | HYBRID_GEMINI \<Rightarrow> ''operator_selected_hybrid_gemini''
     | SHADOW \<Rightarrow> ''operator_selected_shadow'')"

record diagnosis_control_state =
  dc_merchant_id :: pystr
  dc_mode :: diagnosis_mode
  dc_gemini_configured :: bool
  dc_event_id :: "pystr option"
  dc_sequence_number :: "int option"
  dc_reason_code :: "pystr option"
  dc_changed_at :: "instant option"
  dc_idempotent_replay :: bool

definition mk_diagnosis_control_state :: "diagnosis_control_state \<Rightarrow> exn + diagnosis_control_state" where
  "mk_diagnosis_control_state s =
     bindE (control_ulid (dc_merchant_id s) ''merchant_id'') (\<lambda>_.
     bindE (check_event_fields (\<lambda>r. r \<in> {mode_reason LOCAL_ML, mode_reason HYBRID_GEMINI, mode_reason SHADOW})
              ''last diagnosis control event fields must be present together''
              (dc_event_id s) (dc_sequence_number s) (dc_reason_code s) (dc_changed_at s)) (\<lambda>_.
     Inr s))"

definition diagnosis_control_to_primitive :: "diagnosis_control_state \<Rightarrow> json" where
  "diagnosis_control_to_primitive s = JObj
     [(''environment'', JStr ''RAZORPAY_TEST_MODE''), (''merchant_id'', JStr (dc_merchant_id s)),
      (''mode'', JStr (diagnosis_mode_value (dc_mode s))), (''gemini_configured'', JBool (dc_gemini_configured s)),
      (''effective_for'', JStr ''future_assessments''), (''local_fallback_enabled'', JBool True),
      (''policy_authority'', JStr ''DETERMINISTIC''),
      (''last_event'', event_json (dc_event_id s) (dc_sequence_number s) (dc_reason_code s) (dc_changed_at s)),
      (''idempotent_replay'', JBool (dc_idempotent_replay s))]"

definition diagnosis_state_of ::
  "bool \<Rightarrow> merchant_row \<Rightarrow> diagnosis_mode \<Rightarrow> diagnosis_mode audit_event option \<Rightarrow> bool \<Rightarrow> exn + diagnosis_control_state" where
  "diagnosis_state_of configured row mode ev replay = mk_diagnosis_control_state
     \<lparr>dc_merchant_id = mr_id row, dc_mode = mode, dc_gemini_configured = configured,
      dc_event_id = map_option ae_id ev, dc_sequence_number = map_option ae_sequence ev,
      dc_reason_code = map_option ae_reason ev, dc_changed_at = map_option ae_created_at ev, dc_idempotent_replay = replay\<rparr>"

definition get_diagnosis_control :: "bool \<Rightarrow> pystr \<Rightarrow> control_store \<Rightarrow> exn + diagnosis_control_state" where
  "get_diagnosis_control configured m st =
     bindE (control_ulid m ''merchant_id'') (\<lambda>_.
     case active_merchant m st of
       None \<Rightarrow> Inl (DiagnosisControlNotFound ''diagnosis_control_not_found'')
     | Some row \<Rightarrow> diagnosis_state_of configured row (mr_diagnosis_mode row) (last_event m (cs_mode_events st)) False)"

definition current_diagnosis_mode :: "bool \<Rightarrow> pystr \<Rightarrow> control_store \<Rightarrow> exn + diagnosis_mode" where
  "current_diagnosis_mode configured m st = bindE (get_diagnosis_control configured m st) (\<lambda>s. Inr (dc_mode s))"

definition mode_transaction ::
  "bool \<Rightarrow> diagnosis_mode control_request \<Rightarrow> bytes \<Rightarrow> bytes \<Rightarrow> control_store \<Rightarrow> exn + diagnosis_control_state \<times> control_store" where
  "mode_transaction configured q actor key st = (case active_merchant (rq_merchant q) st of
      None \<Rightarrow> Inl (DiagnosisControlNotFound ''diagnosis_control_not_found'')
    | Some row \<Rightarrow>
       (case find_event (rq_merchant q) key (cs_mode_events st) of
          Some ev \<Rightarrow>
            bindE (raise_if (ae_value ev \<noteq> rq_value q \<or> ae_reason ev \<noteq> rq_reason q \<or> ae_actor ev \<noteq> actor)
              (DiagnosisControlConflict ''idempotency_key_conflict'')) (\<lambda>_.
            bindE (diagnosis_state_of configured row (mr_diagnosis_mode row) (Some ev) True) (\<lambda>state.
            Inr (state, st)))
        | None \<Rightarrow>
            let st1 = update_active (\<lambda>r. r\<lparr>mr_diagnosis_mode := rq_value q\<rparr>) (rq_merchant q) st in
            bindE (new_event (cs_mode_events st) (rq_event_id q) (rq_merchant q) (rq_value q) (rq_reason q) actor key
              (cs_clock st (cs_ticks st))) (\<lambda>ev.
            bindE (diagnosis_state_of configured row (rq_value q) (Some ev) False) (\<lambda>state.
            Inr (state, tick (st1\<lparr>cs_mode_events := cs_mode_events st @ [ev]\<rparr>))))))"

text \<open>\<^verbatim>\<open>reason_code = _REASONS[mode]\<close>: the reason of a mode request is not an argument.\<close>

definition check_mode_request :: "pystr \<Rightarrow> pystr \<Rightarrow> pystr \<Rightarrow> pystr \<Rightarrow> exn + unit" where
  "check_mode_request m subject key event_id =
     bindE (control_ulid m ''merchant_id'') (\<lambda>_.
     bindE (control_text subject ''operator_subject'' 1 200) (\<lambda>_.
     bindE (control_text key ''idempotency_key'' 16 128) (\<lambda>_.
     bindE (control_ulid event_id ''id_factory result'') (\<lambda>_.
     Inr ()))))"

definition set_diagnosis_mode ::
  "bool \<Rightarrow> pystr \<Rightarrow> diagnosis_mode \<Rightarrow> pystr \<Rightarrow> pystr \<Rightarrow> pystr \<Rightarrow> control_store \<Rightarrow> (exn + diagnosis_control_state) \<times> control_store" where
  "set_diagnosis_mode configured m mode subject key event_id st = (case check_mode_request m subject key event_id of
      Inl e \<Rightarrow> (Inl e, st)
    | Inr _ \<Rightarrow> transaction (mode_transaction configured
        \<lparr>rq_merchant = m, rq_value = mode, rq_reason = mode_reason mode, rq_subject = subject, rq_key = key, rq_event_id = event_id\<rparr>
        (text_digest subject) (text_digest key)) st)"

end
