(* ===== verification/Controls_Spec.thy ===== *)
theory Controls_Spec
  imports Operator_Controls
begin

text \<open>
  The two operator controls satisfy the contract of an audited control over the shared store: each is the
  other's unrelated step. The properties follow: both tables stay in sequence, the current switch and mode are
  those of the last event, and a request is recorded once.
\<close>

section \<open>The store\<close>

lemma active_update:
  assumes "\<And>r. mr_id (f r) = mr_id r" "\<And>r. mr_active (f r) = mr_active r"
  shows "active_merchant m' (update_active f m st) =
    (if m' = m then map_option f (active_merchant m' st) else active_merchant m' st)"
proof -
  have "find (\<lambda>r. mr_id r = m' \<and> mr_active r) (map (\<lambda>r. if mr_id r = m \<and> mr_active r then f r else r) rows)
      = (if m' = m then map_option f (find (\<lambda>r. mr_id r = m' \<and> mr_active r) rows) else find (\<lambda>r. mr_id r = m' \<and> mr_active r) rows)" for rows
    by (induction rows) (auto simp: assms)
  then show ?thesis by (simp add: active_merchant_def update_active_def)
qed

lemma active_other [simp]:
  "active_merchant m (st\<lparr>cs_kill_events := evs\<rparr>) = active_merchant m st"
  "active_merchant m (st\<lparr>cs_mode_events := mevs\<rparr>) = active_merchant m st"
  "active_merchant m (tick st) = active_merchant m st"
  by (simp_all add: active_merchant_def tick_def)

lemma store_fields [simp]:
  "cs_kill_events (update_active f m st) = cs_kill_events st" "cs_mode_events (update_active f m st) = cs_mode_events st"
  "cs_kill_events (tick st) = cs_kill_events st" "cs_mode_events (tick st) = cs_mode_events st"
  by (simp_all add: update_active_def tick_def)

lemma transaction_eq:
  "transaction body st = (r, st') \<longleftrightarrow> (\<exists>e. body st = Inl e \<and> r = Inl e \<and> st' = st) \<or> (\<exists>x. body st = Inr (x, st') \<and> r = Inr x)"
  by (auto simp: transaction_def split: sum.splits prod.splits)

lemma new_event_Inr:
  "new_event evs i m v reason actor key now = Inr ev \<longleftrightarrow> i \<notin> ae_id ` set evs \<and>
     ev = \<lparr>ae_id = i, ae_merchant = m, ae_sequence = next_sequence m evs, ae_value = v, ae_reason = reason, ae_actor = actor,
           ae_key = key, ae_created_at = now\<rparr>"
  by (auto simp: new_event_def)

section \<open>Steps\<close>

definition kill_setting :: "control_store \<Rightarrow> pystr \<Rightarrow> bool option" where
  "kill_setting st m = map_option mr_kill_switch (active_merchant m st)"

definition mode_setting :: "control_store \<Rightarrow> pystr \<Rightarrow> diagnosis_mode option" where
  "mode_setting st m = map_option mr_diagnosis_mode (active_merchant m st)"

definition mode_submit :: "bool \<Rightarrow> diagnosis_mode control_request \<Rightarrow> control_store \<Rightarrow> (exn + diagnosis_control_state) \<times> control_store" where
  "mode_submit configured q = set_diagnosis_mode configured (rq_merchant q) (rq_value q) (rq_subject q) (rq_key q) (rq_event_id q)"

text \<open>Any request of any operator to either service of a deployment.\<close>

inductive controls_step :: "bool \<Rightarrow> control_store \<Rightarrow> control_store \<Rightarrow> bool" for configured where
  kill_switched: "set_kill_switch q st = (r, st') \<Longrightarrow> controls_step configured st st'"
| mode_set: "set_diagnosis_mode configured m mode subject key event_id st = (r, st') \<Longrightarrow> controls_step configured st st'"

lemma set_kill_switch_cases:
  assumes "set_kill_switch q st = (r, st')"
  obtains (refused) e where "r = Inl e" "st' = st"
  | (accepted) x where "r = Inr x" "kill_switch_transaction q (text_digest (rq_subject q)) (text_digest (rq_key q)) st = Inr (x, st')"
  using assms unfolding set_kill_switch_def by (auto simp: transaction_eq split: sum.splits)

lemma mode_submit_cases:
  assumes "mode_submit configured q st = (r, st')"
  obtains (refused) e where "r = Inl e" "st' = st"
  | (accepted) x where "r = Inr x" "mode_transaction configured (q\<lparr>rq_reason := mode_reason (rq_value q)\<rparr>)
      (text_digest (rq_subject q)) (text_digest (rq_key q)) st = Inr (x, st')"
proof -
  have q: "\<lparr>rq_merchant = rq_merchant q, rq_value = rq_value q, rq_reason = mode_reason (rq_value q), rq_subject = rq_subject q,
      rq_key = rq_key q, rq_event_id = rq_event_id q\<rparr> = q\<lparr>rq_reason := mode_reason (rq_value q)\<rparr>" by simp
  from assms that show thesis unfolding mode_submit_def set_diagnosis_mode_def q
    by (auto simp: transaction_eq split: sum.splits)
qed

lemma kill_transaction_Inr:
  assumes "kill_switch_transaction q actor key st = Inr (x, st')"
  obtains (replay) row ev where "active_merchant (rq_merchant q) st = Some row" "find_event (rq_merchant q) key (cs_kill_events st) = Some ev"
      "st' = st" "ae_value ev = rq_value q" "ae_reason ev = rq_reason q" "ae_actor ev = actor"
      "merchant_state_of row (mr_kill_switch row) (Some ev) True = Inr x"
  | (fresh) row ev where "active_merchant (rq_merchant q) st = Some row" "find_event (rq_merchant q) key (cs_kill_events st) = None"
      "rq_event_id q \<notin> ae_id ` set (cs_kill_events st)"
      "ev = \<lparr>ae_id = rq_event_id q, ae_merchant = rq_merchant q, ae_sequence = next_sequence (rq_merchant q) (cs_kill_events st),
         ae_value = rq_value q, ae_reason = rq_reason q, ae_actor = actor, ae_key = key, ae_created_at = cs_clock st (cs_ticks st)\<rparr>"
      "st' = tick ((update_active (\<lambda>r. r\<lparr>mr_kill_switch := rq_value q\<rparr>) (rq_merchant q) st)\<lparr>cs_kill_events := cs_kill_events st @ [ev]\<rparr>)"
      "merchant_state_of row (rq_value q) (Some ev) False = Inr x"
  using assms unfolding kill_switch_transaction_def Let_def
  by (auto simp: new_event_Inr split: option.splits)

lemma mode_transaction_Inr:
  assumes "mode_transaction configured q actor key st = Inr (x, st')"
  obtains (replay) row ev where "active_merchant (rq_merchant q) st = Some row" "find_event (rq_merchant q) key (cs_mode_events st) = Some ev"
      "st' = st" "ae_value ev = rq_value q" "ae_reason ev = rq_reason q" "ae_actor ev = actor"
  | (fresh) row ev where "active_merchant (rq_merchant q) st = Some row" "find_event (rq_merchant q) key (cs_mode_events st) = None"
      "rq_event_id q \<notin> ae_id ` set (cs_mode_events st)"
      "ev = \<lparr>ae_id = rq_event_id q, ae_merchant = rq_merchant q, ae_sequence = next_sequence (rq_merchant q) (cs_mode_events st),
         ae_value = rq_value q, ae_reason = rq_reason q, ae_actor = actor, ae_key = key, ae_created_at = cs_clock st (cs_ticks st)\<rparr>"
      "st' = tick ((update_active (\<lambda>r. r\<lparr>mr_diagnosis_mode := rq_value q\<rparr>) (rq_merchant q) st)\<lparr>cs_mode_events := cs_mode_events st @ [ev]\<rparr>)"
  using assms unfolding mode_transaction_def Let_def
  by (auto simp: new_event_Inr split: option.splits)

lemma find_event_key: "find_event m key evs = Some ev \<Longrightarrow> ae_merchant ev = m \<and> ae_key ev = key"
  by (auto simp: find_event_def find_Some_iff)

lemma kill_switch_apart:
  "set_kill_switch q st = (r, st') \<Longrightarrow> cs_mode_events st' = cs_mode_events st \<and> mode_setting st' = mode_setting st"
  by (elim set_kill_switch_cases kill_transaction_Inr)
    (auto simp: mode_setting_def active_update map_option.compositionality comp_def option.map_ident fun_eq_iff)

lemma mode_apart:
  "mode_submit configured q st = (r, st') \<Longrightarrow> cs_kill_events st' = cs_kill_events st \<and> kill_setting st' = kill_setting st"
  by (elim mode_submit_cases mode_transaction_Inr)
    (auto simp: kill_setting_def active_update map_option.compositionality comp_def option.map_ident fun_eq_iff)

section \<open>Both controls meet the contract\<close>

interpretation kill_switch: audited_control cs_kill_events kill_setting rq_reason set_kill_switch
  "\<lambda>st st'. \<exists>configured q. st' = snd (mode_submit configured q st)"
proof
  fix q st e st'
  assume "set_kill_switch q st = (Inl e, st')"
  then show "st' = st" by (cases rule: set_kill_switch_cases) simp_all
next
  fix q st x st' ev
  assume "set_kill_switch q st = (Inr x, st')" and found: "find_event (rq_merchant q) (text_digest (rq_key q)) (cs_kill_events st) = Some ev"
  then show "st' = st \<and> records (rq_reason q) q ev"
    by (elim set_kill_switch_cases kill_transaction_Inr) (auto simp: records_def dest: find_event_key)
next
  fix q st x st'
  assume "set_kill_switch q st = (Inr x, st')" "find_event (rq_merchant q) (text_digest (rq_key q)) (cs_kill_events st) = None"
  then show "\<exists>ev. cs_kill_events st' = cs_kill_events st @ [ev] \<and> records (rq_reason q) q ev \<and> ae_id ev = rq_event_id q
      \<and> rq_event_id q \<notin> ae_id ` set (cs_kill_events st) \<and> ae_sequence ev = next_sequence (rq_merchant q) (cs_kill_events st)
      \<and> kill_setting st' = (kill_setting st)(rq_merchant q \<mapsto> rq_value q)"
    by (elim set_kill_switch_cases kill_transaction_Inr)
      (auto simp: records_def kill_setting_def active_update fun_eq_iff option.map_ident)
next
  fix st st' :: control_store
  assume "\<exists>configured q. st' = snd (mode_submit configured q st)"
  then show "cs_kill_events st' = cs_kill_events st \<and> kill_setting st' = kill_setting st"
    using mode_apart by (metis prod.collapse)
qed

interpretation mode_control: audited_control cs_mode_events mode_setting "\<lambda>q. mode_reason (rq_value q)" "mode_submit configured"
  "\<lambda>st st'. \<exists>q. st' = snd (set_kill_switch q st)" for configured
proof
  fix q st e st'
  assume "mode_submit configured q st = (Inl e, st')"
  then show "st' = st" by (cases rule: mode_submit_cases) simp_all
next
  fix q st x st' ev
  assume "mode_submit configured q st = (Inr x, st')" and found: "find_event (rq_merchant q) (text_digest (rq_key q)) (cs_mode_events st) = Some ev"
  then show "st' = st \<and> records (mode_reason (rq_value q)) q ev"
    by (elim mode_submit_cases mode_transaction_Inr) (auto simp: records_def dest: find_event_key)
next
  fix q st x st'
  assume "mode_submit configured q st = (Inr x, st')" "find_event (rq_merchant q) (text_digest (rq_key q)) (cs_mode_events st) = None"
  then show "\<exists>ev. cs_mode_events st' = cs_mode_events st @ [ev] \<and> records (mode_reason (rq_value q)) q ev \<and> ae_id ev = rq_event_id q
      \<and> rq_event_id q \<notin> ae_id ` set (cs_mode_events st) \<and> ae_sequence ev = next_sequence (rq_merchant q) (cs_mode_events st)
      \<and> mode_setting st' = (mode_setting st)(rq_merchant q \<mapsto> rq_value q)"
    by (elim mode_submit_cases mode_transaction_Inr)
      (auto simp: records_def mode_setting_def active_update fun_eq_iff option.map_ident)
next
  fix st st' :: control_store
  assume "\<exists>q. st' = snd (set_kill_switch q st)"
  then show "cs_mode_events st' = cs_mode_events st \<and> mode_setting st' = mode_setting st"
    using kill_switch_apart by (metis prod.collapse)
qed

section \<open>Properties\<close>

lemma mode_set_submit:
  "set_diagnosis_mode configured m mode subject key event_id =
     mode_submit configured \<lparr>rq_merchant = m, rq_value = mode, rq_reason = [], rq_subject = subject, rq_key = key, rq_event_id = event_id\<rparr>"
  by (simp add: mode_submit_def)

lemma controls_step_kill:
  assumes "controls_step configured st st'"
  shows "kill_switch.control_step st st'"
  using assms
proof cases
  case (kill_switched q r)
  then show ?thesis by (rule kill_switch.submitted)
next
  case (mode_set m mode subject key event_id r)
  then have "st' = snd (mode_submit configured \<lparr>rq_merchant = m, rq_value = mode, rq_reason = [], rq_subject = subject,
      rq_key = key, rq_event_id = event_id\<rparr> st)" by (simp flip: mode_set_submit)
  then show ?thesis by (blast intro: kill_switch.unrelated)
qed

lemma controls_step_mode:
  assumes "controls_step configured st st'"
  shows "mode_control.control_step configured st st'"
  using assms
proof cases
  case (kill_switched q r)
  then have "st' = snd (set_kill_switch q st)" by simp
  then show ?thesis by (blast intro: mode_control.unrelated)
next
  case mode_set
  then show ?thesis unfolding mode_set_submit by (rule mode_control.submitted)
qed

lemma controls_steps_kill: "(controls_step configured)\<^sup>*\<^sup>* st st' \<Longrightarrow> kill_switch.control_step\<^sup>*\<^sup>* st st'"
  by (rule rtranclp_mono [THEN predicate2D]) (auto intro: controls_step_kill)

lemma controls_steps_mode: "(controls_step configured)\<^sup>*\<^sup>* st st' \<Longrightarrow> (mode_control.control_step configured)\<^sup>*\<^sup>* st st'"
  by (rule rtranclp_mono [THEN predicate2D]) (auto intro: controls_step_mode)

text \<open>C30. The control tables are a faithful audit trail. From empty tables, after any requests of any operators to
  either service, the events of each merchant are numbered from one without gaps, no identifier or idempotency key
  appears twice, and every merchant's kill switch and diagnosis mode are those of its last event, the ones the two
  \<open>get\<close> operations report.\<close>

theorem controls_audited:
  assumes "(controls_step configured)\<^sup>*\<^sup>* st st'" "cs_kill_events st = []" "cs_mode_events st = []"
  shows "in_sequence (cs_kill_events st') \<and> in_sequence (cs_mode_events st')
    \<and> (\<forall>m e. last_event m (cs_kill_events st') = Some e \<longrightarrow> kill_setting st' m = Some (ae_value e))
    \<and> (\<forall>m e. last_event m (cs_mode_events st') = Some e \<longrightarrow> mode_setting st' m = Some (ae_value e))
    \<and> (\<forall>m x. get_merchant_control m st' = Inr x \<longrightarrow> kill_setting st' m = Some (mc_kill_switch_enabled x)
         \<and> mc_event_id x = map_option ae_id (last_event m (cs_kill_events st')))"
proof -
  have empty: "in_sequence []" "last_event m [] = None" for m by (simp_all add: in_sequence_def last_event_def)
  have "kill_switch.kept st" "mode_control.kept st" by (simp_all add: kill_switch.kept_def mode_control.kept_def assms(2,3) empty)
  with kill_switch.kept_steps [OF controls_steps_kill [OF assms(1)]] mode_control.kept_steps [OF controls_steps_mode [OF assms(1)]]
  have "kill_switch.kept st'" "mode_control.kept st'" by blast+
  moreover have "kill_setting st' m = Some (mc_kill_switch_enabled x) \<and> mc_event_id x = map_option ae_id (last_event m (cs_kill_events st'))"
    if "get_merchant_control m st' = Inr x" for m x
    using that by (auto simp: get_merchant_control_def merchant_state_of_def mk_merchant_control_state_def kill_setting_def split: option.splits)
  ultimately show ?thesis by (simp add: kill_switch.kept_def mode_control.kept_def)
qed

lemma policy_kept:
  "(controls_step configured)\<^sup>*\<^sup>* st st' \<Longrightarrow> active_merchant m st = Some row \<Longrightarrow>
     \<exists>row'. active_merchant m st' = Some row' \<and> mr_id row' = mr_id row \<and> mr_policy_version row' = mr_policy_version row"
proof (induction rule: rtranclp_induct)
  case (step s1 s2)
  then obtain row1 where row1: "active_merchant m s1 = Some row1" "mr_id row1 = mr_id row" "mr_policy_version row1 = mr_policy_version row"
    by blast
  from step.hyps(2) row1 show ?case
    by (cases rule: controls_step.cases)
      (auto simp: mode_set_submit active_update elim!: set_kill_switch_cases kill_transaction_Inr mode_submit_cases mode_transaction_Inr)
qed auto

lemma replay_state:
  assumes "merchant_state_of row enabled (Some ev) replay = Inr x" "mr_id row' = mr_id row" "mr_policy_version row' = mr_policy_version row"
  shows "\<exists>y. merchant_state_of row' enabled' (Some ev) replay' = Inr y \<and> mc_idempotent_replay y = replay'
    \<and> mc_event_id y = mc_event_id x \<and> mc_sequence_number y = mc_sequence_number x"
  using assms by (auto simp: merchant_state_of_def mk_merchant_control_state_def check_event_fields_def)

text \<open>C31. A kill-switch request takes effect once. After a request was accepted, and after whatever else operators
  requested meanwhile, a request for the same merchant with the same idempotency key changes nothing; it is
  accepted only for the same state, the same reason and the same operator (up to a SHA-256 collision of operator
  names). And a retry, the same request with whatever event identifier is drawn for it, is answered as a replay that names
  the first event.\<close>

theorem kill_switch_once:
  assumes "set_kill_switch q st = (Inr x, st1)" "(controls_step configured)\<^sup>*\<^sup>* st1 st2" "set_kill_switch q' st2 = (r, st3)"
    and "rq_merchant q' = rq_merchant q" "rq_key q' = rq_key q"
  shows "st3 = st2
    \<and> (\<forall>y. r = Inr y \<longrightarrow> rq_value q' = rq_value q \<and> rq_reason q' = rq_reason q
         \<and> text_digest (rq_subject q') = text_digest (rq_subject q))
    \<and> (rq_value q' = rq_value q \<and> rq_reason q' = rq_reason q \<and> rq_subject q' = rq_subject q \<and> is_ulid (rq_event_id q') \<longrightarrow>
         (\<exists>y. r = Inr y \<and> mc_idempotent_replay y \<and> mc_event_id y = mc_event_id x \<and> mc_sequence_number y = mc_sequence_number x))"
proof -
  let ?key = "text_digest (rq_key q)" and ?actor = "text_digest (rq_subject q)"
  obtain row ev replay where row: "active_merchant (rq_merchant q) st1 = Some row"
    and ev: "find_event (rq_merchant q) ?key (cs_kill_events st1) = Some ev" "ae_value ev = rq_value q" "ae_reason ev = rq_reason q" "ae_actor ev = ?actor"
    and x: "merchant_state_of row (mr_kill_switch row) (Some ev) replay = Inr x"
    using assms(1)
  proof (cases rule: set_kill_switch_cases)
    case (accepted y)
    from accepted(2) that accepted(1) show thesis
    proof (cases rule: kill_transaction_Inr)
      case (fresh row ev)
      have "active_merchant (rq_merchant q) st1 = Some (row\<lparr>mr_kill_switch := rq_value q\<rparr>)" using fresh(1,5) by (simp add: active_update)
      moreover have "find_event (rq_merchant q) ?key (cs_kill_events st1) = Some ev"
        using fresh(2,4,5) by (simp add: find_event_append)
      moreover have "merchant_state_of (row\<lparr>mr_kill_switch := rq_value q\<rparr>) (rq_value q) (Some ev) False = Inr x"
        using fresh(6) accepted(1) by (simp add: merchant_state_of_def)
      ultimately show thesis using that fresh(4) by simp
    qed auto
  qed simp
  from kill_switch.submit_once [OF assms(1) controls_steps_kill [OF assms(2)] assms(3,4)] assms(5)
  have once: "st3 = st2" "r = Inr y \<Longrightarrow> rq_value q' = rq_value q \<and> rq_reason q' = rq_reason q
      \<and> text_digest (rq_subject q') = text_digest (rq_subject q)" for y by auto
  have "\<exists>y. r = Inr y \<and> mc_idempotent_replay y \<and> mc_event_id y = mc_event_id x \<and> mc_sequence_number y = mc_sequence_number x"
    if same: "rq_value q' = rq_value q" "rq_reason q' = rq_reason q" "rq_subject q' = rq_subject q" "is_ulid (rq_event_id q')"
  proof -
    obtain row2 where row2: "active_merchant (rq_merchant q) st2 = Some row2" "mr_id row2 = mr_id row" "mr_policy_version row2 = mr_policy_version row"
      using policy_kept [OF assms(2) row] by blast
    obtain y where y: "merchant_state_of row2 (mr_kill_switch row2) (Some ev) True = Inr y" "mc_idempotent_replay y"
      "mc_event_id y = mc_event_id x" "mc_sequence_number y = mc_sequence_number x"
      using replay_state [OF x row2(2,3), of "mr_kill_switch row2" True] by auto
    have "find_event (rq_merchant q) ?key (cs_kill_events st2) = Some ev"
      using kill_switch.found_forever [OF controls_steps_kill [OF assms(2)] ev(1)] .
    then have "kill_switch_transaction q' ?actor ?key st2 = Inr (y, st2)"
      using row2(1) ev(2-4) y(1) same assms(4) by (simp add: kill_switch_transaction_def)
    moreover have "check_kill_request q' = Inr ()"
      using assms(1) same(4) unfolding check_kill_request_def same assms(4,5) by (auto simp: set_kill_switch_def check_kill_request_def split: sum.splits)
    then have "set_kill_switch q' st2 = transaction (kill_switch_transaction q' ?actor ?key) st2"
      using same assms(5) by (simp add: set_kill_switch_def)
    ultimately have "r = Inr y" using assms(3) by (simp add: transaction_def)
    with y(2-4) show ?thesis by blast
  qed
  with once show ?thesis by blast
qed

section \<open>Sample\<close>

definition sample_merchant_id :: pystr where
  "sample_merchant_id = replicate 26 (CHR ''1'')"

definition sample_controls :: control_store where
  "sample_controls = \<lparr>cs_merchants = [\<lparr>mr_id = sample_merchant_id, mr_active = True, mr_kill_switch = False,
       mr_policy_version = ''v1'', mr_diagnosis_mode = LOCAL_ML\<rparr>],
     cs_kill_events = [], cs_mode_events = [], cs_clock = (\<lambda>n. int n), cs_ticks = 0\<rparr>"

definition sample_switch_request :: "bool control_request" where
  "sample_switch_request = \<lparr>rq_merchant = sample_merchant_id, rq_value = True, rq_reason = ''emergency_stop'',
     rq_subject = ''operator'', rq_key = ''key-0123456789abcdef'', rq_event_id = replicate 26 (CHR ''2'')\<rparr>"

lemma sample_switch_accepted: "check_kill_request sample_switch_request = Inr ()"
proof -
  have "is_ulid (replicate 26 (CHR ''1''))" "is_ulid (replicate 26 (CHR ''2''))" "clean_control ''emergency_stop'' 3 100"
    "clean_control ''operator'' 1 200" "clean_control ''key-0123456789abcdef'' 16 128"
    by code_simp+
  then show ?thesis
    by (simp add: check_kill_request_def sample_switch_request_def sample_merchant_id_def control_text_def control_ulid_def ENABLE_REASONS_def)
qed

lemma sample_switch_set: "\<exists>x st1. set_kill_switch sample_switch_request sample_controls = (Inr x, st1) \<and> mc_sequence_number x = Some 1"
proof -
  have "is_ulid (replicate 26 (CHR ''1''))" "is_ulid (replicate 26 (CHR ''2''))" "clean_control ''v1'' 1 100" "is_control_reason ''emergency_stop''"
    by code_simp+
  then show ?thesis
    unfolding set_kill_switch_def sample_switch_accepted sum.case
    by (simp add: transaction_def kill_switch_transaction_def active_merchant_def
        sample_controls_def sample_switch_request_def find_event_def new_event_def merchant_state_of_def mk_merchant_control_state_def
        check_event_fields_def control_text_def control_ulid_def sample_merchant_id_def next_sequence_def merchant_events_def Let_def)
qed

theorem controls_audited_witness:
  "\<exists>st'. snd (set_kill_switch sample_switch_request sample_controls) = st' \<and> in_sequence (cs_kill_events st')"
proof -
  obtain r st' where run: "set_kill_switch sample_switch_request sample_controls = (r, st')"
    by (cases "set_kill_switch sample_switch_request sample_controls")
  then have "(controls_step False)\<^sup>*\<^sup>* sample_controls st'" by (intro r_into_rtranclp controls_step.kill_switched)
  from controls_audited [OF this] run show ?thesis by (simp add: sample_controls_def)
qed

theorem kill_switch_once_witness:
  "\<exists>x st1 y. set_kill_switch sample_switch_request sample_controls = (Inr x, st1)
     \<and> set_kill_switch (sample_switch_request\<lparr>rq_event_id := replicate 26 (CHR ''3'')\<rparr>) st1 = (Inr y, st1)
     \<and> mc_idempotent_replay y \<and> mc_event_id y = mc_event_id x"
proof -
  let ?retry = "sample_switch_request\<lparr>rq_event_id := replicate 26 (CHR ''3'')\<rparr>"
  obtain x st1 where run: "set_kill_switch sample_switch_request sample_controls = (Inr x, st1)" using sample_switch_set by blast
  obtain r st3 where again: "set_kill_switch ?retry st1 = (r, st3)" by (cases "set_kill_switch ?retry st1")
  have "is_ulid (rq_event_id ?retry)" by code_simp
  with kill_switch_once [OF run rtranclp.rtrancl_refl again] run again show ?thesis by auto
qed

end
