(* ===== verification/Decimals.thy ===== *)
theory Decimals
  imports Values
begin

text \<open>
  Division and subtraction of Python's \<^verbatim>\<open>decimal\<close> module in its default context: 28 digits, rounding half to
  even, exponents between \<open>-999999\<close> and \<open>999999\<close>, subnormals down to \<open>Etiny\<close>; overflow, division by zero and
  invalid operations raise. A result is computed exactly and then fixed to the context. The lemmas say that
  results between zero and one stay there.
\<close>

section \<open>Rounding\<close>

definition ndigits :: "nat \<Rightarrow> nat" where
  "ndigits n = length (nat_str n)"

definition half_even :: "nat \<Rightarrow> nat \<Rightarrow> nat" where
  "half_even c k =
     (let q = c div 10 ^ k; r = c mod 10 ^ k
      in if 2 * r < 10 ^ k then q else if 10 ^ k < 2 * r then q + 1 else if even q then q else q + 1)"

definition dec_prec :: int where "dec_prec = 28"
definition dec_etiny :: int where "dec_etiny = -1000026"
definition dec_etop :: int where "dec_etop = 999972"
definition dec_emax :: int where "dec_emax = 999999"

text \<open>\<^verbatim>\<open>Decimal._fix\<close>.\<close>

fun dec_fix :: "decimal \<Rightarrow> exn + decimal" where
  "dec_fix (Dec neg c e) =
     (if c = 0 then Inr (Dec neg 0 (min (max e dec_etiny) dec_emax))
      else let exp_min = max (int (ndigits c) + e - dec_prec) dec_etiny in
        if dec_etop < int (ndigits c) + e - dec_prec then Inl (ForeignException ''Overflow'')
        else if e < exp_min then
          (let coeff = half_even c (nat (exp_min - e)) in
           if dec_prec < int (ndigits coeff)
           then (if dec_etop < exp_min + 1 then Inl (ForeignException ''Overflow'') else Inr (Dec neg (coeff div 10) (exp_min + 1)))
           else Inr (Dec neg coeff exp_min))
        else Inr (Dec neg c e))"
| "dec_fix d = Inr d"

section \<open>Division and subtraction\<close>

text \<open>An exact quotient gets as close to the ideal exponent as its trailing zeros allow.\<close>

fun drop_zeros :: "nat \<Rightarrow> nat \<Rightarrow> int \<Rightarrow> nat \<times> int" where
  "drop_zeros 0 c e = (c, e)"
| "drop_zeros (Suc n) c e = (if c mod 10 = 0 then drop_zeros n (c div 10) (e + 1) else (c, e))"

definition quotient :: "nat \<Rightarrow> nat \<Rightarrow> int \<Rightarrow> nat \<times> int" where
  "quotient a b ideal =
     (let shift = int (ndigits b) - int (ndigits a) + dec_prec + 1;
          num = (if 0 \<le> shift then a * 10 ^ nat shift else a);
          den = (if 0 \<le> shift then b else b * 10 ^ nat (- shift));
          coeff = num div den; e = ideal - shift
      in if num mod den = 0 then drop_zeros (nat (ideal - e)) coeff e
         else (if coeff mod 5 = 0 then coeff + 1 else coeff, e))"

fun dec_div :: "decimal \<Rightarrow> decimal \<Rightarrow> exn + decimal" where
  "dec_div (Dec n1 c1 e1) (Dec n2 c2 e2) =
     (if c2 = 0 then Inl (ForeignException (if c1 = 0 then ''InvalidOperation'' else ''DivisionByZero''))
      else if c1 = 0 then dec_fix (Dec (n1 \<noteq> n2) 0 (e1 - e2))
      else (case quotient c1 c2 (e1 - e2) of (c, e) \<Rightarrow> dec_fix (Dec (n1 \<noteq> n2) c e)))"
| "dec_div _ _ = Inl (ForeignException ''InvalidOperation'')"

definition dec_sub :: "decimal \<Rightarrow> decimal \<Rightarrow> exn + decimal" where
  "dec_sub a b = (case (a, b) of
      (Dec n1 c1 e1, Dec n2 c2 e2) \<Rightarrow>
        (let m = min e1 e2; v = scaled m a - scaled m b
         in dec_fix (Dec (if c1 = 0 \<and> c2 = 0 then n1 \<and> \<not> n2 else v < 0) (nat \<bar>v\<bar>) m))
    | _ \<Rightarrow> Inl (ForeignException ''InvalidOperation''))"

section \<open>Results between zero and one\<close>

lemma ndigits_rec: "ndigits n = (if n < 10 then 1 else ndigits (n div 10) + 1)"
  by (simp add: ndigits_def nat_str.simps [of n])

lemma ndigits_pos: "0 < ndigits n"
  by (simp add: ndigits_rec [of n])

lemma ndigits_bounds: "0 < n \<Longrightarrow> 10 ^ (ndigits n - 1) \<le> n \<and> n < 10 ^ ndigits n"
proof (induction n rule: nat_str.induct)
  case (1 n)
  show ?case
  proof (cases "n < 10")
    case True
    then show ?thesis using 1(2) by (simp add: ndigits_rec [of n])
  next
    case False
    let ?d = "ndigits (n div 10)"
    have IH: "10 ^ (?d - 1) \<le> n div 10" "n div 10 < 10 ^ ?d" using 1(1) False by auto
    have "10 ^ ?d = 10 * (10::nat) ^ (?d - 1)" using ndigits_pos [of "n div 10"] by (cases ?d) simp_all
    then have "10 ^ ?d \<le> n" using IH(1) by linarith
    moreover have "n < 10 * 10 ^ ?d" using IH(2) by linarith
    ultimately show ?thesis using False by (simp add: ndigits_rec [of n])
  qed
qed

lemma ndigits_mono: "m \<le> n \<Longrightarrow> ndigits m \<le> ndigits n"
proof (cases "m = 0")
  case True
  then show ?thesis using ndigits_pos [of n] by (simp add: ndigits_rec [of 0])
next
  case False
  assume le: "m \<le> n"
  have "10 ^ (ndigits m - 1) < (10::nat) ^ ndigits n"
    using le_less_trans [OF order_trans [OF conjunct1 [OF ndigits_bounds [of m]] le] conjunct2 [OF ndigits_bounds [of n]]] False le
    by simp
  then have "ndigits m - 1 < ndigits n" by (simp add: power_strict_increasing_iff)
  then show ?thesis by simp
qed

lemma half_even_le: "c \<le> M * 10 ^ k \<Longrightarrow> half_even c k \<le> M"
proof (cases "c = M * 10 ^ k")
  case True
  then show ?thesis by (simp add: half_even_def)
next
  case False
  assume "c \<le> M * 10 ^ k"
  then have "c < M * 10 ^ k" using False by simp
  then have "c div 10 ^ k < M" by (simp add: less_mult_imp_div_less)
  then show ?thesis by (auto simp: half_even_def Let_def)
qed

text \<open>A coefficient and an exponent whose value is at most one.\<close>

definition at_most_one :: "nat \<Rightarrow> int \<Rightarrow> bool" where
  "at_most_one c e \<longleftrightarrow> c = 0 \<or> e \<le> 0 \<and> c \<le> 10 ^ nat (- e)"

lemma at_most_one_rat: "at_most_one c e \<longleftrightarrow> (of_nat c :: rat) * 10 powi e \<le> 1"
proof (cases "e \<le> 0")
  case True
  then have "(10::rat) powi e = 1 / 10 ^ nat (- e)" by (simp add: power_int_def inverse_eq_divide power_one_over)
  then have "(of_nat c :: rat) * 10 powi e \<le> 1 \<longleftrightarrow> (of_nat c :: rat) \<le> of_nat (10 ^ nat (- e))" by (simp add: divide_le_eq_1)
  also have "\<dots> \<longleftrightarrow> c \<le> 10 ^ nat (- e)" by (simp only: of_nat_le_iff)
  finally show ?thesis using True by (auto simp: at_most_one_def)
next
  case False
  have "(1::rat) < of_nat c * 10 powi e" if "0 < c"
  proof -
    have gt: "(1::rat) < 10 powi e" using False by (simp add: power_int_def one_less_power)
    then have neg: "\<not> (10::rat) powi e < 0" by simp
    note gt
    also have "10 powi e \<le> of_nat c * (10::rat) powi e" using that neg by (simp add: mult_le_cancel_right1)
    finally show ?thesis .
  qed
  then show ?thesis using False by (cases "c = 0") (auto simp: at_most_one_def)
qed

lemma dec_fix_unit:
  assumes "at_most_one c e"
  shows "\<exists>c' e'. dec_fix (Dec neg c e) = Inr (Dec neg c' e') \<and> at_most_one c' e'"
proof (cases "c = 0")
  case True
  then show ?thesis by (simp add: at_most_one_def)
next
  case False
  then have e: "e \<le> 0" "c \<le> 10 ^ nat (- e)" using assms by (auto simp: at_most_one_def)
  have "10 ^ (ndigits c - 1) \<le> (10::nat) ^ nat (- e)" using conjunct1 [OF ndigits_bounds [of c]] False e(2) by linarith
  then have "ndigits c - 1 \<le> nat (- e)" using power_increasing_iff [of "10::nat"] by simp
  then have small: "int (ndigits c) + e \<le> 1" using ndigits_pos [of c] e(1) by linarith
  let ?m = "max (int (ndigits c) + e - dec_prec) dec_etiny"
  have m: "?m \<le> -27" "int (ndigits c) + e - dec_prec < dec_etop" using small by (simp_all add: dec_prec_def dec_etiny_def dec_etop_def)
  show ?thesis
  proof (cases "e < ?m")
    case True
    let ?k = "nat (?m - e)" and ?coeff = "half_even c (nat (?m - e))"
    have "nat (- e) = nat (- ?m) + ?k" using True m(1) by linarith
    then have "c \<le> 10 ^ nat (- ?m) * 10 ^ ?k" using e(2) by (simp add: power_add)
    then have coeff: "?coeff \<le> 10 ^ nat (- ?m)" by (rule half_even_le)
    then have one: "at_most_one ?coeff ?m" using m(1) by (simp add: at_most_one_def)
    have "?coeff div 10 \<le> 10 ^ nat (- ?m) div 10" using coeff by (rule div_le_mono)
    also have "\<dots> = 10 ^ nat (- (?m + 1))"
    proof -
      have "nat (- ?m) = Suc (nat (- (?m + 1)))" using m(1) by linarith
      then show ?thesis by simp
    qed
    finally have "at_most_one (?coeff div 10) (?m + 1)" using m(1) unfolding at_most_one_def by linarith
    with one show ?thesis using False True m by (auto simp: Let_def dec_etop_def)
  next
    case no_round: False
    then show ?thesis using False m assms by (auto simp: Let_def)
  qed
qed

declare dec_fix.simps [simp del]

lemma drop_zeros_value:
  "drop_zeros n c e = (c', e') \<Longrightarrow> (of_nat c' :: rat) * 10 powi e' = of_nat c * 10 powi e"
proof (induction n arbitrary: c e)
  case (Suc n)
  show ?case
  proof (cases "c mod 10 = 0")
    case True
    then have "drop_zeros n (c div 10) (e + 1) = (c', e')" using Suc.prems by simp
    note Suc.IH [OF this]
    also have "(of_nat (c div 10) :: rat) * 10 powi (e + 1) = of_nat (10 * (c div 10)) * 10 powi e"
      by (simp add: power_int_add)
    also have "10 * (c div 10) = c" using True by presburger
    finally show ?thesis .
  qed (use Suc.prems in simp)
qed simp

text \<open>A quotient of at most one, computed with one digit to spare: at most one, and off by less than the
  last digit.\<close>

lemma quotient_unit:
  assumes "quotient a b 0 = (c, e)" "0 < a" "a \<le> b"
  shows "at_most_one c e" "\<bar>(of_nat c :: rat) * 10 powi e - of_nat a / of_nat b\<bar> \<le> 1 / 10 ^ 29"
proof -
  obtain n where n: "n = nat (int (ndigits b) - int (ndigits a) + dec_prec + 1)" by blast
  have big: "29 \<le> n" "int (ndigits b) - int (ndigits a) + dec_prec + 1 = int n"
    using ndigits_mono [OF assms(3)] n by (simp_all add: dec_prec_def)
  let ?q = "a * 10 ^ n div b" and ?r = "a * 10 ^ n mod b"
  have quot: "(c, e) = (if ?r = 0 then drop_zeros n ?q (- int n) else (if ?q mod 5 = 0 then ?q + 1 else ?q, - int n))"
  proof -
    have "quotient a b 0 = (if ?r = 0 then drop_zeros n ?q (- int n) else (if ?q mod 5 = 0 then ?q + 1 else ?q, - int n))"
      unfolding quotient_def big(2) Let_def by simp
    then show ?thesis unfolding assms(1) .
  qed
  have scale: "(10::rat) powi (- int n) = 1 / 10 ^ n" by (simp add: power_int_def inverse_eq_divide power_one_over)
  have split: "a * 10 ^ n = ?q * b + ?r" by simp
  have pos: "0 < b" using assms(2,3) by simp
  have exact: "(of_nat a / of_nat b :: rat) = (of_nat ?q + of_nat ?r / of_nat b) / 10 ^ n"
  proof -
    have "(of_nat a :: rat) * 10 ^ n = of_nat ?q * of_nat b + of_nat ?r" using arg_cong [OF split, of "of_nat :: nat \<Rightarrow> rat"]
      by (simp only: of_nat_add of_nat_mult of_nat_power of_nat_numeral)
    then show ?thesis using pos by (simp add: field_simps)
  qed
  have small: "(1::rat) / 10 ^ n \<le> 1 / 10 ^ 29" using big(1) by (intro divide_left_mono power_increasing) simp_all
  have "at_most_one c e \<and> \<bar>(of_nat c :: rat) * 10 powi e - of_nat a / of_nat b\<bar> \<le> 1 / 10 ^ n"
  proof (cases "?r = 0")
    case True
    then have "drop_zeros n ?q (- int n) = (c, e)" using quot by simp
    from drop_zeros_value [OF this] have v: "(of_nat c :: rat) * 10 powi e = of_nat a / of_nat b"
      using exact True by (simp add: scale)
    have "(of_nat a :: rat) / of_nat b \<le> 1" using assms(3) pos by simp
    then show ?thesis unfolding at_most_one_rat v by simp
  next
    case False
    then have ce: "c = (if ?q mod 5 = 0 then ?q + 1 else ?q)" "e = - int n" using quot by simp_all
    have "a * 10 ^ n \<le> b * 10 ^ n" using assms(3) by simp
    also have "b * 10 ^ n = 10 ^ n * b" by (rule mult.commute)
    finally have "?q * b < 10 ^ n * b" using split False by linarith
    then have "?q < 10 ^ n" using pos by (simp only: mult_less_cancel2)
    then have "?q + 1 \<le> 10 ^ n" by linarith
    then have "at_most_one c e" using ce by (simp add: at_most_one_def)
    moreover have frac: "0 \<le> (of_nat ?r / of_nat b :: rat)" "(of_nat ?r / of_nat b :: rat) \<le> 1" using pos by (simp_all add: less_imp_le)
    have "\<bar>(of_nat c :: rat) - (of_nat ?q + of_nat ?r / of_nat b)\<bar> \<le> 1" using frac ce(1) by (cases "?q mod 5 = 0") simp_all
    then have "\<bar>(of_nat c :: rat) - (of_nat ?q + of_nat ?r / of_nat b)\<bar> / 10 ^ n \<le> 1 / 10 ^ n" by (intro divide_right_mono) simp_all
    then have "\<bar>(of_nat c :: rat) * 10 powi e - of_nat a / of_nat b\<bar> \<le> 1 / 10 ^ n"
      unfolding exact ce(2) scale by (simp add: diff_divide_distrib [symmetric] abs_divide)
    ultimately show ?thesis by blast
  qed
  then show "at_most_one c e" "\<bar>(of_nat c :: rat) * 10 powi e - of_nat a / of_nat b\<bar> \<le> 1 / 10 ^ 29" using small by linarith+
qed

lemma dec_div_unit:
  assumes "a \<le> b" "0 < b"
  shows "\<exists>c e. dec_div (Dec False a 0) (Dec False b 0) = Inr (Dec False c e) \<and> at_most_one c e"
proof (cases "a = 0")
  case True
  then show ?thesis using assms by (simp add: dec_fix.simps at_most_one_def)
next
  case False
  obtain c e where q: "quotient a b 0 = (c, e)" by (cases "quotient a b 0")
  then have "at_most_one c e" using quotient_unit(1) False assms(1) by blast
  from dec_fix_unit [OF this, of False] show ?thesis using q False assms(2) by simp
qed

lemma dec_unit_rat: "at_most_one c e \<longleftrightarrow> dec_rat (Dec False c e) \<le> 1" "0 \<le> dec_rat (Dec False c e)"
  by (simp_all add: at_most_one_rat)

text \<open>The difference of two decimals between zero and one has at most one digit before the point.\<close>

lemma dec_sub_unit:
  assumes "is_finite x" "is_finite y" "0 \<le> dec_rat x" "dec_rat x \<le> 1" "0 \<le> dec_rat y" "dec_rat y \<le> 1"
  shows "\<exists>neg c e. dec_sub x y = Inr (Dec neg c e) \<and> at_most_one c e"
proof -
  obtain n1 c1 e1 where x: "x = Dec n1 c1 e1" using assms(1) by (cases x) auto
  obtain n2 c2 e2 where y: "y = Dec n2 c2 e2" using assms(2) by (cases y) auto
  let ?m = "min e1 e2"
  let ?v = "scaled ?m x - scaled ?m y"
  have "of_int (scaled ?m x) = dec_rat x * 10 powi (- ?m)" "of_int (scaled ?m y) = dec_rat y * 10 powi (- ?m)"
    by (rule scaled_rat [OF assms(1)], simp add: x) (rule scaled_rat [OF assms(2)], simp add: y)
  then have "(of_int ?v :: rat) = (dec_rat x - dec_rat y) * 10 powi (- ?m)"
    by (simp only: of_int_diff left_diff_distrib)
  then have "(of_int \<bar>?v\<bar> :: rat) = \<bar>dec_rat x - dec_rat y\<bar> * 10 powi (- ?m)"
    by (simp only: of_int_abs abs_mult) simp
  then have "(of_nat (nat \<bar>?v\<bar>) :: rat) = \<bar>dec_rat x - dec_rat y\<bar> * 10 powi (- ?m)" by (simp only: of_nat_nat abs_ge_zero)
  then have "(of_nat (nat \<bar>?v\<bar>) :: rat) * 10 powi ?m = \<bar>dec_rat x - dec_rat y\<bar> * (10 powi (- ?m) * 10 powi ?m)" by (simp only: mult.assoc)
  also have "10 powi (- ?m) * (10::rat) powi ?m = 1" by (simp add: power_int_minus)
  finally have "(of_nat (nat \<bar>?v\<bar>) :: rat) * 10 powi ?m \<le> 1" using assms(3-6) by (simp add: abs_le_iff)
  then have "at_most_one (nat \<bar>?v\<bar>) ?m" by (simp add: at_most_one_rat)
  then have fixed: "\<exists>c e. dec_fix (Dec neg (nat \<bar>?v\<bar>) ?m) = Inr (Dec neg c e) \<and> at_most_one c e" for neg
    by (rule dec_fix_unit)
  have "dec_sub x y = dec_fix (Dec (if c1 = 0 \<and> c2 = 0 then n1 \<and> \<not> n2 else ?v < 0) (nat \<bar>?v\<bar>) ?m)"
    unfolding dec_sub_def x y Let_def prod.case decimal.case ..
  then show ?thesis using fixed by metis
qed

section \<open>Accuracy\<close>

lemma half_even_error: "\<bar>(of_nat (half_even c k) :: rat) * 10 ^ k - of_nat c\<bar> \<le> 10 ^ k / 2"
proof -
  obtain q r :: nat where qr: "q = c div 10 ^ k" "r = c mod 10 ^ k" by blast
  have "c = q * 10 ^ k + r" unfolding qr by (rule div_mult_mod_eq [symmetric])
  then have c: "(of_nat c :: rat) = of_nat q * 10 ^ k + of_nat r" by simp
  have le: "(of_nat (2 * r) :: rat) \<le> of_nat (10 ^ k) \<longleftrightarrow> 2 * r \<le> 10 ^ k" "(of_nat (10 ^ k) :: rat) \<le> of_nat (2 * r) \<longleftrightarrow> 10 ^ k \<le> 2 * r"
    by (simp_all only: of_nat_le_iff)
  have "r < 10 ^ k" using qr by simp
  then have "(of_nat r :: rat) < of_nat (10 ^ k)" by (simp only: of_nat_less_iff)
  then have r: "(of_nat r :: rat) < 10 ^ k" by simp
  consider "half_even c k = q" "2 * r \<le> 10 ^ k" | "half_even c k = q + 1" "10 ^ k \<le> 2 * r"
    unfolding half_even_def Let_def qr [symmetric] by (metis linorder_not_less nat_le_linear)
  then show ?thesis
  proof cases
    case 1
    then have "2 * (of_nat r :: rat) \<le> 10 ^ k" using le by simp
    then show ?thesis unfolding 1(1) c by simp
  next
    case 2
    then have "10 ^ k \<le> 2 * (of_nat r :: rat)" using le by simp
    then show ?thesis unfolding 2(1) c using r by (simp add: algebra_simps abs_le_iff)
  qed
qed

lemma half_even_digits: "c < 10 ^ n * 10 ^ k \<Longrightarrow> half_even c k \<le> 10 ^ n"
  by (rule half_even_le) simp

text \<open>Fixing a value of at most one moves it by at most half a unit of the 27th place.\<close>

lemma dec_fix_error:
  assumes "at_most_one c e" "dec_fix (Dec neg c e) = Inr (Dec neg c' e')"
  shows "\<bar>(of_nat c' :: rat) * 10 powi e' - of_nat c * 10 powi e\<bar> \<le> 1 / (2 * 10 ^ 27)"
proof (cases "c = 0")
  case True
  then show ?thesis using assms(2) by (simp add: dec_fix.simps)
next
  case False
  obtain m where m: "m = max (int (ndigits c) + e - dec_prec) dec_etiny" by blast
  have e: "e \<le> 0" "c \<le> 10 ^ nat (- e)" using assms(1) False by (auto simp: at_most_one_def)
  have "10 ^ (ndigits c - 1) \<le> (10::nat) ^ nat (- e)" using conjunct1 [OF ndigits_bounds [of c]] False e(2) by linarith
  then have "ndigits c - 1 \<le> nat (- e)" using power_increasing_iff [of "10::nat"] by simp
  then have m27: "m \<le> -27" using e(1) ndigits_pos [of c] m by (simp add: dec_prec_def dec_etiny_def)
  show ?thesis
  proof (cases "e < m")
    case False
    then show ?thesis using assms(2) \<open>c \<noteq> 0\<close> by (simp add: dec_fix.simps Let_def m [symmetric] split: if_splits)
  next
    case True
    obtain k where k: "k = nat (m - e)" by blast
    obtain coeff where coeff: "coeff = half_even c k" by blast
    have scale: "(10::rat) powi e * 10 ^ k = 10 powi m"
    proof -
      have "(10::rat) powi m = 10 powi (e + int k)" using True k by simp
      then show ?thesis by (simp add: power_int_add)
    qed
    have "(of_nat c' :: rat) * 10 powi e' = of_nat coeff * 10 powi m"
    proof (cases "dec_prec < int (ndigits coeff)")
      case False
      then have "c' = coeff" "e' = m"
        using assms(2) \<open>c \<noteq> 0\<close> True by (simp_all add: dec_fix.simps Let_def m [symmetric] k [symmetric] coeff [symmetric] split: if_splits)
      then show ?thesis by simp
    next
      case carry: True
      then have c': "c' = coeff div 10" "e' = m + 1"
        using assms(2) \<open>c \<noteq> 0\<close> True by (simp_all add: dec_fix.simps Let_def m [symmetric] k [symmetric] coeff [symmetric] split: if_splits)
      have "c < 10 ^ ndigits c" using ndigits_bounds [of c] False \<open>c \<noteq> 0\<close> by simp
      also have "(10::nat) ^ ndigits c \<le> 10 ^ 28 * 10 ^ k"
        unfolding power_add [symmetric] using True m k by (intro power_increasing) (simp_all add: dec_prec_def)
      finally have "coeff \<le> 10 ^ 28" unfolding coeff by (rule half_even_digits)
      moreover have "10 ^ 28 \<le> coeff"
      proof -
        have "28 \<le> ndigits coeff - 1" "0 < coeff" using carry by (auto simp: dec_prec_def ndigits_rec [of 0] intro: gr0I)
        then have "(10::nat) ^ 28 \<le> 10 ^ (ndigits coeff - 1)" by (intro power_increasing) simp_all
        with ndigits_bounds [OF \<open>0 < coeff\<close>] show ?thesis by linarith
      qed
      ultimately have "coeff = 10 ^ 28" by simp
      then show ?thesis unfolding c' by (simp add: power_int_add)
    qed
    moreover have "\<bar>(of_nat coeff :: rat) * 10 powi m - of_nat c * 10 powi e\<bar> \<le> 10 powi m / 2"
    proof -
      have "(of_nat coeff :: rat) * 10 powi m - of_nat c * 10 powi e = (of_nat coeff * 10 ^ k - of_nat c) * 10 powi e"
        by (simp add: scale [symmetric] algebra_simps)
      then have "\<bar>(of_nat coeff :: rat) * 10 powi m - of_nat c * 10 powi e\<bar> = \<bar>of_nat coeff * 10 ^ k - of_nat c\<bar> * 10 powi e"
        by (simp add: abs_mult)
      also have "\<dots> \<le> 10 ^ k / 2 * 10 powi e" unfolding coeff by (intro mult_right_mono half_even_error) simp
      also have "\<dots> = 10 powi m / 2" by (simp add: scale [symmetric])
      finally show ?thesis .
    qed
    moreover have "(10::rat) powi m \<le> 10 powi (-27)" using m27 by (intro power_int_increasing) simp_all
    ultimately show ?thesis by (simp add: power_int_minus inverse_eq_divide)
  qed
qed

lemma dec_div_error:
  assumes "a \<le> b" "0 < b" "dec_div (Dec False a 0) (Dec False b 0) = Inr d"
  shows "\<bar>dec_rat d - of_nat a / of_nat b\<bar> \<le> 1 / 10 ^ 27"
proof (cases "a = 0")
  case True
  then have "d = Dec False 0 (min (max 0 dec_etiny) dec_emax)" using assms by (simp add: dec_fix.simps)
  then show ?thesis using True by simp
next
  case False
  obtain c e where q: "quotient a b 0 = (c, e)" by (cases "quotient a b 0")
  have unit: "at_most_one c e" "\<bar>(of_nat c :: rat) * 10 powi e - of_nat a / of_nat b\<bar> \<le> 1 / 10 ^ 29"
    using quotient_unit [OF q] False assms(1) by blast+
  obtain c' e' where fixed: "dec_fix (Dec False c e) = Inr (Dec False c' e')" using dec_fix_unit [OF unit(1)] by blast
  then have "d = Dec False c' e'" using assms(2,3) q False by simp
  moreover have "\<bar>x - z\<bar> \<le> 1 / 10 ^ 27" if "\<bar>x - y\<bar> \<le> 1 / (2 * 10 ^ 27)" "\<bar>y - z\<bar> \<le> 1 / 10 ^ 29" for x y z :: rat
    using abs_triangle_ineq [of "x - y" "y - z"] that by simp
  ultimately show ?thesis using dec_fix_error [OF unit(1) fixed] unit(2) by (simp only: dec_rat.simps if_False of_int_of_nat_eq)
qed

end
