(* ===== verification/Incidents.thy ===== *)
theory Incidents
  imports Decimals States
begin

text \<open>
  \<^verbatim>\<open>services/control_plane/incidents.py\<close>: the payment-method incident detector with expiring evidence and a
  cooling period. A health window is read as an exact success rate under Python's decimal context, compared with
  its baseline, and moves the incident along the graph of \<^verbatim>\<open>states.py\<close>.
\<close>

section \<open>Configuration\<close>

record detector_config =
  dt_version :: pystr
  dt_minimum_volume :: int
  dt_suspect_drop :: probability
  dt_confirm_drop :: probability
  dt_healthy_drop :: probability
  dt_ttl :: timedelta
  dt_cooling_period :: timedelta

definition mk_detector_config :: "detector_config \<Rightarrow> exn + detector_config" where
  "mk_detector_config c =
     bindE (require_identifier (dt_version c) ''detector_version'') (\<lambda>_.
     bindE (raise_if (dt_minimum_volume c \<le> 0) (ValueError ''minimum_volume must be a positive integer'')) (\<lambda>_.
     bindE (raise_if (prob_less (dt_confirm_drop c) (dt_suspect_drop c)) (ValueError ''confirm_drop cannot be below suspect_drop'')) (\<lambda>_.
     bindE (raise_if (prob_less (dt_suspect_drop c) (dt_healthy_drop c)) (ValueError ''healthy_drop must be at or below suspect_drop'')) (\<lambda>_.
     bindE (raise_if (dt_ttl c \<le> 0 \<or> dt_cooling_period c \<le> 0) (ValueError ''ttl and cooling_period must be positive'')) (\<lambda>_.
     Inr c)))))"

section \<open>Health windows\<close>

record health_window =
  hw_scope_id :: pystr
  hw_merchant_id :: pystr
  hw_payment_method :: pystr
  hw_window_started_at :: instant
  hw_observed_at :: instant
  hw_successes :: int
  hw_failures :: int
  hw_baseline_success_rate :: probability
  hw_provider_downtime_active :: bool

definition mk_health_window :: "health_window \<Rightarrow> datetime \<Rightarrow> datetime \<Rightarrow> exn + health_window" where
  "mk_health_window w started observed =
     bindE (require_identifier (hw_scope_id w) ''scope_id'') (\<lambda>_.
     bindE (require_identifier (hw_merchant_id w) ''merchant_id'') (\<lambda>_.
     bindE (require_payment_method (hw_payment_method w) ''payment_method'') (\<lambda>_.
     bindE (require_utc started ''window_started_at'') (\<lambda>started_at.
     bindE (require_utc observed ''observed_at'') (\<lambda>observed_at.
     bindE (raise_if (observed_at < started_at) (ValueError ''observed_at cannot precede the window start'')) (\<lambda>_.
     bindE (raise_if (hw_successes w < 0) (ValueError ''successes must be a non-negative integer'')) (\<lambda>_.
     bindE (raise_if (hw_failures w < 0) (ValueError ''failures must be a non-negative integer'')) (\<lambda>_.
     Inr (w\<lparr>hw_window_started_at := started_at, hw_observed_at := observed_at\<rparr>)))))))))"

definition volume :: "health_window \<Rightarrow> int" where
  "volume w = hw_successes w + hw_failures w"

definition observed_success_rate :: "health_window \<Rightarrow> exn + probability" where
  "observed_success_rate w =
     (if volume w = 0 then mk_probability (ArgInt 0)
      else bindE (dec_div (dec_of_int (hw_successes w)) (dec_of_int (volume w))) (\<lambda>q. mk_probability (ArgDecimal q)))"

text \<open>\<^verbatim>\<open>max(drop, Decimal(0))\<close>: the second argument only when it is greater.\<close>

definition degradation :: "health_window \<Rightarrow> exn + probability" where
  "degradation w =
     bindE (observed_success_rate w) (\<lambda>rate.
     bindE (dec_sub (prob_value (hw_baseline_success_rate w)) (prob_value rate)) (\<lambda>gap.
     mk_probability (ArgDecimal (if dec_less gap (dec_of_int 0) then dec_of_int 0 else gap))))"

section \<open>Projections\<close>

record incident_projection =
  ip_scope_id :: pystr
  ip_merchant_id :: pystr
  ip_payment_method :: pystr
  ip_state :: incident_state
  ip_version :: int
  ip_state_since :: "instant option"
  ip_last_evidence_at :: "instant option"
  ip_expires_at :: "instant option"
  ip_cooling_until :: "instant option"

definition mk_projection ::
  "incident_projection \<Rightarrow> datetime option \<Rightarrow> datetime option \<Rightarrow> datetime option \<Rightarrow> datetime option \<Rightarrow> exn + incident_projection" where
  "mk_projection p since evidence expires cooling =
     bindE (require_identifier (ip_scope_id p) ''scope_id'') (\<lambda>_.
     bindE (require_identifier (ip_merchant_id p) ''merchant_id'') (\<lambda>_.
     bindE (require_payment_method (ip_payment_method p) ''payment_method'') (\<lambda>_.
     bindE (raise_if (ip_version p < 0) (ValueError ''version must be a non-negative integer'')) (\<lambda>_.
     bindE (option_checkE (\<lambda>d. require_utc d ''state_since'') since) (\<lambda>since_at.
     bindE (option_checkE (\<lambda>d. require_utc d ''last_evidence_at'') evidence) (\<lambda>evidence_at.
     bindE (option_checkE (\<lambda>d. require_utc d ''expires_at'') expires) (\<lambda>expires_at.
     bindE (option_checkE (\<lambda>d. require_utc d ''cooling_until'') cooling) (\<lambda>cooling_until.
     Inr (p\<lparr>ip_state_since := since_at, ip_last_evidence_at := evidence_at, ip_expires_at := expires_at,
            ip_cooling_until := cooling_until\<rparr>)))))))))"

text \<open>\<^verbatim>\<open>replace(projection, ...)\<close>, which validates again.\<close>

definition replace_projection :: "incident_projection \<Rightarrow> exn + incident_projection" where
  "replace_projection p = mk_projection p (map_option utc (ip_state_since p)) (map_option utc (ip_last_evidence_at p))
     (map_option utc (ip_expires_at p)) (map_option utc (ip_cooling_until p))"

record incident_evaluation =
  ie_projection :: incident_projection
  ie_changed :: bool
  ie_reason_code :: pystr
  ie_observed_success_rate :: probability
  ie_baseline_success_rate :: probability
  ie_degradation :: probability
  ie_provider_corroborated :: bool
  ie_minimum_volume_met :: bool

definition evaluation_to_primitive :: "incident_evaluation \<Rightarrow> json" where
  "evaluation_to_primitive ev = JObj
     [(''scope_id'', JStr (ip_scope_id (ie_projection ev))), (''state'', JStr (incident_value (ip_state (ie_projection ev)))),
      (''version'', JInt (ip_version (ie_projection ev))), (''changed'', JBool (ie_changed ev)),
      (''reason_code'', JStr (ie_reason_code ev)),
      (''observed_success_rate'', JStr (prob_to_primitive (ie_observed_success_rate ev))),
      (''baseline_success_rate'', JStr (prob_to_primitive (ie_baseline_success_rate ev))),
      (''degradation'', JStr (prob_to_primitive (ie_degradation ev))),
      (''provider_corroborated'', JBool (ie_provider_corroborated ev)),
      (''minimum_volume_met'', JBool (ie_minimum_volume_met ev))]"

section \<open>The detector\<close>

text \<open>What a window says under a configuration.\<close>

record detector_signal =
  ds_downtime :: bool
  ds_suspected :: bool
  ds_strong :: bool
  ds_healthy :: bool
  ds_expired :: bool

definition enough_volume :: "detector_config \<Rightarrow> health_window \<Rightarrow> bool" where
  "enough_volume cfg w = (dt_minimum_volume cfg \<le> volume w)"

definition signal_of :: "detector_config \<Rightarrow> incident_projection \<Rightarrow> health_window \<Rightarrow> probability \<Rightarrow> detector_signal" where
  "signal_of cfg p w gap =
     \<lparr>ds_downtime = hw_provider_downtime_active w,
      ds_suspected = (enough_volume cfg w \<and> prob_le (dt_suspect_drop cfg) gap),
      ds_strong = (enough_volume cfg w \<and> dt_minimum_volume cfg * 2 \<le> volume w \<and> prob_le (dt_confirm_drop cfg) gap),
      ds_healthy = (enough_volume cfg w \<and> prob_le gap (dt_healthy_drop cfg)),
      ds_expired = (case ip_expires_at p of None \<Rightarrow> False | Some e \<Rightarrow> e \<le> hw_observed_at w)\<rparr>"

text \<open>The target state, the reason and the end of the cooling period.\<close>

definition target_of ::
  "detector_config \<Rightarrow> detector_signal \<Rightarrow> incident_projection \<Rightarrow> instant \<Rightarrow> exn + incident_state \<times> pystr \<times> instant option" where
  "target_of cfg sg p now =
     (let same = Inr (ip_state p, ''NO_MATERIAL_CHANGE'', ip_cooling_until p) in
      case ip_state p of
        NORMAL \<Rightarrow>
          if ds_downtime sg \<or> ds_suspected sg
          then Inr (SUSPECTED, if ds_downtime sg then ''PROVIDER_DOWNTIME_SUSPECTED'' else ''STATISTICAL_DEGRADATION_SUSPECTED'',
                 ip_cooling_until p)
          else same
      | SUSPECTED \<Rightarrow>
          if ds_downtime sg \<or> ds_strong sg
          then Inr (CONFIRMED, if ds_downtime sg then ''PROVIDER_DOWNTIME_CONFIRMED'' else ''STRONG_CORROBORATION_CONFIRMED'',
                 ip_cooling_until p)
          else if ds_healthy sg \<or> ds_expired sg
          then Inr (NORMAL, if ds_expired sg then ''SUSPECTED_EVIDENCE_EXPIRED'' else ''SUSPECTED_EVIDENCE_DECAYED'', ip_cooling_until p)
          else same
      | CONFIRMED \<Rightarrow>
          if \<not> ds_downtime sg \<and> (ds_healthy sg \<or> ds_expired sg)
          then bindE (add_time now (dt_cooling_period cfg)) (\<lambda>cooling. Inr (COOLING, ''RECOVERY_SIGNAL_ENTERED_COOLING'', Some cooling))
          else same
      | COOLING \<Rightarrow>
          if ds_downtime sg \<or> ds_strong sg then Inr (CONFIRMED, ''DEGRADATION_RESUMED'', None)
          else if ds_healthy sg \<and> (case ip_cooling_until p of None \<Rightarrow> False | Some c \<Rightarrow> c \<le> now)
          then Inr (NORMAL, ''HYSTERESIS_WINDOW_PASSED'', None)
          else same)"

definition next_projection ::
  "detector_config \<Rightarrow> detector_signal \<Rightarrow> incident_projection \<Rightarrow> instant \<Rightarrow> incident_state \<Rightarrow> instant option \<Rightarrow> bool \<Rightarrow> exn + incident_projection" where
  "next_projection cfg sg p now target cooling is_changed =
     (if is_changed then
        bindE (if target \<in> {SUSPECTED, CONFIRMED} then bindE (add_time now (dt_ttl cfg)) (\<lambda>e. Inr (Some e)) else Inr None) (\<lambda>expires.
        replace_projection (p\<lparr>ip_state := target, ip_version := ip_version p + 1, ip_state_since := Some now,
          ip_last_evidence_at := Some now, ip_expires_at := expires, ip_cooling_until := cooling\<rparr>))
      else if ip_last_evidence_at p \<noteq> Some now then
        bindE (if ip_state p \<in> {SUSPECTED, CONFIRMED} \<and> (ds_suspected sg \<or> ds_strong sg \<or> ds_downtime sg)
               then bindE (add_time now (dt_ttl cfg)) (\<lambda>e. Inr (Some e)) else Inr (ip_expires_at p)) (\<lambda>expires.
        replace_projection (p\<lparr>ip_last_evidence_at := Some now, ip_expires_at := expires\<rparr>))
      else Inr p)"

definition check_scope :: "incident_projection \<Rightarrow> health_window \<Rightarrow> exn + unit" where
  "check_scope p w =
     bindE (raise_if (ip_scope_id p \<noteq> hw_scope_id w \<or> ip_merchant_id p \<noteq> hw_merchant_id w \<or> ip_payment_method p \<noteq> hw_payment_method w)
       (ValueError ''health window belongs to another incident scope'')) (\<lambda>_.
     raise_if (case ip_last_evidence_at p of None \<Rightarrow> False | Some t \<Rightarrow> hw_observed_at w < t)
       (ValueError ''incident evidence cannot move backwards in time''))"

definition evaluate_incident :: "detector_config \<Rightarrow> incident_projection \<Rightarrow> health_window \<Rightarrow> exn + incident_evaluation" where
  "evaluate_incident cfg p w =
     bindE (check_scope p w) (\<lambda>_.
     bindE (observed_success_rate w) (\<lambda>rate.
     bindE (degradation w) (\<lambda>gap.
     let sg = signal_of cfg p w gap; now = hw_observed_at w in
     bindE (target_of cfg sg p now) (\<lambda>(target, reason, cooling).
     bindE (validate_incident_transition (ip_state p) target) (\<lambda>is_changed.
     bindE (next_projection cfg sg p now target cooling is_changed) (\<lambda>q.
     Inr \<lparr>ie_projection = q, ie_changed = is_changed, ie_reason_code = reason, ie_observed_success_rate = rate,
          ie_baseline_success_rate = hw_baseline_success_rate w, ie_degradation = gap,
          ie_provider_corroborated = hw_provider_downtime_active w, ie_minimum_volume_met = enough_volume cfg w\<rparr>))))))"

end
