(* ===== verification/Incident_Spec.thy ===== *)
theory Incident_Spec
  imports Incidents
begin

text \<open>
  The detector on valid input: rates and gaps are probabilities, an evaluation raises only for a foreign or
  earlier window or at the end of the calendar, every change of state follows the graph and is justified by its
  window, and an incident returns to normal only after its cooling period.
\<close>

section \<open>Validity\<close>

definition prob_ok :: "probability \<Rightarrow> bool" where
  "prob_ok p = (is_finite (prob_value p) \<and> 0 \<le> dec_rat (prob_value p) \<and> dec_rat (prob_value p) \<le> 1)"

definition window_ok :: "health_window \<Rightarrow> bool" where
  "window_ok w = (0 \<le> hw_successes w \<and> 0 \<le> hw_failures w \<and> in_range (hw_observed_at w) \<and> prob_ok (hw_baseline_success_rate w))"

definition projection_ok :: "incident_projection \<Rightarrow> bool" where
  "projection_ok p =
     (is_identifier (ip_scope_id p) \<and> is_identifier (ip_merchant_id p) \<and> is_payment_method (ip_payment_method p) \<and> 0 \<le> ip_version p
      \<and> pred_option in_range (ip_state_since p) \<and> pred_option in_range (ip_last_evidence_at p)
      \<and> pred_option in_range (ip_expires_at p) \<and> pred_option in_range (ip_cooling_until p))"

lemma require_utc_instant [simp]: "require_utc (utc t) f = Inr u \<longleftrightarrow> in_range t \<and> u = t"
  by (auto simp: require_utc_def utc_def astimezone_utc_def add_time_def)

lemma option_utc: "option_checkE (\<lambda>d. require_utc d f) (map_option utc x) = Inr y \<longleftrightarrow> pred_option in_range x \<and> y = x"
  by (cases x) auto

lemma replace_projection_Inr: "replace_projection p = Inr q \<longleftrightarrow> projection_ok p \<and> q = p"
proof -
  have "p\<lparr>ip_state_since := ip_state_since p, ip_last_evidence_at := ip_last_evidence_at p, ip_expires_at := ip_expires_at p,
      ip_cooling_until := ip_cooling_until p\<rparr> = p" by simp
  then show ?thesis
    by (auto simp: replace_projection_def mk_projection_def option_utc projection_ok_def require_identifier_def
        require_payment_method_def split: if_splits)
qed

lemma mk_probability_unit:
  assumes "at_most_one c e"
  shows "\<exists>p. mk_probability (ArgDecimal (Dec False c e)) = Inr p \<and> prob_ok p \<and> prob_value p = Dec False c e"
  using assms dec_unit_rat [of c e] by (simp add: check_probability_Inr prob_ok_def del: dec_rat.simps)

lemma mk_probability_zero: "mk_probability (ArgInt 0) = Inr \<lparr>prob_value = Dec False 0 0\<rparr>"
  using mk_probability_unit [of 0 0] by (simp add: at_most_one_def dec_of_int_def check_probability_Inr)

lemma rate_ok:
  assumes "window_ok w"
  shows "\<exists>r. observed_success_rate w = Inr r \<and> prob_ok r"
proof (cases "volume w = 0")
  case True
  then show ?thesis by (simp add: observed_success_rate_def mk_probability_zero prob_ok_def del: mk_probability.simps)
next
  case False
  let ?s = "nat (hw_successes w)" and ?v = "nat (volume w)"
  have "?s \<le> ?v" "0 < ?v" using assms False by (auto simp: window_ok_def volume_def)
  from dec_div_unit [OF this] obtain c e where q: "dec_div (Dec False ?s 0) (Dec False ?v 0) = Inr (Dec False c e)" "at_most_one c e"
    by blast
  have "dec_of_int (hw_successes w) = Dec False ?s 0" "dec_of_int (volume w) = Dec False ?v 0"
    using assms by (auto simp: dec_of_int_def window_ok_def volume_def)
  with q mk_probability_unit [OF q(2)] False show ?thesis
    by (auto simp: observed_success_rate_def simp del: mk_probability.simps)
qed

lemma degradation_ok:
  assumes "window_ok w"
  shows "\<exists>g. degradation w = Inr g \<and> prob_ok g"
proof -
  obtain r where r: "observed_success_rate w = Inr r" "prob_ok r" using rate_ok [OF assms] by blast
  have "prob_ok (hw_baseline_success_rate w)" using assms by (simp add: window_ok_def)
  with r(2) obtain neg c e where gap: "dec_sub (prob_value (hw_baseline_success_rate w)) (prob_value r) = Inr (Dec neg c e)" "at_most_one c e"
    using dec_sub_unit by (meson prob_ok_def)
  let ?d = "if dec_less (Dec neg c e) (dec_of_int 0) then dec_of_int 0 else Dec neg c e"
  have zero: "dec_rat (dec_of_int 0) = 0" "is_finite (dec_of_int 0)" by (simp_all add: dec_of_int_def)
  have "0 \<le> dec_rat ?d" using zero by (auto simp: dec_less_rat not_less simp del: dec_rat.simps)
  moreover have "dec_rat (Dec neg c e) \<le> dec_rat (Dec False c e)" by simp
  then have "dec_rat ?d \<le> 1" using zero gap(2) dec_unit_rat(1) [of c e] by (auto simp del: dec_rat.simps)
  moreover have "is_finite ?d" using zero by simp
  ultimately have "mk_probability (ArgDecimal ?d) = Inr \<lparr>prob_value = ?d\<rparr>" "prob_ok \<lparr>prob_value = ?d\<rparr>"
    by (simp_all add: check_probability_Inr prob_ok_def del: dec_rat.simps)
  then show ?thesis using r(1) gap(1) by (simp add: degradation_def del: mk_probability.simps)
qed

section \<open>An evaluation\<close>

lemma evaluate_incident_Inr:
  assumes "evaluate_incident cfg p w = Inr ev"
  obtains gap target reason cooling where "check_scope p w = Inr ()" "degradation w = Inr gap"
    "target_of cfg (signal_of cfg p w gap) p (hw_observed_at w) = Inr (target, reason, cooling)"
    "validate_incident_transition (ip_state p) target = Inr (ie_changed ev)"
    "next_projection cfg (signal_of cfg p w gap) p (hw_observed_at w) target cooling (ie_changed ev) = Inr (ie_projection ev)"
    "ie_degradation ev = gap" "ie_reason_code ev = reason"
  using assms by (auto simp: evaluate_incident_def Let_def split: prod.splits)

lemma next_projection_Inr:
  assumes "next_projection cfg sg p now target cooling ch = Inr q"
  obtains (changed) expires where "ch" "projection_ok q"
      "q = p\<lparr>ip_state := target, ip_version := ip_version p + 1, ip_state_since := Some now,
          ip_last_evidence_at := Some now, ip_expires_at := expires, ip_cooling_until := cooling\<rparr>"
      "expires = (if target \<in> {SUSPECTED, CONFIRMED} then Some (now + dt_ttl cfg) else None)"
  | (evidence) expires where "\<not> ch" "projection_ok q" "q = p\<lparr>ip_last_evidence_at := Some now, ip_expires_at := expires\<rparr>"
      "expires = (if ip_state p \<in> {SUSPECTED, CONFIRMED} \<and> (ds_suspected sg \<or> ds_strong sg \<or> ds_downtime sg)
         then Some (now + dt_ttl cfg) else ip_expires_at p)"
  | (nothing) "\<not> ch" "q = p" "ip_last_evidence_at p = Some now"
proof (cases ch)
  case True
  with assms show thesis unfolding next_projection_def
    by (intro changed) (auto simp: replace_projection_Inr add_time_def split: if_splits)
next
  case unchanged: False
  show thesis
  proof (cases "ip_last_evidence_at p = Some now")
    case True
    with assms unchanged have "q = p" by (simp add: next_projection_def)
    from unchanged this True show thesis by (rule nothing)
  next
    case False
    with assms unchanged show thesis unfolding next_projection_def
      by (intro evidence) (auto simp: replace_projection_Inr add_time_def split: if_splits)
  qed
qed

text \<open>What each change of state says of the signal.\<close>

definition justified :: "detector_signal \<Rightarrow> incident_projection \<Rightarrow> instant \<Rightarrow> incident_state \<Rightarrow> bool" where
  "justified sg p now target = (case target of
      SUSPECTED \<Rightarrow> ip_state p = NORMAL \<and> (ds_downtime sg \<or> ds_suspected sg)
    | CONFIRMED \<Rightarrow> (ip_state p = SUSPECTED \<or> ip_state p = COOLING) \<and> (ds_downtime sg \<or> ds_strong sg)
    | COOLING \<Rightarrow> ip_state p = CONFIRMED \<and> \<not> ds_downtime sg \<and> (ds_healthy sg \<or> ds_expired sg)
    | NORMAL \<Rightarrow> \<not> ds_downtime sg \<and> (ip_state p = SUSPECTED \<and> (ds_healthy sg \<or> ds_expired sg)
        \<or> ip_state p = COOLING \<and> ds_healthy sg \<and> (\<exists>c. ip_cooling_until p = Some c \<and> c \<le> now)))"

lemma target_justified:
  assumes "target_of cfg sg p now = Inr (target, reason, cooling)"
  shows "target = ip_state p \<or> justified sg p now target \<and> target \<in> set (incident_transitions (ip_state p))"
  using assms by (cases "ip_state p") (auto simp: target_of_def Let_def justified_def split: if_splits option.splits)

lemma target_cooling:
  assumes "target_of cfg sg p now = Inr (target, reason, cooling)" "target \<noteq> ip_state p"
  shows "cooling = (if target = COOLING then Some (now + dt_cooling_period cfg)
    else if ip_state p = COOLING then None else ip_cooling_until p)"
  using assms by (cases "ip_state p") (auto simp: target_of_def Let_def add_time_def split: if_splits option.splits)

lemma target_total:
  assumes "in_range (now + dt_cooling_period cfg)" "pred_option in_range (ip_cooling_until p)"
  shows "\<exists>target reason cooling. target_of cfg sg p now = Inr (target, reason, cooling) \<and> pred_option in_range cooling"
  using assms by (cases "ip_state p") (auto simp: target_of_def Let_def add_time_def)

section \<open>Reachable incidents\<close>

inductive incident_reachable :: "detector_config \<Rightarrow> incident_projection \<Rightarrow> bool" for cfg where
  fresh: "ip_state p = NORMAL \<Longrightarrow> ip_version p = 0 \<Longrightarrow> ip_state_since p = None \<Longrightarrow> ip_last_evidence_at p = None \<Longrightarrow>
    ip_expires_at p = None \<Longrightarrow> ip_cooling_until p = None \<Longrightarrow> projection_ok p \<Longrightarrow> incident_reachable cfg p"
| evaluated: "incident_reachable cfg p \<Longrightarrow> evaluate_incident cfg p w = Inr ev \<Longrightarrow> incident_reachable cfg (ie_projection ev)"

definition incident_inv :: "detector_config \<Rightarrow> incident_projection \<Rightarrow> bool" where
  "incident_inv cfg p = (projection_ok p \<and> (case ip_state p of
      NORMAL \<Rightarrow> ip_expires_at p = None \<and> ip_cooling_until p = None
    | COOLING \<Rightarrow> ip_expires_at p = None \<and> (\<exists>since. ip_state_since p = Some since \<and> ip_cooling_until p = Some (since + dt_cooling_period cfg))
    | _ \<Rightarrow> (\<exists>e. ip_expires_at p = Some e) \<and> ip_cooling_until p = None))"

lemma evaluate_inv:
  assumes "evaluate_incident cfg p w = Inr ev" "incident_inv cfg p"
  shows "incident_inv cfg (ie_projection ev)"
  using assms(1)
proof (rule evaluate_incident_Inr)
  fix gap target reason cooling
  let ?sg = "signal_of cfg p w gap" and ?now = "hw_observed_at w"
  assume t: "target_of cfg ?sg p ?now = Inr (target, reason, cooling)"
    and v: "validate_incident_transition (ip_state p) target = Inr (ie_changed ev)"
    and "next_projection cfg ?sg p ?now target cooling (ie_changed ev) = Inr (ie_projection ev)"
  from this(3) show ?thesis
  proof (cases rule: next_projection_Inr)
    case (changed expires)
    then have ne: "target \<noteq> ip_state p" using v by (auto simp: validate_incident_Inr)
    have "cooling = (if target = COOLING then Some (?now + dt_cooling_period cfg) else None)"
      using target_cooling [OF t ne] assms(2) by (cases "ip_state p") (auto simp: incident_inv_def)
    then show ?thesis using changed by (cases target) (auto simp: incident_inv_def)
  next
    case (evidence expires)
    then show ?thesis using assms(2) by (cases "ip_state p") (auto simp: incident_inv_def)
  next
    case nothing
    then show ?thesis using assms(2) by simp
  qed
qed

lemma incident_reachable_inv: "incident_reachable cfg p \<Longrightarrow> incident_inv cfg p"
  by (induction rule: incident_reachable.induct) (auto simp: evaluate_inv, simp add: incident_inv_def)

section \<open>Properties\<close>

text \<open>C33. The detector answers. For a valid projection and window of the same scope, not older than the last
  evidence, with room left in the calendar, an evaluation returns: the decimal division and subtraction, the
  probability checks, the transition graph and the validation of the new projection all accept. The state
  changes along the graph and raises the version by one exactly when the evaluation reports a change.\<close>

theorem detector_answers:
  assumes "window_ok w" "projection_ok p" "check_scope p w = Inr ()"
    and "in_range (hw_observed_at w + dt_cooling_period cfg)" "in_range (hw_observed_at w + dt_ttl cfg)"
  shows "\<exists>ev. evaluate_incident cfg p w = Inr ev \<and> projection_ok (ie_projection ev)
    \<and> ip_version (ie_projection ev) = ip_version p + (if ie_changed ev then 1 else 0)
    \<and> (if ie_changed ev then ip_state (ie_projection ev) \<in> set (incident_transitions (ip_state p))
       else ip_state (ie_projection ev) = ip_state p)"
proof -
  obtain rate gap where rate: "observed_success_rate w = Inr rate" and gap: "degradation w = Inr gap"
    using rate_ok [OF assms(1)] degradation_ok [OF assms(1)] by blast
  let ?sg = "signal_of cfg p w gap" and ?now = "hw_observed_at w"
  have "pred_option in_range (ip_cooling_until p)" using assms(2) by (simp add: projection_ok_def)
  then obtain target reason cooling where target: "target_of cfg ?sg p ?now = Inr (target, reason, cooling)" "pred_option in_range cooling"
    using target_total [OF assms(4)] by blast
  obtain ch where ch: "validate_incident_transition (ip_state p) target = Inr ch"
    using target_justified [OF target(1)] validate_incident_Inr by metis
  have now: "in_range ?now" using assms(1) by (simp add: window_ok_def)
  obtain q where q: "next_projection cfg ?sg p ?now target cooling ch = Inr q"
  proof -
    have "\<exists>q. next_projection cfg ?sg p ?now target cooling ch = Inr q"
      using assms(2,5) now target(2) unfolding next_projection_def
      by (simp add: replace_projection_Inr add_time_def projection_ok_def)
    then show thesis using that by blast
  qed
  let ?ev = "\<lparr>ie_projection = q, ie_changed = ch, ie_reason_code = reason, ie_observed_success_rate = rate,
          ie_baseline_success_rate = hw_baseline_success_rate w, ie_degradation = gap,
          ie_provider_corroborated = hw_provider_downtime_active w, ie_minimum_volume_met = enough_volume cfg w\<rparr>"
  have ev: "evaluate_incident cfg p w = Inr ?ev"
    using assms(3) rate gap target(1) ch q by (simp add: evaluate_incident_def Let_def)
  from q have "projection_ok q \<and> ip_version q = ip_version p + (if ch then 1 else 0)
    \<and> (if ch then ip_state q \<in> set (incident_transitions (ip_state p)) else ip_state q = ip_state p)"
    by (cases rule: next_projection_Inr) (use ch assms(2) in \<open>auto simp: validate_incident_Inr\<close>)
  with ev show ?thesis by (intro exI [of _ ?ev]) simp
qed

text \<open>C32. Every change of an incident is justified, and recovery takes the cooling period. In any run of the
  detector from a fresh incident: suspicion needs a provider downtime or enough volume with the suspect drop;
  confirmation needs a downtime or twice the volume with the confirming drop; suspicion is dropped and cooling begins
  only without a downtime, on a healthy window or expired evidence; and a confirmed incident becomes normal again only
  from cooling, on a healthy window without a downtime, once the cooling period has passed since it began.\<close>

theorem incident_changes_justified:
  assumes "incident_reachable cfg p" "evaluate_incident cfg p w = Inr ev" "ip_state (ie_projection ev) \<noteq> ip_state p"
  shows "\<exists>gap. degradation w = Inr gap \<and> (case ip_state (ie_projection ev) of
      SUSPECTED \<Rightarrow> ip_state p = NORMAL
        \<and> (hw_provider_downtime_active w \<or> dt_minimum_volume cfg \<le> volume w \<and> prob_le (dt_suspect_drop cfg) gap)
    | CONFIRMED \<Rightarrow> (ip_state p = SUSPECTED \<or> ip_state p = COOLING)
        \<and> (hw_provider_downtime_active w \<or> dt_minimum_volume cfg * 2 \<le> volume w \<and> prob_le (dt_confirm_drop cfg) gap)
    | COOLING \<Rightarrow> ip_state p = CONFIRMED \<and> \<not> hw_provider_downtime_active w
        \<and> (dt_minimum_volume cfg \<le> volume w \<and> prob_le gap (dt_healthy_drop cfg) \<or> (\<exists>e. ip_expires_at p = Some e \<and> e \<le> hw_observed_at w))
    | NORMAL \<Rightarrow> \<not> hw_provider_downtime_active w \<and> (ip_state p = SUSPECTED
          \<and> (dt_minimum_volume cfg \<le> volume w \<and> prob_le gap (dt_healthy_drop cfg) \<or> (\<exists>e. ip_expires_at p = Some e \<and> e \<le> hw_observed_at w))
        \<or> ip_state p = COOLING \<and> dt_minimum_volume cfg \<le> volume w \<and> prob_le gap (dt_healthy_drop cfg)
          \<and> (\<exists>since. ip_state_since p = Some since \<and> since + dt_cooling_period cfg \<le> hw_observed_at w)))"
  using assms(2)
proof (rule evaluate_incident_Inr)
  fix gap target reason cooling
  let ?sg = "signal_of cfg p w gap" and ?now = "hw_observed_at w"
  assume gap: "degradation w = Inr gap" and t: "target_of cfg ?sg p ?now = Inr (target, reason, cooling)"
    and proj: "next_projection cfg ?sg p ?now target cooling (ie_changed ev) = Inr (ie_projection ev)"
  have target: "ip_state (ie_projection ev) = target"
    using proj assms(3) by (cases rule: next_projection_Inr) simp_all
  with target_justified [OF t] assms(3) have "justified ?sg p ?now target" by simp
  moreover have "\<exists>since. ip_state_since p = Some since \<and> ip_cooling_until p = Some (since + dt_cooling_period cfg)" if "ip_state p = COOLING"
    using incident_reachable_inv [OF assms(1)] that by (auto simp: incident_inv_def)
  ultimately show ?thesis
    using gap unfolding target
    by (cases target) (auto simp: justified_def signal_of_def enough_volume_def split: option.splits)
qed

section \<open>Rates\<close>

text \<open>The success rate a window is judged by is exact to 27 decimal places: it differs from the true quotient
  of successes and volume by at most one unit of the 27th place, however large the counts are.\<close>

lemma rate_accurate:
  assumes "window_ok w" "0 < volume w" "observed_success_rate w = Inr rate"
  shows "\<bar>dec_rat (prob_value rate) - of_int (hw_successes w) / of_int (volume w)\<bar> \<le> 1 / 10 ^ 27"
proof -
  let ?s = "nat (hw_successes w)" and ?v = "nat (volume w)"
  have counts: "?s \<le> ?v" "0 < ?v" using assms(1,2) by (auto simp: window_ok_def volume_def)
  have "dec_of_int (hw_successes w) = Dec False ?s 0" "dec_of_int (volume w) = Dec False ?v 0"
    using assms(1) by (auto simp: dec_of_int_def window_ok_def volume_def)
  then obtain d where "dec_div (Dec False ?s 0) (Dec False ?v 0) = Inr d" "rate = \<lparr>prob_value = d\<rparr>"
    using assms(2,3) by (auto simp: observed_success_rate_def check_probability_Inr)
  moreover have "(of_nat ?s :: rat) = of_int (hw_successes w)" "(of_nat ?v :: rat) = of_int (volume w)"
    using assms(1) by (simp_all add: window_ok_def volume_def)
  ultimately show ?thesis using dec_div_error [OF counts] by simp
qed

section \<open>Sample\<close>

definition sample_detector :: detector_config where
  "sample_detector = \<lparr>dt_version = ''detector-v1'', dt_minimum_volume = 20, dt_suspect_drop = \<lparr>prob_value = Dec False 15 (-2)\<rparr>,
     dt_confirm_drop = \<lparr>prob_value = Dec False 25 (-2)\<rparr>, dt_healthy_drop = \<lparr>prob_value = Dec False 5 (-2)\<rparr>,
     dt_ttl = 600000000, dt_cooling_period = 180000000\<rparr>"

definition sample_incident :: incident_projection where
  "sample_incident = \<lparr>ip_scope_id = ''scope'', ip_merchant_id = ''m1'', ip_payment_method = ''upi'', ip_state = NORMAL, ip_version = 0,
     ip_state_since = None, ip_last_evidence_at = None, ip_expires_at = None, ip_cooling_until = None\<rparr>"

definition sample_window :: health_window where
  "sample_window = \<lparr>hw_scope_id = ''scope'', hw_merchant_id = ''m1'', hw_payment_method = ''upi'', hw_window_started_at = 0,
     hw_observed_at = 60000000, hw_successes = 10, hw_failures = 20, hw_baseline_success_rate = \<lparr>prob_value = Dec False 9 (-1)\<rparr>,
     hw_provider_downtime_active = True\<rparr>"

lemma sample_window_ok: "window_ok sample_window" "check_scope sample_incident sample_window = Inr ()"
  by (simp_all add: window_ok_def sample_window_def prob_ok_def in_range_def max_instant_def us_day_def us_second_def
      check_scope_def sample_incident_def power_int_def)

lemma sample_incident_ok: "projection_ok sample_incident"
proof -
  have "is_identifier ''scope''" "is_identifier ''m1''" "is_payment_method ''upi''" by code_simp+
  then show ?thesis by (simp add: projection_ok_def sample_incident_def)
qed

lemma sample_incident_reachable: "incident_reachable sample_detector sample_incident"
  by (rule incident_reachable.fresh) (simp_all add: sample_incident_ok, simp_all add: sample_incident_def)

lemma sample_calendar:
  "in_range (hw_observed_at sample_window + dt_cooling_period sample_detector)" "in_range (hw_observed_at sample_window + dt_ttl sample_detector)"
  by (simp_all add: sample_window_def sample_detector_def in_range_def max_instant_def us_day_def us_second_def)

theorem detector_answers_witness: "\<exists>ev. evaluate_incident sample_detector sample_incident sample_window = Inr ev"
  using detector_answers [OF sample_window_ok(1) sample_incident_ok sample_window_ok(2) sample_calendar] by blast

text \<open>The downtime raises suspicion; a later window without it finds the evidence expired.\<close>

definition suspected_incident :: incident_projection where
  "suspected_incident = sample_incident\<lparr>ip_state := SUSPECTED, ip_version := 1, ip_state_since := Some 60000000,
     ip_last_evidence_at := Some 60000000, ip_expires_at := Some 660000000\<rparr>"

definition quiet_window :: health_window where
  "quiet_window = sample_window\<lparr>hw_observed_at := 1000000000, hw_provider_downtime_active := False\<rparr>"

lemma quiet_window_ok: "window_ok quiet_window" "check_scope suspected_incident quiet_window = Inr ()"
  by (simp_all add: quiet_window_def window_ok_def sample_window_def prob_ok_def in_range_def max_instant_def us_day_def us_second_def
      check_scope_def suspected_incident_def sample_incident_def power_int_def)

lemma sample_suspected: "\<exists>ev. evaluate_incident sample_detector sample_incident sample_window = Inr ev \<and> ie_projection ev = suspected_incident"
proof -
  obtain rate gap where rate: "observed_success_rate sample_window = Inr rate" "degradation sample_window = Inr gap"
    using rate_ok [OF sample_window_ok(1)] degradation_ok [OF sample_window_ok(1)] by blast
  let ?sg = "signal_of sample_detector sample_incident sample_window gap"
  have target: "target_of sample_detector ?sg sample_incident (hw_observed_at sample_window) = Inr (SUSPECTED, ''PROVIDER_DOWNTIME_SUSPECTED'', None)"
    by (simp add: target_of_def signal_of_def sample_incident_def sample_window_def)
  have "validate_incident_transition NORMAL SUSPECTED = Inr True" by (simp add: validate_incident_Inr)
  moreover have "next_projection sample_detector ?sg sample_incident (hw_observed_at sample_window) SUSPECTED None True
      = Inr suspected_incident"
    using sample_incident_ok sample_calendar sample_window_ok(1)
    by (simp add: next_projection_def replace_projection_Inr add_time_def projection_ok_def window_ok_def)
      (simp add: suspected_incident_def sample_incident_def sample_window_def sample_detector_def)
  moreover have "ip_state sample_incident = NORMAL" by (simp add: sample_incident_def)
  ultimately show ?thesis using rate target sample_window_ok(2) by (auto simp: evaluate_incident_def Let_def)
qed

lemma suspected_reachable: "incident_reachable sample_detector suspected_incident"
  by (metis sample_suspected incident_reachable.evaluated [OF sample_incident_reachable])

lemma sample_decayed:
  "\<exists>ev. evaluate_incident sample_detector suspected_incident quiet_window = Inr ev \<and> ip_state (ie_projection ev) = NORMAL"
proof -
  obtain rate gap where rate: "observed_success_rate quiet_window = Inr rate" "degradation quiet_window = Inr gap"
    using rate_ok [OF quiet_window_ok(1)] degradation_ok [OF quiet_window_ok(1)] by blast
  let ?sg = "signal_of sample_detector suspected_incident quiet_window gap"
  have target: "target_of sample_detector ?sg suspected_incident (hw_observed_at quiet_window) = Inr (NORMAL, ''SUSPECTED_EVIDENCE_EXPIRED'', None)"
    by (simp add: target_of_def signal_of_def suspected_incident_def sample_incident_def quiet_window_def sample_window_def
        volume_def sample_detector_def)
  have "validate_incident_transition SUSPECTED NORMAL = Inr True" by (simp add: validate_incident_Inr)
  moreover have "\<exists>q. next_projection sample_detector ?sg suspected_incident (hw_observed_at quiet_window) NORMAL None True = Inr q
      \<and> ip_state q = NORMAL"
    using sample_incident_ok quiet_window_ok(1)
    by (simp add: next_projection_def replace_projection_Inr add_time_def projection_ok_def window_ok_def suspected_incident_def)
  moreover have "ip_state suspected_incident = SUSPECTED" by (simp add: suspected_incident_def)
  ultimately show ?thesis using rate target quiet_window_ok(2) by (auto simp: evaluate_incident_def Let_def)
qed

theorem incident_changes_justified_witness:
  "\<exists>ev ev'. evaluate_incident sample_detector sample_incident sample_window = Inr ev \<and> ip_state (ie_projection ev) = SUSPECTED
     \<and> evaluate_incident sample_detector (ie_projection ev) quiet_window = Inr ev' \<and> ip_state (ie_projection ev') = NORMAL
     \<and> hw_provider_downtime_active sample_window \<and> \<not> hw_provider_downtime_active quiet_window"
proof -
  obtain ev where ev: "evaluate_incident sample_detector sample_incident sample_window = Inr ev" "ie_projection ev = suspected_incident"
    using sample_suspected by blast
  obtain ev' where ev': "evaluate_incident sample_detector suspected_incident quiet_window = Inr ev'" "ip_state (ie_projection ev') = NORMAL"
    using sample_decayed by blast
  have states: "ip_state suspected_incident = SUSPECTED" by (simp add: suspected_incident_def)
  have "\<not> hw_provider_downtime_active quiet_window"
    using incident_changes_justified [OF suspected_reachable ev'(1)] ev'(2) states by auto
  moreover have "hw_provider_downtime_active sample_window" by (simp add: sample_window_def)
  ultimately show ?thesis using ev ev' states by (intro exI [of _ ev] exI [of _ ev']) simp
qed

lemma rate_accurate_example:
  "\<exists>rate. observed_success_rate sample_window = Inr rate \<and> \<bar>dec_rat (prob_value rate) - 1 / 3\<bar> \<le> 1 / 10 ^ 27"
proof -
  obtain rate where rate: "observed_success_rate sample_window = Inr rate" using rate_ok [OF sample_window_ok(1)] by blast
  have "0 < volume sample_window" "(of_int (hw_successes sample_window) :: rat) / of_int (volume sample_window) = 1 / 3"
    by (simp_all add: sample_window_def volume_def)
  with rate_accurate [OF sample_window_ok(1) _ rate] rate show ?thesis by auto
qed

text \<open>A third, as Python prints it.\<close>

lemma third: "dec_div (Dec False 10 0) (Dec False 30 0) = Inr (Dec False 3333333333333333333333333333 (-28))"
  by (simp add: quotient_def ndigits_rec dec_prec_def dec_etiny_def dec_etop_def dec_fix.simps half_even_def Let_def)

end
