(* ===== verification/Command_Codec.thy ===== *)
theory Command_Codec
  imports Executor
begin

text \<open>
  \<^verbatim>\<open>services/control_plane/effect_command_codec.py\<close>, first half: the bounded, strict reading of a stored
  command and the decoders of the domain objects in it. The cancellation codec uses the same functions.

  A payload is a decoded JSON document (what a JSONB column holds), text or bytes. Every refusal of the
  strict parse is an \<^verbatim>\<open>EffectCommandSchemaError\<close>: syntax error, repeated key, non-canonical number; the
  model gives them one message. The interpreter's recursion limit is not modelled: what nests so deep is
  refused by the depth cap.
\<close>

section \<open>Bounds and errors\<close>

definition MAX_EFFECT_COMMAND_BYTES :: nat where
  "MAX_EFFECT_COMMAND_BYTES = 16 * 1024"

definition MAX_DEPTH :: nat where
  "MAX_DEPTH = 12"

definition MAX_SIGNED_64 :: int where
  "MAX_SIGNED_64 = 2 ^ 63 - 1"

abbreviation schema_error :: "pystr \<Rightarrow> exn + 'a" where
  "schema_error msg \<equiv> Inl (EffectCommandSchemaError msg)"

abbreviation size_error :: "pystr \<Rightarrow> exn + 'a" where
  "size_error msg \<equiv> Inl (EffectCommandSizeError msg)"

abbreviation privacy_error :: "pystr \<Rightarrow> exn + 'a" where
  "privacy_error msg \<equiv> Inl (EffectCommandPrivacyError msg)"

text \<open>\<^verbatim>\<open>isinstance(exc, EffectCommandCodecError)\<close>, and the \<^verbatim>\<open>TypeError\<close> and \<^verbatim>\<open>ValueError\<close> classes the
  domain constructors raise.\<close>

fun is_codec_error :: "exn \<Rightarrow> bool" where
  "is_codec_error (EffectCommandSizeError _) = True"
| "is_codec_error (EffectCommandSchemaError _) = True"
| "is_codec_error (EffectCommandIntegrityError _) = True"
| "is_codec_error (EffectCommandBindingError _) = True"
| "is_codec_error (EffectCommandPrivacyError _) = True"
| "is_codec_error _ = False"

definition is_type_or_value_error :: "exn \<Rightarrow> bool" where
  "is_type_or_value_error e = (is_codec_error e \<or> is_domain_error e
     \<or> (case e of TypeError _ \<Rightarrow> True | ValueError _ \<Rightarrow> True | ReferenceIdError _ \<Rightarrow> True
          | PaymentLinkValidationError _ \<Rightarrow> True | _ \<Rightarrow> False))"

text \<open>\<^verbatim>\<open>except (TypeError, ValueError) as exc: raise e from exc\<close>, and the same with the clause that lets
  codec errors through.\<close>

definition except_all :: "exn \<Rightarrow> exn + 'a \<Rightarrow> exn + 'a" where
  "except_all e m = mapE_error (\<lambda>x. if is_type_or_value_error x then e else x) m"

definition except_foreign :: "exn \<Rightarrow> exn + 'a \<Rightarrow> exn + 'a" where
  "except_foreign e m = mapE_error (\<lambda>x. if is_type_or_value_error x \<and> \<not> is_codec_error x then e else x) m"

section \<open>Field readers\<close>

definition field_details :: "pystr list \<Rightarrow> pystr list \<Rightarrow> pystr" where
  "field_details names present =
     (let missing = sort (filter (\<lambda>f. f \<notin> set present) names);
          unknown = sort (filter (\<lambda>k. k \<notin> set names) present)
      in join ''; '' ((if missing = [] then [] else [''missing='' @ join '','' missing])
           @ (if unknown = [] then [] else [''unknown='' @ join '','' unknown])))"

definition exact_object :: "json \<Rightarrow> pystr list \<Rightarrow> pystr \<Rightarrow> exn + (pystr \<times> json) list" where
  "exact_object value names path = (case value of
      JObj kvs \<Rightarrow>
        bindE (raise_if (set (map fst kvs) \<noteq> set names)
          (EffectCommandSchemaError (path @ '' has invalid fields ('' @ field_details names (map fst kvs) @ '')''))) (\<lambda>_.
        Inr kvs)
    | _ \<Rightarrow> schema_error (path @ '' must be a JSON object''))"

definition read_text :: "json \<Rightarrow> pystr \<Rightarrow> exn + pystr" where
  "read_text value path = (case value of JStr s \<Rightarrow> Inr s | _ \<Rightarrow> schema_error (path @ '' must be a string''))"

definition read_boolean :: "json \<Rightarrow> pystr \<Rightarrow> exn + bool" where
  "read_boolean value path = (case value of JBool b \<Rightarrow> Inr b | _ \<Rightarrow> schema_error (path @ '' must be a boolean''))"

definition in_signed_64 :: "int \<Rightarrow> bool" where
  "in_signed_64 i = (- MAX_SIGNED_64 - 1 \<le> i \<and> i \<le> MAX_SIGNED_64)"

definition read_integer :: "json \<Rightarrow> pystr \<Rightarrow> int option \<Rightarrow> exn + int" where
  "read_integer value path minimum = (case value of
      JInt i \<Rightarrow>
        bindE (raise_if (\<not> in_signed_64 i) (EffectCommandSchemaError (path @ '' is outside the signed 64-bit boundary''))) (\<lambda>_.
        bindE (raise_if (case minimum of None \<Rightarrow> False | Some m \<Rightarrow> i < m)
          (EffectCommandSchemaError (path @ '' is below its minimum''))) (\<lambda>_.
        Inr i))
    | _ \<Rightarrow> schema_error (path @ '' must be a canonical JSON integer''))"

definition read_optional :: "(json \<Rightarrow> exn + 'a) \<Rightarrow> json \<Rightarrow> exn + 'a option" where
  "read_optional reader value = (if value = JNull then Inr None else bindE (reader value) (\<lambda>x. Inr (Some x)))"

definition optional_integer :: "json \<Rightarrow> pystr \<Rightarrow> exn + int option" where
  "optional_integer value path = read_optional (\<lambda>v. read_integer v path None) value"

definition optional_text :: "json \<Rightarrow> pystr \<Rightarrow> exn + pystr option" where
  "optional_text value path = read_optional (\<lambda>v. read_text v path) value"

definition read_timestamp :: "json \<Rightarrow> pystr \<Rightarrow> exn + instant" where
  "read_timestamp value path =
     bindE (read_text value path) (\<lambda>rendered.
     except_all (EffectCommandSchemaError (path @ '' must use canonical UTC microseconds'')) (parse_canonical_timestamp rendered))"

definition read_digest :: "json \<Rightarrow> pystr \<Rightarrow> exn + pystr" where
  "read_digest value path =
     bindE (read_text value path) (\<lambda>rendered.
     bindE (raise_if (\<not> is_digest rendered) (EffectCommandSchemaError (path @ '' must be a lowercase SHA-256 digest''))) (\<lambda>_.
     Inr rendered))"

section \<open>Sensitive names\<close>

definition SENSITIVE_KEY_WORDS :: "pystr list" where
  "SENSITIVE_KEY_WORDS =
     [''address'', ''authorization'', ''contact'', ''credential'', ''customer'', ''cvv'', ''email'', ''mobile'', ''pan'',
      ''password'', ''phone'', ''secret'', ''token'', ''vpa'']"

definition SENSITIVE_COMPOUND_KEYS :: "pystr list" where
  "SENSITIVE_COMPOUND_KEYS = [''api_key'', ''card_number'', ''key_secret'', ''private_key'']"

text \<open>\<^verbatim>\<open>str.casefold\<close> on the model's alphabet: lower case, and the sharp s is two letters. (The micro sign
  folds to a Greek letter; both are outside \<^verbatim>\<open>[a-z0-9]\<close>.)\<close>

definition casefold :: "pystr \<Rightarrow> pystr" where
  "casefold s = concat (map (\<lambda>c. if code c = 223 then ''ss'' else [c]) (lower s))"

text \<open>\<^verbatim>\<open>re.sub(r"[^a-z0-9]+", "_", s)\<close>; the flag says that a run is being replaced.\<close>

fun squeeze :: "bool \<Rightarrow> pystr \<Rightarrow> pystr" where
  "squeeze b [] = []"
| "squeeze b (c # s) =
     (if is_lower c \<or> is_digit c then c # squeeze False s
      else if b then squeeze True s else CHR ''_'' # squeeze True s)"

text \<open>\<^verbatim>\<open>s.split("_")\<close>\<close>

fun split_words :: "pystr \<Rightarrow> pystr list" where
  "split_words [] = [[]]"
| "split_words (c # s) =
     (case split_words s of
        [] \<Rightarrow> [[c]]
      | w # ws \<Rightarrow> if c = CHR ''_'' then [] # w # ws else (c # w) # ws)"

definition normalized_key :: "pystr \<Rightarrow> pystr" where
  "normalized_key key = rstrip_char (CHR ''_'') (dropWhile (\<lambda>c. c = CHR ''_'') (squeeze False (casefold key)))"

definition sensitive_key :: "pystr \<Rightarrow> bool" where
  "sensitive_key key =
     (normalized_key key \<in> set SENSITIVE_COMPOUND_KEYS
      \<or> list_ex (\<lambda>w. w \<in> set SENSITIVE_KEY_WORDS) (split_words (normalized_key key)))"

section \<open>The bounded walk\<close>

text \<open>The walk returns a lower bound of the serialised size.\<close>

fun walk_json :: "json \<Rightarrow> pystr \<Rightarrow> nat \<Rightarrow> exn + nat"
and walk_items :: "(pystr \<times> json) list \<Rightarrow> pystr \<Rightarrow> nat \<Rightarrow> nat \<Rightarrow> exn + nat"
and walk_elements :: "json list \<Rightarrow> pystr \<Rightarrow> nat \<Rightarrow> nat \<Rightarrow> nat \<Rightarrow> exn + nat" where
  "walk_json value path depth =
     bindE (raise_if (MAX_DEPTH < depth) (EffectCommandSizeError ''effect command exceeds the maximum nesting depth'')) (\<lambda>_.
     case value of
       JNull \<Rightarrow> Inr 4
     | JBool _ \<Rightarrow> Inr 4
     | JInt i \<Rightarrow>
         bindE (raise_if (\<not> in_signed_64 i) (EffectCommandSchemaError ''effect command integer exceeds signed 64-bit range'')) (\<lambda>_.
         Inr (length (int_str i)))
     | JStr s \<Rightarrow>
         bindE (raise_if (MAX_EFFECT_COMMAND_BYTES < length (utf8 s) + 2)
           (EffectCommandSizeError ''effect command contains an oversized string'')) (\<lambda>_.
         Inr (length (utf8 s) + 2))
     | JObj kvs \<Rightarrow> walk_items kvs path depth 2
     | JArr vs \<Rightarrow> walk_elements vs path depth 0 2
     | JFloat _ \<Rightarrow> schema_error (path @ '' contains a non-JSONB value''))"
| "walk_items [] path depth acc = Inr acc"
| "walk_items ((key, item) # kvs) path depth acc =
     bindE (raise_if (MAX_EFFECT_COMMAND_BYTES < length (utf8 key))
       (EffectCommandSizeError ''effect command contains an oversized object key'')) (\<lambda>_.
     bindE (raise_if (sensitive_key key)
       (EffectCommandPrivacyError (path @ '' contains a prohibited sensitive field''))) (\<lambda>_.
     bindE (walk_json item (path @ ''.'' @ key) (depth + 1)) (\<lambda>n.
     bindE (raise_if (MAX_EFFECT_COMMAND_BYTES < acc + (length (utf8 key) + 3) + n)
       (EffectCommandSizeError ''effect command exceeds the serialized size cap'')) (\<lambda>_.
     walk_items kvs path depth (acc + (length (utf8 key) + 3) + n)))))"
| "walk_elements [] path depth index acc = Inr acc"
| "walk_elements (item # vs) path depth index acc =
     bindE (walk_json item (path @ ''['' @ nat_str index @ '']'') (depth + 1)) (\<lambda>n.
     bindE (raise_if (MAX_EFFECT_COMMAND_BYTES < acc + (1 + n))
       (EffectCommandSizeError ''effect command exceeds the serialized size cap'')) (\<lambda>_.
     walk_elements vs path depth (Suc index) (acc + (1 + n))))"

definition bounded_canonical_bytes :: "json \<Rightarrow> exn + bytes" where
  "bounded_canonical_bytes value =
     bindE (walk_json value ''$'' 0) (\<lambda>_.
     bindE (except_all (EffectCommandSchemaError ''effect command is not canonical JSON'')
       (canonical_json_bytes (py_of_json value))) (\<lambda>encoded.
     bindE (raise_if (MAX_EFFECT_COMMAND_BYTES < length encoded)
       (EffectCommandSizeError ''effect command exceeds the serialized size cap'')) (\<lambda>_.
     Inr encoded)))"

section \<open>Reading a payload\<close>

text \<open>\<^verbatim>\<open>token.lstrip("-")\<close> of a literal drops its sign.\<close>

definition parse_canonical_integer :: "pystr \<Rightarrow> json option" where
  "parse_canonical_integer token =
     (if token = ''-0'' \<or> 19 < length (dropWhile (\<lambda>c. c = CHR ''-'') token) then None
      else if \<not> in_signed_64 (literal_int token) then None
      else Some (JInt (literal_int token)))"

fun without_duplicates :: "(pystr \<times> json) list \<Rightarrow> (pystr \<times> json) list \<Rightarrow> (pystr \<times> json) list option" where
  "without_duplicates [] result = Some result"
| "without_duplicates ((key, value) # pairs) result =
     (if key \<in> fst ` set result then None else without_duplicates pairs (dict_put key value result))"

definition object_without_duplicates :: pairs_hook where
  "object_without_duplicates pairs = without_duplicates pairs []"

definition strict_hooks :: hooks where
  "strict_hooks = \<lparr>on_pairs = object_without_duplicates, on_int = parse_canonical_integer,
     on_float = (\<lambda>_. None), on_constant = (\<lambda>_. None)\<rparr>"

datatype command_payload =
    PayObject "(pystr \<times> json) list"
  | PayText pystr
  | PayBytes bytes
  | PayOther

definition require_object :: "json \<Rightarrow> exn + (pystr \<times> json) list" where
  "require_object value = (case value of
      JObj kvs \<Rightarrow> Inr kvs
    | _ \<Rightarrow> schema_error ''effect command payload must be a JSON object'')"

definition coerce_object :: "(pystr \<times> json) list \<Rightarrow> exn + (pystr \<times> json) list" where
  "coerce_object payload =
     bindE (walk_json (JObj payload) ''$'' 0) (\<lambda>_.
     bindE (bounded_canonical_bytes (JObj payload)) (\<lambda>canonical.
     case Option.bind (utf8_decode canonical) loads of
       None \<Rightarrow> Inl (AssertionError ''canonical serializer produced invalid JSON'')
     | Some copied \<Rightarrow> require_object copied))"

definition coerce_bytes :: "bytes \<Rightarrow> exn + (pystr \<times> json) list" where
  "coerce_bytes raw =
     bindE (raise_if (MAX_EFFECT_COMMAND_BYTES < length raw)
       (EffectCommandSizeError ''effect command exceeds the serialized size cap'')) (\<lambda>_.
     case utf8_decode raw of
       None \<Rightarrow> schema_error ''effect command must be valid UTF-8''
     | Some decoded \<Rightarrow>
        (case loads_hooked strict_hooks decoded of
           None \<Rightarrow> schema_error ''effect command is not valid JSON''
         | Some parsed \<Rightarrow>
            bindE (require_object parsed) (\<lambda>kvs.
            bindE (bounded_canonical_bytes parsed) (\<lambda>canonical.
            bindE (raise_if (raw \<noteq> canonical)
              (EffectCommandSchemaError ''serialized effect command is not canonical JSON'')) (\<lambda>_.
            Inr kvs)))))"

definition coerce_payload :: "command_payload \<Rightarrow> exn + (pystr \<times> json) list" where
  "coerce_payload p = (case p of
      PayObject kvs \<Rightarrow> coerce_object kvs
    | PayText s \<Rightarrow> coerce_bytes (utf8 s)
    | PayBytes raw \<Rightarrow> coerce_bytes raw
    | PayOther \<Rightarrow> Inl (TypeError ''payload must be a JSON object, canonical JSON text, or bytes''))"

section \<open>Domain objects\<close>

text \<open>Equality of decoded objects is equality of dictionaries, whatever the order of the keys.\<close>

definition same_json :: "json \<Rightarrow> json \<Rightarrow> bool" where
  "same_json a b = (canon a = canon b)"

definition MONEY_FIELDS :: "pystr list" where
  "MONEY_FIELDS = [''currency'', ''minor_units'']"

definition read_money :: "json \<Rightarrow> pystr \<Rightarrow> exn + money" where
  "read_money value path =
     bindE (exact_object value MONEY_FIELDS path) (\<lambda>item.
     except_all (EffectCommandSchemaError (path @ '' violates the Money contract''))
       (bindE (read_integer (obj_get item ''minor_units'') (path @ ''.minor_units'') (Some 0)) (\<lambda>units.
        bindE (read_text (obj_get item ''currency'') (path @ ''.currency'')) (\<lambda>cur.
        mk_money units cur))))"

definition read_probability :: "json \<Rightarrow> pystr \<Rightarrow> exn + probability" where
  "read_probability value path =
     bindE (read_text value path) (\<lambda>rendered.
     bindE (except_all (EffectCommandSchemaError (path @ '' violates the Probability contract''))
       (mk_probability (ArgStr rendered))) (\<lambda>p.
     bindE (raise_if (prob_to_primitive p \<noteq> rendered)
       (EffectCommandSchemaError (path @ '' is not a canonical decimal string''))) (\<lambda>_.
     Inr p)))"

definition action_types :: "action_type list" where
  "action_types = [WAIT, CREATE_STANDARD_PAYMENT_LINK, NOTIFY_EXISTING_LINK, CANCEL_PAYMENT_LINK, ESCALATE, STOP]"

text \<open>\<^verbatim>\<open>ActionType(value)\<close>, \<^verbatim>\<open>GateReason(value)\<close> and \<^verbatim>\<open>GateStage(value)\<close>.\<close>

definition member_of :: "('a \<Rightarrow> pystr) \<Rightarrow> 'a list \<Rightarrow> pystr \<Rightarrow> exn + 'a" where
  "member_of value members s = (case find (\<lambda>m. value m = s) members of
      None \<Rightarrow> Inl (ValueError (s @ '' is not a valid member'')) | Some m \<Rightarrow> Inr m)"

definition PROPOSAL_FIELDS :: "pystr list" where
  "PROPOSAL_FIELDS =
     [''action_key'', ''action_type'', ''amount'', ''attempt_ordinal'', ''case_id'', ''created_at'', ''decision_version'',
      ''expected_value_minor'', ''expires_at'', ''instrument_reference'', ''merchant_id'', ''model_confidence'',
      ''payment_method'', ''proposal_id'', ''requires_approval'']"

abbreviation proposal_path :: "pystr \<Rightarrow> pystr" where
  "proposal_path f \<equiv> ''$.command.proposal.'' @ f"

definition read_proposal_fields ::
  "(pystr \<times> json) list \<Rightarrow> money option \<Rightarrow> pystr \<Rightarrow> exn + action_proposal" where
  "read_proposal_fields item amount action_type_value =
     bindE (member_of action_value action_types action_type_value) (\<lambda>action.
     bindE (read_text (obj_get item ''proposal_id'') (proposal_path ''proposal_id'')) (\<lambda>proposal_id.
     bindE (read_text (obj_get item ''merchant_id'') (proposal_path ''merchant_id'')) (\<lambda>merchant_id.
     bindE (read_text (obj_get item ''case_id'') (proposal_path ''case_id'')) (\<lambda>case_id.
     bindE (read_integer (obj_get item ''decision_version'') (proposal_path ''decision_version'') (Some 1)) (\<lambda>version.
     bindE (read_timestamp (obj_get item ''created_at'') (proposal_path ''created_at'')) (\<lambda>created.
     bindE (read_timestamp (obj_get item ''expires_at'') (proposal_path ''expires_at'')) (\<lambda>expires.
     bindE (read_integer (obj_get item ''attempt_ordinal'') (proposal_path ''attempt_ordinal'') (Some 1)) (\<lambda>ordinal.
     bindE (optional_text (obj_get item ''payment_method'') (proposal_path ''payment_method'')) (\<lambda>payment.
     bindE (optional_integer (obj_get item ''expected_value_minor'') (proposal_path ''expected_value_minor'')) (\<lambda>expected.
     bindE (read_optional (\<lambda>v. read_probability v (proposal_path ''model_confidence''))
       (obj_get item ''model_confidence'')) (\<lambda>confidence.
     bindE (read_boolean (obj_get item ''requires_approval'') (proposal_path ''requires_approval'')) (\<lambda>approval.
     bindE (optional_text (obj_get item ''instrument_reference'') (proposal_path ''instrument_reference'')) (\<lambda>instrument.
     mk_action_proposal
       \<lparr>p_proposal_id = proposal_id, p_merchant_id = merchant_id, p_case_id = case_id, p_decision_version = version,
        p_action_type = action, p_created_at = 0, p_expires_at = 0, p_attempt_ordinal = ordinal, p_amount = amount,
        p_payment_method = payment, p_expected_value_minor = expected, p_model_confidence = confidence,
        p_requires_approval = approval, p_instrument_reference = instrument\<rparr> (utc created) (utc expires))))))))))))))"

definition read_proposal :: "json \<Rightarrow> exn + action_proposal" where
  "read_proposal value =
     bindE (exact_object value PROPOSAL_FIELDS ''$.command.proposal'') (\<lambda>item.
     bindE (read_optional (\<lambda>v. read_money v (proposal_path ''amount'')) (obj_get item ''amount'')) (\<lambda>amount.
     bindE (read_text (obj_get item ''action_type'') (proposal_path ''action_type'')) (\<lambda>action_type_value.
     bindE (except_foreign (EffectCommandSchemaError ''proposal violates the ActionProposal contract'')
       (read_proposal_fields item amount action_type_value)) (\<lambda>proposal.
     bindE (raise_if (\<not> same_json (proposal_to_primitive proposal) (JObj item))
       (EffectCommandBindingError ''proposal derived fields do not match their source fields'')) (\<lambda>_.
     Inr proposal)))))"

definition decode_action_proposal :: "json \<Rightarrow> exn + action_proposal" where
  "decode_action_proposal value = read_proposal value"

definition gate_reasons :: "gate_reason list" where
  "gate_reasons =
     [PROPOSAL_MERCHANT_MISMATCH, PROPOSAL_CASE_MISMATCH, ACTION_NOT_YET_VALID, ACTION_EXPIRED,
      ACTION_NOT_ALLOWED, ENVIRONMENT_EFFECTS_DISABLED, GLOBAL_KILL_SWITCH_ACTIVE,
      MERCHANT_KILL_SWITCH_ACTIVE, AGGREGATE_VERSION_MISMATCH, RECOVERY_STATE_NOT_ACTIONABLE,
      OBSERVATION_DEADLINE_MISSING, OBSERVATION_WINDOW_ACTIVE, PAYMENT_TRUTH_NOT_UNPAID,
      PROVIDER_SNAPSHOT_FROM_FUTURE, PROVIDER_SNAPSHOT_STALE, ACTIVE_INSTRUMENT_EXISTS,
      ACTIVE_INSTRUMENT_REQUIRED, POLICY_CURRENCY_MISMATCH, CURRENCY_MISMATCH, AMOUNT_MISMATCH,
      PAYMENT_METHOD_MISMATCH, CONSENT_MISSING, CUSTOMER_OPTED_OUT, COOLDOWN_ACTIVE,
      CONTACT_CAP_REACHED, QUIET_HOURS_ACTIVE, INCIDENT_HEALTH_FROM_FUTURE, INCIDENT_HEALTH_STALE,
      PAYMENT_METHOD_UNHEALTHY, ATTEMPT_BUDGET_EXHAUSTED, CONFIDENCE_UNAVAILABLE,
      CONFIDENCE_BELOW_THRESHOLD, ABSTENTION_REQUIRES_APPROVAL, EXTERNAL_DIAGNOSIS_REQUIRES_APPROVAL,
      HIGH_VALUE_REQUIRES_APPROVAL, APPROVAL_REQUIRED_REASON, APPROVAL_REJECTED, APPROVAL_EXPIRED,
      APPROVAL_NOT_YET_VALID, APPROVAL_BINDING_MISMATCH, PLAN_AUTHORIZATION_MISSING,
      PLAN_BINDING_MISMATCH, DURABLE_INTENT_MISSING]"

definition PLAN_FIELDS :: "pystr list" where
  "PLAN_FIELDS =
     [''action_key'', ''aggregate_version'', ''allowed'', ''case_id'', ''decision_version'', ''evaluated_at'',
      ''policy_version'', ''proposal_digest'', ''proposal_id'', ''reasons'', ''stage'']"

abbreviation plan_path :: "pystr \<Rightarrow> pystr" where
  "plan_path f \<equiv> ''$.command.prior_plan.'' @ f"

definition read_reason :: "json \<Rightarrow> exn + gate_reason" where
  "read_reason reason = bindE (read_text reason (plan_path ''reasons[]'')) (member_of reason_value gate_reasons)"

definition read_plan_fields :: "(pystr \<times> json) list \<Rightarrow> json list \<Rightarrow> exn + gate_decision" where
  "read_plan_fields item reasons_value =
     bindE (traverseE read_reason reasons_value) (\<lambda>reasons.
     bindE (raise_if (\<not> distinct reasons) (EffectCommandSchemaError ''prior plan reason codes must be unique'')) (\<lambda>_.
     bindE (bindE (read_text (obj_get item ''stage'') (plan_path ''stage'')) (member_of stage_value [POLICY, EFFECT])) (\<lambda>stage.
     bindE (read_text (obj_get item ''policy_version'') (plan_path ''policy_version'')) (\<lambda>policy_version.
     bindE (read_text (obj_get item ''proposal_id'') (plan_path ''proposal_id'')) (\<lambda>proposal_id.
     bindE (read_text (obj_get item ''action_key'') (plan_path ''action_key'')) (\<lambda>key.
     bindE (read_digest (obj_get item ''proposal_digest'') (plan_path ''proposal_digest'')) (\<lambda>digest.
     bindE (read_text (obj_get item ''case_id'') (plan_path ''case_id'')) (\<lambda>case_id.
     bindE (read_integer (obj_get item ''decision_version'') (plan_path ''decision_version'') (Some 1)) (\<lambda>decision_version.
     bindE (read_integer (obj_get item ''aggregate_version'') (plan_path ''aggregate_version'') (Some 0)) (\<lambda>aggregate_version.
     bindE (read_timestamp (obj_get item ''evaluated_at'') (plan_path ''evaluated_at'')) (\<lambda>evaluated_at.
     bindE (require_identifier policy_version ''policy_version'') (\<lambda>_.
     bindE (require_identifier proposal_id ''proposal_id'') (\<lambda>_.
     bindE (require_identifier case_id ''case_id'') (\<lambda>_.
     Inr \<lparr>d_stage = stage, d_policy_version = policy_version, d_proposal_id = proposal_id, d_action_key = key,
          d_proposal_digest = digest, d_case_id = case_id, d_decision_version = decision_version,
          d_aggregate_version = aggregate_version, d_evaluated_at = evaluated_at, d_reasons = reasons\<rparr>))))))))))))))"

definition read_prior_plan :: "json \<Rightarrow> exn + gate_decision" where
  "read_prior_plan value =
     bindE (exact_object value PLAN_FIELDS ''$.command.prior_plan'') (\<lambda>item.
     case obj_get item ''reasons'' of
       JArr reasons_value \<Rightarrow>
         bindE (read_boolean (obj_get item ''allowed'') (plan_path ''allowed'')) (\<lambda>supplied_allowed.
         bindE (except_foreign (EffectCommandSchemaError ''prior plan violates the GateDecision contract'')
           (read_plan_fields item reasons_value)) (\<lambda>plan.
         bindE (raise_if (allowed plan \<noteq> supplied_allowed \<or> \<not> same_json (decision_to_primitive plan) (JObj item))
           (EffectCommandBindingError ''prior plan derived fields do not match their source fields'')) (\<lambda>_.
         Inr plan)))
     | _ \<Rightarrow> schema_error ''$.command.prior_plan.reasons must be a JSON array'')"

end
