(* ===== verification/Create_Codec.thy ===== *)
theory Create_Codec
  imports Command_Codec References
begin

text \<open>
  \<^verbatim>\<open>services/control_plane/effect_command_codec.py\<close>, second half: the provider request, the bindings between
  the parts of a create command, and its sealed envelope.

  \<^verbatim>\<open>hmac.compare_digest\<close> on two \<^verbatim>\<open>str\<close> raises \<^verbatim>\<open>TypeError\<close> when one has a character outside ASCII.
  Loops over a \<^verbatim>\<open>frozenset\<close> run in the sorted order here; the order decides only which of several refused
  fields the message names.
\<close>

definition CREATE_COMMAND_TYPE :: pystr where
  "CREATE_COMMAND_TYPE = ''CREATE_STANDARD_PAYMENT_LINK''"

definition CREATE_COMMAND_SCHEMA :: pystr where
  "CREATE_COMMAND_SCHEMA = ''retrywise.create-standard-payment-link-command''"

definition CREATE_COMMAND_SCHEMA_VERSION :: int where
  "CREATE_COMMAND_SCHEMA_VERSION = 1"

abbreviation integrity_error :: "pystr \<Rightarrow> exn + 'a" where
  "integrity_error msg \<equiv> Inl (EffectCommandIntegrityError msg)"

definition compare_digest :: "pystr \<Rightarrow> pystr \<Rightarrow> exn + bool" where
  "compare_digest a b =
     (if list_all (\<lambda>c. code c < 128) a \<and> list_all (\<lambda>c. code c < 128) b then Inr (a = b)
      else Inl (TypeError ''comparing strings with non-ASCII characters is not supported''))"

section \<open>The provider request\<close>

text \<open>\<^verbatim>\<open>(?<!\\d)\\d{10,19}(?!\\d)\<close> finds a maximal run of ten to nineteen digits; the number is the length of
  the run so far.\<close>

fun pii_number :: "nat \<Rightarrow> pystr \<Rightarrow> bool" where
  "pii_number n [] = (10 \<le> n \<and> n \<le> 19)"
| "pii_number n (c # s) =
     (if is_digit c then pii_number (Suc n) s else 10 \<le> n \<and> n \<le> 19 \<or> pii_number 0 s)"

definition DESCRIPTION_PREFIX :: pystr where
  "DESCRIPTION_PREFIX = ''Retry payment for order ''"

definition reject_sensitive_description :: "pystr \<Rightarrow> exn + unit" where
  "reject_sensitive_description value =
     raise_if (CHR 0x40 \<in> set value \<or> pii_number 0 value)
       (EffectCommandPrivacyError ''Payment Link description contains an email, VPA, phone, or account-like number'')"

definition validate_description_binding :: "pystr \<Rightarrow> pystr \<Rightarrow> exn + unit" where
  "validate_description_binding value merchant_order_id =
     bindE (reject_sensitive_description value) (\<lambda>_.
     raise_if (value \<noteq> DESCRIPTION_PREFIX @ merchant_order_id)
       (EffectCommandPrivacyError ''Payment Link description must use the controller-owned order template''))"

definition REQUIRED_NOTE_KEYS :: "pystr list" where
  "REQUIRED_NOTE_KEYS = [''merchant_order_id'', ''recovery_case_id'']"

definition read_note :: "pystr \<times> json \<Rightarrow> exn + (pystr \<times> pystr)" where
  "read_note kv =
     bindE (read_text (snd kv) (''$.command.request.notes.'' @ fst kv)) (\<lambda>rendered.
     bindE (except_all (EffectCommandPrivacyError ''Payment Link notes must contain opaque controller identifiers'')
       (require_identifier rendered (''notes.'' @ fst kv))) (\<lambda>v.
     Inr (fst kv, v)))"

definition read_notes :: "json \<Rightarrow> exn + (pystr \<times> pystr) list" where
  "read_notes value = (case value of
      JObj kvs \<Rightarrow>
        bindE (if set (map fst kvs) \<noteq> set REQUIRED_NOTE_KEYS
               then if \<exists>k\<in>set (map fst kvs). k \<notin> set REQUIRED_NOTE_KEYS
                    then privacy_error ''Payment Link notes contain a non-controller field''
                    else schema_error ''Payment Link notes lack a required controller identifier''
               else Inr ()) (\<lambda>_.
        traverseE read_note kvs)
    | _ \<Rightarrow> schema_error ''$.command.request.notes must be a JSON object'')"

definition note_of :: "(pystr \<times> pystr) list \<Rightarrow> pystr \<Rightarrow> pystr" where
  "note_of notes k = (case map_of notes k of None \<Rightarrow> [] | Some v \<Rightarrow> v)"

definition REQUEST_FIELDS :: "pystr list" where
  "REQUEST_FIELDS = [''amount_minor'', ''currency'', ''description'', ''expire_by_epoch'', ''notes'', ''reference_id'']"

abbreviation request_path :: "pystr \<Rightarrow> pystr" where
  "request_path f \<equiv> ''$.command.request.'' @ f"

definition is_link_validation_error :: "exn \<Rightarrow> bool" where
  "is_link_validation_error e = (case e of PaymentLinkValidationError _ \<Rightarrow> True | _ \<Rightarrow> False)"

definition read_request :: "json \<Rightarrow> exn + link_request" where
  "read_request value =
     bindE (exact_object value REQUEST_FIELDS ''$.command.request'') (\<lambda>item.
     bindE (read_text (obj_get item ''description'') (request_path ''description'')) (\<lambda>description.
     bindE (reject_sensitive_description description) (\<lambda>_.
     bindE (read_notes (obj_get item ''notes'')) (\<lambda>notes.
     bindE (validate_description_binding description (note_of notes ''merchant_order_id'')) (\<lambda>_.
     mapE_error (\<lambda>e. if is_link_validation_error e
        then EffectCommandSchemaError ''provider request violates the StandardPaymentLinkRequest contract'' else e)
       (bindE (read_integer (obj_get item ''amount_minor'') (request_path ''amount_minor'') (Some 1)) (\<lambda>amount_minor.
        bindE (read_text (obj_get item ''currency'') (request_path ''currency'')) (\<lambda>cur.
        bindE (read_text (obj_get item ''reference_id'') (request_path ''reference_id'')) (\<lambda>reference_id.
        bindE (read_integer (obj_get item ''expire_by_epoch'') (request_path ''expire_by_epoch'') (Some 1)) (\<lambda>expire_by_epoch.
        mk_link_request
          \<lparr>lr_amount_minor = amount_minor, lr_currency = cur, lr_reference_id = reference_id,
           lr_description = description, lr_expire_by_epoch = expire_by_epoch, lr_notes = notes,
           lr_customer = None\<rparr>))))))))))"

definition notes_json :: "(pystr \<times> pystr) list \<Rightarrow> json" where
  "notes_json notes = JObj (map (\<lambda>(k, v). (k, JStr v)) notes)"

definition request_primitive :: "link_request \<Rightarrow> exn + json" where
  "request_primitive r =
     bindE (raise_if (lr_customer r \<noteq> None)
       (EffectCommandPrivacyError ''customer PII must not be stored in an effect command'')) (\<lambda>_.
     bindE (reject_sensitive_description (lr_description r)) (\<lambda>_.
     bindE (read_notes (notes_json (lr_notes r))) (\<lambda>notes.
     bindE (validate_description_binding (lr_description r) (note_of notes ''merchant_order_id'')) (\<lambda>_.
     Inr (JObj
       [(''amount_minor'', JInt (lr_amount_minor r)), (''currency'', JStr (lr_currency r)),
        (''description'', JStr (lr_description r)), (''expire_by_epoch'', JInt (lr_expire_by_epoch r)),
        (''notes'', notes_json notes), (''reference_id'', JStr (lr_reference_id r))])))))"

section \<open>Bindings between the parts\<close>

abbreviation binding_error_if :: "bool \<Rightarrow> pystr \<Rightarrow> exn + unit" where
  "binding_error_if b msg \<equiv> raise_if b (EffectCommandBindingError msg)"

definition plan_unbound :: "gate_decision \<Rightarrow> action_proposal \<Rightarrow> bool" where
  "plan_unbound plan p =
     (d_proposal_id plan \<noteq> p_proposal_id p \<or> d_action_key plan \<noteq> action_key p
      \<or> d_proposal_digest plan \<noteq> proposal_digest p \<or> d_case_id plan \<noteq> p_case_id p
      \<or> d_decision_version plan \<noteq> p_decision_version p)"

definition validate_amount_binding :: "action_proposal \<Rightarrow> link_request \<Rightarrow> exn + unit" where
  "validate_amount_binding p r = (case p_amount p of
      None \<Rightarrow> Inl (EffectCommandBindingError ''collection proposal has no amount'')
    | Some m \<Rightarrow>
        bindE (binding_error_if (minor_units m \<noteq> lr_amount_minor r)
          ''provider request amount is not bound to the proposal'') (\<lambda>_.
        binding_error_if (currency m \<noteq> lr_currency r)
          ''provider request currency is not bound to the proposal''))"

definition validate_command_binding :: "create_command \<Rightarrow> exn + unit" where
  "validate_command_binding c =
     (let p = cc_proposal c; plan = cc_prior_plan c; r = cc_request c in
     bindE (except_all (EffectCommandBindingError ''provider account binding is not an opaque identifier'')
       (require_identifier (cc_provider_account_id c) ''provider_account_id'')) (\<lambda>_.
     bindE (binding_error_if (p_action_type p \<noteq> CREATE_STANDARD_PAYMENT_LINK)
       ''proposal is not a Standard Payment Link action'') (\<lambda>_.
     bindE (binding_error_if (d_stage plan \<noteq> POLICY \<or> \<not> allowed plan)
       ''effect command requires an allowed policy-stage plan'') (\<lambda>_.
     bindE (binding_error_if (plan_unbound plan p) ''prior plan is not bound to the proposal'') (\<lambda>_.
     bindE (validate_amount_binding p r) (\<lambda>_.
     bindE (make_recovery_reference_id (p_case_id p) (cc_provider_account_id c)) (\<lambda>expected_reference_id.
     bindE (binding_error_if (lr_reference_id r \<noteq> expected_reference_id)
       ''provider request reference is not controller-derived from case and account'') (\<lambda>_.
     binding_error_if (map_of (lr_notes r) ''recovery_case_id'' \<noteq> Some (p_case_id p))
       ''provider request recovery case is not bound to the proposal'' ))))))))"

definition create_bindings :: "create_command \<Rightarrow> exn + (pystr \<times> json) list" where
  "create_bindings c =
     bindE (command_payload_digest c) (\<lambda>payload_digest.
     bindE (command_request_digest c) (\<lambda>request_digest.
     Inr [(''action_key'', JStr (action_key (cc_proposal c))),
          (''executor_payload_sha256'', JStr payload_digest),
          (''prior_plan_sha256'', JStr (decision_digest (cc_prior_plan c))),
          (''proposal_sha256'', JStr (proposal_digest (cc_proposal c))),
          (''provider_request_sha256'', JStr request_digest)]))"

section \<open>The envelope\<close>

definition create_unsigned :: "create_command \<Rightarrow> exn + (pystr \<times> json) list" where
  "create_unsigned c =
     bindE (create_bindings c) (\<lambda>bindings.
     bindE (request_primitive (cc_request c)) (\<lambda>request.
     Inr [(''bindings'', JObj bindings),
          (''command'', JObj
             [(''prior_plan'', decision_to_primitive (cc_prior_plan c)),
              (''proposal'', proposal_to_primitive (cc_proposal c)),
              (''provider_account_id'', JStr (cc_provider_account_id c)),
              (''request'', request)]),
          (''command_type'', JStr CREATE_COMMAND_TYPE),
          (''schema'', JStr CREATE_COMMAND_SCHEMA),
          (''version'', JInt CREATE_COMMAND_SCHEMA_VERSION)]))"

definition integrity_digest :: "(pystr \<times> json) list \<Rightarrow> exn + pystr" where
  "integrity_digest envelope_body = bindE (bounded_canonical_bytes (JObj envelope_body)) (\<lambda>b. Inr (sha256_hex b))"

definition seal :: "(pystr \<times> json) list \<Rightarrow> exn + json" where
  "seal envelope_body =
     bindE (integrity_digest envelope_body) (\<lambda>digest.
     let envelope = JObj (envelope_body
           @ [(''integrity'', JObj [(''algorithm'', JStr ''sha256''), (''digest'', JStr digest)])])
     in bindE (bounded_canonical_bytes envelope) (\<lambda>_. Inr envelope))"

definition encode_create_command :: "create_command \<Rightarrow> exn + json" where
  "encode_create_command c =
     bindE (create_unsigned c) (\<lambda>envelope_body.
     bindE (validate_command_binding c) (\<lambda>_.
     seal envelope_body))"

definition encode_create_command_json :: "create_command \<Rightarrow> exn + bytes" where
  "encode_create_command_json c = bindE (encode_create_command c) bounded_canonical_bytes"

section \<open>Decoding\<close>

definition ENVELOPE_FIELDS :: "pystr list" where
  "ENVELOPE_FIELDS = [''bindings'', ''command'', ''command_type'', ''integrity'', ''schema'', ''version'']"

definition COMMAND_FIELDS :: "pystr list" where
  "COMMAND_FIELDS = [''prior_plan'', ''proposal'', ''provider_account_id'', ''request'']"

definition INTEGRITY_FIELDS :: "pystr list" where
  "INTEGRITY_FIELDS = [''algorithm'', ''digest'']"

definition BINDING_FIELDS :: "pystr list" where
  "BINDING_FIELDS =
     [''action_key'', ''executor_payload_sha256'', ''prior_plan_sha256'', ''proposal_sha256'', ''provider_request_sha256'']"

definition check_metadata :: "(pystr \<times> json) list \<Rightarrow> pystr \<Rightarrow> int \<Rightarrow> exn + unit" where
  "check_metadata envelope command_type version =
     bindE (raise_if (command_type \<noteq> CREATE_COMMAND_TYPE)
       (EffectCommandSchemaError ''external command_type is unsupported'')) (\<lambda>_.
     bindE (raise_if (version \<noteq> CREATE_COMMAND_SCHEMA_VERSION)
       (EffectCommandSchemaError ''external command_schema_version is unsupported'')) (\<lambda>_.
     bindE (raise_if (obj_get envelope ''schema'' \<noteq> JStr CREATE_COMMAND_SCHEMA)
       (EffectCommandSchemaError ''effect command schema is unsupported'')) (\<lambda>_.
     bindE (raise_if (obj_get envelope ''version'' \<noteq> JInt CREATE_COMMAND_SCHEMA_VERSION)
       (EffectCommandSchemaError ''effect command schema version is unsupported'')) (\<lambda>_.
     raise_if (obj_get envelope ''command_type'' \<noteq> JStr command_type)
       (EffectCommandSchemaError ''embedded and external command types differ'')))))"

definition unsigned_part :: "(pystr \<times> json) list \<Rightarrow> (pystr \<times> json) list" where
  "unsigned_part envelope = filter (\<lambda>(k, _). k \<noteq> ''integrity'') envelope"

definition check_integrity :: "(pystr \<times> json) list \<Rightarrow> exn + unit" where
  "check_integrity envelope =
     bindE (exact_object (obj_get envelope ''integrity'') INTEGRITY_FIELDS ''$.integrity'') (\<lambda>integrity.
     bindE (raise_if (obj_get integrity ''algorithm'' \<noteq> JStr ''sha256'')
       (EffectCommandSchemaError ''effect command integrity algorithm is unsupported'')) (\<lambda>_.
     bindE (read_digest (obj_get integrity ''digest'') ''$.integrity.digest'') (\<lambda>supplied.
     bindE (integrity_digest (unsigned_part envelope)) (\<lambda>expected.
     bindE (compare_digest supplied expected) (\<lambda>same.
     raise_if (\<not> same) (EffectCommandIntegrityError ''effect command integrity digest mismatch''))))))"

definition read_command :: "json \<Rightarrow> exn + create_command" where
  "read_command value =
     bindE (exact_object value COMMAND_FIELDS ''$.command'') (\<lambda>command_value.
     bindE (read_proposal (obj_get command_value ''proposal'')) (\<lambda>proposal.
     bindE (read_prior_plan (obj_get command_value ''prior_plan'')) (\<lambda>prior_plan.
     bindE (read_request (obj_get command_value ''request'')) (\<lambda>request.
     bindE (except_foreign (EffectCommandSchemaError ''effect command violates the executor contract'')
       (bindE (read_text (obj_get command_value ''provider_account_id'') ''$.command.provider_account_id'') (\<lambda>account.
        mk_create_command \<lparr>cc_proposal = proposal, cc_prior_plan = prior_plan, cc_request = request,
          cc_provider_account_id = account\<rparr>))) (\<lambda>command.
     bindE (validate_command_binding command) (\<lambda>_.
     Inr command))))))"

definition check_one_binding :: "(pystr \<times> json) list \<Rightarrow> pystr \<times> json \<Rightarrow> exn + unit" where
  "check_one_binding supplied expected = (case (obj_get supplied (fst expected), snd expected) of
      (JStr s, JStr e) \<Rightarrow>
        bindE (compare_digest s e) (\<lambda>same.
        raise_if (\<not> same) (EffectCommandIntegrityError (''effect command '' @ fst expected @ '' binding mismatch'')))
    | _ \<Rightarrow> integrity_error (''effect command '' @ fst expected @ '' binding mismatch''))"

definition check_bindings :: "json \<Rightarrow> create_command \<Rightarrow> exn + unit" where
  "check_bindings value c =
     bindE (exact_object value BINDING_FIELDS ''$.bindings'') (\<lambda>supplied.
     bindE (traverseE (\<lambda>fld. read_digest (obj_get supplied fld) (''$.bindings.'' @ fld)) (tl BINDING_FIELDS)) (\<lambda>_.
     bindE (create_bindings c) (\<lambda>expected.
     bindE (traverseE (check_one_binding supplied) expected) (\<lambda>_.
     Inr ()))))"

definition check_unique_envelope :: "(pystr \<times> json) list \<Rightarrow> json \<Rightarrow> exn + unit" where
  "check_unique_envelope envelope rebuilt =
     bindE (bounded_canonical_bytes (JObj envelope)) (\<lambda>a.
     bindE (bounded_canonical_bytes rebuilt) (\<lambda>b.
     raise_if (a \<noteq> b) (EffectCommandIntegrityError ''effect command is not its unique canonical envelope'')))"

definition decode_create_command :: "command_payload \<Rightarrow> pystr \<Rightarrow> int \<Rightarrow> exn + create_command" where
  "decode_create_command p command_type version =
     bindE (coerce_payload p) (\<lambda>kvs.
     bindE (exact_object (JObj kvs) ENVELOPE_FIELDS ''$'') (\<lambda>envelope.
     bindE (check_metadata envelope command_type version) (\<lambda>_.
     bindE (check_integrity envelope) (\<lambda>_.
     bindE (read_command (obj_get envelope ''command'')) (\<lambda>command.
     bindE (check_bindings (obj_get envelope ''bindings'') command) (\<lambda>_.
     bindE (encode_create_command command) (\<lambda>rebuilt.
     bindE (check_unique_envelope envelope rebuilt) (\<lambda>_.
     Inr command))))))))"

end
