(* ===== verification/Cancel_Codec.thy ===== *)
theory Cancel_Codec
  imports Create_Codec Cancellation
begin

text \<open>
  \<^verbatim>\<open>services/control_plane/cancellation_command_codec.py\<close>: the sealed form of a cancellation command, on
  the bounded reading and the seal of the effect command codec.
\<close>

definition CANCEL_COMMAND_TYPE :: pystr where
  "CANCEL_COMMAND_TYPE = ''CANCEL_PAYMENT_LINK''"

definition CANCEL_COMMAND_SCHEMA :: pystr where
  "CANCEL_COMMAND_SCHEMA = ''retrywise.cancel-payment-link-command''"

definition CANCEL_COMMAND_SCHEMA_VERSION :: int where
  "CANCEL_COMMAND_SCHEMA_VERSION = 1"

definition CANCEL_COMMAND_FIELDS :: "pystr list" where
  "CANCEL_COMMAND_FIELDS = [''prior_plan'', ''proposal'', ''target'']"

definition TARGET_FIELDS :: "pystr list" where
  "TARGET_FIELDS =
     [''action_id'', ''action_key'', ''amount_minor'', ''case_id'', ''currency'', ''instrument_id'', ''merchant_id'',
      ''payment_link_id'', ''provider_account_id'', ''reference_id'']"

definition CANCEL_BINDING_FIELDS :: "pystr list" where
  "CANCEL_BINDING_FIELDS =
     [''action_key'', ''executor_payload_sha256'', ''prior_plan_sha256'', ''proposal_sha256'', ''target_sha256'']"

section \<open>Targets\<close>

definition target_text :: "(pystr \<times> json) list \<Rightarrow> pystr \<Rightarrow> exn + pystr" where
  "target_text item fld = read_text (obj_get item fld) (''$.command.target.'' @ fld)"

definition read_target_fields :: "(pystr \<times> json) list \<Rightarrow> exn + cancellation_target" where
  "read_target_fields item =
     bindE (target_text item ''merchant_id'') (\<lambda>merchant.
     bindE (target_text item ''case_id'') (\<lambda>case_id.
     bindE (target_text item ''action_id'') (\<lambda>action.
     bindE (target_text item ''action_key'') (\<lambda>key.
     bindE (target_text item ''instrument_id'') (\<lambda>instrument.
     bindE (target_text item ''provider_account_id'') (\<lambda>account.
     bindE (target_text item ''payment_link_id'') (\<lambda>link.
     bindE (target_text item ''reference_id'') (\<lambda>reference.
     bindE (read_integer (obj_get item ''amount_minor'') ''$.command.target.amount_minor'' (Some 1)) (\<lambda>amount.
     bindE (target_text item ''currency'') (\<lambda>cur.
     mk_cancellation_target
       \<lparr>ct_merchant_id = merchant, ct_case_id = case_id, ct_action_id = action, ct_action_key = key,
        ct_instrument_id = instrument, ct_provider_account_id = account, ct_payment_link_id = link,
        ct_reference_id = reference, ct_amount_minor = amount, ct_currency = cur\<rparr>))))))))))"

definition read_target :: "json \<Rightarrow> exn + cancellation_target" where
  "read_target value =
     bindE (exact_object value TARGET_FIELDS ''$.command.target'') (\<lambda>item.
     bindE (except_foreign (EffectCommandSchemaError ''cancellation target violates its immutable contract'')
       (read_target_fields item)) (\<lambda>target.
     bindE (raise_if (\<not> same_json (target_to_primitive target) (JObj item))
       (EffectCommandBindingError ''cancellation target derived fields differ from their source'')) (\<lambda>_.
     Inr target)))"

section \<open>The envelope\<close>

definition cancel_bindings :: "cancel_command \<Rightarrow> (pystr \<times> json) list" where
  "cancel_bindings c =
     [(''action_key'', JStr (action_key (cl_proposal c))),
      (''executor_payload_sha256'', JStr (cancel_payload_digest c)),
      (''prior_plan_sha256'', JStr (decision_digest (cl_prior_plan c))),
      (''proposal_sha256'', JStr (proposal_digest (cl_proposal c))),
      (''target_sha256'', JStr (target_digest (cl_target c)))]"

definition cancel_unsigned :: "cancel_command \<Rightarrow> (pystr \<times> json) list" where
  "cancel_unsigned c =
     [(''bindings'', JObj (cancel_bindings c)),
      (''command'', JObj
         [(''prior_plan'', decision_to_primitive (cl_prior_plan c)),
          (''proposal'', proposal_to_primitive (cl_proposal c)),
          (''target'', target_to_primitive (cl_target c))]),
      (''command_type'', JStr CANCEL_COMMAND_TYPE),
      (''schema'', JStr CANCEL_COMMAND_SCHEMA),
      (''version'', JInt CANCEL_COMMAND_SCHEMA_VERSION)]"

definition encode_cancel_command :: "cancel_command \<Rightarrow> exn + json" where
  "encode_cancel_command c = seal (cancel_unsigned c)"

definition encode_cancel_command_json :: "cancel_command \<Rightarrow> exn + bytes" where
  "encode_cancel_command_json c = bindE (encode_cancel_command c) bounded_canonical_bytes"

section \<open>Decoding\<close>

definition check_cancel_metadata :: "(pystr \<times> json) list \<Rightarrow> pystr \<Rightarrow> int \<Rightarrow> exn + unit" where
  "check_cancel_metadata envelope command_type version =
     bindE (raise_if (command_type \<noteq> CANCEL_COMMAND_TYPE)
       (EffectCommandSchemaError ''external cancellation command_type is unsupported'')) (\<lambda>_.
     bindE (raise_if (version \<noteq> CANCEL_COMMAND_SCHEMA_VERSION)
       (EffectCommandSchemaError ''external cancellation command_schema_version is unsupported'')) (\<lambda>_.
     bindE (raise_if (obj_get envelope ''schema'' \<noteq> JStr CANCEL_COMMAND_SCHEMA)
       (EffectCommandSchemaError ''cancellation command schema is unsupported'')) (\<lambda>_.
     bindE (raise_if (obj_get envelope ''version'' \<noteq> JInt CANCEL_COMMAND_SCHEMA_VERSION)
       (EffectCommandSchemaError ''cancellation command schema version is unsupported'')) (\<lambda>_.
     raise_if (obj_get envelope ''command_type'' \<noteq> JStr command_type)
       (EffectCommandSchemaError ''embedded and external cancellation command types differ'')))))"

definition check_cancel_integrity :: "(pystr \<times> json) list \<Rightarrow> exn + unit" where
  "check_cancel_integrity envelope =
     bindE (exact_object (obj_get envelope ''integrity'') INTEGRITY_FIELDS ''$.integrity'') (\<lambda>integrity.
     bindE (raise_if (obj_get integrity ''algorithm'' \<noteq> JStr ''sha256'')
       (EffectCommandSchemaError ''cancellation integrity algorithm is unsupported'')) (\<lambda>_.
     bindE (read_digest (obj_get integrity ''digest'') ''$.integrity.digest'') (\<lambda>supplied.
     bindE (integrity_digest (unsigned_part envelope)) (\<lambda>expected.
     bindE (compare_digest supplied expected) (\<lambda>same.
     raise_if (\<not> same) (EffectCommandIntegrityError ''cancellation command integrity digest mismatch''))))))"

definition read_cancel_command :: "json \<Rightarrow> exn + cancel_command" where
  "read_cancel_command value =
     bindE (exact_object value CANCEL_COMMAND_FIELDS ''$.command'') (\<lambda>command_value.
     bindE (read_proposal (obj_get command_value ''proposal'')) (\<lambda>proposal.
     bindE (read_prior_plan (obj_get command_value ''prior_plan'')) (\<lambda>prior_plan.
     bindE (read_target (obj_get command_value ''target'')) (\<lambda>target.
     except_all (EffectCommandBindingError ''cancellation command violates proposal/plan/target binding'')
       (mk_cancel_command \<lparr>cl_proposal = proposal, cl_prior_plan = prior_plan, cl_target = target\<rparr>)))))"

definition check_one_cancel_binding :: "(pystr \<times> json) list \<Rightarrow> pystr \<times> json \<Rightarrow> exn + unit" where
  "check_one_cancel_binding supplied expected = (case (obj_get supplied (fst expected), snd expected) of
      (JStr s, JStr e) \<Rightarrow>
        bindE (compare_digest s e) (\<lambda>same.
        raise_if (\<not> same) (EffectCommandIntegrityError (''cancellation command '' @ fst expected @ '' binding mismatch'')))
    | _ \<Rightarrow> integrity_error (''cancellation command '' @ fst expected @ '' binding mismatch''))"

definition check_cancel_bindings :: "json \<Rightarrow> cancel_command \<Rightarrow> exn + unit" where
  "check_cancel_bindings value c =
     bindE (exact_object value CANCEL_BINDING_FIELDS ''$.bindings'') (\<lambda>supplied.
     bindE (traverseE (\<lambda>fld. read_digest (obj_get supplied fld) (''$.bindings.'' @ fld)) (tl CANCEL_BINDING_FIELDS)) (\<lambda>_.
     bindE (traverseE (check_one_cancel_binding supplied) (cancel_bindings c)) (\<lambda>_.
     Inr ())))"

definition check_unique_cancel_envelope :: "(pystr \<times> json) list \<Rightarrow> json \<Rightarrow> exn + unit" where
  "check_unique_cancel_envelope envelope rebuilt =
     bindE (bounded_canonical_bytes (JObj envelope)) (\<lambda>a.
     bindE (bounded_canonical_bytes rebuilt) (\<lambda>b.
     raise_if (a \<noteq> b) (EffectCommandIntegrityError ''cancellation command is not its unique canonical envelope'')))"

definition decode_cancel_command :: "command_payload \<Rightarrow> pystr \<Rightarrow> int \<Rightarrow> exn + cancel_command" where
  "decode_cancel_command p command_type version =
     bindE (coerce_payload p) (\<lambda>kvs.
     bindE (exact_object (JObj kvs) ENVELOPE_FIELDS ''$'') (\<lambda>envelope.
     bindE (check_cancel_metadata envelope command_type version) (\<lambda>_.
     bindE (check_cancel_integrity envelope) (\<lambda>_.
     bindE (read_cancel_command (obj_get envelope ''command'')) (\<lambda>command.
     bindE (check_cancel_bindings (obj_get envelope ''bindings'') command) (\<lambda>_.
     bindE (encode_cancel_command command) (\<lambda>rebuilt.
     bindE (check_unique_cancel_envelope envelope rebuilt) (\<lambda>_.
     Inr command))))))))"

end
