(* ===== verification/Codec_Text.thy ===== *)
theory Codec_Text
  imports Command_Codec
begin

text \<open>
  Lemmas on the bounded text of stored commands: what the walk admits, the canonical text of an admitted
  value, the size of that text, and what reading a payload returns.
\<close>

section \<open>What the walk admits\<close>

declare walk_json.simps [simp del]

fun stored :: "nat \<Rightarrow> json \<Rightarrow> bool" where
  "stored d (JInt i) = (d \<le> MAX_DEPTH \<and> in_signed_64 i)"
| "stored d (JFloat _) = False"
| "stored d (JArr vs) = (d \<le> MAX_DEPTH \<and> list_all (stored (Suc d)) vs)"
| "stored d (JObj kvs) = (d \<le> MAX_DEPTH \<and> list_all (\<lambda>(k, v). \<not> sensitive_key k \<and> stored (Suc d) v) kvs)"
| "stored d _ = (d \<le> MAX_DEPTH)"

lemma walk_stored:
  "walk_json v path d = Inr n \<Longrightarrow> stored d v"
  "walk_items kvs path d acc = Inr n \<Longrightarrow> list_all (\<lambda>(k, v). \<not> sensitive_key k \<and> stored (Suc d) v) kvs"
  "walk_elements vs path d index acc = Inr n \<Longrightarrow> list_all (stored (Suc d)) vs"
proof (induction v path d and kvs path d acc and vs path d index acc arbitrary: n and n and n
    rule: walk_json_walk_items_walk_elements.induct)
  case (1 v path d)
  then show ?case by (cases v) (auto simp: walk_json.simps)
next
  case (3 key item kvs path d acc)
  then show ?case by (fastforce simp: walk_items.simps)
next
  case (5 item vs path d index acc)
  then show ?case by (fastforce simp: walk_elements.simps)
qed simp_all

lemma stored_items_dict_put:
  "list_all (\<lambda>(k, v). \<not> sensitive_key k \<and> stored d v) kvs \<Longrightarrow> \<not> sensitive_key k \<Longrightarrow> stored d v \<Longrightarrow>
     list_all (\<lambda>(k, v). \<not> sensitive_key k \<and> stored d v) (dict_put k v kvs)"
  by (induction kvs) auto

lemma canonical_items_stored:
  assumes "\<And>k v j. (k, v) \<in> set kvs \<Longrightarrow> to_canonical_primitive (py_of_json v) = Inr j \<Longrightarrow> stored d j"
    and "list_all (\<lambda>(k, v). \<not> sensitive_key k) kvs"
    and "list_all (\<lambda>(k, v). \<not> sensitive_key k \<and> stored d v) acc"
    and "canonical_items (map (\<lambda>(k, v). (KStr k, py_of_json v)) kvs) acc = Inr out"
  shows "list_all (\<lambda>(k, v). \<not> sensitive_key k \<and> stored d v) out"
  using assms
proof (induction kvs arbitrary: acc)
  case Nil
  then show ?case by simp
next
  case (Cons kv kvs)
  obtain k v where kv: "kv = (k, v)" by (cases kv)
  from Cons.prems(4) obtain j where j: "to_canonical_primitive (py_of_json v) = Inr j"
    "canonical_items (map (\<lambda>(k, v). (KStr k, py_of_json v)) kvs) (dict_put k j acc) = Inr out"
    by (auto simp: kv)
  have "list_all (\<lambda>(k, v). \<not> sensitive_key k \<and> stored d v) (dict_put k j acc)"
    using Cons.prems(1) [of k v j] Cons.prems(2,3) j(1) by (intro stored_items_dict_put) (auto simp: kv)
  with Cons.prems(1,2) j(2) show ?case by (intro Cons.IH [of "dict_put k j acc"]) (auto simp: kv)
qed

lemma canonical_seq_stored:
  assumes "\<And>v j. v \<in> set vs \<Longrightarrow> to_canonical_primitive (py_of_json v) = Inr j \<Longrightarrow> stored d j"
    and "canonical_seq (map py_of_json vs) = Inr out"
  shows "list_all (stored d) out"
  using assms
proof (induction vs arbitrary: out)
  case (Cons v vs)
  from Cons.prems(2) obtain j js where j: "to_canonical_primitive (py_of_json v) = Inr j"
    "canonical_seq (map py_of_json vs) = Inr js" "out = j # js" by auto
  have "list_all (stored d) js" using Cons.prems(1) j(2) by (intro Cons.IH) auto
  with Cons.prems(1) [of v j] j show ?case by simp
qed simp

text \<open>Normalisation keeps a value within what the walk admits.\<close>

lemma canonical_stored: "stored d v \<Longrightarrow> to_canonical_primitive (py_of_json v) = Inr j \<Longrightarrow> stored d j"
proof (induction v arbitrary: d j)
  case (JArr vs)
  then obtain out where out: "canonical_seq (map py_of_json vs) = Inr out" "j = JArr out" by auto
  have "stored (Suc d) i" if "v \<in> set vs" "to_canonical_primitive (py_of_json v) = Inr i" for v i
    using JArr.IH [OF that(1) _ that(2)] JArr.prems(1) that(1) by (auto simp: list_all_iff)
  from canonical_seq_stored [OF this out(1)] JArr.prems(1) out(2) show ?case by simp
next
  case (JObj kvs)
  then obtain out where
    out: "canonical_items (map (\<lambda>(k, v). (KStr k, py_of_json v)) kvs) [] = Inr out" "j = JObj out" by auto
  have "stored (Suc d) i" if "(k, v) \<in> set kvs" "to_canonical_primitive (py_of_json v) = Inr i" for k v i
  proof (rule JObj.IH [OF that(1) _ _ that(2)])
    show "v \<in> Basic_BNFs.snds (k, v)" by simp
    show "stored (Suc d) v" using JObj.prems(1) that(1) by (fastforce simp: list_all_iff)
  qed
  from canonical_items_stored [OF this _ _ out(1)] JObj.prems(1) out(2) show ?case
    by (fastforce simp: list_all_iff)
qed auto

lemma stored_canon: "stored d v \<Longrightarrow> stored d (canon v)"
  by (induction v arbitrary: d) (fastforce simp: list_all_iff)+

section \<open>Canonical text\<close>

lemma bounded_bytes_Inr:
  "bounded_canonical_bytes v = Inr b \<Longrightarrow>
     \<exists>n j. walk_json v ''$'' 0 = Inr n \<and> to_canonical_primitive (py_of_json v) = Inr j \<and> b = utf8 (dumps j)
       \<and> length b \<le> MAX_EFFECT_COMMAND_BYTES \<and> json_ok j \<and> stored 0 j"
  using to_canonical_primitive_ok(1) canonical_stored [OF walk_stored(1)]
  by (fastforce simp: bounded_canonical_bytes_def except_all_def canonical_json_bytes_def canonical_json_def)

lemma bounded_bytes_ok:
  "json_ok v \<Longrightarrow> bounded_canonical_bytes v =
     bindE (walk_json v ''$'' 0) (\<lambda>_.
     bindE (raise_if (MAX_EFFECT_COMMAND_BYTES < length (utf8 (dumps v)))
       (EffectCommandSizeError ''effect command exceeds the serialized size cap'')) (\<lambda>_.
     Inr (utf8 (dumps v))))"
  by (simp add: bounded_canonical_bytes_def except_all_def canonical_json_bytes_def canonical_json_of_json)

text \<open>The length of the text of a value whose strings need no escape and are ASCII, and with it the bound
  of the walk.\<close>

definition is_plain :: "pystr \<Rightarrow> bool" where
  "is_plain s = list_all (\<lambda>c. 32 \<le> code c \<and> code c < 128 \<and> c \<noteq> CHR 0x22 \<and> c \<noteq> CHR 0x5C) s"

fun plain_json :: "json \<Rightarrow> bool" where
  "plain_json (JStr s) = is_plain s"
| "plain_json (JFloat _) = False"
| "plain_json (JArr vs) = list_all plain_json vs"
| "plain_json (JObj kvs) = list_all (\<lambda>(k, v). is_plain k \<and> plain_json v) kvs"
| "plain_json _ = True"

fun text_size :: "json \<Rightarrow> nat" where
  "text_size JNull = 4"
| "text_size (JBool _) = 5"
| "text_size (JInt i) = length (int_str i)"
| "text_size (JFloat t) = length t"
| "text_size (JStr s) = length s + 2"
| "text_size (JArr vs) = 2 + sum_list (map (\<lambda>v. 1 + text_size v) vs)"
| "text_size (JObj kvs) = 2 + sum_list (map (\<lambda>(k, v). length k + 4 + text_size v) kvs)"

lemma length_utf8_plain: "is_plain s \<Longrightarrow> length (utf8 s) = length s"
  by (induction s) (simp_all add: is_plain_def utf8_def utf8_char_def)

lemma esc_str_plain: "is_plain s \<Longrightarrow> esc_str s = s"
  by (induction s) (auto simp: is_plain_def esc_str_def esc_char_def)

lemma length_utf8_quoted: "is_plain s \<Longrightarrow> length (utf8 (quoted s)) = length s + 2"
  by (simp add: quoted_def esc_str_plain length_utf8_plain) (simp add: utf8_def utf8_char_def)

lemma length_utf8_join_le:
  "length (utf8 (join '','' ps)) \<le> sum_list (map (\<lambda>p. 1 + length (utf8 p)) ps)"
proof (induction ps)
  case (Cons p ps)
  then show ?case
    by (cases ps) (simp_all add: utf8_def utf8_char_def)
qed (simp add: utf8_def)

lemma digit_plain: "is_digit c \<Longrightarrow> 32 \<le> code c \<and> code c < 128 \<and> c \<noteq> CHR 0x22 \<and> c \<noteq> CHR 0x5C"
  by (auto simp: is_digit_def)

lemma is_plain_int_str: "is_plain (int_str i)"
proof -
  have "is_plain (nat_str n)" for n
    using nat_str_digits [of n] digit_plain unfolding is_plain_def list_all_iff by blast
  then show ?thesis by (simp add: int_str_def is_plain_def)
qed

lemma utf8_ascii [simp]: "code c < 128 \<Longrightarrow> length (utf8_char c) = 1"
  by (simp add: utf8_char_def)

lemma sum_list_insort_key: "sum_list (map (f :: 'a \<Rightarrow> nat) (insort_key k x xs)) = f x + sum_list (map f xs)"
  by (induction xs) simp_all

lemma sum_list_sort_key [simp]: "sum_list (map (f :: 'a \<Rightarrow> nat) (sort_key k xs)) = sum_list (map f xs)"
  by (induction xs) (simp_all add: sum_list_insort_key)

lemma length_dumps_plain: "plain_json v \<Longrightarrow> length (utf8 (dumps v)) \<le> text_size v"
proof (induction v)
  case (JArr vs)
  have "sum_list (map (\<lambda>p. 1 + length (utf8 p)) (map dumps vs)) \<le> sum_list (map (\<lambda>v. 1 + text_size v) vs)"
    using JArr by (auto simp: list_all_iff comp_def intro!: sum_list_mono)
  with length_utf8_join_le [of "map dumps vs"] show ?case by simp
next
  case (JObj kvs)
  let ?g = "\<lambda>(k, v). quoted k @ '':'' @ dumps v"
  have "1 + length (utf8 (?g kv)) \<le> (case kv of (k, v) \<Rightarrow> length k + 4 + text_size v)" if kv: "kv \<in> set kvs" for kv
  proof -
    obtain k v where eq: "kv = (k, v)" by (cases kv)
    have "length (utf8 (dumps v)) \<le> text_size v" "is_plain k"
      using JObj.IH [of kv v] JObj.prems kv by (auto simp: eq list_all_iff)
    then show ?thesis by (simp add: eq length_utf8_quoted)
  qed
  then have "sum_list (map (\<lambda>kv. 1 + length (utf8 (?g kv))) kvs)
      \<le> sum_list (map (\<lambda>(k, v). length k + 4 + text_size v) kvs)"
    by (intro sum_list_mono)
  moreover have "length (utf8 (join '','' (map ?g (sort_key fst kvs)))) \<le> sum_list (map (\<lambda>kv. 1 + length (utf8 (?g kv))) kvs)"
    using length_utf8_join_le [of "map ?g (sort_key fst kvs)"] by (simp add: comp_def)
  ultimately show ?case by (simp add: dumps_JObj del: dumps.simps)
next
  case (JInt i)
  then show ?case using is_plain_int_str by (simp add: length_utf8_plain)
next
  case (JStr s)
  then show ?case by (simp add: length_utf8_quoted)
qed simp_all

lemma walk_succeeds:
  "stored d v \<Longrightarrow> plain_json v \<Longrightarrow> text_size v \<le> MAX_EFFECT_COMMAND_BYTES \<Longrightarrow>
     \<exists>n \<le> text_size v. walk_json v path d = Inr n"
  "list_all (\<lambda>(k, v). \<not> sensitive_key k \<and> stored (Suc d) v) kvs \<Longrightarrow> plain_json (JObj kvs) \<Longrightarrow>
     acc + text_size (JObj kvs) \<le> MAX_EFFECT_COMMAND_BYTES + 2 \<Longrightarrow>
     \<exists>n. n + 2 \<le> acc + text_size (JObj kvs) \<and> walk_items kvs path d acc = Inr n"
  "list_all (stored (Suc d)) vs \<Longrightarrow> plain_json (JArr vs) \<Longrightarrow>
     acc + text_size (JArr vs) \<le> MAX_EFFECT_COMMAND_BYTES + 2 \<Longrightarrow>
     \<exists>n. n + 2 \<le> acc + text_size (JArr vs) \<and> walk_elements vs path d index acc = Inr n"
proof (induction v path d and kvs path d acc and vs path d index acc
    rule: walk_json_walk_items_walk_elements.induct)
  case (1 v path d)
  show ?case
  proof (cases v)
    case (JObj kvs)
    with 1 show ?thesis by (auto simp: walk_json.simps)
  next
    case (JArr vs)
    with 1 show ?thesis by (auto simp: walk_json.simps)
  next
    case (JStr s)
    with 1 show ?thesis by (simp add: walk_json.simps length_utf8_plain)
  qed (use 1 in \<open>simp_all add: walk_json.simps\<close>)
next
  case (3 key item kvs path d acc)
  then have step: "\<not> sensitive_key key" "length (utf8 key) = length key"
    by (simp_all add: length_utf8_plain)
  have le: "text_size item \<le> MAX_EFFECT_COMMAND_BYTES" "length key \<le> MAX_EFFECT_COMMAND_BYTES"
    "acc + (length key + 4 + text_size item) \<le> MAX_EFFECT_COMMAND_BYTES"
    using 3(5) by simp_all
  obtain n where n: "n \<le> text_size item" "walk_json item (path @ ''.'' @ key) (d + 1) = Inr n"
    using 3(1) [of "()" "()"] 3(3,4) le step by auto
  have "\<exists>m. m + 2 \<le> (acc + (length key + 3) + n) + text_size (JObj kvs)
      \<and> walk_items kvs path d (acc + (length key + 3) + n) = Inr m"
    using 3(2) [of "()" "()" n "()"] 3(3-5) le n step by simp
  with n le step show ?case by (fastforce simp: walk_items.simps)
next
  case (5 item vs path d index acc)
  have le: "text_size item \<le> MAX_EFFECT_COMMAND_BYTES" "acc + (1 + text_size item) \<le> MAX_EFFECT_COMMAND_BYTES"
    using 5(5) by simp_all
  obtain n where n: "n \<le> text_size item" "walk_json item (path @ ''['' @ nat_str index @ '']'') (d + 1) = Inr n"
    using 5(1) 5(3,4) le by auto
  have "\<exists>m. m + 2 \<le> (acc + (1 + n)) + text_size (JArr vs) \<and> walk_elements vs path d (Suc index) (acc + (1 + n)) = Inr m"
    using 5(2) [of n "()"] 5(3-5) le n by simp
  with n le show ?case by (fastforce simp: walk_elements.simps)
qed simp_all

lemma bounded_bytes_plain:
  assumes "json_ok v" "stored 0 v" "plain_json v" "text_size v \<le> MAX_EFFECT_COMMAND_BYTES"
  shows "bounded_canonical_bytes v = Inr (utf8 (dumps v))"
proof -
  obtain n where "walk_json v ''$'' 0 = Inr n" using walk_succeeds(1) [OF assms(2-4)] by blast
  moreover have "length (utf8 (dumps v)) \<le> MAX_EFFECT_COMMAND_BYTES"
    using length_dumps_plain [OF assms(3)] assms(4) by linarith
  ultimately show ?thesis by (simp add: bounded_bytes_ok [OF assms(1)])
qed

section \<open>Reading back\<close>

lemma without_duplicates_distinct:
  "distinct (map fst (acc @ kvs)) \<Longrightarrow> without_duplicates kvs acc = Some (acc @ kvs)"
proof (induction kvs arbitrary: acc)
  case (Cons kv kvs)
  obtain k v where kv: "kv = (k, v)" by (cases kv)
  with Cons.prems have "k \<notin> fst ` set acc" by auto
  with Cons.IH [of "acc @ [kv]"] Cons.prems show ?case by (simp add: kv dict_put_new)
qed simp

lemma int_str_not_minus_zero: "int_str i \<noteq> ''-0''"
proof
  assume eq: "int_str i = ''-0''"
  have "literal_int ''-0'' = 0" by (simp add: literal_int_def digits_val_def digit_val_def)
  then have "i = 0" using literal_int_str [of i] eq by simp
  have "is_digit (hd (int_str 0))"
    using nat_str_digits [of 0] by (cases "nat_str 0") (simp_all add: int_str_def)
  with eq \<open>i = 0\<close> show False by (simp add: is_digit_def)
qed

lemma int_str_digits: "dropWhile (\<lambda>c. c = CHR ''-'') (int_str i) = nat_str (nat \<bar>i\<bar>)"
proof -
  have "dropWhile (\<lambda>c. c = CHR ''-'') (nat_str n) = nat_str n" for n
    using nat_str_digits [of n] by (intro dropWhile_none) (auto simp: is_digit_def)
  then show ?thesis by (simp add: int_str_def)
qed

lemma parse_canonical_int_str:
  assumes "in_signed_64 i"
  shows "parse_canonical_integer (int_str i) = Some (JInt i)"
proof -
  have "nat \<bar>i\<bar> < 10 ^ 19" using assms unfolding in_signed_64_def MAX_SIGNED_64_def by (simp add: abs_less_iff nat_less_iff)
  then have "length (nat_str (nat \<bar>i\<bar>)) \<le> 19" by (rule length_nat_str_le) simp
  then show ?thesis using assms
    by (simp add: parse_canonical_integer_def int_str_not_minus_zero int_str_digits)
qed

lemma reads_strict: "stored d v \<Longrightarrow> json_ok v \<Longrightarrow> reads strict_hooks v"
proof (induction v arbitrary: d)
  case (JObj kvs)
  have "reads strict_hooks v" if "(k, v) \<in> set kvs" for k v
    using JObj.IH [OF that, of v "Suc d"] JObj.prems that by (fastforce simp: list_all_iff)
  moreover have "object_without_duplicates kvs = Some kvs"
    using JObj.prems without_duplicates_distinct [of "[]" kvs] by (simp add: object_without_duplicates_def)
  ultimately show ?case by (auto simp: list_all_iff strict_hooks_def)
next
  case (JInt i)
  then show ?case by (simp add: strict_hooks_def parse_canonical_int_str)
qed (auto simp: list_all_iff)

lemma strict_loads:
  "stored d v \<Longrightarrow> json_ok v \<Longrightarrow> loads_hooked strict_hooks (dumps v) = Some (canon v)"
  by (intro loads_hooked_dumps reads_strict [OF stored_canon] json_ok_canon)

text \<open>A payload is read to the sorted items of one admitted document, whose text is the payload's own.\<close>

definition payload_text :: "command_payload \<Rightarrow> exn + bytes" where
  "payload_text p = (case p of
      PayObject kvs \<Rightarrow> canonical_json_bytes (py_of_json (JObj kvs))
    | PayText s \<Rightarrow> Inr (utf8 s)
    | PayBytes raw \<Rightarrow> Inr raw
    | PayOther \<Rightarrow> Inl (TypeError ''payload must be a JSON object, canonical JSON text, or bytes''))"

definition document :: "(pystr \<times> json) list \<Rightarrow> bool" where
  "document kvs = (json_ok (JObj kvs) \<and> sorted_json (JObj kvs) \<and> stored 0 (JObj kvs))"

lemma documentI: "json_ok j \<Longrightarrow> stored 0 j \<Longrightarrow> canon j = JObj kvs \<Longrightarrow> document kvs"
  unfolding document_def by (metis json_ok_canon sorted_json_canon stored_canon)

lemma coerce_bytes_Inr:
  assumes "coerce_bytes raw = Inr kvs"
  shows "document kvs \<and> raw = utf8 (dumps (JObj kvs)) \<and> length raw \<le> MAX_EFFECT_COMMAND_BYTES"
proof -
  obtain decoded parsed where d: "utf8_decode raw = Some decoded" "loads_hooked strict_hooks decoded = Some parsed"
    "parsed = JObj kvs" "bounded_canonical_bytes parsed = Inr raw"
    using assms by (auto simp: coerce_bytes_def require_object_def split: option.splits json.splits)
  obtain j where j: "to_canonical_primitive (py_of_json parsed) = Inr j" "raw = utf8 (dumps j)"
    "length raw \<le> MAX_EFFECT_COMMAND_BYTES" "json_ok j" "stored 0 j"
    using bounded_bytes_Inr [OF d(4)] by blast
  with d(1) have "decoded = dumps j" by simp
  then have canon: "canon j = JObj kvs" using strict_loads [OF j(5,4)] d(2,3) by simp
  moreover have "dumps (JObj kvs) = dumps j" using dumps_canon [of j] canon by simp
  ultimately show ?thesis using j(2,3) documentI [OF j(4,5)] by simp
qed

lemma coerce_object_Inr:
  assumes "coerce_object o' = Inr kvs"
  shows "document kvs \<and> canonical_json_bytes (py_of_json (JObj o')) = Inr (utf8 (dumps (JObj kvs)))"
proof -
  have object: "require_object v = Inr kvs \<longleftrightarrow> v = JObj kvs" for v
    by (cases v) (simp_all add: require_object_def)
  obtain raw where r: "bounded_canonical_bytes (JObj o') = Inr raw"
    "Option.bind (utf8_decode raw) loads = Some (JObj kvs)"
    using assms unfolding coerce_object_def bindE_eq_Inr option.case_eq_if
    by (metis Inl_Inr_False object option.collapse)
  obtain j where j: "to_canonical_primitive (py_of_json (JObj o')) = Inr j" "raw = utf8 (dumps j)"
    "json_ok j" "stored 0 j"
    using bounded_bytes_Inr [OF r(1)] by blast
  with r(2) have canon: "canon j = JObj kvs" by (simp add: loads_dumps)
  moreover have "dumps (JObj kvs) = dumps j" using dumps_canon [of j] canon by simp
  moreover have "canonical_json_bytes (py_of_json (JObj o')) = Inr (utf8 (dumps j))"
    using j(1) by (simp add: canonical_json_bytes_def canonical_json_def del: py_of_json.simps)
  ultimately show ?thesis using documentI [OF j(3,4)] by simp
qed

lemma coerce_payload_Inr:
  assumes "coerce_payload p = Inr kvs"
  shows "document kvs \<and> payload_text p = Inr (utf8 (dumps (JObj kvs)))"
  using assms coerce_bytes_Inr coerce_object_Inr
  by (cases p) (auto simp: coerce_payload_def payload_text_def simp del: dumps.simps)

text \<open>Conversely, an admitted document within the bound is read from each of its forms.\<close>

lemma coerce_object_ok:
  assumes "json_ok (JObj o')" "bounded_canonical_bytes (JObj o') = Inr b" "canon (JObj o') = JObj kvs"
  shows "coerce_object o' = Inr kvs"
proof -
  have b: "b = utf8 (dumps (JObj o'))" and w: "\<exists>n. walk_json (JObj o') ''$'' 0 = Inr n"
    using assms(2) unfolding bounded_bytes_ok [OF assms(1)] by (auto simp del: dumps.simps)
  then show ?thesis using assms
    by (auto simp: coerce_object_def require_object_def loads_dumps simp del: dumps.simps canon.simps)
qed

lemma coerce_bytes_ok:
  assumes "document kvs" "bounded_canonical_bytes (JObj kvs) = Inr b"
  shows "coerce_bytes b = Inr kvs"
proof -
  have doc: "json_ok (JObj kvs)" "stored 0 (JObj kvs)" "canon (JObj kvs) = JObj kvs"
    using assms(1) canon_sorted [of "JObj kvs"] by (simp_all only: document_def)
  then have b: "b = utf8 (dumps (JObj kvs))" "length b \<le> MAX_EFFECT_COMMAND_BYTES"
    using assms(2) unfolding bounded_bytes_ok [OF doc(1)] by (auto simp del: dumps.simps)
  have "loads_hooked strict_hooks (dumps (JObj kvs)) = Some (JObj kvs)"
    using strict_loads [OF doc(2,1)] doc(3) by simp
  then show ?thesis using assms(2) b
    by (simp add: coerce_bytes_def require_object_def del: dumps.simps)
qed

end
