(* ===== verification/Codec_Parts.thy ===== *)
theory Codec_Parts
  imports Codec_Text Create_Codec Reference_Spec
begin

text \<open>
  Proposals and policy plans read back from their primitives, and the bounds of these primitives. Both
  command codecs rest on these lemmas.
\<close>

section \<open>Readers\<close>

lemma read_text_Inr [simp]: "read_text v path = Inr s \<longleftrightarrow> v = JStr s"
  by (cases v) (auto simp: read_text_def)

lemma read_text_JStr [simp]: "read_text (JStr s) path = Inr s"
  by simp

lemma read_boolean_JBool [simp]: "read_boolean (JBool b) path = Inr b"
  by (simp add: read_boolean_def)

lemma read_integer_JInt [simp]:
  "in_signed_64 i \<Longrightarrow> (case m of None \<Rightarrow> True | Some k \<Rightarrow> k \<le> i) \<Longrightarrow> read_integer (JInt i) path m = Inr i"
  by (cases m) (simp_all add: read_integer_def)

lemma read_digest_JStr [simp]: "read_digest (JStr s) path = Inr t \<longleftrightarrow> is_digest s \<and> t = s"
  by (auto simp: read_digest_def)

lemma except_all_Inr [simp]: "except_all e m = Inr x \<longleftrightarrow> m = Inr x" "except_all e (Inr x) = Inr x"
  by (simp_all add: except_all_def)

lemma except_foreign_Inr [simp]: "except_foreign e m = Inr x \<longleftrightarrow> m = Inr x" "except_foreign e (Inr x) = Inr x"
  by (simp_all add: except_foreign_def)

lemma exact_object_Inr [simp]:
  "exact_object v names path = Inr kvs \<longleftrightarrow> v = JObj kvs \<and> set (map fst kvs) = set names"
  by (cases v) (auto simp: exact_object_def)

lemma exact_object_ok:
  "set (map fst kvs) = set names \<Longrightarrow> exact_object (JObj kvs) names path = Inr kvs"
  by simp

lemma read_optional_json_opt:
  "(\<And>y. x = Some y \<Longrightarrow> f y \<noteq> JNull \<and> reader (f y) = Inr y) \<Longrightarrow> read_optional reader (json_opt f x) = Inr x"
  by (cases x) (simp_all add: read_optional_def json_opt_def)

lemma member_of_value: "inj_on value (set ms) \<Longrightarrow> m \<in> set ms \<Longrightarrow> member_of value ms (value m) = Inr m"
proof (induction ms)
  case (Cons k ms)
  show ?case
  proof (cases "value k = value m")
    case True
    then have "k = m" using Cons.prems by (auto dest: inj_onD)
    then show ?thesis by (simp add: member_of_def)
  next
    case False
    then have "member_of value (k # ms) (value m) = member_of value ms (value m)" by (simp add: member_of_def)
    with False Cons show ?thesis by auto
  qed
qed simp

lemma action_member [simp]: "member_of action_value action_types (action_value a) = Inr a"
  by (cases a) (simp_all add: member_of_def action_types_def)

lemma stage_member [simp]: "member_of stage_value [POLICY, EFFECT] (stage_value st) = Inr st"
  by (cases st) (simp_all add: member_of_def)

section \<open>Storable values\<close>

definition storable_instant :: "instant \<Rightarrow> bool" where
  "storable_instant t = (in_range t \<and> 1000 \<le> c_year (civil_of t) \<and> c_year (civil_of t) \<le> 9999)"

lemma read_timestamp_iso [simp]:
  "storable_instant t \<Longrightarrow> read_timestamp (JStr (iso_timestamp t)) path = Inr t"
  by (simp add: read_timestamp_def storable_instant_def parse_iso_timestamp)

definition storable_confidence :: "probability \<Rightarrow> bool" where
  "storable_confidence q =
     (mk_probability (ArgStr (prob_to_primitive q)) = Inr q
      \<and> is_plain (prob_to_primitive q) \<and> length (prob_to_primitive q) \<le> 64)"

lemma read_probability_primitive [simp]:
  "storable_confidence q \<Longrightarrow> read_probability (JStr (prob_to_primitive q)) path = Inr q"
  by (simp add: read_probability_def storable_confidence_def)

lemma read_money_primitive [simp]:
  "money_ok m \<Longrightarrow> in_signed_64 (minor_units m) \<Longrightarrow> read_money (money_to_primitive m) path = Inr m"
  by (simp add: read_money_def money_to_primitive_def MONEY_FIELDS_def money_ok_def insert_commute)

definition proposal_storable :: "action_proposal \<Rightarrow> bool" where
  "proposal_storable p =
     (mk_action_proposal p (utc (p_created_at p)) (utc (p_expires_at p)) = Inr p
      \<and> storable_instant (p_created_at p) \<and> storable_instant (p_expires_at p)
      \<and> in_signed_64 (p_decision_version p) \<and> in_signed_64 (p_attempt_ordinal p)
      \<and> (case p_amount p of None \<Rightarrow> True | Some m \<Rightarrow> money_ok m \<and> in_signed_64 (minor_units m))
      \<and> (case p_expected_value_minor p of None \<Rightarrow> True | Some e \<Rightarrow> in_signed_64 e)
      \<and> (case p_model_confidence p of None \<Rightarrow> True | Some q \<Rightarrow> storable_confidence q))"

lemma read_proposal_fields_ok:
  assumes "proposal_storable p" "JObj item = proposal_to_primitive p"
  shows "read_proposal_fields item (p_amount p) (action_value (p_action_type p)) = Inr p"
proof -
  have item: "item = (case proposal_to_primitive p of JObj kvs \<Rightarrow> kvs | _ \<Rightarrow> [])"
    using assms(2) [symmetric] by simp
  have mk: "mk_action_proposal p (utc (p_created_at p)) (utc (p_expires_at p)) = Inr p"
    and t: "storable_instant (p_created_at p)" "storable_instant (p_expires_at p)"
    and i: "in_signed_64 (p_decision_version p)" "in_signed_64 (p_attempt_ordinal p)"
    using assms(1) by (simp_all add: proposal_storable_def)
  have pos: "1 \<le> p_decision_version p" "1 \<le> p_attempt_ordinal p"
    using mk by (auto simp: mk_action_proposal_def not_less)
  have e: "optional_integer (json_opt JInt (p_expected_value_minor p)) path = Inr (p_expected_value_minor p)" for path
    unfolding optional_integer_def using assms(1)
    by (intro read_optional_json_opt) (simp add: proposal_storable_def)
  have q: "read_optional (\<lambda>v. read_probability v path) (json_opt (\<lambda>q. JStr (prob_to_primitive q)) (p_model_confidence p))
      = Inr (p_model_confidence p)" for path
    using assms(1) by (intro read_optional_json_opt) (simp add: proposal_storable_def)
  have s: "optional_text (json_opt JStr x) path = Inr x" for x path
    unfolding optional_text_def by (intro read_optional_json_opt) simp
  have mk': "mk_action_proposal (p\<lparr>p_created_at := 0, p_expires_at := 0\<rparr>) (utc (p_created_at p)) (utc (p_expires_at p)) = Inr p"
    using mk by (auto simp: mk_action_proposal_def check_collection_fields_def check_instrument_field_def split: if_splits)
  have rec: "\<lparr>p_proposal_id = p_proposal_id p, p_merchant_id = p_merchant_id p, p_case_id = p_case_id p,
      p_decision_version = p_decision_version p, p_action_type = p_action_type p, p_created_at = 0, p_expires_at = 0,
      p_attempt_ordinal = p_attempt_ordinal p, p_amount = p_amount p, p_payment_method = p_payment_method p,
      p_expected_value_minor = p_expected_value_minor p, p_model_confidence = p_model_confidence p,
      p_requires_approval = p_requires_approval p, p_instrument_reference = p_instrument_reference p\<rparr>
      = p\<lparr>p_created_at := 0, p_expires_at := 0\<rparr>"
    by simp
  show ?thesis
    unfolding item proposal_to_primitive_def read_proposal_fields_def
    using t i pos mk' by (simp add: e q s rec)
qed

lemma sorted_proposal [simp]: "sorted_json (proposal_to_primitive p)"
  by (simp add: proposal_to_primitive_def json_opt_def money_to_primitive_def split: option.split)

lemma read_proposal_primitive:
  assumes "proposal_storable p"
  shows "read_proposal (proposal_to_primitive p) = Inr p"
proof -
  obtain item where item: "proposal_to_primitive p = JObj item" by (simp add: proposal_to_primitive_def)
  have names: "set (map fst item) = set PROPOSAL_FIELDS"
    using item by (auto simp: proposal_to_primitive_def PROPOSAL_FIELDS_def)
  have get: "obj_get item ''amount'' = json_opt money_to_primitive (p_amount p)"
    "obj_get item ''action_type'' = JStr (action_value (p_action_type p))"
    using item by (auto simp: proposal_to_primitive_def)
  have amount: "read_optional (\<lambda>v. read_money v path) (json_opt money_to_primitive (p_amount p)) = Inr (p_amount p)" for path
    using assms by (intro read_optional_json_opt) (simp add: proposal_storable_def, simp add: money_to_primitive_def)
  show ?thesis
    using read_proposal_fields_ok [OF assms item [symmetric]] names
    unfolding read_proposal_def by (simp add: item get amount same_json_def exact_object_ok)
qed

definition plan_storable :: "gate_decision \<Rightarrow> bool" where
  "plan_storable d =
     (is_identifier (d_policy_version d) \<and> is_identifier (d_proposal_id d) \<and> is_identifier (d_case_id d)
      \<and> is_digest (d_proposal_digest d) \<and> 1 \<le> d_decision_version d \<and> in_signed_64 (d_decision_version d)
      \<and> 0 \<le> d_aggregate_version d \<and> in_signed_64 (d_aggregate_version d)
      \<and> storable_instant (d_evaluated_at d) \<and> distinct (d_reasons d))"

lemma gate_reasons_all: "r \<in> set gate_reasons"
  by (cases r) (simp_all add: gate_reasons_def)

lemma distinct_reason_values: "distinct (map reason_value gate_reasons)"
  unfolding gate_reasons_def by (simp add: reason_value.simps)

lemma read_reason_value [simp]: "read_reason (JStr (reason_value r)) = Inr r"
  using distinct_reason_values gate_reasons_all
  by (simp add: read_reason_def member_of_value distinct_map)

lemma read_reasons: "traverseE read_reason (map (\<lambda>r. JStr (reason_value r)) rs) = Inr rs"
  by (induction rs) simp_all

lemma read_prior_plan_primitive:
  assumes "plan_storable d"
  shows "read_prior_plan (decision_to_primitive d) = Inr d"
proof -
  obtain item where item: "decision_to_primitive d = JObj item" by (simp add: decision_to_primitive_def)
  then have def: "item = (case decision_to_primitive d of JObj kvs \<Rightarrow> kvs | _ \<Rightarrow> [])" by simp
  have names: "set (map fst item) = set PLAN_FIELDS"
    using item by (auto simp: decision_to_primitive_def PLAN_FIELDS_def)
  have get: "obj_get item ''reasons'' = JArr (map (\<lambda>r. JStr (reason_value r)) (d_reasons d))"
    "obj_get item ''allowed'' = JBool (allowed d)"
    using item by (auto simp: decision_to_primitive_def)
  have "read_plan_fields item (map (\<lambda>r. JStr (reason_value r)) (d_reasons d)) = Inr d"
    unfolding def decision_to_primitive_def read_plan_fields_def
    using assms by (simp add: plan_storable_def read_reasons)
  with names show ?thesis
    unfolding read_prior_plan_def by (simp add: item get same_json_def exact_object_ok)
qed

lemma sorted_decision [simp]: "sorted_json (decision_to_primitive d)"
  by (simp add: decision_to_primitive_def list_all_iff)

lemma json_ok_decision [simp]: "json_ok (decision_to_primitive d)"
  by (simp add: decision_to_primitive_def list_all_iff)

section \<open>Bounds of the primitives\<close>

lemma is_plain_append [simp]: "is_plain (s @ t) \<longleftrightarrow> is_plain s \<and> is_plain t"
  by (simp add: is_plain_def)

lemma is_plain_ident: "list_all ident_rest s \<Longrightarrow> is_plain s"
  unfolding is_plain_def list_all_iff
  by (auto simp: ident_rest_def ident_start_def is_upper_def is_lower_def is_digit_def)

lemma identifier_plain [simp]: "is_identifier s \<Longrightarrow> is_plain s"
  using is_plain_ident [of s]
  by (cases s) (auto simp: is_identifier_def ident_rest_def)

lemma identifier_length: "is_identifier s \<Longrightarrow> length s \<le> 128"
  by (cases s) (simp_all add: is_identifier_def)

lemma digest_plain [simp]: "is_digest s \<Longrightarrow> is_plain s"
  by (intro is_plain_ident list_all_digest_ident)

lemma digest_length: "is_digest s \<Longrightarrow> length s = 64"
  by (simp add: is_digest_def)

lemma is_plain_dec [simp]: "is_plain (dec i)" "is_plain (zfill w (dec i))"
proof -
  have "is_plain s" if "\<forall>c\<in>set s. is_digit c" for s
    using that digit_plain unfolding is_plain_def list_all_iff by blast
  then show "is_plain (dec i)" "is_plain (zfill w (dec i))"
    using nat_str_digits zfill_digits unfolding dec_def by blast+
qed

lemma timestamp_plain [simp]: "is_plain (iso_timestamp t)"
  unfolding iso_timestamp_def Let_def is_plain_append by (simp add: is_plain_def [of "''-''"] is_plain_def [of "''T''"]
    is_plain_def [of "'':''"] is_plain_def [of "''.''"] is_plain_def [of "''Z''"])

lemma timestamp_length: "storable_instant t \<Longrightarrow> length (iso_timestamp t) \<le> 27"
proof -
  assume "storable_instant t"
  then have ok: "civil_ok (civil_of t)"
    using civil_of_fields [of t] by (auto simp: storable_instant_def civil_ok_def)
  define c where "c = civil_of t"
  have "c_month c = 1 \<or> c_month c = 2 \<or> c_month c = 3 \<or> c_month c = 4 \<or> c_month c = 5 \<or> c_month c = 6
      \<or> c_month c = 7 \<or> c_month c = 8 \<or> c_month c = 9 \<or> c_month c = 10 \<or> c_month c = 11 \<or> c_month c = 12"
    using ok unfolding civil_ok_def c_def [symmetric] by presburger
  then have dim: "days_in_month (c_year c) (c_month c) < 100"
    by (elim disjE) (simp_all add: days_in_month_def month_lengths_def)
  have "length (dec (c_year c)) \<le> 4" "length (dec (c_month c)) \<le> 2" "length (dec (c_day c)) \<le> 2"
    "length (dec (c_hour c)) \<le> 2" "length (dec (c_minute c)) \<le> 2" "length (dec (c_second c)) \<le> 2"
    "length (dec (c_micro c)) \<le> 6"
    using ok dim unfolding civil_ok_def c_def [symmetric] by (auto intro!: length_dec)
  then show ?thesis unfolding iso_timestamp_def Let_def c_def [symmetric] by simp
qed

lemma int_str_length: "in_signed_64 i \<Longrightarrow> length (int_str i) \<le> 20"
proof -
  assume "in_signed_64 i"
  then have "nat \<bar>i\<bar> < 10 ^ 19"
    unfolding in_signed_64_def MAX_SIGNED_64_def by (simp add: abs_less_iff nat_less_iff)
  then have "length (nat_str (nat \<bar>i\<bar>)) \<le> 19" by (rule length_nat_str_le) simp
  then show ?thesis by (cases "i < 0") (simp_all add: int_str_def)
qed

text \<open>A name of lower-case words joined by single underscores is its own normal form.\<close>

fun word_name :: "bool \<Rightarrow> pystr \<Rightarrow> bool" where
  "word_name b [] = (\<not> b)"
| "word_name b (c # s) =
     (if c = CHR ''_'' then \<not> b \<and> word_name True s else (is_lower c \<or> is_digit c) \<and> word_name False s)"

lemma word_char: "is_lower c \<or> is_digit c \<Longrightarrow> lower_char c = c \<and> code c \<noteq> 223 \<and> c \<noteq> CHR ''_''"
  by (auto simp: lower_char_def is_upper_def is_lower_def is_digit_def)

lemma underscore_char: "lower_char (CHR ''_'') = CHR ''_''" "\<not> is_lower (CHR ''_'')" "\<not> is_digit (CHR ''_'')"
  by (simp_all add: lower_char_def is_upper_def is_lower_def is_digit_def)

lemma word_name_casefold: "word_name b s \<Longrightarrow> casefold s = s"
proof (induction b s rule: word_name.induct)
  case (2 b c s)
  then show ?case
    using word_char [of c] by (cases "c = CHR ''_''") (auto simp: casefold_def lower_def underscore_char)
qed (simp add: casefold_def lower_def)

lemma word_name_squeeze: "word_name b s \<Longrightarrow> squeeze b s = s"
  by (induction b s rule: word_name.induct) (auto simp: underscore_char split: if_splits)

lemma word_name_ends: "word_name b s \<Longrightarrow> s \<noteq> [] \<Longrightarrow> last s \<noteq> CHR ''_''"
proof (induction b s rule: word_name.induct)
  case (2 b c s)
  then show ?case by (cases s) (auto split: if_splits)
qed simp

lemma word_name_normalized:
  assumes "word_name True s"
  shows "normalized_key s = s"
proof -
  obtain c t where s: "s = c # t" using assms by (cases s) simp_all
  have "squeeze False s = s" using word_name_squeeze [of True s] assms s by (auto split: if_splits)
  moreover have "dropWhile (\<lambda>c. c = CHR ''_'') s = s" using assms s by auto
  moreover have "rstrip_char (CHR ''_'') s = s"
  proof -
    have "s \<noteq> []" and "hd (rev s) \<noteq> CHR ''_''"
      using word_name_ends [OF assms] s by (simp_all only: hd_rev) auto
    then have "dropWhile (\<lambda>d. d = CHR ''_'') (rev s) = rev s" by (subst dropWhile_eq_self_iff) simp
    then show ?thesis by (simp add: rstrip_char_def)
  qed
  ultimately show ?thesis using assms by (simp add: normalized_key_def word_name_casefold)
qed

lemma sensitive_word_name:
  "word_name True s \<Longrightarrow> sensitive_key s =
     (s \<in> set SENSITIVE_COMPOUND_KEYS \<or> list_ex (\<lambda>w. w \<in> set SENSITIVE_KEY_WORDS) (split_words s))"
  by (simp add: sensitive_key_def word_name_normalized)

lemma word_name_plain: "word_name b s \<Longrightarrow> is_plain s"
proof (induction b s rule: word_name.induct)
  case (2 b c s)
  have "32 \<le> code c \<and> code c < 128 \<and> c \<noteq> CHR 0x22 \<and> c \<noteq> CHR 0x5C" if "is_lower c \<or> is_digit c"
    using that by (auto simp: is_lower_def is_digit_def)
  with 2 show ?case by (cases "c = CHR ''_''") (auto simp: is_plain_def)
qed (simp add: is_plain_def)

text \<open>The names of the stored form, none of which is taken for a sensitive one.\<close>

definition public_names :: "pystr list" where
  "public_names = [
    ''currency'', ''minor_units'', ''action_key'', ''action_type'', ''amount'', ''attempt_ordinal'',
    ''case_id'', ''created_at'', ''decision_version'', ''expected_value_minor'', ''expires_at'',
    ''instrument_reference'', ''merchant_id'', ''model_confidence'', ''payment_method'', ''proposal_id'',
    ''requires_approval'', ''aggregate_version'', ''allowed'', ''evaluated_at'', ''policy_version'',
    ''proposal_digest'', ''reasons'', ''stage'', ''merchant_order_id'', ''recovery_case_id'',
    ''amount_minor'', ''description'', ''expire_by_epoch'', ''notes'', ''reference_id'', ''bindings'',
    ''command'', ''command_type'', ''integrity'', ''schema'', ''version'', ''prior_plan'', ''proposal'',
    ''provider_account_id'', ''request'', ''algorithm'', ''digest'', ''executor_payload_sha256'',
    ''prior_plan_sha256'', ''proposal_sha256'', ''provider_request_sha256'', ''target'', ''action_id'',
    ''instrument_id'', ''payment_link_id'', ''target_sha256'']"

lemma public_names_words: "list_all (word_name True) public_names"
  unfolding public_names_def by (simp add: is_lower_def is_digit_def)

lemma public_names_ok: "list_all (\<lambda>k. \<not> sensitive_key k \<and> is_plain k) public_names"
proof -
  have "list_all (\<lambda>k. \<not> (k \<in> set SENSITIVE_COMPOUND_KEYS
      \<or> list_ex (\<lambda>w. w \<in> set SENSITIVE_KEY_WORDS) (split_words k))) public_names"
    unfolding public_names_def by (simp add: SENSITIVE_KEY_WORDS_def SENSITIVE_COMPOUND_KEYS_def)
  with public_names_words sensitive_word_name word_name_plain show ?thesis
    unfolding list_all_iff by blast
qed

lemmas public_names_simps [simp] = public_names_ok [unfolded public_names_def list.pred_inject]

end
