(* ===== verification/Codec_Bounds.thy ===== *)
theory Codec_Bounds
  imports Codec_Parts
begin

text \<open>Storable proposals and plans: their primitives are admitted by the walk and their text is bounded.\<close>

lemma payment_method_plain: "is_payment_method s \<Longrightarrow> is_plain s \<and> length s \<le> 32"
proof (cases s)
  case (Cons c t)
  assume "is_payment_method s"
  then have "is_lower c" "list_all (\<lambda>d. is_lower d \<or> is_digit d \<or> d = CHR ''_'' \<or> d = CHR ''-'') t" "length t \<le> 31"
    by (simp_all add: is_payment_method_def Cons)
  then have "list_all ident_rest s"
    by (auto simp: Cons list_all_iff ident_rest_def ident_start_def)
  then show ?thesis using is_plain_ident \<open>length t \<le> 31\<close> by (simp add: Cons)
qed (simp add: is_payment_method_def)

lemma proposal_fields:
  assumes "proposal_storable p"
  shows "is_identifier (p_proposal_id p)" "is_identifier (p_merchant_id p)" "is_identifier (p_case_id p)"
    "\<And>s. p_payment_method p = Some s \<Longrightarrow> is_plain s \<and> length s \<le> 32"
    "\<And>s. p_instrument_reference p = Some s \<Longrightarrow> is_identifier s"
    "1 \<le> p_decision_version p"
proof -
  have mk: "mk_action_proposal p (utc (p_created_at p)) (utc (p_expires_at p)) = Inr p"
    using assms by (simp add: proposal_storable_def)
  then show "is_identifier (p_proposal_id p)" "is_identifier (p_merchant_id p)" "is_identifier (p_case_id p)"
    "1 \<le> p_decision_version p"
    by (auto simp: mk_action_proposal_def not_less)
  show "is_plain s \<and> length s \<le> 32" if "p_payment_method p = Some s" for s
    using mk that payment_method_plain by (auto simp: mk_action_proposal_def)
  show "is_identifier s" if "p_instrument_reference p = Some s" for s
    using mk that by (auto simp: mk_action_proposal_def)
qed

lemma action_value_plain: "is_plain (action_value a) \<and> length (action_value a) \<le> 32"
  by (cases a) (simp_all add: is_plain_def)

lemma reason_value_stage: "is_plain (stage_value st) \<and> length (stage_value st) \<le> 8"
  by (cases st) (simp_all add: is_plain_def)

lemma currency_plain: "is_currency s \<Longrightarrow> is_plain s \<and> length s = 3"
  unfolding is_currency_def is_plain_def list_all_iff by (auto simp: is_upper_def)

lemma action_key_plain [simp]: "is_plain (action_key p)"
  using is_identifier_action_key by (rule identifier_plain)

definition small :: "nat \<Rightarrow> json \<Rightarrow> bool" where
  "small n v = (plain_json v \<and> text_size v \<le> n)"

lemma small_opt: "4 \<le> n \<Longrightarrow> (\<And>y. x = Some y \<Longrightarrow> small n (f y)) \<Longrightarrow> small n (json_opt f x)"
  by (cases x) (simp_all add: small_def json_opt_def)

lemma stored_opt: "d \<le> MAX_DEPTH \<Longrightarrow> (\<And>y. x = Some y \<Longrightarrow> stored d (f y)) \<Longrightarrow> stored d (json_opt f x)"
  by (cases x) (simp_all add: json_opt_def)

lemma small_str: "is_plain s \<Longrightarrow> length s + 2 \<le> n \<Longrightarrow> small n (JStr s)"
  by (simp add: small_def)

lemma small_int: "in_signed_64 i \<Longrightarrow> 20 \<le> n \<Longrightarrow> small n (JInt i)"
  using int_str_length [of i] by (simp add: small_def)

lemma small_proposal:
  assumes "proposal_storable p"
  shows "small 1500 (proposal_to_primitive p)"
proof -
  note f = proposal_fields [OF assms]
  have amount: "small 100 (json_opt money_to_primitive (p_amount p))"
  proof (rule small_opt)
    fix m assume "p_amount p = Some m"
    then have "money_ok m" "in_signed_64 (minor_units m)" using assms by (simp_all add: proposal_storable_def)
    then show "small 100 (money_to_primitive m)"
      using currency_plain [of "currency m"] int_str_length [of "minor_units m"]
      by (simp add: small_def money_to_primitive_def money_ok_def)
  qed simp_all
  have expected: "small 20 (json_opt JInt (p_expected_value_minor p))"
    using assms by (intro small_opt small_int) (simp_all add: proposal_storable_def)
  have confidence: "small 66 (json_opt (\<lambda>q. JStr (prob_to_primitive q)) (p_model_confidence p))"
    using assms by (intro small_opt small_str) (simp_all add: proposal_storable_def storable_confidence_def)
  have pay: "small 34 (json_opt JStr (p_payment_method p))"
    using f(4) by (intro small_opt small_str) simp_all
  have instrument: "small 130 (json_opt JStr (p_instrument_reference p))"
    using f(5) identifier_length by (intro small_opt small_str) simp_all
  have ids: "length (p_proposal_id p) \<le> 128" "length (p_merchant_id p) \<le> 128" "length (p_case_id p) \<le> 128"
    using f identifier_length by blast+
  have times: "length (iso_timestamp (p_created_at p)) \<le> 27" "length (iso_timestamp (p_expires_at p)) \<le> 27"
    "length (int_str (p_decision_version p)) \<le> 20" "length (int_str (p_attempt_ordinal p)) \<le> 20"
    using assms timestamp_length int_str_length by (simp_all add: proposal_storable_def)
  show ?thesis
    using amount expected confidence pay instrument ids times f(1-3) action_value_plain [of "p_action_type p"]
    by (simp add: small_def proposal_to_primitive_def length_action_key)
qed

lemma stored_proposal:
  assumes "proposal_storable p" "d + 2 \<le> MAX_DEPTH"
  shows "stored d (proposal_to_primitive p)"
proof -
  have "stored (Suc d) (json_opt money_to_primitive (p_amount p))"
    "stored (Suc d) (json_opt JInt (p_expected_value_minor p))"
    "stored (Suc d) (json_opt JStr x)"
    "stored (Suc d) (json_opt (\<lambda>q. JStr (prob_to_primitive q)) (p_model_confidence p))" for x
    using assms by (auto intro!: stored_opt simp: proposal_storable_def money_to_primitive_def)
  with assms show ?thesis by (simp add: proposal_to_primitive_def proposal_storable_def)
qed

lemma small_plan:
  assumes "plan_storable d" "allowed d" "is_plain (d_action_key d)"
    "length (d_action_key d) = 68"
  shows "small 1500 (decision_to_primitive d)"
proof -
  have "length (d_policy_version d) \<le> 128" "length (d_proposal_id d) \<le> 128" "length (d_case_id d) \<le> 128"
    "length (d_proposal_digest d) = 64" "length (iso_timestamp (d_evaluated_at d)) \<le> 27"
    "length (int_str (d_decision_version d)) \<le> 20" "length (int_str (d_aggregate_version d)) \<le> 20"
    using assms(1) identifier_length digest_length timestamp_length int_str_length by (simp_all add: plan_storable_def)
  with assms reason_value_stage [of "d_stage d"] show ?thesis
    by (simp add: small_def decision_to_primitive_def plan_storable_def allowed_def)
qed

lemma stored_plan:
  assumes "plan_storable d" "k + 2 \<le> MAX_DEPTH"
  shows "stored k (decision_to_primitive d)"
  using assms by (simp add: decision_to_primitive_def plan_storable_def list_all_iff)

section \<open>The seal\<close>

text \<open>The sealed envelope with its names in order.\<close>

definition sealed :: "(pystr \<times> json) list \<Rightarrow> pystr \<Rightarrow> (pystr \<times> json) list" where
  "sealed body digest =
     take 3 body @ [(''integrity'', JObj [(''algorithm'', JStr ''sha256''), (''digest'', JStr digest)])] @ drop 3 body"

definition body_ok :: "(pystr \<times> json) list \<Rightarrow> bool" where
  "body_ok body =
     (map fst body = [''bindings'', ''command'', ''command_type'', ''schema'', ''version'']
      \<and> json_ok (JObj body) \<and> sorted_json (JObj body) \<and> stored 0 (JObj body) \<and> small 12000 (JObj body))"

lemma integrity_json:
  assumes "is_digest dg"
  shows "small 200 (JObj [(''algorithm'', JStr ''sha256''), (''digest'', JStr dg)])"
    "stored 1 (JObj [(''algorithm'', JStr ''sha256''), (''digest'', JStr dg)])"
  using assms digest_length [OF assms] by (simp_all add: small_def is_plain_def [of "''sha256''"] MAX_DEPTH_def)

lemma seal_ok:
  assumes "body_ok body"
  obtains dg b where "is_digest dg" "integrity_digest body = Inr dg"
    "seal body = Inr (JObj (body @ [(''integrity'', JObj [(''algorithm'', JStr ''sha256''), (''digest'', JStr dg)])]))"
    "canon (JObj (body @ [(''integrity'', JObj [(''algorithm'', JStr ''sha256''), (''digest'', JStr dg)])])) = JObj (sealed body dg)"
    "unsigned_part (sealed body dg) = body" "document (sealed body dg)"
    "bounded_canonical_bytes (JObj (sealed body dg)) = Inr b"
    "bounded_canonical_bytes (JObj (body @ [(''integrity'', JObj [(''algorithm'', JStr ''sha256''), (''digest'', JStr dg)])])) = Inr b"
    "json_ok (JObj (body @ [(''integrity'', JObj [(''algorithm'', JStr ''sha256''), (''digest'', JStr dg)])]))"
proof -
  from assms have names: "map fst body = [''bindings'', ''command'', ''command_type'', ''schema'', ''version'']"
    by (simp add: body_ok_def)
  then obtain v1 v2 v3 v4 v5 where body: "body = [(''bindings'', v1), (''command'', v2), (''command_type'', v3), (''schema'', v4), (''version'', v5)]"
    by (auto simp: map_eq_Cons_conv)
  define dg where "dg = sha256_hex (utf8 (dumps (JObj body)))"
  let ?seal = "JObj [(''algorithm'', JStr ''sha256''), (''digest'', JStr dg)]"
  let ?env = "JObj (body @ [(''integrity'', ?seal)])"
  have dg: "is_digest dg" by (simp add: dg_def)
  note i = integrity_json [OF dg]
  have bytes: "bounded_canonical_bytes (JObj body) = Inr (utf8 (dumps (JObj body)))"
    using assms by (intro bounded_bytes_plain) (simp_all add: body_ok_def small_def MAX_EFFECT_COMMAND_BYTES_def)
  have integrity: "integrity_digest body = Inr dg" by (simp add: integrity_digest_def bytes dg_def del: dumps.simps)
  have ok: "json_ok ?env" using assms by (simp add: body_ok_def body)
  have st: "stored 0 ?env" using assms i(2) by (simp add: body_ok_def)
  have sm: "plain_json ?env \<and> text_size ?env \<le> MAX_EFFECT_COMMAND_BYTES"
    using assms i(1) by (simp add: body_ok_def small_def MAX_EFFECT_COMMAND_BYTES_def)
  have envbytes: "bounded_canonical_bytes ?env = Inr (utf8 (dumps ?env))"
    using ok st sm by (intro bounded_bytes_plain) simp_all
  have sub: "canon v1 = v1" "canon v2 = v2" "canon v3 = v3" "canon v4 = v4" "canon v5 = v5"
    using assms by (auto simp: body_ok_def body intro!: canon_sorted)
  have canon: "canon ?env = JObj (sealed body dg)"
    by (simp add: body sealed_def sub)
  have unsigned: "unsigned_part (sealed body dg) = body"
    by (simp add: body sealed_def unsigned_part_def)
  have doc: "document (sealed body dg)" using documentI [OF ok st canon] .
  have perm: "plain_json (JObj (sealed body dg)) \<and> text_size (JObj (sealed body dg)) \<le> MAX_EFFECT_COMMAND_BYTES"
    using sm by (simp add: body sealed_def)
  have "bounded_canonical_bytes (JObj (sealed body dg)) = Inr (utf8 (dumps (JObj (sealed body dg))))"
    using doc perm by (intro bounded_bytes_plain) (simp_all only: document_def)
  moreover have "dumps (JObj (sealed body dg)) = dumps ?env" using dumps_canon [of ?env] canon by simp
  moreover have "seal body = Inr ?env" by (simp add: seal_def integrity envbytes Let_def)
  ultimately show thesis
    using that [of dg "utf8 (dumps ?env)"] dg integrity canon unsigned doc envbytes ok by simp
qed

end
