(* ===== verification/Create_Codec_Spec.thy ===== *)
theory Create_Codec_Spec
  imports Codec_Bounds
begin

text \<open>
  The codec of create commands: what a decoded command satisfies, that its text is the text it was read
  from, and that every storable command is encoded and read back. The contract of a codec is the locale
  \<open>sealed_codec\<close>, which the cancellation codec meets as well.
\<close>

section \<open>The contract of a codec\<close>

locale sealed_codec =
  fixes decode :: "command_payload \<Rightarrow> exn + 'c"
    and encode_text :: "'c \<Rightarrow> exn + bytes"
    and storable :: "'c \<Rightarrow> bool"
  assumes reseals: "decode p = Inr c \<Longrightarrow> encode_text c = payload_text p"
    and restores: "storable c \<Longrightarrow> \<exists>raw. encode_text c = Inr raw \<and> decode (PayBytes raw) = Inr c"
begin

text \<open>A stored command has one text: payloads read to the same command have the same canonical text.\<close>

lemma one_text: "decode p = Inr c \<Longrightarrow> decode q = Inr c \<Longrightarrow> payload_text p = payload_text q"
  using reseals by metis

lemma same_bytes: "decode (PayBytes a) = Inr c \<Longrightarrow> decode (PayBytes b) = Inr c \<Longrightarrow> a = b"
  using one_text [of "PayBytes a" c "PayBytes b"] by (simp add: payload_text_def)

text \<open>Different storable commands have different texts.\<close>

lemma encode_inj: "storable c \<Longrightarrow> storable c' \<Longrightarrow> encode_text c = encode_text c' \<Longrightarrow> c = c'"
  using restores by (metis Inr_inject)

end

section \<open>Bound commands\<close>

definition command_bound :: "create_command \<Rightarrow> bool" where
  "command_bound c =
     (is_identifier (cc_provider_account_id c) \<and> p_action_type (cc_proposal c) = CREATE_STANDARD_PAYMENT_LINK
      \<and> d_stage (cc_prior_plan c) = POLICY \<and> allowed (cc_prior_plan c)
      \<and> \<not> plan_unbound (cc_prior_plan c) (cc_proposal c)
      \<and> p_amount (cc_proposal c) = Some \<lparr>minor_units = lr_amount_minor (cc_request c), currency = lr_currency (cc_request c)\<rparr>
      \<and> make_recovery_reference_id (p_case_id (cc_proposal c)) (cc_provider_account_id c) = Inr (lr_reference_id (cc_request c))
      \<and> map_of (lr_notes (cc_request c)) ''recovery_case_id'' = Some (p_case_id (cc_proposal c)))"

lemma amount_binding_Inr:
  "validate_amount_binding p r = Inr () \<longleftrightarrow> p_amount p = Some \<lparr>minor_units = lr_amount_minor r, currency = lr_currency r\<rparr>"
  by (cases "p_amount p") (auto simp: validate_amount_binding_def)

lemma command_binding_Inr: "validate_command_binding c = Inr () \<longleftrightarrow> command_bound c"
  by (auto simp: validate_command_binding_def command_bound_def Let_def amount_binding_Inr)

definition description_template :: "link_request \<Rightarrow> bool" where
  "description_template r =
     (lr_description r = DESCRIPTION_PREFIX @ note_of (lr_notes r) ''merchant_order_id''
      \<and> CHR 0x40 \<notin> set (lr_description r) \<and> \<not> pii_number 0 (lr_description r))"

lemma description_Inr:
  "validate_description_binding d m = Inr () \<longleftrightarrow>
     d = DESCRIPTION_PREFIX @ m \<and> CHR 0x40 \<notin> set d \<and> \<not> pii_number 0 d"
  by (auto simp: validate_description_binding_def reject_sensitive_description_def)

definition notes_ok :: "(pystr \<times> pystr) list \<Rightarrow> bool" where
  "notes_ok notes = (set (map fst notes) = set REQUIRED_NOTE_KEYS \<and> list_all (\<lambda>(_, v). is_identifier v) notes)"

lemma read_note_JStr: "read_note (k, JStr v) = Inr kv \<longleftrightarrow> is_identifier v \<and> kv = (k, v)"
  by (auto simp: read_note_def)

lemma read_notes_items: "traverseE read_note (map (\<lambda>(k, v). (k, JStr v)) ns) = Inr out \<longleftrightarrow>
    out = ns \<and> list_all (\<lambda>(_, v). is_identifier v) ns"
proof (induction ns arbitrary: out)
  case (Cons kv ns)
  obtain k v where kv: "kv = (k, v)" by (cases kv)
  show ?case unfolding kv list.map prod.case traverseE.simps bindE_eq_Inr read_note_JStr Cons.IH by auto
qed auto

lemma read_notes_Inr: "read_notes (notes_json ns) = Inr out \<longleftrightarrow> out = ns \<and> notes_ok ns"
proof -
  have names: "map fst (map (\<lambda>(k, v). (k, JStr v)) ns) = map fst ns" by (induction ns) auto
  show ?thesis
    unfolding read_notes_def notes_json_def notes_ok_def json.case names
    by (auto simp only: bindE_eq_Inr read_notes_items split: if_splits)
qed

lemma request_primitive_Inr:
  "request_primitive r = Inr j \<longleftrightarrow>
     lr_customer r = None \<and> notes_ok (lr_notes r) \<and> description_template r
     \<and> j = JObj
       [(''amount_minor'', JInt (lr_amount_minor r)), (''currency'', JStr (lr_currency r)),
        (''description'', JStr (lr_description r)), (''expire_by_epoch'', JInt (lr_expire_by_epoch r)),
        (''notes'', notes_json (lr_notes r)), (''reference_id'', JStr (lr_reference_id r))]"
  by (auto simp: request_primitive_def read_notes_Inr description_Inr description_template_def
      reject_sensitive_description_def)

lemma request_digest_ok: "\<exists>rd. command_request_digest c = Inr rd \<and> is_digest rd"
  by (simp add: command_request_digest_def payment_link_request_digest_def link_json_bytes_def link_payload_def)

lemma create_bindings_Inr:
  "\<exists>pd rd. is_digest pd \<and> is_digest rd \<and> command_payload_digest c = Inr pd \<and> command_request_digest c = Inr rd
     \<and> create_bindings c = Inr
         [(''action_key'', JStr (action_key (cc_proposal c))), (''executor_payload_sha256'', JStr pd),
          (''prior_plan_sha256'', JStr (decision_digest (cc_prior_plan c))),
          (''proposal_sha256'', JStr (proposal_digest (cc_proposal c))), (''provider_request_sha256'', JStr rd)]"
proof -
  obtain rd where rd: "command_request_digest c = Inr rd" "is_digest rd" using request_digest_ok by blast
  then obtain pd where "command_payload_digest c = Inr pd" "is_digest pd"
    by (simp add: command_payload_digest_def)
  with rd show ?thesis by (simp add: create_bindings_def)
qed

section \<open>What decoding establishes\<close>

lemma read_command_bound: "read_command v = Inr c \<Longrightarrow> command_bound c"
  by (auto simp: read_command_def command_binding_Inr simp del: exact_object_Inr)

lemma decode_steps:
  assumes "decode_create_command p t v = Inr c"
  obtains kvs rebuilt where "coerce_payload p = Inr kvs" "encode_create_command c = Inr rebuilt"
    "check_unique_envelope kvs rebuilt = Inr ()" "t = CREATE_COMMAND_TYPE" "v = CREATE_COMMAND_SCHEMA_VERSION"
    "read_command (obj_get kvs ''command'') = Inr c"
  using assms unfolding decode_create_command_def bindE_eq_Inr exact_object_Inr check_metadata_def raise_if_eq_Inr
  by auto

lemma encode_create_Inr:
  "encode_create_command c = Inr e \<longleftrightarrow> (\<exists>body. create_unsigned c = Inr body \<and> command_bound c \<and> seal body = Inr e)"
  by (simp add: encode_create_command_def command_binding_Inr)

lemma bounded_bytes_text: "json_ok v \<Longrightarrow> bounded_canonical_bytes v = Inr b \<Longrightarrow> b = utf8 (dumps v)"
  by (simp add: bounded_bytes_ok)

text \<open>Reading a payload and writing the command again gives the payload's own canonical text.\<close>

lemma create_reseals:
  assumes "decode_create_command p t v = Inr c"
  shows "encode_create_command_json c = payload_text p"
proof -
  obtain kvs rebuilt where s: "coerce_payload p = Inr kvs" "encode_create_command c = Inr rebuilt"
    "check_unique_envelope kvs rebuilt = Inr ()"
    by (rule decode_steps [OF assms])
  then obtain b where b: "bounded_canonical_bytes (JObj kvs) = Inr b" "bounded_canonical_bytes rebuilt = Inr b"
    by (auto simp: check_unique_envelope_def)
  have "document kvs" and printed: "payload_text p = Inr (utf8 (dumps (JObj kvs)))"
    using coerce_payload_Inr [OF s(1)] by blast+
  then have "json_ok (JObj kvs)" by (simp only: document_def)
  then have "b = utf8 (dumps (JObj kvs))"
    using b(1) bounded_bytes_text by blast
  with b(2) s(2) printed show ?thesis unfolding encode_create_command_json_def by (simp only: bindE_simps)
qed

section \<open>Storable commands\<close>

definition request_storable :: "link_request \<Rightarrow> pystr \<Rightarrow> bool" where
  "request_storable r case_id =
     (link_request_ok r \<and> lr_customer r = None \<and> in_signed_64 (lr_amount_minor r) \<and> in_signed_64 (lr_expire_by_epoch r)
      \<and> map fst (lr_notes r) = REQUIRED_NOTE_KEYS \<and> map_of (lr_notes r) ''recovery_case_id'' = Some case_id
      \<and> is_identifier (note_of (lr_notes r) ''merchant_order_id'') \<and> description_template r)"

definition create_storable :: "create_command \<Rightarrow> bool" where
  "create_storable c =
     (proposal_storable (cc_proposal c) \<and> plan_storable (cc_prior_plan c)
      \<and> request_storable (cc_request c) (p_case_id (cc_proposal c)) \<and> command_bound c)"

definition request_json :: "link_request \<Rightarrow> json" where
  "request_json r = JObj
     [(''amount_minor'', JInt (lr_amount_minor r)), (''currency'', JStr (lr_currency r)),
      (''description'', JStr (lr_description r)), (''expire_by_epoch'', JInt (lr_expire_by_epoch r)),
      (''notes'', notes_json (lr_notes r)), (''reference_id'', JStr (lr_reference_id r))]"

lemma storable_notes:
  assumes "request_storable r case_id"
  obtains m where "lr_notes r = [(''merchant_order_id'', m), (''recovery_case_id'', case_id)]" "is_identifier m"
    "lr_description r = DESCRIPTION_PREFIX @ m" "note_of (lr_notes r) ''merchant_order_id'' = m"
proof -
  have "map fst (lr_notes r) = [''merchant_order_id'', ''recovery_case_id'']"
    using assms by (simp only: request_storable_def REQUIRED_NOTE_KEYS_def)
  then obtain m k where eq: "lr_notes r = [(''merchant_order_id'', m), (''recovery_case_id'', k)]"
    by (auto simp: map_eq_Cons_conv)
  then have "k = case_id" "note_of (lr_notes r) ''merchant_order_id'' = m"
    using assms by (simp_all add: request_storable_def note_of_def)
  with eq assms show thesis
    by (intro that [of m]) (simp_all add: request_storable_def description_template_def)
qed

lemma notes_ok_storable: "request_storable r case_id \<Longrightarrow> is_identifier case_id \<Longrightarrow> notes_ok (lr_notes r)"
  by (erule storable_notes) (simp add: notes_ok_def REQUIRED_NOTE_KEYS_def)

lemma read_request_json:
  assumes "request_storable r case_id" "is_identifier case_id"
  shows "read_request (request_json r) = Inr r"
proof -
  let ?m = "note_of (lr_notes r) ''merchant_order_id''"
  have r: "link_request_ok r" "lr_customer r = None" "description_template r"
    "in_signed_64 (lr_amount_minor r)" "in_signed_64 (lr_expire_by_epoch r)"
    using assms(1) by (simp_all add: request_storable_def)
  have ok: "notes_ok (lr_notes r)" using assms by (rule notes_ok_storable)
  have read: "read_notes (notes_json (lr_notes r)) = Inr (lr_notes r)"
    using ok by (simp add: read_notes_Inr)
  have d: "reject_sensitive_description (lr_description r) = Inr ()"
    "validate_description_binding (lr_description r) ?m = Inr ()"
    using r(3) unfolding description_template_def description_Inr reject_sensitive_description_def raise_if_eq_Inr
    by blast+
  have "distinct (map fst (lr_notes r))" by (rule storable_notes [OF assms(1)]) simp
  then have mk: "mk_link_request r = Inr r"
    using r(1) by (simp add: mk_link_request_def link_request_ok_def link_clean_text_JStr strict_positive_int_Inr
        copy_notes_dict not_le not_less)
  have rec: "\<lparr>lr_amount_minor = lr_amount_minor r, lr_currency = lr_currency r, lr_reference_id = lr_reference_id r,
      lr_description = lr_description r, lr_expire_by_epoch = lr_expire_by_epoch r, lr_notes = lr_notes r,
      lr_customer = None\<rparr> = r"
    using r(2) by (cases r) simp
  have pos: "1 \<le> lr_amount_minor r" "1 \<le> lr_expire_by_epoch r"
    using r(1) by (simp_all add: link_request_ok_def)
  show ?thesis
    unfolding read_request_def request_json_def using r(4,5) pos
    by (simp add: exact_object_ok REQUEST_FIELDS_def read d rec mk insert_commute)
qed

definition create_body :: "create_command \<Rightarrow> pystr \<Rightarrow> pystr \<Rightarrow> (pystr \<times> json) list" where
  "create_body c pd rd =
     [(''bindings'', JObj
         [(''action_key'', JStr (action_key (cc_proposal c))), (''executor_payload_sha256'', JStr pd),
          (''prior_plan_sha256'', JStr (decision_digest (cc_prior_plan c))),
          (''proposal_sha256'', JStr (proposal_digest (cc_proposal c))), (''provider_request_sha256'', JStr rd)]),
      (''command'', JObj
         [(''prior_plan'', decision_to_primitive (cc_prior_plan c)),
          (''proposal'', proposal_to_primitive (cc_proposal c)),
          (''provider_account_id'', JStr (cc_provider_account_id c)),
          (''request'', request_json (cc_request c))]),
      (''command_type'', JStr CREATE_COMMAND_TYPE), (''schema'', JStr CREATE_COMMAND_SCHEMA),
      (''version'', JInt CREATE_COMMAND_SCHEMA_VERSION)]"

lemma create_unsigned_body:
  assumes "request_storable (cc_request c) case_id" "is_identifier case_id"
  obtains pd rd where "is_digest pd" "is_digest rd" "command_payload_digest c = Inr pd"
    "command_request_digest c = Inr rd" "create_unsigned c = Inr (create_body c pd rd)"
proof -
  obtain pd rd where b: "is_digest pd" "is_digest rd" "command_payload_digest c = Inr pd"
    "command_request_digest c = Inr rd"
    using create_bindings_Inr [of c] by blast
  have ok: "notes_ok (lr_notes (cc_request c))"
    using assms by (rule notes_ok_storable)
  have "request_primitive (cc_request c) = Inr (request_json (cc_request c))"
    using assms ok by (simp add: request_primitive_Inr request_storable_def request_json_def)
  with b show thesis by (intro that [of pd rd]) (simp_all add: create_unsigned_def create_bindings_def create_body_def)
qed

lemma slug_plain: "list_all is_slug_char s \<Longrightarrow> is_plain s"
  by (intro is_plain_ident) (auto simp: list_all_iff is_slug_char_def ident_rest_def ident_start_def)

lemma digest_decision [simp]: "is_digest (decision_digest d)"
  by (simp add: decision_digest_def)

lemma reference_plain: "make_recovery_reference_id c a = Inr ref \<Longrightarrow> is_plain ref \<and> length ref \<le> 39"
proof -
  assume "make_recovery_reference_id c a = Inr ref"
  then have ref: "ref = reference_text c a" by (simp add: make_reference_Inr)
  have "is_plain (reference_slug c)" "is_plain (reference_digest (reference_material a c))"
    using slug_plain reference_slug_shape(3) reference_digest_shape(2) by blast+
  moreover have "is_plain ''rtw_''" "is_plain ''_''" by (simp_all add: is_plain_def)
  ultimately have "is_plain ref" unfolding ref reference_text_def is_plain_append by blast
  with reference_text_clean [of c a] ref show ?thesis by blast
qed

lemma link_currency_plain: "link_currency s \<Longrightarrow> is_plain s \<and> length s = 3"
  using currency_plain [of s] by (simp add: link_currency_def is_currency_def)

lemma prefix_plain: "is_plain DESCRIPTION_PREFIX" "length DESCRIPTION_PREFIX = 24"
  by (simp_all add: DESCRIPTION_PREFIX_def is_plain_def)

lemma request_json_ok:
  assumes "request_storable r case_id" "is_identifier case_id" "is_plain (lr_reference_id r)" "length (lr_reference_id r) \<le> 39"
  shows "json_ok (request_json r)" "sorted_json (request_json r)" "stored 2 (request_json r)" "small 1500 (request_json r)"
proof -
  obtain m where ns: "lr_notes r = [(''merchant_order_id'', m), (''recovery_case_id'', case_id)]" and m: "is_identifier m"
    and d: "lr_description r = DESCRIPTION_PREFIX @ m"
    by (rule storable_notes [OF assms(1)])
  have cur: "is_plain (lr_currency r)" "length (lr_currency r) = 3"
    and i: "in_signed_64 (lr_amount_minor r)" "in_signed_64 (lr_expire_by_epoch r)"
    using assms(1) link_currency_plain by (simp_all add: request_storable_def link_request_ok_def)
  show "json_ok (request_json r)" "sorted_json (request_json r)"
    by (simp_all add: request_json_def notes_json_def ns)
  show "stored 2 (request_json r)"
    using i by (simp add: request_json_def notes_json_def ns MAX_DEPTH_def)
  show "small 1500 (request_json r)"
    using identifier_length [OF m] identifier_length [OF assms(2)] int_str_length [OF i(1)] int_str_length [OF i(2)]
      cur m assms(2-4) prefix_plain
    by (simp add: small_def request_json_def notes_json_def ns d)
qed

lemma create_body_ok:
  assumes "create_storable c" "is_digest pd" "is_digest rd"
  shows "body_ok (create_body c pd rd)"
proof -
  have p: "proposal_storable (cc_proposal c)" and d: "plan_storable (cc_prior_plan c)"
    and r: "request_storable (cc_request c) (p_case_id (cc_proposal c))" and b: "command_bound c"
    using assms(1) by (simp_all add: create_storable_def)
  have plan: "small 1500 (decision_to_primitive (cc_prior_plan c))"
    using b by (intro small_plan d) (simp_all add: command_bound_def plan_unbound_def length_action_key)
  have account: "is_identifier (cc_provider_account_id c)" "length (cc_provider_account_id c) \<le> 128"
    using b identifier_length by (simp_all add: command_bound_def)
  have "make_recovery_reference_id (p_case_id (cc_proposal c)) (cc_provider_account_id c) = Inr (lr_reference_id (cc_request c))"
    using b by (simp add: command_bound_def)
  note req = request_json_ok [OF r proposal_fields(3) [OF p] reference_plain [OF this, THEN conjunct1]
      reference_plain [OF this, THEN conjunct2]]
  have fixed: "is_plain CREATE_COMMAND_TYPE" "is_plain CREATE_COMMAND_SCHEMA" "length CREATE_COMMAND_TYPE = 28"
    "length CREATE_COMMAND_SCHEMA = 46" "in_signed_64 CREATE_COMMAND_SCHEMA_VERSION"
    by (simp_all add: CREATE_COMMAND_TYPE_def CREATE_COMMAND_SCHEMA_def is_plain_def in_signed_64_def MAX_SIGNED_64_def
        CREATE_COMMAND_SCHEMA_VERSION_def)
  have ver: "length (int_str CREATE_COMMAND_SCHEMA_VERSION) \<le> 20" using fixed(5) by (rule int_str_length)
  have st: "stored 2 (decision_to_primitive (cc_prior_plan c))" "stored 2 (proposal_to_primitive (cc_proposal c))"
    using stored_plan [OF d] stored_proposal [OF p] by (simp_all add: MAX_DEPTH_def)
  have digest_facts: "is_digest (decision_digest (cc_prior_plan c))" "is_digest (proposal_digest (cc_proposal c))" by simp_all
  have "json_ok (JObj (create_body c pd rd))" "sorted_json (JObj (create_body c pd rd))"
    using req(1,2) by (simp_all add: create_body_def)
  moreover have "stored 0 (JObj (create_body c pd rd))"
    using req(3) st fixed(5) by (simp add: create_body_def MAX_DEPTH_def numeral_2_eq_2)
  moreover have "small 12000 (JObj (create_body c pd rd))"
    using req(4) plan small_proposal [OF p] account fixed ver digest_facts assms(2,3) digest_length [OF assms(2)]
      digest_length [OF assms(3)] digest_length [OF digest_facts(1)] digest_length [OF digest_facts(2)]
    by (simp add: small_def create_body_def length_action_key)
  moreover have "map fst (create_body c pd rd) = [''bindings'', ''command'', ''command_type'', ''schema'', ''version'']"
    by (simp add: create_body_def)
  ultimately show ?thesis by (simp only: body_ok_def)
qed

section \<open>The round trip\<close>

lemma compare_digest_ascii: "is_plain a \<Longrightarrow> compare_digest a a = Inr True"
  by (auto simp: compare_digest_def is_plain_def list_all_iff)

lemma check_integrity_sealed:
  assumes "is_digest dg" "obj_get env ''integrity'' = JObj [(''algorithm'', JStr ''sha256''), (''digest'', JStr dg)]"
    "integrity_digest (unsigned_part env) = Inr dg"
  shows "check_integrity env = Inr ()"
  using assms by (simp add: check_integrity_def exact_object_ok INTEGRITY_FIELDS_def compare_digest_ascii) blast

lemma identifier_clean_text: "is_identifier s \<Longrightarrow> clean_text s 128"
proof -
  assume s: "is_identifier s"
  then have chars: "list_all ident_rest s" by (cases s) (simp_all add: is_identifier_def ident_rest_def)
  have "\<not> is_space c \<and> \<not> is_control c" if "ident_rest c" for c
    using that by (auto simp: ident_rest_def ident_start_def is_upper_def is_lower_def is_digit_def is_space_def is_control_def)
  with chars have "list_all (\<lambda>c. \<not> is_space c) s" "\<not> list_ex is_control s"
    by (auto simp: list_all_iff list_ex_iff)
  with s identifier_length [OF s] strip_no_space show ?thesis
    by (cases s) (simp_all add: clean_text_def is_identifier_def)
qed

lemma read_command_body:
  assumes "create_storable c"
  shows "read_command (obj_get (create_body c pd rd) ''command'') = Inr c"
proof -
  have "mk_create_command c = Inr c" 
    using assms identifier_clean_text by (simp add: create_storable_def command_bound_def mk_create_command_def require_text_def)
  moreover have "read_request (request_json (cc_request c)) = Inr (cc_request c)"
    using assms proposal_fields(3) by (auto simp: create_storable_def intro: read_request_json)
  moreover have rec: "\<lparr>cc_proposal = cc_proposal c, cc_prior_plan = cc_prior_plan c, cc_request = cc_request c,
      cc_provider_account_id = cc_provider_account_id c\<rparr> = c" by simp
  ultimately show ?thesis
    using assms unfolding read_command_def create_body_def
    by (simp add: exact_object_ok COMMAND_FIELDS_def create_storable_def read_proposal_primitive
        read_prior_plan_primitive command_binding_Inr insert_commute rec)
qed

lemma check_bindings_body:
  assumes "is_digest pd" "is_digest rd" "command_payload_digest c = Inr pd" "command_request_digest c = Inr rd"
  shows "check_bindings (obj_get (create_body c pd rd) ''bindings'') c = Inr ()"
proof -
  have ascii: "compare_digest (action_key p) (action_key p) = Inr True" "compare_digest pd pd = Inr True"
    "compare_digest rd rd = Inr True" "compare_digest (decision_digest d) (decision_digest d) = Inr True"
    "compare_digest (proposal_digest p) (proposal_digest p) = Inr True" for p d
    using assms(1,2) by (simp_all add: compare_digest_ascii)
  show ?thesis
    using assms
    by (simp add: check_bindings_def create_body_def exact_object_ok BINDING_FIELDS_def create_bindings_def
        check_one_binding_def ascii insert_commute)
qed

abbreviation with_integrity :: "(pystr \<times> json) list \<Rightarrow> pystr \<Rightarrow> (pystr \<times> json) list" where
  "with_integrity body dg \<equiv> body @ [(''integrity'', JObj [(''algorithm'', JStr ''sha256''), (''digest'', JStr dg)])]"

text \<open>Every storable command is encoded, and is read back both from the stored object and from its text.\<close>

lemma create_restores:
  assumes "create_storable c"
  obtains env raw where "encode_create_command c = Inr (JObj env)" "encode_create_command_json c = Inr raw"
    "decode_create_command (PayObject env) CREATE_COMMAND_TYPE CREATE_COMMAND_SCHEMA_VERSION = Inr c"
    "decode_create_command (PayBytes raw) CREATE_COMMAND_TYPE CREATE_COMMAND_SCHEMA_VERSION = Inr c"
proof -
  have p: "is_identifier (p_case_id (cc_proposal c))" and r: "request_storable (cc_request c) (p_case_id (cc_proposal c))"
    and bound: "command_bound c"
    using assms proposal_fields(3) by (auto simp: create_storable_def)
  obtain pd rd where d: "is_digest pd" "is_digest rd" "command_payload_digest c = Inr pd"
    "command_request_digest c = Inr rd" and body: "create_unsigned c = Inr (create_body c pd rd)"
    by (rule create_unsigned_body [OF r p])
  obtain dg raw where s: "is_digest dg" "integrity_digest (create_body c pd rd) = Inr dg"
    and seal: "seal (create_body c pd rd) = Inr (JObj (with_integrity (create_body c pd rd) dg))"
    and canon: "canon (JObj (with_integrity (create_body c pd rd) dg)) = JObj (sealed (create_body c pd rd) dg)"
    and unsigned: "unsigned_part (sealed (create_body c pd rd) dg) = create_body c pd rd"
    and doc: "document (sealed (create_body c pd rd) dg)"
    and b: "bounded_canonical_bytes (JObj (sealed (create_body c pd rd) dg)) = Inr raw"
      "bounded_canonical_bytes (JObj (with_integrity (create_body c pd rd) dg)) = Inr raw" and ok: "json_ok (JObj (with_integrity (create_body c pd rd) dg))"
    by (rule seal_ok [OF create_body_ok [OF assms d(1,2)]])
  let ?env = "with_integrity (create_body c pd rd) dg"
  define S where "S = sealed (create_body c pd rd) dg"
  note facts = s [folded S_def] canon [folded S_def] unsigned [folded S_def] doc [folded S_def] b [folded S_def]
  have encode: "encode_create_command c = Inr (JObj ?env)"
    using body seal bound by (simp add: encode_create_Inr)
  have get: "obj_get S ''schema'' = JStr CREATE_COMMAND_SCHEMA" "obj_get S ''version'' = JInt CREATE_COMMAND_SCHEMA_VERSION"
    "obj_get S ''command_type'' = JStr CREATE_COMMAND_TYPE"
    "obj_get S ''command'' = obj_get (create_body c pd rd) ''command''"
    "obj_get S ''bindings'' = obj_get (create_body c pd rd) ''bindings''"
    "obj_get S ''integrity'' = JObj [(''algorithm'', JStr ''sha256''), (''digest'', JStr dg)]"
    "exact_object (JObj S) ENVELOPE_FIELDS ''$'' = Inr S"
    by (simp_all add: S_def sealed_def create_body_def ENVELOPE_FIELDS_def insert_commute)
  have decode: "decode_create_command q CREATE_COMMAND_TYPE CREATE_COMMAND_SCHEMA_VERSION = Inr c"
    if "coerce_payload q = Inr S" for q
  proof -
    have "check_metadata S CREATE_COMMAND_TYPE CREATE_COMMAND_SCHEMA_VERSION = Inr ()"
      by (simp add: check_metadata_def get)
    moreover have "check_integrity S = Inr ()"
      using facts(1,2,4) get(6) by (intro check_integrity_sealed) simp_all
    moreover have "check_unique_envelope S (JObj ?env) = Inr ()"
      using facts(6,7) by (simp add: check_unique_envelope_def)
    ultimately show ?thesis
      unfolding decode_create_command_def that bindE_simps get
      using read_command_body [OF assms] check_bindings_body [OF d] encode by simp
  qed
  have "coerce_payload (PayObject ?env) = Inr S"
    using coerce_object_ok [OF ok facts(7,3)] by (simp add: coerce_payload_def)
  moreover have "coerce_payload (PayBytes raw) = Inr S"
    using coerce_bytes_ok [OF facts(5,6)] by (simp add: coerce_payload_def)
  moreover have "encode_create_command_json c = Inr raw"
    using encode facts(7) by (simp add: encode_create_command_json_def)
  ultimately show thesis using that encode decode by blast
qed

interpretation create_codec: sealed_codec
  "\<lambda>p. decode_create_command p CREATE_COMMAND_TYPE CREATE_COMMAND_SCHEMA_VERSION"
  encode_create_command_json create_storable
  by unfold_locales (simp add: create_reseals, rule create_restores, blast+)

end
