(* ===== verification/Cancel_Codec_Spec.thy ===== *)
theory Cancel_Codec_Spec
  imports Cancel_Codec Create_Codec_Spec
begin

text \<open>
  The codec of cancellation commands meets the same contract as the codec of create commands: what it reads
  is the canonical text of what it returns, and every storable command is stored and read back.
\<close>

section \<open>Targets\<close>

lemma target_fields:
  assumes "mk_cancellation_target t = Inr t'"
  shows "t' = t" "is_identifier (ct_merchant_id t)" "is_identifier (ct_case_id t)" "is_identifier (ct_action_id t)"
    "is_identifier (ct_instrument_id t)" "is_identifier (ct_provider_account_id t)"
    "is_digest (drop 4 (ct_action_key t))" "startswith (ct_action_key t) ''act_''" "is_payment_link_id (ct_payment_link_id t)"
    "is_identifier (ct_reference_id t)" "length (ct_reference_id t) \<le> 40" "0 < ct_amount_minor t" "link_currency (ct_currency t)"
  using assms by (auto simp: mk_cancellation_target_def require_opaque_def not_less not_le)

definition target_storable :: "cancellation_target \<Rightarrow> bool" where
  "target_storable t = (mk_cancellation_target t = Inr t \<and> in_signed_64 (ct_amount_minor t))"

lemma read_target_primitive:
  assumes "target_storable t"
  shows "read_target (target_to_primitive t) = Inr t"
proof -
  have mk: "mk_cancellation_target t = Inr t" and i: "in_signed_64 (ct_amount_minor t)"
    using assms by (simp_all add: target_storable_def)
  have pos: "1 \<le> ct_amount_minor t" using target_fields(12) [OF mk] by simp
  have rec: "\<lparr>ct_merchant_id = ct_merchant_id t, ct_case_id = ct_case_id t, ct_action_id = ct_action_id t,
      ct_action_key = ct_action_key t, ct_instrument_id = ct_instrument_id t,
      ct_provider_account_id = ct_provider_account_id t, ct_payment_link_id = ct_payment_link_id t,
      ct_reference_id = ct_reference_id t, ct_amount_minor = ct_amount_minor t, ct_currency = ct_currency t\<rparr> = t" by simp
  show ?thesis
    unfolding read_target_def target_to_primitive_def using i pos
    by (simp add: exact_object_ok TARGET_FIELDS_def read_target_fields_def target_text_def rec mk same_json_def insert_commute)
qed

lemma link_id_plain: "is_payment_link_id s \<Longrightarrow> is_plain s \<and> length s \<le> 126"
proof -
  assume s: "is_payment_link_id s"
  then obtain r where r: "s = ''plink_'' @ r" by (auto simp: is_payment_link_id_def startswith_def elim: prefixE)
  then have "list_all is_link_id_char r" "length r \<le> 120" using s by (simp_all add: is_payment_link_id_def)
  then have "list_all ident_rest r" by (auto simp: list_all_iff is_link_id_char_def ident_rest_def ident_start_def)
  then have "is_plain r" by (rule is_plain_ident)
  moreover have "is_plain ''plink_''" by (simp add: is_plain_def)
  ultimately show ?thesis using r \<open>length r \<le> 120\<close> by (simp only: is_plain_append) simp
qed

lemma action_key_text_plain:
  assumes "startswith s ''act_''" "is_digest (drop 4 s)"
  shows "is_plain s \<and> length s = 68"
proof -
  obtain r where r: "s = ''act_'' @ r" using assms(1) by (auto simp: startswith_def elim: prefixE)
  then have "is_digest r" using assms(2) by simp
  moreover have "is_plain ''act_''" by (simp add: is_plain_def)
  ultimately show ?thesis using r digest_plain [of r] digest_length [of r] by (simp only: is_plain_append) simp
qed

lemma target_json_ok:
  assumes "target_storable t"
  shows "json_ok (target_to_primitive t)" "sorted_json (target_to_primitive t)" "stored 2 (target_to_primitive t)"
    "small 2000 (target_to_primitive t)"
proof -
  have mk: "mk_cancellation_target t = Inr t" and i: "in_signed_64 (ct_amount_minor t)"
    using assms by (simp_all add: target_storable_def)
  note f = target_fields [OF mk]
  show "json_ok (target_to_primitive t)" "sorted_json (target_to_primitive t)"
    by (simp_all add: target_to_primitive_def)
  show "stored 2 (target_to_primitive t)" using i by (simp add: target_to_primitive_def MAX_DEPTH_def)
  have lens: "length (ct_merchant_id t) \<le> 128" "length (ct_case_id t) \<le> 128" "length (ct_action_id t) \<le> 128"
    "length (ct_instrument_id t) \<le> 128" "length (ct_provider_account_id t) \<le> 128"
    using f(2-6) identifier_length by blast+
  show "small 2000 (target_to_primitive t)"
    using lens f identifier_plain link_id_plain [OF f(9)] action_key_text_plain [OF f(8,7)] int_str_length [OF i]
      link_currency_plain [OF f(13)]
    by (simp add: small_def target_to_primitive_def)
qed

section \<open>Envelopes\<close>

definition cancel_storable :: "cancel_command \<Rightarrow> bool" where
  "cancel_storable c =
     (proposal_storable (cl_proposal c) \<and> plan_storable (cl_prior_plan c) \<and> target_storable (cl_target c)
      \<and> mk_cancel_command c = Inr c)"

lemma cancel_command_fields:
  assumes "mk_cancel_command c = Inr c'"
  shows "c' = c" "p_action_type (cl_proposal c) = CANCEL_PAYMENT_LINK"
    "p_instrument_reference (cl_proposal c) = Some (ct_payment_link_id (cl_target c))"
    "p_merchant_id (cl_proposal c) = ct_merchant_id (cl_target c)" "p_case_id (cl_proposal c) = ct_case_id (cl_target c)"
    "action_key (cl_proposal c) = ct_action_key (cl_target c)"
    "d_stage (cl_prior_plan c) = POLICY" "allowed (cl_prior_plan c)" "\<not> plan_unbound (cl_prior_plan c) (cl_proposal c)"
  using assms by (auto simp: mk_cancel_command_def Let_def plan_unbound_def)

lemma cancel_body_ok:
  assumes "cancel_storable c"
  shows "body_ok (cancel_unsigned c)"
proof -
  have p: "proposal_storable (cl_proposal c)" and d: "plan_storable (cl_prior_plan c)"
    and t: "target_storable (cl_target c)" and mk: "mk_cancel_command c = Inr c"
    using assms by (simp_all add: cancel_storable_def)
  note f = cancel_command_fields [OF mk] and tj = target_json_ok [OF t]
  have plan: "small 1500 (decision_to_primitive (cl_prior_plan c))"
  proof -
    have "d_action_key (cl_prior_plan c) = action_key (cl_proposal c)" using f(9) by (simp add: plan_unbound_def)
    then show ?thesis using f(8) by (intro small_plan d) (simp_all add: length_action_key)
  qed
  have fixed: "is_plain CANCEL_COMMAND_TYPE" "is_plain CANCEL_COMMAND_SCHEMA" "length CANCEL_COMMAND_TYPE = 19"
    "length CANCEL_COMMAND_SCHEMA = 37" "in_signed_64 CANCEL_COMMAND_SCHEMA_VERSION"
    by (simp_all add: CANCEL_COMMAND_TYPE_def CANCEL_COMMAND_SCHEMA_def is_plain_def in_signed_64_def MAX_SIGNED_64_def
        CANCEL_COMMAND_SCHEMA_VERSION_def)
  have ver: "length (int_str CANCEL_COMMAND_SCHEMA_VERSION) \<le> 20" using fixed(5) by (rule int_str_length)
  have st: "stored 2 (decision_to_primitive (cl_prior_plan c))" "stored 2 (proposal_to_primitive (cl_proposal c))"
    using stored_plan [OF d] stored_proposal [OF p] by (simp_all add: MAX_DEPTH_def)
  have dg: "is_digest (decision_digest (cl_prior_plan c))" "is_digest (proposal_digest (cl_proposal c))"
    "is_digest (cancel_payload_digest c)" "is_digest (target_digest (cl_target c))"
    by (simp_all add: cancel_payload_digest_def target_digest_def)
  have "json_ok (JObj (cancel_unsigned c))" "sorted_json (JObj (cancel_unsigned c))"
    using tj(1,2) by (simp_all add: cancel_unsigned_def cancel_bindings_def)
  moreover have "stored 0 (JObj (cancel_unsigned c))"
    using tj(3) st fixed(5) by (simp add: cancel_unsigned_def cancel_bindings_def MAX_DEPTH_def numeral_2_eq_2)
  moreover have "small 12000 (JObj (cancel_unsigned c))"
    using tj(4) plan small_proposal [OF p] fixed ver dg digest_length [OF dg(1)] digest_length [OF dg(2)]
      digest_length [OF dg(3)] digest_length [OF dg(4)]
    by (simp add: small_def cancel_unsigned_def cancel_bindings_def length_action_key)
  moreover have "map fst (cancel_unsigned c) = [''bindings'', ''command'', ''command_type'', ''schema'', ''version'']"
    by (simp add: cancel_unsigned_def)
  ultimately show ?thesis by (simp only: body_ok_def)
qed

lemma check_cancel_integrity_sealed:
  assumes "is_digest dg" "obj_get env ''integrity'' = JObj [(''algorithm'', JStr ''sha256''), (''digest'', JStr dg)]"
    "integrity_digest (unsigned_part env) = Inr dg"
  shows "check_cancel_integrity env = Inr ()"
  using assms by (simp add: check_cancel_integrity_def exact_object_ok INTEGRITY_FIELDS_def compare_digest_ascii) blast

lemma read_cancel_body:
  assumes "cancel_storable c"
  shows "read_cancel_command (obj_get (cancel_unsigned c) ''command'') = Inr c"
proof -
  have rec: "\<lparr>cl_proposal = cl_proposal c, cl_prior_plan = cl_prior_plan c, cl_target = cl_target c\<rparr> = c" by simp
  show ?thesis
    using assms unfolding read_cancel_command_def cancel_unsigned_def
    by (simp add: exact_object_ok CANCEL_COMMAND_FIELDS_def cancel_storable_def read_proposal_primitive
        read_prior_plan_primitive read_target_primitive insert_commute rec)
qed

lemma check_cancel_bindings_body:
  "check_cancel_bindings (obj_get (cancel_unsigned c) ''bindings'') c = Inr ()"
proof -
  have dg: "is_digest (cancel_payload_digest c)" "is_digest (target_digest t)" for t
    by (simp_all add: cancel_payload_digest_def target_digest_def)
  then have ascii: "compare_digest (action_key p) (action_key p) = Inr True"
    "compare_digest (cancel_payload_digest c) (cancel_payload_digest c) = Inr True"
    "compare_digest (decision_digest d) (decision_digest d) = Inr True"
    "compare_digest (proposal_digest p) (proposal_digest p) = Inr True"
    "compare_digest (target_digest t) (target_digest t) = Inr True" for p d t
    by (simp_all add: compare_digest_ascii)
  show ?thesis
    by (simp add: check_cancel_bindings_def cancel_unsigned_def exact_object_ok CANCEL_BINDING_FIELDS_def
        cancel_bindings_def check_one_cancel_binding_def ascii dg insert_commute)
qed

section \<open>The contract\<close>

lemma cancel_decode_steps:
  assumes "decode_cancel_command p t v = Inr c"
  obtains kvs rebuilt where "coerce_payload p = Inr kvs" "encode_cancel_command c = Inr rebuilt"
    "check_unique_cancel_envelope kvs rebuilt = Inr ()" "read_cancel_command (obj_get kvs ''command'') = Inr c"
  using assms unfolding decode_cancel_command_def bindE_eq_Inr exact_object_Inr by auto

lemma cancel_reseals:
  assumes "decode_cancel_command p t v = Inr c"
  shows "encode_cancel_command_json c = payload_text p"
proof -
  obtain kvs rebuilt where s: "coerce_payload p = Inr kvs" "encode_cancel_command c = Inr rebuilt"
    "check_unique_cancel_envelope kvs rebuilt = Inr ()"
    by (rule cancel_decode_steps [OF assms])
  then obtain b where b: "bounded_canonical_bytes (JObj kvs) = Inr b" "bounded_canonical_bytes rebuilt = Inr b"
    by (auto simp: check_unique_cancel_envelope_def)
  have "document kvs" and printed: "payload_text p = Inr (utf8 (dumps (JObj kvs)))"
    using coerce_payload_Inr [OF s(1)] by blast+
  then have "json_ok (JObj kvs)" by (simp only: document_def)
  then have "b = utf8 (dumps (JObj kvs))" using b(1) bounded_bytes_text by blast
  with b(2) s(2) printed show ?thesis unfolding encode_cancel_command_json_def by (simp only: bindE_simps)
qed

lemma cancel_restores:
  assumes "cancel_storable c"
  obtains env raw where "encode_cancel_command c = Inr (JObj env)" "encode_cancel_command_json c = Inr raw"
    "decode_cancel_command (PayObject env) CANCEL_COMMAND_TYPE CANCEL_COMMAND_SCHEMA_VERSION = Inr c"
    "decode_cancel_command (PayBytes raw) CANCEL_COMMAND_TYPE CANCEL_COMMAND_SCHEMA_VERSION = Inr c"
proof -
  obtain dg raw where s: "is_digest dg" "integrity_digest (cancel_unsigned c) = Inr dg"
    and seal: "seal (cancel_unsigned c) = Inr (JObj (with_integrity (cancel_unsigned c) dg))"
    and canon: "canon (JObj (with_integrity (cancel_unsigned c) dg)) = JObj (sealed (cancel_unsigned c) dg)"
    and unsigned: "unsigned_part (sealed (cancel_unsigned c) dg) = cancel_unsigned c"
    and doc: "document (sealed (cancel_unsigned c) dg)"
    and b: "bounded_canonical_bytes (JObj (sealed (cancel_unsigned c) dg)) = Inr raw"
      "bounded_canonical_bytes (JObj (with_integrity (cancel_unsigned c) dg)) = Inr raw"
    and ok: "json_ok (JObj (with_integrity (cancel_unsigned c) dg))"
    by (rule seal_ok [OF cancel_body_ok [OF assms]])
  let ?env = "with_integrity (cancel_unsigned c) dg"
  define S where "S = sealed (cancel_unsigned c) dg"
  note facts = s [folded S_def] canon [folded S_def] unsigned [folded S_def] doc [folded S_def] b [folded S_def]
  have encode: "encode_cancel_command c = Inr (JObj ?env)"
    using seal by (simp add: encode_cancel_command_def)
  have get: "obj_get S ''schema'' = JStr CANCEL_COMMAND_SCHEMA" "obj_get S ''version'' = JInt CANCEL_COMMAND_SCHEMA_VERSION"
    "obj_get S ''command_type'' = JStr CANCEL_COMMAND_TYPE"
    "obj_get S ''command'' = obj_get (cancel_unsigned c) ''command''"
    "obj_get S ''bindings'' = obj_get (cancel_unsigned c) ''bindings''"
    "obj_get S ''integrity'' = JObj [(''algorithm'', JStr ''sha256''), (''digest'', JStr dg)]"
    "exact_object (JObj S) ENVELOPE_FIELDS ''$'' = Inr S"
    by (simp_all add: S_def sealed_def cancel_unsigned_def ENVELOPE_FIELDS_def insert_commute)
  have decode: "decode_cancel_command q CANCEL_COMMAND_TYPE CANCEL_COMMAND_SCHEMA_VERSION = Inr c"
    if "coerce_payload q = Inr S" for q
  proof -
    have "check_cancel_metadata S CANCEL_COMMAND_TYPE CANCEL_COMMAND_SCHEMA_VERSION = Inr ()"
      by (simp add: check_cancel_metadata_def get)
    moreover have "check_cancel_integrity S = Inr ()"
      using facts(1,2,4) get(6) by (intro check_cancel_integrity_sealed) simp_all
    moreover have "check_unique_cancel_envelope S (JObj ?env) = Inr ()"
      using facts(6,7) by (simp add: check_unique_cancel_envelope_def)
    ultimately show ?thesis
      unfolding decode_cancel_command_def that bindE_simps get
      using read_cancel_body [OF assms] check_cancel_bindings_body [of c] encode by simp
  qed
  have "coerce_payload (PayObject ?env) = Inr S"
    using coerce_object_ok [OF ok facts(7,3)] by (simp add: coerce_payload_def)
  moreover have "coerce_payload (PayBytes raw) = Inr S"
    using coerce_bytes_ok [OF facts(5,6)] by (simp add: coerce_payload_def)
  moreover have "encode_cancel_command_json c = Inr raw"
    using encode facts(7) by (simp add: encode_cancel_command_json_def)
  ultimately show thesis using that encode decode by blast
qed

interpretation cancel_codec: sealed_codec
  "\<lambda>p. decode_cancel_command p CANCEL_COMMAND_TYPE CANCEL_COMMAND_SCHEMA_VERSION"
  encode_cancel_command_json cancel_storable
  by unfold_locales (simp add: cancel_reseals, rule cancel_restores, blast+)

end
