(* ===== verification/Create_Codec_Properties.thy ===== *)
theory Create_Codec_Properties
  imports Create_Codec_Spec Execution_Properties
begin

text \<open>
  The properties of the create codec and a concrete command that has them.
\<close>

section \<open>Sample\<close>

definition codec_request :: link_request where
  "codec_request = \<lparr>lr_amount_minor = 49900, lr_currency = ''INR'', lr_reference_id = reference_text ''case_1'' ''acc_1'',
     lr_description = ''Retry payment for order order_1'', lr_expire_by_epoch = 1800410000,
     lr_notes = [(''merchant_order_id'', ''order_1''), (''recovery_case_id'', ''case_1'')], lr_customer = None\<rparr>"

definition codec_command :: create_command where
  "codec_command = \<lparr>cc_proposal = sample_proposal, cc_prior_plan = sample_decision POLICY [],
     cc_request = codec_request, cc_provider_account_id = ''acc_1''\<rparr>"

lemma codec_names: "is_identifier ''case_1''" "is_identifier ''acc_1''" "is_identifier ''order_1''" "is_identifier ''m_1''"
  "link_currency ''INR''" "clean_link_text 2048 ''Retry payment for order order_1''"
  "clean_link_text 256 ''merchant_order_id''" "clean_link_text 256 ''recovery_case_id''"
  "clean_link_text 256 ''order_1''" "clean_link_text 256 ''case_1''"
  by (unfold clean_link_text_def) code_simp+

lemma codec_request_storable: "request_storable codec_request ''case_1''"
proof -
  have "description_template codec_request"
    unfolding description_template_def codec_request_def
    by (simp add: note_of_def DESCRIPTION_PREFIX_def is_digit_def)
  then show ?thesis
    using codec_names reference_text_clean [of "''case_1''" "''acc_1''"]
    by (simp add: request_storable_def codec_request_def link_request_ok_def in_signed_64_def MAX_SIGNED_64_def
        REQUIRED_NOTE_KEYS_def note_of_def)
qed

lemma sample_years: "storable_instant (740000 * us_day)" "storable_instant (740001 * us_day)"
  "storable_instant (740000 * us_day + 10 * us_second)"
  by (simp_all add: storable_instant_def in_range_def max_instant_def us_day_def us_second_def civil_of_def ord2ymd_def
      Let_def split: prod.split)

lemma sample_confidence: "storable_confidence \<lparr>prob_value = Dec False 9 (-1)\<rparr>"
proof -
  have nine: "nat_str 9 = ''9''" by code_simp
  have "prob_to_primitive \<lparr>prob_value = Dec False 9 (-1)\<rparr> = ''0.9''"
    by (simp add: prob_to_primitive_def strip_zeros_def nine Let_def rstrip_char_def)
  moreover have "mk_probability (ArgStr ''0.9'') = Inr \<lparr>prob_value = Dec False 9 (-1)\<rparr>"
    by code_simp
  ultimately show ?thesis by (simp add: storable_confidence_def is_plain_def)
qed

lemma sample_proposal_storable: "proposal_storable sample_proposal"
proof -
  have "is_identifier ''prop_1''" "is_payment_method ''upi''" by code_simp+
  then show ?thesis
    using codec_names sample_years sample_confidence
    by (simp add: proposal_storable_def sample_proposal_def mk_action_proposal_def check_collection_fields_def
        check_instrument_field_def action_sets sample_money_def money_ok_def is_currency_def is_upper_def
        in_signed_64_def MAX_SIGNED_64_def storable_instant_def us_day_def us_second_def)
qed

lemma sample_plan_storable: "plan_storable (sample_decision POLICY [])"
proof -
  have "is_identifier ''prop_1''" "is_identifier ''policy-v1''" by code_simp+
  then show ?thesis
    using codec_names sample_years
    by (simp add: plan_storable_def sample_decision_def in_signed_64_def MAX_SIGNED_64_def)
qed

lemma codec_command_storable: "create_storable codec_command"
  using codec_request_storable sample_proposal_storable sample_plan_storable codec_names sample_reference_input
  by (simp add: create_storable_def codec_command_def command_bound_def make_reference_Inr)
     (simp add: codec_request_def sample_decision_def plan_unbound_def allowed_def sample_money_def sample_proposal_def)

section \<open>Properties\<close>

text \<open>C14. A storable create command (proposal, allowed policy plan, request and account bound to each
  other, notes and description in the controller's form, 64-bit numbers, four-digit years) is encoded, within
  the size cap, and decoding the stored object or its canonical bytes gives the same command back.\<close>

theorem stored_command_restored:
  assumes "create_storable c"
  shows "\<exists>env raw. encode_create_command c = Inr (JObj env) \<and> encode_create_command_json c = Inr raw
    \<and> decode_create_command (PayObject env) CREATE_COMMAND_TYPE CREATE_COMMAND_SCHEMA_VERSION = Inr c
    \<and> decode_create_command (PayBytes raw) CREATE_COMMAND_TYPE CREATE_COMMAND_SCHEMA_VERSION = Inr c"
  by (rule create_restores [OF assms]) blast

theorem stored_command_restored_witness:
  "\<exists>raw. encode_create_command_json codec_command = Inr raw
    \<and> decode_create_command (PayBytes raw) CREATE_COMMAND_TYPE CREATE_COMMAND_SCHEMA_VERSION = Inr codec_command"
  using stored_command_restored [OF codec_command_storable] by blast

text \<open>C15. A decoded create command is authentic to its text: encoding it again gives exactly the
  canonical text of the payload, so every stored command has one representation, and two texts decode to the
  same command only if they are the same bytes.\<close>

theorem decoded_text_is_canonical:
  assumes "decode_create_command p t v = Inr c"
  shows "encode_create_command_json c = payload_text p
    \<and> (\<forall>q t' v'. decode_create_command q t' v' = Inr c \<longrightarrow> payload_text q = payload_text p)"
  using create_reseals assms by metis

theorem decoded_text_is_canonical_witness:
  "\<exists>raw. encode_create_command_json codec_command = payload_text (PayBytes raw)"
proof -
  obtain raw where "decode_create_command (PayBytes raw) CREATE_COMMAND_TYPE CREATE_COMMAND_SCHEMA_VERSION = Inr codec_command"
    using create_codec.restores [OF codec_command_storable] by blast
  then show ?thesis using decoded_text_is_canonical by blast
qed

lemma decoded_parts:
  assumes "decode_create_command p t v = Inr c"
  shows "command_bound c \<and> lr_customer (cc_request c) = None \<and> description_template (cc_request c)
    \<and> notes_ok (lr_notes (cc_request c))"
proof -
  obtain kvs rebuilt where e: "encode_create_command c = Inr rebuilt"
    by (rule decode_steps [OF assms])
  then obtain body where "create_unsigned c = Inr body" "command_bound c" by (auto simp: encode_create_Inr)
  then show ?thesis by (auto simp: create_unsigned_def request_primitive_Inr)
qed

lemma decoded_text_admitted:
  assumes "decode_create_command p t v = Inr c"
  shows "\<exists>kvs. payload_text p = Inr (utf8 (dumps (JObj kvs))) \<and> stored 0 (JObj kvs)
    \<and> length (utf8 (dumps (JObj kvs))) \<le> MAX_EFFECT_COMMAND_BYTES"
proof -
  obtain kvs rebuilt where s: "coerce_payload p = Inr kvs" "check_unique_envelope kvs rebuilt = Inr ()"
    by (rule decode_steps [OF assms])
  then obtain b where "bounded_canonical_bytes (JObj kvs) = Inr b" by (auto simp: check_unique_envelope_def)
  moreover have "document kvs" "payload_text p = Inr (utf8 (dumps (JObj kvs)))"
    using coerce_payload_Inr [OF s(1)] by blast+
  moreover from this have "json_ok (JObj kvs)" "stored 0 (JObj kvs)" by (simp_all only: document_def)
  ultimately show ?thesis using bounded_bytes_Inr bounded_bytes_text by metis
qed

text \<open>C13. A create command comes out of storage only bound and private: the plan is an allowed policy plan for
  exactly this proposal, the request asks for the proposal's amount and currency under the reference derived
  from its case and the account, there is no customer, the description is the controller's order template, the
  notes are the two controller identifiers, and the stored text is within 16 KiB, nested at most twelve deep,
  free of floats and of sensitive names at every level.\<close>

theorem decoded_command_bound:
  assumes "decode_create_command p t v = Inr c"
  shows "command_bound c \<and> lr_customer (cc_request c) = None \<and> description_template (cc_request c)
    \<and> notes_ok (lr_notes (cc_request c))
    \<and> (\<exists>kvs. payload_text p = Inr (utf8 (dumps (JObj kvs))) \<and> stored 0 (JObj kvs)
         \<and> length (utf8 (dumps (JObj kvs))) \<le> MAX_EFFECT_COMMAND_BYTES)"
  using decoded_parts [OF assms] decoded_text_admitted [OF assms] by blast

theorem decoded_command_bound_witness: "command_bound codec_command \<and> notes_ok (lr_notes (cc_request codec_command))"
proof -
  obtain raw where "decode_create_command (PayBytes raw) CREATE_COMMAND_TYPE CREATE_COMMAND_SCHEMA_VERSION = Inr codec_command"
    using create_codec.restores [OF codec_command_storable] by blast
  then show ?thesis using decoded_command_bound by blast
qed

text \<open>A decoded command is one the durable intent recorded from it authorizes.\<close>

lemma decoded_intent_matches:
  assumes "record_intent c recorded = Inr i"
  shows "intent_matches i c"
  using assms by (auto simp: record_intent_def mk_durable_intent_def intent_matches_def)

text \<open>A binding with a character outside ASCII is not answered with the codec's own error: the comparison
  itself raises \<^verbatim>\<open>TypeError\<close>, which leaves the decoder.\<close>

lemma non_ascii_binding_raises:
  assumes "\<not> list_all (\<lambda>c. code c < 128) s"
  shows "check_one_binding [(''action_key'', JStr s)] (''action_key'', JStr (action_key p))
    = Inl (TypeError ''comparing strings with non-ASCII characters is not supported'')"
  using assms by (simp add: check_one_binding_def compare_digest_def)

end
