(* ===== verification/Cancel_Codec_Properties.thy ===== *)
theory Cancel_Codec_Properties
  imports Cancel_Codec_Spec Create_Codec_Properties Cancellation_Properties
begin

text \<open>
  The properties of the cancellation codec and a concrete command that has them.
\<close>

definition codec_target :: cancellation_target where
  "codec_target = sample_target\<lparr>ct_reference_id := reference_text ''case_1'' ''acc_1''\<rparr>"

definition codec_cancel :: cancel_command where
  "codec_cancel = sample_cancel\<lparr>cl_target := codec_target\<rparr>"

lemma reference_identifier: "is_identifier (reference_text c a)"
proof -
  have "list_all ident_rest (reference_slug c)" "list_all ident_rest (reference_digest (reference_material a c))"
    using reference_slug_shape(3) [of c] reference_digest_shape(2) [of "reference_material a c"]
    by (auto simp: list_all_iff is_slug_char_def ident_rest_def ident_start_def)
  then show ?thesis
    using reference_text_clean [of c a]
    by (simp add: is_identifier_def reference_text_def ident_start_def ident_rest_def is_lower_def)
qed

lemma codec_target_storable: "target_storable codec_target"
proof -
  have "is_identifier ''action_1''" "is_identifier ''inst_1''" "is_payment_link_id ''plink_1''" by code_simp+
  moreover have "clean_text (action_key sample_cancel_proposal) 68"
    using clean_action_key [of sample_cancel_proposal] by (simp add: clean_text_def length_action_key)
  moreover have "is_digest (drop 4 (action_key sample_cancel_proposal))" by (simp add: action_key_def)
  moreover have "is_upper (CHR ''I'') \<and> is_upper (CHR ''N'') \<and> is_upper (CHR ''R'')" by (simp add: is_upper_def)
  moreover have "length (reference_text ''case_1'' ''acc_1'') \<le> 40"
    using reference_text_clean [of "''case_1''" "''acc_1''"] by simp
  ultimately show ?thesis
    using codec_names sample_reference_input reference_identifier
    by (simp add: target_storable_def codec_target_def sample_target_def mk_cancellation_target_def require_opaque_def
        require_text_def make_reference_Inr link_currency_def in_signed_64_def MAX_SIGNED_64_def)
qed

lemma codec_cancel_storable: "cancel_storable codec_cancel"
proof -
  have ids: "is_identifier ''prop_1''" "is_identifier ''policy-v1''" "is_identifier ''plink_1''" by code_simp+
  have "proposal_storable sample_cancel_proposal"
    using codec_names sample_years sample_confidence ids
    by (simp add: proposal_storable_def sample_cancel_proposal_def sample_proposal_def mk_action_proposal_def
        check_collection_fields_def check_instrument_field_def action_sets in_signed_64_def MAX_SIGNED_64_def
        storable_instant_def us_day_def us_second_def)
  moreover have "plan_storable (sample_cancel_decision POLICY)"
    using codec_names sample_years ids
    by (simp add: plan_storable_def sample_cancel_decision_def in_signed_64_def MAX_SIGNED_64_def sample_time_def)
  moreover have "mk_cancel_command codec_cancel = Inr codec_cancel"
    by (simp add: mk_cancel_command_def codec_cancel_def sample_cancel_def codec_target_def sample_target_def
        sample_cancel_decision_def allowed_def Let_def)
       (simp add: sample_cancel_proposal_def sample_proposal_def)
  ultimately show ?thesis
    using codec_target_storable by (simp add: cancel_storable_def codec_cancel_def sample_cancel_def)
qed

text \<open>A storable cancellation (proposal, allowed policy plan and target bound to each other, 64-bit
  numbers, four-digit years) is encoded within the size cap, and decoding the stored object or its canonical bytes
  gives the same command back.\<close>

lemma stored_cancellation_restored:
  assumes "cancel_storable c"
  shows "\<exists>env raw. encode_cancel_command c = Inr (JObj env) \<and> encode_cancel_command_json c = Inr raw
      \<and> decode_cancel_command (PayObject env) CANCEL_COMMAND_TYPE CANCEL_COMMAND_SCHEMA_VERSION = Inr c
      \<and> decode_cancel_command (PayBytes raw) CANCEL_COMMAND_TYPE CANCEL_COMMAND_SCHEMA_VERSION = Inr c"
  by (rule cancel_restores [OF assms]) blast

lemma stored_cancellation_restored_example:
  "\<exists>raw. encode_cancel_command_json codec_cancel = Inr raw
    \<and> decode_cancel_command (PayBytes raw) CANCEL_COMMAND_TYPE CANCEL_COMMAND_SCHEMA_VERSION = Inr codec_cancel"
  using stored_cancellation_restored [OF codec_cancel_storable] by blast

text \<open>C16. A decoded cancellation carries exactly the text it was read from, and is bound: its proposal asks
  to cancel the target's link in the target's case under the target's action key, its plan allows exactly this
  proposal, and its reference is the one derived from case and account.\<close>

theorem decoded_cancellation_bound:
  assumes "decode_cancel_command p t v = Inr c"
  shows "encode_cancel_command_json c = payload_text p
    \<and> p_action_type (cl_proposal c) = CANCEL_PAYMENT_LINK
    \<and> p_instrument_reference (cl_proposal c) = Some (ct_payment_link_id (cl_target c))
    \<and> p_case_id (cl_proposal c) = ct_case_id (cl_target c) \<and> action_key (cl_proposal c) = ct_action_key (cl_target c)
    \<and> d_stage (cl_prior_plan c) = POLICY \<and> allowed (cl_prior_plan c) \<and> \<not> plan_unbound (cl_prior_plan c) (cl_proposal c)
    \<and> make_recovery_reference_id (ct_case_id (cl_target c)) (ct_provider_account_id (cl_target c))
        = Inr (ct_reference_id (cl_target c))"
proof -
  obtain kvs rebuilt where "read_cancel_command (obj_get kvs ''command'') = Inr c"
    by (rule cancel_decode_steps [OF assms])
  then obtain pr pl t v where t: "read_target v = Inr t"
    and made: "mk_cancel_command \<lparr>cl_proposal = pr, cl_prior_plan = pl, cl_target = t\<rparr> = Inr c"
    by (auto simp: read_cancel_command_def simp del: exact_object_Inr)
  then have c: "c = \<lparr>cl_proposal = pr, cl_prior_plan = pl, cl_target = t\<rparr>" using cancel_command_fields(1) by blast
  then have mk: "mk_cancel_command c = Inr c" using made by simp
  obtain item where "read_target_fields item = Inr (cl_target c)"
    using t c by (auto simp: read_target_def)
  then obtain t where "mk_cancellation_target t = Inr (cl_target c)" by (auto simp: read_target_fields_def)
  then have "make_recovery_reference_id (ct_case_id (cl_target c)) (ct_provider_account_id (cl_target c))
      = Inr (ct_reference_id (cl_target c))"
    by (auto simp: mk_cancellation_target_def)
  with cancel_command_fields(2-9) [OF mk] cancel_reseals [OF assms] show ?thesis by blast
qed

theorem decoded_cancellation_bound_witness:
  "\<exists>raw. encode_cancel_command_json codec_cancel = payload_text (PayBytes raw)"
proof -
  obtain raw where "decode_cancel_command (PayBytes raw) CANCEL_COMMAND_TYPE CANCEL_COMMAND_SCHEMA_VERSION = Inr codec_cancel"
    using cancel_codec.restores [OF codec_cancel_storable] by blast
  then show ?thesis using decoded_cancellation_bound by blast
qed

end
