(* ===== verification/Approval_Store.thy ===== *)
theory Approval_Store
  imports Delivery_Table Cancellation Audited_Controls
begin

text \<open>
  The tables the approval modules read and write, and the statements the modules share. A transaction is a
  function on the whole store that raises or returns; what raises rolls back. \<open>tx_env\<close> is what one call gets from
  outside: the statement clock, the identifiers the factory returns, and for every statement of its transaction
  whether the database refuses it (a lost connection, a trigger or check of the schema that the model does not
  have), so that a property holds whatever statement fails. The unique keys of the schema that matter here are
  part of the inserts. Columns that triggers maintain (\<^verbatim>\<open>updated_at\<close>) are not in the rows.
\<close>

section \<open>Rows\<close>

datatype approval_verdict = V_PENDING | V_APPROVED | V_REJECTED | V_EXPIRED | V_CANCELLED

fun verdict_text :: "approval_verdict \<Rightarrow> pystr" where
  "verdict_text V_PENDING = ''PENDING''"
| "verdict_text V_APPROVED = ''APPROVED''"
| "verdict_text V_REJECTED = ''REJECTED''"
| "verdict_text V_EXPIRED = ''EXPIRED''"
| "verdict_text V_CANCELLED = ''CANCELLED''"

record approval_row =
  ar_id :: pystr
  ar_merchant :: pystr
  ar_case :: pystr
  ar_decision :: pystr
  ar_version :: int
  ar_verdict :: approval_verdict
  ar_requested_at :: instant
  ar_expires_at :: instant
  ar_approver :: "pystr option"
  ar_reason :: "pystr option"
  ar_acted_at :: "instant option"

record decision_row =
  dr_id :: pystr
  dr_merchant :: pystr
  dr_case :: pystr
  dr_version :: int
  dr_candidates :: "json list"
  dr_policy_version :: pystr

record case_row =
  cr_id :: pystr
  cr_merchant :: pystr
  cr_order :: pystr
  cr_account :: pystr
  cr_currency :: pystr
  cr_amount :: int
  cr_state :: recovery_state
  cr_version :: int
  cr_deadline :: "instant option"
  cr_attempts :: int
  cr_contacts :: int
  cr_incident :: "pystr option"
  cr_terminal_reason :: "pystr option"
  cr_terminal_at :: "instant option"
  cr_last_action :: "pystr option"
  cr_last_action_at :: "instant option"

record tenant_row =
  tr_id :: pystr
  tr_status :: pystr
  tr_kill_switch :: bool

record account_row =
  cc_id :: pystr
  cc_merchant :: pystr
  cc_identifier :: pystr
  cc_environment :: pystr
  cc_enabled :: bool
  cc_binding_version :: int

record order_row =
  or_id :: pystr
  or_merchant :: pystr
  or_account :: pystr
  or_currency :: pystr
  or_truth :: canonical_payment_state

record payment_row =
  py_id :: pystr
  py_merchant :: pystr
  py_account :: pystr
  py_order :: pystr
  py_currency :: pystr
  py_payment_id :: pystr
  py_order_id :: pystr
  py_method :: "pystr option"
  py_snapshot_at :: instant

datatype action_row_status = X_PLANNED | X_QUEUED | X_OTHER pystr

record action_row =
  xr_id :: pystr
  xr_merchant :: pystr
  xr_case :: pystr
  xr_decision :: pystr
  xr_version :: int
  xr_approval :: "pystr option"
  xr_key :: pystr
  xr_status :: action_row_status
  xr_max_attempts :: int
  xr_metadata :: json
  xr_reference :: pystr
  xr_created_at :: instant

record instrument_row =
  ir_id :: pystr
  ir_merchant :: pystr
  ir_case :: pystr
  ir_order :: pystr
  ir_account :: pystr
  ir_action :: pystr
  ir_reference :: pystr
  ir_amount :: int
  ir_currency :: pystr
  ir_status :: instrument_status
  ir_expires_at :: instant
  ir_created_at :: instant

record audit_fact =
  af_id :: pystr
  af_merchant :: pystr
  af_case :: pystr
  af_entry_type :: pystr
  af_subject :: pystr
  af_facts :: "(pystr \<times> pystr) list"
  af_created_at :: instant

record approval_store =
  as_approvals :: "approval_row list"
  as_decisions :: "decision_row list"
  as_cases :: "case_row list"
  as_tenants :: "tenant_row list"
  as_accounts :: "account_row list"
  as_orders :: "order_row list"
  as_payments :: "payment_row list"
  as_actions :: "action_row list"
  as_instruments :: "instrument_row list"
  as_jobs :: "outbox_row list"
  as_audit :: "audit_fact list"

section \<open>Transactions\<close>

record tx_env =
  te_now :: instant
  te_ids :: "nat \<Rightarrow> pystr"
  te_fault :: "nat \<Rightarrow> exn option"

definition statement :: "tx_env \<Rightarrow> nat \<Rightarrow> exn + 'a \<Rightarrow> exn + 'a" where
  "statement env i result = (case te_fault env i of Some e \<Rightarrow> Inl e | None \<Rightarrow> result)"

definition commit :: "(approval_store \<Rightarrow> exn + 'a \<times> approval_store) \<Rightarrow> approval_store \<Rightarrow> (exn + 'a) \<times> approval_store" where
  "commit body st = (case body st of Inl e \<Rightarrow> (Inl e, st) | Inr (x, st') \<Rightarrow> (Inr x, st'))"

text \<open>\<^verbatim>\<open>UPDATE ... WHERE P RETURNING\<close>: the first updated row, and the table.\<close>

definition update_rows :: "('r \<Rightarrow> bool) \<Rightarrow> ('r \<Rightarrow> 'r) \<Rightarrow> 'r list \<Rightarrow> 'r option \<times> 'r list" where
  "update_rows P f rows = (map_option f (find P rows), map (\<lambda>r. if P r then f r else r) rows)"

text \<open>\<^verbatim>\<open>_one(cursor.fetchone(), expected, operation)\<close> after an update.\<close>

definition updated_one :: "'r option \<times> 'r list \<Rightarrow> ('r \<Rightarrow> 'v) \<Rightarrow> 'v \<Rightarrow> exn \<Rightarrow> exn + 'r list" where
  "updated_one u column expected e =
     bindE (raise_if (map_option column (fst u) \<noteq> Some expected) e) (\<lambda>_. Inr (snd u))"

definition unique_violation :: exn where
  "unique_violation = ForeignException ''UniqueViolation''"

text \<open>A JSONB column holds the document of the text it is given.\<close>

definition jsonb_document :: "json \<Rightarrow> exn + json" where
  "jsonb_document v = (case loads (dumps v) of None \<Rightarrow> Inl (ForeignException ''InvalidTextRepresentation'') | Some w \<Rightarrow> Inr w)"

section \<open>Statements\<close>

definition is_approval :: "pystr \<Rightarrow> pystr \<Rightarrow> approval_row \<Rightarrow> bool" where
  "is_approval m a r = (ar_merchant r = m \<and> ar_id r = a)"

definition is_case :: "pystr \<Rightarrow> pystr \<Rightarrow> case_row \<Rightarrow> bool" where
  "is_case m c r = (cr_merchant r = m \<and> cr_id r = c)"

definition pending_approval :: "pystr \<Rightarrow> pystr \<Rightarrow> approval_row \<Rightarrow> bool" where
  "pending_approval m a r = (is_approval m a r \<and> ar_verdict r = V_PENDING)"

definition waiting_case :: "pystr \<Rightarrow> pystr \<Rightarrow> int \<Rightarrow> case_row \<Rightarrow> bool" where
  "waiting_case m c v r = (is_case m c r \<and> cr_state r = APPROVAL_REQUIRED \<and> cr_version r = v)"

definition settle_approval :: "approval_verdict \<Rightarrow> pystr option \<Rightarrow> pystr \<Rightarrow> instant \<Rightarrow> approval_row \<Rightarrow> approval_row" where
  "settle_approval v subject reason now r =
     r\<lparr>ar_verdict := v, ar_approver := subject, ar_reason := Some reason, ar_acted_at := Some now\<rparr>"

definition suppress_case :: "pystr \<Rightarrow> instant \<Rightarrow> case_row \<Rightarrow> case_row" where
  "suppress_case reason now r =
     r\<lparr>cr_state := SUPPRESSED_POLICY, cr_version := cr_version r + 1, cr_terminal_reason := Some reason,
       cr_terminal_at := Some now\<rparr>"

definition queue_case :: "pystr \<Rightarrow> instant \<Rightarrow> case_row \<Rightarrow> case_row" where
  "queue_case action now r =
     r\<lparr>cr_state := ACTION_QUEUED, cr_version := cr_version r + 1, cr_attempts := cr_attempts r + 1,
       cr_last_action := Some action, cr_last_action_at := Some now\<rparr>"

definition find_job :: "pystr \<Rightarrow> pystr \<Rightarrow> approval_store \<Rightarrow> outbox_row option" where
  "find_job m key st = find (\<lambda>j. w_merchant_id j = m \<and> w_idempotency_key j = key) (as_jobs st)"

definition new_job :: "pystr \<Rightarrow> pystr \<Rightarrow> pystr \<Rightarrow> pystr \<Rightarrow> pystr \<Rightarrow> int \<Rightarrow> json \<Rightarrow> pystr \<Rightarrow> instant \<Rightarrow> outbox_row" where
  "new_job i m aggregate_type aggregate_id command_type version payload key now =
     \<lparr>w_status = R_PENDING, w_id = i, w_merchant_id = m, w_aggregate_type = aggregate_type, w_aggregate_id = aggregate_id,
      w_command_type = command_type, w_command_schema_version = version, w_command_payload = payload,
      w_idempotency_key = key, w_attempt_count = 0, w_max_attempts = 8, w_lease_owner = None, w_lease_token = None,
      w_lease_expires_at = None, w_delivery_version = 0, w_retry_mode = RNORMAL, w_next_attempt_at = now,
      w_last_error_code = None, w_last_error_at = None, w_completion_reference = None, w_completed_at = None,
      w_dead_letter_reason = None, w_dead_lettered_at = None, w_created_at = now, w_updated_at = now\<rparr>"

definition insert_job :: "outbox_row \<Rightarrow> approval_store \<Rightarrow> exn + approval_store" where
  "insert_job j st =
     (if \<exists>k\<in>set (as_jobs st). w_id k = w_id j \<or> w_merchant_id k = w_merchant_id j \<and> w_idempotency_key k = w_idempotency_key j
      then Inl unique_violation else Inr (st\<lparr>as_jobs := as_jobs st @ [j]\<rparr>))"

definition insert_action :: "action_row \<Rightarrow> approval_store \<Rightarrow> exn + approval_store" where
  "insert_action x st =
     (if \<exists>y\<in>set (as_actions st). xr_id y = xr_id x \<or> xr_merchant y = xr_merchant x \<and> xr_key y = xr_key x
      then Inl unique_violation else Inr (st\<lparr>as_actions := as_actions st @ [x]\<rparr>))"

text \<open>The statuses of an instrument that can still collect.\<close>

definition COLLECTABLE_STATUSES :: "instrument_status list" where
  "COLLECTABLE_STATUSES = [I_CREATING, I_UNCERTAIN, I_ISSUED, I_ACTIVE, I_CANCEL_PENDING]"

definition collectable_for :: "pystr \<Rightarrow> pystr \<Rightarrow> pystr \<Rightarrow> instrument_row \<Rightarrow> bool" where
  "collectable_for m ord cur r =
     (ir_merchant r = m \<and> ir_order r = ord \<and> ir_currency r = cur \<and> ir_status r \<in> set COLLECTABLE_STATUSES)"

definition insert_instrument :: "instrument_row \<Rightarrow> approval_store \<Rightarrow> exn + approval_store" where
  "insert_instrument x st =
     (if \<exists>y\<in>set (as_instruments st). ir_id y = ir_id x \<or> ir_merchant y = ir_merchant x \<and> ir_action y = ir_action x
          \<or> ir_account y = ir_account x \<and> ir_reference y = ir_reference x
          \<or> ir_status x \<in> set COLLECTABLE_STATUSES \<and> collectable_for (ir_merchant x) (ir_order x) (ir_currency x) y
      then Inl unique_violation else Inr (st\<lparr>as_instruments := as_instruments st @ [x]\<rparr>))"

text \<open>\<^verbatim>\<open>reason_code.upper()\<close> of a machine code.\<close>

definition upper_char :: "char \<Rightarrow> char" where
  "upper_char c = (if is_lower c then char_of (code c - 32) else c)"

definition append_audit :: "audit_fact \<Rightarrow> approval_store \<Rightarrow> approval_store" where
  "append_audit f st = st\<lparr>as_audit := as_audit st @ [f]\<rparr>"

end
