(* ===== verification/Approval_Command.thy ===== *)
theory Approval_Command
  imports Command_Codec Audited_Controls
begin

text \<open>
  \<^verbatim>\<open>services/control_plane/approval_command.py\<close>: the durable command by which an operator's approval
  reaches the worker that materializes it. A payload is a decoded JSON value, as the JSONB column returns it.
\<close>

section \<open>The command\<close>

definition MATERIALIZE_COMMAND_TYPE :: pystr where
  "MATERIALIZE_COMMAND_TYPE = ''MATERIALIZE_APPROVED_ACTION''"

definition MATERIALIZE_COMMAND_VERSION :: int where
  "MATERIALIZE_COMMAND_VERSION = 1"

definition MATERIALIZE_COMMAND_SCHEMA :: pystr where
  "MATERIALIZE_COMMAND_SCHEMA = ''retrywise-materialize-approved-action''"

abbreviation command_codec_error :: "pystr \<Rightarrow> exn + 'a" where
  "command_codec_error msg \<equiv> Inl (ApprovalCommandCodecError msg)"

definition is_operator_subject :: "pystr \<Rightarrow> bool" where
  "is_operator_subject s = (startswith s ''operator:'' \<and> is_digest (drop 9 s))"

definition is_approval_reason :: "pystr \<Rightarrow> bool" where
  "is_approval_reason s = (case s of [] \<Rightarrow> False
     | c # cs \<Rightarrow> is_lower c \<and> length cs \<le> 99 \<and> list_all (\<lambda>x. is_lower x \<or> is_digit x \<or> x = CHR ''_'') cs)"

definition command_ulid :: "json \<Rightarrow> pystr \<Rightarrow> exn + pystr" where
  "command_ulid value fld = (case value of
      JStr s \<Rightarrow> if is_ulid s then Inr s else command_codec_error (fld @ '' is invalid'')
    | _ \<Rightarrow> command_codec_error (fld @ '' is invalid''))"

record materialize_command =
  mac_merchant_id :: pystr
  mac_approval_id :: pystr
  mac_operator_subject :: pystr
  mac_reason_code :: pystr
  mac_request_digest :: pystr

definition mk_materialize_command :: "materialize_command \<Rightarrow> exn + materialize_command" where
  "mk_materialize_command c =
     bindE (command_ulid (JStr (mac_merchant_id c)) ''merchant_id'') (\<lambda>_.
     bindE (command_ulid (JStr (mac_approval_id c)) ''approval_id'') (\<lambda>_.
     bindE (raise_if (\<not> is_operator_subject (mac_operator_subject c))
       (ApprovalCommandCodecError ''operator_subject is invalid'')) (\<lambda>_.
     bindE (raise_if (\<not> is_approval_reason (mac_reason_code c))
       (ApprovalCommandCodecError ''reason_code is invalid'')) (\<lambda>_.
     bindE (raise_if (\<not> is_digest (mac_request_digest c))
       (ApprovalCommandCodecError ''request idempotency digest is invalid'')) (\<lambda>_.
     Inr c)))))"

definition materialize_to_primitive :: "materialize_command \<Rightarrow> json" where
  "materialize_to_primitive c = JObj
     [(''approval_id'', JStr (mac_approval_id c)),
      (''merchant_id'', JStr (mac_merchant_id c)),
      (''operator_subject'', JStr (mac_operator_subject c)),
      (''reason_code'', JStr (mac_reason_code c)),
      (''request_idempotency_sha256'', JStr (mac_request_digest c)),
      (''schema'', JStr MATERIALIZE_COMMAND_SCHEMA),
      (''schema_version'', JInt MATERIALIZE_COMMAND_VERSION)]"

definition materialize_payload_digest :: "materialize_command \<Rightarrow> pystr" where
  "materialize_payload_digest c = canonical_digest (materialize_to_primitive c)"

section \<open>Decoding\<close>

text \<open>\<^verbatim>\<open>value == 1\<close> of a decoded JSON value: the integer, \<^verbatim>\<open>True\<close>, and every float literal that rounds to
  1.0, which is those between the midpoints to its two neighbours (both midpoints round to 1.0).\<close>

definition rounds_to_one :: "pystr \<Rightarrow> bool" where
  "rounds_to_one t = (case decimal_of_string t of
      Some (Dec n m e) \<Rightarrow> 1 - 1 / 2 ^ 54 \<le> dec_rat (Dec n m e) \<and> dec_rat (Dec n m e) \<le> 1 + 1 / 2 ^ 53
    | _ \<Rightarrow> False)"

definition equals_one :: "json \<Rightarrow> bool" where
  "equals_one v = (case v of JInt i \<Rightarrow> i = 1 | JBool b \<Rightarrow> b | JFloat t \<Rightarrow> rounds_to_one t | _ \<Rightarrow> False)"

definition text_or_empty :: "json \<Rightarrow> pystr" where
  "text_or_empty v = (case v of JStr s \<Rightarrow> s | _ \<Rightarrow> [])"

definition MATERIALIZE_FIELDS :: "pystr list" where
  "MATERIALIZE_FIELDS =
     [''approval_id'', ''merchant_id'', ''operator_subject'', ''reason_code'', ''request_idempotency_sha256'', ''schema'',
      ''schema_version'']"

definition decode_materialize_command :: "json \<Rightarrow> pystr \<Rightarrow> int \<Rightarrow> exn + materialize_command" where
  "decode_materialize_command value command_type version =
     bindE (raise_if (command_type \<noteq> MATERIALIZE_COMMAND_TYPE)
       (ApprovalCommandCodecError ''command type is invalid'')) (\<lambda>_.
     bindE (raise_if (version \<noteq> MATERIALIZE_COMMAND_VERSION)
       (ApprovalCommandCodecError ''command schema version is invalid'')) (\<lambda>_.
     case value of
       JObj kvs \<Rightarrow>
         bindE (raise_if (set (map fst kvs) \<noteq> set MATERIALIZE_FIELDS)
           (ApprovalCommandCodecError ''command payload fields are invalid'')) (\<lambda>_.
         bindE (raise_if (obj_get kvs ''schema'' \<noteq> JStr MATERIALIZE_COMMAND_SCHEMA
             \<or> \<not> equals_one (obj_get kvs ''schema_version''))
           (ApprovalCommandCodecError ''command payload schema is invalid'')) (\<lambda>_.
         bindE (command_ulid (obj_get kvs ''merchant_id'') ''merchant_id'') (\<lambda>merchant.
         bindE (command_ulid (obj_get kvs ''approval_id'') ''approval_id'') (\<lambda>appr.
         mk_materialize_command
           \<lparr>mac_merchant_id = merchant, mac_approval_id = appr,
            mac_operator_subject = text_or_empty (obj_get kvs ''operator_subject''),
            mac_reason_code = text_or_empty (obj_get kvs ''reason_code''),
            mac_request_digest = text_or_empty (obj_get kvs ''request_idempotency_sha256'')\<rparr>))))
     | _ \<Rightarrow> command_codec_error ''command payload must be an object''))"

section \<open>Lemmas\<close>

lemma command_ulid_Inr [simp]: "command_ulid v f = Inr s \<longleftrightarrow> v = JStr s \<and> is_ulid s"
  by (auto simp: command_ulid_def split: json.splits if_splits)

definition materialize_ok :: "materialize_command \<Rightarrow> bool" where
  "materialize_ok c =
     (is_ulid (mac_merchant_id c) \<and> is_ulid (mac_approval_id c) \<and> is_operator_subject (mac_operator_subject c)
      \<and> is_approval_reason (mac_reason_code c) \<and> is_digest (mac_request_digest c))"

lemma mk_materialize_Inr [simp]: "mk_materialize_command c = Inr d \<longleftrightarrow> d = c \<and> materialize_ok c"
  by (auto simp: mk_materialize_command_def materialize_ok_def)

lemma materialize_primitive_sorted: "sorted_json (materialize_to_primitive c)" "json_ok (materialize_to_primitive c)"
  by (simp_all add: materialize_to_primitive_def)

text \<open>The text of a command reads back as the same JSON object, and the object as the same command.\<close>

lemma materialize_text: "loads (dumps (materialize_to_primitive c)) = Some (materialize_to_primitive c)"
  using loads_dumps [OF materialize_primitive_sorted(2)] canon_sorted [OF materialize_primitive_sorted(1)] by simp

lemma decode_materialized:
  "materialize_ok c \<Longrightarrow>
    decode_materialize_command (materialize_to_primitive c) MATERIALIZE_COMMAND_TYPE MATERIALIZE_COMMAND_VERSION = Inr c"
  by (simp add: decode_materialize_command_def materialize_to_primitive_def MATERIALIZE_FIELDS_def obj_get_def
      equals_one_def MATERIALIZE_COMMAND_VERSION_def text_or_empty_def) (simp add: materialize_ok_def)

lemma decode_materialize_ok:
  "decode_materialize_command v t n = Inr c \<Longrightarrow>
     materialize_ok c \<and> t = MATERIALIZE_COMMAND_TYPE \<and> n = MATERIALIZE_COMMAND_VERSION"
  by (auto simp: decode_materialize_command_def split: json.splits)

lemma subject_of_digest: "is_digest d \<Longrightarrow> is_operator_subject (''operator:'' @ d)"
  by (simp add: is_operator_subject_def startswith_def)

end
