(* ===== verification/Approval_Request.thy ===== *)
theory Approval_Request
  imports Approval_Store Approval_Command
begin

text \<open>
  \<^verbatim>\<open>services/control_plane/approval_request.py\<close>: an operator approves or rejects a pending approval. A
  rejection and an expiry settle the approval and suppress its case at once; an approval is recorded as a durable
  command for the worker, once. Rows are typed, so the shape checks on driver rows do not appear; the audit
  appender is injected, and \<open>audited\<close> says whether there is one.
\<close>

section \<open>Requests and results\<close>

record approval_request =
  aq_merchant_id :: pystr
  aq_approval_id :: pystr
  aq_operator_subject :: pystr
  aq_verdict :: pystr
  aq_reason_code :: pystr
  aq_idempotency_key :: pystr

record approval_outcome =
  ao_approval_id :: pystr
  ao_verdict :: pystr
  ao_case_id :: pystr
  ao_case_version :: int
  ao_job_id :: "pystr option"
  ao_command_status :: "pystr option"

abbreviation request_conflict :: "pystr \<Rightarrow> exn + 'a" where
  "request_conflict msg \<equiv> Inl (ApprovalRequestConflict msg)"

definition request_ulid :: "pystr \<Rightarrow> pystr \<Rightarrow> exn + pystr" where
  "request_ulid value fld = (if is_ulid value then Inr value else Inl (ValueError (fld @ '' is invalid'')))"

definition check_approval_request :: "approval_request \<Rightarrow> exn + unit" where
  "check_approval_request q =
     bindE (request_ulid (aq_merchant_id q) ''merchant_id'') (\<lambda>_.
     bindE (request_ulid (aq_approval_id q) ''approval_id'') (\<lambda>_.
     bindE (raise_if (aq_verdict q \<notin> {''APPROVED'', ''REJECTED''}) (ValueError ''verdict must be APPROVED or REJECTED'')) (\<lambda>_.
     bindE (raise_if (\<not> is_approval_reason (aq_reason_code q)) (ValueError ''reason_code is invalid'')) (\<lambda>_.
     bindE (raise_if (aq_operator_subject q = [] \<or> 200 < length (aq_operator_subject q))
       (ValueError ''operator_subject is invalid'')) (\<lambda>_.
     raise_if (aq_idempotency_key q \<noteq> strip (aq_idempotency_key q)
         \<or> \<not> (16 \<le> length (aq_idempotency_key q) \<and> length (aq_idempotency_key q) \<le> 128))
       (ValueError ''idempotency_key is invalid''))))))"

definition operator_identity :: "pystr \<Rightarrow> pystr" where
  "operator_identity subject = ''operator:'' @ sha256_hex (utf8 subject)"

definition approval_job_key :: "pystr \<Rightarrow> pystr" where
  "approval_job_key approval_id = ''materialize-approved-action:'' @ approval_id"

definition request_command :: "approval_request \<Rightarrow> exn + materialize_command" where
  "request_command q = mk_materialize_command
     \<lparr>mac_merchant_id = aq_merchant_id q, mac_approval_id = aq_approval_id q,
      mac_operator_subject = operator_identity (aq_operator_subject q), mac_reason_code = aq_reason_code q,
      mac_request_digest = sha256_hex (utf8 (aq_idempotency_key q))\<rparr>"

section \<open>The transaction\<close>

text \<open>\<^verbatim>\<open>_LOCK_APPROVAL\<close>: the approval joined with its case.\<close>

definition lock_approval :: "pystr \<Rightarrow> pystr \<Rightarrow> approval_store \<Rightarrow> (approval_row \<times> case_row) option" where
  "lock_approval m a st = (case find (is_approval m a) (as_approvals st) of
      None \<Rightarrow> None
    | Some r \<Rightarrow> map_option (Pair r) (find (is_case m (ar_case r)) (as_cases st)))"

definition row_status_text :: "row_status \<Rightarrow> pystr" where
  "row_status_text s = (case s of R_PENDING \<Rightarrow> ''PENDING'' | R_RETRY_SCHEDULED \<Rightarrow> ''RETRY_SCHEDULED''
     | R_IN_PROGRESS \<Rightarrow> ''IN_PROGRESS'' | R_SUCCEEDED \<Rightarrow> ''SUCCEEDED'' | R_DEAD_LETTER \<Rightarrow> ''DEAD_LETTER'')"

definition request_audit ::
  "bool \<Rightarrow> tx_env \<Rightarrow> nat \<Rightarrow> nat \<Rightarrow> approval_request \<Rightarrow> approval_row \<Rightarrow> pystr \<Rightarrow> pystr \<Rightarrow> approval_store \<Rightarrow> exn + approval_store" where
  "request_audit audited env i n q r verdict reason st =
     (if \<not> audited then Inr st
      else bindE (request_ulid (te_ids env n) ''audit_entry_id'') (\<lambda>entry_id.
        statement env i (Inr (append_audit
          \<lparr>af_id = entry_id, af_merchant = aq_merchant_id q, af_case = ar_case r,
           af_entry_type = (if verdict = ''REJECTED'' then ''APPROVAL_ACTED'' else ''APPROVAL_REQUESTED''),
           af_subject = operator_identity (aq_operator_subject q),
           af_facts = [(''approval_id'', aq_approval_id q), (''approval_verdict'', verdict),
                       (''reason_code'', map upper_char reason)],
           af_created_at = te_now env\<rparr> st))))"

text \<open>A settlement: the approval leaves \<^verbatim>\<open>PENDING\<close>, its case is suppressed at the version that was locked.\<close>

definition settle_and_suppress ::
  "bool \<Rightarrow> tx_env \<Rightarrow> nat \<Rightarrow> approval_request \<Rightarrow> approval_row \<Rightarrow> case_row \<Rightarrow> approval_verdict \<Rightarrow> pystr option \<Rightarrow> pystr
     \<Rightarrow> pystr \<Rightarrow> pystr \<Rightarrow> approval_store \<Rightarrow> exn + approval_outcome \<times> approval_store" where
  "settle_and_suppress audited env i q r c v subject reason approval_error case_error st =
     bindE (statement env i (updated_one
        (update_rows (pending_approval (aq_merchant_id q) (aq_approval_id q)) (settle_approval v subject reason (te_now env))
           (as_approvals st)) ar_verdict v (ApprovalRequestConflict approval_error))) (\<lambda>approvals.
     bindE (statement env (i + 1) (updated_one
        (update_rows (waiting_case (aq_merchant_id q) (ar_case r) (cr_version c)) (suppress_case reason (te_now env))
           (as_cases st)) cr_version (cr_version c + 1) (ApprovalRequestConflict case_error))) (\<lambda>cases.
     bindE (request_audit audited env (i + 2) 0 q r (verdict_text v) reason (st\<lparr>as_approvals := approvals, as_cases := cases\<rparr>)) (\<lambda>st'.
     Inr (\<lparr>ao_approval_id = aq_approval_id q, ao_verdict = verdict_text v, ao_case_id = ar_case r,
           ao_case_version = cr_version c + 1, ao_job_id = None, ao_command_status = None\<rparr>, st'))))"

definition queued_outcome :: "approval_request \<Rightarrow> approval_row \<Rightarrow> case_row \<Rightarrow> pystr \<Rightarrow> pystr \<Rightarrow> approval_outcome" where
  "queued_outcome q r c job status =
     \<lparr>ao_approval_id = aq_approval_id q, ao_verdict = ''APPROVAL_QUEUED'', ao_case_id = ar_case r,
      ao_case_version = cr_version c, ao_job_id = Some job, ao_command_status = Some status\<rparr>"

definition queue_approval ::
  "bool \<Rightarrow> tx_env \<Rightarrow> approval_request \<Rightarrow> approval_row \<Rightarrow> case_row \<Rightarrow> approval_store \<Rightarrow> exn + approval_outcome \<times> approval_store" where
  "queue_approval audited env q r c st =
     bindE (request_command q) (\<lambda>command.
     let payload = materialize_to_primitive command; key = approval_job_key (aq_approval_id q) in
     bindE (request_ulid (te_ids env 0) ''outbox_job_id'') (\<lambda>job_id.
     bindE (statement env 1 (Inr (find_job (aq_merchant_id q) key st))) (\<lambda>existing. case existing of
       Some j \<Rightarrow>
         bindE (raise_if (w_command_payload j \<noteq> payload) (ApprovalRequestConflict ''approval_command_conflict'')) (\<lambda>_.
         Inr (queued_outcome q r c (w_id j) (row_status_text (w_status j)), st))
     | None \<Rightarrow>
         bindE (jsonb_document payload) (\<lambda>document.
         bindE (statement env 2 (insert_job (new_job job_id (aq_merchant_id q) ''APPROVAL'' (aq_approval_id q)
            MATERIALIZE_COMMAND_TYPE MATERIALIZE_COMMAND_VERSION document key (te_now env)) st)) (\<lambda>st1.
         bindE (request_audit audited env 3 1 q r ''APPROVAL_QUEUED'' (aq_reason_code q) st1) (\<lambda>st2.
         Inr (queued_outcome q r c job_id ''PENDING'', st2)))))))"

definition reject_approval ::
  "bool \<Rightarrow> tx_env \<Rightarrow> approval_request \<Rightarrow> approval_row \<Rightarrow> case_row \<Rightarrow> approval_store \<Rightarrow> exn + approval_outcome \<times> approval_store" where
  "reject_approval audited env q r c st =
     bindE (statement env 1 (Inr (find_job (aq_merchant_id q) (approval_job_key (aq_approval_id q)) st))) (\<lambda>existing.
     bindE (raise_if (existing \<noteq> None) (ApprovalRequestConflict ''approval_materialization_already_queued'')) (\<lambda>_.
     settle_and_suppress audited env 2 q r c V_REJECTED (Some (operator_identity (aq_operator_subject q)))
       (aq_reason_code q) ''approval_rejection_failed'' ''approval_case_rejection_failed'' st))"

definition final_outcome :: "approval_request \<Rightarrow> approval_row \<Rightarrow> case_row \<Rightarrow> exn + approval_outcome" where
  "final_outcome q r c =
     (if verdict_text (ar_verdict r) = aq_verdict q
      then Inr \<lparr>ao_approval_id = aq_approval_id q, ao_verdict = verdict_text (ar_verdict r), ao_case_id = ar_case r,
             ao_case_version = cr_version c, ao_job_id = None, ao_command_status = None\<rparr>
      else request_conflict ''approval_already_final'')"

definition request_transaction ::
  "bool \<Rightarrow> tx_env \<Rightarrow> approval_request \<Rightarrow> approval_store \<Rightarrow> exn + approval_outcome \<times> approval_store" where
  "request_transaction audited env q st =
     bindE (statement env 0 (Inr (lock_approval (aq_merchant_id q) (aq_approval_id q) st))) (\<lambda>locked. case locked of
       None \<Rightarrow> Inl (ApprovalRequestNotFound ''approval_not_found'')
     | Some (r, c) \<Rightarrow>
         bindE (request_ulid (ar_case r) ''recovery_case_id'') (\<lambda>_.
         if ar_verdict r \<noteq> V_PENDING then bindE (final_outcome q r c) (\<lambda>outcome. Inr (outcome, st))
         else if cr_state c \<noteq> APPROVAL_REQUIRED then request_conflict ''approval_case_not_actionable''
         else if ar_expires_at r \<le> te_now env then
           settle_and_suppress audited env 1 q r c V_EXPIRED (ar_approver r) ''approval_expired''
             ''approval_expiry_failed'' ''approval_case_expiry_failed'' st
         else if aq_verdict q = ''REJECTED'' then reject_approval audited env q r c st
         else queue_approval audited env q r c st))"

definition act_on_request ::
  "bool \<Rightarrow> tx_env \<Rightarrow> approval_request \<Rightarrow> approval_store \<Rightarrow> (exn + approval_outcome) \<times> approval_store" where
  "act_on_request audited env q st = (case check_approval_request q of
      Inl e \<Rightarrow> (Inl e, st)
    | Inr _ \<Rightarrow> commit (request_transaction audited env q) st)"

end
