(* ===== verification/Assessment_Reads.thy ===== *)
theory Assessment_Reads
  imports Audited_Controls States Values PyTime Canonical
begin

text \<open>
  The fresh reads of \<^verbatim>\<open>services/control_plane/assessment_intent.py\<close> that approval and assessment rest on: the
  queries sent to the two injected readers and the answers they construct. A reader is a port of the model; its
  answer goes through the constructor here, so an answer is well formed or the read raises.
\<close>

section \<open>Field checks\<close>

definition assessment_ulid :: "pystr \<Rightarrow> pystr \<Rightarrow> exn + unit" where
  "assessment_ulid value fld = raise_if (\<not> is_ulid value) (ValueError (fld @ '' must be an uppercase Crockford ULID''))"

definition assessment_positive :: "int \<Rightarrow> pystr \<Rightarrow> exn + unit" where
  "assessment_positive value fld = raise_if (value \<le> 0) (ValueError (fld @ '' must be a positive integer''))"

definition assessment_nonnegative :: "int \<Rightarrow> pystr \<Rightarrow> exn + unit" where
  "assessment_nonnegative value fld = raise_if (value < 0) (ValueError (fld @ '' must be a non-negative integer''))"

definition clean_ascii :: "pystr \<Rightarrow> nat \<Rightarrow> bool" where
  "clean_ascii value maximum =
     (value \<noteq> [] \<and> value = strip value \<and> length value \<le> maximum
      \<and> list_all (\<lambda>c. 32 \<le> code c \<and> code c < 127) value)"

definition is_resource_char :: "char \<Rightarrow> bool" where
  "is_resource_char c = (is_upper c \<or> is_lower c \<or> is_digit c \<or> c = CHR ''_'' \<or> c = CHR ''-'')"

text \<open>\<^verbatim>\<open>^[A-Za-z][A-Za-z0-9_-]{1,127}$\<close>\<close>

definition is_resource_id :: "pystr \<Rightarrow> bool" where
  "is_resource_id s = (case s of [] \<Rightarrow> False
     | c # cs \<Rightarrow> (is_upper c \<or> is_lower c) \<and> 1 \<le> length cs \<and> length cs \<le> 127 \<and> list_all is_resource_char cs)"

definition assessment_resource_id :: "pystr \<Rightarrow> pystr \<Rightarrow> exn + unit" where
  "assessment_resource_id value fld =
     bindE (raise_if (\<not> clean_ascii value 128) (ValueError (fld @ '' must be clean bounded ASCII text''))) (\<lambda>_.
     raise_if (\<not> is_resource_id value) (ValueError (fld @ '' must be an opaque provider resource id'')))"

text \<open>\<^verbatim>\<open>^acc_[A-Za-z0-9_-]{1,124}$\<close>\<close>

definition is_account_identifier :: "pystr \<Rightarrow> bool" where
  "is_account_identifier s =
     (startswith s ''acc_'' \<and> 1 \<le> length (drop 4 s) \<and> length (drop 4 s) \<le> 124 \<and> list_all is_resource_char (drop 4 s))"

text \<open>\<^verbatim>\<open>^[a-z][a-z0-9_]{0,63}$\<close>\<close>

definition is_machine_fact :: "pystr \<Rightarrow> bool" where
  "is_machine_fact s = (case s of [] \<Rightarrow> False
     | c # cs \<Rightarrow> is_lower c \<and> length cs \<le> 63 \<and> list_all (\<lambda>x. is_lower x \<or> is_digit x \<or> x = CHR ''_'') cs)"

definition optional_machine_fact :: "pystr option \<Rightarrow> pystr \<Rightarrow> exn + unit" where
  "optional_machine_fact value fld = raise_if (case value of None \<Rightarrow> False | Some s \<Rightarrow> \<not> is_machine_fact s)
     (ValueError (fld @ '' must be a canonical machine fact''))"

text \<open>\<^verbatim>\<open>value.astimezone(UTC)\<close> of an aware time.\<close>

definition assessment_utc :: "datetime \<Rightarrow> pystr \<Rightarrow> exn + instant" where
  "assessment_utc d fld = (case utcoffset d of
      None \<Rightarrow> Inl (ValueError (fld @ '' must be timezone-aware''))
    | Some offset \<Rightarrow> astimezone_utc (wall d) offset)"

section \<open>Provider truth\<close>

record truth_query =
  tq_merchant_id :: pystr
  tq_account_id :: pystr
  tq_account_identifier :: pystr
  tq_binding_version :: int
  tq_payment_record_id :: pystr
  tq_payment_id :: pystr
  tq_order_id :: pystr

definition mk_truth_query :: "truth_query \<Rightarrow> exn + truth_query" where
  "mk_truth_query q =
     bindE (assessment_ulid (tq_merchant_id q) ''merchant_id'') (\<lambda>_.
     bindE (assessment_ulid (tq_account_id q) ''provider_account_id'') (\<lambda>_.
     bindE (assessment_ulid (tq_payment_record_id q) ''payment_record_id'') (\<lambda>_.
     bindE (raise_if (\<not> is_account_identifier (tq_account_identifier q))
       (ValueError ''provider_account_identifier is malformed'')) (\<lambda>_.
     bindE (assessment_positive (tq_binding_version q) ''credential_binding_version'') (\<lambda>_.
     bindE (assessment_resource_id (tq_payment_id q) ''provider_payment_id'') (\<lambda>_.
     bindE (assessment_resource_id (tq_order_id q) ''provider_order_id'') (\<lambda>_.
     Inr q)))))))"

datatype provider_payment_status = PP_CREATED | PP_AUTHORIZED | PP_CAPTURED | PP_REFUNDED | PP_FAILED

record payment_truth =
  pt_merchant_id :: pystr
  pt_account_id :: pystr
  pt_binding_version :: int
  pt_payment_id :: pystr
  pt_order_id :: pystr
  pt_status :: provider_payment_status
  pt_amount_minor :: int
  pt_currency :: pystr
  pt_captured_minor :: int
  pt_refunded_minor :: int
  pt_payment_method :: pystr
  pt_error_source :: "pystr option"
  pt_error_step :: "pystr option"
  pt_error_reason :: "pystr option"
  pt_observed_at :: instant

definition check_provider_money :: "payment_truth \<Rightarrow> exn + unit" where
  "check_provider_money t =
     bindE (raise_if (pt_amount_minor t < pt_captured_minor t \<or> pt_captured_minor t < pt_refunded_minor t)
       (ValueError ''provider money is outside the payment amount'')) (\<lambda>_.
     bindE (raise_if (pt_status t \<in> {PP_CREATED, PP_AUTHORIZED, PP_FAILED}
         \<and> (pt_captured_minor t \<noteq> 0 \<or> pt_refunded_minor t \<noteq> 0))
       (ValueError ''non-captured provider status cannot contain collected money'')) (\<lambda>_.
     bindE (raise_if (pt_status t = PP_CAPTURED \<and> pt_captured_minor t = 0)
       (ValueError ''captured provider status requires collected money'')) (\<lambda>_.
     raise_if (pt_status t = PP_REFUNDED \<and> (pt_captured_minor t = 0 \<or> pt_refunded_minor t = 0))
       (ValueError ''refunded provider status requires capture and refund money''))))"

definition check_failure_facts :: "payment_truth \<Rightarrow> exn + unit" where
  "check_failure_facts t =
     bindE (optional_machine_fact (pt_error_source t) ''error_source'') (\<lambda>_.
     bindE (optional_machine_fact (pt_error_step t) ''error_step'') (\<lambda>_.
     bindE (optional_machine_fact (pt_error_reason t) ''error_reason'') (\<lambda>_.
     bindE (raise_if (pt_status t = PP_FAILED
         \<and> (pt_error_source t = None \<or> pt_error_step t = None \<or> pt_error_reason t = None))
       (ValueError ''failed provider truth requires closed failure facts'')) (\<lambda>_.
     raise_if (pt_status t \<noteq> PP_FAILED
         \<and> (pt_error_source t \<noteq> None \<or> pt_error_step t \<noteq> None \<or> pt_error_reason t \<noteq> None))
       (ValueError ''non-failed provider truth cannot carry stale failure facts'')))))"

definition mk_payment_truth :: "payment_truth \<Rightarrow> datetime \<Rightarrow> exn + payment_truth" where
  "mk_payment_truth t observed =
     bindE (assessment_ulid (pt_merchant_id t) ''merchant_id'') (\<lambda>_.
     bindE (assessment_ulid (pt_account_id t) ''provider_account_id'') (\<lambda>_.
     bindE (assessment_positive (pt_binding_version t) ''credential_binding_version'') (\<lambda>_.
     bindE (assessment_resource_id (pt_payment_id t) ''provider_payment_id'') (\<lambda>_.
     bindE (assessment_resource_id (pt_order_id t) ''provider_order_id'') (\<lambda>_.
     bindE (assessment_positive (pt_amount_minor t) ''amount_minor'') (\<lambda>_.
     bindE (mk_money (pt_amount_minor t) (pt_currency t)) (\<lambda>_.
     bindE (assessment_nonnegative (pt_captured_minor t) ''captured_minor'') (\<lambda>_.
     bindE (assessment_nonnegative (pt_refunded_minor t) ''refunded_minor'') (\<lambda>_.
     bindE (check_provider_money t) (\<lambda>_.
     bindE (require_payment_method (pt_payment_method t) ''payment_method'') (\<lambda>_.
     bindE (check_failure_facts t) (\<lambda>_.
     bindE (assessment_utc observed ''observed_at'') (\<lambda>observed_at.
     Inr (t\<lparr>pt_observed_at := observed_at\<rparr>))))))))))))))"

definition canonical_payment_state_of :: "payment_truth \<Rightarrow> canonical_payment_state" where
  "canonical_payment_state_of t =
     (if pt_status t = PP_CREATED \<or> pt_status t = PP_FAILED then UNPAID
      else if pt_status t = PP_AUTHORIZED then AUTHORIZED
      else if pt_captured_minor t < pt_amount_minor t then PARTIALLY_PAID
      else PAID)"

section \<open>Method health\<close>

record health_query =
  hq_merchant_id :: pystr
  hq_account_id :: pystr
  hq_payment_method :: pystr
  hq_incident_id :: "pystr option"

definition optional_ulid :: "pystr option \<Rightarrow> pystr \<Rightarrow> exn + unit" where
  "optional_ulid value fld = (case value of None \<Rightarrow> Inr () | Some s \<Rightarrow> assessment_ulid s fld)"

definition mk_health_query :: "health_query \<Rightarrow> exn + health_query" where
  "mk_health_query q =
     bindE (assessment_ulid (hq_merchant_id q) ''merchant_id'') (\<lambda>_.
     bindE (assessment_ulid (hq_account_id q) ''provider_account_id'') (\<lambda>_.
     bindE (require_payment_method (hq_payment_method q) ''payment_method'') (\<lambda>_.
     bindE (optional_ulid (hq_incident_id q) ''incident_id'') (\<lambda>_.
     Inr q))))"

record health_truth =
  ht_merchant_id :: pystr
  ht_account_id :: pystr
  ht_payment_method :: pystr
  ht_incident_state :: incident_state
  ht_observed_at :: instant
  ht_detector_version :: pystr
  ht_threshold_version :: pystr
  ht_incident_id :: "pystr option"

definition mk_health_truth :: "health_truth \<Rightarrow> datetime \<Rightarrow> exn + health_truth" where
  "mk_health_truth h observed =
     bindE (assessment_ulid (ht_merchant_id h) ''merchant_id'') (\<lambda>_.
     bindE (assessment_ulid (ht_account_id h) ''provider_account_id'') (\<lambda>_.
     bindE (require_payment_method (ht_payment_method h) ''payment_method'') (\<lambda>_.
     bindE (assessment_utc observed ''method_health_observed_at'') (\<lambda>observed_at.
     bindE (require_identifier (ht_detector_version h) ''detector_version'') (\<lambda>_.
     bindE (require_identifier (ht_threshold_version h) ''threshold_version'') (\<lambda>_.
     bindE (optional_ulid (ht_incident_id h) ''incident_id'') (\<lambda>_.
     bindE (raise_if (ht_incident_state h \<noteq> NORMAL \<and> ht_incident_id h = None)
       (ValueError ''non-normal method health requires a durable incident id'')) (\<lambda>_.
     Inr (h\<lparr>ht_observed_at := observed_at\<rparr>)))))))))"

section \<open>Lemmas\<close>

text \<open>A well-formed answer reads unpaid exactly when nothing was collected and nothing is authorized.\<close>

lemma unpaid_truth:
  assumes "mk_payment_truth raw d = Inr t"
  shows "canonical_payment_state_of t = UNPAID \<longleftrightarrow> pt_captured_minor t = 0 \<and> pt_status t \<noteq> PP_AUTHORIZED"
  using assms by (cases "pt_status raw")
    (auto simp: mk_payment_truth_def canonical_payment_state_of_def check_provider_money_def)

end
