(* ===== verification/Approval_Service.thy ===== *)
theory Approval_Service
  imports Approval_Request Assessment_Reads Create_Codec
begin

text \<open>
  \<^verbatim>\<open>services/control_plane/approval_service.py\<close>: the worker's side of an approval. The service loads the
  pending approval, reads the provider and the incident detector afresh, evaluates the gate, and in one
  transaction, on the condition that nothing it loaded has changed, either materializes the effect (action,
  instrument, queued command) or settles the approval without one. The two readers are ports on the store: while
  one of them runs, other transactions may change it.
\<close>

section \<open>The snapshot\<close>

record approval_snapshot =
  sn_approval_id :: pystr
  sn_decision_id :: pystr
  sn_decision_version :: int
  sn_requested_at :: instant
  sn_expires_at :: instant
  sn_proposal_value :: json
  sn_policy_version :: pystr
  sn_case_id :: pystr
  sn_order_id :: pystr
  sn_account_id :: pystr
  sn_currency :: pystr
  sn_amount_minor :: int
  sn_case_state :: recovery_state
  sn_case_version :: int
  sn_deadline :: "instant option"
  sn_attempt_count :: int
  sn_contact_count :: int
  sn_incident_id :: "pystr option"
  sn_merchant_status :: pystr
  sn_merchant_kill_switch :: bool
  sn_account_identifier :: pystr
  sn_environment :: pystr
  sn_account_enabled :: bool
  sn_binding_version :: int
  sn_truth :: canonical_payment_state
  sn_payment_record_id :: pystr
  sn_payment_id :: pystr
  sn_payment_order_id :: pystr
  sn_payment_method :: "pystr option"
  sn_active_instruments :: int
  sn_database_now :: instant

text \<open>\<^verbatim>\<open>JOIN LATERAL (... ORDER BY provider_snapshot_at DESC, id LIMIT 1)\<close>.\<close>

definition latest_payment :: "case_row \<Rightarrow> approval_store \<Rightarrow> payment_row option" where
  "latest_payment c st =
     (case sort_key (\<lambda>p. - py_snapshot_at p) (sort_key py_id (filter (\<lambda>p. py_merchant p = cr_merchant c
         \<and> py_account p = cr_account c \<and> py_order p = cr_order c \<and> py_currency p = cr_currency c) (as_payments st))) of
        [] \<Rightarrow> None | p # _ \<Rightarrow> Some p)"

definition live_instruments :: "case_row \<Rightarrow> approval_store \<Rightarrow> int" where
  "live_instruments c st =
     int (length (filter (collectable_for (cr_merchant c) (cr_order c) (cr_currency c)) (as_instruments st)))"

text \<open>The rows \<^verbatim>\<open>_LOAD_PENDING\<close> joins to the approval, by the primary keys of their tables.\<close>

definition pending_row :: "pystr \<Rightarrow> pystr \<Rightarrow> approval_store \<Rightarrow> approval_row option" where
  "pending_row m a st = find (pending_approval m a) (as_approvals st)"

definition pending_decision :: "approval_row \<Rightarrow> approval_store \<Rightarrow> decision_row option" where
  "pending_decision r st = find (\<lambda>d. dr_merchant d = ar_merchant r \<and> dr_id d = ar_decision r \<and> dr_case d = ar_case r
     \<and> dr_version d = ar_version r) (as_decisions st)"

definition pending_case :: "approval_row \<Rightarrow> approval_store \<Rightarrow> case_row option" where
  "pending_case r st = find (\<lambda>c. is_case (ar_merchant r) (ar_case r) c \<and> cr_state c = APPROVAL_REQUIRED) (as_cases st)"

definition case_account :: "case_row \<Rightarrow> approval_store \<Rightarrow> account_row option" where
  "case_account c st = find (\<lambda>x. cc_merchant x = cr_merchant c \<and> cc_id x = cr_account c) (as_accounts st)"

definition case_order :: "case_row \<Rightarrow> approval_store \<Rightarrow> order_row option" where
  "case_order c st = find (\<lambda>x. or_merchant x = cr_merchant c \<and> or_id x = cr_order c \<and> or_account x = cr_account c
     \<and> or_currency x = cr_currency c) (as_orders st)"

type_synonym pending_join =
  "approval_row \<times> decision_row \<times> case_row \<times> tenant_row \<times> account_row \<times> order_row \<times> payment_row"

definition join_pending :: "pystr \<Rightarrow> pystr \<Rightarrow> approval_store \<Rightarrow> pending_join option" where
  "join_pending m a st =
     Option.bind (pending_row m a st) (\<lambda>r.
     Option.bind (pending_decision r st) (\<lambda>d.
     Option.bind (pending_case r st) (\<lambda>c.
     Option.bind (find (\<lambda>t. tr_id t = ar_merchant r) (as_tenants st)) (\<lambda>t.
     Option.bind (case_account c st) (\<lambda>x.
     Option.bind (case_order c st) (\<lambda>ord.
     Option.bind (latest_payment c st) (\<lambda>p.
     Some (r, d, c, t, x, ord, p))))))))"

text \<open>\<^verbatim>\<open>_ulid\<close> of this module raises a bare \<^verbatim>\<open>ValueError\<close>.\<close>

definition service_ulid :: "pystr \<Rightarrow> exn + pystr" where
  "service_ulid value = (if is_ulid value then Inr value else Inl (ValueError []))"

definition snapshot_of :: "pending_join \<Rightarrow> json \<Rightarrow> int \<Rightarrow> instant \<Rightarrow> approval_snapshot" where
  "snapshot_of j proposal live now = (case j of (r, d, c, t, x, ord, p) \<Rightarrow>
     \<lparr>sn_approval_id = ar_id r, sn_decision_id = ar_decision r, sn_decision_version = ar_version r,
      sn_requested_at = ar_requested_at r, sn_expires_at = ar_expires_at r, sn_proposal_value = proposal,
      sn_policy_version = dr_policy_version d, sn_case_id = cr_id c, sn_order_id = cr_order c,
      sn_account_id = cr_account c, sn_currency = cr_currency c, sn_amount_minor = cr_amount c,
      sn_case_state = cr_state c, sn_case_version = cr_version c, sn_deadline = cr_deadline c,
      sn_attempt_count = cr_attempts c, sn_contact_count = cr_contacts c, sn_incident_id = cr_incident c,
      sn_merchant_status = tr_status t, sn_merchant_kill_switch = tr_kill_switch t,
      sn_account_identifier = cc_identifier x, sn_environment = cc_environment x, sn_account_enabled = cc_enabled x,
      sn_binding_version = cc_binding_version x, sn_truth = or_truth ord, sn_payment_record_id = py_id p,
      sn_payment_id = py_payment_id p, sn_payment_order_id = py_order_id p, sn_payment_method = py_method p,
      sn_active_instruments = live, sn_database_now = now\<rparr>)"

definition snapshot_ids_ok :: "approval_snapshot \<Rightarrow> bool" where
  "snapshot_ids_ok s = list_all is_ulid
     [sn_approval_id s, sn_decision_id s, sn_case_id s, sn_order_id s, sn_account_id s, sn_payment_record_id s]"

definition load_pending :: "pystr \<Rightarrow> pystr \<Rightarrow> instant \<Rightarrow> approval_store \<Rightarrow> exn + approval_snapshot" where
  "load_pending m a now st = (case join_pending m a st of
      None \<Rightarrow> Inl (ApprovalNotFound ''approval_not_found'')
    | Some (r, d, c, rest) \<Rightarrow>
        (case dr_candidates d of
           [proposal] \<Rightarrow>
             let s = snapshot_of (r, d, c, rest) proposal (live_instruments c st) now
             in bindE (raise_if (\<not> snapshot_ids_ok s) (ApprovalConflict ''approval_snapshot_unsafe'')) (\<lambda>_. Inr s)
         | _ \<Rightarrow> Inl (ApprovalConflict ''approval_snapshot_unsafe'')))"

text \<open>The rows a decision row compares with are immutable, so equal JSON values are equal documents.\<close>

definition same_binding :: "approval_snapshot \<Rightarrow> approval_snapshot \<Rightarrow> bool" where
  "same_binding left right = (left\<lparr>sn_database_now := sn_database_now right\<rparr> = right)"

section \<open>Configuration, results\<close>

record 'w service_config =
  sc_policy :: gate_policy
  sc_truth_reader :: "truth_query \<Rightarrow> ('w, payment_truth \<times> datetime) port"
  sc_health_reader :: "health_query \<Rightarrow> ('w, health_truth \<times> datetime) port"
  sc_global_kill_switch :: bool
  sc_audited :: bool

type_synonym approval_config = "approval_store service_config"

record action_outcome =
  xo_approval_id :: pystr
  xo_verdict :: approval_verdict
  xo_case_id :: pystr
  xo_case_version :: int
  xo_action_id :: "pystr option"
  xo_job_id :: "pystr option"

definition service_audit ::
  "approval_config \<Rightarrow> tx_env \<Rightarrow> nat \<Rightarrow> nat \<Rightarrow> approval_snapshot \<Rightarrow> pystr \<Rightarrow> approval_verdict \<Rightarrow> pystr \<Rightarrow> instant \<Rightarrow> pystr option
     \<Rightarrow> approval_store \<Rightarrow> exn + approval_store" where
  "service_audit cfg env i n s subject v reason acted_at action st =
     (if \<not> sc_audited cfg then Inr st
      else bindE (service_ulid (te_ids env n)) (\<lambda>entry_id.
        bindE (decode_action_proposal (sn_proposal_value s)) (\<lambda>proposal.
        statement env i (Inr (append_audit
          \<lparr>af_id = entry_id, af_merchant = p_merchant_id proposal, af_case = sn_case_id s,
           af_entry_type = ''APPROVAL_ACTED'', af_subject = operator_identity subject,
           af_facts = [(''approval_id'', sn_approval_id s), (''approval_verdict'', verdict_text v),
                       (''reason_code'', map upper_char reason)]
                      @ (case action of None \<Rightarrow> [] | Some x \<Rightarrow> [(''action_id'', x)]),
           af_created_at = acted_at\<rparr> st)))))"

section \<open>Settling without an effect\<close>

text \<open>\<^verbatim>\<open>_cancel\<close> and \<^verbatim>\<open>_reject\<close> are the same transaction but for the verdict and the names of its failures.\<close>

definition settle_transaction ::
  "approval_config \<Rightarrow> tx_env \<Rightarrow> approval_snapshot \<Rightarrow> pystr \<Rightarrow> pystr \<Rightarrow> pystr \<Rightarrow> approval_verdict \<Rightarrow> pystr \<Rightarrow> pystr \<Rightarrow> instant
     \<Rightarrow> approval_store \<Rightarrow> exn + action_outcome \<times> approval_store" where
  "settle_transaction cfg env s m subject reason v approval_error case_error acted_at st =
     bindE (statement env 1 (load_pending m (sn_approval_id s) (te_now env) st)) (\<lambda>locked.
     bindE (raise_if (\<not> same_binding locked s) (ApprovalConflict ''approval_state_changed'')) (\<lambda>_.
     bindE (statement env 2 (updated_one
        (update_rows (pending_approval m (sn_approval_id s)) (settle_approval v (Some subject) reason acted_at) (as_approvals st))
        ar_verdict v (ApprovalConflict approval_error))) (\<lambda>approvals.
     bindE (statement env 3 (updated_one
        (update_rows (waiting_case m (sn_case_id s) (sn_case_version s)) (suppress_case reason acted_at) (as_cases st))
        cr_version (sn_case_version s + 1) (ApprovalConflict case_error))) (\<lambda>cases.
     bindE (service_audit cfg env 4 0 s subject v reason acted_at None (st\<lparr>as_approvals := approvals, as_cases := cases\<rparr>)) (\<lambda>st'.
     Inr (\<lparr>xo_approval_id = sn_approval_id s, xo_verdict = v, xo_case_id = sn_case_id s,
           xo_case_version = sn_case_version s + 1, xo_action_id = None, xo_job_id = None\<rparr>, st'))))))"

definition cancel_approval ::
  "approval_config \<Rightarrow> tx_env \<Rightarrow> approval_snapshot \<Rightarrow> pystr \<Rightarrow> pystr \<Rightarrow> approval_verdict \<Rightarrow> instant
     \<Rightarrow> approval_store \<Rightarrow> (exn + action_outcome) \<times> approval_store" where
  "cancel_approval cfg env s subject reason v acted_at st =
     (case bindE (raise_if (v \<notin> {V_CANCELLED, V_EXPIRED}) (ValueError ''cancellation verdict is invalid'')) (\<lambda>_.
           decode_action_proposal (sn_proposal_value s)) of
        Inl e \<Rightarrow> (Inl e, st)
      | Inr proposal \<Rightarrow> commit (settle_transaction cfg env s (p_merchant_id proposal) subject reason v
          ''approval_cancellation_failed'' ''approval_case_cancel_failed'' acted_at) st)"

definition reject_pending ::
  "approval_config \<Rightarrow> tx_env \<Rightarrow> approval_snapshot \<Rightarrow> pystr \<Rightarrow> pystr \<Rightarrow> approval_store \<Rightarrow> (exn + action_outcome) \<times> approval_store" where
  "reject_pending cfg env s subject reason st =
     (case bindE (decode_action_proposal (sn_proposal_value s)) (\<lambda>proposal. service_ulid (p_merchant_id proposal)) of
        Inl e \<Rightarrow> (Inl e, st)
      | Inr m \<Rightarrow> commit (settle_transaction cfg env s m subject reason V_REJECTED
          ''approval_update_failed'' ''approval_case_reject_failed'' (sn_database_now s)) st)"

section \<open>Materializing the effect\<close>

definition approval_of :: "approval_snapshot \<Rightarrow> action_proposal \<Rightarrow> pystr \<Rightarrow> instant \<Rightarrow> exn + approval" where
  "approval_of s p subject acted_at = mk_approval
     \<lparr>a_approval_id = sn_approval_id s, a_merchant_id = p_merchant_id p, a_case_id = p_case_id p,
      a_action_key = action_key p, a_proposal_digest = proposal_digest p, a_decision_version = p_decision_version p,
      a_approved_by = operator_identity subject, a_approved_at = 0, a_expires_at = 0, a_granted = True\<rparr>
     (utc acted_at) (utc (sn_expires_at s))"

definition approval_context ::
  "approval_config \<Rightarrow> approval_snapshot \<Rightarrow> action_proposal \<Rightarrow> payment_truth \<Rightarrow> health_truth \<Rightarrow> approval \<Rightarrow> instant \<Rightarrow> exn + gate_context" where
  "approval_context cfg s p truth health granted acted_at =
     bindE (mk_money (sn_amount_minor s) (sn_currency s)) (\<lambda>due.
     bindE (mk_provider_snapshot
       \<lparr>s_payment_state = canonical_payment_state_of truth, s_amount_due = due,
        s_payment_method = pt_payment_method truth, s_observed_at = 0,
        s_active_instrument_count = sn_active_instruments s, s_incident_state = ht_incident_state health,
        s_method_health_observed_at = 0\<rparr> (utc (pt_observed_at truth)) (utc (ht_observed_at health))) (\<lambda>observed.
     mk_gate_context
       \<lparr>c_merchant_id = p_merchant_id p, c_case_id = p_case_id p, c_evaluated_at = 0,
        c_aggregate_version = sn_case_version s, c_expected_aggregate_version = sn_case_version s,
        c_recovery_state = APPROVAL_REQUIRED, c_snapshot = observed,
        c_environment_effects_enabled = (sn_merchant_status s = ''ACTIVE'' \<and> sn_environment s = ''TEST'' \<and> sn_account_enabled s),
        c_observation_deadline = None, c_global_kill_switch = sc_global_kill_switch cfg,
        c_merchant_kill_switch = sn_merchant_kill_switch s, c_consent_granted = True, c_opted_out = False,
        c_cooldown_until = None, c_contacts_in_window = sn_contact_count s, c_quiet_hours_active = False,
        c_attempts_used = sn_attempt_count s, c_abstention_required = p_requires_approval p,
        c_external_diagnosis_review_required = False, c_approval = Some granted, c_durable_intent_recorded = False\<rparr>
       (utc acted_at) None (map_option utc (sn_deadline s))))"

text \<open>The command of an approved proposal; the link expires on a whole second, a day after the approval.\<close>

definition approved_command ::
  "approval_snapshot \<Rightarrow> action_proposal \<Rightarrow> gate_decision \<Rightarrow> instant \<Rightarrow> exn + create_command \<times> instant" where
  "approved_command s p decision acted_at =
     bindE (make_recovery_reference_id (p_case_id p) (sn_account_id s)) (\<lambda>reference_id.
     bindE (add_time acted_at us_day) (\<lambda>day_later.
     bindE (fromtimestamp (timestamp day_later)) (\<lambda>link_expires_at.
     bindE (mk_link_request
       \<lparr>lr_amount_minor = sn_amount_minor s, lr_currency = sn_currency s, lr_reference_id = reference_id,
        lr_description = ''Retry payment for order '' @ sn_order_id s, lr_expire_by_epoch = timestamp link_expires_at,
        lr_notes = [(''merchant_order_id'', sn_order_id s), (''recovery_case_id'', p_case_id p)],
        lr_customer = None\<rparr>) (\<lambda>request.
     bindE (mk_create_command
       \<lparr>cc_proposal = p, cc_prior_plan = decision, cc_request = request, cc_provider_account_id = sn_account_id s\<rparr>) (\<lambda>command.
     Inr (command, link_expires_at))))))"

text \<open>\<^verbatim>\<open>value.isoformat().replace("+00:00", "Z")\<close>.\<close>

definition isoformat_z :: "instant \<Rightarrow> pystr" where
  "isoformat_z t = take (length (isoformat_utc t) - 6) (isoformat_utc t) @ ''Z''"

definition intent_metadata :: "durable_intent \<Rightarrow> json" where
  "intent_metadata i = JObj
     [(''action_key'', JStr (di_action_key i)), (''executor_payload_sha256'', JStr (di_payload_digest i)),
      (''prior_plan_sha256'', JStr (di_prior_plan_digest i)), (''proposal_sha256'', JStr (di_proposal_digest i)),
      (''provider_account_id'', JStr (di_provider_account_id i)),
      (''provider_request_sha256'', JStr (di_request_digest i)),
      (''recorded_at'', JStr (isoformat_z (di_recorded_at i))), (''reference_id'', JStr (di_reference_id i)),
      (''schema'', JStr ''retrywise-durable-action-intent''), (''schema_version'', JInt (di_schema_version i))]"

text \<open>What the approving transaction writes, computed before it starts.\<close>

record approval_plan =
  ap_proposal :: action_proposal
  ap_command :: create_command
  ap_metadata :: json
  ap_payload :: json
  ap_action_id :: pystr
  ap_instrument_id :: pystr
  ap_job_id :: pystr
  ap_link_expires_at :: instant

definition approval_plan_of ::
  "tx_env \<Rightarrow> approval_snapshot \<Rightarrow> action_proposal \<Rightarrow> gate_decision \<Rightarrow> instant \<Rightarrow> exn + approval_plan" where
  "approval_plan_of env s p decision acted_at =
     bindE (approved_command s p decision acted_at) (\<lambda>(command, link_expires_at).
     bindE (record_intent command (utc acted_at)) (\<lambda>intent.
     bindE (service_ulid (te_ids env 0)) (\<lambda>action_id.
     bindE (service_ulid (te_ids env 1)) (\<lambda>instrument_id.
     bindE (service_ulid (te_ids env 2)) (\<lambda>job_id.
     bindE (encode_create_command command) (\<lambda>payload.
     Inr \<lparr>ap_proposal = p, ap_command = command, ap_metadata = intent_metadata intent, ap_payload = payload,
          ap_action_id = action_id, ap_instrument_id = instrument_id, ap_job_id = job_id,
          ap_link_expires_at = link_expires_at\<rparr>))))))"

definition planned_action :: "approval_snapshot \<Rightarrow> approval_plan \<Rightarrow> json \<Rightarrow> instant \<Rightarrow> action_row" where
  "planned_action s plan metadata acted_at =
     \<lparr>xr_id = ap_action_id plan, xr_merchant = p_merchant_id (ap_proposal plan), xr_case = sn_case_id s,
      xr_decision = sn_decision_id s, xr_version = sn_decision_version s, xr_approval = Some (sn_approval_id s),
      xr_key = action_key (ap_proposal plan), xr_status = X_PLANNED, xr_max_attempts = 5, xr_metadata = metadata,
      xr_reference = lr_reference_id (cc_request (ap_command plan)), xr_created_at = acted_at\<rparr>"

definition planned_instrument :: "approval_snapshot \<Rightarrow> approval_plan \<Rightarrow> instant \<Rightarrow> instrument_row" where
  "planned_instrument s plan acted_at =
     \<lparr>ir_id = ap_instrument_id plan, ir_merchant = p_merchant_id (ap_proposal plan), ir_case = sn_case_id s,
      ir_order = sn_order_id s, ir_account = sn_account_id s, ir_action = ap_action_id plan,
      ir_reference = lr_reference_id (cc_request (ap_command plan)), ir_amount = sn_amount_minor s,
      ir_currency = sn_currency s, ir_status = I_CREATING, ir_expires_at = ap_link_expires_at plan,
      ir_created_at = acted_at\<rparr>"

definition is_planned :: "pystr \<Rightarrow> pystr \<Rightarrow> action_row \<Rightarrow> bool" where
  "is_planned m i x = (xr_id x = i \<and> xr_merchant x = m \<and> xr_status x = X_PLANNED)"

definition effect_job :: "approval_plan \<Rightarrow> json \<Rightarrow> instant \<Rightarrow> outbox_row" where
  "effect_job plan payload acted_at =
     new_job (ap_job_id plan) (p_merchant_id (ap_proposal plan)) ''ACTION'' (ap_action_id plan) CREATE_COMMAND_TYPE
       CREATE_COMMAND_SCHEMA_VERSION payload (''create-standard-payment-link:'' @ action_key (ap_proposal plan)) acted_at"

definition approve_transaction ::
  "approval_config \<Rightarrow> tx_env \<Rightarrow> approval_snapshot \<Rightarrow> approval_plan \<Rightarrow> pystr \<Rightarrow> pystr \<Rightarrow> instant
     \<Rightarrow> approval_store \<Rightarrow> exn + action_outcome \<times> approval_store" where
  "approve_transaction cfg env s plan subject reason acted_at st =
     (let m = p_merchant_id (ap_proposal plan); a = sn_approval_id s in
     bindE (statement env 1 (load_pending m a (te_now env) st)) (\<lambda>locked.
     bindE (raise_if (\<not> same_binding locked s) (ApprovalConflict ''approval_state_changed'')) (\<lambda>_.
     bindE (statement env 2 (updated_one
        (update_rows (\<lambda>r. pending_approval m a r \<and> acted_at \<le> ar_expires_at r)
           (settle_approval V_APPROVED (Some subject) reason acted_at) (as_approvals st))
        ar_verdict V_APPROVED (ApprovalConflict ''approval_update_failed''))) (\<lambda>approvals.
     bindE (jsonb_document (ap_metadata plan)) (\<lambda>metadata.
     bindE (statement env 3 (insert_action (planned_action s plan metadata acted_at) (st\<lparr>as_approvals := approvals\<rparr>))) (\<lambda>st1.
     bindE (statement env 4 (insert_instrument (planned_instrument s plan acted_at) st1)) (\<lambda>st2.
     bindE (statement env 5 (updated_one
        (update_rows (is_planned m (ap_action_id plan)) (\<lambda>x. x\<lparr>xr_status := X_QUEUED\<rparr>) (as_actions st2))
        xr_status X_QUEUED (ApprovalConflict ''approval_action_queue_failed''))) (\<lambda>actions.
     bindE (statement env 6 (updated_one
        (update_rows (waiting_case m (sn_case_id s) (sn_case_version s)) (queue_case (ap_action_id plan) acted_at) (as_cases st2))
        cr_version (sn_case_version s + 1) (ApprovalConflict ''approval_case_queue_failed''))) (\<lambda>cases.
     bindE (jsonb_document (ap_payload plan)) (\<lambda>payload.
     bindE (statement env 7 (insert_job (effect_job plan payload acted_at) (st2\<lparr>as_actions := actions, as_cases := cases\<rparr>))) (\<lambda>st3.
     bindE (service_audit cfg env 8 3 s subject V_APPROVED reason acted_at (Some (ap_action_id plan)) st3) (\<lambda>st4.
     Inr (\<lparr>xo_approval_id = a, xo_verdict = V_APPROVED, xo_case_id = sn_case_id s, xo_case_version = sn_case_version s + 1,
           xo_action_id = Some (ap_action_id plan), xo_job_id = Some (ap_job_id plan)\<rparr>, st4)))))))))))))"

section \<open>The service\<close>

text \<open>A read: the query is built, the port called, its answer constructed.\<close>

definition read_truth ::
  "approval_config \<Rightarrow> approval_snapshot \<Rightarrow> action_proposal \<Rightarrow> (approval_store, payment_truth) port" where
  "read_truth cfg s p st =
     (case mk_truth_query \<lparr>tq_merchant_id = p_merchant_id p, tq_account_id = sn_account_id s,
            tq_account_identifier = sn_account_identifier s, tq_binding_version = sn_binding_version s,
            tq_payment_record_id = sn_payment_record_id s, tq_payment_id = sn_payment_id s,
            tq_order_id = sn_payment_order_id s\<rparr> of
        Inl e \<Rightarrow> (Inl e, st)
      | Inr q \<Rightarrow> (case sc_truth_reader cfg q st of (answer, st') \<Rightarrow> (bindE answer (\<lambda>(t, d). mk_payment_truth t d), st')))"

definition read_health ::
  "approval_config \<Rightarrow> approval_snapshot \<Rightarrow> action_proposal \<Rightarrow> payment_truth \<Rightarrow> (approval_store, health_truth) port" where
  "read_health cfg s p truth st =
     (case mk_health_query \<lparr>hq_merchant_id = p_merchant_id p, hq_account_id = sn_account_id s,
            hq_payment_method = pt_payment_method truth, hq_incident_id = sn_incident_id s\<rparr> of
        Inl e \<Rightarrow> (Inl e, st)
      | Inr q \<Rightarrow> (case sc_health_reader cfg q st of (answer, st') \<Rightarrow> (bindE answer (\<lambda>(h, d). mk_health_truth h d), st')))"

definition decide_approval ::
  "approval_config \<Rightarrow> approval_snapshot \<Rightarrow> action_proposal \<Rightarrow> payment_truth \<Rightarrow> health_truth \<Rightarrow> pystr \<Rightarrow> instant \<Rightarrow> exn + gate_decision" where
  "decide_approval cfg s p truth health subject acted_at =
     bindE (approval_of s p subject acted_at) (\<lambda>granted.
     bindE (approval_context cfg s p truth health granted acted_at) (\<lambda>c.
     evaluate_policy (sc_policy cfg) p c))"

definition settle_approved ::
  "approval_config \<Rightarrow> tx_env \<Rightarrow> approval_snapshot \<Rightarrow> action_proposal \<Rightarrow> payment_truth \<Rightarrow> health_truth \<Rightarrow> pystr \<Rightarrow> pystr
     \<Rightarrow> approval_store \<Rightarrow> (exn + action_outcome) \<times> approval_store" where
  "settle_approved cfg env s p truth health subject reason st =
     (let acted_at = max (max (sn_database_now s) (pt_observed_at truth)) (ht_observed_at health) in
      if sn_expires_at s \<le> acted_at \<or> p_expires_at p \<le> acted_at
      then cancel_approval cfg env s subject ''approval_expired'' V_EXPIRED acted_at st
      else (case decide_approval cfg s p truth health subject acted_at of
          Inl e \<Rightarrow> (Inl e, st)
        | Inr decision \<Rightarrow>
            if \<not> allowed decision
            then cancel_approval cfg env s subject ''approved_proposal_no_longer_authorized'' V_CANCELLED acted_at st
            else (case approval_plan_of env s p decision acted_at of
                Inl e \<Rightarrow> (Inl e, st)
              | Inr plan \<Rightarrow> commit (approve_transaction cfg env s plan subject reason acted_at) st)))"

definition approve_pending ::
  "approval_config \<Rightarrow> tx_env \<Rightarrow> approval_snapshot \<Rightarrow> pystr \<Rightarrow> pystr \<Rightarrow> approval_store \<Rightarrow> (exn + action_outcome) \<times> approval_store" where
  "approve_pending cfg env s subject reason st = (case decode_action_proposal (sn_proposal_value s) of
      Inl e \<Rightarrow> (Inl e, st)
    | Inr p \<Rightarrow> (case read_truth cfg s p st of
          (Inl e, st1) \<Rightarrow> (Inl e, st1)
        | (Inr truth, st1) \<Rightarrow> (case read_health cfg s p truth st1 of
              (Inl e, st2) \<Rightarrow> (Inl e, st2)
            | (Inr health, st2) \<Rightarrow> settle_approved cfg env s p truth health subject reason st2)))"

definition check_service_arguments :: "pystr \<Rightarrow> pystr \<Rightarrow> pystr \<Rightarrow> pystr \<Rightarrow> pystr \<Rightarrow> exn + unit" where
  "check_service_arguments m a subject verdict reason =
     bindE (service_ulid m) (\<lambda>_.
     bindE (service_ulid a) (\<lambda>_.
     bindE (raise_if (verdict \<notin> {''APPROVED'', ''REJECTED''}) (ValueError ''verdict must be APPROVED or REJECTED'')) (\<lambda>_.
     bindE (raise_if (\<not> is_approval_reason reason) (ValueError ''reason_code is invalid'')) (\<lambda>_.
     raise_if (subject = [] \<or> 200 < length subject) (ValueError ''operator_subject is invalid'')))))"

text \<open>\<open>loaded_at\<close> is the database clock when the approval was loaded, \<open>env\<close> what the transaction gets.\<close>

definition act_on_approval ::
  "approval_config \<Rightarrow> instant \<Rightarrow> tx_env \<Rightarrow> pystr \<Rightarrow> pystr \<Rightarrow> pystr \<Rightarrow> pystr \<Rightarrow> pystr \<Rightarrow> (approval_store, action_outcome) port" where
  "act_on_approval cfg loaded_at env m a subject verdict reason st =
     (case bindE (check_service_arguments m a subject verdict reason) (\<lambda>_.
           statement env 0 (load_pending m a loaded_at st)) of
        Inl e \<Rightarrow> (Inl e, st)
      | Inr s \<Rightarrow> if verdict = ''REJECTED'' then reject_pending cfg env s subject reason st
                  else approve_pending cfg env s subject reason st)"

end
