(* ===== verification/Approval_Worker.thy ===== *)
theory Approval_Worker
  imports Approval_Service Delivery_Worker
begin

text \<open>
  \<^verbatim>\<open>services/control_plane/approval_worker.py\<close>: the handler of the materialization command, and the query by
  which a redelivery learns that the work is done.
\<close>

section \<open>The completion probe\<close>

text \<open>\<^verbatim>\<open>_COMPLETION\<close>: the approval, its action and that action's effect job, by left joins.\<close>

definition effect_of :: "pystr \<Rightarrow> action_row \<Rightarrow> approval_store \<Rightarrow> outbox_row option" where
  "effect_of m x st = find (\<lambda>j. w_merchant_id j = m \<and> w_aggregate_type j = ''ACTION'' \<and> w_aggregate_id j = xr_id x
     \<and> w_command_type j = ''CREATE_STANDARD_PAYMENT_LINK'') (as_jobs st)"

definition action_of :: "pystr \<Rightarrow> pystr \<Rightarrow> approval_store \<Rightarrow> action_row option" where
  "action_of m a st = find (\<lambda>x. xr_merchant x = m \<and> xr_approval x = Some a) (as_actions st)"

definition completion_of :: "approval_row \<Rightarrow> pystr \<Rightarrow> pystr \<Rightarrow> approval_store \<Rightarrow> exn + pystr option" where
  "completion_of r m a st = (case ar_verdict r of
      V_PENDING \<Rightarrow> Inr None
    | V_APPROVED \<Rightarrow>
        (case action_of m a st of
           None \<Rightarrow> Inl (RuntimeError ''approved_action_materialization_incomplete'')
         | Some x \<Rightarrow> (case effect_of m x st of
               None \<Rightarrow> Inl (RuntimeError ''approved_action_materialization_incomplete'')
             | Some j \<Rightarrow> Inr (Some (''approved:'' @ xr_id x @ '':'' @ w_id j))))
    | v \<Rightarrow> Inr (Some (lower (verdict_text v))))"

definition completion_result :: "materialize_command \<Rightarrow> approval_store \<Rightarrow> exn + pystr option" where
  "completion_result c st =
     (case find (is_approval (mac_merchant_id c) (mac_approval_id c)) (as_approvals st) of
        None \<Rightarrow> Inr None
      | Some r \<Rightarrow> completion_of r (mac_merchant_id c) (mac_approval_id c) st)"

section \<open>The handler\<close>

definition invalid_materialization :: "exn + handler_result" where
  "invalid_materialization = handler_dead_letter ''invalid_approval_materialization_command''"

definition materialization_unbound :: "claimed_command \<Rightarrow> materialize_command \<Rightarrow> bool" where
  "materialization_unbound claimed c =
     (oc_aggregate_type claimed \<noteq> ''APPROVAL'' \<or> oc_aggregate_id claimed \<noteq> mac_approval_id c
      \<or> oc_merchant_id claimed \<noteq> mac_merchant_id c \<or> oc_idempotency_key claimed \<noteq> approval_job_key (mac_approval_id c))"

text \<open>The body of the \<^verbatim>\<open>try\<close>: the handler result of work already done, or the service's outcome.\<close>

definition attempt_materialization ::
  "approval_config \<Rightarrow> instant \<Rightarrow> tx_env \<Rightarrow> materialize_command \<Rightarrow> approval_store
     \<Rightarrow> (exn + (handler_result + action_outcome)) \<times> approval_store" where
  "attempt_materialization cfg loaded_at env c st =
     (case statement env 10 (completion_result c st) of
        Inl e \<Rightarrow> (Inl e, st)
      | Inr (Some completed) \<Rightarrow> (bindE (handler_succeeded completed) (\<lambda>h. Inr (Inl h)), st)
      | Inr None \<Rightarrow>
          (case act_on_approval cfg loaded_at env (mac_merchant_id c) (mac_approval_id c) (mac_operator_subject c)
                  ''APPROVED'' (mac_reason_code c) st of
             (r, st') \<Rightarrow> (bindE r (\<lambda>x. Inr (Inr x)), st')))"

text \<open>\<^verbatim>\<open>try: completed = probe.result(command) except Exception: completed = None\<close>, after a conflict.\<close>

definition completed_elsewhere :: "tx_env \<Rightarrow> materialize_command \<Rightarrow> approval_store \<Rightarrow> pystr option" where
  "completed_elsewhere env c st = (case statement env 11 (completion_result c st) of Inr (Some s) \<Rightarrow> Some s | _ \<Rightarrow> None)"

definition outcome_reference :: "action_outcome \<Rightarrow> pystr" where
  "outcome_reference x =
     (let v = lower (verdict_text (xo_verdict x))
      in ''approval:'' @ xo_approval_id x @ '':'' @ v @ '':''
         @ (case xo_action_id x of None \<Rightarrow> v | Some i \<Rightarrow> if i = [] then v else i))"

definition conflict_result :: "tx_env \<Rightarrow> materialize_command \<Rightarrow> pystr \<Rightarrow> approval_store \<Rightarrow> exn + handler_result" where
  "conflict_result env c reason st =
     (case (if reason = ''approval_state_changed'' then completed_elsewhere env c st else None) of
        Some s \<Rightarrow> handler_succeeded s
      | None \<Rightarrow> handler_dead_letter (take 500 (''approval_conflict:'' @ reason)))"

definition failure_result :: "tx_env \<Rightarrow> materialize_command \<Rightarrow> exn \<Rightarrow> approval_store \<Rightarrow> exn + handler_result" where
  "failure_result env c e st = (case e of
      ApprovalNotFound _ \<Rightarrow>
        (case completed_elsewhere env c st of
           Some s \<Rightarrow> handler_succeeded s
         | None \<Rightarrow> handler_dead_letter ''approval_no_longer_exists'')
    | ApprovalConflict reason \<Rightarrow> conflict_result env c reason st
    | _ \<Rightarrow> handler_retry_safely ''approval_fresh_truth_unavailable'' RECONCILE_ONLY)"

definition materialize_handler ::
  "approval_config \<Rightarrow> instant \<Rightarrow> tx_env \<Rightarrow> claimed_command \<Rightarrow> (approval_store, handler_result) port" where
  "materialize_handler cfg loaded_at env claimed st =
     (case decode_materialize_command (oc_command_payload claimed) (oc_command_type claimed) (oc_command_schema_version claimed) of
        Inl _ \<Rightarrow> (invalid_materialization, st)
      | Inr c \<Rightarrow>
          if materialization_unbound claimed c then (invalid_materialization, st)
          else (case attempt_materialization cfg loaded_at env c st of
              (Inl e, st') \<Rightarrow> (failure_result env c e st', st')
            | (Inr (Inl h), st') \<Rightarrow> (Inr h, st')
            | (Inr (Inr x), st') \<Rightarrow> (handler_succeeded (outcome_reference x), st')))"

end
