(* ===== verification/Approval_Spec.thy ===== *)
theory Approval_Spec
  imports Approval_Worker
begin

text \<open>
  What the approval modules promise together. The abstract machine has four phases: an approval is absent,
  waiting for an operator, queued for the worker, or settled with a verdict; a transaction moves it at most one
  step forward. The locale \<open>approval_protocol\<close> is the contract of everything that writes approvals; the operator's
  request and the service's transactions are its interpretations. Transactions of other processes show up as what
  the readers do to the store while they run.
\<close>

section \<open>Statements and transactions\<close>

lemma statement_Inr [simp]: "statement env i r = Inr x \<longleftrightarrow> te_fault env i = None \<and> r = Inr x"
  by (simp add: statement_def split: option.split)

lemma commit_eq:
  "commit body st = (Inr x, st') \<longleftrightarrow> body st = Inr (x, st')"
  "commit body st = (Inl e, st') \<longleftrightarrow> body st = Inl e \<and> st' = st"
  by (auto simp: commit_def split: sum.splits prod.splits)

lemma commit_cases:
  assumes "commit body st = (r, st')"
  obtains (raised) e where "body st = Inl e" "r = Inl e" "st' = st"
  | (committed) x where "body st = Inr (x, st')" "r = Inr x"
  using assms by (auto simp: commit_def split: sum.splits prod.splits)

lemma find_map_same: "(\<And>r. Q (g r) = Q r) \<Longrightarrow> find Q (map g rows) = map_option g (find Q rows)"
  by (induction rows) auto

lemma find_append: "find Q (xs @ ys) = (case find Q xs of None \<Rightarrow> find Q ys | Some x \<Rightarrow> Some x)"
  by (induction xs) auto

lemma updated_one_Inr:
  "updated_one (update_rows P f rows) column v e = Inr rows' \<longleftrightarrow>
     (\<exists>r. find P rows = Some r \<and> column (f r) = v) \<and> rows' = map (\<lambda>r. if P r then f r else r) rows"
  by (auto simp: updated_one_def update_rows_def)

lemma insert_Inr:
  "insert_job j st = Inr st' \<Longrightarrow> st' = st\<lparr>as_jobs := as_jobs st @ [j]\<rparr>
     \<and> (\<forall>k\<in>set (as_jobs st). w_id k \<noteq> w_id j \<and> \<not> (w_merchant_id k = w_merchant_id j \<and> w_idempotency_key k = w_idempotency_key j))"
  "insert_action x st = Inr st' \<Longrightarrow> st' = st\<lparr>as_actions := as_actions st @ [x]\<rparr>"
  "insert_instrument y st = Inr st' \<Longrightarrow> st' = st\<lparr>as_instruments := as_instruments st @ [y]\<rparr>
     \<and> (\<forall>z\<in>set (as_instruments st). \<not> (ir_status y \<in> set COLLECTABLE_STATUSES
          \<and> collectable_for (ir_merchant y) (ir_order y) (ir_currency y) z))"
  by (auto simp: insert_job_def insert_action_def insert_instrument_def split: if_splits)

text \<open>Settling keeps the key of a row, and settles exactly the pending row of the key.\<close>

lemma settle_keys [simp]:
  "ar_id (settle_approval v sub reason now r) = ar_id r" "ar_merchant (settle_approval v sub reason now r) = ar_merchant r"
  "ar_verdict (settle_approval v sub reason now r) = v" "ar_case (settle_approval v sub reason now r) = ar_case r"
  by (simp_all add: settle_approval_def)

lemma case_keys [simp]:
  "cr_version (suppress_case reason now c) = cr_version c + 1" "cr_version (queue_case action now c) = cr_version c + 1"
  by (simp_all add: suppress_case_def queue_case_def)

lemma find_pending: "find (pending_approval m a) rows = Some r \<Longrightarrow> is_approval m a r \<and> ar_verdict r = V_PENDING \<and> r \<in> set rows"
  by (auto simp: find_Some_iff pending_approval_def)

section \<open>Phases\<close>

datatype approval_phase = Ph_Absent | Ph_Waiting | Ph_Queued | Ph_Settled approval_verdict

definition approval_phase_of :: "pystr \<Rightarrow> pystr \<Rightarrow> approval_row option \<Rightarrow> approval_store \<Rightarrow> approval_phase" where
  "approval_phase_of m a row st = (case row of
      None \<Rightarrow> Ph_Absent
    | Some r \<Rightarrow> if ar_verdict r \<noteq> V_PENDING then Ph_Settled (ar_verdict r)
        else if find_job m (approval_job_key a) st = None then Ph_Waiting else Ph_Queued)"

definition phase :: "pystr \<Rightarrow> pystr \<Rightarrow> approval_store \<Rightarrow> approval_phase" where
  "phase m a st = approval_phase_of m a (find (is_approval m a) (as_approvals st)) st"

inductive phase_step :: "approval_phase \<Rightarrow> approval_phase \<Rightarrow> bool" where
  queues: "phase_step Ph_Waiting Ph_Queued"
| settles: "p = Ph_Waiting \<or> p = Ph_Queued \<Longrightarrow> v \<noteq> V_PENDING \<Longrightarrow> phase_step p (Ph_Settled v)"

inductive_cases phase_step_Settled: "phase_step (Ph_Settled v) p"
inductive_cases phase_step_Absent: "phase_step Ph_Absent p"
inductive_cases phase_step_Queued: "phase_step Ph_Queued p"

definition phase_advance :: "approval_phase \<Rightarrow> approval_phase \<Rightarrow> bool" where
  "phase_advance p q = (q = p \<or> phase_step p q)"

lemma phase_advance_refl [simp]: "phase_advance p p"
  by (simp add: phase_advance_def)

lemma phase_advance_settled [simp]: "phase_advance (Ph_Settled v) q \<longleftrightarrow> q = Ph_Settled v"
  by (auto simp: phase_advance_def elim: phase_step_Settled)

lemma phase_advance_absent [simp]: "phase_advance Ph_Absent q \<longleftrightarrow> q = Ph_Absent"
  by (auto simp: phase_advance_def elim: phase_step_Absent)

lemma phase_advance_queued: "phase_advance Ph_Queued q \<Longrightarrow> q = Ph_Queued \<or> (\<exists>v. v \<noteq> V_PENDING \<and> q = Ph_Settled v)"
  by (auto simp: phase_advance_def elim: phase_step_Queued)

section \<open>The contract of a writer\<close>

text \<open>Approvals have their primary key and identifiers are ULIDs; an approved one, and only an approved one, has
  its action and the action's effect job.\<close>

definition approval_keys :: "approval_row list \<Rightarrow> bool" where
  "approval_keys rows = distinct (map (\<lambda>r. (ar_merchant r, ar_id r)) rows)"

definition effects_match :: "approval_store \<Rightarrow> bool" where
  "effects_match st =
     (\<forall>m a. if phase m a st = Ph_Settled V_APPROVED
            then \<exists>x j. action_of m a st = Some x \<and> effect_of m x st = Some j
            else action_of m a st = None)"

definition row_ids :: "approval_store \<Rightarrow> bool" where
  "row_ids st = (list_all (\<lambda>x. is_ulid (xr_id x)) (as_actions st) \<and> list_all (\<lambda>j. is_ulid (w_id j)) (as_jobs st))"

definition approvals_ok :: "approval_store \<Rightarrow> bool" where
  "approvals_ok st = (approval_keys (as_approvals st) \<and> effects_match st \<and> row_ids st)"

locale approval_protocol =
  fixes run :: "approval_store \<Rightarrow> 'r \<times> approval_store"
  assumes keeps: "approvals_ok st \<Longrightarrow> approvals_ok (snd (run st))"
    and advances: "approvals_ok st \<Longrightarrow> phase_advance (phase m a st) (phase m a (snd (run st)))"
begin

lemma settled_stays: "approvals_ok st \<Longrightarrow> phase m a st = Ph_Settled v \<Longrightarrow> phase m a (snd (run st)) = Ph_Settled v"
  using advances [of st m a] by simp

lemma queued_stays:
  "approvals_ok st \<Longrightarrow> phase m a st = Ph_Queued
     \<Longrightarrow> phase m a (snd (run st)) = Ph_Queued \<or> (\<exists>v. v \<noteq> V_PENDING \<and> phase m a (snd (run st)) = Ph_Settled v)"
  using advances [of st m a] phase_advance_queued by simp

end

section \<open>How the statements change phases\<close>

lemma job_key_inj [simp]: "approval_job_key a = approval_job_key b \<longleftrightarrow> a = b"
  by (simp add: approval_job_key_def)

lemma find_job_cong: "as_jobs st' = as_jobs st \<Longrightarrow> find_job m key st' = find_job m key st"
  by (simp add: find_job_def)

lemma find_job_append:
  "as_jobs st' = as_jobs st @ [j] \<Longrightarrow> find_job m key st' = (case find_job m key st of Some k \<Rightarrow> Some k
     | None \<Rightarrow> if w_merchant_id j = m \<and> w_idempotency_key j = key then Some j else None)"
  by (simp add: find_job_def find_append split: option.split)

lemma phase_cong: "as_approvals st' = as_approvals st \<Longrightarrow> as_jobs st' = as_jobs st \<Longrightarrow> phase m a st' = phase m a st"
  by (auto simp: phase_def approval_phase_of_def find_job_def split: option.split)

text \<open>A store in which the pending rows of one key were settled, and jobs with other keys added.\<close>

lemma phase_settled:
  assumes rows: "as_approvals st' = map (\<lambda>r. if P r then settle_approval v sub reason now r else r) (as_approvals st)"
    and P: "\<And>r. P r \<Longrightarrow> pending_approval m a r" and v: "v \<noteq> V_PENDING"
    and jobs: "\<And>m' b. find_job m' (approval_job_key b) st' = find_job m' (approval_job_key b) st"
  shows "phase_advance (phase m' b st) (phase m' b st')"
    "phase m' b st' \<noteq> phase m' b st \<Longrightarrow> m' = m \<and> b = a \<and> phase m' b st' = Ph_Settled v"
proof -
  have row: "find (is_approval m' b) (as_approvals st')
    = map_option (\<lambda>r. if P r then settle_approval v sub reason now r else r) (find (is_approval m' b) (as_approvals st))"
    unfolding rows by (rule find_map_same) (simp add: is_approval_def)
  show "phase_advance (phase m' b st) (phase m' b st')"
    unfolding phase_def row using P v
    by (auto simp: approval_phase_of_def jobs phase_advance_def pending_approval_def phase_step.simps split: option.split)
  assume changed: "phase m' b st' \<noteq> phase m' b st"
  then obtain r where r: "find (is_approval m' b) (as_approvals st) = Some r" "P r"
    unfolding phase_def row by (auto simp: approval_phase_of_def jobs split: option.splits if_splits)
  then have "is_approval m' b r" by (auto simp: find_Some_iff)
  with P [OF r(2)] have "m' = m \<and> b = a" by (auto simp: pending_approval_def is_approval_def)
  moreover have "phase m' b st' = Ph_Settled v" unfolding phase_def row using r v by (simp add: approval_phase_of_def)
  ultimately show "m' = m \<and> b = a \<and> phase m' b st' = Ph_Settled v" by simp
qed

lemma phase_queued:
  assumes rows: "as_approvals st' = as_approvals st" and jobs: "as_jobs st' = as_jobs st @ [j]"
    and j: "w_merchant_id j = m" "w_idempotency_key j = approval_job_key a"
  shows "phase_advance (phase m' b st) (phase m' b st')"
    "phase m' b st' \<noteq> phase m' b st \<Longrightarrow> m' = m \<and> b = a \<and> phase m' b st' = Ph_Queued"
  unfolding phase_def rows
  by (auto simp: approval_phase_of_def find_job_append [OF jobs] j phase_advance_def phase_step.simps
      split: option.splits if_splits)

lemma keys_settled:
  "as_approvals st' = map (\<lambda>r. if P r then settle_approval v sub reason now r else r) (as_approvals st)
     \<Longrightarrow> approval_keys (as_approvals st') = approval_keys (as_approvals st)"
proof -
  have "map (\<lambda>r. (ar_merchant r, ar_id r)) (map (\<lambda>r. if P r then settle_approval v sub reason now r else r) rows)
    = map (\<lambda>r. (ar_merchant r, ar_id r)) rows" for rows
    by simp
  then show "as_approvals st' = map (\<lambda>r. if P r then settle_approval v sub reason now r else r) (as_approvals st)
     \<Longrightarrow> approval_keys (as_approvals st') = approval_keys (as_approvals st)"
    unfolding approval_keys_def by (simp only:)
qed

end
