(* ===== verification/Approval_Protocol.thy ===== *)
theory Approval_Protocol
  imports Approval_Spec
begin

text \<open>
  The operator's request and the service's transactions meet the contract of \<open>Approval_Spec\<close>.
\<close>

section \<open>The operator's request\<close>

lemma request_audit_Inr:
  "request_audit audited env i n q r v reason st = Inr st' \<Longrightarrow>
     as_approvals st' = as_approvals st \<and> as_jobs st' = as_jobs st \<and> as_actions st' = as_actions st \<and> as_cases st' = as_cases st"
  by (auto simp: request_audit_def append_audit_def split: if_splits)

lemma settle_and_suppress_Inr:
  assumes "settle_and_suppress audited env i q r c v sub reason e1 e2 st = Inr (x, st')"
  shows "as_approvals st' = map (\<lambda>row. if pending_approval (aq_merchant_id q) (aq_approval_id q) row
       then settle_approval v sub reason (te_now env) row else row) (as_approvals st)"
    "as_jobs st' = as_jobs st" "as_actions st' = as_actions st" "ao_verdict x = verdict_text v"
  using assms by (auto simp: settle_and_suppress_def updated_one_Inr dest!: request_audit_Inr)

lemma reject_approval_Inr:
  assumes "reject_approval audited env q r c st = Inr (x, st')"
  shows "find_job (aq_merchant_id q) (approval_job_key (aq_approval_id q)) st = None"
    "settle_and_suppress audited env 2 q r c V_REJECTED (Some (operator_identity (aq_operator_subject q)))
       (aq_reason_code q) ''approval_rejection_failed'' ''approval_case_rejection_failed'' st = Inr (x, st')"
  using assms by (auto simp: reject_approval_def)

text \<open>A queued approval: the job is there already, with this very payload, or it is the one new row.\<close>

definition materialize_job :: "tx_env \<Rightarrow> approval_request \<Rightarrow> materialize_command \<Rightarrow> outbox_row" where
  "materialize_job env q command = new_job (te_ids env 0) (aq_merchant_id q) ''APPROVAL'' (aq_approval_id q)
     MATERIALIZE_COMMAND_TYPE MATERIALIZE_COMMAND_VERSION (materialize_to_primitive command)
     (approval_job_key (aq_approval_id q)) (te_now env)"

lemma jsonb_materialize [simp]: "jsonb_document (materialize_to_primitive c) = Inr (materialize_to_primitive c)"
  by (simp add: jsonb_document_def materialize_text)

lemma queue_approval_cases:
  assumes "queue_approval audited env q r c st = Inr (x, st')"
  obtains (again) command j where "request_command q = Inr command" "st' = st"
      "find_job (aq_merchant_id q) (approval_job_key (aq_approval_id q)) st = Some j"
      "w_command_payload j = materialize_to_primitive command"
      "x = queued_outcome q r c (w_id j) (row_status_text (w_status j))"
  | (queued) command where "request_command q = Inr command" "is_ulid (te_ids env 0)"
      "find_job (aq_merchant_id q) (approval_job_key (aq_approval_id q)) st = None"
      "as_jobs st' = as_jobs st @ [materialize_job env q command]" "as_approvals st' = as_approvals st"
      "as_actions st' = as_actions st" "as_cases st' = as_cases st" "x = queued_outcome q r c (te_ids env 0) ''PENDING''"
proof (cases "find_job (aq_merchant_id q) (approval_job_key (aq_approval_id q)) st")
  case None
  obtain command st1 where c: "request_command q = Inr command" "is_ulid (te_ids env 0)"
    "insert_job (materialize_job env q command) st = Inr st1"
    "request_audit audited env 3 1 q r ''APPROVAL_QUEUED'' (aq_reason_code q) st1 = Inr st'"
    "x = queued_outcome q r c (te_ids env 0) ''PENDING''"
    using assms by (auto simp: queue_approval_def Let_def request_ulid_def materialize_job_def None split: if_splits)
  with insert_Inr(1) [OF c(3)] request_audit_Inr [OF c(4)] None show thesis by (intro queued [of command]) simp_all
next
  case (Some j)
  with assms show thesis
    by (intro again [of "case request_command q of Inr command \<Rightarrow> command" j])
      (auto simp: queue_approval_def Let_def)
qed

lemma request_cases:
  assumes "request_transaction audited env q st = Inr (x, st')"
  obtains (final) r c where "lock_approval (aq_merchant_id q) (aq_approval_id q) st = Some (r, c)" "ar_verdict r \<noteq> V_PENDING"
      "st' = st" "ao_verdict x = verdict_text (ar_verdict r)" "ao_verdict x = aq_verdict q"
  | (expired) r c where "lock_approval (aq_merchant_id q) (aq_approval_id q) st = Some (r, c)"
      "settle_and_suppress audited env 1 q r c V_EXPIRED (ar_approver r) ''approval_expired''
             ''approval_expiry_failed'' ''approval_case_expiry_failed'' st = Inr (x, st')" "ar_expires_at r \<le> te_now env"
  | (rejected) r c where "lock_approval (aq_merchant_id q) (aq_approval_id q) st = Some (r, c)"
      "reject_approval audited env q r c st = Inr (x, st')" "te_now env < ar_expires_at r" "aq_verdict q = ''REJECTED''"
  | (queued) r c where "lock_approval (aq_merchant_id q) (aq_approval_id q) st = Some (r, c)"
      "queue_approval audited env q r c st = Inr (x, st')" "te_now env < ar_expires_at r" "ar_verdict r = V_PENDING"
      "cr_state c = APPROVAL_REQUIRED" "aq_verdict q \<noteq> ''REJECTED''"
  using assms by (auto simp: request_transaction_def final_outcome_def not_le split: option.splits if_splits)

lemma act_on_request_cases:
  assumes "act_on_request audited env q st = (r, st')"
  obtains (raised) e where "r = Inl e" "st' = st"
  | (acted) x where "r = Inr x" "check_approval_request q = Inr ()" "request_transaction audited env q st = Inr (x, st')"
  using assms unfolding act_on_request_def by (auto split: sum.splits elim: commit_cases)

lemma request_phases:
  assumes "act_on_request audited env q st = (r, st')"
  shows "phase_advance (phase m a st) (phase m a st')"
    and "phase m a st' \<noteq> phase m a st \<Longrightarrow> m = aq_merchant_id q \<and> a = aq_approval_id q
      \<and> phase m a st' \<in> {Ph_Queued, Ph_Settled V_REJECTED, Ph_Settled V_EXPIRED}"
    and "phase m a st = Ph_Queued \<Longrightarrow> phase m a st' = Ph_Queued \<or> phase m a st' = Ph_Settled V_EXPIRED"
proof -
  let ?m = "aq_merchant_id q" and ?a = "aq_approval_id q"
  have "phase_advance (phase m a st) (phase m a st')
    \<and> (phase m a st' \<noteq> phase m a st \<longrightarrow> m = ?m \<and> a = ?a \<and> phase m a st' \<in> {Ph_Queued, Ph_Settled V_REJECTED, Ph_Settled V_EXPIRED})
    \<and> (phase m a st = Ph_Queued \<longrightarrow> phase m a st' = Ph_Queued \<or> phase m a st' = Ph_Settled V_EXPIRED)"
    using assms
  proof (cases rule: act_on_request_cases)
    case (acted x)
    from acted(3) show ?thesis
    proof (cases rule: request_cases)
      case (expired r c)
      note s = settle_and_suppress_Inr [OF expired(2)]
      have "phase_advance (phase m a st) (phase m a st')"
        "phase m a st' \<noteq> phase m a st \<Longrightarrow> m = ?m \<and> a = ?a \<and> phase m a st' = Ph_Settled V_EXPIRED"
        by (rule phase_settled [OF s(1)]; simp add: find_job_cong [OF s(2)])+
      then show ?thesis by (cases "phase m a st' = phase m a st") auto
    next
      case (rejected r c)
      note j = reject_approval_Inr [OF rejected(2)]
      note s = settle_and_suppress_Inr [OF j(2)]
      have p: "phase_advance (phase m a st) (phase m a st')"
        "phase m a st' \<noteq> phase m a st \<Longrightarrow> m = ?m \<and> a = ?a \<and> phase m a st' = Ph_Settled V_REJECTED"
        by (rule phase_settled [OF s(1)]; simp add: find_job_cong [OF s(2)])+
      moreover have "phase ?m ?a st \<noteq> Ph_Queued"
        using j(1) by (auto simp: phase_def approval_phase_of_def split: option.splits)
      ultimately show ?thesis by (cases "phase m a st' = phase m a st") auto
    next
      case (queued r c)
      from queued(2) show ?thesis
      proof (cases rule: queue_approval_cases)
        case (queued command)
        have "phase_advance (phase m a st) (phase m a st')"
          "phase m a st' \<noteq> phase m a st \<Longrightarrow> m = ?m \<and> a = ?a \<and> phase m a st' = Ph_Queued"
          by (rule phase_queued [OF queued(5,4)]; simp add: materialize_job_def new_job_def)+
        then show ?thesis by (cases "phase m a st' = phase m a st") auto
      qed simp
    qed simp
  qed simp
  then show "phase_advance (phase m a st) (phase m a st')"
    and "phase m a st' \<noteq> phase m a st \<Longrightarrow> m = ?m \<and> a = ?a
      \<and> phase m a st' \<in> {Ph_Queued, Ph_Settled V_REJECTED, Ph_Settled V_EXPIRED}"
    and "phase m a st = Ph_Queued \<Longrightarrow> phase m a st' = Ph_Queued \<or> phase m a st' = Ph_Settled V_EXPIRED"
    by blast+
qed

text \<open>Effects still match: a request changes no verdict to approved, no action, and adds no effect job.\<close>

lemma effects_match_unchanged:
  assumes ok: "effects_match st" and actions: "as_actions st' = as_actions st"
    and phases: "\<And>m a. phase m a st' \<noteq> phase m a st \<Longrightarrow> phase m a st \<noteq> Ph_Settled V_APPROVED \<and> phase m a st' \<noteq> Ph_Settled V_APPROVED"
    and jobs: "as_jobs st' = as_jobs st @ added"
  shows "effects_match st'"
proof -
  have same: "action_of m a st' = action_of m a st" for m a by (simp add: action_of_def actions)
  have kept: "effect_of m x st = Some j \<Longrightarrow> effect_of m x st' = Some j" for m x j
    by (simp add: effect_of_def jobs find_append)
  have approved: "(phase m a st' = Ph_Settled V_APPROVED) = (phase m a st = Ph_Settled V_APPROVED)" for m a
    using phases [of m a] by (cases "phase m a st' = phase m a st") auto
  show ?thesis
    unfolding effects_match_def approved same
  proof (intro allI)
    fix m a
    from ok have "if phase m a st = Ph_Settled V_APPROVED then \<exists>x j. action_of m a st = Some x \<and> effect_of m x st = Some j
        else action_of m a st = None"
      unfolding effects_match_def by blast
    then show "if phase m a st = Ph_Settled V_APPROVED then \<exists>x j. action_of m a st = Some x \<and> effect_of m x st' = Some j
        else action_of m a st = None"
      using kept by (auto split: if_splits)
  qed
qed

lemma request_keeps:
  assumes "act_on_request audited env q st = (r, st')" "approvals_ok st"
  shows "approvals_ok st'"
proof -
  have "(\<exists>added. as_jobs st' = as_jobs st @ added \<and> list_all (\<lambda>j. is_ulid (w_id j)) added) \<and> as_actions st' = as_actions st
      \<and> approval_keys (as_approvals st') = approval_keys (as_approvals st)"
    using assms(1)
  proof (cases rule: act_on_request_cases)
    case (acted x)
    from acted(3) show ?thesis
    proof (cases rule: request_cases)
      case (expired r c)
      note s = settle_and_suppress_Inr [OF expired(2)]
      show ?thesis using s(2,3) keys_settled [OF s(1)] by simp
    next
      case (rejected r c)
      note s = settle_and_suppress_Inr [OF reject_approval_Inr(2) [OF rejected(2)]]
      show ?thesis using s(2,3) keys_settled [OF s(1)] by simp
    next
      case (queued r c)
      from queued(2) show ?thesis by (cases rule: queue_approval_cases) (simp_all add: materialize_job_def new_job_def)
    qed simp
  qed simp
  then obtain added where added: "as_jobs st' = as_jobs st @ added" "as_actions st' = as_actions st"
    and new: "list_all (\<lambda>j. is_ulid (w_id j)) added"
    and keys: "approval_keys (as_approvals st') = approval_keys (as_approvals st)" by blast
  have "effects_match st'"
  proof (rule effects_match_unchanged [OF _ added(2) _ added(1)])
    show "effects_match st" using assms(2) by (simp add: approvals_ok_def)
    show "phase m a st' \<noteq> phase m a st \<Longrightarrow> phase m a st \<noteq> Ph_Settled V_APPROVED \<and> phase m a st' \<noteq> Ph_Settled V_APPROVED" for m a
      using request_phases(1,2) [OF assms(1), of m a] by auto
  qed
  with keys assms(2) added new show ?thesis by (simp add: approvals_ok_def row_ids_def)
qed

interpretation request: approval_protocol "act_on_request audited env q" for audited env q
proof
  fix st m a assume ok: "approvals_ok st"
  obtain r st' where run: "act_on_request audited env q st = (r, st')" by (cases "act_on_request audited env q st")
  show "approvals_ok (snd (act_on_request audited env q st))" using request_keeps [OF run ok] run by simp
  show "phase_advance (phase m a st) (phase m a (snd (act_on_request audited env q st)))"
    using request_phases(1) [OF run] run by simp
qed

end
