(* ===== verification/Approval_Effects.thy ===== *)
theory Approval_Effects
  imports Approval_Protocol
begin

text \<open>
  The service's transactions: what each writes, that they meet the contract of \<open>Approval_Spec\<close>, and that the
  handler of the materialization command does when the readers do.
\<close>

section \<open>The snapshot\<close>

lemma load_pending_Inr:
  assumes "load_pending m a now st = Inr s"
  obtains r d c t x ord p where "join_pending m a st = Some (r, d, c, t, x, ord, p)" "dr_candidates d = [sn_proposal_value s]"
    "s = snapshot_of (r, d, c, t, x, ord, p) (sn_proposal_value s) (live_instruments c st) now" "snapshot_ids_ok s"
proof -
  obtain r d c rest where j: "join_pending m a st = Some (r, d, c, rest)"
    using assms by (auto simp: load_pending_def split: option.splits)
  then obtain proposal where "dr_candidates d = [proposal]"
    "s = snapshot_of (r, d, c, rest) proposal (live_instruments c st) now" "snapshot_ids_ok s"
    using assms by (auto simp: load_pending_def Let_def split: list.splits)
  with j show thesis by (cases rest) (auto simp: snapshot_of_def intro!: that)
qed

lemma join_pending_Some:
  assumes "join_pending m a st = Some (r, d, c, t, x, ord, p)"
  shows "find (pending_approval m a) (as_approvals st) = Some r" "pending_case r st = Some c"
    "tr_id t = m" "t \<in> set (as_tenants st)"
  using assms
  by (auto simp: join_pending_def bind_eq_Some_conv pending_row_def pending_approval_def is_approval_def find_Some_iff
      in_set_conv_nth)

section \<open>What the transactions write\<close>

lemma service_audit_Inr:
  "service_audit cfg env i n s subject v reason acted_at action st = Inr st' \<Longrightarrow>
     as_approvals st' = as_approvals st \<and> as_jobs st' = as_jobs st \<and> as_actions st' = as_actions st
     \<and> as_cases st' = as_cases st \<and> as_instruments st' = as_instruments st"
  by (auto simp: service_audit_def append_audit_def split: if_splits)

lemma settle_transaction_Inr:
  assumes "settle_transaction cfg env s m subject reason v e1 e2 acted_at st = Inr (x, st')"
  shows "as_approvals st' = map (\<lambda>r. if pending_approval m (sn_approval_id s) r
       then settle_approval v (Some subject) reason acted_at r else r) (as_approvals st)"
    "as_jobs st' = as_jobs st" "as_actions st' = as_actions st" "as_instruments st' = as_instruments st" "xo_verdict x = v"
    "\<exists>locked. load_pending m (sn_approval_id s) (te_now env) st = Inr locked \<and> same_binding locked s"
  using assms by (auto simp: settle_transaction_def updated_one_Inr dest!: service_audit_Inr)

definition acts_in_time :: "pystr \<Rightarrow> pystr \<Rightarrow> instant \<Rightarrow> approval_row \<Rightarrow> bool" where
  "acts_in_time m a acted_at r = (pending_approval m a r \<and> acted_at \<le> ar_expires_at r)"

lemma approve_transaction_Inr:
  assumes "approve_transaction cfg env s plan subject reason acted_at st = Inr (x, st')"
  obtains locked metadata payload r where
    "load_pending (p_merchant_id (ap_proposal plan)) (sn_approval_id s) (te_now env) st = Inr locked" "same_binding locked s"
    "find (acts_in_time (p_merchant_id (ap_proposal plan)) (sn_approval_id s) acted_at) (as_approvals st) = Some r"
    "as_approvals st' = map (\<lambda>r. if acts_in_time (p_merchant_id (ap_proposal plan)) (sn_approval_id s) acted_at r
       then settle_approval V_APPROVED (Some subject) reason acted_at r else r) (as_approvals st)"
    "as_actions st' = map (\<lambda>y. if is_planned (p_merchant_id (ap_proposal plan)) (ap_action_id plan) y
       then y\<lparr>xr_status := X_QUEUED\<rparr> else y) (as_actions st @ [planned_action s plan metadata acted_at])"
    "as_instruments st' = as_instruments st @ [planned_instrument s plan acted_at]"
    "\<forall>z\<in>set (as_instruments st). \<not> collectable_for (p_merchant_id (ap_proposal plan)) (sn_order_id s) (sn_currency s) z"
    "jsonb_document (ap_payload plan) = Inr payload"
    "as_jobs st' = as_jobs st @ [effect_job plan payload acted_at]"
    "as_cases st' = map (\<lambda>c. if waiting_case (p_merchant_id (ap_proposal plan)) (sn_case_id s) (sn_case_version s) c
       then queue_case (ap_action_id plan) acted_at c else c) (as_cases st)"
    "\<exists>c\<in>set (as_cases st). waiting_case (p_merchant_id (ap_proposal plan)) (sn_case_id s) (sn_case_version s) c"
    "x = \<lparr>xo_approval_id = sn_approval_id s, xo_verdict = V_APPROVED, xo_case_id = sn_case_id s,
        xo_case_version = sn_case_version s + 1, xo_action_id = Some (ap_action_id plan), xo_job_id = Some (ap_job_id plan)\<rparr>"
proof -
  let ?m = "p_merchant_id (ap_proposal plan)" and ?a = "sn_approval_id s"
  obtain locked approvals metadata st1 st2 actions cases payload st3 where
    a: "load_pending ?m ?a (te_now env) st = Inr locked" "same_binding locked s"
    "updated_one (update_rows (\<lambda>r. pending_approval ?m ?a r \<and> acted_at \<le> ar_expires_at r)
        (settle_approval V_APPROVED (Some subject) reason acted_at) (as_approvals st))
        ar_verdict V_APPROVED (ApprovalConflict ''approval_update_failed'') = Inr approvals"
    "insert_action (planned_action s plan metadata acted_at) (st\<lparr>as_approvals := approvals\<rparr>) = Inr st1"
    "insert_instrument (planned_instrument s plan acted_at) st1 = Inr st2"
    "updated_one (update_rows (is_planned ?m (ap_action_id plan)) (\<lambda>x. x\<lparr>xr_status := X_QUEUED\<rparr>) (as_actions st2))
        xr_status X_QUEUED (ApprovalConflict ''approval_action_queue_failed'') = Inr actions"
    "updated_one (update_rows (waiting_case ?m (sn_case_id s) (sn_case_version s)) (queue_case (ap_action_id plan) acted_at)
        (as_cases st2)) cr_version (sn_case_version s + 1) (ApprovalConflict ''approval_case_queue_failed'') = Inr cases"
    "jsonb_document (ap_payload plan) = Inr payload"
    "insert_job (effect_job plan payload acted_at) (st2\<lparr>as_actions := actions, as_cases := cases\<rparr>) = Inr st3"
    "service_audit cfg env 8 3 s subject V_APPROVED reason acted_at (Some (ap_action_id plan)) st3 = Inr st'"
    "x = \<lparr>xo_approval_id = ?a, xo_verdict = V_APPROVED, xo_case_id = sn_case_id s,
        xo_case_version = sn_case_version s + 1, xo_action_id = Some (ap_action_id plan), xo_job_id = Some (ap_job_id plan)\<rparr>"
    using assms unfolding approve_transaction_def Let_def bindE_eq_Inr statement_Inr raise_if_eq_Inr by auto
  note i = insert_Inr(2) [OF a(4)] insert_Inr(3) [OF a(5)] insert_Inr(1) [OF a(9)]
  have cases: "\<exists>c\<in>set (as_cases st). waiting_case ?m (sn_case_id s) (sn_case_version s) c"
    using a(7) i(1,2) by (auto simp: updated_one_Inr find_Some_iff intro: nth_mem)
  have timed: "(\<lambda>r. pending_approval ?m ?a r \<and> acted_at \<le> ar_expires_at r) = acts_in_time ?m ?a acted_at"
    by (simp add: fun_eq_iff acts_in_time_def)
  obtain r where r: "find (acts_in_time ?m ?a acted_at) (as_approvals st) = Some r"
    and approvals: "approvals = map (\<lambda>r. if acts_in_time ?m ?a acted_at r
       then settle_approval V_APPROVED (Some subject) reason acted_at r else r) (as_approvals st)"
    using a(3) unfolding timed by (auto simp: updated_one_Inr)
  have free: "\<forall>z\<in>set (as_instruments st). \<not> collectable_for ?m (sn_order_id s) (sn_currency s) z"
    using i(1,2) by (simp add: planned_instrument_def COLLECTABLE_STATUSES_def)
  show thesis
    using i service_audit_Inr [OF a(10)] a(6,7)
    by (intro that [OF a(1,2) r _ _ _ free a(8) _ _ cases a(11)]) (auto simp: updated_one_Inr approvals)
qed

section \<open>Phases\<close>

lemma keyed_row: "approval_keys rows \<Longrightarrow> r \<in> set rows \<Longrightarrow> is_approval m a r \<Longrightarrow> find (is_approval m a) rows = Some r"
  by (induction rows) (auto simp: approval_keys_def is_approval_def)

lemma find_acts_in_time:
  "find (acts_in_time m a t) rows = Some r \<Longrightarrow> r \<in> set rows \<and> is_approval m a r \<and> ar_verdict r = V_PENDING \<and> t \<le> ar_expires_at r"
  by (auto simp: find_Some_iff acts_in_time_def pending_approval_def)

lemma effect_job_key: "approval_job_key b \<noteq> w_idempotency_key (effect_job plan payload t)"
  by (simp add: approval_job_key_def effect_job_def new_job_def)

lemma settle_transaction_meets:
  assumes "settle_transaction cfg env s m subject reason v e1 e2 acted_at st = Inr (x, st')" "v \<noteq> V_PENDING" "v \<noteq> V_APPROVED"
    and ok: "approvals_ok st"
  shows "approvals_ok st' \<and> phase_advance (phase m' b st) (phase m' b st')"
proof -
  note s = settle_transaction_Inr [OF assms(1)]
  have phases: "phase_advance (phase m' b st) (phase m' b st')"
    "phase m' b st' \<noteq> phase m' b st \<Longrightarrow> m' = m \<and> b = sn_approval_id s \<and> phase m' b st' = Ph_Settled v" for m' b
    by (rule phase_settled [OF s(1) _ assms(2)]; simp add: find_job_cong [OF s(2)])+
  have "effects_match st'"
  proof (rule effects_match_unchanged [OF _ s(3)])
    show "effects_match st" "as_jobs st' = as_jobs st @ []" using ok s(2) by (simp_all add: approvals_ok_def)
    show "phase m' b st' \<noteq> phase m' b st \<Longrightarrow> phase m' b st \<noteq> Ph_Settled V_APPROVED \<and> phase m' b st' \<noteq> Ph_Settled V_APPROVED" for m' b
      using phases [of m' b] assms(3) by auto
  qed
  with ok keys_settled [OF s(1)] phases(1) s(2,3) show ?thesis by (simp add: approvals_ok_def row_ids_def)
qed

lemma approve_transaction_meets:
  assumes run: "approve_transaction cfg env s plan subject reason acted_at st = Inr (x, st')" and ok: "approvals_ok st"
    and ids: "is_ulid (ap_action_id plan)" "is_ulid (ap_job_id plan)"
  shows "approvals_ok st' \<and> phase_advance (phase m' b st) (phase m' b st')"
    "phase (p_merchant_id (ap_proposal plan)) (sn_approval_id s) st' = Ph_Settled V_APPROVED"
    "phase (p_merchant_id (ap_proposal plan)) (sn_approval_id s) st \<in> {Ph_Waiting, Ph_Queued}"
proof -
  let ?m = "p_merchant_id (ap_proposal plan)" and ?a = "sn_approval_id s"
  let ?g = "\<lambda>y. if is_planned ?m (ap_action_id plan) y then y\<lparr>xr_status := X_QUEUED\<rparr> else y"
  obtain metadata payload r where
    r: "find (acts_in_time ?m ?a acted_at) (as_approvals st) = Some r"
    and rows: "as_approvals st' = map (\<lambda>r. if acts_in_time ?m ?a acted_at r
       then settle_approval V_APPROVED (Some subject) reason acted_at r else r) (as_approvals st)"
    and actions: "as_actions st' = map ?g (as_actions st @ [planned_action s plan metadata acted_at])"
    and jobs: "as_jobs st' = as_jobs st @ [effect_job plan payload acted_at]"
    by (rule approve_transaction_Inr [OF run])
  have same_job: "find_job m'' (approval_job_key b) st' = find_job m'' (approval_job_key b) st" for m'' b
    using effect_job_key [of b plan payload acted_at] by (auto simp: find_job_append [OF jobs] split: option.split)
  have phases: "phase_advance (phase m'' b st) (phase m'' b st')"
    "phase m'' b st' \<noteq> phase m'' b st \<Longrightarrow> m'' = ?m \<and> b = ?a \<and> phase m'' b st' = Ph_Settled V_APPROVED" for m'' b
    by (rule phase_settled [where m = ?m and a = ?a, OF rows]; simp add: acts_in_time_def same_job)+
  have row: "find (is_approval ?m ?a) (as_approvals st) = Some r" "ar_verdict r = V_PENDING" "acts_in_time ?m ?a acted_at r"
    using ok keyed_row find_acts_in_time [OF r] r by (auto simp: approvals_ok_def find_Some_iff)
  then show pending: "phase ?m ?a st \<in> {Ph_Waiting, Ph_Queued}"
    by (auto simp: phase_def approval_phase_of_def)
  have found: "find (is_approval ?m ?a) (as_approvals st') = Some (settle_approval V_APPROVED (Some subject) reason acted_at r)"
    unfolding rows by (subst find_map_same) (simp_all add: row is_approval_def)
  then show approved: "phase ?m ?a st' = Ph_Settled V_APPROVED" by (simp add: phase_def approval_phase_of_def)
  define g where "g = ?g"
  have g: "xr_id (g y) = xr_id y" "xr_merchant (g y) = xr_merchant y" "xr_approval (g y) = xr_approval y" for y
    by (simp_all add: g_def)
  have action: "action_of m'' b st' = map_option g (case action_of m'' b st of Some y \<Rightarrow> Some y
      | None \<Rightarrow> if m'' = ?m \<and> b = ?a then Some (planned_action s plan metadata acted_at) else None)" for m'' b
    unfolding action_of_def actions g_def [symmetric]
    by (subst find_map_same) (auto simp: g find_append planned_action_def split: option.split)
  have kept: "effect_of m'' y st = Some j \<Longrightarrow> effect_of m'' (g y) st' = Some j" for m'' y j
    by (simp add: effect_of_def g jobs find_append)
  have new: "\<exists>j. effect_of ?m (g (planned_action s plan metadata acted_at)) st' = Some j"
    by (auto simp: effect_of_def g jobs find_append effect_job_def new_job_def CREATE_COMMAND_TYPE_def planned_action_def
        split: option.split)
  have matches: "if phase m'' b st = Ph_Settled V_APPROVED then \<exists>x j. action_of m'' b st = Some x \<and> effect_of m'' x st = Some j
      else action_of m'' b st = None" for m'' b
    using ok unfolding approvals_ok_def effects_match_def by blast
  have "if phase m'' b st' = Ph_Settled V_APPROVED then \<exists>x j. action_of m'' b st' = Some x \<and> effect_of m'' x st' = Some j
      else action_of m'' b st' = None" for m'' b
  proof (cases "m'' = ?m \<and> b = ?a")
    case True
    with matches [of ?m ?a] pending have "action_of ?m ?a st = None" by (auto split: if_splits)
    with True approved new show ?thesis by (simp add: action)
  next
    case False
    then have "phase m'' b st' = phase m'' b st" using phases(2) [of m'' b] by blast
    then show ?thesis using matches [of m'' b] False kept by (fastforce simp: action split: if_splits)
  qed
  then have "effects_match st'" unfolding effects_match_def by blast
  moreover have "row_ids st'"
    using ok ids by (auto simp: approvals_ok_def row_ids_def list_all_iff actions jobs planned_action_def effect_job_def new_job_def)
  ultimately show "approvals_ok st' \<and> phase_advance (phase m' b st) (phase m' b st')"
    using ok keys_settled [OF rows] phases(1) by (simp add: approvals_ok_def)
qed

end
