(* ===== verification/Approval_Service_Spec.thy ===== *)
theory Approval_Service_Spec
  imports Approval_Effects Create_Codec_Properties
begin

text \<open>
  The service and the handler as writers of approvals: the interpretations of the contract, what an approval with
  an effect rests on, and the stored effect command.
\<close>

section \<open>The service's stages\<close>

lemma cancel_approval_meets:
  assumes "cancel_approval cfg env s subject reason v acted_at st = (r, st')" "approvals_ok st"
  shows "approvals_ok st' \<and> phase_advance (phase m b st) (phase m b st')"
    "r = Inr x \<Longrightarrow> xo_verdict x = v \<and> v \<in> {V_CANCELLED, V_EXPIRED}"
proof -
  consider (raised) e where "r = Inl e" "st' = st"
 | (settled) p :: action_proposal and x where "r = Inr x" "v \<in> {V_CANCELLED, V_EXPIRED}"
        "settle_transaction cfg env s (p_merchant_id p) subject reason v ''approval_cancellation_failed''
           ''approval_case_cancel_failed'' acted_at st = Inr (x, st')"
  proof (cases "bindE (raise_if (v \<notin> {V_CANCELLED, V_EXPIRED}) (ValueError ''cancellation verdict is invalid'')) (\<lambda>_.
      decode_action_proposal (sn_proposal_value s))")
    case (Inl e) with assms(1) raised show thesis by (auto simp: cancel_approval_def)
  next
    case (Inr p)
    with assms(1) have "commit (settle_transaction cfg env s (p_merchant_id p) subject reason v ''approval_cancellation_failed''
       ''approval_case_cancel_failed'' acted_at) st = (r, st')"
      unfolding cancel_approval_def by (simp only: sum.case)
    moreover from Inr have "v \<in> {V_CANCELLED, V_EXPIRED}" by auto
    ultimately show thesis using raised settled by (elim commit_cases) blast+
  qed
  then have "(approvals_ok st' \<and> phase_advance (phase m b st) (phase m b st'))
    \<and> (r = Inr x \<longrightarrow> xo_verdict x = v \<and> v \<in> {V_CANCELLED, V_EXPIRED})"
  proof cases
    case (settled p y)
    then show ?thesis
      using settle_transaction_meets [OF settled(3) _ _ assms(2)] settle_transaction_Inr(5) [OF settled(3)] by auto
  qed (use assms(2) in simp)
  then show "approvals_ok st' \<and> phase_advance (phase m b st) (phase m b st')"
    "r = Inr x \<Longrightarrow> xo_verdict x = v \<and> v \<in> {V_CANCELLED, V_EXPIRED}" by simp_all
qed

lemma reject_pending_meets:
  assumes "reject_pending cfg env s subject reason st = (r, st')" "approvals_ok st"
  shows "approvals_ok st' \<and> phase_advance (phase m b st) (phase m b st')"
    "r = Inr x \<Longrightarrow> xo_verdict x = V_REJECTED"
proof -
  consider (raised) e where "r = Inl e" "st' = st"
    | (settled) m' y where "r = Inr y"
        "settle_transaction cfg env s m' subject reason V_REJECTED ''approval_update_failed''
           ''approval_case_reject_failed'' (sn_database_now s) st = Inr (y, st')"
    using assms(1) unfolding reject_pending_def by (auto split: sum.splits elim!: commit_cases)
  then have "(approvals_ok st' \<and> phase_advance (phase m b st) (phase m b st')) \<and> (r = Inr x \<longrightarrow> xo_verdict x = V_REJECTED)"
  proof cases
    case (settled m' y)
    then show ?thesis
      using settle_transaction_meets [OF settled(2) _ _ assms(2)] settle_transaction_Inr(5) [OF settled(2)] by auto
  qed (use assms(2) in simp)
  then show "approvals_ok st' \<and> phase_advance (phase m b st) (phase m b st')"
    "r = Inr x \<Longrightarrow> xo_verdict x = V_REJECTED" by simp_all
qed

lemma settle_approved_cases:
  assumes "settle_approved cfg env s p truth health subject reason st = (r, st')"
  obtains (cancelled) v why t where "cancel_approval cfg env s subject why v t st = (r, st')"
  | (raised) e where "r = Inl e" "st' = st"
  | (approved) acted decision plan x where
      "acted = max (max (sn_database_now s) (pt_observed_at truth)) (ht_observed_at health)"
      "acted < sn_expires_at s" "acted < p_expires_at p"
      "decide_approval cfg s p truth health subject acted = Inr decision" "allowed decision"
      "approval_plan_of env s p decision acted = Inr plan" "r = Inr x"
      "approve_transaction cfg env s plan subject reason acted st = Inr (x, st')"
  using assms unfolding settle_approved_def Let_def
  by (auto split: sum.splits if_splits elim!: commit_cases simp: not_le)

lemma plan_ids:
  assumes "approval_plan_of env s p decision acted_at = Inr plan"
  shows "is_ulid (ap_action_id plan)" "is_ulid (ap_job_id plan)" "ap_proposal plan = p"
  using assms by (auto simp: approval_plan_of_def service_ulid_def split: if_splits prod.splits)

lemma settle_approved_meets:
  assumes "settle_approved cfg env s p truth health subject reason st = (r, st')" "approvals_ok st"
  shows "approvals_ok st' \<and> phase_advance (phase m b st) (phase m b st')"
  using assms(1)
proof (cases rule: settle_approved_cases)
  case (cancelled v why t)
  then show ?thesis by (rule cancel_approval_meets(1) [OF _ assms(2)])
next
  case (approved acted decision plan x)
  show ?thesis by (rule approve_transaction_meets(1) [OF approved(8) assms(2) plan_ids(1,2) [OF approved(6)]])
qed (use assms(2) in simp)

interpretation settlement: approval_protocol "settle_approved cfg env s p truth health subject reason"
  for cfg env s p truth health subject reason
proof
  fix st m a assume ok: "approvals_ok st"
  obtain r st' where run: "settle_approved cfg env s p truth health subject reason st = (r, st')" by fastforce
  show "approvals_ok (snd (settle_approved cfg env s p truth health subject reason st))"
    "phase_advance (phase m a st) (phase m a (snd (settle_approved cfg env s p truth health subject reason st)))"
    using settle_approved_meets [OF run ok] run by simp_all
qed

interpretation rejection: approval_protocol "reject_pending cfg env s subject reason" for cfg env s subject reason
proof
  fix st m a assume ok: "approvals_ok st"
  obtain r st' where run: "reject_pending cfg env s subject reason st = (r, st')" by fastforce
  show "approvals_ok (snd (reject_pending cfg env s subject reason st))"
    "phase_advance (phase m a st) (phase m a (snd (reject_pending cfg env s subject reason st)))"
    using reject_pending_meets(1) [OF run ok] run by simp_all
qed

section \<open>Writers that follow the protocol\<close>

text \<open>Any number of protocol steps: what the service does together with what others do while it reads.\<close>

definition follows :: "(approval_store \<Rightarrow> 'r \<times> approval_store) \<Rightarrow> bool" where
  "follows run = (\<forall>st. approvals_ok st \<longrightarrow>
     approvals_ok (snd (run st)) \<and> (\<forall>m a. phase_step\<^sup>*\<^sup>* (phase m a st) (phase m a (snd (run st)))))"

lemma followsD:
  assumes "follows run" "approvals_ok st" "run st = (r, st')"
  shows "approvals_ok st'" "phase_step\<^sup>*\<^sup>* (phase m a st) (phase m a st')"
  using assms unfolding follows_def by (metis snd_conv)+

lemma advance_steps: "phase_advance p q \<Longrightarrow> phase_step\<^sup>*\<^sup>* p q"
  by (auto simp: phase_advance_def)

context approval_protocol
begin

lemma follows_run: "follows run"
  using keeps advances advance_steps by (auto simp: follows_def)

end

lemma followsI:
  assumes "\<And>st r st'. approvals_ok st \<Longrightarrow> run st = (r, st') \<Longrightarrow>
    approvals_ok st' \<and> (\<forall>m a. phase_step\<^sup>*\<^sup>* (phase m a st) (phase m a st'))"
  shows "follows run"
  unfolding follows_def using assms by (metis prod.collapse)

definition readers_follow :: "approval_config \<Rightarrow> bool" where
  "readers_follow cfg = ((\<forall>q. follows (sc_truth_reader cfg q)) \<and> (\<forall>q. follows (sc_health_reader cfg q)))"

lemma reads_follow:
  assumes "readers_follow cfg"
  shows "follows (read_truth cfg s p)" "follows (read_health cfg s p truth)"
  using assms unfolding readers_follow_def follows_def read_truth_def read_health_def
  by (auto split: sum.split prod.split) (metis snd_conv)+

lemma approve_pending_follows:
  assumes "readers_follow cfg"
  shows "follows (approve_pending cfg env s subject reason)"
proof (rule followsI)
  fix st r st' assume ok: "approvals_ok st" and run: "approve_pending cfg env s subject reason st = (r, st')"
  show "approvals_ok st' \<and> (\<forall>m a. phase_step\<^sup>*\<^sup>* (phase m a st) (phase m a st'))"
  proof (cases "decode_action_proposal (sn_proposal_value s)")
    case (Inl e) with run ok show ?thesis by (simp add: approve_pending_def)
  next
    case (Inr p)
    obtain t st1 where t: "read_truth cfg s p st = (t, st1)" by fastforce
    note one = followsD [OF reads_follow(1) [OF assms] ok t]
    show ?thesis
    proof (cases t)
      case (Inl e) with run Inr t one show ?thesis by (simp add: approve_pending_def)
    next
      case (Inr truth)
      obtain h st2 where h: "read_health cfg s p truth st1 = (h, st2)" by fastforce
      note two = followsD [OF reads_follow(2) [OF assms] one(1) h]
      have both: "phase_step\<^sup>*\<^sup>* (phase m a st) (phase m a st2)" for m a using one(2) two(2) by (rule rtranclp_trans)
      show ?thesis
      proof (cases h)
        case (Inl e)
        with run \<open>decode_action_proposal (sn_proposal_value s) = Inr p\<close> t \<open>t = Inr truth\<close> h two both
        show ?thesis by (simp add: approve_pending_def)
      next
        case (Inr health)
        with run \<open>decode_action_proposal (sn_proposal_value s) = Inr p\<close> t \<open>t = Inr truth\<close> h
        have last: "settle_approved cfg env s p truth health subject reason st2 = (r, st')"
          by (simp add: approve_pending_def)
        note three = followsD [OF settlement.follows_run two(1) last]
        show ?thesis using three both by (meson rtranclp_trans)
      qed
    qed
  qed
qed

lemma act_on_approval_follows:
  assumes "readers_follow cfg"
  shows "follows (act_on_approval cfg loaded_at env m a subject verdict reason)"
proof (rule followsI)
  fix st r st' assume ok: "approvals_ok st" and run: "act_on_approval cfg loaded_at env m a subject verdict reason st = (r, st')"
  from run consider "st' = st" | s where "reject_pending cfg env s subject reason st = (r, st')"
    | s where "approve_pending cfg env s subject reason st = (r, st')"
    unfolding act_on_approval_def by (auto split: sum.splits if_splits)
  then show "approvals_ok st' \<and> (\<forall>m a. phase_step\<^sup>*\<^sup>* (phase m a st) (phase m a st'))"
    using ok followsD [OF rejection.follows_run ok] followsD [OF approve_pending_follows [OF assms] ok]
    by cases auto
qed

lemma attempt_cases:
  assumes "attempt_materialization cfg loaded_at env c st = (r, st')"
  obtains (probed) "st' = st" | (acted) x where "act_on_approval cfg loaded_at env (mac_merchant_id c) (mac_approval_id c)
      (mac_operator_subject c) ''APPROVED'' (mac_reason_code c) st = (x, st')"
  using assms unfolding attempt_materialization_def by (auto split: sum.splits option.splits prod.splits)

lemma handler_store:
  assumes "materialize_handler cfg loaded_at env claimed st = (r, st')"
  obtains (untouched) "st' = st" | (acted) c :: materialize_command and x where "act_on_approval cfg loaded_at env (mac_merchant_id c) (mac_approval_id c)
      (mac_operator_subject c) ''APPROVED'' (mac_reason_code c) st = (x, st')"
proof -
  from assms consider "st' = st" | c x where "attempt_materialization cfg loaded_at env c st = (x, st')"
    unfolding materialize_handler_def by (auto split: sum.splits if_splits prod.splits)
  then show thesis
  proof cases
    case (2 c x) then show thesis by (rule attempt_cases) (rule untouched acted, assumption)+
  qed (rule untouched)
qed

lemma handler_follows:
  assumes "readers_follow cfg"
  shows "follows (materialize_handler cfg loaded_at env claimed)"
proof (rule followsI)
  fix st r st' assume ok: "approvals_ok st" and run: "materialize_handler cfg loaded_at env claimed st = (r, st')"
  from run show "approvals_ok st' \<and> (\<forall>m a. phase_step\<^sup>*\<^sup>* (phase m a st) (phase m a st'))"
  proof (cases rule: handler_store)
    case (acted c x)
    show ?thesis using followsD [OF act_on_approval_follows [OF assms] ok acted] by blast
  qed (use ok in simp)
qed

end
