(* ===== verification/Approval_Authority.thy ===== *)
theory Approval_Authority
  imports Approval_Service_Spec
begin

text \<open>
  What an effect job rests on: the facts the gate's decision, the plan and the approving transaction establish, and
  the stored form of its command.
\<close>

section \<open>What an effect rests on\<close>

text \<open>A create command that the service may write at \<open>acted\<close>, given what the two readers answered.\<close>

definition effect_authorized ::
  "approval_config \<Rightarrow> approval_snapshot \<Rightarrow> payment_truth \<Rightarrow> health_truth \<Rightarrow> instant \<Rightarrow> create_command \<Rightarrow> bool" where
  "effect_authorized cfg s truth health acted command =
     (command_bound command \<and> d_evaluated_at (cc_prior_plan command) = acted
      \<and> acted < p_expires_at (cc_proposal command) \<and> acted < sn_expires_at s
      \<and> p_amount (cc_proposal command) = Some \<lparr>minor_units = sn_amount_minor s, currency = sn_currency s\<rparr>
      \<and> p_payment_method (cc_proposal command) = Some (pt_payment_method truth)
      \<and> \<not> sc_global_kill_switch cfg \<and> \<not> sn_merchant_kill_switch s
      \<and> sn_merchant_status s = ''ACTIVE'' \<and> sn_environment s = ''TEST'' \<and> sn_account_enabled s
      \<and> canonical_payment_state_of truth = UNPAID \<and> ht_incident_state health \<noteq> CONFIRMED
      \<and> fresh (sc_policy cfg) acted (pt_observed_at truth) (gp_provider_snapshot_max_age (sc_policy cfg))
      \<and> fresh (sc_policy cfg) acted (ht_observed_at health) (gp_incident_health_max_age (sc_policy cfg))
      \<and> sn_attempt_count s < gp_max_attempts (sc_policy cfg)
      \<and> (\<exists>deadline. sn_deadline s = Some deadline \<and> deadline \<le> acted))"

lemma require_utc_utc_Inr: "require_utc (utc t) f = Inr u \<Longrightarrow> u = t"
  using require_utc_in_range by (auto simp: require_utc_def utc_def astimezone_utc_def split: option.splits)

lemma option_utc_Inr: "option_checkE (\<lambda>d. require_utc d f) (map_option utc t) = Inr u \<Longrightarrow> u = t"
  by (cases t) (auto simp: option_checkE_def dest: require_utc_utc_Inr)

lemma approval_context_Inr:
  assumes "approval_context cfg s p truth health granted acted = Inr c"
  shows "c_evaluated_at c = acted" "c_global_kill_switch c = sc_global_kill_switch cfg"
    "c_merchant_kill_switch c = sn_merchant_kill_switch s" "c_observation_deadline c = sn_deadline s"
    "c_environment_effects_enabled c = (sn_merchant_status s = ''ACTIVE'' \<and> sn_environment s = ''TEST'' \<and> sn_account_enabled s)"
    "c_attempts_used c = sn_attempt_count s"
    "s_payment_state (c_snapshot c) = canonical_payment_state_of truth"
    "s_amount_due (c_snapshot c) = \<lparr>minor_units = sn_amount_minor s, currency = sn_currency s\<rparr>"
    "s_payment_method (c_snapshot c) = pt_payment_method truth"
    "s_observed_at (c_snapshot c) = pt_observed_at truth"
    "s_method_health_observed_at (c_snapshot c) = ht_observed_at health"
    "s_incident_state (c_snapshot c) = ht_incident_state health"
  using assms
  by (auto simp: approval_context_def mk_gate_context_def mk_provider_snapshot_def
      dest!: require_utc_utc_Inr option_utc_Inr)

lemma approval_plan_Inr:
  assumes "approval_plan_of env s p decision acted = Inr plan"
  shows "cc_proposal (ap_command plan) = p" "cc_prior_plan (ap_command plan) = decision"
    "encode_create_command (ap_command plan) = Inr (ap_payload plan)"
  using assms by (auto simp: approval_plan_of_def approved_command_def mk_create_command_def split: prod.splits)

text \<open>The description of a planned link, which the codec has accepted.\<close>

lemma pii_number_prefix: "pii_number 0 (DESCRIPTION_PREFIX @ s) = pii_number 0 s"
  by (simp add: DESCRIPTION_PREFIX_def is_digit_def)

lemma planned_description:
  assumes "approval_plan_of env s p decision acted = Inr plan"
  shows "\<not> pii_number 0 (DESCRIPTION_PREFIX @ sn_order_id s)"
proof -
  have "description_template (cc_request (ap_command plan))"
    using approval_plan_Inr(3) [OF assms] by (auto simp: encode_create_Inr create_unsigned_def request_primitive_Inr)
  moreover have "lr_description (cc_request (ap_command plan)) = DESCRIPTION_PREFIX @ sn_order_id s"
    using assms by (auto simp: approval_plan_of_def approved_command_def mk_create_command_def mk_link_request_def
        DESCRIPTION_PREFIX_def split: prod.splits)
  ultimately show ?thesis unfolding description_template_def by metis
qed

lemma decision_authorizes:
  assumes decide: "decide_approval cfg s p truth health subject acted = Inr decision" "allowed decision"
    and plan: "approval_plan_of env s p decision acted = Inr plan"
    and now: "acted < sn_expires_at s" "acted < p_expires_at p"
  shows "effect_authorized cfg s truth health acted (ap_command plan)"
proof -
  obtain granted c where c: "approval_context cfg s p truth health granted acted = Inr c"
    "evaluate (sc_policy cfg) POLICY p c None = Inr decision"
    using decide(1) by (auto simp: decide_approval_def evaluate_policy_def)
  note ctx = approval_context_Inr [OF c(1)]
  note pl = approval_plan_Inr [OF plan]
  have bound: "command_bound (ap_command plan)" using pl(3) by (auto simp: encode_create_Inr)
  then have create: "p_action_type p = CREATE_STANDARD_PAYMENT_LINK" and amount: "\<exists>m. p_amount p = Some m"
    using pl(1) by (auto simp: command_bound_def)
  then have collects: "is_collection p" "is_external p" by (simp_all add: action_sets)
  have ok: "authorized (sc_policy cfg) POLICY p c None" using evaluate_allowed [OF c(2)] decide(2) by simp
  then have "collection_safe (sc_policy cfg) p c" "c_environment_effects_enabled c"
    using collects by (simp_all add: authorized_def in_scope_def)
  moreover have "d_evaluated_at decision = acted" using c(2) ctx(1) by (simp add: evaluate_Inr)
  ultimately show ?thesis
    using bound pl(1,2) now amount ctx
    by (auto simp: effect_authorized_def collection_safe_def Let_def)
qed

text \<open>The stored form of an effect command is decoded to the command.\<close>

lemma stored_document_restored:
  assumes "create_storable c"
  obtains env kvs where "encode_create_command c = Inr (JObj env)" "jsonb_document (JObj env) = Inr (JObj kvs)"
    "decode_create_command (PayObject kvs) CREATE_COMMAND_TYPE CREATE_COMMAND_SCHEMA_VERSION = Inr c"
proof -
  have p: "is_identifier (p_case_id (cc_proposal c))" and r: "request_storable (cc_request c) (p_case_id (cc_proposal c))"
    using assms proposal_fields(3) by (auto simp: create_storable_def)
  obtain pd rd where d: "is_digest pd" "is_digest rd" and body: "create_unsigned c = Inr (create_body c pd rd)"
    by (rule create_unsigned_body [OF r p])
  obtain dg raw where canon: "canon (JObj (with_integrity (create_body c pd rd) dg)) = JObj (sealed (create_body c pd rd) dg)"
    and doc: "document (sealed (create_body c pd rd) dg)"
    and b: "bounded_canonical_bytes (JObj (sealed (create_body c pd rd) dg)) = Inr raw"
      "bounded_canonical_bytes (JObj (with_integrity (create_body c pd rd) dg)) = Inr raw"
    and ok: "json_ok (JObj (with_integrity (create_body c pd rd) dg))"
    and seal: "seal (create_body c pd rd) = Inr (JObj (with_integrity (create_body c pd rd) dg))"
    by (rule seal_ok [OF create_body_ok [OF assms d]])
  define E where "E = with_integrity (create_body c pd rd) dg"
  define S where "S = sealed (create_body c pd rd) dg"
  note facts = canon [folded E_def S_def] doc [folded S_def] b [folded E_def S_def] ok [folded E_def] seal [folded E_def]
  have sorted: "json_ok (JObj S)" "canon (JObj S) = JObj S"
    using facts(2) canon_sorted [of "JObj S"] by (simp_all only: document_def)
  have enc: "encode_create_command c = Inr (JObj E)"
    using body facts(6) assms by (simp add: encode_create_Inr create_storable_def)
  obtain env raw' where restored: "encode_create_command c = Inr (JObj env)"
    "decode_create_command (PayObject env) CREATE_COMMAND_TYPE CREATE_COMMAND_SCHEMA_VERSION = Inr c"
    by (rule create_restores [OF assms])
  have "coerce_payload (PayObject S) = coerce_payload (PayObject E)"
    using coerce_object_ok [OF facts(5,4,1)] coerce_object_ok [OF sorted(1) facts(3) sorted(2)]
    by (simp add: coerce_payload_def)
  then have "decode_create_command (PayObject S) CREATE_COMMAND_TYPE CREATE_COMMAND_SCHEMA_VERSION = Inr c"
    using restored enc unfolding decode_create_command_def by simp
  moreover have "jsonb_document (JObj E) = Inr (JObj S)"
    using loads_dumps [OF facts(5)] facts(1) by (simp add: jsonb_document_def del: dumps.simps canon.simps)
  ultimately show thesis using that enc by blast
qed

section \<open>Runs of the service\<close>

lemma act_approved_cases:
  assumes "act_on_approval cfg t env m a subject verdict reason st = (Inr x, st')" "xo_verdict x = V_APPROVED"
  obtains s p truth st1 health st2 acted decision plan where
    "load_pending m a t st = Inr s" "decode_action_proposal (sn_proposal_value s) = Inr p"
    "read_truth cfg s p st = (Inr truth, st1)" "read_health cfg s p truth st1 = (Inr health, st2)"
    "acted = max (max (sn_database_now s) (pt_observed_at truth)) (ht_observed_at health)"
    "acted < sn_expires_at s" "acted < p_expires_at p"
    "decide_approval cfg s p truth health subject acted = Inr decision" "allowed decision"
    "approval_plan_of env s p decision acted = Inr plan" "verdict = ''APPROVED''"
    "approve_transaction cfg env s plan subject reason acted st2 = Inr (x, st')"
proof -
  obtain s where s: "check_service_arguments m a subject verdict reason = Inr ()" "load_pending m a t st = Inr s"
    and run: "(if verdict = ''REJECTED'' then reject_pending cfg env s subject reason st
        else approve_pending cfg env s subject reason st) = (Inr x, st')"
    using assms(1) unfolding act_on_approval_def by (auto split: sum.splits)
  have "verdict \<noteq> ''REJECTED''"
  proof
    assume "verdict = ''REJECTED''"
    with run obtain m' where "settle_transaction cfg env s m' subject reason V_REJECTED ''approval_update_failed''
        ''approval_case_reject_failed'' (sn_database_now s) st = Inr (x, st')"
      by (auto simp: reject_pending_def commit_eq split: sum.splits)
    from settle_transaction_Inr(5) [OF this] assms(2) show False by simp
  qed
  moreover have "verdict = ''APPROVED'' \<or> verdict = ''REJECTED''" using s(1) by (simp add: check_service_arguments_def)
  ultimately have v: "verdict = ''APPROVED''" "approve_pending cfg env s subject reason st = (Inr x, st')" using run by auto
  then obtain p truth st1 health st2 where r: "decode_action_proposal (sn_proposal_value s) = Inr p"
    "read_truth cfg s p st = (Inr truth, st1)" "read_health cfg s p truth st1 = (Inr health, st2)"
    "settle_approved cfg env s p truth health subject reason st2 = (Inr x, st')"
    unfolding approve_pending_def by (auto split: sum.splits prod.splits)
  from r(4) show thesis
  proof (cases rule: settle_approved_cases)
    case (cancelled v' why now)
    then obtain p' :: action_proposal where "settle_transaction cfg env s (p_merchant_id p') subject why v'
        ''approval_cancellation_failed'' ''approval_case_cancel_failed'' now st2 = Inr (x, st')" "v' \<noteq> V_APPROVED"
      by (auto simp: cancel_approval_def commit_eq bindE_def raise_if_def split: sum.splits if_splits)
    with settle_transaction_Inr(5) assms(2) show thesis by blast
  next
    case (approved acted decision plan y)
    then show thesis using that [OF s(2) r(1-3)] v(1) by simp
  qed simp
qed

end
