(* ===== verification/Approval_Sample.thy ===== *)
theory Approval_Sample
  imports Approval_Authority
begin

text \<open>
  A concrete approval: a store with one pending approval, an operator's request that queues it, and the service
  run that materializes it.
\<close>

section \<open>Rows\<close>

definition sample_id :: "char \<Rightarrow> pystr" where
  "sample_id c = replicate 25 (CHR ''A'') @ [c]"

lemma sample_id_inj [simp]: "sample_id c = sample_id d \<longleftrightarrow> c = d"
  by (simp add: sample_id_def)

lemma sample_id_ok [simp]:
  "is_digit c \<Longrightarrow> is_ulid (sample_id c)" "is_digit c \<Longrightarrow> is_identifier (sample_id c)" "length (sample_id c) = 26"
  by (auto simp: sample_id_def is_ulid_def is_identifier_def ident_rest_def ident_start_def is_upper_def list_all_iff
      numeral_eq_Suc)

lemma sample_digits [simp]: "is_digit (CHR ''0'')" "is_digit (CHR ''1'')" "is_digit (CHR ''2'')" "is_digit (CHR ''3'')"
  "is_digit (CHR ''4'')" "is_digit (CHR ''5'')" "is_digit (CHR ''6'')" "is_digit (CHR ''7'')" "is_digit (CHR ''8'')"
  "is_digit (CHR ''9'')"
  by (simp_all add: is_digit_def)

definition approval_proposal :: action_proposal where
  "approval_proposal = sample_proposal\<lparr>p_merchant_id := sample_id (CHR ''1''), p_case_id := sample_id (CHR ''3'')\<rparr>"

definition store_for :: "pystr \<Rightarrow> approval_store" where
  "store_for ord = \<lparr>
     as_approvals = [\<lparr>ar_id = sample_id (CHR ''2''), ar_merchant = sample_id (CHR ''1''), ar_case = sample_id (CHR ''3''),
       ar_decision = sample_id (CHR ''4''), ar_version = 1, ar_verdict = V_PENDING, ar_requested_at = 740000 * us_day,
       ar_expires_at = 740001 * us_day, ar_approver = None, ar_reason = None, ar_acted_at = None\<rparr>],
     as_decisions = [\<lparr>dr_id = sample_id (CHR ''4''), dr_merchant = sample_id (CHR ''1''), dr_case = sample_id (CHR ''3''),
       dr_version = 1, dr_candidates = [proposal_to_primitive approval_proposal], dr_policy_version = ''policy-v1''\<rparr>],
     as_cases = [\<lparr>cr_id = sample_id (CHR ''3''), cr_merchant = sample_id (CHR ''1''), cr_order = ord,
       cr_account = sample_id (CHR ''6''), cr_currency = ''INR'', cr_amount = 49900, cr_state = APPROVAL_REQUIRED,
       cr_version = 4, cr_deadline = Some (740000 * us_day), cr_attempts = 0, cr_contacts = 0, cr_incident = None,
       cr_terminal_reason = None, cr_terminal_at = None, cr_last_action = None, cr_last_action_at = None\<rparr>],
     as_tenants = [\<lparr>tr_id = sample_id (CHR ''1''), tr_status = ''ACTIVE'', tr_kill_switch = False\<rparr>],
     as_accounts = [\<lparr>cc_id = sample_id (CHR ''6''), cc_merchant = sample_id (CHR ''1''), cc_identifier = ''acc_1'',
       cc_environment = ''TEST'', cc_enabled = True, cc_binding_version = 1\<rparr>],
     as_orders = [\<lparr>or_id = ord, or_merchant = sample_id (CHR ''1''), or_account = sample_id (CHR ''6''),
       or_currency = ''INR'', or_truth = UNPAID\<rparr>],
     as_payments = [\<lparr>py_id = sample_id (CHR ''7''), py_merchant = sample_id (CHR ''1''), py_account = sample_id (CHR ''6''),
       py_order = ord, py_currency = ''INR'', py_payment_id = ''pay_1'', py_order_id = ''order_1'',
       py_method = Some ''upi'', py_snapshot_at = 740000 * us_day\<rparr>],
     as_actions = [], as_instruments = [], as_jobs = [], as_audit = []\<rparr>"

definition pending_store :: approval_store where
  "pending_store = store_for (sample_id (CHR ''5''))"

definition sample_env :: "instant \<Rightarrow> tx_env" where
  "sample_env now = \<lparr>te_now = now, te_ids = (\<lambda>n. sample_id (if n = 0 then CHR ''8'' else if n = 1 then CHR ''9'' else CHR ''0'')),
     te_fault = (\<lambda>_. None)\<rparr>"

lemma sample_env_simps [simp]: "te_now (sample_env now) = now" "te_fault (sample_env now) i = None"
  "te_ids (sample_env now) 0 = sample_id (CHR ''8'')" "te_ids (sample_env now) (Suc 0) = sample_id (CHR ''9'')"
  "te_ids (sample_env now) 2 = sample_id (CHR ''0'')"
  by (simp_all add: sample_env_def)

lemma pending_store_ok: "approvals_ok pending_store"
  by (simp add: approvals_ok_def approval_keys_def effects_match_def row_ids_def action_of_def phase_def
      approval_phase_of_def pending_store_def store_for_def)

section \<open>The operator's request\<close>

definition sample_request_of_operator :: approval_request where
  "sample_request_of_operator = \<lparr>aq_merchant_id = sample_id (CHR ''1''), aq_approval_id = sample_id (CHR ''2''),
     aq_operator_subject = ''operator-1'', aq_verdict = ''APPROVED'', aq_reason_code = ''reviewed'',
     aq_idempotency_key = ''approval-key-0001''\<rparr>"

lemma operator_texts: "is_approval_reason ''reviewed''" "strip ''approval-key-0001'' = ''approval-key-0001''"
  by code_simp+

lemma sample_request_command: "\<exists>c. request_command sample_request_of_operator = Inr c"
  using operator_texts subject_of_digest
  by (simp add: request_command_def materialize_ok_def sample_request_of_operator_def operator_identity_def)

lemma sample_queued:
  "\<exists>x st'. act_on_request False (sample_env sample_time) sample_request_of_operator pending_store = (Inr x, st')
     \<and> ao_verdict x = ''APPROVAL_QUEUED''"
proof -
  obtain c where c: "request_command sample_request_of_operator = Inr c" using sample_request_command by blast
  have time: "\<not> 740001 * us_day \<le> sample_time" by (simp add: sample_time_def us_day_def us_second_def)
  have "check_approval_request sample_request_of_operator = Inr ()"
    using operator_texts by (simp add: check_approval_request_def request_ulid_def sample_request_of_operator_def)
  moreover have "\<exists>x st'. request_transaction False (sample_env sample_time) sample_request_of_operator pending_store = Inr (x, st')
      \<and> ao_verdict x = ''APPROVAL_QUEUED''"
    using c time
    by (simp add: request_transaction_def lock_approval_def is_approval_def is_case_def pending_store_def store_for_def request_ulid_def
        queue_approval_def Let_def find_job_def insert_job_def request_audit_def queued_outcome_def)
      (simp add: sample_request_of_operator_def)
  ultimately show ?thesis by (auto simp: act_on_request_def commit_def)
qed

section \<open>The service's run\<close>

definition observed_truth :: payment_truth where
  "observed_truth = \<lparr>pt_merchant_id = sample_id (CHR ''1''), pt_account_id = sample_id (CHR ''6''), pt_binding_version = 1,
     pt_payment_id = ''pay_1'', pt_order_id = ''order_1'', pt_status = PP_FAILED, pt_amount_minor = 49900,
     pt_currency = ''INR'', pt_captured_minor = 0, pt_refunded_minor = 0, pt_payment_method = ''upi'',
     pt_error_source = Some ''customer'', pt_error_step = Some ''authentication'', pt_error_reason = Some ''incorrect_pin'',
     pt_observed_at = sample_time\<rparr>"

definition observed_health :: health_truth where
  "observed_health = \<lparr>ht_merchant_id = sample_id (CHR ''1''), ht_account_id = sample_id (CHR ''6''), ht_payment_method = ''upi'',
     ht_incident_state = NORMAL, ht_observed_at = sample_time, ht_detector_version = ''detector-v1'',
     ht_threshold_version = ''thresholds-v1'', ht_incident_id = None\<rparr>"

definition sample_service :: approval_config where
  "sample_service = \<lparr>sc_policy = sample_policy, sc_truth_reader = (\<lambda>q st. (Inr (observed_truth, utc sample_time), st)),
     sc_health_reader = (\<lambda>q st. (Inr (observed_health, utc sample_time), st)), sc_global_kill_switch = False, sc_audited = False\<rparr>"

lemma sample_readers_follow: "readers_follow sample_service"
  by (simp add: readers_follow_def follows_def sample_service_def)

definition snapshot_for :: "pystr \<Rightarrow> approval_snapshot" where
  "snapshot_for ord = \<lparr>sn_approval_id = sample_id (CHR ''2''), sn_decision_id = sample_id (CHR ''4''), sn_decision_version = 1,
     sn_requested_at = 740000 * us_day, sn_expires_at = 740001 * us_day,
     sn_proposal_value = proposal_to_primitive approval_proposal, sn_policy_version = ''policy-v1'',
     sn_case_id = sample_id (CHR ''3''), sn_order_id = ord, sn_account_id = sample_id (CHR ''6''),
     sn_currency = ''INR'', sn_amount_minor = 49900, sn_case_state = APPROVAL_REQUIRED, sn_case_version = 4,
     sn_deadline = Some (740000 * us_day), sn_attempt_count = 0, sn_contact_count = 0, sn_incident_id = None,
     sn_merchant_status = ''ACTIVE'', sn_merchant_kill_switch = False, sn_account_identifier = ''acc_1'',
     sn_environment = ''TEST'', sn_account_enabled = True, sn_binding_version = 1, sn_truth = UNPAID,
     sn_payment_record_id = sample_id (CHR ''7''), sn_payment_id = ''pay_1'', sn_payment_order_id = ''order_1'',
     sn_payment_method = Some ''upi'', sn_active_instruments = 0, sn_database_now = sample_time\<rparr>"

lemma sample_load_for:
  assumes "is_ulid ord"
  shows "load_pending (sample_id (CHR ''1'')) (sample_id (CHR ''2'')) sample_time (store_for ord) = Inr (snapshot_for ord)"
proof -
  have "join_pending (sample_id (CHR ''1'')) (sample_id (CHR ''2'')) (store_for ord)
    = Some (hd (as_approvals (store_for ord)), hd (as_decisions (store_for ord)), hd (as_cases (store_for ord)),
        hd (as_tenants (store_for ord)), hd (as_accounts (store_for ord)), hd (as_orders (store_for ord)), hd (as_payments (store_for ord)))"
    by (simp add: join_pending_def pending_row_def pending_approval_def is_approval_def pending_decision_def pending_case_def
        is_case_def case_account_def case_order_def latest_payment_def store_for_def)
  then show ?thesis
    using assms by (simp add: load_pending_def snapshot_of_def live_instruments_def snapshot_ids_ok_def Let_def store_for_def
        snapshot_for_def)
qed

definition loaded_snapshot :: approval_snapshot where
  "loaded_snapshot = snapshot_for (sample_id (CHR ''5''))"

lemma sample_load: "load_pending (sample_id (CHR ''1'')) (sample_id (CHR ''2'')) sample_time pending_store = Inr loaded_snapshot"
  by (simp add: pending_store_def loaded_snapshot_def sample_load_for)

lemma approval_proposal_storable: "proposal_storable approval_proposal"
proof -
  have "is_identifier ''prop_1''" "is_payment_method ''upi''" by code_simp+
  then show ?thesis
    using sample_years sample_confidence
    by (simp add: proposal_storable_def approval_proposal_def sample_proposal_def mk_action_proposal_def
        check_collection_fields_def check_instrument_field_def action_sets sample_money_def money_ok_def is_currency_def
        is_upper_def in_signed_64_def MAX_SIGNED_64_def storable_instant_def us_day_def us_second_def)
qed

lemma sample_decoded: "decode_action_proposal (sn_proposal_value loaded_snapshot) = Inr approval_proposal"
  using read_proposal_primitive [OF approval_proposal_storable] by (simp add: decode_action_proposal_def loaded_snapshot_def snapshot_for_def)

lemma sample_reads:
  "read_truth sample_service loaded_snapshot approval_proposal st = (Inr observed_truth, st)"
  "read_health sample_service loaded_snapshot approval_proposal observed_truth st = (Inr observed_health, st)"
proof -
  have names: "is_account_identifier ''acc_1''" "is_resource_id ''pay_1''" "is_resource_id ''order_1''" "clean_ascii ''pay_1'' 128"
    "clean_ascii ''order_1'' 128" "is_payment_method ''upi''" "is_machine_fact ''customer''" "is_machine_fact ''authentication''"
    "is_machine_fact ''incorrect_pin''" "is_identifier ''detector-v1''" "is_identifier ''thresholds-v1''" "is_currency ''INR''"
    by code_simp+
  have utc: "assessment_utc (utc sample_time) f = Inr sample_time" for f
    using sample_time_in_range(1) by (simp add: assessment_utc_def utc_def astimezone_utc_def add_time_def)
  show "read_truth sample_service loaded_snapshot approval_proposal st = (Inr observed_truth, st)"
    using names utc
    by (simp add: read_truth_def mk_truth_query_def assessment_ulid_def assessment_positive_def assessment_resource_id_def
        approval_proposal_def loaded_snapshot_def snapshot_for_def sample_service_def mk_payment_truth_def assessment_nonnegative_def
        check_provider_money_def check_failure_facts_def optional_machine_fact_def observed_truth_def require_payment_method_def)
  show "read_health sample_service loaded_snapshot approval_proposal observed_truth st = (Inr observed_health, st)"
    using names utc
    by (simp add: read_health_def mk_health_query_def assessment_ulid_def optional_ulid_def approval_proposal_def
        loaded_snapshot_def snapshot_for_def sample_service_def mk_health_truth_def observed_health_def require_payment_method_def
        require_identifier_def observed_truth_def)
qed

end
