(* ===== verification/Approval_Run.thy ===== *)
theory Approval_Run
  imports Approval_Sample
begin

text \<open>
  The sample approval, materialized: the gate allows it on the readers' answers, its command is storable, and the
  approving transaction commits.
\<close>

section \<open>The decision\<close>

lemma sample_utc [simp]: "require_utc (utc sample_time) f = Inr sample_time"
  "require_utc (utc (740000 * us_day)) f = Inr (740000 * us_day)" "require_utc (utc (740001 * us_day)) f = Inr (740001 * us_day)"
  using sample_time_in_range by (auto simp: require_utc_def utc_def astimezone_utc_def add_time_def)

lemma approval_proposal_simps [simp]: "p_merchant_id approval_proposal = sample_id (CHR ''1'')"
  "p_case_id approval_proposal = sample_id (CHR ''3'')" "p_decision_version approval_proposal = 1"
  "p_expires_at approval_proposal = 740001 * us_day" "p_requires_approval approval_proposal = False"
  "p_proposal_id approval_proposal = ''prop_1''" "p_action_type approval_proposal = CREATE_STANDARD_PAYMENT_LINK"
  by (simp_all add: approval_proposal_def sample_proposal_def)

definition sample_grant :: approval where
  "sample_grant = \<lparr>a_approval_id = sample_id (CHR ''2''), a_merchant_id = sample_id (CHR ''1''),
     a_case_id = sample_id (CHR ''3''), a_action_key = action_key approval_proposal,
     a_proposal_digest = proposal_digest approval_proposal, a_decision_version = 1,
     a_approved_by = operator_identity ''operator-1'', a_approved_at = sample_time, a_expires_at = 740001 * us_day,
     a_granted = True\<rparr>"

definition approved_context :: gate_context where
  "approved_context = \<lparr>c_merchant_id = sample_id (CHR ''1''), c_case_id = sample_id (CHR ''3''),
     c_evaluated_at = sample_time, c_aggregate_version = 4, c_expected_aggregate_version = 4,
     c_recovery_state = APPROVAL_REQUIRED,
     c_snapshot = \<lparr>s_payment_state = UNPAID, s_amount_due = sample_money, s_payment_method = ''upi'',
       s_observed_at = sample_time, s_active_instrument_count = 0, s_incident_state = NORMAL,
       s_method_health_observed_at = sample_time\<rparr>,
     c_environment_effects_enabled = True, c_observation_deadline = Some (740000 * us_day),
     c_global_kill_switch = False, c_merchant_kill_switch = False, c_consent_granted = True,
     c_opted_out = False, c_cooldown_until = None, c_contacts_in_window = 0,
     c_quiet_hours_active = False, c_attempts_used = 0, c_abstention_required = False,
     c_external_diagnosis_review_required = False, c_approval = Some sample_grant, c_durable_intent_recorded = False\<rparr>"

definition approved_decision :: gate_decision where
  "approved_decision = \<lparr>d_stage = POLICY, d_policy_version = ''policy-v1'', d_proposal_id = ''prop_1'',
     d_action_key = action_key approval_proposal, d_proposal_digest = proposal_digest approval_proposal,
     d_case_id = sample_id (CHR ''3''), d_decision_version = 1, d_aggregate_version = 4,
     d_evaluated_at = sample_time, d_reasons = []\<rparr>"

lemma sample_granted: "approval_of loaded_snapshot approval_proposal ''operator-1'' sample_time = Inr sample_grant"
proof -
  have "is_identifier (operator_identity ''operator-1'')"
    using list_all_digest_ident [OF is_digest_sha256_hex [of "utf8 ''operator-1''"]] is_digest_sha256_hex [of "utf8 ''operator-1''"]
    by (simp add: operator_identity_def is_identifier_def is_digest_def ident_rest_def ident_start_def is_lower_def)
  moreover have "startswith (action_key approval_proposal) ''act_''" by (simp add: action_key_def startswith_def)
  moreover have "sample_time < 740001 * us_day" by (simp add: sample_time_def us_day_def us_second_def)
  ultimately show ?thesis
    by (simp add: approval_of_def mk_approval_def loaded_snapshot_def snapshot_for_def sample_grant_def require_identifier_def)
qed

lemma sample_context_of:
  "approval_context sample_service loaded_snapshot approval_proposal observed_truth observed_health sample_grant sample_time
     = Inr approved_context"
proof -
  have "is_currency ''INR''" "is_payment_method ''upi''" by code_simp+
  then show ?thesis
    by (simp add: approval_context_def mk_money_def mk_provider_snapshot_def mk_gate_context_def approved_context_def
        loaded_snapshot_def snapshot_for_def sample_service_def observed_truth_def observed_health_def sample_money_def
        require_identifier_def require_nonneg_def canonical_payment_state_of_def require_payment_method_def option_checkE_def)
qed

lemma sample_authorized: "authorized sample_policy POLICY approval_proposal approved_context None"
  by (simp add: authorized_def approved_context_def approval_proposal_def sample_defs in_scope_def instrument_fit_def
      collection_safe_def autonomous_def fresh_def action_sets actionable_states_def us_second_def us_minute_def us_day_def
      prob_less_def dec_less_def Let_def sample_time_def)

lemma sample_decided:
  "decide_approval sample_service loaded_snapshot approval_proposal observed_truth observed_health ''operator-1'' sample_time
     = Inr approved_decision"
proof -
  have "in_range (c_evaluated_at approved_context + gp_allowed_clock_skew sample_policy)"
    by (simp add: approved_context_def sample_policy_def sample_time_def in_range_def max_instant_def us_day_def us_second_def)
  then have "evaluate sample_policy POLICY approval_proposal approved_context None = Inr approved_decision"
    using sample_authorized all_reasons_Nil [of sample_policy POLICY approval_proposal approved_context None]
    by (simp add: evaluate_Inr approved_decision_def) (simp add: approved_context_def)
  then show ?thesis
    by (simp add: decide_approval_def sample_granted sample_context_of evaluate_policy_def) (simp add: sample_service_def)
qed

section \<open>The command\<close>

definition approved_request :: link_request where
  "approved_request = \<lparr>lr_amount_minor = 49900, lr_currency = ''INR'',
     lr_reference_id = reference_text (sample_id (CHR ''3'')) (sample_id (CHR ''6'')),
     lr_description = ''Retry payment for order '' @ sample_id (CHR ''5''), lr_expire_by_epoch = 1800489610,
     lr_notes = [(''merchant_order_id'', sample_id (CHR ''5'')), (''recovery_case_id'', sample_id (CHR ''3''))],
     lr_customer = None\<rparr>"

definition approved_create :: create_command where
  "approved_create = \<lparr>cc_proposal = approval_proposal, cc_prior_plan = approved_decision, cc_request = approved_request,
     cc_provider_account_id = sample_id (CHR ''6'')\<rparr>"

definition link_expiry :: instant where
  "link_expiry = sample_time + us_day"

lemma link_expiry_ok: "in_range link_expiry" "timestamp link_expiry = 1800489610" "fromtimestamp 1800489610 = Inr link_expiry"
  "add_time sample_time us_day = Inr link_expiry"
proof -
  show "in_range link_expiry"
    by (simp add: link_expiry_def sample_time_def in_range_def max_instant_def us_day_def us_second_def)
  then show "add_time sample_time us_day = Inr link_expiry" by (simp add: add_time_def link_expiry_def)
  show "timestamp link_expiry = 1800489610"
    by (rule timestamp_whole) (simp add: link_expiry_def sample_time_def unix_epoch_def us_day_def us_second_def)
  show "fromtimestamp 1800489610 = Inr link_expiry"
    by (simp add: fromtimestamp_def Let_def link_expiry_def sample_time_def unix_epoch_def us_day_def us_second_def
        in_range_def max_instant_def)
qed

lemma approved_texts: "reference_input (sample_id (CHR ''3''))" "reference_input (sample_id (CHR ''6''))"
  "clean_link_text 2048 (''Retry payment for order '' @ sample_id (CHR ''5''))" "link_currency ''INR''"
  "clean_link_text 256 ''merchant_order_id''" "clean_link_text 256 ''recovery_case_id''"
  "clean_link_text 256 (sample_id (CHR ''5''))" "clean_link_text 256 (sample_id (CHR ''3''))"
  "\<not> pii_number 0 (''Retry payment for order '' @ sample_id (CHR ''5''))"
  "CHR 0x40 \<notin> set (''Retry payment for order '' @ sample_id (CHR ''5''))"
  by (unfold clean_link_text_def reference_input_def) code_simp+

lemma approved_request_ok: "link_request_ok approved_request" "distinct (map fst (lr_notes approved_request))"
  using approved_texts reference_text_clean by (simp_all add: link_request_ok_def approved_request_def)

lemma approved_request_storable: "request_storable approved_request (sample_id (CHR ''3''))"
  using approved_request_ok(1) approved_texts
  by (simp add: request_storable_def description_template_def approved_request_def note_of_def DESCRIPTION_PREFIX_def
      in_signed_64_def MAX_SIGNED_64_def REQUIRED_NOTE_KEYS_def)

lemma approved_decision_storable: "plan_storable approved_decision"
proof -
  have "is_identifier ''prop_1''" "is_identifier ''policy-v1''" by code_simp+
  moreover have "storable_instant sample_time" using sample_years(3) by (simp add: sample_time_def)
  ultimately show ?thesis by (simp add: plan_storable_def approved_decision_def in_signed_64_def MAX_SIGNED_64_def)
qed

lemma approved_create_storable: "create_storable approved_create"
  using approved_request_storable approval_proposal_storable approved_decision_storable approved_texts(1,2)
  by (simp add: create_storable_def approved_create_def command_bound_def make_reference_Inr)
    (simp add: approved_request_def approved_decision_def plan_unbound_def allowed_def sample_money_def approval_proposal_def
      sample_proposal_def)

lemma sample_command_of: "approved_command loaded_snapshot approval_proposal approved_decision sample_time = Inr (approved_create, link_expiry)"
proof -
  have "make_recovery_reference_id (sample_id (CHR ''3'')) (sample_id (CHR ''6''))
      = Inr (reference_text (sample_id (CHR ''3'')) (sample_id (CHR ''6'')))"
    using approved_texts(1,2) by (simp add: make_reference_Inr)
  moreover have "mk_link_request approved_request = Inr approved_request"
    using approved_request_ok
    by (simp add: mk_link_request_def link_request_ok_def link_clean_text_JStr strict_positive_int_Inr copy_notes_dict not_le not_less)
  moreover have "mk_create_command approved_create = Inr approved_create"
  proof -
    have "clean_text (sample_id (CHR ''6'')) 128" by code_simp
    then show ?thesis by (simp add: mk_create_command_def require_text_def approved_create_def)
  qed
  ultimately show ?thesis
    using link_expiry_ok by (simp add: approved_command_def loaded_snapshot_def snapshot_for_def approved_request_def approved_create_def)
qed

lemma sample_intent_of: "\<exists>i. record_intent approved_create (utc sample_time) = Inr i"
proof -
  obtain rd where rd: "command_request_digest approved_create = Inr rd" "is_digest rd" by (rule command_digests)
  obtain pd where pd: "command_payload_digest approved_create = Inr pd" "is_digest pd"
    using command_payload_is_digest by blast
  have "clean_text (sample_id (CHR ''6'')) 128" "clean_text (sample_id (CHR ''1'')) 128" by code_simp+
  moreover have "clean_text (reference_text c a) 40" for c a
    using reference_text_clean [of c a] by (auto simp: clean_text_def clean_link_text_def)
  moreover have "is_digest (decision_digest approved_decision)" by (simp add: decision_digest_def)
  ultimately show ?thesis
    using rd pd clean_action_key sample_time_in_range(1)
    by (simp add: record_intent_def mk_durable_intent_def digest_clean require_text_def approved_create_def
        approved_request_def)
qed

definition sample_plan_of :: "json \<Rightarrow> json \<Rightarrow> approval_plan" where
  "sample_plan_of metadata payload = \<lparr>ap_proposal = approval_proposal, ap_command = approved_create,
     ap_metadata = metadata, ap_payload = payload, ap_action_id = sample_id (CHR ''8''),
     ap_instrument_id = sample_id (CHR ''9''), ap_job_id = sample_id (CHR ''0''), ap_link_expires_at = link_expiry\<rparr>"

lemma sample_planned:
  obtains metadata payload metadata' payload' where
    "approval_plan_of (sample_env sample_time) loaded_snapshot approval_proposal approved_decision sample_time
       = Inr (sample_plan_of metadata payload)"
    "jsonb_document metadata = Inr metadata'" "jsonb_document payload = Inr payload'"
proof -
  obtain i where i: "record_intent approved_create (utc sample_time) = Inr i" using sample_intent_of by blast
  obtain env kvs where e: "encode_create_command approved_create = Inr (JObj env)"
    and p: "jsonb_document (JObj env) = Inr (JObj kvs)"
    by (rule stored_document_restored [OF approved_create_storable])
  have "json_ok (intent_metadata i)" by (simp add: intent_metadata_def)
  then have m: "jsonb_document (intent_metadata i) = Inr (canon (intent_metadata i))"
    using loads_dumps by (simp add: jsonb_document_def del: dumps.simps canon.simps)
  show thesis
    using i e by (intro that [OF _ m p]) (simp add: approval_plan_of_def sample_command_of service_ulid_def sample_plan_of_def)
qed

section \<open>The transaction\<close>

lemma sample_approved:
  "\<exists>x st'. approve_transaction sample_service (sample_env sample_time) loaded_snapshot (sample_plan_of metadata payload)
       ''operator-1'' ''reviewed'' sample_time pending_store = Inr (x, st') \<and> xo_verdict x = V_APPROVED"
  if "jsonb_document metadata = Inr metadata'" "jsonb_document payload = Inr payload'"
proof -
  have "sample_time \<le> 740001 * us_day" by (simp add: sample_time_def us_day_def us_second_def)
  then show ?thesis
    using that sample_load
    by (simp add: approve_transaction_def Let_def sample_plan_of_def same_binding_def updated_one_def update_rows_def
        service_audit_def sample_service_def insert_action_def insert_instrument_def insert_job_def)
      (simp add: loaded_snapshot_def snapshot_for_def pending_store_def store_for_def pending_approval_def is_approval_def settle_approval_def planned_action_def
        planned_instrument_def is_planned_def waiting_case_def is_case_def queue_case_def effect_job_def new_job_def)
qed

lemma sample_acted:
  obtains x st' where "act_on_approval sample_service sample_time (sample_env sample_time) (sample_id (CHR ''1'')) (sample_id (CHR ''2''))
    ''operator-1'' ''APPROVED'' ''reviewed'' pending_store = (Inr x, st')" "xo_verdict x = V_APPROVED"
proof -
  obtain metadata payload metadata' payload' where
    p: "approval_plan_of (sample_env sample_time) loaded_snapshot approval_proposal approved_decision sample_time
       = Inr (sample_plan_of metadata payload)"
    and j: "jsonb_document metadata = Inr metadata'" "jsonb_document payload = Inr payload'"
    by (rule sample_planned)
  obtain x st' where a: "approve_transaction sample_service (sample_env sample_time) loaded_snapshot (sample_plan_of metadata payload)
       ''operator-1'' ''reviewed'' sample_time pending_store = Inr (x, st')" "xo_verdict x = V_APPROVED"
    using sample_approved [OF j] by blast
  have acted: "max (max (sn_database_now loaded_snapshot) (pt_observed_at observed_truth)) (ht_observed_at observed_health) = sample_time"
    by (simp add: loaded_snapshot_def snapshot_for_def observed_truth_def observed_health_def)
  have time: "sample_time < sn_expires_at loaded_snapshot" "sample_time < 740001 * us_day"
    by (simp_all add: loaded_snapshot_def snapshot_for_def sample_time_def us_day_def us_second_def)
  have "settle_approved sample_service (sample_env sample_time) loaded_snapshot approval_proposal observed_truth observed_health
      ''operator-1'' ''reviewed'' pending_store = (Inr x, st')"
    using a(1) time p sample_decided
    by (simp add: settle_approved_def acted commit_def not_le) (simp add: approved_decision_def allowed_def)
  then show thesis
    using operator_texts(1) a(2) sample_load sample_decoded sample_reads
    by (intro that [of x st']) (simp_all add: act_on_approval_def check_service_arguments_def service_ulid_def approve_pending_def statement_def)
qed

end
