(* ===== verification/Approval_Properties.thy ===== *)
theory Approval_Properties
  imports Approval_Run
begin

text \<open>
  The properties of the approval workflow, each at the sample approval as well.
\<close>

section \<open>Properties\<close>

text \<open>C10. An operator's request keeps the store in order and moves an approval at most one step forward: only
  the approval it names, to queued, rejected or expired, never to approved; once an approval is queued, a request can
  only find it expired; a request that raises changes nothing.\<close>

theorem request_moves_forward:
  assumes "act_on_request audited env q st = (r, st')" "approvals_ok st"
  shows "approvals_ok st' \<and> phase_advance (phase m a st) (phase m a st')
    \<and> (phase m a st' \<noteq> phase m a st \<longrightarrow> m = aq_merchant_id q \<and> a = aq_approval_id q
         \<and> phase m a st' \<in> {Ph_Queued, Ph_Settled V_REJECTED, Ph_Settled V_EXPIRED})
    \<and> (phase m a st = Ph_Queued \<longrightarrow> phase m a st' = Ph_Queued \<or> phase m a st' = Ph_Settled V_EXPIRED)
    \<and> (\<forall>e. r = Inl e \<longrightarrow> st' = st)"
proof -
  have "approvals_ok st'" "phase_advance (phase m a st) (phase m a st')"
    using request.keeps [OF assms(2)] request.advances [OF assms(2)] assms(1) by (metis snd_conv)+
  moreover have "r = Inl e \<Longrightarrow> st' = st" for e using assms(1) by (cases rule: act_on_request_cases) simp_all
  ultimately show ?thesis using request_phases(2,3) [OF assms(1)] by blast
qed

theorem request_moves_forward_witness:
  "\<exists>st'. snd (act_on_request False (sample_env sample_time) sample_request_of_operator pending_store) = st' \<and> approvals_ok st'"
  using request_moves_forward [OF surjective_pairing pending_store_ok] by blast

lemma request_case_ulid:
  "request_transaction audited env q st = Inr (x, st') \<Longrightarrow> lock_approval (aq_merchant_id q) (aq_approval_id q) st = Some (r, c) \<Longrightarrow>
   is_ulid (ar_case r)"
  by (auto simp: request_transaction_def request_ulid_def split: if_splits)

text \<open>A request answered as queued leaves its approval waiting, with the job of its command in the table.\<close>

definition waiting_for ::
  "approval_request \<Rightarrow> materialize_command \<Rightarrow> approval_row \<Rightarrow> case_row \<Rightarrow> outbox_row \<Rightarrow> approval_store \<Rightarrow> bool" where
  "waiting_for q command r c j st =
     (lock_approval (aq_merchant_id q) (aq_approval_id q) st = Some (r, c) \<and> ar_verdict r = V_PENDING
      \<and> cr_state c = APPROVAL_REQUIRED \<and> is_ulid (ar_case r)
      \<and> find_job (aq_merchant_id q) (approval_job_key (aq_approval_id q)) st = Some j
      \<and> w_command_payload j = materialize_to_primitive command)"

lemma queued_request_cases:
  assumes "act_on_request audited env q st = (Inr x, st')" "ao_verdict x = ''APPROVAL_QUEUED''"
  obtains command r c j where "request_command q = Inr command" "check_approval_request q = Inr ()" "aq_verdict q \<noteq> ''REJECTED''"
    "waiting_for q command r c j st'" "te_now env < ar_expires_at r" "ao_job_id x = Some (w_id j)"
    "as_approvals st' = as_approvals st"
  using assms(1)
proof (cases rule: act_on_request_cases)
  case (acted y)
  then have t: "request_transaction audited env q st = Inr (x, st')" and check: "check_approval_request q = Inr ()" by simp_all
  from t show thesis
  proof (cases rule: request_cases)
    case (final r c)
    with assms(2) have False by (cases "ar_verdict r") simp_all
    then show thesis ..
  next
    case (expired r c)
    with settle_and_suppress_Inr(4) [OF expired(2)] assms(2) show thesis by simp
  next
    case (rejected r c)
    with settle_and_suppress_Inr(4) [OF reject_approval_Inr(2) [OF rejected(2)]] assms(2) show thesis by simp
  next
    case (queued r c)
    note ulid = request_case_ulid [OF t queued(1)]
    from queued(2) show thesis
    proof (cases rule: queue_approval_cases)
      case (again command j)
      then show thesis using queued check ulid
        by (intro that [of command r c j]) (simp_all add: queued_outcome_def waiting_for_def)
    next
      case (queued command)
      have "find_job (aq_merchant_id q) (approval_job_key (aq_approval_id q)) st' = Some (materialize_job env q command)"
        using queued(3) by (simp add: find_job_append [OF queued(4)] materialize_job_def new_job_def)
      moreover have "lock_approval (aq_merchant_id q) (aq_approval_id q) st' = Some (r, c)"
        using queued(5,7) \<open>lock_approval _ _ st = Some (r, c)\<close> by (simp add: lock_approval_def cong: option.case_cong)
      ultimately show thesis
        using queued(1,5,8) check ulid \<open>ar_verdict r = V_PENDING\<close> \<open>cr_state c = APPROVAL_REQUIRED\<close> \<open>te_now env < ar_expires_at r\<close>
          \<open>aq_verdict q \<noteq> ''REJECTED''\<close>
        by (intro that [of command r c "materialize_job env q command"])
          (simp_all add: queued_outcome_def waiting_for_def, simp_all add: materialize_job_def new_job_def)
    qed
  qed
qed simp

lemma repeated_request:
  assumes "waiting_for q command r c j st" "request_command q = Inr command" "check_approval_request q = Inr ()"
    and "aq_verdict q \<noteq> ''REJECTED''" "is_ulid (te_ids env 0)" "te_fault env 0 = None" "te_fault env 1 = None"
    and "te_now env < ar_expires_at r"
  shows "act_on_request audited env q st = (Inr (queued_outcome q r c (w_id j) (row_status_text (w_status j))), st)"
  using assms
  by (simp add: act_on_request_def request_transaction_def waiting_for_def queue_approval_def request_ulid_def commit_def
      statement_Inr statement_def Let_def)

text \<open>C11. A queued approval is one durable command: the job under the approval's key holds exactly the command
  of the request, the worker's decoder reads it back, and the approval is still waiting and unexpired. The same request
  made again before the approval expires, whatever identifiers it is given and whether or not it is audited, names the same
  job and writes nothing; and it does answer so whenever its statements succeed. Made at or after the expiry it can only
  expire the approval.\<close>

theorem queued_command_restored:
  assumes "act_on_request audited env q st = (Inr x, st')" "ao_verdict x = ''APPROVAL_QUEUED''"
  shows "\<exists>command r c j. request_command q = Inr command \<and> waiting_for q command r c j st' \<and> te_now env < ar_expires_at r
    \<and> ao_job_id x = Some (w_id j)
    \<and> decode_materialize_command (w_command_payload j) MATERIALIZE_COMMAND_TYPE MATERIALIZE_COMMAND_VERSION = Inr command
    \<and> (\<forall>audited' env' x' st''. act_on_request audited' env' q st' = (Inr x', st'') \<longrightarrow>
         (if te_now env' < ar_expires_at r
          then ao_verdict x' = ''APPROVAL_QUEUED'' \<and> ao_job_id x' = ao_job_id x \<and> st'' = st'
          else ao_verdict x' = ''EXPIRED''))
    \<and> (\<forall>audited' env'. te_now env' < ar_expires_at r \<and> is_ulid (te_ids env' 0) \<and> te_fault env' 0 = None \<and> te_fault env' 1 = None
         \<longrightarrow> is_ok (fst (act_on_request audited' env' q st')))"
proof -
  obtain command r c j where q: "request_command q = Inr command" "check_approval_request q = Inr ()" "aq_verdict q \<noteq> ''REJECTED''"
    and w: "waiting_for q command r c j st'" and t: "te_now env < ar_expires_at r" and x: "ao_job_id x = Some (w_id j)"
    by (rule queued_request_cases [OF assms])
  have "decode_materialize_command (w_command_payload j) MATERIALIZE_COMMAND_TYPE MATERIALIZE_COMMAND_VERSION = Inr command"
    using q(1) w decode_materialized by (simp add: request_command_def waiting_for_def)
  moreover have "if te_now env' < ar_expires_at r
      then ao_verdict x' = ''APPROVAL_QUEUED'' \<and> ao_job_id x' = ao_job_id x \<and> st'' = st' else ao_verdict x' = ''EXPIRED''"
    if again: "act_on_request audited' env' q st' = (Inr x', st'')" for audited' env' x' st''
  proof -
    have run: "request_transaction audited' env' q st' = Inr (x', st'')"
      using again by (cases rule: act_on_request_cases) simp_all
    then show ?thesis
    proof (cases rule: request_cases)
      case (expired r' c')
      then show ?thesis using w settle_and_suppress_Inr(4) [OF expired(2)] by (simp add: waiting_for_def)
    next
      case (queued r' c')
      from queued(2) show ?thesis
        by (cases rule: queue_approval_cases) (use w x queued(1,3) in \<open>auto simp: waiting_for_def queued_outcome_def\<close>)
    qed (use w q in \<open>auto simp: waiting_for_def\<close>)
  qed
  moreover have "is_ok (fst (act_on_request audited' env' q st'))"
    if "te_now env' < ar_expires_at r" "is_ulid (te_ids env' 0)" "te_fault env' 0 = None" "te_fault env' 1 = None" for audited' env'
    using repeated_request [OF w q that(2-4,1)] by simp
  ultimately show ?thesis using q(1) w t x by blast
qed

theorem queued_command_restored_witness:
  "\<exists>x (st' :: approval_store). act_on_request False (sample_env sample_time) sample_request_of_operator pending_store = (Inr x, st')
     \<and> ao_verdict x = ''APPROVAL_QUEUED'' \<and> as_jobs pending_store = [] \<and> as_jobs st' \<noteq> []
     \<and> (\<exists>y. act_on_request True (sample_env (sample_time + 1)) sample_request_of_operator st' = (Inr y, st') \<and> ao_job_id y = ao_job_id x)"
proof -
  obtain x st' where run: "act_on_request False (sample_env sample_time) sample_request_of_operator pending_store = (Inr x, st')"
    "ao_verdict x = ''APPROVAL_QUEUED''"
    using sample_queued by blast
  obtain command r c j where w: "waiting_for sample_request_of_operator command r c j st'" and x: "ao_job_id x = Some (w_id j)"
    and same: "\<And>x' st''. act_on_request True (sample_env (sample_time + 1)) sample_request_of_operator st' = (Inr x', st'') \<Longrightarrow>
      (if sample_time + 1 < ar_expires_at r then ao_verdict x' = ''APPROVAL_QUEUED'' \<and> ao_job_id x' = ao_job_id x \<and> st'' = st'
       else ao_verdict x' = ''EXPIRED'')"
    and ok: "sample_time + 1 < ar_expires_at r \<Longrightarrow>
      is_ok (fst (act_on_request True (sample_env (sample_time + 1)) sample_request_of_operator st'))"
    using queued_command_restored [OF run] by (fastforce simp del: split_paired_Ex)
  have "as_approvals st' = as_approvals pending_store" by (rule queued_request_cases [OF run])
  with w have "ar_expires_at r = 740001 * us_day"
    by (auto simp: waiting_for_def lock_approval_def pending_store_def store_for_def split: option.splits if_splits)
  then have later: "sample_time + 1 < ar_expires_at r" by (simp add: sample_time_def us_day_def us_second_def)
  from ok [OF later] obtain y st'' where again: "act_on_request True (sample_env (sample_time + 1)) sample_request_of_operator st' = (Inr y, st'')"
    by (cases "act_on_request True (sample_env (sample_time + 1)) sample_request_of_operator st'") (auto simp: is_ok_iff)
  have "as_jobs st' \<noteq> []" using w by (auto simp: waiting_for_def find_job_def)
  moreover have "as_jobs pending_store = []" by (simp add: pending_store_def store_for_def)
  ultimately show ?thesis using run again same [OF again] later by auto
qed

text \<open>C8. The service writes an effect only on authority: when it reports an approval, it has read the provider
  and the detector afresh, and at that moment the approval and the proposal were unexpired, the payment unpaid and
  both readings fresh, no kill switch was set, merchant and account were enabled, the observation window had passed,
  and the gate allowed the proposal; in the store at the commit the approval was still pending, nothing it had loaded
  had changed and no instrument of the order could collect. It writes one effect job, with the command bound to that
  decision, and when the command is storable the executor's decoder reads it back from the column.\<close>

theorem approved_effect_authorized:
  assumes "act_on_approval cfg t env m a subject verdict reason st = (Inr x, st')" "xo_verdict x = V_APPROVED"
  shows "\<exists>s truth st1 health st2 acted command payload document job.
    load_pending m a t st = Inr s \<and> decode_action_proposal (sn_proposal_value s) = Inr (cc_proposal command)
    \<and> read_truth cfg s (cc_proposal command) st = (Inr truth, st1)
    \<and> read_health cfg s (cc_proposal command) truth st1 = (Inr health, st2)
    \<and> effect_authorized cfg s truth health acted command
    \<and> (\<exists>r\<in>set (as_approvals st2). is_approval (p_merchant_id (cc_proposal command)) (sn_approval_id s) r
         \<and> ar_verdict r = V_PENDING \<and> acted \<le> ar_expires_at r)
    \<and> (\<exists>now locked. load_pending (p_merchant_id (cc_proposal command)) (sn_approval_id s) now st2 = Inr locked \<and> same_binding locked s)
    \<and> (\<forall>y\<in>set (as_instruments st2). \<not> collectable_for (p_merchant_id (cc_proposal command)) (sn_order_id s) (sn_currency s) y)
    \<and> encode_create_command command = Inr payload \<and> jsonb_document payload = Inr document
    \<and> as_jobs st' = as_jobs st2 @ [job] \<and> w_command_type job = CREATE_COMMAND_TYPE \<and> w_command_payload job = document
    \<and> (create_storable command \<longrightarrow> (\<exists>kvs. document = JObj kvs
         \<and> decode_create_command (PayObject kvs) CREATE_COMMAND_TYPE CREATE_COMMAND_SCHEMA_VERSION = Inr command))"
proof -
  obtain s p truth st1 health st2 acted decision plan where
    run: "load_pending m a t st = Inr s" "decode_action_proposal (sn_proposal_value s) = Inr p"
    "read_truth cfg s p st = (Inr truth, st1)" "read_health cfg s p truth st1 = (Inr health, st2)"
    and gate: "acted < sn_expires_at s" "acted < p_expires_at p"
    "decide_approval cfg s p truth health subject acted = Inr decision" "allowed decision"
    "approval_plan_of env s p decision acted = Inr plan"
    and writes: "approve_transaction cfg env s plan subject reason acted st2 = (Inr (x, st'))"
    by (rule act_approved_cases [OF assms])
  note pl = approval_plan_Inr [OF gate(5)]
  have p: "ap_proposal plan = p" by (rule plan_ids(3) [OF gate(5)])
  obtain locked document r where w: "load_pending (p_merchant_id p) (sn_approval_id s) (te_now env) st2 = Inr locked"
    "same_binding locked s" "find (acts_in_time (p_merchant_id p) (sn_approval_id s) acted) (as_approvals st2) = Some r"
    "\<forall>z\<in>set (as_instruments st2). \<not> collectable_for (p_merchant_id p) (sn_order_id s) (sn_currency s) z"
    "jsonb_document (ap_payload plan) = Inr document" "as_jobs st' = as_jobs st2 @ [effect_job plan document acted]"
    by (rule approve_transaction_Inr [OF writes]) (simp add: p)
  have authorized: "effect_authorized cfg s truth health acted (ap_command plan)"
    by (rule decision_authorizes [OF gate(3,4,5,1,2)])
  have stored: "\<exists>kvs. document = JObj kvs
      \<and> decode_create_command (PayObject kvs) CREATE_COMMAND_TYPE CREATE_COMMAND_SCHEMA_VERSION = Inr (ap_command plan)"
    if c: "create_storable (ap_command plan)"
    by (rule stored_document_restored [OF c]) (use pl(3) w(5) in auto)
  have job: "w_command_type (effect_job plan document acted) = CREATE_COMMAND_TYPE"
    "w_command_payload (effect_job plan document acted) = document"
    by (simp_all add: effect_job_def new_job_def)
  have pending: "\<exists>r\<in>set (as_approvals st2). is_approval (p_merchant_id p) (sn_approval_id s) r
      \<and> ar_verdict r = V_PENDING \<and> acted \<le> ar_expires_at r"
    using find_acts_in_time [OF w(3)] by blast
  have locked: "\<exists>now locked. load_pending (p_merchant_id p) (sn_approval_id s) now st2 = Inr locked \<and> same_binding locked s"
    using w(1,2) by blast
  show ?thesis
    by (rule exI [of _ s], rule exI [of _ truth], rule exI [of _ st1], rule exI [of _ health], rule exI [of _ st2],
        rule exI [of _ acted], rule exI [of _ "ap_command plan"], rule exI [of _ "ap_payload plan"], rule exI [of _ document],
        rule exI [of _ "effect_job plan document acted"])
      (unfold pl(1), intro conjI run authorized pending locked w(4-6) pl(3) job impI, erule stored)
qed

theorem approved_effect_authorized_witness:
  "\<exists>s truth health acted command. sn_truth s = UNPAID \<and> effect_authorized sample_service s truth health acted command"
proof -
  obtain x st' where run: "act_on_approval sample_service sample_time (sample_env sample_time) (sample_id (CHR ''1''))
      (sample_id (CHR ''2'')) ''operator-1'' ''APPROVED'' ''reviewed'' pending_store = (Inr x, st')" "xo_verdict x = V_APPROVED"
    by (rule sample_acted)
  obtain s truth health acted command where e: "load_pending (sample_id (CHR ''1'')) (sample_id (CHR ''2'')) sample_time pending_store = Inr s"
    "effect_authorized sample_service s truth health acted command"
    using approved_effect_authorized [OF run] by blast
  from e(1) sample_load have "sn_truth s = UNPAID" by (auto simp: loaded_snapshot_def snapshot_for_def)
  with e(2) show ?thesis by blast
qed

text \<open>C9. Whatever the materialization handler is given and whatever fails, approvals stay in order when the
  readers' interference does: every approval moves only forward through the protocol, a settled verdict never
  changes, and exactly the approved ones have an action with its effect job.\<close>

theorem handler_follows_protocol:
  assumes "readers_follow cfg" "approvals_ok st" "materialize_handler cfg t env claimed st = (r, st')"
  shows "approvals_ok st' \<and> phase_step\<^sup>*\<^sup>* (phase m a st) (phase m a st')
    \<and> (\<forall>v. phase m a st = Ph_Settled v \<longrightarrow> phase m a st' = Ph_Settled v)"
proof -
  note f = followsD [OF handler_follows [OF assms(1)] assms(2,3)]
  have "phase_step\<^sup>*\<^sup>* (Ph_Settled v) p \<Longrightarrow> p = Ph_Settled v" for v p
    by (induction rule: rtranclp_induct) (auto elim: phase_step_Settled)
  with f show ?thesis by metis
qed

theorem handler_follows_protocol_witness:
  "\<forall>claimed. approvals_ok (snd (materialize_handler sample_service sample_time (sample_env sample_time) claimed pending_store))"
  using handler_follows_protocol [OF sample_readers_follow pending_store_ok surjective_pairing] by blast

text \<open>C12. The codec of effect commands takes a run of ten to nineteen digits for an account number, and
  the description of every approved link quotes the order's identifier. An order whose identifier has such a run can
  therefore never be approved: whatever the readers answer, the service ends without an approval.\<close>

theorem digit_run_order_never_approved:
  assumes "load_pending m a t st = Inr s" "pii_number 0 (sn_order_id s)"
    and "act_on_approval cfg t env m a subject verdict reason st = (r, st')"
  shows "\<forall>x. r = Inr x \<longrightarrow> xo_verdict x \<noteq> V_APPROVED"
proof (intro allI impI notI)
  fix x assume x: "r = Inr x" "xo_verdict x = V_APPROVED"
  have run: "act_on_approval cfg t env m a subject verdict reason st = (Inr x, st')" using assms(3) x(1) by simp
  obtain s' p acted decision plan where "load_pending m a t st = Inr s'"
    "approval_plan_of env s' p decision acted = Inr plan"
    by (rule act_approved_cases [OF run x(2)])
  with assms(1) have plan: "approval_plan_of env s p decision acted = Inr plan" by simp
  have "\<not> pii_number 0 (DESCRIPTION_PREFIX @ sn_order_id s)" by (rule planned_description [OF plan])
  with assms(2) show False by (simp add: pii_number_prefix)
qed

definition digit_order :: pystr where
  "digit_order = ''01J0123456789ABCDEFGHJKMNP''"

theorem digit_run_order_never_approved_witness:
  "load_pending (sample_id (CHR ''1'')) (sample_id (CHR ''2'')) sample_time (store_for digit_order) = Inr (snapshot_for digit_order)
     \<and> (case fst (act_on_approval sample_service sample_time (sample_env sample_time) (sample_id (CHR ''1'')) (sample_id (CHR ''2''))
            ''operator-1'' ''APPROVED'' ''reviewed'' (store_for digit_order)) of
          Inl _ \<Rightarrow> True | Inr x \<Rightarrow> xo_verdict x \<noteq> V_APPROVED)"
proof -
  have d: "is_ulid digit_order" "pii_number 0 digit_order" unfolding digit_order_def by code_simp+
  have "pii_number 0 (sn_order_id (snapshot_for digit_order))" using d(2) by (simp add: snapshot_for_def)
  then show ?thesis
    using sample_load_for [OF d(1)] digit_run_order_never_approved [OF sample_load_for [OF d(1)] _ surjective_pairing]
    by (simp split: sum.split)
qed

end
