(* ===== verification/Spec2Isabelle.thy ===== *)
theory Spec2Isabelle
  imports Case_Properties Ledger_Spec Outbox_Properties Reference_Spec Ingress Cancellation_Properties Delivery_Properties Controls_Spec Incident_Spec Cancel_Codec_Properties Approval_Properties
begin

text \<open>
  RetryWise recovers failed payments: a signed provider webhook opens or advances a recovery case, a
  deterministic gate decides what may be done about it, and an effect (creating or cancelling one Payment
  Link) is carried out by a leased delivery job whose every retry is idempotent. This library models that
  control plane from its Python sources and proves the properties its safety rests on.

  \<^bold>\<open>Modelling.\<close> A Python function that may raise is a function to \<open>exn + 'a\<close> (\<open>Errors\<close>: one constructor per
  exception class, with its message; \<open>bindE\<close> and \<open>raise_if\<close> of \<open>Prelude\<close> are sequencing and guards in the order
  of the source). A dataclass is a record, its \<^verbatim>\<open>__post_init__\<close> a function \<open>mk_\<close> of the same name. A \<^verbatim>\<open>str\<close> is a
  list of characters of the alphabet U+0000 to U+00FF (\<open>PyText\<close>); instants are whole microseconds since
  0001-01-01 (\<open>PyTime\<close>, with the civil calendar, \<^verbatim>\<open>strftime\<close> and \<^verbatim>\<open>strptime\<close>); Python integers are \<open>int\<close>; a
  \<^verbatim>\<open>dict\<close> whose order shows is an association list. \<open>Json\<close> is \<^verbatim>\<open>json.dumps\<close> and \<^verbatim>\<open>json.loads\<close> with its hooks,
  \<open>Digests\<close> is SHA-256, HMAC and base 32 on words, \<open>Decimals\<close> and \<open>Values\<close> the decimal arithmetic the sources
  use. Injected collaborators (clocks, readers, providers, recorders, repositories) are arguments of the model
  (\<open>Ports\<close>): functions on a world of any type, whose calls are written to a trace.

  \<^bold>\<open>Parts, in the order of a payment's way through the system.\<close>

  \<^item> Webhooks. \<open>Webhooks\<close> (\<^verbatim>\<open>packages/razorpay/webhooks.py\<close>), \<open>Inbox\<close> (\<^verbatim>\<open>inbox.py\<close>) and \<open>Ingress\<close>
    (\<^verbatim>\<open>services/control_plane/webhook_ingress.py\<close>): signature check under rotated secrets, strict decoding,
    normalisation to allow-listed scalars, storing exactly once. \<open>Webhook_Spec\<close> and \<open>Ingress\<close> prove that what is
    accepted is authentic and what is authentic is accepted.
  \<^item> The case. \<open>States\<close>, \<open>Values\<close>, \<open>Actions\<close>, \<open>Gate\<close>, \<open>Aggregate\<close>, \<open>Versioned\<close>, \<open>Ledger\<close>
    (\<^verbatim>\<open>packages/domain\<close>): state graphs, money and probabilities, proposals and approvals, the two-stage gate,
    the recovery aggregate with its nineteen commands, the hash-chained decision ledger. \<open>Gate_Spec\<close> has the
    declarative contract of the gate and the refinement; \<open>Aggregate_Spec\<close> the invariant of a case, kept by every
    command; \<open>Case_Properties\<close> what holds of every reachable case (by rule induction over runs of commands);
    \<open>Ledger_Spec\<close> that the head hash commits to every entry.
  \<^item> Approvals. \<open>Approval_Request\<close> (\<^verbatim>\<open>approval_request.py\<close>) is the operator's request, which rejects, expires or
    queues a command (\<open>Approval_Command\<close>, \<^verbatim>\<open>approval_command.py\<close>); \<open>Approval_Worker\<close> (\<^verbatim>\<open>approval_worker.py\<close>) the
    handler that delivers it to \<open>Approval_Service\<close> (\<^verbatim>\<open>approval_service.py\<close>), which reads the provider and the detector
    afresh (\<open>Assessment_Reads\<close>, the queries and answers of \<^verbatim>\<open>assessment_intent.py\<close>), asks the gate and writes the
    action, its instrument and its effect job, or cancels. They share \<open>Approval_Store\<close>, the rows of the tables as
    lists; a statement is a function on it, a transaction (\<open>commit\<close>) leaves it unchanged when anything raises, any
    statement may fail (\<open>te_fault\<close>), and what other transactions do in between is what the two readers do to the
    store. \<open>Approval_Spec\<close> is the abstract protocol (pending, queued, settled) with the invariant of the store as a
    locale; \<open>Approval_Protocol\<close>, \<open>Approval_Effects\<close>, \<open>Approval_Service_Spec\<close> show that every transaction follows it;
    \<open>Approval_Authority\<close> what an effect rests on; \<open>Approval_Sample\<close> and \<open>Approval_Run\<close> are a concrete approval;
    \<open>Approval_Properties\<close> holds the properties.
  \<^item> Commands in storage. \<open>Command_Codec\<close>, \<open>Create_Codec\<close> (\<^verbatim>\<open>effect_command_codec.py\<close>) and \<open>Cancel_Codec\<close>
    (\<^verbatim>\<open>cancellation_command_codec.py\<close>): bounded strict reading, the decoders of proposals, plans, requests and
    targets, their bindings, the sealed envelope. \<open>Codec_Text\<close>, \<open>Codec_Parts\<close>, \<open>Codec_Bounds\<close> hold the shared
    lemmas (what the walk admits, sizes of texts, reading back), the other codec theories the contract
    \<open>sealed_codec\<close>, its two interpretations and the properties.
  \<^item> Delivery. \<open>Outbox\<close> (\<^verbatim>\<open>outbox.py\<close>) is the job with its leases and retry schedule, \<open>Delivery_Table\<close>
    (\<^verbatim>\<open>postgres_outbox.py\<close>) the claim and settlement statements as functions on the table, \<open>Delivery_Worker\<close>
    (\<^verbatim>\<open>outbox_worker.py\<close>) the poller. \<open>Delivery_Refinement\<close> shows that the statements do to a row what the job's
    transitions do to the job it stands for, and for which requests the two part (their bounds on texts differ);
    \<open>Delivery_Spec\<close>, \<open>Worker_Spec\<close> and \<open>Worker_Loop\<close> prove fencing, the settlement of a batch in order (complete
    unless a handler answers what the queue cannot store) and the end of the loop.
  \<^item> Effects. \<open>Payment_Links\<close>, \<open>References\<close> (\<^verbatim>\<open>packages/razorpay\<close>), \<open>Executor\<close> (\<^verbatim>\<open>executor.py\<close>) and
    \<open>Cancellation\<close> (\<^verbatim>\<open>cancellation.py\<close>): requests, the decision after an ambiguous create, the create saga and
    the protective cancellation against their ports. The theories \<open>_Spec\<close> and \<open>_Properties\<close> beside them show that a
    provider call is made only under lease, intent, fresh gate and effect decision, that every execution
    settles its job with a disposition the provider's answers justify, and that a confirmed effect is reported, with
    or without a recorder. \<open>Payment_Link_Spec\<close> ties the decision after an ambiguous create to the body that was sent.
  \<^item> Operators and health. \<open>Audited_Controls\<close>, \<open>Operator_Controls\<close> (\<^verbatim>\<open>merchant_controls.py\<close>,
    \<^verbatim>\<open>diagnosis_controls.py\<close>) are the kill switch and the diagnosis mode as transactions on their event tables;
    \<open>Incidents\<close> (\<^verbatim>\<open>incidents.py\<close>) is the payment-method health detector.

  \<^bold>\<open>Interfaces.\<close> Contracts between components are locales, each interpreted on the model of the component that
  provides it: the versioned aggregate (\<open>Versioned\<close>), the webhook inbox, the outbox repository of the poller
  (\<open>Worker_Spec\<close>), the audited control (\<open>Audited_Controls\<close>, twice), the sealed codec (twice), the approval
  protocol (requests, settlements and rejections of the service).

  \<^bold>\<open>Fuel and bounds.\<close> The JSON scanner runs on twice the length of its text plus one, which is enough (lemma
  \<open>scan_value_fuel\<close>). The polling loop takes as fuel the number of polls after which the stop request is seen
  (\<open>polling_ends\<close>). Stored commands are bounded by 16 KiB and depth twelve as in the source, and the codec lemmas
  show that storable commands stay below.

  \<^bold>\<open>Not modelled.\<close> Database connections, driver calls and row locking beyond the statements named above;
  HTTP, settings, secrets and files; the recursion limit and the integer-literal limit of the interpreter;
  characters beyond U+00FF; the columns a trigger or \<^verbatim>\<open>updated_at\<close> maintains; the workers that wire
  saga and repositories together; the assessment transaction and event projection, whose logic is inside SQL
  transactions over tables not modelled here; the classifier, its training and the simulator, which compute
  with floating point.
\<close>

end
